(* ===== verification/Prelude.thy ===== *)
theory Prelude
  imports Main "HOL-Library.Word" "HOL-Library.Signed_Division"
begin

unbundle bit_operations_syntax

text \<open>
  Shared vocabulary of the development: the machine integers of the firmware (a 32-bit
  little-endian MIPS core), the two's-complement wrap-around of a C \<open>int\<close> or \<open>long\<close>, the
  option type read as "the access is inside the object" and the list lemmas (windows, rotations,
  updates) that the ring buffers and the byte codecs share.

  Throughout the development a function whose result is an \<open>option\<close> returns \<open>None\<close> exactly
  where the C code would read or write outside the object it was given (or divide by zero), so
  that \<open>\<exists>r. f x = Some r\<close> is a memory-safety statement. Failures that the C code reports itself
  are values of its result type.
\<close>

section \<open>Machine integers\<close>

type_synonym u8 = "8 word"
type_synonym u16 = "16 word"
type_synonym u32 = "32 word"
type_synonym u64 = "64 word"
type_synonym byte = u8

text \<open>The value a C \<open>int\<close> or \<open>long\<close> (both 32 bits here) keeps of a mathematical integer.\<close>

definition wrap32 :: "int \<Rightarrow> int" where
  "wrap32 x = (x + 2 ^ 31) mod 2 ^ 32 - 2 ^ 31"

definition INT_MAX :: int where
  "INT_MAX = 2 ^ 31 - 1"

definition INT_MIN :: int where
  "INT_MIN = - (2 ^ 31)"

text \<open>The status codes of \<open>platform.h\<close>.\<close>

definition PLATFORM_ERR :: int where "PLATFORM_ERR = 0"
definition PLATFORM_OK :: int where "PLATFORM_OK = 1"
definition PLATFORM_UNDERFLOW :: int where "PLATFORM_UNDERFLOW = - 1"

named_theorems layout_simps \<comment> \<open>constants of the headers, unfolded by name\<close>

declare INT_MAX_def [layout_simps] INT_MIN_def [layout_simps]

lemma wrap32_id [simp]: "INT_MIN \<le> x \<Longrightarrow> x \<le> INT_MAX \<Longrightarrow> wrap32 x = x"
  by (simp add: wrap32_def layout_simps)

lemma wrap32_ge: "INT_MIN \<le> wrap32 x"
  by (simp add: wrap32_def layout_simps)

lemma wrap32_le: "wrap32 x \<le> INT_MAX"
proof -
  have "(x + 2 ^ 31) mod 2 ^ 32 < (2 ^ 32 :: int)"
    by (rule pos_mod_bound) simp
  then show ?thesis
    by (simp add: wrap32_def layout_simps)
qed

lemma wrap32_cong: "wrap32 x mod 2 ^ 32 = x mod 2 ^ 32"
  by (simp add: wrap32_def mod_diff_left_eq)

section \<open>Windows of a list\<close>

text \<open>The last \<open>n\<close> elements: what a buffer of \<open>n\<close> cells keeps of a longer history.\<close>

definition last_n :: "nat \<Rightarrow> 'a list \<Rightarrow> 'a list" where
  "last_n n xs = drop (length xs - n) xs"

lemma last_n_short [simp]: "length xs \<le> n \<Longrightarrow> last_n n xs = xs"
  by (simp add: last_n_def)

lemma length_last_n [simp]: "length (last_n n xs) = min n (length xs)"
  by (simp add: last_n_def)

lemma last_n_Nil [simp]: "last_n n [] = []"
  by (simp add: last_n_def)

lemma last_n_append_left: "length ys \<ge> n \<Longrightarrow> last_n n (xs @ ys) = last_n n ys"
  by (simp add: last_n_def)

lemma last_n_last_n_append: "last_n n (last_n n xs @ ys) = last_n n (xs @ ys)"
  by (cases "length xs \<le> n") (auto simp: last_n_def add.commute)

lemma last_n_full_snoc:
  assumes "length xs = n" and "0 < n"
  shows "last_n n (xs @ [x]) = tl xs @ [x]"
  using assms by (cases xs) (auto simp: last_n_def)

lemma set_last_n: "set (last_n n xs) \<subseteq> set xs"
  by (simp add: last_n_def set_drop_subset)

section \<open>Rotations of a ring\<close>

lemma rotate_update:
  assumes "c < length xs"
  shows "rotate t (xs[(t + c) mod length xs := d]) = (rotate t xs)[c := d]"
proof (rule nth_equalityI)
  let ?n = "length xs"
  show "length (rotate t (xs[(t + c) mod ?n := d])) = length ((rotate t xs)[c := d])"
    by simp
  fix i
  assume "i < length (rotate t (xs[(t + c) mod ?n := d]))"
  then have i: "i < ?n" by simp
  have inj: "(t + c) mod ?n = (t + i) mod ?n \<longleftrightarrow> c = i"
  proof
    assume "(t + c) mod ?n = (t + i) mod ?n"
    then have "c mod ?n = i mod ?n"
      by (simp add: nat_mod_eq_iff)
    then show "c = i" using i assms by simp
  qed simp
  from i have "?n > 0" by linarith
  then show "rotate t (xs[(t + c) mod ?n := d]) ! i = (rotate t xs)[c := d] ! i"
    using i assms inj by (simp add: nth_rotate nth_list_update add.commute)
qed

lemma rotate_head:
  assumes "t < length xs"
  shows "rotate t xs = xs ! t # tl (rotate t xs)"
proof -
  from assms have "rotate t xs \<noteq> []" by auto
  moreover have "hd (rotate t xs) = xs ! t"
    using assms by (simp add: hd_rotate_conv_nth mod_less flip: length_greater_0_conv)
  ultimately show ?thesis by (metis list.collapse)
qed

lemma rotate_Suc_tl:
  assumes "t < length xs"
  shows "rotate (Suc t) xs = tl (rotate t xs) @ [xs ! t]"
proof -
  have "rotate (Suc t) xs = rotate1 (rotate t xs)" by simp
  also have "\<dots> = tl (rotate t xs) @ [xs ! t]"
    by (subst rotate_head [OF assms]) simp
  finally show ?thesis .
qed

lemma rotate_Suc_mod: "rotate (Suc t mod length xs) xs = rotate (Suc t) xs"
  by (metis rotate_conv_mod)

lemma take_Suc_update: "c < length xs \<Longrightarrow> take (Suc c) (xs[c := d]) = take c xs @ [d]"
  by (simp add: take_Suc_conv_app_nth)

section \<open>Single bits\<close>

lemma and_push_bit_1: "x AND push_bit n 1 \<noteq> 0 \<longleftrightarrow> bit (x :: 'a :: len word) n"
proof
  assume "x AND push_bit n 1 \<noteq> 0"
  then obtain m where "bit (x AND push_bit n 1) m" by (metis bit_0_eq bit_eq_iff bot_apply bot_bool_def)
  then show "bit x n" by (auto simp: bit_and_iff bit_push_bit_iff bit_1_iff simp del: push_bit_of_1)
next
  assume "bit x n"
  then have "bit (x AND push_bit n 1) n"
    by (auto simp: bit_and_iff bit_push_bit_iff bit_1_iff dest: bit_imp_le_length simp del: push_bit_of_1)
  then show "x AND push_bit n 1 \<noteq> 0" by (metis bit_0_eq bot_apply bot_bool_def)
qed

text \<open>Flags packed eight to a byte, as several drivers keep them.\<close>

definition pk_get :: "u8 list \<Rightarrow> nat \<Rightarrow> bool" where
  "pk_get a i = (a ! drop_bit 3 i AND push_bit (i AND 7) 1 \<noteq> 0)"

definition pk_set :: "u8 list \<Rightarrow> nat \<Rightarrow> bool \<Rightarrow> u8 list" where
  "pk_set a i b = a[drop_bit 3 i := (if b then a ! drop_bit 3 i OR push_bit (i AND 7) 1
     else a ! drop_bit 3 i AND NOT (push_bit (i AND 7) 1))]"

lemma nat_and_7: "(i :: nat) AND 7 = i mod 8"
proof -
  have "i AND 7 = take_bit 3 i" by (simp add: take_bit_eq_mask mask_eq_exp_minus_1)
  then show ?thesis by (simp add: take_bit_eq_mod)
qed

lemma nat_drop_3: "drop_bit 3 (i :: nat) = i div 8"
  by (simp add: drop_bit_eq_div)

lemma length_pk_set [simp]: "length (pk_set a i b) = length a"
  by (simp add: pk_set_def)

lemma pk_get_bit: "pk_get a i = bit (a ! (i div 8)) (i mod 8)"
  by (simp add: pk_get_def nat_and_7 nat_drop_3 and_push_bit_1 del: push_bit_of_1)

lemma pk_get_set [simp]:
  assumes "i div 8 < length a"
  shows "pk_get (pk_set a i b) j = (if i = j then b else pk_get a j)"
proof -
  have "i = j \<longleftrightarrow> i div 8 = j div 8 \<and> i mod 8 = j mod 8" by (metis div_mult_mod_eq)
  moreover have "bit (push_bit (i mod 8) 1 :: u8) (j mod 8) \<longleftrightarrow> i mod 8 = j mod 8"
    by (auto simp: bit_push_bit_iff bit_1_iff simp del: push_bit_of_1)
  ultimately show ?thesis
    using assms
    by (auto simp: pk_get_bit pk_set_def nat_and_7 nat_drop_3 nth_list_update bit_or_iff bit_and_iff
        bit_not_iff simp del: push_bit_of_1)
qed

text \<open>Equality of bytes, bit by bit.\<close>

lemma byte_eqI:
  fixes a b :: u8
  assumes "bit a 0 = bit b 0" "bit a 1 = bit b 1" "bit a 2 = bit b 2" "bit a 3 = bit b 3"
    "bit a 4 = bit b 4" "bit a 5 = bit b 5" "bit a 6 = bit b 6" "bit a 7 = bit b 7"
  shows "a = b"
proof (rule bit_word_eqI)
  fix n
  assume "n < LENGTH(8)"
  then have "n < 8" by simp
  then consider "n = 0" | "n = 1" | "n = 2" | "n = 3" | "n = 4" | "n = 5" | "n = 6" | "n = 7"
    by linarith
  then show "bit a n = bit b n" using assms by cases auto
qed

lemma unat_ucast_u16 [simp]: "unat (ucast (u :: u16) :: u32) = unat u"
proof -
  have "unat u < 2 ^ 32" using unsigned_less [of u, where 'a = nat] by simp
  then show ?thesis by (simp add: unsigned_ucast_eq take_bit_nat_eq_self)
qed

lemma bit_imp_ge: "bit (w :: 'a :: len word) n \<Longrightarrow> 2 ^ n \<le> unat w"
proof (rule ccontr)
  assume b: "bit w n" and "\<not> 2 ^ n \<le> unat w"
  then have "unat w div 2 ^ n = 0" by simp
  moreover have "odd (unat w div 2 ^ n)" using b by (simp add: bit_unsigned_iff flip: bit_iff_odd)
  ultimately show False by simp
qed

end
