(* ===== verification/Fifo.thy ===== *)
theory Fifo
  imports Prelude
begin

text \<open>
  The interface of the receive queues: a byte store of fixed capacity that keeps the newest
  \<open>cap q\<close> items of its history and hands them out in order. The code's ring buffer
  (\<open>CycleQueue\<close>) provides it; the UART driver is its client. The laws are stated
  through an abstraction \<open>cont\<close> into lists; a failed memory access would be \<open>None\<close>.
\<close>

datatype 'a qop = Put "'a list" | Get nat

text \<open>A run of a queue over a sequence of operations, and the items it delivered.\<close>

fun run_qops :: "('q \<Rightarrow> 'a list \<Rightarrow> ('q \<times> int) option) \<Rightarrow> ('q \<Rightarrow> nat \<Rightarrow> ('q \<times> 'a list \<times> int) option)
    \<Rightarrow> 'q \<Rightarrow> 'a qop list \<Rightarrow> ('q \<times> 'a list) option" where
  "run_qops ins del q [] = Some (q, [])"
| "run_qops ins del q (Put xs # ops) =
     (case ins q xs of None \<Rightarrow> None | Some (q', _) \<Rightarrow> run_qops ins del q' ops)"
| "run_qops ins del q (Get n # ops) =
     (case del q n of None \<Rightarrow> None
      | Some (q', ys, _) \<Rightarrow>
          (case run_qops ins del q' ops of None \<Rightarrow> None | Some (q'', zs) \<Rightarrow> Some (q'', ys @ zs)))"

text \<open>The same run on plain lists of at most \<open>n\<close> elements: the specification.\<close>

fun spec_qops :: "nat \<Rightarrow> 'a list \<Rightarrow> 'a qop list \<Rightarrow> 'a list \<times> 'a list" where
  "spec_qops n c [] = (c, [])"
| "spec_qops n c (Put xs # ops) = spec_qops n (last_n n (c @ xs)) ops"
| "spec_qops n c (Get k # ops) =
     (case spec_qops n (drop k c) ops of (c', zs) \<Rightarrow> (c', take k c @ zs))"

text \<open>The items offered to a queue, in order.\<close>

fun offered :: "'a qop list \<Rightarrow> 'a list" where
  "offered [] = []"
| "offered (Put xs # ops) = xs @ offered ops"
| "offered (Get k # ops) = offered ops"

text \<open>The largest backlog a run reaches if nothing is dropped.\<close>

fun fits :: "nat \<Rightarrow> nat \<Rightarrow> 'a qop list \<Rightarrow> bool" where
  "fits n c [] = (c \<le> n)"
| "fits n c (Put xs # ops) = (c + length xs \<le> n \<and> fits n (c + length xs) ops)"
| "fits n c (Get k # ops) = fits n (c - k) ops"

text \<open>Without an overflow the queue is a lossless stream: delivered then left is what was offered.\<close>

lemma spec_qops_lossless:
  "fits n (length c) ops \<Longrightarrow> spec_qops n c ops = (c', out) \<Longrightarrow> out @ c' = c @ offered ops"
proof (induction ops arbitrary: c c' out)
  case Nil
  then show ?case by simp
next
  case (Cons op ops)
  show ?case
  proof (cases op)
    case (Put xs)
    with Cons.prems have "fits n (length (c @ xs)) ops" "spec_qops n (c @ xs) ops = (c', out)"
      by auto
    then have "out @ c' = (c @ xs) @ offered ops" by (rule Cons.IH)
    with Put show ?thesis by simp
  next
    case (Get k)
    with Cons.prems obtain zs where z: "spec_qops n (drop k c) ops = (c', zs)" "out = take k c @ zs"
      by (auto split: prod.splits)
    moreover from Get Cons.prems have "fits n (length (drop k c)) ops" by simp
    ultimately have "zs @ c' = drop k c @ offered ops" by (blast intro: Cons.IH)
    with Get z show ?thesis by simp
  qed
qed

lemma spec_qops_bound: "length c \<le> n \<Longrightarrow> length (fst (spec_qops n c ops)) \<le> n"
  by (induction n c ops rule: spec_qops.induct) (auto split: prod.splits)

locale lossy_fifo =
  fixes ins :: "'q \<Rightarrow> 'a list \<Rightarrow> ('q \<times> int) option"
    and del :: "'q \<Rightarrow> nat \<Rightarrow> ('q \<times> 'a list \<times> int) option"
    and inv :: "'q \<Rightarrow> bool"
    and cont :: "'q \<Rightarrow> 'a list"
    and cap :: "'q \<Rightarrow> nat"
  assumes ins_law: "inv q \<Longrightarrow> \<exists>q'. ins q xs = Some (q', wrap32 (int (length xs))) \<and> inv q'
      \<and> cap q' = cap q \<and> cont q' = last_n (cap q) (cont q @ xs)"
    and del_law: "inv q \<Longrightarrow> \<exists>q'. del q k = Some (q', take k (cont q),
          wrap32 (int (length (take k (cont q))))) \<and> inv q'
      \<and> cap q' = cap q \<and> cont q' = drop k (cont q)"
    and cont_cap: "inv q \<Longrightarrow> length (cont q) \<le> cap q"
begin

text \<open>Every run refines the run on lists, without a memory fault.\<close>

lemma run_refines:
  "inv q \<Longrightarrow> \<exists>q' out. run_qops ins del q ops = Some (q', out) \<and> inv q' \<and> cap q' = cap q
     \<and> spec_qops (cap q) (cont q) ops = (cont q', out)"
proof (induction ops arbitrary: q)
  case Nil
  then show ?case by simp
next
  case (Cons op ops)
  show ?case
  proof (cases op)
    case (Put xs)
    obtain q' where q': "ins q xs = Some (q', wrap32 (int (length xs)))" "inv q'" "cap q' = cap q"
        "cont q' = last_n (cap q) (cont q @ xs)"
      using ins_law [OF Cons.prems] by blast
    from Cons.IH [OF q'(2)] q' Put show ?thesis by auto
  next
    case (Get k)
    obtain q' where q': "del q k = Some (q', take k (cont q), wrap32 (int (length (take k (cont q)))))"
        "inv q'" "cap q' = cap q" "cont q' = drop k (cont q)"
      using del_law [OF Cons.prems] by blast
    from Cons.IH [OF q'(2)] q' Get show ?thesis by auto
  qed
qed

lemma run_lossless:
  assumes "inv q" and "fits (cap q) (length (cont q)) ops"
  shows "\<exists>q' out. run_qops ins del q ops = Some (q', out) \<and> out @ cont q' = cont q @ offered ops"
proof -
  from run_refines [OF assms(1)] obtain q' out
    where "run_qops ins del q ops = Some (q', out)" "spec_qops (cap q) (cont q) ops = (cont q', out)"
    by blast
  with spec_qops_lossless [OF assms(2)] show ?thesis by blast
qed

end

end
