(* ===== verification/CycleQueue.thy ===== *)
theory CycleQueue
  imports Fifo
begin

text \<open>
  The ring buffer of the UART driver, \<open>platform/coolsand/src/cycle_queue.c\<close> (the simulator
  carries the same file). The state is the C struct; \<open>cq_buf\<close> is the memory \<open>buf\<close> points to.
  \<open>QueueInsert\<close> overwrites the oldest bytes when the ring is full; \<open>QueueDelete\<close> takes bytes
  from the tail. The theory shows that both stay inside the buffer, keep the invariant
  \<open>cq_inv\<close> and implement the lossy FIFO of theory \<open>Fifo\<close>.
\<close>

section \<open>State and operations\<close>

record cycle_queue =
  cq_buf :: "byte list"
  cq_size :: u32
  cq_head :: u32
  cq_tail :: u32
  cq_empty :: bool
  cq_full :: bool
  cq_overflow :: bool

definition QueueClean :: "cycle_queue \<Rightarrow> cycle_queue" where
  "QueueClean q = q\<lparr>cq_head := 0, cq_tail := 0, cq_empty := True, cq_full := False,
     cq_overflow := False\<rparr>"

text \<open>One turn of the loop of \<open>QueueInsert\<close>; the store is inside \<open>buf\<close> or the turn fails.\<close>

definition queue_insert_turn :: "cycle_queue \<Rightarrow> byte \<Rightarrow> cycle_queue option" where
  "queue_insert_turn q d =
     (if unat (cq_head q) < length (cq_buf q) \<and> cq_size q \<noteq> 0 then
        let q1 = q\<lparr>cq_buf := (cq_buf q)[unat (cq_head q) := d]\<rparr>;
            q2 = (if cq_full q1 \<and> cq_head q1 = cq_tail q1 then q1\<lparr>cq_overflow := True\<rparr> else q1);
            q3 = q2\<lparr>cq_head := (cq_head q2 + 1) mod cq_size q2\<rparr>;
            q4 = (if cq_head q3 = cq_tail q3 then q3\<lparr>cq_full := True\<rparr> else q3);
            q5 = (if cq_empty q4 then q4\<lparr>cq_empty := False\<rparr> else q4)
        in Some q5
      else None)"

fun queue_insert_loop :: "cycle_queue \<Rightarrow> byte list \<Rightarrow> cycle_queue option" where
  "queue_insert_loop q [] = Some q"
| "queue_insert_loop q (d # ds) =
     (case queue_insert_turn q d of None \<Rightarrow> None | Some q' \<Rightarrow> queue_insert_loop q' ds)"

text \<open>\<open>data\<close> and \<open>len\<close> together are the list of the \<open>len\<close> bytes at \<open>data\<close>.\<close>

definition QueueInsert :: "cycle_queue \<Rightarrow> byte list \<Rightarrow> (cycle_queue \<times> int) option" where
  "QueueInsert q data =
     (case queue_insert_loop q data of None \<Rightarrow> None
      | Some q1 \<Rightarrow>
          Some (if cq_overflow q1 then q1\<lparr>cq_tail := cq_head q1\<rparr> else q1,
                wrap32 (int (length data))))"

text \<open>The \<open>while(ret < len)\<close> loop of \<open>QueueDelete\<close>, with the number of bytes still wanted.\<close>

fun queue_delete_loop :: "cycle_queue \<Rightarrow> nat \<Rightarrow> (cycle_queue \<times> byte list) option" where
  "queue_delete_loop q 0 = Some (q, [])"
| "queue_delete_loop q (Suc n) =
     (if unat (cq_tail q) < length (cq_buf q) \<and> cq_size q \<noteq> 0 then
        let d = cq_buf q ! unat (cq_tail q);
            q1 = q\<lparr>cq_tail := (cq_tail q + 1) mod cq_size q\<rparr>
        in if cq_tail q1 = cq_head q1 then Some (q1\<lparr>cq_empty := True\<rparr>, [d])
           else (case queue_delete_loop q1 n of None \<Rightarrow> None
                 | Some (q2, ds) \<Rightarrow> Some (q2, d # ds))
      else None)"

definition QueueDelete :: "cycle_queue \<Rightarrow> nat \<Rightarrow> (cycle_queue \<times> byte list \<times> int) option" where
  "QueueDelete q len =
     (case (if \<not> cq_empty q then queue_delete_loop q len else Some (q, [])) of
        None \<Rightarrow> None
      | Some (q1, out) \<Rightarrow>
          Some (if 0 < length out \<and> cq_full q1
                then q1\<lparr>cq_full := False, cq_overflow := False\<rparr> else q1,
                out, wrap32 (int (length out))))"

section \<open>Invariant and contents\<close>

definition cq_cap :: "cycle_queue \<Rightarrow> nat" where
  "cq_cap q = unat (cq_size q)"

definition cq_ring :: "cycle_queue \<Rightarrow> bool" where
  "cq_ring q \<longleftrightarrow> length (cq_buf q) = cq_cap q \<and> 0 < cq_cap q
     \<and> unat (cq_head q) < cq_cap q \<and> unat (cq_tail q) < cq_cap q"

definition cq_inv :: "cycle_queue \<Rightarrow> bool" where
  "cq_inv q \<longleftrightarrow> cq_ring q
     \<and> (cq_empty q \<longrightarrow> cq_head q = cq_tail q \<and> \<not> cq_full q)
     \<and> (cq_full q \<longrightarrow> cq_head q = cq_tail q)
     \<and> (cq_head q = cq_tail q \<longrightarrow> cq_empty q \<or> cq_full q)
     \<and> (cq_overflow q \<longrightarrow> cq_full q)"

text \<open>The number of bytes in the ring, and the bytes from the oldest to the newest.\<close>

definition cq_count :: "cycle_queue \<Rightarrow> nat" where
  "cq_count q = (if cq_empty q then 0 else if cq_head q = cq_tail q then cq_cap q
     else (unat (cq_head q) + cq_cap q - unat (cq_tail q)) mod cq_cap q)"

definition cq_contents :: "cycle_queue \<Rightarrow> byte list" where
  "cq_contents q = take (cq_count q) (rotate (unat (cq_tail q)) (cq_buf q))"

text \<open>
  Inside the insertion loop \<open>tail\<close> is stale once \<open>overflow\<close> is set: the ring then holds
  \<open>size\<close> bytes that start at \<open>head\<close>.
\<close>

definition cq_loop_inv :: "cycle_queue \<Rightarrow> bool" where
  "cq_loop_inv q \<longleftrightarrow> cq_ring q
     \<and> (cq_empty q \<longrightarrow> cq_head q = cq_tail q \<and> \<not> cq_full q)
     \<and> (cq_full q \<and> \<not> cq_overflow q \<longrightarrow> cq_head q = cq_tail q)
     \<and> (cq_head q = cq_tail q \<longrightarrow> cq_empty q \<or> cq_full q)
     \<and> (cq_overflow q \<longrightarrow> cq_full q)"

definition cq_loop_contents :: "cycle_queue \<Rightarrow> byte list" where
  "cq_loop_contents q = (if cq_overflow q then rotate (unat (cq_head q)) (cq_buf q) else cq_contents q)"

section \<open>Arithmetic of the indices\<close>

lemma unat_mod_incr:
  assumes "unat i < unat n"
  shows "unat ((i + 1) mod n :: u32) = Suc (unat i) mod unat n"
proof -
  from assms have "Suc (unat i) \<le> unat n" by simp
  also have "unat n < 2 ^ 32" using unsigned_less [of n, where 'a = nat] by simp
  finally have "unat (i + 1) = Suc (unat i)"
    by (simp add: unat_word_ariths)
  then show ?thesis by (simp add: unat_mod_distrib)
qed

lemma cq_ring_bounds:
  assumes "cq_ring q"
  shows "unat (cq_head q) < length (cq_buf q)" and "unat (cq_tail q) < length (cq_buf q)"
    and "cq_size q \<noteq> 0" and "length (cq_buf q) = cq_cap q" and "0 < cq_cap q"
  using assms by (auto simp: cq_ring_def cq_cap_def)

lemma mod_dist:
  fixes t k n :: nat
  assumes "t < n" and "0 < k" and "k \<le> n"
  shows "(t + k) mod n = t \<longleftrightarrow> k = n"
    and "k < n \<Longrightarrow> ((t + k) mod n + n - t) mod n = k"
proof -
  have m: "(t + k) mod n = (if t + k < n then t + k else t + k - n)"
    using assms by (simp add: mod_if)
  show "(t + k) mod n = t \<longleftrightarrow> k = n"
    unfolding m using assms by auto
  assume "k < n"
  then show "((t + k) mod n + n - t) mod n = k"
    unfolding m using assms by auto
qed

text \<open>The count is the distance from \<open>tail\<close> to \<open>head\<close>.\<close>

lemma cq_count_dist:
  assumes "cq_ring q" and "\<not> cq_empty q" and "0 < k" and "k \<le> cq_cap q"
    and "unat (cq_head q) = (unat (cq_tail q) + k) mod cq_cap q"
  shows "cq_count q = k"
proof -
  have t: "unat (cq_tail q) < cq_cap q" using assms(1) by (simp add: cq_ring_def)
  have "cq_head q = cq_tail q \<longleftrightarrow> k = cq_cap q"
    using mod_dist(1) [OF t assms(3,4)] assms(5) by (metis unsigned_word_eqI)
  then show ?thesis
    using assms mod_dist(2) [OF t assms(3,4)] by (auto simp: cq_count_def)
qed

lemma cq_dist:
  assumes "cq_ring q" and "cq_empty q \<longrightarrow> cq_head q = cq_tail q"
  shows "unat (cq_head q) = (unat (cq_tail q) + cq_count q) mod cq_cap q"
    and "cq_count q \<le> cq_cap q"
    and "cq_count q = cq_cap q \<longleftrightarrow> \<not> cq_empty q \<and> cq_head q = cq_tail q"
    and "cq_count q = 0 \<longleftrightarrow> cq_empty q"
proof -
  let ?h = "unat (cq_head q)" and ?t = "unat (cq_tail q)" and ?n = "cq_cap q"
  have b: "?h < ?n" "?t < ?n" "0 < ?n" using assms(1) by (auto simp: cq_ring_def)
  have neq: "cq_head q \<noteq> cq_tail q \<longleftrightarrow> ?h \<noteq> ?t" by (metis unsigned_word_eqI)
  have m: "(?h + ?n - ?t) mod ?n = (if ?h < ?t then ?h + ?n - ?t else ?h - ?t)"
    using b by (auto simp: mod_if)
  have closes: "(?t + (?h + ?n - ?t) mod ?n) mod ?n = ?h"
    using b by (simp add: m)
  show "?h = (?t + cq_count q) mod ?n"
    using b closes assms(2) by (auto simp: cq_count_def)
  show "cq_count q \<le> ?n"
    using b by (auto simp: cq_count_def intro: less_imp_le)
  show "cq_count q = ?n \<longleftrightarrow> \<not> cq_empty q \<and> cq_head q = cq_tail q"
    using b by (auto simp: cq_count_def m split: if_splits)
  show "cq_count q = 0 \<longleftrightarrow> cq_empty q"
    using b neq by (auto simp: cq_count_def m)
qed

lemma length_cq_contents [simp]:
  assumes "cq_inv q"
  shows "length (cq_contents q) = cq_count q" and "cq_count q \<le> cq_cap q"
proof -
  have i: "cq_ring q" "cq_empty q \<longrightarrow> cq_head q = cq_tail q"
    using assms by (auto simp: cq_inv_def)
  show "cq_count q \<le> cq_cap q" by (rule cq_dist(2) [OF i])
  then show "length (cq_contents q) = cq_count q"
    using i by (simp add: cq_contents_def cq_ring_def)
qed

section \<open>Insertion\<close>

lemma cq_inv_loop: "cq_inv q \<Longrightarrow> cq_loop_inv q"
  by (auto simp: cq_inv_def cq_loop_inv_def)

lemma cq_inv_loop_contents:
  assumes "cq_inv q"
  shows "cq_loop_contents q = cq_contents q"
proof (cases "cq_overflow q")
  case True
  with assms have "cq_head q = cq_tail q" "\<not> cq_empty q" "length (cq_buf q) = cq_cap q"
    by (auto simp: cq_inv_def cq_ring_def)
  with True show ?thesis
    by (simp add: cq_loop_contents_def cq_contents_def cq_count_def)
next
  case False
  then show ?thesis by (simp add: cq_loop_contents_def)
qed

text \<open>The oldest byte is at \<open>head\<close>: the turn replaces it.\<close>

lemma ring_replace_oldest:
  assumes "h < length xs"
  shows "rotate (Suc h mod length xs) (xs[h := d]) = last_n (length xs) (rotate h xs @ [d])"
proof -
  have "rotate (Suc h mod length xs) (xs[h := d]) = rotate (Suc h) (xs[h := d])"
    using rotate_Suc_mod [of h "xs[h := d]"] by simp
  also have "\<dots> = tl (rotate h (xs[h := d])) @ [d]"
    using assms by (subst rotate_Suc_tl) auto
  also have "rotate h (xs[h := d]) = (rotate h xs)[0 := d]"
    using rotate_update [of 0 xs h d] assms by (cases xs) auto
  also have "tl ((rotate h xs)[0 := d]) = tl (rotate h xs)"
    by (cases "rotate h xs") auto
  also have "tl (rotate h xs) @ [d] = last_n (length xs) (rotate h xs @ [d])"
    using assms by (subst last_n_full_snoc) auto
  finally show ?thesis .
qed

lemma queue_insert_turn_ok:
  assumes inv: "cq_loop_inv q"
  shows "\<exists>q'. queue_insert_turn q d = Some q' \<and> cq_loop_inv q' \<and> cq_cap q' = cq_cap q
     \<and> cq_loop_contents q' = last_n (cq_cap q) (cq_loop_contents q @ [d])"
proof -
  let ?n = "cq_cap q" and ?h = "unat (cq_head q)" and ?t = "unat (cq_tail q)"
  let ?b = "(cq_buf q)[?h := d]" and ?h' = "(cq_head q + 1) mod cq_size q"
  have ring: "cq_ring q" using inv by (simp add: cq_loop_inv_def)
  note b = cq_ring_bounds [OF ring]
  have h': "unat ?h' = Suc ?h mod ?n"
    using b unat_mod_incr [of "cq_head q" "cq_size q"] by (simp add: cq_cap_def)
  then have h'b: "unat ?h' < ?n" using b by simp
  define q' where "q' = the (queue_insert_turn q d)"
  have turn: "queue_insert_turn q d = Some q'"
    using b by (simp add: q'_def queue_insert_turn_def Let_def)
  have flds: "cq_buf q' = ?b" "cq_size q' = cq_size q" "cq_head q' = ?h'" "cq_tail q' = cq_tail q"
    "\<not> cq_empty q'" "cq_full q' \<longleftrightarrow> cq_full q \<or> ?h' = cq_tail q"
    "cq_overflow q' \<longleftrightarrow> cq_overflow q \<or> (cq_full q \<and> cq_head q = cq_tail q)"
    using b by (auto simp: q'_def queue_insert_turn_def Let_def)
  have ring': "cq_ring q'" using ring flds h'b by (simp add: cq_ring_def cq_cap_def)
  show ?thesis
  proof (cases "cq_full q")
    case True
    then have ovf: "cq_overflow q'" and same: "cq_loop_contents q = rotate ?h (cq_buf q)"
      using inv flds ring by (auto simp: cq_loop_inv_def cq_loop_contents_def cq_contents_def
          cq_count_def cq_ring_def)
    have "cq_loop_contents q' = last_n ?n (rotate ?h (cq_buf q) @ [d])"
      using ovf flds h' ring_replace_oldest [OF b(1), of d] b(4)
      by (simp add: cq_loop_contents_def)
    moreover have "cq_loop_inv q'" "cq_cap q' = ?n"
      using ring' True ovf flds by (auto simp: cq_loop_inv_def cq_cap_def)
    ultimately show ?thesis using turn same by simp
  next
    case False
    then have no: "\<not> cq_overflow q" "\<not> cq_overflow q'" and e: "cq_empty q \<longrightarrow> cq_head q = cq_tail q"
      and ne: "\<not> (\<not> cq_empty q \<and> cq_head q = cq_tail q)"
      using inv flds by (auto simp: cq_loop_inv_def)
    let ?c = "cq_count q"
    note D = cq_dist [OF ring e]
    have c: "?c < ?n" using D(2,3) ne by auto
    have len: "?c < length (cq_buf q)" using c b by simp
    have "unat ?h' = (?t + Suc ?c) mod ?n"
      using D(1) h' by (simp add: mod_Suc_eq)
    then have c': "cq_count q' = Suc ?c"
      using ring' flds c by (intro cq_count_dist) (auto simp: cq_cap_def)
    have "cq_contents q' = take (Suc ?c) ((rotate ?t (cq_buf q))[?c := d])"
      using rotate_update [OF len, of ?t d] D(1) b(4) by (simp add: cq_contents_def c' flds)
    also have "\<dots> = cq_contents q @ [d]"
      using len by (simp add: take_Suc_update cq_contents_def)
    finally have "cq_loop_contents q' = last_n ?n (cq_loop_contents q @ [d])"
      using no c len by (simp add: cq_loop_contents_def cq_contents_def)
    moreover have "cq_loop_inv q'" "cq_cap q' = ?n"
      using ring' False no flds by (auto simp: cq_loop_inv_def cq_cap_def)
    ultimately show ?thesis using turn by simp
  qed
qed

lemma queue_insert_loop_ok:
  "cq_loop_inv q \<Longrightarrow> \<exists>q'. queue_insert_loop q ds = Some q' \<and> cq_loop_inv q' \<and> cq_cap q' = cq_cap q
     \<and> cq_loop_contents q' = last_n (cq_cap q) (cq_loop_contents q @ ds)"
proof (induction ds arbitrary: q)
  case Nil
  have "length (cq_loop_contents q) \<le> cq_cap q"
    using Nil by (auto simp: cq_loop_contents_def cq_contents_def cq_loop_inv_def cq_ring_def)
  with Nil show ?case by simp
next
  case (Cons d ds)
  from queue_insert_turn_ok [OF Cons.prems, of d] obtain q1
    where q1: "queue_insert_turn q d = Some q1" "cq_loop_inv q1" "cq_cap q1 = cq_cap q"
      "cq_loop_contents q1 = last_n (cq_cap q) (cq_loop_contents q @ [d])" by blast
  from Cons.IH [OF q1(2)] q1 show ?case
    by (auto simp: last_n_last_n_append)
qed

lemma QueueInsert_ok:
  assumes "cq_inv q"
  shows "\<exists>q'. QueueInsert q ds = Some (q', wrap32 (int (length ds))) \<and> cq_inv q'
     \<and> cq_cap q' = cq_cap q \<and> cq_contents q' = last_n (cq_cap q) (cq_contents q @ ds)"
proof -
  from queue_insert_loop_ok [OF cq_inv_loop [OF assms], of ds] obtain q1
    where q1: "queue_insert_loop q ds = Some q1" "cq_loop_inv q1" "cq_cap q1 = cq_cap q"
      "cq_loop_contents q1 = last_n (cq_cap q) (cq_contents q @ ds)"
    using cq_inv_loop_contents [OF assms] by auto
  let ?q' = "if cq_overflow q1 then q1\<lparr>cq_tail := cq_head q1\<rparr> else q1"
  have "cq_inv ?q'" "cq_cap ?q' = cq_cap q"
    using q1 by (auto simp: cq_loop_inv_def cq_inv_def cq_ring_def cq_cap_def)
  moreover have "cq_contents ?q' = cq_loop_contents q1"
    using q1(2) by (auto simp: cq_loop_contents_def cq_contents_def cq_count_def cq_cap_def
        cq_loop_inv_def cq_ring_def)
  ultimately show ?thesis using q1 by (simp add: QueueInsert_def)
qed

section \<open>Deletion\<close>

lemma queue_delete_loop_ok:
  "cq_ring q \<Longrightarrow> \<not> cq_empty q \<Longrightarrow> 0 < c \<Longrightarrow> c \<le> cq_cap q
   \<Longrightarrow> unat (cq_head q) = (unat (cq_tail q) + c) mod cq_cap q
   \<Longrightarrow> \<exists>q'. queue_delete_loop q n = Some (q', take n (take c (rotate (unat (cq_tail q)) (cq_buf q))))
     \<and> cq_ring q' \<and> cq_buf q' = cq_buf q \<and> cq_size q' = cq_size q \<and> cq_head q' = cq_head q
     \<and> cq_full q' = cq_full q \<and> cq_overflow q' = cq_overflow q \<and> cq_empty q' = (c \<le> n)
     \<and> unat (cq_tail q') = (unat (cq_tail q) + min n c) mod cq_cap q"
proof (induction n arbitrary: q c)
  case 0
  then show ?case by (auto simp: cq_ring_def)
next
  case (Suc n)
  let ?t = "unat (cq_tail q)" and ?N = "cq_cap q"
  define q1 where "q1 = q\<lparr>cq_tail := (cq_tail q + 1) mod cq_size q\<rparr>"
  note b = cq_ring_bounds [OF Suc.prems(1)]
  have t1: "unat (cq_tail q1) = Suc ?t mod ?N"
    using b unat_mod_incr [of "cq_tail q" "cq_size q"] by (simp add: q1_def cq_cap_def)
  have ring1: "cq_ring q1" and cap1: "cq_cap q1 = ?N"
    using Suc.prems(1) t1 b by (auto simp: cq_ring_def q1_def cq_cap_def)
  have h1: "unat (cq_head q1) = (unat (cq_tail q1) + (c - 1)) mod cq_cap q1"
  proof -
    have "unat (cq_head q) = (Suc ?t + (c - 1)) mod ?N"
      using Suc.prems(3,5) by simp
    then show ?thesis unfolding t1 cap1 by (simp add: mod_add_left_eq q1_def)
  qed
  have last: "cq_tail q1 = cq_head q1 \<longleftrightarrow> c = 1"
  proof (cases "c = 1")
    case True
    then have "unat (cq_tail q1) = unat (cq_head q1)" using h1 ring1 by (simp add: cq_ring_def)
    then have "cq_tail q1 = cq_head q1" by (rule unsigned_word_eqI)
    with True show ?thesis by simp
  next
    case False
    have tb: "unat (cq_tail q1) < cq_cap q1" using ring1 by (simp add: cq_ring_def)
    have k: "0 < c - 1" "c - 1 < cq_cap q1" using False Suc.prems(3,4) cap1 by auto
    have "unat (cq_head q1) \<noteq> unat (cq_tail q1)"
      unfolding h1 using mod_dist(1) [OF tb k(1)] k(2) by simp
    then show ?thesis using False by auto
  qed
  have win: "take (Suc m) (take c (rotate ?t (cq_buf q)))
      = cq_buf q ! ?t # take m (take (c - 1) (rotate (unat (cq_tail q1)) (cq_buf q)))" for m
  proof -
    have "rotate (unat (cq_tail q1)) (cq_buf q) = tl (rotate ?t (cq_buf q)) @ [cq_buf q ! ?t]"
      using rotate_Suc_mod [of ?t "cq_buf q"] rotate_Suc_tl [OF b(2)] b(4) by (simp add: t1)
    moreover have "c - 1 \<le> length (tl (rotate ?t (cq_buf q)))" using Suc.prems(4) b(4) by simp
    ultimately have "take (c - 1) (rotate (unat (cq_tail q1)) (cq_buf q))
        = take (c - 1) (tl (rotate ?t (cq_buf q)))" by simp
    moreover obtain ys where "rotate ?t (cq_buf q) = cq_buf q ! ?t # ys"
      using rotate_head [OF b(2)] by blast
    ultimately show ?thesis
      using Suc.prems(3) by (cases c) (simp_all add: take_Suc_Cons min_def)
  qed
  have keep: "cq_buf q1 = cq_buf q" "cq_size q1 = cq_size q" "cq_head q1 = cq_head q"
    "cq_full q1 = cq_full q" "cq_overflow q1 = cq_overflow q" "cq_empty q1 = cq_empty q"
    by (simp_all add: q1_def)
  have turn: "queue_delete_loop q (Suc n) =
      (if c = 1 then Some (q1\<lparr>cq_empty := True\<rparr>, [cq_buf q ! ?t])
       else (case queue_delete_loop q1 n of None \<Rightarrow> None
             | Some (q2, ds) \<Rightarrow> Some (q2, cq_buf q ! ?t # ds)))"
    using b last by (simp add: Let_def q1_def)
  show ?case
  proof (cases "c = 1")
    case True
    have "cq_ring (q1\<lparr>cq_empty := True\<rparr>)" using ring1 by (simp add: cq_ring_def cq_cap_def)
    then show ?thesis
      unfolding turn using True keep t1 win [of n] by simp
  next
    case False
    have "\<exists>q'. queue_delete_loop q1 n = Some (q', take n (take (c - 1) (rotate (unat (cq_tail q1)) (cq_buf q1))))
       \<and> cq_ring q' \<and> cq_buf q' = cq_buf q1 \<and> cq_size q' = cq_size q1 \<and> cq_head q' = cq_head q1
       \<and> cq_full q' = cq_full q1 \<and> cq_overflow q' = cq_overflow q1 \<and> cq_empty q' = (c - 1 \<le> n)
       \<and> unat (cq_tail q') = (unat (cq_tail q1) + min n (c - 1)) mod cq_cap q1"
      using Suc.prems False h1 cap1 ring1 keep by (intro Suc.IH) auto
    then obtain q' where q': "queue_delete_loop q1 n
        = Some (q', take n (take (c - 1) (rotate (unat (cq_tail q1)) (cq_buf q))))"
      "cq_ring q'" "cq_buf q' = cq_buf q" "cq_size q' = cq_size q" "cq_head q' = cq_head q"
      "cq_full q' = cq_full q" "cq_overflow q' = cq_overflow q" "cq_empty q' = (c - 1 \<le> n)"
      "unat (cq_tail q') = (unat (cq_tail q1) + min n (c - 1)) mod ?N"
      using keep cap1 by auto
    have "unat (cq_tail q') = (?t + min (Suc n) c) mod ?N"
    proof -
      have "Suc ?t + min n (c - 1) = ?t + min (Suc n) c" using False Suc.prems(3) by simp
      then show ?thesis unfolding q'(9) t1 by (simp only: mod_add_left_eq)
    qed
    moreover have "cq_empty q' = (c \<le> Suc n)" using q'(8) by auto
    ultimately show ?thesis
      using False q'(1-7) win [of n] unfolding turn by simp
  qed
qed

lemma QueueDelete_ok:
  assumes inv: "cq_inv q"
  shows "\<exists>q'. QueueDelete q n = Some (q', take n (cq_contents q),
       wrap32 (int (length (take n (cq_contents q))))) \<and> cq_inv q'
     \<and> cq_cap q' = cq_cap q \<and> cq_contents q' = drop n (cq_contents q)"
proof (cases "cq_empty q \<or> n = 0")
  case True
  moreover from this have "cq_empty q \<Longrightarrow> cq_contents q = [] \<and> cq_count q = 0"
    by (simp add: cq_contents_def cq_count_def)
  moreover have "QueueDelete q n = Some (q, [], 0)"
    using calculation by (cases n) (auto simp: QueueDelete_def layout_simps)
  ultimately show ?thesis using inv by (auto simp: layout_simps)
next
  case False
  let ?c = "cq_count q" and ?N = "cq_cap q"
  have ring: "cq_ring q" and e: "cq_empty q \<longrightarrow> cq_head q = cq_tail q"
    using inv by (auto simp: cq_inv_def)
  note D = cq_dist [OF ring e]
  have c: "0 < ?c" "?c \<le> ?N" using D False by auto
  from queue_delete_loop_ok [OF ring _ c D(1), of n] False obtain q1
    where run: "queue_delete_loop q n = Some (q1, take n (cq_contents q))"
    and q1: "cq_ring q1" "cq_buf q1 = cq_buf q" "cq_size q1 = cq_size q" "cq_head q1 = cq_head q"
      "cq_full q1 = cq_full q" "cq_overflow q1 = cq_overflow q" "cq_empty q1 = (?c \<le> n)"
      "unat (cq_tail q1) = (unat (cq_tail q) + min n ?c) mod ?N"
    by (auto simp: cq_contents_def)
  define q' where "q' = (if cq_full q1 then q1\<lparr>cq_full := False, cq_overflow := False\<rparr> else q1)"
  have ne: "0 < length (take n (cq_contents q))" using inv c False by simp
  have del: "QueueDelete q n = Some (q', take n (cq_contents q),
       wrap32 (int (length (take n (cq_contents q)))))"
    using False run ne by (simp add: QueueDelete_def q'_def)
  have flds: "cq_ring q'" "cq_buf q' = cq_buf q" "cq_cap q' = ?N" "cq_head q' = cq_head q"
      "\<not> cq_full q'" "cq_empty q' = (?c \<le> n)" "\<not> cq_overflow q'"
      "unat (cq_tail q') = (unat (cq_tail q) + min n ?c) mod ?N"
    using q1 inv by (auto simp: q'_def cq_cap_def cq_ring_def cq_inv_def)
  have left: "unat (cq_head q') = (unat (cq_tail q') + (?c - min n ?c)) mod ?N"
  proof -
    have "unat (cq_head q) = (unat (cq_tail q) + min n ?c + (?c - min n ?c)) mod ?N"
      using D(1) by simp
    then show ?thesis by (simp add: flds(4,8) mod_add_left_eq del: Nat.add_diff_assoc)
  qed
  have same: "cq_head q' = cq_tail q' \<longleftrightarrow> ?c \<le> n"
  proof (cases "?c \<le> n")
    case True
    then have "unat (cq_head q') = unat (cq_tail q')" using left flds(1,3) by (simp add: cq_ring_def)
    then have "cq_head q' = cq_tail q'" by (rule unsigned_word_eqI)
    with True show ?thesis by simp
  next
    case False2: False
    have tb: "unat (cq_tail q') < ?N" using flds by (simp add: cq_ring_def)
    have k: "0 < ?c - n" "?c - n < ?N" using False False2 c(2) by auto
    have "unat (cq_head q') \<noteq> unat (cq_tail q')"
      unfolding left using mod_dist(1) [OF tb k(1)] k(2) False2 by simp
    then show ?thesis using False2 by auto
  qed
  then have inv': "cq_inv q'" using flds by (simp add: cq_inv_def)
  have cnt: "cq_count q' = ?c - n"
  proof (cases "?c \<le> n")
    case True
    then show ?thesis by (simp add: cq_count_def flds)
  next
    case False2: False
    then show ?thesis using flds left c by (intro cq_count_dist) auto
  qed
  have "cq_contents q' = take (?c - n) (rotate (min n ?c) (rotate (unat (cq_tail q)) (cq_buf q)))"
    using rotate_conv_mod [of "unat (cq_tail q) + min n ?c" "cq_buf q"] cq_ring_bounds(4) [OF ring]
    by (simp add: cq_contents_def cnt flds rotate_rotate add.commute)
  also have "\<dots> = drop n (cq_contents q)"
  proof (cases "?c \<le> n")
    case True
    then show ?thesis using inv by simp
  next
    case False2: False
    let ?r = "rotate (unat (cq_tail q)) (cq_buf q)"
    have len: "length ?r = ?N" using cq_ring_bounds(4) [OF ring] by simp
    then have "rotate n ?r = drop n ?r @ take n ?r"
      using False2 c by (simp add: rotate_drop_take)
    with False2 c len show ?thesis
      by (simp add: cq_contents_def drop_take)
  qed
  finally show ?thesis using del inv' flds by blast
qed

section \<open>The ring buffer as a lossy FIFO\<close>

interpretation cq: lossy_fifo QueueInsert QueueDelete cq_inv cq_contents cq_cap
proof unfold_locales
  fix q xs k
  assume "cq_inv q"
  then show "\<exists>q'. QueueInsert q xs = Some (q', wrap32 (int (length xs))) \<and> cq_inv q'
      \<and> cq_cap q' = cq_cap q \<and> cq_contents q' = last_n (cq_cap q) (cq_contents q @ xs)"
    by (rule QueueInsert_ok)
  from \<open>cq_inv q\<close> show "\<exists>q'. QueueDelete q k = Some (q', take k (cq_contents q),
       wrap32 (int (length (take k (cq_contents q))))) \<and> cq_inv q'
     \<and> cq_cap q' = cq_cap q \<and> cq_contents q' = drop k (cq_contents q)"
    by (rule QueueDelete_ok)
  from \<open>cq_inv q\<close> show "length (cq_contents q) \<le> cq_cap q" by simp
qed

lemma QueueClean_ok:
  assumes "0 < cq_size q" and "length (cq_buf q) = unat (cq_size q)"
  shows "cq_inv (QueueClean q)" and "cq_contents (QueueClean q) = []"
    and "cq_cap (QueueClean q) = cq_cap q"
  using assms by (auto simp: cq_inv_def cq_ring_def cq_cap_def QueueClean_def cq_contents_def
      cq_count_def word_less_nat_alt)

definition queue_of :: "u32 \<Rightarrow> cycle_queue" where
  "queue_of n = \<lparr>cq_buf = replicate (unat n) 0, cq_size = n, cq_head = 0, cq_tail = 0,
     cq_empty = True, cq_full = False, cq_overflow = False\<rparr>"

lemma queue_of_ok:
  assumes "0 < n"
  shows "cq_inv (queue_of n)" and "cq_contents (queue_of n) = []" and "cq_cap (queue_of n) = unat n"
  using assms by (auto simp: cq_inv_def cq_ring_def cq_cap_def queue_of_def cq_contents_def
      cq_count_def word_less_nat_alt)

section \<open>Properties\<close>

text \<open>C23. From any state that satisfies the invariant, every interleaving of inserts and deletes
  runs without an access outside the buffer, keeps the invariant and delivers exactly what a
  list that keeps its newest \<open>size\<close> elements would deliver.
\<close>

theorem queue_refines_list:
  assumes "cq_inv q"
  shows "\<exists>q' out. run_qops QueueInsert QueueDelete q ops = Some (q', out) \<and> cq_inv q'
    \<and> spec_qops (cq_cap q) (cq_contents q) ops = (cq_contents q', out)"
  using cq.run_refines [OF assms, of ops] by blast

theorem queue_refines_list_witness:
  "\<exists>q' out. run_qops QueueInsert QueueDelete (queue_of 3) [Put [1, 2, 3, 4], Get 2, Put [5]] = Some (q', out)
    \<and> cq_inv q' \<and> spec_qops 3 [] [Put [1, 2, 3, 4], Get 2, Put [5]] = (cq_contents q', out)"
proof -
  have "cq_inv (queue_of 3)" by (rule queue_of_ok) simp
  from queue_refines_list [OF this, of "[Put [1, 2, 3, 4], Get 2, Put [5]]"]
  show ?thesis using queue_of_ok [of 3] by simp
qed

text \<open>As long as the backlog never exceeds the size of the ring, no byte is lost, duplicated or
  reordered: what was delivered followed by what is left is what was there before followed by
  what was offered.
\<close>

lemma queue_lossless:
  assumes "cq_inv q" and "fits (cq_cap q) (length (cq_contents q)) ops"
  shows "\<exists>q' out. run_qops QueueInsert QueueDelete q ops = Some (q', out)
    \<and> out @ cq_contents q' = cq_contents q @ offered ops"
  using assms by (rule cq.run_lossless)

lemma queue_lossless_witness:
  "\<exists>q' out. run_qops QueueInsert QueueDelete (queue_of 3) [Put [1, 2], Get 1, Put [3, 4]] = Some (q', out)
    \<and> out @ cq_contents q' = [1, 2, 3, 4]"
proof -
  have a: "cq_inv (queue_of 3)" by (rule queue_of_ok) simp
  have b: "fits (cq_cap (queue_of 3)) (length (cq_contents (queue_of 3))) [Put [1, 2], Get 1, Put [3, 4 :: byte]]"
    using queue_of_ok [of 3] by simp
  from queue_lossless [OF a b] show ?thesis using queue_of_ok [of 3] by simp
qed

end
