(* ===== verification/CTime.thy ===== *)
theory CTime
  imports Prelude
begin

text \<open>
  The calendar functions of the C library, \<open>newlib/libc/src/time.c\<close>: \<open>gmtime\<close>,
  \<open>localtime\<close> (fixed at UTC+8), \<open>mktime\<close>, \<open>_mkgmtime\<close> and \<open>_gmtotime_t\<close>. A
  \<open>long\<close> and an \<open>int\<close> are mathematical integers whose wrap-around is written with \<open>wrap32\<close>; \<open>/\<close>
  and \<open>%\<close> are the truncating \<open>sdiv\<close> and \<open>smod\<close>. The \<open>struct tm\<close> a function returns a
  pointer to is its value; a caller that passes the static block back to \<open>mktime\<close> by
  pointer is outside the model. The specification is the proleptic Gregorian calendar as sums of
  year and month lengths.
\<close>

section \<open>Constants of ctime.h and time.c\<close>

definition DAY_SEC :: int where "DAY_SEC = 24 * 60 * 60"
definition YEAR_SEC :: int where "YEAR_SEC = 365 * DAY_SEC"
definition FOUR_YEAR_SEC :: int where "FOUR_YEAR_SEC = 1461 * DAY_SEC"
definition BASE_YEAR :: int where "BASE_YEAR = 70"
definition BASE_DOW :: int where "BASE_DOW = 4"
definition LEAP_YEAR_ADJUST :: int where "LEAP_YEAR_ADJUST = 17"
definition MAX_YEAR :: int where "MAX_YEAR = 138"

lemmas time_consts = DAY_SEC_def YEAR_SEC_def FOUR_YEAR_SEC_def BASE_YEAR_def BASE_DOW_def
  LEAP_YEAR_ADJUST_def MAX_YEAR_def

definition lpdays :: "int list" where
  "lpdays = [-1, 30, 59, 90, 120, 151, 181, 212, 243, 273, 304, 334, 365]"

definition ydays :: "int list" where
  "ydays = [-1, 30, 58, 89, 119, 150, 180, 211, 242, 272, 303, 333, 364]"

definition timezone :: int where "timezone = - 8 * 3600"
definition daylight :: int where "daylight = 0"
definition dstbias :: int where "dstbias = -3600"

record tm =
  tm_sec :: int
  tm_min :: int
  tm_hour :: int
  tm_mday :: int
  tm_mon :: int
  tm_year :: int
  tm_wday :: int
  tm_yday :: int
  tm_isdst :: int

text \<open>A pointer result: \<open>None\<close> is \<open>NULL\<close>.\<close>

type_synonym 'a ptr = "'a option"

section \<open>gmtime\<close>

text \<open>\<open>for (tmptim = 1; mdays[tmptim] < yday; tmptim++);\<close> with the array access checked.\<close>

function month_loop :: "int list \<Rightarrow> nat \<Rightarrow> int \<Rightarrow> nat option" where
  "month_loop mdays i yday =
     (if i < length mdays
      then (if mdays ! i < yday then month_loop mdays (Suc i) yday else Some i)
      else None)"
  by pat_completeness auto
termination
  by (relation "measure (\<lambda>(mdays, i, yday). length mdays - i)") auto

declare month_loop.simps [simp del]

text \<open>The year of the four-year interval: \<open>tm_year\<close>, the seconds left in it, the leap flag.\<close>

definition gm_year :: "int \<Rightarrow> int \<times> int \<times> bool" where
  "gm_year t =
     (let q = t sdiv FOUR_YEAR_SEC; c = t - q * FOUR_YEAR_SEC; y = q * 4 + 70 in
      if c \<ge> YEAR_SEC then
        let c1 = c - YEAR_SEC in
        if c1 \<ge> YEAR_SEC then
          let c2 = c1 - YEAR_SEC in
          if c2 \<ge> YEAR_SEC + DAY_SEC then (y + 3, c2 - (YEAR_SEC + DAY_SEC), False)
          else (y + 2, c2, True)
        else (y + 1, c1, False)
      else (y, c, False))"

definition gmtime :: "int \<Rightarrow> tm ptr option" where
  "gmtime t =
     (if t < 0 then Some None
      else case gm_year t of (year, c, islpyr) \<Rightarrow>
        (let yday = c sdiv DAY_SEC; c1 = c - yday * DAY_SEC;
             mdays = (if islpyr then lpdays else ydays) in
         case month_loop mdays 1 yday of None \<Rightarrow> None
         | Some i \<Rightarrow>
             (let mon = i - 1; hour = c1 sdiv 3600; c2 = c1 - hour * 3600; min = c2 sdiv 60 in
              Some (Some \<lparr>tm_sec = c2 - min * 60, tm_min = min, tm_hour = hour,
                tm_mday = yday - mdays ! mon, tm_mon = int mon, tm_year = year,
                tm_wday = (t sdiv DAY_SEC + BASE_DOW) smod 7, tm_yday = yday, tm_isdst = 0\<rparr>))))"

section \<open>localtime\<close>

definition isindst :: "tm \<Rightarrow> bool" where
  "isindst p = False" \<comment> \<open>both branches of \<open>_isindst\<close> return 0\<close>

text \<open>The adjustment of the broken-down time in the first and last three days.\<close>

definition local_carry :: "tm \<Rightarrow> tm" where
  "local_carry p0 =
     (let l1 = (if isindst p0 then tm_sec p0 - (timezone + dstbias) else tm_sec p0 - timezone);
          s = l1 smod 60;
          (s, l1) = (if s < 0 then (s + 60, l1 - 60) else (s, l1));
          l2 = tm_min p0 + l1 sdiv 60;
          m = l2 smod 60;
          (m, l2) = (if m < 0 then (m + 60, l2 - 60) else (m, l2));
          l3 = tm_hour p0 + l2 sdiv 60;
          h = l3 smod 24;
          (h, l3) = (if h < 0 then (h + 24, l3 - 24) else (h, l3));
          l4 = l3 sdiv 24;
          p = p0\<lparr>tm_sec := s, tm_min := m, tm_hour := h\<rparr>
      in if l4 > 0 then
           p\<lparr>tm_wday := (tm_wday p + l4) smod 7, tm_mday := tm_mday p + l4, tm_yday := tm_yday p + l4\<rparr>
         else if l4 < 0 then
           (let p1 = p\<lparr>tm_wday := (tm_wday p + 7 + l4) smod 7, tm_mday := tm_mday p + l4\<rparr> in
            if tm_mday p1 \<le> 0
            then p1\<lparr>tm_mday := tm_mday p1 + 31, tm_yday := 364, tm_mon := 11, tm_year := tm_year p1 - 1\<rparr>
            else p1\<lparr>tm_yday := tm_yday p1 + l4\<rparr>)
         else p)"

definition localtime :: "int \<Rightarrow> tm ptr option" where
  "localtime t =
     (if t < 0 then Some None
      else if t > 3 * DAY_SEC \<and> t < INT_MAX - 3 * DAY_SEC then
        (let ltime = t - timezone in
         case gmtime ltime of None \<Rightarrow> None
         | Some None \<Rightarrow> Some None
         | Some (Some ptm) \<Rightarrow>
             if daylight \<noteq> 0 \<and> isindst ptm then
               (case gmtime (ltime - dstbias) of
                  Some (Some p) \<Rightarrow> Some (Some (p\<lparr>tm_isdst := 1\<rparr>)) | _ \<Rightarrow> None)
             else Some (Some ptm))
      else
        (case gmtime t of
           Some (Some ptm) \<Rightarrow> Some (Some (local_carry ptm))
         | _ \<Rightarrow> None))"

section \<open>mktime and \_mkgmtime\<close>

definition ChkAdd :: "int \<Rightarrow> int \<Rightarrow> int \<Rightarrow> bool" where
  "ChkAdd dest s1 s2 = ((s1 \<ge> 0 \<and> s2 \<ge> 0 \<and> dest < 0) \<or> (s1 < 0 \<and> s2 < 0 \<and> dest \<ge> 0))"

definition ChkMul :: "int \<Rightarrow> int \<Rightarrow> int \<Rightarrow> bool" where
  "ChkMul dest s1 s2 = (if s1 \<noteq> 0 then dest sdiv s1 \<noteq> s2 else False)"

text \<open>One \<open>x = a * k; check; y = x + b; check\<close> stage of \<open>_make_time_t\<close>.\<close>

definition mul_add_chk :: "int \<Rightarrow> int \<Rightarrow> int \<Rightarrow> int option" where
  "mul_add_chk a k b =
     (let p = wrap32 (a * k) in
      if ChkMul p a k then None
      else let s = wrap32 (p + b) in if ChkAdd s p b then None else Some s)"

text \<open>The normalised month and the year it carries into.\<close>

definition adjust_month :: "tm \<Rightarrow> int \<times> tm" where
  "adjust_month tm =
     (if tm_mon tm < 0 \<or> tm_mon tm > 11 then
        (let y = tm_year tm + tm_mon tm sdiv 12; m = tm_mon tm smod 12 in
         if m < 0 then (y - 1, tm\<lparr>tm_mon := m + 12\<rparr>) else (y, tm\<lparr>tm_mon := m\<rparr>))
      else (tm_year tm, tm))"

text \<open>Elapsed days before the month of the given year, minus one (\<open>tmptm3\<close>).\<close>

definition days_before :: "int \<Rightarrow> int \<Rightarrow> int" where
  "days_before y m =
     (let d = ydays ! nat m; d = (if y AND 3 = 0 \<and> m > 1 then d + 1 else d) in
      (y - BASE_YEAR) * 365 + drop_bit 2 (y - 1) - LEAP_YEAR_ADJUST + d)"

text \<open>Elapsed seconds before the time-zone adjustment; \<open>None\<close> where a check fires.\<close>

definition utc_secs :: "int \<Rightarrow> tm \<Rightarrow> int option" where
  "utc_secs y tm =
     (let t3 = days_before y (tm_mon tm); t1 = wrap32 (t3 + tm_mday tm) in
      if ChkAdd t1 t3 (tm_mday tm) then None
      else case mul_add_chk t1 24 (tm_hour tm) of None \<Rightarrow> None
      | Some h \<Rightarrow> (case mul_add_chk h 60 (tm_min tm) of None \<Rightarrow> None
        | Some m \<Rightarrow> mul_add_chk m 60 (tm_sec tm)))"

definition bad_year :: "int \<Rightarrow> bool" where
  "bad_year y \<longleftrightarrow> y < BASE_YEAR - 1 \<or> y > MAX_YEAR + 1"

text \<open>
  The result is the returned \<open>time_t\<close> and the caller's structure as it is left; the second
  \<open>localtime\<close> of the daylight-saving branch is dereferenced unchecked.
\<close>

definition make_time_t :: "tm \<Rightarrow> bool \<Rightarrow> (int \<times> tm) option" where
  "make_time_t tm ultflag =
     (if bad_year (tm_year tm) then Some (-1, tm)
      else case adjust_month tm of (y, tm1) \<Rightarrow>
        if (tm_mon tm < 0 \<or> tm_mon tm > 11) \<and> bad_year y then Some (-1, tm1)
        else case utc_secs y tm1 of None \<Rightarrow> Some (-1, tm1)
        | Some t \<Rightarrow>
            if ultflag then
              (let t = wrap32 (t + timezone) in
               case localtime t of None \<Rightarrow> None
               | Some None \<Rightarrow> Some (-1, tm1)
               | Some (Some tb) \<Rightarrow>
                   if tm_isdst tm1 > 0 \<or> (tm_isdst tm1 < 0 \<and> tm_isdst tb > 0) then
                     (let t = wrap32 (t + dstbias) in
                      case localtime t of Some (Some tb) \<Rightarrow> Some (t, tb) | _ \<Rightarrow> None)
                   else Some (t, tb))
            else
              (case gmtime t of None \<Rightarrow> None
               | Some None \<Rightarrow> Some (-1, tm1)
               | Some (Some tb) \<Rightarrow> Some (t, tb)))"

definition mkgmtime :: "tm \<Rightarrow> (int \<times> tm) option" where
  "mkgmtime tm = make_time_t tm False"

definition mktime :: "tm \<Rightarrow> (int \<times> tm) option" where
  "mktime tm = make_time_t tm True"

definition difftime :: "int \<Rightarrow> int \<Rightarrow> int" where
  "difftime t2 t1 = wrap32 (t2 - t1)"

text \<open>\<open>_gmtotime_t(yr, mo, dy, hr, mn, sc)\<close>, years from 0 and months and days from 1.\<close>

definition gmtotime_t :: "int \<Rightarrow> int \<Rightarrow> int \<Rightarrow> int \<Rightarrow> int \<Rightarrow> int \<Rightarrow> int option" where
  "gmtotime_t yr mo dy hr mn sc =
     (let yr = wrap32 (yr - 1900) in
      if yr < BASE_YEAR \<or> yr > MAX_YEAR then Some (-1)
      else if mo < 1 \<or> mo > 13 then None
      else
        let d = wrap32 (dy + ydays ! nat (mo - 1));
            d = (if yr AND 3 = 0 \<and> mo > 2 then wrap32 (d + 1) else d);
            t = wrap32 ((yr - BASE_YEAR) * 365 + drop_bit 2 (yr - 1) - LEAP_YEAR_ADJUST + d);
            t = wrap32 (wrap32 (t * 24) + hr);
            t = wrap32 (wrap32 (t * 60) + mn);
            t = wrap32 (wrap32 (t * 60) + sc);
            t = wrap32 (t + timezone)
        in Some (if t \<ge> 0 then t else -1))"

end
