(* ===== verification/CTimeProps.thy ===== *)
theory CTimeProps
  imports CTimeSpec
begin

text \<open>
  The properties of the calendar functions: the overflow tests of \<open>_make_time_t\<close> are exact,
  \<open>_mkgmtime\<close> returns the specified number of seconds or \<open>-1\<close>, \<open>localtime\<close> is the
  calendar date of UTC+8, and each broken-down time converts back to the instant it came from.
\<close>

section \<open>The overflow tests are exact\<close>

definition in32 :: "int \<Rightarrow> bool" where
  "in32 x \<longleftrightarrow> INT_MIN \<le> x \<and> x \<le> INT_MAX"

lemma in32_wrap [simp]: "in32 (wrap32 x)"
  by (simp add: in32_def wrap32_ge wrap32_le)

lemma wrap32_in32: "in32 x \<Longrightarrow> wrap32 x = x"
  by (simp add: in32_def)

lemma wrap32_diff: "\<exists>j. wrap32 x = x - j * 2 ^ 32"
proof
  show "wrap32 x = x - ((x + 2 ^ 31) div 2 ^ 32) * 2 ^ 32"
    by (simp add: wrap32_def minus_div_mult_eq_mod [symmetric])
qed

lemma wrap32_eqI:
  assumes "in32 y" and "y = x - j * 2 ^ 32"
  shows "wrap32 x = y"
proof -
  have "x + 2 ^ 31 = (y + 2 ^ 31) + j * 2 ^ 32" using assms(2) by simp
  then have "(x + 2 ^ 31) mod 2 ^ 32 = (y + 2 ^ 31) mod 2 ^ 32" by (simp only: mod_mult_self1)
  moreover have "(y + 2 ^ 31) mod 2 ^ 32 = y + 2 ^ 31"
    using assms(1) by (simp add: in32_def layout_simps)
  ultimately show ?thesis by (simp add: wrap32_def)
qed

lemma wrap32_wrap_left [simp]: "wrap32 (wrap32 x + y) = wrap32 (x + y)"
proof -
  obtain j where j: "wrap32 x = x - j * 2 ^ 32" using wrap32_diff by blast
  have "wrap32 x + y + 2 ^ 31 = (x + y + 2 ^ 31) + (- j) * 2 ^ 32" by (simp add: j)
  then show ?thesis unfolding wrap32_def [of "wrap32 x + y"] wrap32_def [of "x + y"]
    by (simp only: mod_mult_self1)
qed

lemma ChkAdd_exact:
  assumes "in32 a" and "in32 b"
  shows "ChkAdd (wrap32 (a + b)) a b \<longleftrightarrow> \<not> in32 (a + b)"
proof -
  consider "in32 (a + b)" | "a + b > INT_MAX" | "a + b < INT_MIN"
    unfolding in32_def by linarith
  then show ?thesis
  proof cases
    case 1
    then show ?thesis by (auto simp: wrap32_in32 ChkAdd_def)
  next
    case 2
    have "wrap32 (a + b) = a + b - 2 ^ 32"
      using assms 2 by (intro wrap32_eqI [where j = 1]) (auto simp: in32_def layout_simps)
    then show ?thesis using assms 2 by (auto simp: ChkAdd_def in32_def layout_simps)
  next
    case 3
    have "wrap32 (a + b) = a + b + 2 ^ 32"
      using assms 3 by (intro wrap32_eqI [where j = "-1"]) (auto simp: in32_def layout_simps)
    then show ?thesis using assms 3 by (auto simp: ChkAdd_def in32_def layout_simps)
  qed
qed

lemma sdiv_rest:
  assumes "a \<noteq> 0"
  shows "\<bar>p - p sdiv a * a\<bar> < \<bar>a::int\<bar>"
proof -
  have "\<bar>p\<bar> - \<bar>p\<bar> div \<bar>a\<bar> * \<bar>a\<bar> = \<bar>p\<bar> mod \<bar>a\<bar>" by (simp add: minus_div_mult_eq_mod)
  moreover have "0 \<le> \<bar>p\<bar> mod \<bar>a\<bar>" "\<bar>p\<bar> mod \<bar>a\<bar> < \<bar>a\<bar>" using assms by simp_all
  moreover have "p sdiv a * a = sgn p * (\<bar>p\<bar> div \<bar>a\<bar> * \<bar>a\<bar>)"
    using assms by (simp add: signed_divide_int_def sgn_if)
  moreover have "p = sgn p * \<bar>p\<bar>" by (simp add: sgn_if)
  ultimately show ?thesis by (cases "0 \<le> p") (auto simp: sgn_if)
qed

lemma ChkMul_exact:
  assumes "in32 a" and "0 < k"
  shows "ChkMul (wrap32 (a * k)) a k \<longleftrightarrow> \<not> in32 (a * k)"
proof (cases "in32 (a * k)")
  case True
  moreover have "a \<noteq> 0 \<Longrightarrow> (a * k) sdiv a = k"
    using assms(2) by (auto simp: signed_divide_int_def sgn_if abs_mult zero_less_mult_iff)
  ultimately show ?thesis by (simp add: wrap32_in32 ChkMul_def)
next
  case False
  then have a: "a \<noteq> 0" by (auto simp: in32_def layout_simps)
  let ?p = "wrap32 (a * k)"
  obtain j where j: "?p = a * k - j * 2 ^ 32" using wrap32_diff by blast
  have "j \<noteq> 0" using False j by (metis diff_zero in32_wrap mult_zero_left)
  have "?p sdiv a \<noteq> k"
  proof
    assume "?p sdiv a = k"
    then have "\<bar>j * 2 ^ 32\<bar> < \<bar>a\<bar>" using sdiv_rest [OF a, of ?p] j by (simp add: mult.commute)
    moreover have "2 ^ 32 \<le> \<bar>j * 2 ^ 32\<bar>" using \<open>j \<noteq> 0\<close> by (simp add: abs_mult)
    moreover have "\<bar>a\<bar> \<le> 2 ^ 31" using assms(1) by (auto simp: in32_def layout_simps abs_if)
    ultimately have "(2::int) ^ 32 < 2 ^ 31" by (meson le_less_trans less_le_trans)
    then show False by simp
  qed
  with False a show ?thesis by (simp add: ChkMul_def)
qed

lemma mul_add_chk_exact:
  assumes "in32 a" and "in32 b" and "0 < k"
  shows "mul_add_chk a k b = (if in32 (a * k) \<and> in32 (a * k + b) then Some (a * k + b) else None)"
  using ChkMul_exact [OF assms(1,3)] ChkAdd_exact [of "a * k" b] assms
  by (auto simp: mul_add_chk_def Let_def wrap32_in32)

section \<open>\_mkgmtime computes the specified instant\<close>

text \<open>The fields of a \<open>struct tm\<close> are C integers.\<close>

definition tm_ints :: "tm \<Rightarrow> bool" where
  "tm_ints p \<longleftrightarrow> (\<forall>x\<in>{tm_sec p, tm_min p, tm_hour p, tm_mday p, tm_mon p, tm_year p}. in32 x)"

text \<open>The year and month that a month number outside 0..11 stands for.\<close>

definition normal_month :: "tm \<Rightarrow> tm" where
  "normal_month p = p\<lparr>tm_year := tm_year p + tm_mon p div 12, tm_mon := tm_mon p mod 12\<rparr>"

text \<open>The instant of a date, when every partial sum of the conversion is a C \<open>long\<close>.\<close>

definition exact_secs :: "tm \<Rightarrow> int option" where
  "exact_secs p =
     (let d = epoch_day p; h = d * 24 + tm_hour p; m = h * 60 + tm_min p in
      if in32 d \<and> in32 (d * 24) \<and> in32 h \<and> in32 (h * 60) \<and> in32 m \<and> in32 (m * 60)
         \<and> in32 (m * 60 + tm_sec p)
      then Some (epoch_secs p) else None)"

lemma days_before_ok:
  assumes "69 \<le> y" "y \<le> 139" "0 \<le> m" "m < 12"
  shows "days_before y m = days_to_year y + days_to_month y m - 1"
proof -
  have n: "nat m < 12" "int (nat m) = m" using assms by auto
  have l: "leap_year y \<longleftrightarrow> y AND 3 = 0"
    using assms leap_year_mod4 [of y] by (simp add: int_and_3)
  have "ydays ! nat m + (if leap_year y \<and> 1 < nat m then 1 else 0) = days_to_month y m - 1"
    using ydays_leap [OF n(1), of y] n(2) by simp
  moreover have "1 < nat m \<longleftrightarrow> 1 < m" by auto
  ultimately show ?thesis
    using days_to_year_range [of y] assms
    unfolding days_before_def Let_def l drop_bit_2 by (simp split: if_splits)
qed

lemma utc_secs_exact:
  assumes "69 \<le> y" "y \<le> 139" "0 \<le> tm_mon p" "tm_mon p < 12" "tm_ints p"
  shows "utc_secs y p = exact_secs (p\<lparr>tm_year := y\<rparr>)"
proof -
  let ?q = "p\<lparr>tm_year := y\<rparr>" and ?t = "days_before y (tm_mon p)"
  have t: "?t = days_to_year y + days_to_month y (tm_mon p) - 1"
    using assms by (intro days_before_ok) auto
  have "days_to_year y = 365 * (y - BASE_YEAR) + (y - 1) div 4 - LEAP_YEAR_ADJUST"
    using assms by (intro days_to_year_range) auto
  moreover have "17 \<le> (y - 1) div 4" "(y - 1) div 4 \<le> 34" using assms(1,2) by linarith+
  ultimately have "in32 ?t"
    using days_to_month_bounds [OF assms(3,4), of y] assms(1,2)
    unfolding t by (simp add: in32_def layout_simps time_consts)
  moreover have i: "in32 (tm_mday p)" "in32 (tm_hour p)" "in32 (tm_min p)" "in32 (tm_sec p)"
    using assms(5) by (auto simp: tm_ints_def)
  ultimately have "ChkAdd (wrap32 (?t + tm_mday p)) ?t (tm_mday p) \<longleftrightarrow> \<not> in32 (?t + tm_mday p)"
    by (intro ChkAdd_exact)
  moreover have "?t + tm_mday p = epoch_day ?q" by (simp add: t epoch_day_def)
  ultimately show ?thesis
    using i by (auto simp: utc_secs_def exact_secs_def Let_def wrap32_in32 mul_add_chk_exact
        epoch_secs_def)
qed

lemma div12_unique: "0 \<le> (m::int) - q * 12 \<Longrightarrow> m - q * 12 < 12 \<Longrightarrow> m div 12 = q \<and> m mod 12 = m - q * 12"
  using int_div_pos_eq [of m 12 q "m - q * 12"] int_mod_pos_eq [of m 12 q "m - q * 12"] by simp

lemma floor_of_trunc:
  fixes m :: int
  shows "m smod 12 < 0 \<Longrightarrow> m sdiv 12 - 1 = m div 12 \<and> m smod 12 + 12 = m mod 12"
    and "\<not> m smod 12 < 0 \<Longrightarrow> m sdiv 12 = m div 12 \<and> m smod 12 = m mod 12"
proof -
  have r: "m smod 12 = m - m sdiv 12 * 12"
    by (simp add: signed_modulo_int_def signed_divide_int_def minus_mult_div_eq_mod [symmetric]
        sgn_if algebra_simps)
  have b: "\<bar>m - m sdiv 12 * 12\<bar> < 12" using sdiv_rest [of 12 m] by simp
  show "m sdiv 12 - 1 = m div 12 \<and> m smod 12 + 12 = m mod 12" if "m smod 12 < 0"
    using div12_unique [of m "m sdiv 12 - 1"] b that unfolding r by simp
  show "m sdiv 12 = m div 12 \<and> m smod 12 = m mod 12" if "\<not> m smod 12 < 0"
    using div12_unique [of m "m sdiv 12"] b that unfolding r by simp
qed

lemma adjust_month_ok:
  "case adjust_month p of (y, q) \<Rightarrow> q\<lparr>tm_year := y\<rparr> = normal_month p \<and> q\<lparr>tm_mon := tm_mon p\<rparr> = p"
proof (cases "tm_mon p < 0 \<or> tm_mon p > 11")
  case True
  then show ?thesis
    using floor_of_trunc [of "tm_mon p"] by (auto simp: adjust_month_def normal_month_def Let_def)
next
  case False
  then show ?thesis by (auto simp: adjust_month_def normal_month_def)
qed

text \<open>The structure as the month adjustment leaves it.\<close>

definition month_fixed :: "tm \<Rightarrow> tm" where
  "month_fixed p = p\<lparr>tm_mon := tm_mon p mod 12\<rparr>"

lemma adjust_month_eq:
  "adjust_month p = (tm_year p + tm_mon p div 12, month_fixed p)"
proof (cases "tm_mon p < 0 \<or> tm_mon p > 11")
  case True
  then show ?thesis
    using floor_of_trunc [of "tm_mon p"] by (auto simp: adjust_month_def month_fixed_def Let_def)
next
  case False
  then have "tm_mon p div 12 = 0" "tm_mon p mod 12 = tm_mon p" by auto
  with False show ?thesis by (simp add: adjust_month_def month_fixed_def)
qed

lemma normal_month_fixed: "(month_fixed p)\<lparr>tm_year := tm_year p + tm_mon p div 12\<rparr> = normal_month p"
  by (simp add: month_fixed_def normal_month_def)

text \<open>
  The seconds \<open>_make_time_t\<close> computes before the time-zone adjustment: none when the year is
  outside 69..139, before or after the month is normalised, or when a sum leaves \<open>long\<close>.
\<close>

definition cal_secs :: "tm \<Rightarrow> int option" where
  "cal_secs p = (if bad_year (tm_year p) \<or> bad_year (tm_year (normal_month p)) then None
     else exact_secs (normal_month p))"

definition left_behind :: "tm \<Rightarrow> tm" where
  "left_behind p = (if bad_year (tm_year p) then p else month_fixed p)"

lemma make_time_t_eq:
  assumes "tm_ints p"
  shows "make_time_t p ult =
    (case cal_secs p of None \<Rightarrow> Some (-1, left_behind p)
     | Some t \<Rightarrow>
        if ult then
          (let t = wrap32 (t + timezone) in
           case localtime t of None \<Rightarrow> None
           | Some None \<Rightarrow> Some (-1, left_behind p)
           | Some (Some tb) \<Rightarrow>
               if tm_isdst p > 0 \<or> (tm_isdst p < 0 \<and> tm_isdst tb > 0) then
                 (let t = wrap32 (t + dstbias) in
                  case localtime t of Some (Some tb) \<Rightarrow> Some (t, tb) | _ \<Rightarrow> None)
               else Some (t, tb))
        else
          (case gmtime t of None \<Rightarrow> None
           | Some None \<Rightarrow> Some (-1, left_behind p)
           | Some (Some tb) \<Rightarrow> Some (t, tb)))"
proof (cases "bad_year (tm_year p)")
  case True
  then show ?thesis by (simp add: make_time_t_def cal_secs_def left_behind_def)
next
  case ok: False
  let ?y = "tm_year p + tm_mon p div 12"
  have dst: "tm_isdst (month_fixed p) = tm_isdst p" by (simp add: month_fixed_def)
  have ny: "tm_year (normal_month p) = ?y" by (simp add: normal_month_def)
  have inr: "(tm_mon p < 0 \<or> tm_mon p > 11) \<and> bad_year ?y \<longleftrightarrow> bad_year ?y"
  proof (cases "tm_mon p < 0 \<or> tm_mon p > 11")
    case False
    then have "tm_mon p div 12 = 0" by auto
    with False ok show ?thesis by simp
  qed auto
  have u: "utc_secs ?y (month_fixed p) = exact_secs (normal_month p)" if "\<not> bad_year ?y"
  proof -
    have "69 \<le> ?y" "?y \<le> 139" using that by (auto simp: bad_year_def time_consts)
    moreover have "0 \<le> tm_mon (month_fixed p)" "tm_mon (month_fixed p) < 12"
      by (simp_all add: month_fixed_def)
    moreover have "tm_ints (month_fixed p)"
      using assms by (auto simp: tm_ints_def month_fixed_def in32_def layout_simps
          intro: order_trans [of _ 0] order_trans [of _ 12])
    ultimately show ?thesis by (simp add: utc_secs_exact normal_month_fixed)
  qed
  show ?thesis
  proof (cases "bad_year ?y")
    case True
    then have "tm_mon p < 0 \<or> tm_mon p > 11" using inr by blast
    then show ?thesis using True ok
      by (simp add: make_time_t_def adjust_month_eq cal_secs_def ny left_behind_def)
  next
    case False
    show ?thesis
      unfolding make_time_t_def adjust_month_eq prod.case inr
      using u [OF False] ok False
      by (simp only: cal_secs_def ny left_behind_def if_False simp_thms dst)
  qed
qed

section \<open>localtime is UTC+8\<close>

lemma local_carry_ok:
  assumes "valid_tm p" and "tm_mday p < 28"
  shows "valid_tm (local_carry p) \<and> epoch_secs (local_carry p) = epoch_secs p + 28800
    \<and> tm_year (local_carry p) = tm_year p"
proof -
  have v: "0 \<le> tm_sec p" "tm_sec p < 60" "0 \<le> tm_min p" "tm_min p < 60" "0 \<le> tm_hour p"
      "tm_hour p < 24" "tm_wday p = (epoch_day p + BASE_DOW) mod 7" "0 \<le> tm_mon p" "tm_mon p < 12"
    using assms(1) by (auto simp: valid_tm_def)
  have l1: "tm_sec p - timezone = 28800 + tm_sec p" by (simp add: timezone_def)
  have s: "(28800 + tm_sec p) smod 60 = tm_sec p" "(28800 + tm_sec p) sdiv 60 = 480"
    using smod_nonneg [of "28800 + tm_sec p" 60] sdiv_nonneg [of "28800 + tm_sec p" 60]
      int_mod_pos_eq [of "28800 + tm_sec p" 60 480 "tm_sec p"]
      int_div_pos_eq [of "28800 + tm_sec p" 60 480 "tm_sec p"] v(1,2) by auto
  have m: "(tm_min p + 480) smod 60 = tm_min p" "(tm_min p + 480) sdiv 60 = 8"
    using smod_nonneg [of "tm_min p + 480" 60] sdiv_nonneg [of "tm_min p + 480" 60]
      int_mod_pos_eq [of "tm_min p + 480" 60 8 "tm_min p"]
      int_div_pos_eq [of "tm_min p + 480" 60 8 "tm_min p"] v(3,4) by auto
  have h: "(tm_hour p + 8) smod 24 = (tm_hour p + 8) mod 24" "(tm_hour p + 8) sdiv 24 = (tm_hour p + 8) div 24"
    using v by (simp_all add: smod_nonneg sdiv_nonneg)
  let ?p = "p\<lparr>tm_sec := tm_sec p, tm_min := tm_min p, tm_hour := (tm_hour p + 8) mod 24\<rparr>"
  have wd: "0 \<le> tm_wday p" using v by simp
  have lc: "local_carry p = (if 16 \<le> tm_hour p
      then ?p\<lparr>tm_wday := (tm_wday p + 1) mod 7, tm_mday := tm_mday p + 1, tm_yday := tm_yday p + 1\<rparr>
      else ?p)"
  proof (cases "16 \<le> tm_hour p")
    case True
    then have "(tm_hour p + 8) div 24 = 1" using v by simp
    moreover have "(tm_wday p + 1) smod 7 = (tm_wday p + 1) mod 7" using wd by (simp add: smod_nonneg)
    ultimately show ?thesis using True v(1-6)
      by (simp add: local_carry_def isindst_def Let_def l1 s m h)
  next
    case False
    then have "(tm_hour p + 8) div 24 = 0" using v by simp
    then show ?thesis using False v(1-6)
      by (simp add: local_carry_def isindst_def Let_def l1 s m h)
  qed
  have len: "28 \<le> month_len (tm_year p) (nat (tm_mon p))"
  proof -
    have "nat (tm_mon p) < 12" using v by simp
    then show ?thesis by (simp add: month_len_def less_Suc_eq eval_nat_numeral) auto
  qed
  have f: "tm_yday p = days_to_month (tm_year p) (tm_mon p) + tm_mday p - 1" "1 \<le> tm_mday p"
      "tm_isdst p = 0"
    using assms(1) by (auto simp: valid_tm_def)
  show ?thesis
  proof (cases "16 \<le> tm_hour p")
    case True
    define q where "q = ?p\<lparr>tm_wday := (tm_wday p + 1) mod 7, tm_mday := tm_mday p + 1, tm_yday := tm_yday p + 1\<rparr>"
    have h: "(tm_hour p + 8) mod 24 = tm_hour p - 16"
      using v(5,6) True int_mod_pos_eq [of "tm_hour p + 8" 24 1 "tm_hour p - 16"] by simp
    have q: "tm_sec q = tm_sec p" "tm_min q = tm_min p" "tm_hour q = tm_hour p - 16" "tm_mday q = tm_mday p + 1"
        "tm_mon q = tm_mon p" "tm_year q = tm_year p" "tm_yday q = tm_yday p + 1" "tm_isdst q = tm_isdst p"
        "tm_wday q = (tm_wday p + 1) mod 7"
      by (simp_all add: q_def h)
    have e: "epoch_day q = epoch_day p + 1" by (simp add: epoch_day_def q)
    have w: "(tm_wday p + 1) mod 7 = (epoch_day p + 1 + BASE_DOW) mod 7"
      unfolding v(7) by (simp add: mod_simps algebra_simps)
    have "valid_tm q" unfolding valid_tm_def q e w using v(1-6,8,9) f len assms(2) True by linarith
    moreover have "epoch_secs q = epoch_secs p + 28800" unfolding epoch_secs_def q e by simp
    moreover have "local_carry p = q" using True by (simp only: lc q_def if_True)
    ultimately show ?thesis using q(6) by simp
  next
    case False
    define q where "q = ?p"
    have h: "(tm_hour p + 8) mod 24 = tm_hour p + 8"
      using v(5,6) False by simp
    have q: "tm_sec q = tm_sec p" "tm_min q = tm_min p" "tm_hour q = tm_hour p + 8" "tm_mday q = tm_mday p"
        "tm_mon q = tm_mon p" "tm_year q = tm_year p" "tm_yday q = tm_yday p" "tm_isdst q = tm_isdst p"
        "tm_wday q = tm_wday p"
      by (simp_all add: q_def h)
    have e: "epoch_day q = epoch_day p" by (simp only: epoch_day_def q)
    have "valid_tm q" unfolding valid_tm_def q e using v f len assms(2) False by linarith
    moreover have "epoch_secs q = epoch_secs p + 28800" unfolding epoch_secs_def q e by simp
    moreover have "local_carry p = q" using False by (simp only: lc q_def if_False)
    ultimately show ?thesis using q(6) by simp
  qed
qed

lemma epoch_secs_day:
  assumes "valid_tm p"
  shows "epoch_day p * 86400 \<le> epoch_secs p" and "epoch_secs p < epoch_day p * 86400 + 86400"
  using assms by (auto simp: valid_tm_def epoch_secs_def)

lemma end_days:
  assumes p: "valid_tm p" "70 \<le> tm_year p" "tm_year p \<le> 138"
    and t: "epoch_secs p \<le> 3 * DAY_SEC \<or> INT_MAX - 3 * DAY_SEC \<le> epoch_secs p" "epoch_secs p \<le> INT_MAX"
  shows "tm_mday p < 28"
proof -
  let ?y = "tm_year p"
  note b = valid_tm_day_bounds [OF p(1)] and d = epoch_secs_day [OF p(1)]
  have m: "0 \<le> days_to_month ?y (tm_mon p)"
    using p(1) by (intro days_to_month_bounds) (auto simp: valid_tm_def)
  have yd: "tm_yday p = days_to_month ?y (tm_mon p) + tm_mday p - 1" using p(1) by (simp add: valid_tm_def)
  have dty: "days_to_year 70 = 0" "days_to_year 138 = 24837"
    by (simp_all add: days_to_year_range time_consts)
  from t(1) consider "epoch_day p \<le> 3" | "24852 \<le> epoch_day p" "epoch_day p \<le> 24855"
    using d t(2) by (auto simp: time_consts layout_simps)
  then show ?thesis
  proof cases
    case 1
    have "\<not> 70 < ?y"
      using days_to_year_mono [of 70 ?y] 1 b dty by (auto simp: time_consts year_len_def split: if_splits)
    then have "?y = 70" using p by linarith
    then show ?thesis using 1 b dty yd m by simp
  next
    case 2
    have "\<not> ?y < 138"
    proof
      assume "?y < 138"
      moreover have "BASE_YEAR \<le> ?y" using p by (simp add: time_consts)
      ultimately show False using days_to_year_mono [of ?y 138] 2 b dty by linarith
    qed
    then have "?y = 138" using p by linarith
    then show ?thesis using 2 b dty yd m by simp
  qed
qed

lemma localtime_total:
  assumes "0 \<le> t" and "t \<le> INT_MAX"
  shows "\<exists>p. localtime t = Some (Some p) \<and> valid_tm p \<and> epoch_secs p = t + 28800
    \<and> 70 \<le> tm_year p \<and> tm_year p \<le> 138"
proof (cases "t > 3 * DAY_SEC \<and> t < INT_MAX - 3 * DAY_SEC")
  case True
  then have "0 \<le> t - timezone" "t - timezone \<le> INT_MAX" by (auto simp: time_consts timezone_def layout_simps)
  from gmtime_ok [OF this] True assms show ?thesis
    by (auto simp: localtime_def daylight_def timezone_def)
next
  case False
  from gmtime_ok [OF assms] obtain p where p: "gmtime t = Some (Some p)" "valid_tm p" "epoch_secs p = t"
    "70 \<le> tm_year p" "tm_year p \<le> 138" by blast
  have "tm_mday p < 28" using end_days [OF p(2,4,5)] p(3) assms(2) False by auto
  from local_carry_ok [OF p(2) this] have c: "valid_tm (local_carry p)"
      "epoch_secs (local_carry p) = t + 28800" "tm_year (local_carry p) = tm_year p"
    using p(3) by simp_all
  have "localtime t = Some (Some (local_carry p))"
    using assms p(1) by (simp only: localtime_def False if_False) simp
  then show ?thesis using c p by simp
qed

section \<open>Properties of the calendar functions\<close>

text \<open>C37. For every non-negative \<open>time_t\<close>, \<open>gmtime\<close> returns a structure whose fields are in
  range and agree with the Gregorian calendar (day of the year and day of the week included) and
  which denotes that very second; no table is indexed outside its bounds.\<close>

theorem gmtime_correct:
  assumes "0 \<le> t" and "t \<le> INT_MAX"
  shows "\<exists>p. gmtime t = Some (Some p) \<and> valid_tm p \<and> epoch_secs p = t"
  using gmtime_ok [OF assms] by blast

lemma gmtime_correct_witness:
  "(0::int) \<le> 951782400 \<and> (951782400::int) \<le> INT_MAX
   \<and> (\<exists>p. gmtime 951782400 = Some (Some p) \<and> valid_tm p \<and> epoch_secs p = 951782400)"
  using gmtime_correct [of 951782400] by (simp add: layout_simps)

text \<open>\<open>localtime\<close> returns the calendar time of UTC+8 for every non-negative \<open>time_t\<close>, also in
  the first and the last three days, where it carries the eight hours through the fields itself.\<close>

lemma localtime_correct:
  assumes "0 \<le> t" and "t \<le> INT_MAX"
  shows "\<exists>p. localtime t = Some (Some p) \<and> valid_tm p \<and> epoch_secs p = t + 28800"
  using localtime_total [OF assms] by blast

lemma localtime_correct_witness:
  "(0::int) \<le> INT_MAX - 5 \<and> INT_MAX - 5 \<le> INT_MAX
   \<and> (\<exists>p. localtime (INT_MAX - 5) = Some (Some p) \<and> valid_tm p \<and> epoch_secs p = INT_MAX - 5 + 28800)"
  using localtime_correct [of "INT_MAX - 5"] by (simp add: layout_simps)

lemma exact_secs_in32: "exact_secs p = Some t \<Longrightarrow> in32 t \<and> t = epoch_secs p"
  by (auto simp: exact_secs_def epoch_secs_def Let_def split: if_splits)

lemma gmtime_neg: "t < 0 \<Longrightarrow> gmtime t = Some None"
  by (simp add: gmtime_def)

lemma localtime_neg: "t < 0 \<Longrightarrow> localtime t = Some None"
  by (simp add: localtime_def)

text \<open>\<open>_mkgmtime\<close> normalises the month, computes the second the calendar assigns to the
  date and returns it with the normalised structure; it returns -1 exactly when the year is
  outside 1969..2039, an intermediate sum does not fit a \<open>long\<close> or the instant is negative.\<close>

lemma mkgmtime_correct:
  assumes "tm_ints p"
  shows "\<exists>r q. mkgmtime p = Some (r, q)
    \<and> (case cal_secs p of
         Some t \<Rightarrow> if 0 \<le> t then r = t \<and> t = epoch_secs (normal_month p) \<and> valid_tm q \<and> epoch_secs q = t
                  else r = -1 \<and> q = left_behind p
       | None \<Rightarrow> r = -1 \<and> q = left_behind p)"
proof (cases "cal_secs p")
  case None
  then show ?thesis by (simp add: mkgmtime_def make_time_t_eq [OF assms])
next
  case (Some t)
  then have t: "in32 t" "t = epoch_secs (normal_month p)"
    using exact_secs_in32 by (auto simp: cal_secs_def split: if_splits)
  show ?thesis
  proof (cases "0 \<le> t")
    case True
    with gmtime_ok [of t] t Some show ?thesis
      by (auto simp: mkgmtime_def make_time_t_eq [OF assms] in32_def)
  next
    case False
    with Some show ?thesis by (simp add: mkgmtime_def make_time_t_eq [OF assms] gmtime_neg)
  qed
qed

lemma mkgmtime_correct_witness:
  "tm_ints \<lparr>tm_sec = 75, tm_min = -1, tm_hour = 25, tm_mday = 31, tm_mon = 13, tm_year = 123,
      tm_wday = 0, tm_yday = 0, tm_isdst = 0\<rparr>
   \<and> (\<exists>r q. mkgmtime \<lparr>tm_sec = 75, tm_min = -1, tm_hour = 25, tm_mday = 31, tm_mon = 13, tm_year = 123,
      tm_wday = 0, tm_yday = 0, tm_isdst = 0\<rparr> = Some (r, q))"
proof -
  let ?p = "\<lparr>tm_sec = 75, tm_min = -1, tm_hour = 25, tm_mday = 31, tm_mon = 13, tm_year = 123,
      tm_wday = 0, tm_yday = 0, tm_isdst = 0\<rparr>"
  have i: "tm_ints ?p" by (simp add: tm_ints_def in32_def layout_simps)
  with mkgmtime_correct [of ?p] show ?thesis by blast
qed

lemma valid_tm_ints:
  assumes "valid_tm p" and "70 \<le> tm_year p" and "tm_year p \<le> 138"
  shows "tm_ints p"
proof -
  have "nat (tm_mon p) < 12" using assms(1) by (auto simp: valid_tm_def)
  then have "month_len (tm_year p) (nat (tm_mon p)) \<le> 31"
    by (simp add: month_len_def less_Suc_eq eval_nat_numeral) auto
  with assms show ?thesis
    unfolding tm_ints_def by (auto simp: in32_def valid_tm_def layout_simps)
qed

lemma valid_tm_normal: "valid_tm p \<Longrightarrow> normal_month p = p"
  by (auto simp: normal_month_def valid_tm_def div_pos_pos_trivial)

lemma cal_secs_valid:
  assumes p: "valid_tm p" "70 \<le> tm_year p" "tm_year p \<le> 138" "0 \<le> epoch_secs p"
  shows "cal_secs p = (if epoch_secs p \<le> INT_MAX then Some (epoch_secs p) else None)"
proof -
  have "\<not> bad_year (tm_year p)" using p by (simp add: bad_year_def time_consts)
  then have c: "cal_secs p = exact_secs p" by (simp add: cal_secs_def valid_tm_normal [OF p(1)])
  have v: "0 \<le> tm_sec p" "0 \<le> tm_min p" "0 \<le> tm_hour p"
    using p(1) by (auto simp: valid_tm_def)
  note b = epoch_secs_day [OF p(1)]
  have d: "0 \<le> epoch_day p" using b p(4) by linarith
  define x where "x = epoch_day p"
  define h where "h = x * 24 + tm_hour p"
  define m where "m = h * 60 + tm_min p"
  have "0 \<le> x" "0 \<le> x * 24" "0 \<le> h" "0 \<le> h * 60" "0 \<le> m" "0 \<le> m * 60"
    using d v unfolding x_def h_def m_def by simp_all
  moreover have "epoch_secs p = m * 60 + tm_sec p"
    by (simp add: epoch_secs_def x_def h_def m_def)
  moreover from calculation have "x \<le> epoch_secs p" "x * 24 \<le> epoch_secs p" "h \<le> epoch_secs p"
    "h * 60 \<le> epoch_secs p" "m \<le> epoch_secs p" "m * 60 \<le> epoch_secs p"
    using v unfolding h_def m_def by simp_all
  ultimately show ?thesis
    unfolding c exact_secs_def Let_def x_def [symmetric] h_def [symmetric] m_def [symmetric]
    using p(4) by (auto simp: in32_def layout_simps)
qed

text \<open>Round trip: \<open>_mkgmtime\<close> takes every structure \<open>gmtime\<close> produced back to the very
  \<open>time_t\<close> it was made from, and leaves the structure unchanged.\<close>

lemma mkgmtime_gmtime:
  assumes "0 \<le> t" and "t \<le> INT_MAX"
  shows "\<exists>p. gmtime t = Some (Some p) \<and> mkgmtime p = Some (t, p)"
proof -
  from gmtime_ok [OF assms] obtain p where p: "gmtime t = Some (Some p)" "valid_tm p"
    "epoch_secs p = t" "70 \<le> tm_year p" "tm_year p \<le> 138" by blast
  have "cal_secs p = Some t" using cal_secs_valid [OF p(2,4,5)] p(3) assms by simp
  then show ?thesis
    using p(1) by (simp add: mkgmtime_def make_time_t_eq [OF valid_tm_ints [OF p(2,4,5)]])
qed

lemma mkgmtime_gmtime_witness:
  "(0::int) \<le> 1709164800 \<and> 1709164800 \<le> INT_MAX
   \<and> (\<exists>p. gmtime 1709164800 = Some (Some p) \<and> mkgmtime p = Some (1709164800, p))"
  using mkgmtime_gmtime [of 1709164800] by (simp add: layout_simps)

text \<open>C38. \<open>mktime\<close> is the inverse of \<open>localtime\<close> for every \<open>time_t\<close> up to 2147454847; the
  structures \<open>localtime\<close> produces in the last eight hours of the range come back as -1, because the
  seconds are summed before the time zone is subtracted.\<close>

theorem mktime_localtime:
  assumes "0 \<le> t" and "t \<le> INT_MAX"
  shows "\<exists>p. localtime t = Some (Some p)
    \<and> mktime p = Some (if t \<le> INT_MAX - 28800 then (t, p) else (-1, p))"
proof -
  from localtime_total [OF assms] obtain p where p: "localtime t = Some (Some p)" "valid_tm p"
    "epoch_secs p = t + 28800" "70 \<le> tm_year p" "tm_year p \<le> 138" by blast
  have c: "cal_secs p = (if t \<le> INT_MAX - 28800 then Some (t + 28800) else None)"
    using cal_secs_valid [OF p(2,4,5)] p(3) assms by simp
  have f: "tm_isdst p = 0" "month_fixed p = p" "\<not> bad_year (tm_year p)"
    using p(2,4,5) by (auto simp: valid_tm_def month_fixed_def bad_year_def time_consts)
  have "wrap32 (t + 28800 + timezone) = t" using assms by (simp add: timezone_def layout_simps)
  then show ?thesis
    using p(1) f by (simp add: mktime_def make_time_t_eq [OF valid_tm_ints [OF p(2,4,5)]] c left_behind_def)
qed

lemma mktime_localtime_witness:
  "(0::int) \<le> 2147454847 \<and> 2147454847 \<le> INT_MAX
   \<and> (\<exists>p. localtime 2147454847 = Some (Some p)
        \<and> mktime p = Some (if 2147454847 \<le> INT_MAX - 28800 then (2147454847, p) else (-1, p)))"
  using mktime_localtime [of 2147454847] by (simp add: layout_simps)

text \<open>A caller's structure with \<open>tm_isdst\<close> positive that denotes an instant in the first
  hour after the epoch makes \<open>mktime\<close> dereference the null pointer of its second
  \<open>localtime\<close> call, which the code does not test.\<close>

lemma mktime_dst_null:
  assumes "tm_ints p" and "cal_secs p = Some t" and "28800 \<le> t" and "t < 32400" and "0 < tm_isdst p"
  shows "mktime p = None"
proof -
  have t: "wrap32 (t + timezone) = t - 28800" "wrap32 (t - 28800 + dstbias) = t - 32400"
    using assms by (simp_all add: timezone_def dstbias_def layout_simps)
  from localtime_total [of "t - 28800"] assms(3,4) obtain q where "localtime (t - 28800) = Some (Some q)"
    by (auto simp: layout_simps)
  then show ?thesis
    using assms(2,4,5) by (simp add: mktime_def make_time_t_eq [OF assms(1)] Let_def t localtime_neg)
qed

lemma mktime_dst_null_witness:
  "mktime \<lparr>tm_sec = 0, tm_min = 30, tm_hour = 8, tm_mday = 1, tm_mon = 0, tm_year = 70,
      tm_wday = 4, tm_yday = 0, tm_isdst = 1\<rparr> = None"
proof -
  let ?p = "\<lparr>tm_sec = 0, tm_min = 30, tm_hour = 8, tm_mday = 1, tm_mon = 0, tm_year = 70,
      tm_wday = 4, tm_yday = 0, tm_isdst = 1\<rparr>"
  have i: "tm_ints ?p" by (simp add: tm_ints_def in32_def layout_simps)
  have e: "epoch_day ?p = 0" by (simp add: epoch_day_def days_to_year_def days_to_month_def time_consts)
  have s: "cal_secs ?p = Some 30600"
    by (simp add: cal_secs_def bad_year_def normal_month_def time_consts exact_secs_def Let_def e
        epoch_secs_def in32_def layout_simps)
  show ?thesis by (rule mktime_dst_null [OF i s]) simp_all
qed

lemma wrap32_if:
  "(if c then wrap32 (wrap32 (a + b) + 1) else wrap32 (a + b)) = wrap32 (a + (if c then b + 1 else b))"
  by (simp add: add.assoc)

lemma wrap32_wrap_right: "wrap32 (x + wrap32 y) = wrap32 (x + y)"
  using wrap32_wrap_left [of y x] by (simp only: add.commute)

lemma gmtotime_t_step: "wrap32 (wrap32 (wrap32 t * k) + r) = wrap32 (t * k + r)"
proof -
  obtain j where j: "wrap32 t = t - j * 2 ^ 32" using wrap32_diff by blast
  have "wrap32 (wrap32 (wrap32 t * k) + r) = wrap32 (wrap32 t * k + r)" by simp
  also have "wrap32 t * k + r + 2 ^ 31 = (t * k + r + 2 ^ 31) + (- j * k) * 2 ^ 32"
    by (simp add: j algebra_simps)
  then have "wrap32 (wrap32 t * k + r) = wrap32 (t * k + r)"
    unfolding wrap32_def by (simp only: mod_mult_self1)
  finally show ?thesis .
qed

text \<open>\<open>_gmtotime_t\<close> applied to the fields of a local time (with the full year and the
  month from 1, as its callers pass them) recovers the \<open>time_t\<close>, over the whole range:
  unlike \<open>mktime\<close> it lets the intermediate sums wrap.\<close>

lemma gmtotime_t_localtime:
  assumes "0 \<le> t" and "t \<le> INT_MAX"
  shows "\<exists>p. localtime t = Some (Some p)
    \<and> gmtotime_t (tm_year p + 1900) (tm_mon p + 1) (tm_mday p) (tm_hour p) (tm_min p) (tm_sec p) = Some t"
proof -
  from localtime_total [OF assms] obtain p where p: "localtime t = Some (Some p)" "valid_tm p"
    "epoch_secs p = t + 28800" "70 \<le> tm_year p" "tm_year p \<le> 138" by blast
  let ?y = "tm_year p" and ?m = "tm_mon p"
  have v: "0 \<le> ?m" "?m < 12" using p(2) by (auto simp: valid_tm_def)
  have i: "in32 (tm_mday p)" using valid_tm_ints [OF p(2,4,5)] by (simp add: tm_ints_def)
  let ?d = "ydays ! nat ?m" and ?b = "(?y - BASE_YEAR) * 365 + drop_bit 2 (?y - 1) - LEAP_YEAR_ADJUST"
  let ?D = "if ?y AND 3 = 0 \<and> ?m > 1 then wrap32 (wrap32 (tm_mday p + ?d) + 1) else wrap32 (tm_mday p + ?d)"
  have D: "wrap32 (?b + ?D) = wrap32 (epoch_day p)"
  proof -
    have "?D = wrap32 (tm_mday p + (if ?y AND 3 = 0 \<and> ?m > 1 then ?d + 1 else ?d))"
      by (rule wrap32_if)
    then have "wrap32 (?b + ?D) = wrap32 (?b + (tm_mday p + (if ?y AND 3 = 0 \<and> ?m > 1 then ?d + 1 else ?d)))"
      by (simp only: wrap32_wrap_right)
    also have "\<dots> = wrap32 (days_before ?y ?m + tm_mday p)"
      by (simp add: days_before_def Let_def algebra_simps)
    also have "\<dots> = wrap32 (epoch_day p)"
      using days_before_ok [of ?y ?m] p(4,5) v by (intro arg_cong [of _ _ wrap32]) (simp add: epoch_day_def)
    finally show ?thesis .
  qed
  have "wrap32 (wrap32 (epoch_secs p) + timezone) = t"
    using assms unfolding wrap32_wrap_left by (simp add: p(3) timezone_def layout_simps)
  then have e: "wrap32 (wrap32 ((((epoch_day p * 24 + tm_hour p) * 60 + tm_min p) * 60) + tm_sec p) + timezone) = t"
    by (simp only: epoch_secs_def)
  have y: "wrap32 (?y + 1900 - 1900) = ?y" "\<not> (?y < BASE_YEAR \<or> MAX_YEAR < ?y)"
      "\<not> (?m + 1 < 1 \<or> 13 < ?m + 1)" "2 < ?m + 1 \<longleftrightarrow> 1 < ?m" "?m + 1 - 1 = ?m"
    using p(4,5) v by (auto simp: time_consts layout_simps)
  have "gmtotime_t (?y + 1900) (?m + 1) (tm_mday p) (tm_hour p) (tm_min p) (tm_sec p) = Some t"
    by (simp only: gmtotime_t_def Let_def y if_False, simp only: D, simp only: gmtotime_t_step,
        simp only: e assms(1) if_True)
  with p(1) show ?thesis by blast
qed

lemma gmtotime_t_localtime_witness:
  "(0::int) \<le> INT_MAX \<and> INT_MAX \<le> INT_MAX
   \<and> (\<exists>p. localtime INT_MAX = Some (Some p)
    \<and> gmtotime_t (tm_year p + 1900) (tm_mon p + 1) (tm_mday p) (tm_hour p) (tm_min p) (tm_sec p) = Some INT_MAX)"
  using gmtotime_t_localtime [of INT_MAX] by (simp add: layout_simps)

end
