(* ===== verification/IntQueue.thy ===== *)
theory IntQueue
  imports Prelude
begin

text \<open>
  The Lua interrupt queue, \<open>platform/src/elua_int.c\<close>, and the functions of \<open>modules/src/cpu.c\<close>
  that drive it. An interrupt handler of the platform calls \<open>elua_int_add\<close>; the Lua VM calls
  \<open>elua_int_hook\<close> between two byte codes while the hook is set. The two indices chase each other
  round a ring of 32 slots in which the id 0 marks an empty slot; there is no count. The theory
  shows that the ring is a bounded FIFO of the pending interrupts, that the hook is set exactly while
  it is not empty and that a handler which raises interrupts itself does not break this.
\<close>

section \<open>State\<close>

definition ELUA_INT_EMPTY_SLOT :: u8 where "ELUA_INT_EMPTY_SLOT = 0"
definition ELUA_INT_FIRST_ID :: u8 where "ELUA_INT_FIRST_ID = 1"
definition INT_ELUA_LAST :: u8 where "INT_ELUA_LAST = 2"
definition LUA_INT_MAX_SOURCES :: u8 where "LUA_INT_MAX_SOURCES = 128"
definition INT_IDX_SHIFT :: nat where "INT_IDX_SHIFT = 5"
definition INT_IDX_MASK :: u8 where "INT_IDX_MASK = push_bit INT_IDX_SHIFT 1 - 1"

lemmas int_consts = ELUA_INT_EMPTY_SLOT_def ELUA_INT_FIRST_ID_def INT_ELUA_LAST_def
  LUA_INT_MAX_SOURCES_def INT_IDX_SHIFT_def INT_IDX_MASK_def


record elua_int_element =
  ie_id :: u8
  ie_resnum :: u16

text \<open>
  The static variables of the file; \<open>iq_hook\<close> tells whether \<open>elua_int_hook\<close> is the hook of the
  Lua state and \<open>iq_lua\<close> whether there is a Lua state.
\<close>

record int_state =
  iq_read :: u8
  iq_write :: u8
  iq_queue :: "elua_int_element list"
  iq_flags :: "u32 list"
  iq_hook :: bool
  iq_lua :: bool

section \<open>Operations\<close>

definition elua_int_is_enabled :: "int_state \<Rightarrow> u8 \<Rightarrow> bool" where
  "elua_int_is_enabled s inttype =
     (if inttype < LUA_INT_MAX_SOURCES
      then iq_flags s ! unat (drop_bit 5 inttype) AND push_bit (unat (inttype AND 0x1F)) 1 \<noteq> 0
      else False)"

definition elua_int_enable :: "u8 \<Rightarrow> int_state \<Rightarrow> int_state" where
  "elua_int_enable inttype s =
     (if inttype < LUA_INT_MAX_SOURCES
      then let w = unat (drop_bit 5 inttype) in
           s\<lparr>iq_flags := (iq_flags s)[w := iq_flags s ! w OR push_bit (unat (inttype AND 0x1F)) 1]\<rparr>
      else s)"

definition elua_int_disable :: "u8 \<Rightarrow> int_state \<Rightarrow> int_state" where
  "elua_int_disable inttype s =
     (if inttype < LUA_INT_MAX_SOURCES
      then let w = unat (drop_bit 5 inttype) in
           s\<lparr>iq_flags := (iq_flags s)[w := iq_flags s ! w AND NOT (push_bit (unat (inttype AND 0x1F)) 1)]\<rparr>
      else s)"

fun clear_flags :: "nat \<Rightarrow> u32 list \<Rightarrow> u32 list" where
  "clear_flags 0 fl = fl"
| "clear_flags (Suc i) fl = (clear_flags i fl)[i := 0]"

definition elua_int_disable_all :: "int_state \<Rightarrow> int_state" where
  "elua_int_disable_all s = s\<lparr>iq_flags := clear_flags (unat (drop_bit 5 LUA_INT_MAX_SOURCES)) (iq_flags s)\<rparr>"

definition elua_int_cleanup :: "int_state \<Rightarrow> int_state" where
  "elua_int_cleanup s =
     (elua_int_disable_all s)\<lparr>iq_read := 0, iq_write := 0,
        iq_queue := replicate (length (iq_queue s)) \<lparr>ie_id = 0, ie_resnum = 0\<rparr>\<rparr>"

definition elua_int_add :: "u8 \<Rightarrow> u16 \<Rightarrow> int_state \<Rightarrow> int_state \<times> int" where
  "elua_int_add inttype resnum s =
     (if inttype < ELUA_INT_FIRST_ID \<or> inttype > INT_ELUA_LAST then (s, PLATFORM_ERR)
      else if \<not> iq_lua s \<or> \<not> elua_int_is_enabled s inttype then (s, PLATFORM_ERR)
      else if ie_id (iq_queue s ! unat (iq_write s)) \<noteq> ELUA_INT_EMPTY_SLOT then (s, PLATFORM_ERR)
      else
        (s\<lparr>iq_queue := (iq_queue s)[unat (iq_write s) := \<lparr>ie_id = inttype, ie_resnum = resnum\<rparr>],
           iq_write := (iq_write s + 1) AND INT_IDX_MASK, iq_hook := True\<rparr>, PLATFORM_OK))"

text \<open>
  The hook. \<open>handler crt\<close> is the effect the Lua function found in the handler table has on this
  state, \<open>None\<close> when the table holds \<open>nil\<close>; the second component is the interrupt handed to Lua.
\<close>

definition elua_int_hook ::
  "(elua_int_element \<Rightarrow> (int_state \<Rightarrow> int_state) option) \<Rightarrow> int_state \<Rightarrow> int_state \<times> elua_int_element option" where
  "elua_int_hook handler s =
     (let r = unat (iq_read s); crt = iq_queue s ! r;
          s1 = s\<lparr>iq_queue := (iq_queue s)[r := (iq_queue s ! r)\<lparr>ie_id := ELUA_INT_EMPTY_SLOT\<rparr>],
                 iq_read := (iq_read s + 1) AND INT_IDX_MASK\<rparr>;
          (s2, out) = (if elua_int_is_enabled s1 (ie_id crt)
                       then (case handler crt of Some h \<Rightarrow> (h s1, Some crt) | None \<Rightarrow> (s1, None))
                       else (s1, None));
          s3 = (if ie_id (iq_queue s2 ! unat (iq_read s2)) = ELUA_INT_EMPTY_SLOT
                then s2\<lparr>iq_hook := False\<rparr> else s2)
      in (s3, out))"

section \<open>C interrupt handlers\<close>

text \<open>The handler list, by position; \<open>None\<close> is the null pointer.\<close>

definition elua_int_set_c_handler :: "u8 \<Rightarrow> 'h option \<Rightarrow> 'h option list \<Rightarrow> 'h option list \<times> 'h option" where
  "elua_int_set_c_handler inttype phandler hl =
     (if inttype < ELUA_INT_FIRST_ID \<or> inttype > INT_ELUA_LAST then (hl, None)
      else let i = unat (inttype - ELUA_INT_FIRST_ID) in (hl[i := phandler], hl ! i))"

definition elua_int_get_c_handler :: "u8 \<Rightarrow> 'h option list \<Rightarrow> 'h option" where
  "elua_int_get_c_handler inttype hl =
     (if inttype < ELUA_INT_FIRST_ID \<or> inttype > INT_ELUA_LAST then None
      else hl ! unat (inttype - ELUA_INT_FIRST_ID))"

text \<open>\<open>cmn_int_handler\<close> of \<open>platform/src/common.c\<close>: queue for Lua, then run the C handler.\<close>

definition cmn_int_handler ::
  "(u16 \<Rightarrow> int_state \<Rightarrow> int_state) option list \<Rightarrow> u8 \<Rightarrow> u16 \<Rightarrow> int_state \<Rightarrow> int_state" where
  "cmn_int_handler hl intid resnum s =
     (let s1 = fst (elua_int_add intid resnum s) in
      case elua_int_get_c_handler intid hl of Some phnd \<Rightarrow> phnd resnum s1 | None \<Rightarrow> s1)"

section \<open>Dispatch of common.c and the cpu module\<close>

text \<open>An entry of \<open>elua_int_table\<close>: each function pointer may be null.\<close>

record elua_int_descriptor =
  int_set_status :: "(u16 \<Rightarrow> int \<Rightarrow> int) option"
  int_get_status :: "(u16 \<Rightarrow> int) option"
  int_get_flag :: "(u16 \<Rightarrow> int \<Rightarrow> int) option"

definition PLATFORM_INT_INVALID :: int where "PLATFORM_INT_INVALID = -2"
definition PLATFORM_INT_NOT_HANDLED :: int where "PLATFORM_INT_NOT_HANDLED = -3"
definition PLATFORM_INT_BAD_RESNUM :: int where "PLATFORM_INT_BAD_RESNUM = -4"

text \<open>This build has no timer-match interrupt, so \<open>INT_TMR_MATCH\<close> is the invalid id and the
  \<open>cmn_tmr_int\<close> branches are dead.\<close>

definition platform_cpu_set_interrupt :: "elua_int_descriptor list \<Rightarrow> u8 \<Rightarrow> u16 \<Rightarrow> int \<Rightarrow> int" where
  "platform_cpu_set_interrupt tbl intid resnum status =
     (if intid < ELUA_INT_FIRST_ID \<or> intid > INT_ELUA_LAST then PLATFORM_INT_INVALID
      else case int_set_status (tbl ! unat (intid - ELUA_INT_FIRST_ID)) of
        None \<Rightarrow> PLATFORM_INT_NOT_HANDLED | Some ps \<Rightarrow> ps resnum status)"

definition platform_cpu_get_interrupt :: "elua_int_descriptor list \<Rightarrow> u8 \<Rightarrow> u16 \<Rightarrow> int" where
  "platform_cpu_get_interrupt tbl intid resnum =
     (if intid < ELUA_INT_FIRST_ID \<or> intid > INT_ELUA_LAST then PLATFORM_INT_INVALID
      else case int_get_status (tbl ! unat (intid - ELUA_INT_FIRST_ID)) of
        None \<Rightarrow> PLATFORM_INT_NOT_HANDLED | Some pg \<Rightarrow> pg resnum)"

definition platform_cpu_get_interrupt_flag :: "elua_int_descriptor list \<Rightarrow> u8 \<Rightarrow> u16 \<Rightarrow> int \<Rightarrow> int" where
  "platform_cpu_get_interrupt_flag tbl intid resnum clr =
     (if intid < ELUA_INT_FIRST_ID \<or> intid > INT_ELUA_LAST then PLATFORM_INT_INVALID
      else case int_get_flag (tbl ! unat (intid - ELUA_INT_FIRST_ID)) of
        None \<Rightarrow> PLATFORM_INT_NOT_HANDLED | Some pf \<Rightarrow> pf resnum clr)"

text \<open>
  The handler table in the Lua registry maps an id to a function (\<open>None\<close> is \<open>nil\<close>);
  \<open>cpu.set_int_handler\<close> stores the function, sets the enable flag to match and returns the
  previous function. \<open>Inl\<close> is \<open>luaL_error\<close>. The argument is nil (\<open>Some None\<close>), a function
  or anything else (\<open>None\<close>).
\<close>

definition cpu_set_int_handler ::
  "int \<Rightarrow> 'f option option \<Rightarrow> (int \<Rightarrow> 'f option) \<times> int_state \<Rightarrow> string + ('f option \<times> (int \<Rightarrow> 'f option) \<times> int_state)" where
  "cpu_set_int_handler intid f st =
     (case st of (tab, s) \<Rightarrow>
      if intid < uint ELUA_INT_FIRST_ID \<or> intid > uint INT_ELUA_LAST then Inl ''invalid interrupt ID''
      else case f of
        None \<Rightarrow> Inl ''invalid handler type (must be a function or nil)''
      | Some h \<Rightarrow>
          Inr (tab intid, tab(intid := h),
               if h = None then elua_int_disable (word_of_int intid) s else elua_int_enable (word_of_int intid) s))"

section \<open>The bounded queue of pending interrupts\<close>

definition iq_ring :: "int_state \<Rightarrow> elua_int_element list" where
  "iq_ring s = rotate (unat (iq_read s)) (iq_queue s)"

definition used :: "elua_int_element \<Rightarrow> bool" where
  "used e \<longleftrightarrow> ie_id e \<noteq> 0"

definition iq_pending :: "int_state \<Rightarrow> elua_int_element list" where
  "iq_pending s = takeWhile used (iq_ring s)"

definition iq_inv :: "int_state \<Rightarrow> bool" where
  "iq_inv s \<longleftrightarrow> length (iq_queue s) = 32 \<and> length (iq_flags s) = 4 \<and> unat (iq_read s) < 32
     \<and> (\<forall>e\<in>set (dropWhile used (iq_ring s)). \<not> used e)
     \<and> unat (iq_write s) = (unat (iq_read s) + length (iq_pending s)) mod 32
     \<and> (\<forall>e\<in>set (iq_pending s). ie_id e \<le> INT_ELUA_LAST)
     \<and> (iq_pending s \<noteq> [] \<longrightarrow> iq_hook s)"

lemma used_simps [simp]: "used \<lparr>ie_id = i, ie_resnum = r\<rparr> \<longleftrightarrow> i \<noteq> 0" "\<not> used (e\<lparr>ie_id := 0\<rparr>)"
  by (simp_all add: used_def)

lemma length_iq_ring [simp]: "length (iq_ring s) = length (iq_queue s)"
  by (simp add: iq_ring_def)

lemma iq_ring_hook [simp]: "iq_ring (s\<lparr>iq_hook := h\<rparr>) = iq_ring s"
  by (simp add: iq_ring_def)

lemma iq_pending_hook [simp]: "iq_pending (s\<lparr>iq_hook := h\<rparr>) = iq_pending s"
  by (simp add: iq_pending_def)

lemma set_tl: "set (tl xs) \<subseteq> set xs"
  by (cases xs) auto

lemma idx_incr: "unat (r :: u8) < 32 \<Longrightarrow> unat ((r + 1) AND INT_IDX_MASK) = Suc (unat r) mod 32"
proof -
  assume "unat r < 32"
  then have "unat (r + 1) = Suc (unat r)" by (simp add: unat_word_ariths)
  moreover have "(r + 1) AND INT_IDX_MASK = take_bit 5 (r + 1)"
    by (simp add: take_bit_eq_mask mask_eq_exp_minus_1 int_consts)
  ultimately show ?thesis by (simp add: unsigned_take_bit_eq take_bit_eq_mod unat_mod_distrib)
qed

text \<open>Filling the first empty slot, and emptying the first used one.\<close>

lemma takeWhile_fill:
  assumes "k = length (takeWhile P xs)" and "k < length xs" and "P e"
    and "\<forall>x\<in>set (dropWhile P xs). \<not> P x"
  shows "takeWhile P (xs[k := e]) = takeWhile P xs @ [e]"
    and "dropWhile P (xs[k := e]) = tl (dropWhile P xs)"
proof -
  let ?t = "takeWhile P xs"
  obtain d ds where d: "dropWhile P xs = d # ds"
    using assms(1,2) by (metis append_Nil2 list.exhaust takeWhile_dropWhile_id nat_neq_iff)
  have "xs = ?t @ d # ds" using takeWhile_dropWhile_id [of P xs] d by simp
  then have "xs[k := e] = ?t @ e # ds"
    unfolding assms(1) by (metis list_update_length)
  moreover have t: "\<forall>x\<in>set ?t. P x" by (auto dest: set_takeWhileD)
  moreover have "takeWhile P ds = []" "dropWhile P ds = ds"
    using assms(4) d by (cases ds; simp)+
  ultimately show "takeWhile P (xs[k := e]) = ?t @ [e]" "dropWhile P (xs[k := e]) = tl (dropWhile P xs)"
    using assms(3) d by simp_all
qed

lemma takeWhile_pop:
  assumes "xs = p # rs" and "P p" and "\<not> P e" and "\<forall>x\<in>set (dropWhile P xs). \<not> P x"
  shows "takeWhile P (rs @ [e]) = tl (takeWhile P xs)"
    and "dropWhile P (rs @ [e]) = dropWhile P xs @ [e]"
proof -
  have "dropWhile P (rs @ [e]) = dropWhile P rs @ [e]"
    using assms(3) by (induction rs) auto
  moreover have "takeWhile P (rs @ [e]) = takeWhile P rs"
    using assms(3) by (induction rs) auto
  ultimately show "takeWhile P (rs @ [e]) = tl (takeWhile P xs)"
      "dropWhile P (rs @ [e]) = dropWhile P xs @ [e]"
    unfolding assms(1) using assms(2) by simp_all
qed

lemma length_pending: "iq_inv s \<Longrightarrow> length (iq_pending s) \<le> 32"
  using length_takeWhile_le [of used "iq_ring s"] by (simp add: iq_inv_def iq_pending_def)

lemma slot_of_write:
  assumes "iq_inv s"
  shows "used (iq_queue s ! unat (iq_write s)) \<longleftrightarrow> length (iq_pending s) = 32"
proof -
  let ?k = "length (iq_pending s)"
  have i: "length (iq_queue s) = 32" "unat (iq_write s) = (unat (iq_read s) + ?k) mod 32"
    and d: "\<forall>e\<in>set (dropWhile used (iq_ring s)). \<not> used e"
    using assms by (auto simp: iq_inv_def)
  show ?thesis
  proof (cases "?k < 32")
    case True
    then have "iq_queue s ! unat (iq_write s) = iq_ring s ! ?k"
      using i by (simp add: iq_ring_def nth_rotate add.commute)
    also have "\<not> used \<dots>"
      using nth_length_takeWhile [of used "iq_ring s"] True i(1) by (simp add: iq_pending_def)
    finally show ?thesis using True by simp
  next
    case False
    then have k: "?k = 32" using length_pending [OF assms] by simp
    then have "iq_pending s = iq_ring s"
      using i(1) takeWhile_eq_take [of used "iq_ring s"] by (simp add: iq_pending_def)
    then have "\<forall>e\<in>set (iq_queue s). used e"
      by (metis iq_pending_def iq_ring_def set_rotate set_takeWhileD)
    moreover have "unat (iq_write s) < length (iq_queue s)" using i by simp
    ultimately show ?thesis using k by simp
  qed
qed

lemma ring_write:
  assumes "iq_inv s" and "length (iq_pending s) < 32"
  shows "rotate (unat (iq_read s)) ((iq_queue s)[unat (iq_write s) := e])
     = (iq_ring s)[length (iq_pending s) := e]"
  using assms rotate_update [of "length (iq_pending s)" "iq_queue s" "unat (iq_read s)" e]
  by (simp add: iq_inv_def iq_ring_def)

section \<open>Each operation on the queue\<close>

definition add_accepts :: "int_state \<Rightarrow> u8 \<Rightarrow> bool" where
  "add_accepts s i \<longleftrightarrow> ELUA_INT_FIRST_ID \<le> i \<and> i \<le> INT_ELUA_LAST \<and> iq_lua s
     \<and> elua_int_is_enabled s i \<and> length (iq_pending s) < 32"

lemma elua_int_add_ok:
  assumes "iq_inv s"
  shows "iq_inv (fst (elua_int_add i r s))
    \<and> (if add_accepts s i
       then snd (elua_int_add i r s) = PLATFORM_OK
         \<and> iq_pending (fst (elua_int_add i r s)) = iq_pending s @ [\<lparr>ie_id = i, ie_resnum = r\<rparr>]
       else elua_int_add i r s = (s, PLATFORM_ERR))
    \<and> iq_flags (fst (elua_int_add i r s)) = iq_flags s"
proof (cases "add_accepts s i")
  case False
  then have "elua_int_add i r s = (s, PLATFORM_ERR)"
    using slot_of_write [OF assms] length_pending [OF assms]
    by (auto simp: add_accepts_def elua_int_add_def used_def ELUA_INT_EMPTY_SLOT_def not_less)
  with False assms show ?thesis by simp
next
  case True
  let ?e = "\<lparr>ie_id = i, ie_resnum = r\<rparr>" and ?k = "length (iq_pending s)"
  let ?s = "s\<lparr>iq_queue := (iq_queue s)[unat (iq_write s) := ?e],
           iq_write := (iq_write s + 1) AND INT_IDX_MASK, iq_hook := True\<rparr>"
  have inv: "length (iq_queue s) = 32" "unat (iq_read s) < 32" "length (iq_flags s) = 4"
      "\<forall>e\<in>set (dropWhile used (iq_ring s)). \<not> used e"
      "unat (iq_write s) = (unat (iq_read s) + ?k) mod 32"
      "\<forall>e\<in>set (iq_pending s). ie_id e \<le> INT_ELUA_LAST"
    using assms by (auto simp: iq_inv_def)
  have k: "?k < 32" and i: "i \<noteq> 0" "i \<le> INT_ELUA_LAST" "\<not> i < ELUA_INT_FIRST_ID" "\<not> INT_ELUA_LAST < i"
    using True by (auto simp: add_accepts_def int_consts not_less)
  have run: "elua_int_add i r s = (?s, PLATFORM_OK)"
    using True slot_of_write [OF assms] k i
    by (simp add: elua_int_add_def add_accepts_def used_def ELUA_INT_EMPTY_SLOT_def)
  have ring: "iq_ring ?s = (iq_ring s)[?k := ?e]"
    using ring_write [OF assms k] by (simp add: iq_ring_def)
  have "?k = length (takeWhile used (iq_ring s))" by (simp add: iq_pending_def)
  from takeWhile_fill [OF this _ _ inv(4), of ?e] k inv(1) i(1)
  have pend: "iq_pending ?s = iq_pending s @ [?e]"
    and rest: "dropWhile used (iq_ring ?s) = tl (dropWhile used (iq_ring s))"
    unfolding iq_pending_def ring by simp_all
  have "unat ((iq_write s + 1) AND INT_IDX_MASK) = Suc (unat (iq_write s)) mod 32"
    by (rule idx_incr) (simp add: inv(5))
  also have "\<dots> = (unat (iq_read s) + Suc ?k) mod 32" by (simp add: inv(5) mod_Suc_eq)
  finally have "iq_inv ?s"
    unfolding iq_inv_def pend rest using inv i(2) set_tl [of "dropWhile used (iq_ring s)"] by auto
  then show ?thesis using True pend by (simp add: run)
qed

text \<open>The state after the hook has taken the oldest element out, before the handler runs.\<close>

definition iq_popped :: "int_state \<Rightarrow> int_state" where
  "iq_popped s = s\<lparr>iq_queue := (iq_queue s)[unat (iq_read s) := (iq_queue s ! unat (iq_read s))\<lparr>ie_id := 0\<rparr>],
     iq_read := (iq_read s + 1) AND INT_IDX_MASK\<rparr>"

lemma iq_popped_ok:
  assumes "iq_inv s" and "iq_pending s = p # ps"
  shows "iq_queue s ! unat (iq_read s) = p" and "iq_pending (iq_popped s) = ps"
    and "iq_inv (iq_popped s)"
    and "iq_flags (iq_popped s) = iq_flags s" and "iq_lua (iq_popped s) = iq_lua s"
proof -
  let ?r = "unat (iq_read s)" and ?s = "iq_popped s"
  have inv: "length (iq_queue s) = 32" "?r < 32" "length (iq_flags s) = 4"
      "\<forall>e\<in>set (dropWhile used (iq_ring s)). \<not> used e"
      "unat (iq_write s) = (?r + length (iq_pending s)) mod 32"
      "\<forall>e\<in>set (iq_pending s). ie_id e \<le> INT_ELUA_LAST"
    using assms(1) by (auto simp: iq_inv_def)
  define rs where "rs = tl (iq_ring s)"
  have hd: "iq_ring s = iq_queue s ! ?r # rs"
    unfolding rs_def iq_ring_def by (rule rotate_head) (simp add: inv)
  have used: "used (iq_queue s ! ?r)" and p: "iq_queue s ! ?r = p"
    using assms(2) unfolding iq_pending_def hd by (auto split: if_splits)
  show "iq_queue s ! ?r = p" by (rule p)
  let ?e = "(iq_queue s ! ?r)\<lparr>ie_id := 0\<rparr>"
  have read: "unat ((iq_read s + 1) AND INT_IDX_MASK) = Suc ?r mod 32" by (rule idx_incr [OF inv(2)])
  have up: "rotate ?r ((iq_queue s)[?r := ?e]) = ?e # rs"
    using rotate_update [of 0 "iq_queue s" ?r ?e] inv hd by (simp add: iq_ring_def)
  have "rotate (Suc ?r mod 32) ((iq_queue s)[?r := ?e]) = rotate (Suc ?r) ((iq_queue s)[?r := ?e])"
    using rotate_Suc_mod [of ?r "(iq_queue s)[?r := ?e]"] inv(1) by simp
  also have "\<dots> = rs @ [?e]"
    using rotate_Suc_tl [of ?r "(iq_queue s)[?r := ?e]"] inv(1,2) up by simp
  finally have ring: "iq_ring ?s = rs @ [?e]" by (simp add: iq_ring_def iq_popped_def read)
  note pop = takeWhile_pop [OF hd used _ inv(4), of ?e, simplified]
  show pend: "iq_pending ?s = ps"
    using pop(1) assms(2) unfolding iq_pending_def ring by (simp add: iq_pending_def)
  have "Suc (?r + length ps) mod 32 = (Suc ?r mod 32 + length ps) mod 32" by (simp add: mod_simps)
  then have w: "unat (iq_write s) = (Suc ?r mod 32 + length ps) mod 32" using inv(5) assms(2) by simp
  have d: "\<forall>e\<in>set (dropWhile used (iq_ring ?s)). \<not> used e"
    unfolding ring pop(2) using inv(4) by simp
  show "iq_inv ?s"
  proof -
    have "length (iq_queue ?s) = 32" "length (iq_flags ?s) = 4" "unat (iq_read ?s) = Suc ?r mod 32"
        "iq_write ?s = iq_write s" "iq_hook ?s"
      using inv(1,3) assms by (simp_all add: iq_popped_def read iq_inv_def)
    moreover have "\<forall>e\<in>set ps. ie_id e \<le> INT_ELUA_LAST" using inv(6) assms(2) by simp
    ultimately show ?thesis using pend d w by (simp add: iq_inv_def)
  qed
  show "iq_flags ?s = iq_flags s" "iq_lua ?s = iq_lua s" by (simp_all add: iq_popped_def)
qed

section \<open>The enable flags\<close>

lemma id_split: "unat (drop_bit 5 (i::u8)) = unat i div 32" "unat (i AND 0x1F) = unat i mod 32"
proof -
  show "unat (drop_bit 5 i) = unat i div 32" by (simp add: drop_bit_eq_div unat_div_distrib)
  have "i AND 0x1F = take_bit 5 i" by (simp add: take_bit_eq_mask mask_eq_exp_minus_1)
  then show "unat (i AND 0x1F) = unat i mod 32" by (simp add: unsigned_take_bit_eq take_bit_eq_mod unat_mod_distrib)
qed

lemma is_enabled_bit:
  "elua_int_is_enabled s i \<longleftrightarrow> unat i < 128 \<and> bit (iq_flags s ! (unat i div 32)) (unat i mod 32)"
  by (simp add: elua_int_is_enabled_def id_split and_push_bit_1 word_less_nat_alt LUA_INT_MAX_SOURCES_def
      del: push_bit_of_1)

lemma id_unique: "unat (i::u8) div 32 = unat j div 32 \<and> unat i mod 32 = unat j mod 32 \<longleftrightarrow> i = j"
  by (metis div_mult_mod_eq unsigned_word_eqI)

lemma flag_index: "unat (i::u8) < 128 \<Longrightarrow> unat i div 32 < 4"
  by linarith

lemma enabled_enable:
  assumes "length (iq_flags s) = 4"
  shows "elua_int_is_enabled (elua_int_enable i s) j
    \<longleftrightarrow> elua_int_is_enabled s j \<or> (i = j \<and> i < LUA_INT_MAX_SOURCES)"
proof (cases "unat i < 128")
  case True
  let ?w = "unat i div 32" and ?b = "unat i mod 32"
  have e: "iq_flags (elua_int_enable i s) = (iq_flags s)[?w := iq_flags s ! ?w OR push_bit ?b 1]"
    using True by (simp add: elua_int_enable_def Let_def id_split word_less_nat_alt LUA_INT_MAX_SOURCES_def
        del: push_bit_of_1)
  have "bit (push_bit ?b 1 :: u32) (unat j mod 32) \<longleftrightarrow> ?b = unat j mod 32"
    by (auto simp: bit_push_bit_iff bit_1_iff simp del: push_bit_of_1)
  then show ?thesis
    using id_unique [of i j] True flag_index [OF True] assms
    by (auto simp: is_enabled_bit e nth_list_update bit_or_iff word_less_nat_alt LUA_INT_MAX_SOURCES_def
        simp del: push_bit_of_1)
next
  case False
  then show ?thesis by (auto simp: elua_int_enable_def word_less_nat_alt LUA_INT_MAX_SOURCES_def)
qed

lemma enabled_disable:
  assumes "length (iq_flags s) = 4"
  shows "elua_int_is_enabled (elua_int_disable i s) j \<longleftrightarrow> elua_int_is_enabled s j \<and> i \<noteq> j"
proof (cases "unat i < 128")
  case True
  let ?w = "unat i div 32" and ?b = "unat i mod 32"
  have e: "iq_flags (elua_int_disable i s) = (iq_flags s)[?w := iq_flags s ! ?w AND NOT (push_bit ?b 1)]"
    using True by (simp add: elua_int_disable_def Let_def id_split word_less_nat_alt LUA_INT_MAX_SOURCES_def
        del: push_bit_of_1)
  have "bit (NOT (push_bit ?b 1) :: u32) (unat j mod 32) \<longleftrightarrow> ?b \<noteq> unat j mod 32"
    by (auto simp: bit_push_bit_iff bit_1_iff bit_not_iff simp del: push_bit_of_1)
  then show ?thesis
    using id_unique [of i j] True flag_index [OF True] assms
    by (auto simp: is_enabled_bit e nth_list_update bit_and_iff simp del: push_bit_of_1)
next
  case False
  then show ?thesis
    by (auto simp: elua_int_disable_def word_less_nat_alt LUA_INT_MAX_SOURCES_def is_enabled_bit)
qed

lemma flags_frame:
  "iq_pending (elua_int_enable i s) = iq_pending s" "iq_pending (elua_int_disable i s) = iq_pending s"
  "iq_lua (elua_int_enable i s) = iq_lua s" "iq_lua (elua_int_disable i s) = iq_lua s"
  "iq_hook (elua_int_enable i s) = iq_hook s" "iq_hook (elua_int_disable i s) = iq_hook s"
  "iq_inv (elua_int_enable i s) = iq_inv s" "iq_inv (elua_int_disable i s) = iq_inv s"
  by (simp_all add: elua_int_enable_def elua_int_disable_def Let_def iq_pending_def iq_ring_def iq_inv_def)

section \<open>Runs of interrupts and hook calls\<close>

text \<open>
  What happens between two hook calls: interrupts are raised, and Lua code enables and disables
  sources; the Lua handler a hook calls does the same while it runs (the VM does not call the hook
  again inside it).
\<close>

datatype irq_op = Raise u8 u16 | Enable u8 | Disable u8
datatype vm_op = Irq irq_op | Hook

fun irq_step :: "irq_op \<Rightarrow> int_state \<Rightarrow> int_state" where
  "irq_step (Raise i r) s = fst (elua_int_add i r s)"
| "irq_step (Enable i) s = elua_int_enable i s"
| "irq_step (Disable i) s = elua_int_disable i s"

text \<open>A handler table: the operations the Lua function of an id performs, if there is one.\<close>

type_synonym handlers = "elua_int_element \<Rightarrow> irq_op list option"

fun vm_step :: "handlers \<Rightarrow> vm_op \<Rightarrow> int_state \<Rightarrow> int_state \<times> elua_int_element option" where
  "vm_step hs (Irq op) s = (irq_step op s, None)"
| "vm_step hs Hook s =
     (if iq_hook s then elua_int_hook (\<lambda>e. map_option (\<lambda>ops. fold irq_step ops) (hs e)) s else (s, None))"

fun vm_run :: "handlers \<Rightarrow> vm_op list \<Rightarrow> int_state \<Rightarrow> int_state \<times> elua_int_element list" where
  "vm_run hs [] s = (s, [])"
| "vm_run hs (op # ops) s =
     (let (s1, out) = vm_step hs op s; (s2, outs) = vm_run hs ops s1
      in (s2, case out of None \<Rightarrow> outs | Some e \<Rightarrow> e # outs))"

text \<open>The specification: a list of at most 32 pending interrupts and a set of enabled sources.\<close>

record spec_int =
  sp_pend :: "elua_int_element list"
  sp_en :: "u8 \<Rightarrow> bool"
  sp_lua :: bool

fun spec_irq :: "irq_op \<Rightarrow> spec_int \<Rightarrow> spec_int" where
  "spec_irq (Raise i r) a =
     (if 1 \<le> i \<and> i \<le> 2 \<and> sp_lua a \<and> sp_en a i \<and> length (sp_pend a) < 32
      then a\<lparr>sp_pend := sp_pend a @ [\<lparr>ie_id = i, ie_resnum = r\<rparr>]\<rparr> else a)"
| "spec_irq (Enable i) a = (if i < 128 then a\<lparr>sp_en := (sp_en a)(i := True)\<rparr> else a)"
| "spec_irq (Disable i) a = a\<lparr>sp_en := (sp_en a)(i := False)\<rparr>"

fun spec_step :: "handlers \<Rightarrow> vm_op \<Rightarrow> spec_int \<Rightarrow> spec_int \<times> elua_int_element option" where
  "spec_step hs (Irq op) a = (spec_irq op a, None)"
| "spec_step hs Hook a =
     (case sp_pend a of [] \<Rightarrow> (a, None)
      | e # es \<Rightarrow>
          (let a1 = a\<lparr>sp_pend := es\<rparr> in
           if sp_en a (ie_id e)
           then (case hs e of None \<Rightarrow> (a1, None) | Some ops \<Rightarrow> (fold spec_irq ops a1, Some e))
           else (a1, None)))"

fun spec_run :: "handlers \<Rightarrow> vm_op list \<Rightarrow> spec_int \<Rightarrow> spec_int \<times> elua_int_element list" where
  "spec_run hs [] a = (a, [])"
| "spec_run hs (op # ops) a =
     (let (a1, out) = spec_step hs op a; (a2, outs) = spec_run hs ops a1
      in (a2, case out of None \<Rightarrow> outs | Some e \<Rightarrow> e # outs))"

definition abs_int :: "int_state \<Rightarrow> spec_int" where
  "abs_int s = \<lparr>sp_pend = iq_pending s, sp_en = elua_int_is_enabled s, sp_lua = iq_lua s\<rparr>"

lemma irq_step_ok:
  assumes "iq_inv s"
  shows "iq_inv (irq_step op s)" and "abs_int (irq_step op s) = spec_irq op (abs_int s)"
    and "(iq_hook s \<longrightarrow> iq_pending s \<noteq> []) \<Longrightarrow> iq_hook (irq_step op s) \<longrightarrow> iq_pending (irq_step op s) \<noteq> []"
proof -
  have fl: "length (iq_flags s) = 4" using assms by (simp add: iq_inv_def)
  have "iq_inv (irq_step op s) \<and> abs_int (irq_step op s) = spec_irq op (abs_int s)
    \<and> ((iq_hook s \<longrightarrow> iq_pending s \<noteq> []) \<longrightarrow> iq_hook (irq_step op s) \<longrightarrow> iq_pending (irq_step op s) \<noteq> [])"
  proof (cases op)
    case (Raise i r)
    note a = elua_int_add_ok [OF assms, of i r]
    have lua: "iq_lua (fst (elua_int_add i r s)) = iq_lua s" by (simp add: elua_int_add_def)
    have en: "elua_int_is_enabled (fst (elua_int_add i r s)) = elua_int_is_enabled s"
      using a by (simp add: fun_eq_iff is_enabled_bit)
    show ?thesis
    proof (cases "add_accepts s i")
      case True
      then have "1 \<le> i \<and> i \<le> 2 \<and> iq_lua s \<and> elua_int_is_enabled s i \<and> length (iq_pending s) < 32"
        by (simp add: add_accepts_def int_consts)
      with a True lua en show ?thesis by (simp add: Raise abs_int_def)
    next
      case False
      then have "\<not> (1 \<le> i \<and> i \<le> 2 \<and> iq_lua s \<and> elua_int_is_enabled s i \<and> length (iq_pending s) < 32)"
        by (simp add: add_accepts_def int_consts)
      moreover have "fst (elua_int_add i r s) = s" using a False by simp
      ultimately show ?thesis using assms by (simp add: Raise abs_int_def)
    qed
  next
    case (Enable i)
    then show ?thesis using assms enabled_enable [OF fl, of i]
      by (auto simp: abs_int_def flags_frame fun_eq_iff LUA_INT_MAX_SOURCES_def)
  next
    case (Disable i)
    then show ?thesis using assms enabled_disable [OF fl, of i]
      by (auto simp: abs_int_def flags_frame fun_eq_iff)
  qed
  then show "iq_inv (irq_step op s)" "abs_int (irq_step op s) = spec_irq op (abs_int s)"
    "(iq_hook s \<longrightarrow> iq_pending s \<noteq> []) \<Longrightarrow> iq_hook (irq_step op s) \<longrightarrow> iq_pending (irq_step op s) \<noteq> []"
    by auto
qed

lemma irq_steps_ok:
  assumes "iq_inv s"
  shows "iq_inv (fold irq_step ops s) \<and> abs_int (fold irq_step ops s) = fold spec_irq ops (abs_int s)"
  using assms irq_step_ok by (induction ops arbitrary: s) auto

text \<open>Exact invariant between steps: the hook is set exactly while interrupts are pending.\<close>

definition iq_ok :: "int_state \<Rightarrow> bool" where
  "iq_ok s \<longleftrightarrow> iq_inv s \<and> (iq_hook s \<longleftrightarrow> iq_pending s \<noteq> [])"

lemma head_empty: "iq_inv s \<Longrightarrow> ie_id (iq_queue s ! unat (iq_read s)) = 0 \<longleftrightarrow> iq_pending s = []"
proof -
  assume i: "iq_inv s"
  then have "unat (iq_read s) < length (iq_queue s)" by (simp add: iq_inv_def)
  from rotate_head [OF this] obtain rs where "iq_ring s = iq_queue s ! unat (iq_read s) # rs"
    unfolding iq_ring_def by blast
  then show ?thesis by (simp add: iq_pending_def used_def)
qed

lemma abs_hook [simp]: "abs_int (s\<lparr>iq_hook := h\<rparr>) = abs_int s"
  by (simp add: abs_int_def fun_eq_iff is_enabled_bit)

lemma hook_end:
  assumes "iq_inv s"
  shows "iq_ok (if ie_id (iq_queue s ! unat (iq_read s)) = ELUA_INT_EMPTY_SLOT then s\<lparr>iq_hook := False\<rparr> else s)"
  using assms head_empty [OF assms]
  by (auto simp: iq_ok_def iq_inv_def ELUA_INT_EMPTY_SLOT_def)

lemma vm_step_ok:
  assumes "iq_ok s" and "vm_step hs op s = (s', out)"
  shows "iq_ok s' \<and> spec_step hs op (abs_int s) = (abs_int s', out)"
proof (cases op)
  case (Irq io)
  have inv: "iq_inv s" and ex: "iq_hook s \<longrightarrow> iq_pending s \<noteq> []" using assms(1) by (simp_all add: iq_ok_def)
  have s': "s' = irq_step io s" "out = None" using assms(2) Irq by simp_all
  note st = irq_step_ok [OF inv, of io]
  have "iq_pending s' \<noteq> [] \<longrightarrow> iq_hook s'" using st(1) unfolding s' iq_inv_def by blast
  then show ?thesis using st(1,2) st(3) [OF ex] Irq unfolding iq_ok_def s' by auto
next
  case Hook
  have inv: "iq_inv s" using assms(1) by (simp add: iq_ok_def)
  show ?thesis
  proof (cases "iq_pending s")
    case Nil
    then show ?thesis using assms Hook by (auto simp: iq_ok_def abs_int_def)
  next
    case (Cons p ps)
    note pop = iq_popped_ok [OF inv Cons]
    have hk: "iq_hook s" using assms(1) Cons by (simp add: iq_ok_def)
    have en: "elua_int_is_enabled (iq_popped s) = elua_int_is_enabled s"
      by (simp add: fun_eq_iff is_enabled_bit pop(4))
    define s2 where "s2 = (if elua_int_is_enabled s (ie_id p) then
       (case hs p of Some ops \<Rightarrow> fold irq_step ops (iq_popped s) | None \<Rightarrow> iq_popped s) else iq_popped s)"
    define oo where "oo = (if elua_int_is_enabled s (ie_id p) \<and> hs p \<noteq> None then Some p else None)"
    have s2: "iq_inv s2"
      "abs_int s2 = (if elua_int_is_enabled s (ie_id p) then
       (case hs p of Some ops \<Rightarrow> fold spec_irq ops (abs_int (iq_popped s)) | None \<Rightarrow> abs_int (iq_popped s))
         else abs_int (iq_popped s))"
      using irq_steps_ok [OF pop(3)] pop(3) by (auto simp: s2_def split: option.splits)
    have "elua_int_hook (\<lambda>e. map_option (\<lambda>ops. fold irq_step ops) (hs e)) s =
      (if ie_id (iq_queue s2 ! unat (iq_read s2)) = ELUA_INT_EMPTY_SLOT then s2\<lparr>iq_hook := False\<rparr> else s2, oo)"
      unfolding elua_int_hook_def Let_def pop(1) ELUA_INT_EMPTY_SLOT_def
        iq_popped_def [of s, unfolded pop(1), symmetric]
      by (cases "hs p") (simp_all add: en s2_def oo_def)
    then have "s' = (if ie_id (iq_queue s2 ! unat (iq_read s2)) = ELUA_INT_EMPTY_SLOT then s2\<lparr>iq_hook := False\<rparr> else s2)"
        "out = oo"
      using assms(2) Hook hk by simp_all
    moreover have "abs_int (iq_popped s) = (abs_int s)\<lparr>sp_pend := ps\<rparr>"
      by (simp add: abs_int_def pop(2,5) en)
    moreover have "sp_pend (abs_int s) = p # ps" "sp_en (abs_int s) = elua_int_is_enabled s"
      using Cons by (simp_all add: abs_int_def)
    ultimately show ?thesis
      using hook_end [OF s2(1)] s2(2) Hook
      by (auto simp: oo_def Let_def split: option.splits if_splits)
  qed
qed

text \<open>C1. The interrupt ring refines a bounded queue: whatever interleaving of raised interrupts,
  enables, disables and hook calls is run, with handlers that may raise and mask interrupts
  themselves, the handlers receive exactly the interrupts the list specification delivers, in the order
  they were raised; the hook is set exactly while interrupts are pending.\<close>

theorem int_queue_refines:
  assumes "iq_ok s" and "vm_run hs ops s = (s', out)"
  shows "iq_ok s' \<and> spec_run hs ops (abs_int s) = (abs_int s', out)"
  using assms
proof (induction ops arbitrary: s s' out)
  case Nil
  then show ?case by simp
next
  case (Cons op ops)
  obtain s1 o1 where 1: "vm_step hs op s = (s1, o1)" by (cases "vm_step hs op s")
  obtain s2 os where 2: "vm_run hs ops s1 = (s2, os)" by (cases "vm_run hs ops s1")
  from vm_step_ok [OF Cons.prems(1) 1] have i: "iq_ok s1" "spec_step hs op (abs_int s) = (abs_int s1, o1)"
    by simp_all
  from Cons.IH [OF i(1) 2] i(2) 1 2 Cons.prems(2) show ?case by (auto split: option.splits)
qed

definition int_reset :: int_state where
  "int_reset = \<lparr>iq_read = 0, iq_write = 0, iq_queue = replicate 32 \<lparr>ie_id = 0, ie_resnum = 0\<rparr>,
     iq_flags = [0, 0, 0, 0], iq_hook = False, iq_lua = True\<rparr>"

lemma int_reset_ok: "iq_ok int_reset"
  by (simp add: iq_ok_def iq_inv_def iq_pending_def iq_ring_def int_reset_def takeWhile_replicate
      rotate_def)

lemma int_queue_refines_witness:
  "iq_ok int_reset \<and> snd (spec_run (\<lambda>e. Some [Raise 2 7]) [Irq (Enable 1), Irq (Raise 1 5), Irq (Enable 2), Hook, Hook]
      (abs_int int_reset)) = snd (vm_run (\<lambda>e. Some [Raise 2 7])
      [Irq (Enable 1), Irq (Raise 1 5), Irq (Enable 2), Hook, Hook] int_reset)"
  using int_queue_refines [OF int_reset_ok, of "\<lambda>e. Some [Raise 2 7]"
      "[Irq (Enable 1), Irq (Raise 1 5), Irq (Enable 2), Hook, Hook]"] int_reset_ok
  by (metis prod.collapse snd_conv)

end
