(* ===== verification/VTimer.thy ===== *)
theory VTimer
  imports IntQueue
begin

text \<open>
  The virtual timers of \<open>platform/src/common_tmr.c\<close>, with timer-match interrupts compiled in. The
  parameters are the configuration: \<open>n\<close> is \<open>VTMR_NUM_TIMERS\<close>, \<open>freq\<close> is \<open>VTMR_FREQ_HZ\<close> and
  \<open>tm\<close> is \<open>INT_TMR_MATCH\<close>. The tick interrupt runs \<open>cmn_virtual_timer_cb\<close> and raises Lua
  interrupts through theory \<open>IntQueue\<close>. A busy-wait loop of the foreground code is a recursion whose
  every turn is one tick (polls between two ticks see the same values); a loop that waits for ever
  is \<open>None\<close>, as is a store outside the counters.
\<close>

section \<open>State\<close>

definition VTMR_FIRST_ID :: u32 where "VTMR_FIRST_ID = 32"

definition VTMR_GET_ID :: "u32 \<Rightarrow> u32" where "VTMR_GET_ID x = x - VTMR_FIRST_ID"

definition TIMER_IS_VIRTUAL :: "nat \<Rightarrow> u32 \<Rightarrow> bool" where
  "TIMER_IS_VIRTUAL n x \<longleftrightarrow> n > 0 \<and> x \<ge> VTMR_FIRST_ID \<and> x < of_nat n + VTMR_FIRST_ID"

definition PLATFORM_TIMER_INT_ONESHOT :: int where "PLATFORM_TIMER_INT_ONESHOT = 1"
definition PLATFORM_TIMER_INT_OK :: int where "PLATFORM_TIMER_INT_OK = 0"
definition PLATFORM_TIMER_INT_TOO_SHORT :: int where "PLATFORM_TIMER_INT_TOO_SHORT = 1"
definition PLATFORM_CPU_ENABLE :: int where "PLATFORM_CPU_ENABLE = 1"

record vtmr =
  vt_counters :: "u32 list"
  vt_reset_idx :: u8 \<comment> \<open>an \<open>s8\<close>; all ones is \<open>-1\<close>\<close>
  vt_limit :: "u32 list"
  vt_periodic :: "u8 list"
  vt_enabled :: "u8 list"
  vt_flag :: "u8 list"

type_synonym vt_sys = "vtmr \<times> int_state"

section \<open>The tick\<close>

text \<open>The body of the loop of \<open>cmn_virtual_timer_cb\<close>.\<close>

definition cb_timer :: "u8 \<Rightarrow> nat \<Rightarrow> vt_sys \<Rightarrow> vt_sys" where
  "cb_timer tm i vs =
     (case vs of (v, s) \<Rightarrow>
      let v1 = v\<lparr>vt_counters := (vt_counters v)[i := vt_counters v ! i + 1]\<rparr> in
      if vt_counters v1 ! i \<ge> vt_limit v1 ! i then
        let v2 = v1\<lparr>vt_flag := pk_set (vt_flag v1) i True\<rparr>;
            s2 = (if pk_get (vt_enabled v2) i then fst (elua_int_add tm (of_nat i + ucast VTMR_FIRST_ID) s) else s);
            v3 = (if pk_get (vt_periodic v2) i
                  then v2\<lparr>vt_counters := (vt_counters v2)[i := 0]\<rparr>
                  else v2\<lparr>vt_enabled := pk_set (vt_enabled v2) i False\<rparr>)
        in (v3, s2)
      else (v1, s))"

definition cmn_virtual_timer_cb :: "nat \<Rightarrow> u8 \<Rightarrow> vt_sys \<Rightarrow> vt_sys option" where
  "cmn_virtual_timer_cb n tm vs =
     (case fold (cb_timer tm) [0..<n] vs of (v, s) \<Rightarrow>
      if vt_reset_idx v \<noteq> -1 then
        (if 0 \<le> sint (vt_reset_idx v) \<and> sint (vt_reset_idx v) < int n
         then Some (v\<lparr>vt_counters := (vt_counters v)[nat (sint (vt_reset_idx v)) := 0], vt_reset_idx := -1\<rparr>, s)
         else None)
      else Some (v, s))"

section \<open>The foreground operations\<close>

partial_function (option) wait_reset :: "nat \<Rightarrow> u8 \<Rightarrow> vt_sys \<Rightarrow> vt_sys option" where
  "wait_reset n tm vs =
     (if vt_reset_idx (fst vs) \<noteq> -1
      then Option.bind (cmn_virtual_timer_cb n tm vs) (wait_reset n tm) else Some vs)"

definition vtmr_reset_timer :: "nat \<Rightarrow> u8 \<Rightarrow> u32 \<Rightarrow> vt_sys \<Rightarrow> vt_sys option" where
  "vtmr_reset_timer n tm vid vs =
     (case vs of (v, s) \<Rightarrow> wait_reset n tm (v\<lparr>vt_reset_idx := ucast (VTMR_GET_ID vid)\<rparr>, s))"

partial_function (option) wait_count :: "nat \<Rightarrow> u8 \<Rightarrow> nat \<Rightarrow> u32 \<Rightarrow> vt_sys \<Rightarrow> vt_sys option" where
  "wait_count n tm i final vs =
     (if vt_counters (fst vs) ! i < final
      then Option.bind (cmn_virtual_timer_cb n tm vs) (wait_count n tm i final) else Some vs)"

text \<open>The 64-bit product of a time in microseconds and the tick frequency, cut to 32 bits.\<close>

definition us_to_ticks :: "u32 \<Rightarrow> u32 \<Rightarrow> u32" where
  "us_to_ticks freq us = ucast ((ucast us * ucast freq :: u64) div 1000000)"

definition vtmr_delay :: "nat \<Rightarrow> u8 \<Rightarrow> u32 \<Rightarrow> u32 \<Rightarrow> u32 \<Rightarrow> vt_sys \<Rightarrow> vt_sys option" where
  "vtmr_delay n tm freq vid delay_us vs =
     (let i = unat (VTMR_GET_ID vid); final = us_to_ticks freq delay_us in
      Option.bind (vtmr_reset_timer n tm vid vs) (wait_count n tm i final))"

definition vtmr_set_match_int ::
  "nat \<Rightarrow> u8 \<Rightarrow> u32 \<Rightarrow> u32 \<Rightarrow> u32 \<Rightarrow> int \<Rightarrow> vt_sys \<Rightarrow> (vt_sys \<times> int) option" where
  "vtmr_set_match_int n tm freq vid period_us type vs =
     (case vs of (v, s) \<Rightarrow>
      let i = unat (VTMR_GET_ID vid); final = us_to_ticks freq period_us in
      if period_us = 0 then
        Some ((v\<lparr>vt_enabled := pk_set (vt_enabled v) i False, vt_flag := pk_set (vt_flag v) i False\<rparr>, s),
              PLATFORM_TIMER_INT_OK)
      else if final = 0 then Some (vs, PLATFORM_TIMER_INT_TOO_SHORT)
      else
        let v1 = v\<lparr>vt_limit := (vt_limit v)[i := final],
                   vt_periodic := pk_set (vt_periodic v) i (type \<noteq> PLATFORM_TIMER_INT_ONESHOT),
                   vt_flag := pk_set (vt_flag v) i False\<rparr>
        in case vtmr_reset_timer n tm vid (v1, s) of None \<Rightarrow> None
           | Some (v2, s2) \<Rightarrow>
               Some ((v2\<lparr>vt_enabled := pk_set (vt_enabled v2) i True\<rparr>, s2), PLATFORM_TIMER_INT_OK))"

definition vtmr_int_get_flag :: "u32 \<Rightarrow> bool \<Rightarrow> vtmr \<Rightarrow> vtmr \<times> bool" where
  "vtmr_int_get_flag resnum clr v =
     (let i = unat (VTMR_GET_ID resnum); status = pk_get (vt_flag v) i in
      (if clr then v\<lparr>vt_flag := pk_set (vt_flag v) i False\<rparr> else v, status))"

definition vtmr_int_set_status :: "u32 \<Rightarrow> int \<Rightarrow> vtmr \<Rightarrow> vtmr \<times> bool" where
  "vtmr_int_set_status resnum status v =
     (let i = unat (VTMR_GET_ID resnum); prev = pk_get (vt_enabled v) i in
      (v\<lparr>vt_enabled := pk_set (vt_enabled v) i (status = PLATFORM_CPU_ENABLE)\<rparr>, prev))"

definition vtmr_int_get_status :: "u32 \<Rightarrow> vtmr \<Rightarrow> bool" where
  "vtmr_int_get_status resnum v = pk_get (vt_enabled v) (unat (VTMR_GET_ID resnum))"

text \<open>\<open>platform_timer_get_diff_us\<close>: the clock of a virtual timer is \<open>freq\<close>; \<open>None\<close> is the
  division by zero.\<close>

definition platform_timer_get_diff_us :: "u32 \<Rightarrow> u32 \<Rightarrow> u32 \<Rightarrow> u32 option" where
  "platform_timer_get_diff_us freq end start =
     (let (end, start) = (if start < end then (start, end) else (end, start)) in
      if freq = 0 then None
      else Some (ucast ((ucast (start - end) * 1000000 :: u64) div ucast freq)))"

datatype timer_op = OpStart | OpRead | OpSetClock | OpGetClock | OpMaxDelay | OpMinDelay

text \<open>\<open>platform_timer_op\<close>; the hardware timers are \<open>phys\<close>.\<close>

definition platform_timer_op ::
  "nat \<Rightarrow> u8 \<Rightarrow> u32 \<Rightarrow> (u32 \<Rightarrow> timer_op \<Rightarrow> u32 \<Rightarrow> u32) \<Rightarrow> u32 \<Rightarrow> timer_op \<Rightarrow> u32 \<Rightarrow> vt_sys \<Rightarrow> (vt_sys \<times> u32) option" where
  "platform_timer_op n tm freq phys i opc data vs =
     (if \<not> TIMER_IS_VIRTUAL n i then Some (vs, phys i opc data)
      else case opc of
        OpStart \<Rightarrow> map_option (\<lambda>vs'. (vs', 0)) (vtmr_reset_timer n tm i vs)
      | OpRead \<Rightarrow> Some (vs, vt_counters (fst vs) ! unat (VTMR_GET_ID i))
      | OpMaxDelay \<Rightarrow> map_option (Pair vs) (platform_timer_get_diff_us freq 0 0xFFFFFFFF)
      | OpMinDelay \<Rightarrow> map_option (Pair vs) (platform_timer_get_diff_us freq 0 1)
      | OpSetClock \<Rightarrow> Some (vs, freq)
      | OpGetClock \<Rightarrow> Some (vs, freq))"

definition platform_timer_exists :: "nat \<Rightarrow> u32 \<Rightarrow> u32 \<Rightarrow> bool" where
  "platform_timer_exists n num_timer i =
     (if n > 0 \<and> i \<ge> VTMR_FIRST_ID then TIMER_IS_VIRTUAL n i else i < num_timer)"

section \<open>Each timer alone\<close>

text \<open>The specification: one timer, its tick and whether the tick raises an interrupt.\<close>

record one_timer =
  ot_count :: u32
  ot_limit :: u32
  ot_periodic :: bool
  ot_enabled :: bool
  ot_flag :: bool

definition view :: "vtmr \<Rightarrow> nat \<Rightarrow> one_timer" where
  "view v i = \<lparr>ot_count = vt_counters v ! i, ot_limit = vt_limit v ! i, ot_periodic = pk_get (vt_periodic v) i,
     ot_enabled = pk_get (vt_enabled v) i, ot_flag = pk_get (vt_flag v) i\<rparr>"

definition expires :: "one_timer \<Rightarrow> bool" where
  "expires t \<longleftrightarrow> ot_limit t \<le> ot_count t + 1"

definition tick :: "one_timer \<Rightarrow> one_timer" where
  "tick t = (if expires t
     then t\<lparr>ot_count := (if ot_periodic t then 0 else ot_count t + 1), ot_flag := True,
            ot_enabled := ot_enabled t \<and> ot_periodic t\<rparr>
     else t\<lparr>ot_count := ot_count t + 1\<rparr>)"

definition vt_wf :: "nat \<Rightarrow> vtmr \<Rightarrow> bool" where
  "vt_wf n v \<longleftrightarrow> length (vt_counters v) = n \<and> length (vt_limit v) = n \<and> n \<le> 127
     \<and> length (vt_periodic v) = (n + 7) div 8 \<and> length (vt_enabled v) = (n + 7) div 8
     \<and> length (vt_flag v) = (n + 7) div 8"

lemma vt_wf_pk: "vt_wf n v \<Longrightarrow> i < n \<Longrightarrow> i div 8 < length (vt_periodic v) \<and> i div 8 < length (vt_enabled v)
    \<and> i div 8 < length (vt_flag v)"
  unfolding vt_wf_def by linarith

lemma cb_timer_ok:
  assumes "vt_wf n v" and "i < n"
  shows "vt_wf n (fst (cb_timer tm i (v, s)))
    \<and> view (fst (cb_timer tm i (v, s))) j = (if j = i then tick (view v i) else view v j)
    \<and> vt_reset_idx (fst (cb_timer tm i (v, s))) = vt_reset_idx v
    \<and> snd (cb_timer tm i (v, s)) = (if expires (view v i) \<and> ot_enabled (view v i)
         then fst (elua_int_add tm (of_nat i + 32) s) else s)"
  using assms vt_wf_pk [OF assms]
  by (auto simp: cb_timer_def Let_def view_def tick_def expires_def vt_wf_def nth_list_update VTMR_FIRST_ID_def)

text \<open>The interrupts a tick raises: one per enabled timer that expires, in the order of the timers.\<close>

definition raised :: "u8 \<Rightarrow> vtmr \<Rightarrow> nat list \<Rightarrow> int_state \<Rightarrow> int_state" where
  "raised tm v is s = fold (\<lambda>i s. if expires (view v i) \<and> ot_enabled (view v i)
     then fst (elua_int_add tm (of_nat i + 32) s) else s) is s"

lemma raised_cong: "(\<And>i. i \<in> set is \<Longrightarrow> view v i = view w i) \<Longrightarrow> raised tm v is s = raised tm w is s"
  unfolding raised_def by (intro fold_cong) auto

lemma cb_loop_ok:
  assumes "vt_wf n v" and "set is \<subseteq> {..<n}" and "distinct is"
  shows "vt_wf n (fst (fold (cb_timer tm) is (v, s)))
    \<and> (\<forall>j. view (fst (fold (cb_timer tm) is (v, s))) j = (if j \<in> set is then tick (view v j) else view v j))
    \<and> vt_reset_idx (fst (fold (cb_timer tm) is (v, s))) = vt_reset_idx v
    \<and> snd (fold (cb_timer tm) is (v, s)) = raised tm v is s"
  using assms
proof (induction "is" arbitrary: v s)
  case Nil
  then show ?case by (simp add: raised_def)
next
  case (Cons i "is")
  obtain v1 s1 where 1: "cb_timer tm i (v, s) = (v1, s1)" by (cases "cb_timer tm i (v, s)")
  have i: "i < n" "i \<notin> set is" using Cons.prems by auto
  have st: "vt_wf n v1" "\<And>j. view v1 j = (if j = i then tick (view v i) else view v j)"
      "vt_reset_idx v1 = vt_reset_idx v" "s1 = (if expires (view v i) \<and> ot_enabled (view v i)
         then fst (elua_int_add tm (of_nat i + 32) s) else s)"
    using cb_timer_ok [OF Cons.prems(1) i(1), of tm s] 1 by simp_all
  have "raised tm v1 is s1 = raised tm v is s1" by (rule raised_cong) (use st(2) i(2) in auto)
  then have "raised tm v1 is s1 = raised tm v (i # is) s" by (simp add: raised_def st(4))
  then show ?case using Cons.IH [OF st(1), of s1] Cons.prems(2,3) i st 1 by auto
qed

lemma sint_id: "i \<le> 127 \<Longrightarrow> sint (of_nat i :: u8) = int i"
proof -
  assume i: "i \<le> 127"
  then have "uint (of_nat i :: u8) = int i" by (simp add: unsigned_of_nat take_bit_nat_eq_self)
  moreover have "signed_take_bit 7 (int i) = int i"
    using i by (intro signed_take_bit_int_eq_self) auto
  ultimately show ?thesis by (simp add: sint_uint)
qed

lemma id_not_minus1: "i \<le> 127 \<Longrightarrow> (of_nat i :: u8) \<noteq> -1"
  using sint_id [of i] by auto

text \<open>The request a foreground reset has left for the next tick, if any.\<close>

definition reset_req :: "nat \<Rightarrow> vtmr \<Rightarrow> nat option \<Rightarrow> bool" where
  "reset_req n v r = (case r of None \<Rightarrow> vt_reset_idx v = -1 | Some k \<Rightarrow> k < n \<and> vt_reset_idx v = of_nat k)"

lemma tick_all:
  assumes "vt_wf n v" and "reset_req n v r"
  shows "\<exists>v'. cmn_virtual_timer_cb n tm (v, s) = Some (v', raised tm v [0..<n] s) \<and> vt_wf n v'
    \<and> vt_reset_idx v' = -1
    \<and> (\<forall>i<n. view v' i = (if r = Some i then (tick (view v i))\<lparr>ot_count := 0\<rparr> else tick (view v i)))"
proof -
  obtain v1 s1 where f: "fold (cb_timer tm) [0..<n] (v, s) = (v1, s1)"
    by (cases "fold (cb_timer tm) [0..<n] (v, s)")
  have "set [0..<n] \<subseteq> {..<n}" "distinct [0..<n]" by auto
  from cb_loop_ok [OF assms(1) this, of tm s] f
  have 1: "vt_wf n v1" "\<And>j. j < n \<Longrightarrow> view v1 j = tick (view v j)" "vt_reset_idx v1 = vt_reset_idx v"
      "s1 = raised tm v [0..<n] s" by auto
  show ?thesis
  proof (cases r)
    case None
    then show ?thesis using assms(2) 1 by (auto simp: cmn_virtual_timer_cb_def f reset_req_def)
  next
    case (Some k)
    then have k: "k < n" "vt_reset_idx v = of_nat k" using assms(2) by (auto simp: reset_req_def)
    then have "k \<le> 127" using assms(1) by (simp add: vt_wf_def)
    note sk = sint_id [OF this] id_not_minus1 [OF this]
    let ?v = "v1\<lparr>vt_counters := (vt_counters v1)[k := 0], vt_reset_idx := -1\<rparr>"
    have "cmn_virtual_timer_cb n tm (v, s) = Some (?v, s1)"
      using k sk by (simp add: cmn_virtual_timer_cb_def f 1(3))
    moreover have "vt_wf n ?v" using 1(1) by (simp add: vt_wf_def)
    moreover have "view ?v i = (if r = Some i then (tick (view v i))\<lparr>ot_count := 0\<rparr> else tick (view v i))"
      if "i < n" for i
      using that 1(1) Some unfolding 1(2) [OF that, symmetric]
      by (simp add: view_def vt_wf_def nth_list_update)
    ultimately show ?thesis using 1(4) by auto
  qed
qed

lemma some_eq: "(Some x = Some y) = (y = x)"
  by blast

lemma reset_ok:
  assumes "vt_wf n v" and "TIMER_IS_VIRTUAL n vid"
  shows "\<exists>v'. vtmr_reset_timer n tm vid (v, s) = Some (v', raised tm v [0..<n] s) \<and> vt_wf n v'
    \<and> vt_reset_idx v' = -1
    \<and> (\<forall>i<n. view v' i = (if i = unat (VTMR_GET_ID vid) then (tick (view v i))\<lparr>ot_count := 0\<rparr> else tick (view v i)))"
    and "unat (VTMR_GET_ID vid) < n"
proof -
  let ?i = "unat (VTMR_GET_ID vid)"
  have n: "n \<le> 127" using assms(1) by (simp add: vt_wf_def)
  have "unat vid < n + 32" "32 \<le> unat vid"
    using assms(2) n by (simp_all add: TIMER_IS_VIRTUAL_def VTMR_FIRST_ID_def word_less_nat_alt word_le_nat_alt
        unat_word_ariths unsigned_of_nat take_bit_nat_eq_self)
  moreover have "?i = unat vid - 32"
    using calculation(2) by (simp add: VTMR_GET_ID_def VTMR_FIRST_ID_def unat_sub word_le_nat_alt)
  ultimately show i: "?i < n" by linarith
  let ?v = "v\<lparr>vt_reset_idx := ucast (VTMR_GET_ID vid)\<rparr>"
  have u: "ucast (VTMR_GET_ID vid) = (of_nat ?i :: u8)" by simp
  have req: "reset_req n ?v (Some ?i)" using i by (simp add: reset_req_def)
  have wf: "vt_wf n ?v" "\<And>j. view ?v j = view v j" using assms(1) by (simp_all add: vt_wf_def view_def)
  have rs: "raised tm ?v [0..<n] s = raised tm v [0..<n] s" by (rule raised_cong) (rule wf(2))
  from tick_all [OF wf(1) req, of tm s] obtain v'
    where v': "cmn_virtual_timer_cb n tm (?v, s) = Some (v', raised tm v [0..<n] s)"
      "vt_wf n v'" "vt_reset_idx v' = -1"
    and vv: "\<forall>i<n. view v' i = (if Some ?i = Some i then (tick (view ?v i))\<lparr>ot_count := 0\<rparr> else tick (view ?v i))"
    unfolding rs by blast
  have vw: "\<forall>i<n. view v' i = (if i = ?i then (tick (view v i))\<lparr>ot_count := 0\<rparr> else tick (view v i))"
  proof (intro allI impI)
    fix i
    assume "i < n"
    with vv have "view v' i = (if Some ?i = Some i then (tick (view ?v i))\<lparr>ot_count := 0\<rparr> else tick (view ?v i))"
      by blast
    also have "(Some ?i = Some i) = (i = ?i)" by (rule some_eq)
    finally show "view v' i = (if i = ?i then (tick (view v i))\<lparr>ot_count := 0\<rparr> else tick (view v i))"
      unfolding wf(2) .
  qed
  have "?i \<le> 127" using i n by simp
  then have ne: "ucast (VTMR_GET_ID vid) \<noteq> (-1 :: u8)" unfolding u by (rule id_not_minus1)
  then have "vtmr_reset_timer n tm vid (v, s) = Some (v', raised tm v [0..<n] s)"
    using v'(1,3) ne by (simp add: vtmr_reset_timer_def wait_reset.simps [of n tm "(?v, s)"]
        wait_reset.simps [of n tm "(v', raised tm v [0..<n] s)"])
  then show "\<exists>v'. vtmr_reset_timer n tm vid (v, s) = Some (v', raised tm v [0..<n] s) \<and> vt_wf n v'
    \<and> vt_reset_idx v' = -1
    \<and> (\<forall>i<n. view v' i = (if i = ?i then (tick (view v i))\<lparr>ot_count := 0\<rparr> else tick (view v i)))"
    using v' vw by blast
qed

section \<open>Delays\<close>

lemma u32_succ: "(c::u32) < f \<Longrightarrow> unat (c + 1) = Suc (unat c)"
proof -
  assume "c < f"
  then have "unat c < unat f" by (simp add: word_less_nat_alt)
  moreover have "unat f < 2 ^ 32" using unsigned_less [of f, where 'a = nat] by simp
  ultimately show ?thesis by (simp add: unat_word_ariths)
qed

lemma wait_count_returns:
  assumes "vt_wf n v" "vt_reset_idx v = -1" "i < n"
    and "ot_periodic (view v i) \<longrightarrow> final < ot_limit (view v i)"
  shows "wait_count n tm i final (v, s) \<noteq> None"
  using assms
proof (induction "unat final - unat (ot_count (view v i))" arbitrary: v s rule: less_induct)
  case less
  show ?case
  proof (cases "vt_counters v ! i < final")
    case False
    then show ?thesis by (simp add: wait_count.simps [of n tm i final "(v, s)"])
  next
    case True
    then have c: "ot_count (view v i) < final" by (simp add: view_def)
    have "reset_req n v None" using less.prems(2) by (simp add: reset_req_def)
    from tick_all [OF less.prems(1) this, of tm s] obtain v' where v': "vt_wf n v'" "vt_reset_idx v' = -1"
        "cmn_virtual_timer_cb n tm (v, s) = Some (v', raised tm v [0..<n] s)" "view v' i = tick (view v i)"
      using less.prems(3) by auto
    have t: "ot_count (view v' i) = ot_count (view v i) + 1"
        "ot_periodic (view v' i) = ot_periodic (view v i)" "ot_limit (view v' i) = ot_limit (view v i)"
      using less.prems(4) c u32_succ [OF c]
      by (auto simp: v'(4) tick_def expires_def word_less_nat_alt word_le_nat_alt)
    have "wait_count n tm i final (v', raised tm v [0..<n] s) \<noteq> None"
    proof (rule less.hyps)
      show "unat final - unat (ot_count (view v' i)) < unat final - unat (ot_count (view v i))"
        using c u32_succ [OF c] by (simp add: t(1) word_less_nat_alt)
    qed (use v' t less.prems in auto)
    then show ?thesis using True v'(3) by (simp add: wait_count.simps [of n tm i final "(v, s)"])
  qed
qed

definition stuck :: "nat \<Rightarrow> nat \<Rightarrow> u32 \<Rightarrow> vt_sys \<Rightarrow> bool" where
  "stuck n i final vs \<longleftrightarrow> vt_wf n (fst vs) \<and> vt_reset_idx (fst vs) = -1 \<and> i < n
     \<and> ot_periodic (view (fst vs) i) \<and> ot_limit (view (fst vs) i) \<le> final \<and> ot_count (view (fst vs) i) < final"

lemma stuck_step:
  assumes "stuck n i final vs"
  shows "\<exists>vs'. cmn_virtual_timer_cb n tm vs = Some vs' \<and> stuck n i final vs'"
    and "vt_counters (fst vs) ! i < final"
proof -
  obtain v s where vs: "vs = (v, s)" by (cases vs)
  have p: "vt_wf n v" "vt_reset_idx v = -1" "i < n" "ot_periodic (view v i)" "ot_limit (view v i) \<le> final"
      "ot_count (view v i) < final"
    using assms by (simp_all add: vs stuck_def)
  have "reset_req n v None" using p(2) by (simp add: reset_req_def)
  from tick_all [OF p(1) this, of tm s] obtain v' where v': "vt_wf n v'" "vt_reset_idx v' = -1"
      "cmn_virtual_timer_cb n tm (v, s) = Some (v', raised tm v [0..<n] s)" "view v' i = tick (view v i)"
    using p(3) by auto
  have "ot_periodic (view v' i)" "ot_limit (view v' i) \<le> final" "ot_count (view v' i) < final"
    using p u32_succ [OF p(6)] by (auto simp: v'(4) tick_def expires_def word_less_nat_alt word_le_nat_alt)
  then show "\<exists>vs'. cmn_virtual_timer_cb n tm vs = Some vs' \<and> stuck n i final vs'"
    using v' p(3) by (auto simp: vs stuck_def)
  show "vt_counters (fst vs) ! i < final" using p(6) by (simp add: vs view_def)
qed

lemma wait_count_hangs:
  assumes "wait_count n tm i final vs = Some w"
  shows "\<not> stuck n i final vs"
proof (rule wait_count.raw_induct [where P = "\<lambda>n tm i final vs w. \<not> stuck n i final vs", OF _ assms])
  fix rec n tm i final vs w
  assume IH: "\<And>n tm i final vs y. rec n tm i final vs = Some y \<Longrightarrow> \<not> stuck n i final vs"
    and run: "(if vt_counters (fst vs) ! i < final
       then Option.bind (cmn_virtual_timer_cb n tm vs) (rec n tm i final) else Some vs) = Some w"
  show "\<not> stuck n i final vs"
  proof
    assume st: "stuck n i final vs"
    from stuck_step(1) [OF st, of tm] obtain vs' where "cmn_virtual_timer_cb n tm vs = Some vs'" "stuck n i final vs'"
      by blast
    with run IH stuck_step(2) [OF st] show False by auto
  qed
qed

text \<open>C31. \<open>vtmr_delay\<close> on a valid virtual timer returns exactly when that timer has no periodic
  match interrupt of a period at most the delay; otherwise the tick handler keeps zeroing the counter
  the delay is waiting for, and the call spins for ever.\<close>

theorem vtmr_delay_returns:
  assumes "vt_wf n v" and "TIMER_IS_VIRTUAL n vid"
  shows "vtmr_delay n tm freq vid us (v, s) \<noteq> None \<longleftrightarrow>
    (let t = view v (unat (VTMR_GET_ID vid)); final = us_to_ticks freq us in
     \<not> ot_periodic t \<or> final = 0 \<or> final < ot_limit t)"
proof -
  let ?i = "unat (VTMR_GET_ID vid)" and ?f = "us_to_ticks freq us"
  note i = reset_ok(2) [OF assms]
  from reset_ok(1) [OF assms, of tm s] i obtain v' where
    r: "vtmr_reset_timer n tm vid (v, s) = Some (v', raised tm v [0..<n] s)" "vt_wf n v'" "vt_reset_idx v' = -1"
    and v: "view v' ?i = (tick (view v ?i))\<lparr>ot_count := 0\<rparr>" by auto
  have f: "ot_periodic (view v' ?i) = ot_periodic (view v ?i)" "ot_limit (view v' ?i) = ot_limit (view v ?i)"
      "ot_count (view v' ?i) = 0"
    by (simp_all add: v tick_def)
  have d: "vtmr_delay n tm freq vid us (v, s) = wait_count n tm ?i ?f (v', raised tm v [0..<n] s)"
    by (simp add: vtmr_delay_def Let_def r(1))
  show ?thesis
  proof (cases "\<not> ot_periodic (view v ?i) \<or> ?f = 0 \<or> ?f < ot_limit (view v ?i)")
    case True
    show ?thesis
    proof (cases "?f = 0")
      case True
      then show ?thesis by (simp add: d wait_count.simps [of n tm ?i 0])
    next
      case False
      with True f have "ot_periodic (view v' ?i) \<longrightarrow> ?f < ot_limit (view v' ?i)" by auto
      from wait_count_returns [OF r(2,3) i this] True show ?thesis by (simp add: d Let_def)
    qed
  next
    case False
    then have "wait_count n tm ?i ?f (v', raised tm v [0..<n] s) \<noteq> Some w" for w
      using wait_count_hangs [of n tm ?i ?f "(v', raised tm v [0..<n] s)" w] r(2,3) i f
      by (auto simp: stuck_def not_less word_neq_0_conv)
    with False show ?thesis by (auto simp: d Let_def)
  qed
qed

definition two_timers :: vtmr where
  "two_timers = \<lparr>vt_counters = [7, 0], vt_reset_idx = -1, vt_limit = [5, 0], vt_periodic = [1],
     vt_enabled = [0], vt_flag = [0]\<rparr>"

lemma two_timers_ok: "vt_wf 2 two_timers" "TIMER_IS_VIRTUAL 2 32" "TIMER_IS_VIRTUAL 2 33"
  by (simp_all add: vt_wf_def two_timers_def TIMER_IS_VIRTUAL_def VTMR_FIRST_ID_def)

lemma vtmr_delay_returns_witness:
  "\<not> (vtmr_delay 2 9 1000 32 6000 (two_timers, int_reset) \<noteq> None)
   \<and> vtmr_delay 2 9 1000 32 4000 (two_timers, int_reset) \<noteq> None"
  using vtmr_delay_returns [OF two_timers_ok(1,2), of 9 1000 6000 int_reset]
    vtmr_delay_returns [OF two_timers_ok(1,2), of 9 1000 4000 int_reset]
  by (simp only: simp_thms) (simp add: us_to_ticks_def view_def two_timers_def VTMR_GET_ID_def VTMR_FIRST_ID_def pk_get_def)

text \<open>C28. Every tick advances each timer independently: a timer expires when its incremented count
  reaches its limit, its flag is then set, an enabled one raises one interrupt (in timer order,
  through the interrupt queue), a periodic one restarts from 0 and a one-shot one is disabled; a
  pending reset request is carried out last.\<close>

theorem timer_tick_refines:
  assumes "vt_wf n v" and "reset_req n v r"
  shows "\<exists>v'. cmn_virtual_timer_cb n tm (v, s) = Some (v', raised tm v [0..<n] s) \<and> vt_wf n v'
    \<and> (\<forall>i<n. view v' i = (if r = Some i then (tick (view v i))\<lparr>ot_count := 0\<rparr> else tick (view v i)))"
  using tick_all [OF assms] by blast

lemma timer_tick_refines_witness:
  "\<exists>v'. cmn_virtual_timer_cb 2 2 (two_timers, int_reset) = Some (v', raised 2 two_timers [0..<2] int_reset)
     \<and> vt_wf 2 v' \<and> (\<forall>i<2. view v' i = tick (view two_timers i))"
  using timer_tick_refines [OF two_timers_ok(1), of None 2 int_reset]
  by (simp add: reset_req_def two_timers_def)

text \<open>After \<open>vtmr_set_match_int\<close> has armed a timer its count is 0 and its interrupt enabled, but
  the match flag, which the call cleared, is already set again when the stale count had reached
  the new period: the tick that performs the reset compares before it zeroes.\<close>

lemma set_match_int_flag:
  assumes "vt_wf n v" and "TIMER_IS_VIRTUAL n vid" and "us \<noteq> 0" and "us_to_ticks freq us \<noteq> 0"
  shows "\<exists>v' s'. vtmr_set_match_int n tm freq vid us type (v, s) = Some ((v', s'), PLATFORM_TIMER_INT_OK)
    \<and> view v' (unat (VTMR_GET_ID vid)) = \<lparr>ot_count = 0, ot_limit = us_to_ticks freq us,
         ot_periodic = (type \<noteq> PLATFORM_TIMER_INT_ONESHOT), ot_enabled = True,
         ot_flag = (us_to_ticks freq us \<le> vt_counters v ! unat (VTMR_GET_ID vid) + 1)\<rparr>"
proof -
  let ?i = "unat (VTMR_GET_ID vid)" and ?f = "us_to_ticks freq us"
  define v1 where "v1 = v\<lparr>vt_limit := (vt_limit v)[?i := ?f],
                   vt_periodic := pk_set (vt_periodic v) ?i (type \<noteq> PLATFORM_TIMER_INT_ONESHOT),
                   vt_flag := pk_set (vt_flag v) ?i False\<rparr>"
  have wf: "vt_wf n v1" using assms(1) by (simp add: vt_wf_def v1_def)
  note i = reset_ok(2) [OF wf assms(2)]
  from reset_ok(1) [OF wf assms(2), of tm s] i obtain v2 s2 where
    r: "vtmr_reset_timer n tm vid (v1, s) = Some (v2, s2)" "vt_wf n v2" and i: "?i < n"
    and v: "view v2 ?i = (tick (view v1 ?i))\<lparr>ot_count := 0\<rparr>" by auto
  have "vtmr_set_match_int n tm freq vid us type (v, s)
    = Some ((v2\<lparr>vt_enabled := pk_set (vt_enabled v2) ?i True\<rparr>, s2), PLATFORM_TIMER_INT_OK)"
    using assms(3,4) r(1) by (simp add: vtmr_set_match_int_def Let_def v1_def)
  moreover have "view v1 ?i = (view v ?i)\<lparr>ot_limit := ?f, ot_periodic := (type \<noteq> PLATFORM_TIMER_INT_ONESHOT),
      ot_flag := False\<rparr>"
    using assms(1) i vt_wf_pk [OF assms(1) i] by (simp add: view_def v1_def vt_wf_def)
  then have "view v2 ?i = \<lparr>ot_count = 0, ot_limit = ?f, ot_periodic = (type \<noteq> PLATFORM_TIMER_INT_ONESHOT),
      ot_enabled = ot_enabled (view v2 ?i), ot_flag = (?f \<le> ot_count (view v ?i) + 1)\<rparr>"
    by (simp add: v tick_def expires_def)
  then have "view (v2\<lparr>vt_enabled := pk_set (vt_enabled v2) ?i True\<rparr>) ?i
    = \<lparr>ot_count = 0, ot_limit = ?f, ot_periodic = (type \<noteq> PLATFORM_TIMER_INT_ONESHOT),
      ot_enabled = True, ot_flag = (?f \<le> vt_counters v ! ?i + 1)\<rparr>"
    using vt_wf_pk [OF r(2) i] by (simp add: view_def)
  ultimately show ?thesis by blast
qed

lemma set_match_int_flag_witness:
  "\<exists>v' s'. vtmr_set_match_int 2 9 1000 32 3000 1 (two_timers, int_reset) = Some ((v', s'), PLATFORM_TIMER_INT_OK)
    \<and> ot_flag (view v' 0)"
  using set_match_int_flag [OF two_timers_ok(1,2), of 3000 1000 9 1 int_reset]
  by (auto simp: us_to_ticks_def two_timers_def VTMR_GET_ID_def VTMR_FIRST_ID_def)

end
