(* ===== verification/Utf8.thy ===== *)
theory Utf8
  imports Prelude
begin

text \<open>
  The UTF-8 converters of \<open>lib/iconv/src/utf8_to_ucs2.c\<close>. A converter gets the input bytes
  (\<open>src\<close>, as many as \<open>*inbytesleft\<close>) and the room of the output buffer and yields its status, the
  bytes it wrote and the two updated counts; a read past the input is \<open>None\<close>. \<open>endian\<close> selects
  big-endian UCS-2. The theory compares them with the UTF-8 encoding of the basic plane.
\<close>

section \<open>The converters\<close>

datatype iconv_status = IcOk | IcE2big | IcEinval \<comment> \<open>0, and -1 with the \<open>errno\<close> set\<close>

record iconv_result =
  ir_status :: iconv_status
  ir_inleft :: u32
  ir_outleft :: u32
  ir_written :: "byte list"

text \<open>\<open>enc_get_utf8_size\<close> shifts out the leading ones; eight turns empty the byte.\<close>

fun leading_ones :: "nat \<Rightarrow> byte \<Rightarrow> nat" where
  "leading_ones 0 c = 0"
| "leading_ones (Suc k) c = (if c AND 0x80 \<noteq> 0 then Suc (leading_ones k (push_bit 1 c)) else 0)"

definition enc_get_utf8_size :: "byte \<Rightarrow> nat" where
  "enc_get_utf8_size c = (let count = leading_ones 8 c in if count = 0 then 1 else count)"

text \<open>\<open>enc_utf8_to_unicode_one\<close> at index \<open>i\<close>: a fault, \<open>Some None\<close> for -1, or the two bytes written.\<close>

definition order2 :: "bool \<Rightarrow> byte \<Rightarrow> byte \<Rightarrow> byte \<times> byte" where
  "order2 endian hi lo = (if endian then (hi, lo) else (lo, hi))"

definition enc_utf8_to_unicode_one :: "byte list \<Rightarrow> nat \<Rightarrow> bool \<Rightarrow> (byte \<times> byte) option option" where
  "enc_utf8_to_unicode_one src i endian =
     (if length src \<le> i then None
      else let b1 = src ! i; utfbytes = enc_get_utf8_size b1 in
        if utfbytes = 1 then Some (Some (order2 endian 0 b1))
        else if utfbytes = 2 then
          (if length src \<le> i + 1 then None
           else let b2 = src ! (i + 1) in
             if b2 AND 0xE0 \<noteq> 0x80 then Some None
             else Some (Some (order2 endian (drop_bit 2 b1 AND 0x07) (push_bit 6 b1 + (b2 AND 0x3F)))))
        else if utfbytes = 3 then
          (if length src \<le> i + 2 then None
           else let b2 = src ! (i + 1); b3 = src ! (i + 2) in
             if b2 AND 0xC0 \<noteq> 0x80 \<or> b3 AND 0xC0 \<noteq> 0x80 then Some None
             else Some (Some (order2 endian (push_bit 4 b1 + (drop_bit 2 b2 AND 0x0F))
                    (push_bit 6 b2 + (b3 AND 0x3F)))))
        else Some None)"

text \<open>The loop of \<open>enc_utf8_to_unicode\<close>: the final status, \<open>iPos\<close> and the bytes written.\<close>

function utf8_loop :: "byte list \<Rightarrow> bool \<Rightarrow> nat \<Rightarrow> nat \<Rightarrow> (iconv_status \<times> nat \<times> byte list) option" where
  "utf8_loop src endian i room =
     (if i < length src then
        if room < 2 then Some (IcE2big, i, [])
        else case enc_utf8_to_unicode_one src i endian of
          None \<Rightarrow> None
        | Some None \<Rightarrow> Some (IcEinval, i, [])
        | Some (Some (x, y)) \<Rightarrow>
            (let n = enc_get_utf8_size (src ! i) in
             case utf8_loop src endian (i + (if n = 0 then 1 else n)) (room - 2) of
               None \<Rightarrow> None
             | Some (st, j, out) \<Rightarrow> Some (st, j, x # y # out))
      else Some (IcOk, i, []))"
  by pat_completeness auto
termination
  by (relation "measure (\<lambda>(src, endian, i, room). length src - i)") auto

declare utf8_loop.simps [simp del]

definition enc_utf8_to_unicode :: "byte list \<Rightarrow> nat \<Rightarrow> bool \<Rightarrow> iconv_result option" where
  "enc_utf8_to_unicode src room endian =
     (case utf8_loop src endian 0 room of None \<Rightarrow> None
      | Some (st, iPos, out) \<Rightarrow>
          Some \<lparr>ir_status = st, ir_inleft = of_nat (length src) - of_nat iPos,
                ir_outleft = of_nat room - of_nat (length out), ir_written = out\<rparr>)"

definition iconv_utf8_to_ucs2 :: "byte list \<Rightarrow> nat \<Rightarrow> iconv_result option" where
  "iconv_utf8_to_ucs2 src room = enc_utf8_to_unicode src room False"

definition iconv_utf8_to_ucs2be :: "byte list \<Rightarrow> nat \<Rightarrow> iconv_result option" where
  "iconv_utf8_to_ucs2be src room = enc_utf8_to_unicode src room True"

text \<open>One character of \<open>enc_unicode_to_utf8\<close>: the bytes stored at \<open>dst[oPos]\<close>.\<close>

definition utf8_put :: "u32 \<Rightarrow> byte list" where
  "utf8_put v =
     (if v \<le> 0x7F then [ucast v]
      else if v \<le> 0x7FF then
        [ucast ((drop_bit 6 v OR 0xE0) AND 0xDF), (ucast (v AND 0xFF) OR 0xC0) AND 0xBF]
      else
        [ucast (((drop_bit 12 v AND 0xFF) OR 0xF0) AND 0xEF),
         ucast (((drop_bit 6 v AND 0xFF) OR 0xC0) AND 0xBF),
         ucast (((v AND 0xFF) OR 0xC0) AND 0xBF)])"

fun unicode_loop :: "bool \<Rightarrow> byte list \<Rightarrow> nat \<Rightarrow> iconv_status \<times> nat \<times> byte list" where
  "unicode_loop endian (a # b # src) room =
     (let v = (if endian then ucast a * 256 + ucast b else ucast b * 256 + ucast a);
          bs = utf8_put v in
      if room < length bs then (IcE2big, 0, [])
      else case unicode_loop endian src (room - length bs) of
        (st, n, out) \<Rightarrow> (st, n + 2, bs @ out))"
| "unicode_loop endian src room = (IcOk, 0, [])"

definition enc_unicode_to_utf8 :: "byte list \<Rightarrow> nat \<Rightarrow> bool \<Rightarrow> iconv_result" where
  "enc_unicode_to_utf8 src room endian =
     (case unicode_loop endian src room of (st, iPos, out) \<Rightarrow>
        \<lparr>ir_status = st, ir_inleft = of_nat (length src) - of_nat iPos,
         ir_outleft = of_nat room - of_nat (length out), ir_written = out\<rparr>)"

definition iconv_ucs2_to_utf8 :: "byte list \<Rightarrow> nat \<Rightarrow> iconv_result" where
  "iconv_ucs2_to_utf8 src room = enc_unicode_to_utf8 src room False"

definition iconv_ucs2be_to_utf8 :: "byte list \<Rightarrow> nat \<Rightarrow> iconv_result" where
  "iconv_ucs2be_to_utf8 src room = enc_unicode_to_utf8 src room True"

section \<open>Specification: UTF-8 of the basic plane\<close>

definition utf8_of :: "u16 \<Rightarrow> byte list" where
  "utf8_of u =
     (if u < 0x80 then [ucast u]
      else if u < 0x800 then [0xC0 OR ucast (drop_bit 6 u), 0x80 OR ucast (u AND 0x3F)]
      else [0xE0 OR ucast (drop_bit 12 u), 0x80 OR ucast (drop_bit 6 u AND 0x3F), 0x80 OR ucast (u AND 0x3F)])"

definition ucs2_of :: "bool \<Rightarrow> u16 \<Rightarrow> byte list" where
  "ucs2_of endian u = (if endian then [ucast (drop_bit 8 u), ucast u] else [ucast u, ucast (drop_bit 8 u)])"

text \<open>The code points whose second UTF-8 byte is 0xA0 to 0xBF.\<close>

definition refused :: "u16 \<Rightarrow> bool" where
  "refused u \<longleftrightarrow> 0x80 \<le> u \<and> u < 0x800 \<and> bit u 5"

section \<open>Encoding\<close>

lemma ucs2_of_value:
  "ucast (ucast (drop_bit 8 u) :: byte) * 256 + ucast (ucast u :: byte) = (ucast u :: u32)"
  for u :: u16
proof -
  have "ucast (ucast (drop_bit 8 u) :: byte) * 256 + ucast (ucast u :: byte)
    = (push_bit 8 (ucast (ucast (drop_bit 8 u) :: byte)) + ucast (ucast u :: byte) :: u32)"
    by (simp add: push_bit_eq_mult)
  also have "\<dots> = push_bit 8 (ucast (ucast (drop_bit 8 u) :: byte)) OR ucast (ucast u :: byte)"
    by (rule disjunctive_add) (auto simp: bit_simps)
  also have "\<dots> = ucast u"
    by (rule bit_word_eqI) (auto simp: bit_simps dest: bit_imp_le_length)
  finally show ?thesis .
qed

lemma utf8_put_of: "utf8_put (ucast u) = utf8_of u"
proof -
  have "ucast u \<le> (0x7F :: u32) \<longleftrightarrow> u < 0x80" "ucast u \<le> (0x7FF :: u32) \<longleftrightarrow> u < 0x800"
    by (auto simp: word_le_nat_alt word_less_nat_alt)
  moreover have "\<not> bit u 16" by (auto dest: bit_imp_le_length)
  moreover have "u < 0x800 \<Longrightarrow> \<not> bit u 11" using bit_imp_ge [of u 11] by (auto simp: word_less_nat_alt)
  ultimately show ?thesis
    unfolding utf8_put_def utf8_of_def
    by (auto intro!: byte_eqI simp: bit_simps)
qed

lemma unicode_loop_encodes:
  "length (concat (map utf8_of us)) \<le> room
   \<Longrightarrow> unicode_loop e (concat (map (ucs2_of e) us)) room
       = (IcOk, 2 * length us, concat (map utf8_of us))"
proof (induction us arbitrary: room)
  case Nil
  then show ?case by simp
next
  case (Cons u us)
  have v: "(if e then ucast (ucast (drop_bit 8 u) :: byte) * 256 + ucast (ucast u :: byte)
     else ucast (ucast (drop_bit 8 u) :: byte) * 256 + ucast (ucast u :: byte)) = (ucast u :: u32)"
    by (simp only: ucs2_of_value if_cancel)
  from Cons have r: "length (utf8_of u) \<le> room"
      "length (concat (map utf8_of us)) \<le> room - length (utf8_of u)" by simp_all
  from Cons.IH [OF r(2)] r(1) show ?case
    by (cases e) (simp_all add: ucs2_of_def ucs2_of_value utf8_put_of Let_def)
qed

text \<open>C11. \<open>iconv_ucs2_to_utf8\<close> and its big-endian form write exactly the UTF-8 encoding of the
  code units of their input, for every input of whole code units whose encoding fits the output.\<close>

theorem ucs2_to_utf8_correct:
  assumes "length (concat (map utf8_of us)) \<le> room"
  shows "enc_unicode_to_utf8 (concat (map (ucs2_of e) us)) room e
    = \<lparr>ir_status = IcOk, ir_inleft = 0, ir_outleft = of_nat (room - length (concat (map utf8_of us))),
       ir_written = concat (map utf8_of us)\<rparr>"
proof -
  have "length (concat (map (ucs2_of e) us)) = 2 * length us" by (induction us) (simp_all add: ucs2_of_def)
  then show ?thesis
    using assms unicode_loop_encodes [OF assms, of e]
    by (simp add: enc_unicode_to_utf8_def of_nat_diff)
qed

lemma ucs2_to_utf8_correct_witness:
  "ir_written (enc_unicode_to_utf8 (concat (map (ucs2_of True) [0x4E2D, 0x41])) 4 True) = [0xE4, 0xB8, 0xAD, 0x41]"
  using ucs2_to_utf8_correct [of "[0x4E2D, 0x41]" 4 True] by (simp add: utf8_of_def)

section \<open>Decoding\<close>

lemma size_of_lead:
  "c AND 0x80 = 0 \<Longrightarrow> enc_get_utf8_size c = 1"
  "c AND 0xE0 = 0xC0 \<Longrightarrow> enc_get_utf8_size c = 2"
  "c AND 0xF0 = 0xE0 \<Longrightarrow> enc_get_utf8_size c = 3"
proof -
  have b: "c AND 0x80 \<noteq> 0 \<longleftrightarrow> bit c 7" for c :: byte
    using and_push_bit_1 [of c 7] by (simp add: push_bit_eq_mult)
  have e: "enc_get_utf8_size c = (if bit c 7 then leading_ones 8 c else 1)"
  proof -
    have "leading_ones 8 c \<noteq> 0 \<longleftrightarrow> bit c 7" using leading_ones.simps(2) [of 7 c] by (simp add: b)
    moreover have "\<not> bit c 7 \<Longrightarrow> leading_ones 8 c = 0" using calculation by blast
    ultimately show ?thesis by (auto simp: enc_get_utf8_size_def Let_def)
  qed
  have st: "leading_ones (Suc k) d = (if bit d 7 then Suc (leading_ones k (push_bit 1 d)) else 0)" for k d
    by (simp only: leading_ones.simps b)
  have sh: "bit (push_bit 1 c) 7 = bit c 6" "bit (push_bit 1 (push_bit 1 c)) 7 = bit c 5"
      "bit (push_bit 1 (push_bit 1 (push_bit 1 c))) 7 = bit c 4"
    unfolding bit_push_bit_iff by simp_all
  have "leading_ones (Suc (Suc (Suc (Suc 4)))) c = (if bit c 7 then Suc (if bit c 6 then Suc (if bit c 5 then
      Suc (if bit c 4 then Suc (leading_ones 4 (push_bit 1 (push_bit 1 (push_bit 1 (push_bit 1 c))))) else 0)
        else 0) else 0) else 0)"
    by (simp only: st sh)
  moreover have "Suc (Suc (Suc (Suc 4))) = 8" by simp
  ultimately have l: "bit c 7 \<Longrightarrow> bit c 6 \<Longrightarrow> \<not> bit c 5 \<Longrightarrow> leading_ones 8 c = 2"
      "bit c 7 \<Longrightarrow> bit c 6 \<Longrightarrow> bit c 5 \<Longrightarrow> \<not> bit c 4 \<Longrightarrow> leading_ones 8 c = 3"
    by simp_all
  show "enc_get_utf8_size c = 1" if "c AND 0x80 = 0" using that b e by auto
  show "enc_get_utf8_size c = 2" if "c AND 0xE0 = 0xC0"
  proof -
    have "bit (c AND 0xE0) n = bit (0xC0 :: byte) n" for n using that by simp
    from this [of 7] this [of 6] this [of 5] have "bit c 7" "bit c 6" "\<not> bit c 5"
      by (simp_all add: bit_simps)
    then show ?thesis using e l by simp
  qed
  show "enc_get_utf8_size c = 3" if "c AND 0xF0 = 0xE0"
  proof -
    have "bit (c AND 0xF0) n = bit (0xE0 :: byte) n" for n using that by simp
    from this [of 7] this [of 6] this [of 5] this [of 4] have "bit c 7" "bit c 6" "bit c 5" "\<not> bit c 4"
      by (simp_all add: bit_simps)
    then show ?thesis using e l by simp
  qed
qed

text \<open>The sums of shifted and masked bytes are disjunctions.\<close>

lemma shift_add:
  "push_bit 6 (a :: byte) + (b AND 0x3F) = push_bit 6 a OR (b AND 0x3F)"
  "push_bit 4 (a :: byte) + (b AND 0x0F) = push_bit 4 a OR (b AND 0x0F)"
proof -
  have m: "(0x3F :: byte) = mask 6" "(0x0F :: byte) = mask 4" by (simp_all add: mask_eq_exp_minus_1)
  show "push_bit 6 a + (b AND 0x3F) = push_bit 6 a OR (b AND 0x3F)"
    unfolding m by (rule disjunctive_add) (auto simp: bit_simps)
  show "push_bit 4 a + (b AND 0x0F) = push_bit 4 a OR (b AND 0x0F)"
    unfolding m by (rule disjunctive_add) (auto simp: bit_simps)
qed

lemma utf8_one_decodes:
  assumes "src = pre @ utf8_of u @ post"
  shows "enc_utf8_to_unicode_one src (length pre) e
      = Some (if refused u then None else Some (order2 e (ucast (drop_bit 8 u)) (ucast u)))
    \<and> enc_get_utf8_size (src ! length pre) = length (utf8_of u)"
proof -
  have hi: "u < 0x80 \<Longrightarrow> k \<ge> 7 \<Longrightarrow> \<not> bit u k" "u < 0x800 \<Longrightarrow> k \<ge> 11 \<Longrightarrow> \<not> bit u k" "\<not> bit u (Suc 15)" for k
    using bit_imp_ge [of u k] power_increasing [of 7 k "2::nat"] power_increasing [of 11 k "2::nat"]
    by (auto simp: word_less_nat_alt dest: bit_imp_le_length)
  consider "u < 0x80" | "\<not> u < 0x80" "u < 0x800" | "\<not> u < 0x80" "\<not> u < 0x800" by blast
  then show ?thesis
  proof cases
    case 1
    have h: "src ! length pre = ucast u" using assms 1 by (simp add: utf8_of_def nth_append)
    have "ucast u AND 0x80 = (0 :: byte)" using hi(1) [OF 1] by (auto intro!: byte_eqI simp: bit_simps)
    then have s: "enc_get_utf8_size (ucast u) = 1" by (rule size_of_lead)
    have z: "ucast (drop_bit 8 u) = (0 :: byte)" using hi(1) [OF 1] by (auto intro!: byte_eqI simp: bit_simps)
    have "\<not> refused u" using 1 by (auto simp: refused_def)
    then show ?thesis
      using assms 1 s h z by (simp add: enc_utf8_to_unicode_one_def Let_def utf8_of_def)
  next
    case 2
    define a b :: byte where ab: "a = 0xC0 OR ucast (drop_bit 6 u)" "b = 0x80 OR ucast (u AND 0x3F)"
    have src: "src = pre @ a # b # post" "length (utf8_of u) = 2"
      using assms 2 by (simp_all add: utf8_of_def ab)
    then have h: "src ! length pre = a" "src ! (length pre + 1) = b" "length pre + 2 \<le> length src"
      by (simp_all add: nth_append)
    have "a AND 0xE0 = 0xC0" using hi(2) [OF 2(2)] by (auto intro!: byte_eqI simp: ab bit_simps)
    then have s: "enc_get_utf8_size a = 2" by (rule size_of_lead)
    have r: "b AND 0xE0 \<noteq> 0x80 \<longleftrightarrow> refused u"
    proof
      assume "refused u"
      then have "bit (b AND 0xE0) 5" by (simp add: ab refused_def bit_simps)
      then show "b AND 0xE0 \<noteq> 0x80" by auto
    next
      assume ne: "b AND 0xE0 \<noteq> 0x80"
      have "\<not> bit u 5 \<Longrightarrow> b AND 0xE0 = 0x80" by (auto intro!: byte_eqI simp: ab bit_simps)
      with ne 2 show "refused u" by (auto simp: refused_def not_less)
    qed
    have "drop_bit 2 a AND 0x07 = (ucast (drop_bit 8 u) :: byte)"
        "push_bit 6 a OR (b AND 0x3F) = (ucast u :: byte)"
      using hi(2) [OF 2(2)] by (auto intro!: byte_eqI simp: ab bit_simps)
    then show ?thesis
      using s h r src(2) by (simp add: enc_utf8_to_unicode_one_def Let_def shift_add)
  next
    case 3
    define a b c :: byte where ab: "a = 0xE0 OR ucast (drop_bit 12 u)"
      "b = 0x80 OR ucast (drop_bit 6 u AND 0x3F)" "c = 0x80 OR ucast (u AND 0x3F)"
    have src: "src = pre @ a # b # c # post" "length (utf8_of u) = 3"
      using assms 3 by (simp_all add: utf8_of_def ab)
    then have h: "src ! length pre = a" "src ! (length pre + 1) = b" "src ! (length pre + 2) = c"
        "length pre + 3 \<le> length src"
      by (simp_all add: nth_append)
    have "a AND 0xF0 = 0xE0" using hi(3) by (auto intro!: byte_eqI simp: ab bit_simps)
    then have s: "enc_get_utf8_size a = 3" by (rule size_of_lead)
    have r: "b AND 0xC0 = 0x80" "c AND 0xC0 = 0x80" by (auto intro!: byte_eqI simp: ab bit_simps)
    have "push_bit 4 a OR (drop_bit 2 b AND 0x0F) = (ucast (drop_bit 8 u) :: byte)"
        "push_bit 6 b OR (c AND 0x3F) = (ucast u :: byte)"
      by (auto intro!: byte_eqI simp: ab bit_simps)
    moreover have "\<not> refused u" using 3 by (simp add: refused_def)
    ultimately show ?thesis
      using s h r src(2) by (simp add: enc_utf8_to_unicode_one_def Let_def shift_add)
  qed
qed

lemma length_utf8_of: "0 < length (utf8_of u)"
  by (simp add: utf8_of_def)

lemma utf8_loop_decodes:
  assumes "src = pre @ concat (map utf8_of us) @ post" and "\<forall>u\<in>set us. \<not> refused u" and "2 * length us \<le> room"
  shows "utf8_loop src e (length pre) room =
    map_option (\<lambda>(st, j, out). (st, j, concat (map (ucs2_of e) us) @ out))
      (utf8_loop src e (length pre + length (concat (map utf8_of us))) (room - 2 * length us))"
  using assms
proof (induction us arbitrary: pre room)
  case Nil
  then show ?case by (simp add: option.map_ident case_prod_unfold)
next
  case (Cons u us)
  let ?t = "concat (map utf8_of us) @ post"
  have s: "src = pre @ utf8_of u @ ?t" using Cons.prems(1) by simp
  from utf8_one_decodes [OF s, of e] Cons.prems(2)
  have one: "enc_utf8_to_unicode_one src (length pre) e = Some (Some (order2 e (ucast (drop_bit 8 u)) (ucast u)))"
    "enc_get_utf8_size (src ! length pre) = length (utf8_of u)" by simp_all
  have i: "length pre < length src" using s length_utf8_of [of u] by simp
  have "src = (pre @ utf8_of u) @ ?t" using s by simp
  from Cons.IH [OF this, of "room - 2"] Cons.prems(2,3)
  have "utf8_loop src e (length pre + length (utf8_of u)) (room - 2) =
    map_option (\<lambda>(st, j, out). (st, j, concat (map (ucs2_of e) us) @ out))
      (utf8_loop src e (length pre + (length (utf8_of u) + length (concat (map utf8_of us)))) (room - 2 - 2 * length us))"
    by (simp add: add.assoc)
  moreover have "room - 2 - 2 * length us = room - 2 * length (u # us)" by simp
  ultimately show ?case
    using i one Cons.prems(3) length_utf8_of [of u]
    by (subst utf8_loop.simps)
      (auto simp: Let_def order2_def ucs2_of_def map_option_case split: option.splits)
qed

text \<open>C9. The UTF-8 decoder reads back every code point below 0x80 or from 0x800 on, and exactly
  half of those in between: it stops with EINVAL at the first code point of the range
  0x80..0x7FF whose second byte is 0xA0..0xBF, because that byte is tested with the mask 0xE0.\<close>

theorem utf8_to_ucs2_correct:
  assumes "\<forall>u\<in>set us. \<not> refused u" and "2 * length us \<le> room"
  shows "enc_utf8_to_unicode (concat (map utf8_of us)) room e
      = Some \<lparr>ir_status = IcOk, ir_inleft = 0, ir_outleft = of_nat (room - 2 * length us),
          ir_written = concat (map (ucs2_of e) us)\<rparr>
    \<and> (refused v \<and> 2 * length us + 2 \<le> room \<longrightarrow>
       enc_utf8_to_unicode (concat (map utf8_of us) @ utf8_of v @ post) room e
      = Some \<lparr>ir_status = IcEinval, ir_inleft = of_nat (length (utf8_of v @ post)),
          ir_outleft = of_nat (room - 2 * length us), ir_written = concat (map (ucs2_of e) us)\<rparr>)"
proof -
  let ?in = "concat (map utf8_of us)"
  have len: "length (concat (map (ucs2_of e) us)) = 2 * length us" by (induction us) (simp_all add: ucs2_of_def)
  from utf8_loop_decodes [of ?in "[]" us "[]" room e] assms
  have 1: "utf8_loop ?in e 0 room = Some (IcOk, length ?in, concat (map (ucs2_of e) us))"
    by (simp add: utf8_loop.simps [of ?in e "length ?in"])
  have "utf8_loop (?in @ utf8_of v @ post) e 0 room = Some (IcEinval, length ?in, concat (map (ucs2_of e) us))"
    if v: "refused v" "2 * length us + 2 \<le> room"
  proof -
    from utf8_one_decodes [of "?in @ utf8_of v @ post" ?in v post e] v(1)
    have "enc_utf8_to_unicode_one (?in @ utf8_of v @ post) (length ?in) e = Some None" by simp
    then show ?thesis
      using utf8_loop_decodes [of "?in @ utf8_of v @ post" "[]" us "utf8_of v @ post" room e] assms v
        length_utf8_of [of v]
      by (simp add: utf8_loop.simps [of "?in @ utf8_of v @ post" e "length ?in"])
  qed
  with 1 assms(2) len show ?thesis
    by (auto simp: enc_utf8_to_unicode_def of_nat_diff)
qed

lemma utf8_to_ucs2_correct_witness:
  "enc_utf8_to_unicode (concat (map utf8_of [0x4E2D])) 2 False
      = Some \<lparr>ir_status = IcOk, ir_inleft = 0, ir_outleft = 0, ir_written = [0x2D, 0x4E]\<rparr>
   \<and> (\<exists>r. enc_utf8_to_unicode (utf8_of 0xE9) 2 False = Some r \<and> ir_status r = IcEinval)"
proof -
  have r: "\<not> refused 0x4E2D" "refused 0xE9" by (simp_all add: refused_def bit_simps)
  have a: "\<forall>u\<in>set [0x4E2D]. \<not> refused u" "\<forall>u\<in>set ([] :: u16 list). \<not> refused u" using r by simp_all
  show ?thesis
    using utf8_to_ucs2_correct [OF a(1), of 2 False] utf8_to_ucs2_correct [OF a(2), of 2 False "0xE9" "[]"] r
    by (simp add: ucs2_of_def)
qed

end
