(* ===== verification/GbCheck.thy ===== *)
theory GbCheck
  imports GbData
begin

text \<open>
  The consistency of the tables of theory \<open>GbData\<close>, checked by evaluation: the bit counts are
  those of the bytes, and every running total is the number of bits set before its group.
\<close>

section \<open>Counting bits\<close>

definition byte_bits :: "u8 \<Rightarrow> bool list" where
  "byte_bits b = [bit b 0, bit b 1, bit b 2, bit b 3, bit b 4, bit b 5, bit b 6, bit b 7]"

abbreviation ones :: "bool list \<Rightarrow> nat" where
  "ones bs \<equiv> length (filter (\<lambda>b. b) bs)"

definition popb :: "u8 \<Rightarrow> nat" where
  "popb b = ones (byte_bits b)"

lemma number_of_bit_1_table: "map unat number_of_bit_1 = map (\<lambda>n. popb (of_nat n)) [0..<256]"
  by code_simp

lemma number_of_bit_1_popb:
  "unat (number_of_bit_1 ! unat b) = popb b" "unat b < length number_of_bit_1" for b :: u8
proof -
  have b: "unat b < 256" using unsigned_less [of b, where 'a = nat] by simp
  have l: "length number_of_bit_1 = 256" using arg_cong [OF number_of_bit_1_table, of length] by simp
  then show "unat b < length number_of_bit_1" using b by simp
  have "map unat number_of_bit_1 ! unat b = popb (of_nat (unat b))"
    unfolding number_of_bit_1_table using b by simp
  then show "unat (number_of_bit_1 ! unat b) = popb b" using b l by simp
qed

section \<open>The running totals agree with the bitmap\<close>

fun scan :: "nat \<Rightarrow> u16 list \<Rightarrow> u8 list \<Rightarrow> nat option" where
  "scan acc (i # ix) (b0 # b1 # b2 # b3 # b4 # b5 # b6 # b7 # bs) =
     (if unat i = acc
      then scan (acc + popb b0 + popb b1 + popb b2 + popb b3 + popb b4 + popb b5 + popb b6 + popb b7) ix bs
      else None)"
| "scan acc [] [] = Some acc"
| "scan acc _ _ = None"

lemma scan_a: "scan 0 (concat ucs2_index_a) (concat ucs2_mirror_a) = Some 2413"
  by (simp add: ucs2_index_a_def ucs2_mirror_a_def popb_def byte_bits_def)

lemma scan_b: "scan 2413 (concat ucs2_index_b) (concat ucs2_mirror_b) = Some 4397"
  by (simp add: ucs2_index_b_def ucs2_mirror_b_def popb_def byte_bits_def)

lemma scan_c: "scan 4397 (concat ucs2_index_c) (concat ucs2_mirror_c) = Some 6408"
  by (simp add: ucs2_index_c_def ucs2_mirror_c_def popb_def byte_bits_def)

lemma scan_d: "scan 6408 (concat ucs2_index_d) (concat ucs2_mirror_d) = Some 6763"
  by (simp add: ucs2_index_d_def ucs2_mirror_d_def popb_def byte_bits_def)

lemma scan_append:
  "scan acc ix bs = Some n \<Longrightarrow> scan acc (ix @ jx) (bs @ cs) = scan n jx cs"
  by (induction acc ix bs rule: scan.induct) (auto split: if_splits)

lemma scan_all: "scan 0 (concat ucs2_index_table_4E00_9FFF) (concat ucs2_mirror_4E00_9FFF) = Some 6763"
  unfolding ucs2_index_table_4E00_9FFF_def ucs2_mirror_4E00_9FFF_def concat_append
  by (simp only: scan_append [OF scan_a] scan_append [OF scan_b] scan_append [OF scan_c] scan_d)

abbreviation sum_pop :: "u8 list \<Rightarrow> nat" where
  "sum_pop bs \<equiv> sum_list (map popb bs)"

lemma scan_nth:
  "scan acc ix bs = Some n \<Longrightarrow> length bs = 8 * length ix \<and> n = acc + sum_pop bs
     \<and> (\<forall>k<length ix. unat (ix ! k) = acc + sum_pop (take (8 * k) bs))"
proof (induction acc ix bs rule: scan.induct)
  case (1 acc i ix b0 b1 b2 b3 b4 b5 b6 b7 bs)
  from 1(2) have i: "unat i = acc" by (simp split: if_splits)
  with 1 have IH: "length bs = 8 * length ix"
      "n = acc + popb b0 + popb b1 + popb b2 + popb b3 + popb b4 + popb b5 + popb b6 + popb b7 + sum_pop bs"
      "\<forall>k<length ix. unat (ix ! k) = acc + popb b0 + popb b1 + popb b2 + popb b3 + popb b4 + popb b5 + popb b6
        + popb b7 + sum_pop (take (8 * k) bs)"
    by simp_all
  show ?case
  proof (intro conjI allI impI)
    fix k
    assume k: "k < length (i # ix)"
    show "unat ((i # ix) ! k) = acc + sum_pop (take (8 * k) (b0 # b1 # b2 # b3 # b4 # b5 # b6 # b7 # bs))"
    proof (cases k)
      case 0
      then show ?thesis using i by simp
    next
      case (Suc j)
      moreover have "8 * Suc j = Suc (Suc (Suc (Suc (Suc (Suc (Suc (Suc (8 * j))))))))" by simp
      ultimately show ?thesis using IH(3) k by (simp only: take_Suc_Cons) simp
    qed
  qed (use IH in simp_all)
qed simp_all

end
