(* ===== verification/Gb2312.thy ===== *)
theory Gb2312
  imports GbCheck
begin

text \<open>
  The lookup of a Chinese character, \<open>get_ucs2_offset\<close> of \<open>lib/iconv/src/ucs2_to_gb2312.c\<close>. A
  character is found by its rank in the bitmap of theory \<open>GbData\<close>; the theory checks the running
  totals against the bitmap and shows that \<open>get_ucs2_offset\<close> is the rank function.
\<close>

section \<open>The offset of a character\<close>

text \<open>The two loops of \<open>get_ucs2_offset\<close>: whole bytes, then bits of the byte.\<close>

function ofs_bytes :: "u8 list \<Rightarrow> u16 \<Rightarrow> nat \<Rightarrow> nat \<Rightarrow> (u16 \<times> nat \<times> nat) option" where
  "ofs_bytes row offset ptr tmp =
     (if tmp \<ge> 8 then
        (if ptr < length row
         then ofs_bytes row (offset + ucast (number_of_bit_1 ! unat (row ! ptr))) (Suc ptr) (tmp - 8)
         else None)
      else Some (offset, ptr, tmp))"
  by pat_completeness auto
termination
  by (relation "measure (\<lambda>(row, offset, ptr, tmp). tmp)") auto

declare ofs_bytes.simps [simp del]

fun ofs_bits :: "u16 \<Rightarrow> u8 \<Rightarrow> nat \<Rightarrow> u16" where
  "ofs_bits offset ch 0 = offset"
| "ofs_bits offset ch (Suc tmp) =
     ofs_bits (if ch AND 1 \<noteq> 0 then offset + 1 else offset) (drop_bit 1 ch) tmp"

definition get_ucs2_offset :: "u16 \<Rightarrow> u16 option" where
  "get_ucs2_offset ucs2 =
     (let page = unat (drop_bit 8 ucs2 - 0x4E); lo = unat (ucs2 AND 0xFF); q = lo div 64 in
      if page < length ucs2_mirror_4E00_9FFF then
        case ofs_bytes (ucs2_mirror_4E00_9FFF ! page) (ucs2_index_table_4E00_9FFF ! page ! q) (q * 8) (lo mod 64) of
          None \<Rightarrow> None
        | Some (offset, ptr, tmp) \<Rightarrow>
            if ptr < length (ucs2_mirror_4E00_9FFF ! page) then
              let ch = ucs2_mirror_4E00_9FFF ! page ! ptr in
              Some (if ch AND push_bit tmp 1 \<noteq> 0 then ofs_bits offset ch tmp else -1)
            else None
      else None)"

text \<open>The repertoire as one sequence of bits from 0x4E00 on, and the rank of a character in it.\<close>

definition gb_bytes :: "u8 list" where
  "gb_bytes = concat ucs2_mirror_4E00_9FFF"

definition gb_bits :: "bool list" where
  "gb_bits = concat (map byte_bits gb_bytes)"

definition gb_has :: "u16 \<Rightarrow> bool" where
  "gb_has u = gb_bits ! (unat u - 0x4E00)"

definition gb_rank :: "u16 \<Rightarrow> nat" where
  "gb_rank u = ones (take (unat u - 0x4E00) gb_bits)"

lemma byte_bits_length: "length (byte_bits b) = 8"
  by (simp add: byte_bits_def)

lemma bits_split:
  "r < 8 \<Longrightarrow> m < length bs \<Longrightarrow> take (8 * m + r) (concat (map byte_bits bs))
     = concat (map byte_bits (take m bs)) @ take r (byte_bits (bs ! m))"
  and bits_nth: "r < 8 \<Longrightarrow> m < length bs \<Longrightarrow> concat (map byte_bits bs) ! (8 * m + r) = bit (bs ! m) r"
proof -
  assume r: "r < 8" and m: "m < length bs"
  have len: "length (concat (map byte_bits xs)) = 8 * length xs" for xs
    by (induction xs) (simp_all add: byte_bits_def)
  have bs: "concat (map byte_bits bs) = concat (map byte_bits (take m bs)) @ byte_bits (bs ! m)
      @ concat (map byte_bits (drop (Suc m) bs))"
    by (subst id_take_nth_drop [OF m]) simp
  have l: "length (concat (map byte_bits (take m bs))) = 8 * m" using len [of "take m bs"] m by simp
  show "take (8 * m + r) (concat (map byte_bits bs))
     = concat (map byte_bits (take m bs)) @ take r (byte_bits (bs ! m))"
    unfolding bs using r l by (simp add: byte_bits_length)
  have "byte_bits (bs ! m) ! r = bit (bs ! m) r"
    using r by (simp add: byte_bits_def less_Suc_eq eval_nat_numeral) auto
  moreover have "length (byte_bits (bs ! m)) = 8" by (simp add: byte_bits_def)
  ultimately show "concat (map byte_bits bs) ! (8 * m + r) = bit (bs ! m) r"
    unfolding bs nth_append l using r by simp
qed

lemma ones_concat: "ones (concat (map byte_bits bs)) = sum_pop bs"
  by (induction bs) (simp_all add: popb_def)

lemma ofs_bytes_ok:
  "p + t div 8 < length row \<Longrightarrow> ofs_bytes row offset p t
     = Some (offset + of_nat (sum_pop (take (t div 8) (drop p row))), p + t div 8, t mod 8)"
proof (induction row offset p t rule: ofs_bytes.induct)
  case (1 row offset p t)
  show ?case
  proof (cases "t \<ge> 8")
    case False
    then show ?thesis by (simp add: ofs_bytes.simps [of row offset p t])
  next
    case True
    then obtain k where k: "t div 8 = Suc k" "(t - 8) div 8 = k" "(t - 8) mod 8 = t mod 8"
      using le_div_geq [of 8 t] le_mod_geq [of 8 t] by simp
    have "p < length row" using 1(2) by simp
    then have d: "drop p row = row ! p # drop (Suc p) row" by (rule Cons_nth_drop_Suc [symmetric])
    have c: "ucast (number_of_bit_1 ! unat (row ! p)) = (of_nat (popb (row ! p)) :: u16)"
      using arg_cong [OF number_of_bit_1_popb(1) [of "row ! p"], of "of_nat :: nat \<Rightarrow> u16"] by simp
    show ?thesis
      using 1(1) [OF True \<open>p < length row\<close>] 1(2) True \<open>p < length row\<close>
      by (subst ofs_bytes.simps) (simp add: k d c add.assoc)
  qed
qed

lemma ofs_bits_ok: "t \<le> 8 \<Longrightarrow> ofs_bits offset ch t = offset + of_nat (ones (map (bit ch) [0..<t]))"
proof (induction t arbitrary: offset ch)
  case 0
  then show ?case by simp
next
  case (Suc t)
  have "map (bit ch) [0..<Suc t] = bit ch 0 # map (bit (drop_bit 1 ch)) [0..<t]"
    by (simp add: upt_conv_Cons map_Suc_upt [symmetric] bit_drop_bit_eq del: upt_Suc map_Suc_upt)
  moreover have "ch AND 1 \<noteq> 0 \<longleftrightarrow> bit ch 0"
    using and_push_bit_1 [of ch 0] by simp
  ultimately show ?case using Suc by simp
qed

lemma uniform_rows:
  assumes "\<forall>r\<in>set rows. length r = n" and "i < length rows" and "j \<le> n"
  shows "take (n * i + j) (concat rows) = concat (take i rows) @ take j (rows ! i)"
    and "j < n \<Longrightarrow> concat rows ! (n * i + j) = rows ! i ! j"
    and "length (concat (take i rows)) = n * i"
proof -
  have l: "length (concat (take i rows)) = n * i"
  proof -
    have "length (concat xs) = n * length xs" if "\<forall>r\<in>set xs. length r = n" for xs :: "'a list list"
      using that by (induction xs) simp_all
    from this [of "take i rows"] assms(1,2) show ?thesis by (auto dest: in_set_takeD)
  qed
  have c: "concat rows = concat (take i rows) @ rows ! i @ concat (drop (Suc i) rows)"
    by (subst id_take_nth_drop [OF assms(2)]) simp
  have r: "length (rows ! i) = n" using assms(1,2) by simp
  show "take (n * i + j) (concat rows) = concat (take i rows) @ take j (rows ! i)"
    using assms(3) r l by (subst c) simp
  show "concat rows ! (n * i + j) = rows ! i ! j" if "j < n"
    using that r l by (subst c) (simp add: nth_append)
  show "length (concat (take i rows)) = n * i" by (rule l)
qed

lemma table_shape:
  "length ucs2_mirror_4E00_9FFF = 82" "\<forall>r\<in>set ucs2_mirror_4E00_9FFF. length r = 32"
  "length ucs2_index_table_4E00_9FFF = 82" "\<forall>r\<in>set ucs2_index_table_4E00_9FFF. length r = 4"
  by (simp_all add: ucs2_mirror_4E00_9FFF_def ucs2_mirror_a_def ucs2_mirror_b_def ucs2_mirror_c_def
      ucs2_mirror_d_def ucs2_index_table_4E00_9FFF_def ucs2_index_a_def ucs2_index_b_def ucs2_index_c_def
      ucs2_index_d_def)

lemma gb_bytes_length: "length gb_bytes = 2624"
  using uniform_rows(3) [OF table_shape(2), of 81 0] table_shape(1)
    arg_cong [OF take_Suc_conv_app_nth [of 81 ucs2_mirror_4E00_9FFF], of "length \<circ> concat"]
    table_shape(2)
  by (simp add: gb_bytes_def)

lemma take_byte_bits: "r \<le> 8 \<Longrightarrow> take r (byte_bits b) = map (bit b) [0..<r]"
proof -
  assume "r \<le> 8"
  moreover have "byte_bits b = map (bit b) [0..<8]" by (simp add: byte_bits_def upt_rec numeral_eq_Suc)
  ultimately show ?thesis by (simp add: take_map)
qed

lemma u16_page:
  assumes "0x4E00 \<le> (u :: u16)" and "u < 0xA000"
  shows "unat (drop_bit 8 u - 0x4E) = unat u div 256 - 0x4E" and "unat (u AND 0xFF) = unat u mod 256"
    and "0x4E \<le> unat u div 256" and "unat u div 256 - 0x4E < 82"
proof -
  have b: "0x4E00 \<le> unat u" "unat u < 0xA000"
    using assms by (simp_all add: word_le_nat_alt word_less_nat_alt)
  have d: "unat (drop_bit 8 u) = unat u div 256" by (simp add: drop_bit_eq_div unat_div_distrib)
  show p: "0x4E \<le> unat u div 256" "unat u div 256 - 0x4E < 82" using b by linarith+
  have "0x4E \<le> drop_bit 8 u" using p(1) d by (simp add: word_le_nat_alt)
  then show "unat (drop_bit 8 u - 0x4E) = unat u div 256 - 0x4E" by (simp add: unat_sub d)
  have "u AND 0xFF = take_bit 8 u" by (simp add: take_bit_eq_mask mask_eq_exp_minus_1)
  then show "unat (u AND 0xFF) = unat u mod 256"
    by (simp add: unsigned_take_bit_eq take_bit_eq_mod unat_mod_distrib)
qed

lemma get_ucs2_offset_rank:
  assumes "0x4E00 \<le> u" and "u < 0xA000"
  shows "get_ucs2_offset u = Some (if gb_has u then of_nat (gb_rank u) else -1)"
    and "gb_rank u + (if gb_has u then 1 else 0) \<le> 6763"
proof -
  define p lo q t where d: "p = unat u div 256 - 0x4E" "lo = unat u mod 256" "q = lo div 64" "t = lo mod 64"
  note pg = u16_page [OF assms]
  have p: "p < 82" and q: "q < 4" and t: "t < 64" using pg by (simp_all add: d)
  let ?row = "ucs2_mirror_4E00_9FFF ! p"
  have row: "length ?row = 32" using table_shape(1,2) p by simp
  define m r where mr: "m = 32 * p + (8 * q + t div 8)" "r = t mod 8"
  have j: "8 * q + t div 8 < 32" using q t by linarith
  have k: "unat u - 0x4E00 = 8 * m + r"
  proof -
    have "unat u = 256 * (p + 0x4E) + lo" using pg(3) by (simp add: d)
    moreover have "lo = 64 * q + t" "t = 8 * (t div 8) + r" by (simp_all add: d mr)
    ultimately show ?thesis by (simp add: mr(1))
  qed
  have m: "m < length gb_bytes" using p j by (simp add: gb_bytes_length mr)
  have r: "r < 8" by (simp add: mr)
  have bm: "gb_bytes ! m = ?row ! (8 * q + t div 8)"
    unfolding gb_bytes_def mr using table_shape(1,2) p j by (intro uniform_rows(2)) auto
  have idx: "ucs2_index_table_4E00_9FFF ! p ! q = of_nat (sum_pop (take (32 * p + 8 * q) gb_bytes))"
  proof -
    have "concat ucs2_index_table_4E00_9FFF ! (4 * p + q) = ucs2_index_table_4E00_9FFF ! p ! q"
      using table_shape(3,4) p q by (intro uniform_rows(2)) auto
    moreover from scan_nth [OF scan_all] have
      "length gb_bytes = 8 * length (concat ucs2_index_table_4E00_9FFF)"
      "\<forall>k<length (concat ucs2_index_table_4E00_9FFF).
         unat (concat ucs2_index_table_4E00_9FFF ! k) = sum_pop (take (8 * k) gb_bytes)"
      by (simp_all add: gb_bytes_def)
    then have "unat (concat ucs2_index_table_4E00_9FFF ! (4 * p + q)) = sum_pop (take (8 * (4 * p + q)) gb_bytes)"
      using p q by (simp add: gb_bytes_length)
    ultimately have "unat (ucs2_index_table_4E00_9FFF ! p ! q) = sum_pop (take (32 * p + 8 * q) gb_bytes)"
      by (simp add: algebra_simps)
    from arg_cong [OF this, of "of_nat :: nat \<Rightarrow> u16"] show ?thesis by simp
  qed
  have split: "take m gb_bytes = take (32 * p + 8 * q) gb_bytes @ take (t div 8) (drop (8 * q) ?row)"
  proof -
    have r1: "take (32 * p + (8 * q + t div 8)) gb_bytes
        = concat (take p ucs2_mirror_4E00_9FFF) @ take (8 * q + t div 8) ?row"
      unfolding gb_bytes_def using table_shape(1,2) p j by (intro uniform_rows(1)) auto
    have r2: "take (32 * p + 8 * q) gb_bytes = concat (take p ucs2_mirror_4E00_9FFF) @ take (8 * q) ?row"
      unfolding gb_bytes_def using table_shape(1,2) p j by (intro uniform_rows(1)) auto
    show ?thesis unfolding mr(1) r1 r2 by (simp add: take_add)
  qed
  have loop: "ofs_bytes ?row (ucs2_index_table_4E00_9FFF ! p ! q) (8 * q) t
      = Some (of_nat (sum_pop (take m gb_bytes)), 8 * q + t div 8, r)"
    using ofs_bytes_ok [of "8 * q" t ?row "ucs2_index_table_4E00_9FFF ! p ! q"] j row
    by (simp add: idx split mr(2))
  have has: "gb_has u \<longleftrightarrow> bit (gb_bytes ! m) r"
    unfolding gb_has_def k gb_bits_def by (rule bits_nth [OF r m])
  have tk: "take (8 * m + r) gb_bits = concat (map byte_bits (take m gb_bytes)) @ take r (byte_bits (gb_bytes ! m))"
    unfolding gb_bits_def by (rule bits_split [OF r m])
  have rank: "gb_rank u = sum_pop (take m gb_bytes) + ones (map (bit (gb_bytes ! m)) [0..<r])"
    unfolding gb_rank_def k tk using r by (simp add: ones_concat take_byte_bits)
  have pr: "unat (drop_bit 8 u - 0x4E) = p" "unat (u AND 0xFF) = lo" using pg by (simp_all add: d)
  show "get_ucs2_offset u = Some (if gb_has u then of_nat (gb_rank u) else -1)"
    unfolding get_ucs2_offset_def Let_def pr d(3,4) [symmetric] mult.commute [of q 8] loop
    using p j row r
    by (simp add: table_shape(1) has bm and_push_bit_1 rank ofs_bits_ok del: push_bit_of_1)
  have "gb_rank u + (if gb_has u then 1 else 0) \<le> ones gb_bits"
  proof -
    have l: "unat u - 0x4E00 < length gb_bits"
      using m r k bits_split [OF r m] by (simp add: gb_bits_def byte_bits_length gb_bytes_length
          length_concat comp_def sum_list_triv)
    have "ones gb_bits = ones (take (unat u - 0x4E00) gb_bits) + ones (drop (unat u - 0x4E00) gb_bits)"
      by (metis append_take_drop_id filter_append length_append)
    moreover have "drop (unat u - 0x4E00) gb_bits = gb_has u # drop (Suc (unat u - 0x4E00)) gb_bits"
      unfolding gb_has_def by (rule Cons_nth_drop_Suc [OF l, symmetric])
    ultimately show ?thesis by (simp add: gb_rank_def)
  qed
  also have "ones gb_bits = 6763"
    using scan_nth [OF scan_all] by (simp add: gb_bits_def ones_concat gb_bytes_def)
  finally show "gb_rank u + (if gb_has u then 1 else 0) \<le> 6763" .
qed

text \<open>C13. \<open>get_ucs2_offset\<close> computes, for every code point from 0x4E00 to 0x9FFF, the number of
  characters of the repertoire bitmap that precede it, and 0xFFFF exactly for those the bitmap does not
  have; the offset is always below 6763 and no table is read outside its bounds. This is checked
  against the tables as they stand in the source.\<close>

theorem get_ucs2_offset_correct:
  assumes "0x4E00 \<le> u" and "u < 0xA000"
  shows "if gb_has u then get_ucs2_offset u = Some (of_nat (gb_rank u)) \<and> gb_rank u < 6763
     else get_ucs2_offset u = Some 0xFFFF"
  using get_ucs2_offset_rank [OF assms] by auto

lemma get_ucs2_offset_correct_witness: "get_ucs2_offset 0x4E00 = Some 0"
proof -
  have "gb_has 0x4E00" by (simp add: gb_has_def gb_bits_def gb_bytes_def ucs2_mirror_4E00_9FFF_def
      ucs2_mirror_a_def byte_bits_def bit_simps)
  then show ?thesis using get_ucs2_offset_correct [of "0x4E00"] by (simp add: gb_rank_def)
qed

end
