(* ===== verification/GbCells.thy ===== *)
theory GbCells
  imports UcsTable
begin

text \<open>
  The cells of \<open>gb2312_to_ucs2_table\<close>, one equation for each GB2312 code: the character that the
  table holds for it. The equations are what theory \<open>GbPages\<close> looks the characters up with.
\<close>

definition ucs_at :: "u16 \<Rightarrow> u16 option" where
  "ucs_at g =
     (if 0xA0 \<le> unat g div 256 \<and> unat g div 256 < 0xF8 \<and> 0xA1 \<le> unat g mod 256 \<and> unat g mod 256 < 0xFF
      then Some (ucs_rows ! (unat g div 256 - 0xA0) ! (unat g mod 256 - 0xA1)) else None)"

fun len_acc :: "nat \<Rightarrow> 'a list \<Rightarrow> nat" where
  "len_acc n [] = n"
| "len_acc n (x # xs) = len_acc (n + 1) xs"

lemma len_acc_length: "len_acc n xs = n + length xs"
  by (induction xs arbitrary: n) auto

lemma length_acc: "len_acc 0 xs = n \<Longrightarrow> length xs = n"
  by (simp add: len_acc_length)

text \<open>\<open>f\<close> has the values \<open>xs\<close> from \<open>g\<close> on.\<close>

fun cells :: "(u16 \<Rightarrow> u16 option) \<Rightarrow> u16 \<Rightarrow> u16 list \<Rightarrow> bool" where
  "cells f g [] = True"
| "cells f g (x # xs) = (f g = Some x \<and> cells f (g + 1) xs)"

lemma cells_nth: "(\<And>j. j < length xs \<Longrightarrow> f (g + of_nat j) = Some (xs ! j)) \<Longrightarrow> cells f g xs"
proof (induction xs arbitrary: g)
  case (Cons x xs)
  have "f (g + 1 + of_nat j) = Some (xs ! j)" if "j < length xs" for j
    using Cons.prems [of "Suc j"] that by (simp add: add.assoc)
  then show ?case using Cons.IH [of "g + 1"] Cons.prems [of 0] by simp
qed simp

lemma rows_94: "list_all (\<lambda>r. len_acc 0 r = 94) ucs_rows"
  by (simp add: ucs_rows_def ucs_row_defs)

lemma rows_88: "length ucs_rows = 88"
  by (rule length_acc) (simp add: ucs_rows_def)

lemma length_row: "r < 88 \<Longrightarrow> length (ucs_rows ! r) = 94"
  using rows_94 rows_88 by (simp add: list_all_length len_acc_length)

lemma unat_code: "r < 88 \<Longrightarrow> j < 94 \<Longrightarrow> unat (of_nat (256 * (r + 0xA0) + 0xA1 + j) :: u16) = 256 * (r + 0xA0) + (0xA1 + j)"
  by (simp only: unat_of_nat) simp

lemma cells_row:
  assumes "r < 88"
  shows "cells ucs_at (of_nat (256 * (r + 0xA0) + 0xA1)) (ucs_rows ! r)"
proof (rule cells_nth)
  fix j
  assume "j < length (ucs_rows ! r)"
  then have j: "j < 94" using length_row [OF assms] by simp
  let ?g = "of_nat (256 * (r + 0xA0) + 0xA1) + of_nat j :: u16"
  have "?g = of_nat (256 * (r + 0xA0) + 0xA1 + j)" by (simp only: of_nat_add)
  then have u: "unat ?g = 256 * (r + 0xA0) + (0xA1 + j)" using unat_code [OF assms j] by (simp only:)
  have "unat ?g div 256 = r + 0xA0"
    unfolding u using j by simp
  moreover have "unat ?g mod 256 = 0xA1 + j"
    unfolding u mod_mult_self4 using j by simp
  ultimately show "ucs_at ?g = Some (ucs_rows ! r ! j)" using assms j by (simp add: ucs_at_def)
qed

lemma row_at:
  "ucs_rows ! 0 = ucs_row_A0"
  "ucs_rows ! 1 = ucs_row_A1"
  "ucs_rows ! 2 = ucs_row_A2"
  "ucs_rows ! 3 = ucs_row_A3"
  "ucs_rows ! 4 = ucs_row_A4"
  "ucs_rows ! 5 = ucs_row_A5"
  "ucs_rows ! 6 = ucs_row_A6"
  "ucs_rows ! 7 = ucs_row_A7"
  "ucs_rows ! 8 = ucs_row_A8"
  "ucs_rows ! 9 = ucs_row_A9"
  "ucs_rows ! 10 = ucs_row_AA"
  "ucs_rows ! 11 = ucs_row_AB"
  "ucs_rows ! 12 = ucs_row_AC"
  "ucs_rows ! 13 = ucs_row_AD"
  "ucs_rows ! 14 = ucs_row_AE"
  "ucs_rows ! 15 = ucs_row_AF"
  "ucs_rows ! 16 = ucs_row_B0"
  "ucs_rows ! 17 = ucs_row_B1"
  "ucs_rows ! 18 = ucs_row_B2"
  "ucs_rows ! 19 = ucs_row_B3"
  "ucs_rows ! 20 = ucs_row_B4"
  "ucs_rows ! 21 = ucs_row_B5"
  "ucs_rows ! 22 = ucs_row_B6"
  "ucs_rows ! 23 = ucs_row_B7"
  "ucs_rows ! 24 = ucs_row_B8"
  "ucs_rows ! 25 = ucs_row_B9"
  "ucs_rows ! 26 = ucs_row_BA"
  "ucs_rows ! 27 = ucs_row_BB"
  "ucs_rows ! 28 = ucs_row_BC"
  "ucs_rows ! 29 = ucs_row_BD"
  "ucs_rows ! 30 = ucs_row_BE"
  "ucs_rows ! 31 = ucs_row_BF"
  "ucs_rows ! 32 = ucs_row_C0"
  "ucs_rows ! 33 = ucs_row_C1"
  "ucs_rows ! 34 = ucs_row_C2"
  "ucs_rows ! 35 = ucs_row_C3"
  "ucs_rows ! 36 = ucs_row_C4"
  "ucs_rows ! 37 = ucs_row_C5"
  "ucs_rows ! 38 = ucs_row_C6"
  "ucs_rows ! 39 = ucs_row_C7"
  "ucs_rows ! 40 = ucs_row_C8"
  "ucs_rows ! 41 = ucs_row_C9"
  "ucs_rows ! 42 = ucs_row_CA"
  "ucs_rows ! 43 = ucs_row_CB"
  "ucs_rows ! 44 = ucs_row_CC"
  "ucs_rows ! 45 = ucs_row_CD"
  "ucs_rows ! 46 = ucs_row_CE"
  "ucs_rows ! 47 = ucs_row_CF"
  "ucs_rows ! 48 = ucs_row_D0"
  "ucs_rows ! 49 = ucs_row_D1"
  "ucs_rows ! 50 = ucs_row_D2"
  "ucs_rows ! 51 = ucs_row_D3"
  "ucs_rows ! 52 = ucs_row_D4"
  "ucs_rows ! 53 = ucs_row_D5"
  "ucs_rows ! 54 = ucs_row_D6"
  "ucs_rows ! 55 = ucs_row_D7"
  "ucs_rows ! 56 = ucs_row_D8"
  "ucs_rows ! 57 = ucs_row_D9"
  "ucs_rows ! 58 = ucs_row_DA"
  "ucs_rows ! 59 = ucs_row_DB"
  "ucs_rows ! 60 = ucs_row_DC"
  "ucs_rows ! 61 = ucs_row_DD"
  "ucs_rows ! 62 = ucs_row_DE"
  "ucs_rows ! 63 = ucs_row_DF"
  "ucs_rows ! 64 = ucs_row_E0"
  "ucs_rows ! 65 = ucs_row_E1"
  "ucs_rows ! 66 = ucs_row_E2"
  "ucs_rows ! 67 = ucs_row_E3"
  "ucs_rows ! 68 = ucs_row_E4"
  "ucs_rows ! 69 = ucs_row_E5"
  "ucs_rows ! 70 = ucs_row_E6"
  "ucs_rows ! 71 = ucs_row_E7"
  "ucs_rows ! 72 = ucs_row_E8"
  "ucs_rows ! 73 = ucs_row_E9"
  "ucs_rows ! 74 = ucs_row_EA"
  "ucs_rows ! 75 = ucs_row_EB"
  "ucs_rows ! 76 = ucs_row_EC"
  "ucs_rows ! 77 = ucs_row_ED"
  "ucs_rows ! 78 = ucs_row_EE"
  "ucs_rows ! 79 = ucs_row_EF"
  "ucs_rows ! 80 = ucs_row_F0"
  "ucs_rows ! 81 = ucs_row_F1"
  "ucs_rows ! 82 = ucs_row_F2"
  "ucs_rows ! 83 = ucs_row_F3"
  "ucs_rows ! 84 = ucs_row_F4"
  "ucs_rows ! 85 = ucs_row_F5"
  "ucs_rows ! 86 = ucs_row_F6"
  "ucs_rows ! 87 = ucs_row_F7"
  by (simp_all add: ucs_rows_def)

lemmas at_A0 = cells_row [of 0, unfolded row_at ucs_row_A0_def, simplified]
lemmas at_A1 = cells_row [of 1, unfolded row_at ucs_row_A1_def, simplified]
lemmas at_A2 = cells_row [of 2, unfolded row_at ucs_row_A2_def, simplified]
lemmas at_A3 = cells_row [of 3, unfolded row_at ucs_row_A3_def, simplified]
lemmas at_A4 = cells_row [of 4, unfolded row_at ucs_row_A4_def, simplified]
lemmas at_A5 = cells_row [of 5, unfolded row_at ucs_row_A5_def, simplified]
lemmas at_A6 = cells_row [of 6, unfolded row_at ucs_row_A6_def, simplified]
lemmas at_A7 = cells_row [of 7, unfolded row_at ucs_row_A7_def, simplified]
lemmas at_A8 = cells_row [of 8, unfolded row_at ucs_row_A8_def, simplified]
lemmas at_A9 = cells_row [of 9, unfolded row_at ucs_row_A9_def, simplified]
lemmas at_AA = cells_row [of 10, unfolded row_at ucs_row_AA_def, simplified]
lemmas at_AB = cells_row [of 11, unfolded row_at ucs_row_AB_def, simplified]
lemmas at_AC = cells_row [of 12, unfolded row_at ucs_row_AC_def, simplified]
lemmas at_AD = cells_row [of 13, unfolded row_at ucs_row_AD_def, simplified]
lemmas at_AE = cells_row [of 14, unfolded row_at ucs_row_AE_def, simplified]
lemmas at_AF = cells_row [of 15, unfolded row_at ucs_row_AF_def, simplified]
lemmas at_B0 = cells_row [of 16, unfolded row_at ucs_row_B0_def, simplified]
lemmas at_B1 = cells_row [of 17, unfolded row_at ucs_row_B1_def, simplified]
lemmas at_B2 = cells_row [of 18, unfolded row_at ucs_row_B2_def, simplified]
lemmas at_B3 = cells_row [of 19, unfolded row_at ucs_row_B3_def, simplified]
lemmas at_B4 = cells_row [of 20, unfolded row_at ucs_row_B4_def, simplified]
lemmas at_B5 = cells_row [of 21, unfolded row_at ucs_row_B5_def, simplified]
lemmas at_B6 = cells_row [of 22, unfolded row_at ucs_row_B6_def, simplified]
lemmas at_B7 = cells_row [of 23, unfolded row_at ucs_row_B7_def, simplified]
lemmas at_B8 = cells_row [of 24, unfolded row_at ucs_row_B8_def, simplified]
lemmas at_B9 = cells_row [of 25, unfolded row_at ucs_row_B9_def, simplified]
lemmas at_BA = cells_row [of 26, unfolded row_at ucs_row_BA_def, simplified]
lemmas at_BB = cells_row [of 27, unfolded row_at ucs_row_BB_def, simplified]
lemmas at_BC = cells_row [of 28, unfolded row_at ucs_row_BC_def, simplified]
lemmas at_BD = cells_row [of 29, unfolded row_at ucs_row_BD_def, simplified]
lemmas at_BE = cells_row [of 30, unfolded row_at ucs_row_BE_def, simplified]
lemmas at_BF = cells_row [of 31, unfolded row_at ucs_row_BF_def, simplified]
lemmas at_C0 = cells_row [of 32, unfolded row_at ucs_row_C0_def, simplified]
lemmas at_C1 = cells_row [of 33, unfolded row_at ucs_row_C1_def, simplified]
lemmas at_C2 = cells_row [of 34, unfolded row_at ucs_row_C2_def, simplified]
lemmas at_C3 = cells_row [of 35, unfolded row_at ucs_row_C3_def, simplified]
lemmas at_C4 = cells_row [of 36, unfolded row_at ucs_row_C4_def, simplified]
lemmas at_C5 = cells_row [of 37, unfolded row_at ucs_row_C5_def, simplified]
lemmas at_C6 = cells_row [of 38, unfolded row_at ucs_row_C6_def, simplified]
lemmas at_C7 = cells_row [of 39, unfolded row_at ucs_row_C7_def, simplified]
lemmas at_C8 = cells_row [of 40, unfolded row_at ucs_row_C8_def, simplified]
lemmas at_C9 = cells_row [of 41, unfolded row_at ucs_row_C9_def, simplified]
lemmas at_CA = cells_row [of 42, unfolded row_at ucs_row_CA_def, simplified]
lemmas at_CB = cells_row [of 43, unfolded row_at ucs_row_CB_def, simplified]
lemmas at_CC = cells_row [of 44, unfolded row_at ucs_row_CC_def, simplified]
lemmas at_CD = cells_row [of 45, unfolded row_at ucs_row_CD_def, simplified]
lemmas at_CE = cells_row [of 46, unfolded row_at ucs_row_CE_def, simplified]
lemmas at_CF = cells_row [of 47, unfolded row_at ucs_row_CF_def, simplified]
lemmas at_D0 = cells_row [of 48, unfolded row_at ucs_row_D0_def, simplified]
lemmas at_D1 = cells_row [of 49, unfolded row_at ucs_row_D1_def, simplified]
lemmas at_D2 = cells_row [of 50, unfolded row_at ucs_row_D2_def, simplified]
lemmas at_D3 = cells_row [of 51, unfolded row_at ucs_row_D3_def, simplified]
lemmas at_D4 = cells_row [of 52, unfolded row_at ucs_row_D4_def, simplified]
lemmas at_D5 = cells_row [of 53, unfolded row_at ucs_row_D5_def, simplified]
lemmas at_D6 = cells_row [of 54, unfolded row_at ucs_row_D6_def, simplified]
lemmas at_D7 = cells_row [of 55, unfolded row_at ucs_row_D7_def, simplified]
lemmas at_D8 = cells_row [of 56, unfolded row_at ucs_row_D8_def, simplified]
lemmas at_D9 = cells_row [of 57, unfolded row_at ucs_row_D9_def, simplified]
lemmas at_DA = cells_row [of 58, unfolded row_at ucs_row_DA_def, simplified]
lemmas at_DB = cells_row [of 59, unfolded row_at ucs_row_DB_def, simplified]
lemmas at_DC = cells_row [of 60, unfolded row_at ucs_row_DC_def, simplified]
lemmas at_DD = cells_row [of 61, unfolded row_at ucs_row_DD_def, simplified]
lemmas at_DE = cells_row [of 62, unfolded row_at ucs_row_DE_def, simplified]
lemmas at_DF = cells_row [of 63, unfolded row_at ucs_row_DF_def, simplified]
lemmas at_E0 = cells_row [of 64, unfolded row_at ucs_row_E0_def, simplified]
lemmas at_E1 = cells_row [of 65, unfolded row_at ucs_row_E1_def, simplified]
lemmas at_E2 = cells_row [of 66, unfolded row_at ucs_row_E2_def, simplified]
lemmas at_E3 = cells_row [of 67, unfolded row_at ucs_row_E3_def, simplified]
lemmas at_E4 = cells_row [of 68, unfolded row_at ucs_row_E4_def, simplified]
lemmas at_E5 = cells_row [of 69, unfolded row_at ucs_row_E5_def, simplified]
lemmas at_E6 = cells_row [of 70, unfolded row_at ucs_row_E6_def, simplified]
lemmas at_E7 = cells_row [of 71, unfolded row_at ucs_row_E7_def, simplified]
lemmas at_E8 = cells_row [of 72, unfolded row_at ucs_row_E8_def, simplified]
lemmas at_E9 = cells_row [of 73, unfolded row_at ucs_row_E9_def, simplified]
lemmas at_EA = cells_row [of 74, unfolded row_at ucs_row_EA_def, simplified]
lemmas at_EB = cells_row [of 75, unfolded row_at ucs_row_EB_def, simplified]
lemmas at_EC = cells_row [of 76, unfolded row_at ucs_row_EC_def, simplified]
lemmas at_ED = cells_row [of 77, unfolded row_at ucs_row_ED_def, simplified]
lemmas at_EE = cells_row [of 78, unfolded row_at ucs_row_EE_def, simplified]
lemmas at_EF = cells_row [of 79, unfolded row_at ucs_row_EF_def, simplified]
lemmas at_F0 = cells_row [of 80, unfolded row_at ucs_row_F0_def, simplified]
lemmas at_F1 = cells_row [of 81, unfolded row_at ucs_row_F1_def, simplified]
lemmas at_F2 = cells_row [of 82, unfolded row_at ucs_row_F2_def, simplified]
lemmas at_F3 = cells_row [of 83, unfolded row_at ucs_row_F3_def, simplified]
lemmas at_F4 = cells_row [of 84, unfolded row_at ucs_row_F4_def, simplified]
lemmas at_F5 = cells_row [of 85, unfolded row_at ucs_row_F5_def, simplified]
lemmas at_F6 = cells_row [of 86, unfolded row_at ucs_row_F6_def, simplified]
lemmas at_F7 = cells_row [of 87, unfolded row_at ucs_row_F7_def, simplified]

lemmas ucs_cells = at_A0 at_A1 at_A2 at_A3 at_A4 at_A5 at_A6 at_A7 at_A8 at_A9
  at_AA at_AB at_AC at_AD at_AE at_AF at_B0 at_B1 at_B2 at_B3
  at_B4 at_B5 at_B6 at_B7 at_B8 at_B9 at_BA at_BB at_BC at_BD
  at_BE at_BF at_C0 at_C1 at_C2 at_C3 at_C4 at_C5 at_C6 at_C7
  at_C8 at_C9 at_CA at_CB at_CC at_CD at_CE at_CF at_D0 at_D1
  at_D2 at_D3 at_D4 at_D5 at_D6 at_D7 at_D8 at_D9 at_DA at_DB
  at_DC at_DD at_DE at_DF at_E0 at_E1 at_E2 at_E3 at_E4 at_E5
  at_E6 at_E7 at_E8 at_E9 at_EA at_EB at_EC at_ED at_EE at_EF
  at_F0 at_F1 at_F2 at_F3 at_F4 at_F5 at_F6 at_F7

end
