(* ===== verification/GbPages.thy ===== *)
theory GbPages
  imports GbCheck GbTable GbCells
begin

text \<open>
  The code tables of the GB2312 converters are inverse to each other: running along the repertoire
  bitmap, the cell that \<open>gb2312_to_ucs2_table\<close> has for the next code of \<open>ucs2_to_gb2312_table\<close>
  is the next character of the bitmap.
\<close>

fun page_check :: "nat \<Rightarrow> bool list \<Rightarrow> u16 list \<Rightarrow> bool" where
  "page_check u [] ts \<longleftrightarrow> ts = []"
| "page_check u (True # bs) (t # ts) \<longleftrightarrow> ucs_at t = Some (of_nat u) \<and> page_check (u + 1) bs ts"
| "page_check u (False # bs) ts \<longleftrightarrow> page_check (u + 1) bs ts"
| "page_check u (True # bs) [] \<longleftrightarrow> False"

lemma pages_a: "page_check 0x4E00 (concat (map byte_bits (concat ucs2_mirror_a))) (concat gb_pages_a)"
  by (simp add: ucs2_mirror_a_def byte_bits_def gb_pages_a_def gb_page_defs ucs_cells)

lemma pages_b: "page_check 0x6700 (concat (map byte_bits (concat ucs2_mirror_b))) (concat gb_pages_b)"
  by (simp add: ucs2_mirror_b_def byte_bits_def gb_pages_b_def gb_page_defs ucs_cells)

lemma pages_c: "page_check 0x8000 (concat (map byte_bits (concat ucs2_mirror_c))) (concat gb_pages_c)"
  by (simp add: ucs2_mirror_c_def byte_bits_def gb_pages_c_def gb_page_defs ucs_cells)

lemma pages_d: "page_check 0x9900 (concat (map byte_bits (concat ucs2_mirror_d))) (concat gb_pages_d)"
  by (simp add: ucs2_mirror_d_def byte_bits_def gb_pages_d_def gb_page_defs ucs_cells)

end
