(* ===== verification/GbInverse.thy ===== *)
theory GbInverse
  imports Gb2312 GbPages
begin

text \<open>
  The facts about the code tables that the converters rest on: their lengths, and that the cell of
  \<open>gb2312_to_ucs2_table\<close> for the code of a character of the repertoire is the character.
\<close>

lemma page_check_append:
  "page_check u bs ts \<Longrightarrow> page_check (u + length bs) bs' ts' \<Longrightarrow> page_check u (bs @ bs') (ts @ ts')"
  by (induction u bs ts rule: page_check.induct) auto

lemma page_check_length: "page_check u bs ts \<Longrightarrow> length ts = ones bs"
  by (induction u bs ts rule: page_check.induct) auto

lemma page_check_nth:
  "page_check u bs ts \<Longrightarrow> k < length bs \<Longrightarrow> bs ! k \<Longrightarrow> ucs_at (ts ! ones (take k bs)) = Some (of_nat (u + k))"
proof (induction u bs ts arbitrary: k rule: page_check.induct)
  case (2 u bs t ts)
  then show ?case by (cases k) auto
next
  case (3 u bs ts)
  then show ?case by (cases k) auto
qed auto

definition mirror_bits :: "u8 list list \<Rightarrow> bool list" where
  "mirror_bits rows = concat (map byte_bits (concat rows))"

lemma length_bits: "length (concat (map byte_bits bs)) = 8 * length bs"
  by (induction bs) (simp_all add: byte_bits_def)

lemma mirror_bits_length: "\<forall>r \<in> set rows. length r = 32 \<Longrightarrow> length (mirror_bits rows) = 256 * length rows"
  by (induction rows) (simp_all add: mirror_bits_def length_bits)

lemma mirror_lengths: "length ucs2_mirror_a = 25" "length ucs2_mirror_b = 25" "length ucs2_mirror_c = 25"
  by (simp_all add: ucs2_mirror_a_def ucs2_mirror_b_def ucs2_mirror_c_def)

lemma mirror_rows:
  "\<forall>r \<in> set ucs2_mirror_a. length r = 32" "\<forall>r \<in> set ucs2_mirror_b. length r = 32"
  "\<forall>r \<in> set ucs2_mirror_c. length r = 32"
  using table_shape(2) by (auto simp: ucs2_mirror_4E00_9FFF_def)

lemma table_all: "page_check 0x4E00 gb_bits ucs2_to_gb2312_table"
proof -
  have l: "length (mirror_bits ucs2_mirror_a) = 6400" "length (mirror_bits ucs2_mirror_b) = 6400"
      "length (mirror_bits ucs2_mirror_c) = 6400"
    by (simp_all add: mirror_bits_length mirror_lengths mirror_rows)
  have "page_check 0x4E00 (mirror_bits ucs2_mirror_a @ mirror_bits ucs2_mirror_b @ mirror_bits ucs2_mirror_c @
      mirror_bits ucs2_mirror_d) (concat gb_pages_a @ concat gb_pages_b @ concat gb_pages_c @ concat gb_pages_d)"
    using pages_a pages_b pages_c pages_d unfolding mirror_bits_def [symmetric]
    by (intro page_check_append) (simp_all add: l)
  moreover have "gb_bits = mirror_bits ucs2_mirror_a @ mirror_bits ucs2_mirror_b @ mirror_bits ucs2_mirror_c @
      mirror_bits ucs2_mirror_d"
    by (simp add: gb_bits_def gb_bytes_def ucs2_mirror_4E00_9FFF_def mirror_bits_def)
  ultimately show ?thesis by (simp add: ucs2_to_gb2312_table_def)
qed

lemma length_gb_table: "length ucs2_to_gb2312_table = 6763"
proof -
  have "ones gb_bits = 6763"
    using scan_nth [OF scan_all] by (simp add: gb_bits_def ones_concat gb_bytes_def)
  then show ?thesis using page_check_length [OF table_all] by simp
qed

lemma concat_uniform:
  "\<forall>r \<in> set rows. length r = n \<Longrightarrow> length (concat rows) = n * length rows
    \<and> (\<forall>i < length rows. \<forall>j < n. concat rows ! (n * i + j) = rows ! i ! j)"
proof (induction rows)
  case (Cons r rows)
  have "concat (r # rows) ! (n * i + j) = (r # rows) ! i ! j" if "i < length (r # rows)" "j < n" for i j
    using Cons that by (cases i) (auto simp: nth_append add.assoc)
  then show ?case using Cons by simp
qed simp

lemma ucs_table:
  "length gb2312_to_ucs2_table = 8272"
  "i < 88 \<Longrightarrow> j < 94 \<Longrightarrow> gb2312_to_ucs2_table ! (94 * i + j) = ucs_rows ! i ! j"
proof -
  have "\<forall>r \<in> set ucs_rows. length r = 94" using length_row rows_88 by (auto simp: in_set_conv_nth)
  from concat_uniform [OF this] show "length gb2312_to_ucs2_table = 8272"
    "i < 88 \<Longrightarrow> j < 94 \<Longrightarrow> gb2312_to_ucs2_table ! (94 * i + j) = ucs_rows ! i ! j"
    by (simp_all add: gb2312_to_ucs2_table_def rows_88)
qed

text \<open>The code of a repertoire character: its two bytes are in range and lead back to it.\<close>

lemma gb_table_inverse:
  assumes "0x4E00 \<le> u" and "u < 0xA000" and "gb_has u"
  defines "g \<equiv> ucs2_to_gb2312_table ! gb_rank u"
  shows "0xA0 \<le> unat g div 256 \<and> unat g div 256 < 0xF8 \<and> 0xA1 \<le> unat g mod 256 \<and> unat g mod 256 < 0xFF
    \<and> gb2312_to_ucs2_table ! (94 * (unat g div 256 - 0xA0) + (unat g mod 256 - 0xA1)) = u"
proof -
  have k: "unat u - 0x4E00 < length gb_bits" "0x4E00 + (unat u - 0x4E00) = unat u"
    using assms(1,2) gb_bytes_length by (simp_all add: word_le_nat_alt word_less_nat_alt gb_bits_def length_bits)
  from page_check_nth [OF table_all k(1)] assms(3) have "ucs_at g = Some (of_nat (unat u))"
    unfolding gb_has_def gb_rank_def g_def k(2) by simp
  then have a: "ucs_at g = Some u" by simp
  then have rng: "0xA0 \<le> unat g div 256" "unat g div 256 < 0xF8" "0xA1 \<le> unat g mod 256" "unat g mod 256 < 0xFF"
    by (auto simp: ucs_at_def split: if_splits)
  then have "ucs_rows ! (unat g div 256 - 0xA0) ! (unat g mod 256 - 0xA1) = u"
    using a by (simp add: ucs_at_def)
  moreover have "unat g div 256 - 0xA0 < 88" "unat g mod 256 - 0xA1 < 94" using rng by linarith+
  ultimately have "gb2312_to_ucs2_table ! (94 * (unat g div 256 - 0xA0) + (unat g mod 256 - 0xA1)) = u"
    using ucs_table(2) [of "unat g div 256 - 0xA0" "unat g mod 256 - 0xA1"] by (simp only:)
  then show ?thesis using rng by blast
qed

end
