(* ===== verification/Iconv.thy ===== *)
theory Iconv
  imports Utf8 GbInverse
begin

text \<open>
  The GB2312 converters and the registry of converters, \<open>lib/iconv/src/ucs2_to_gb2312.c\<close>,
  \<open>gb2312_to_ucs2.c\<close> and \<open>iconv.c\<close>, over the code tables of theories \<open>GbTable\<close> and
  \<open>UcsTable\<close>. A lookup outside a table is \<open>None\<close>.
\<close>

section \<open>UCS-2 to GB2312\<close>

definition swap16 :: "u16 \<Rightarrow> u16" where
  "swap16 w = push_bit 8 w OR drop_bit 8 w"

text \<open>The search of \<open>tab_UCS2_to_GBK\<close> goes on to the end, so the last entry wins.\<close>

fun gbk_search :: "(u16 \<times> u16) list \<Rightarrow> u16 \<Rightarrow> u16 \<Rightarrow> u16" where
  "gbk_search [] u gb = gb"
| "gbk_search ((k, v) # t) u gb = gbk_search t u (if u = k then v else gb)"

text \<open>The GB2312 code of a non-ASCII code unit, 0xA1A1 where there is none.\<close>

definition gb_code :: "u16 \<Rightarrow> u16 option" where
  "gb_code u =
     (if 0x4E00 \<le> u \<and> u < 0xA000 then
        (case get_ucs2_offset u of None \<Rightarrow> None
         | Some off \<Rightarrow>
             if off \<noteq> -1 then (if unat off < length ucs2_to_gb2312_table then Some (ucs2_to_gb2312_table ! unat off) else None)
             else Some 0xA1A1)
      else Some (gbk_search tab_UCS2_to_GBK u 0xA1A1))"

fun ucs2_gb_loop :: "bool \<Rightarrow> u16 list \<Rightarrow> nat
    \<Rightarrow> (iconv_status \<times> nat \<times> byte list) option" where
  "ucs2_gb_loop e [] room = Some (IcOk, 0, [])"
| "ucs2_gb_loop e (w # ws) room =
     (if room < 2 then Some (IcE2big, Suc (length ws), [])
      else
        let u = (if e then swap16 w else w) in
        if u < 0x80 then
          map_option (\<lambda>(st, n, out). (st, n, ucast u # out)) (ucs2_gb_loop e ws (room - 1))
        else case gb_code u of None \<Rightarrow> None
          | Some gb \<Rightarrow>
              map_option (\<lambda>(st, n, out). (st, n, ucast (drop_bit 8 gb) # ucast gb # out))
                (ucs2_gb_loop e ws (room - 2)))"

text \<open>The little-endian 16-bit units of a buffer; \<open>*inbytesleft/2\<close> of them are converted.\<close>

fun units :: "byte list \<Rightarrow> u16 list" where
  "units (a # b # bs) = (push_bit 8 (ucast b) OR ucast a) # units bs"
| "units bs = []"

definition iconv_ucs2_to_gb2312_endian ::
  "byte list \<Rightarrow> nat \<Rightarrow> bool \<Rightarrow> iconv_result option" where
  "iconv_ucs2_to_gb2312_endian src room e =
     (case ucs2_gb_loop e (units src) room of None \<Rightarrow> None
      | Some (st, inlen, out) \<Rightarrow>
          Some \<lparr>ir_status = (if st = IcOk \<and> inlen > 0 then IcEinval else st), ir_inleft = of_nat inlen,
                ir_outleft = of_nat room - of_nat (length out), ir_written = out\<rparr>)"

section \<open>GB2312 to UCS-2\<close>

text \<open>The index of a byte pair, computed in \<open>int\<close> and stored in a \<open>u16\<close>.\<close>

definition gb_offset :: "byte \<Rightarrow> byte \<Rightarrow> u16" where
  "gb_offset hi lo = word_of_int ((uint hi - 0xA0) * 94 + (uint lo - 0xA1))"

fun gb_ucs2_loop :: "bool \<Rightarrow> byte list \<Rightarrow> nat \<Rightarrow> (iconv_status \<times> nat \<times> byte list) option" where
  "gb_ucs2_loop e [] room = Some (IcOk, 0, [])"
| "gb_ucs2_loop e (b # bs) room =
     (if room < 2 then Some (IcE2big, Suc (length bs), [])
      else if b < 0x80 then
        (let u = (if e then swap16 (ucast b) else ucast b) in
         map_option (\<lambda>(st, n, out). (st, n, ucast u # ucast (drop_bit 8 u) # out))
           (gb_ucs2_loop e bs (room - 2)))
      else case bs of
          [] \<Rightarrow> Some (IcOk, 1, [])
        | c # cs \<Rightarrow>
            (let off = unat (gb_offset b c) in
             if off < length gb2312_to_ucs2_table then
               let u = (if e then swap16 (gb2312_to_ucs2_table ! off) else gb2312_to_ucs2_table ! off) in
               map_option (\<lambda>(st, n, out). (st, n, ucast u # ucast (drop_bit 8 u) # out))
                 (gb_ucs2_loop e cs (room - 2))
             else None))"

definition iconv_gb2312_to_ucs2_endian :: "byte list \<Rightarrow> nat \<Rightarrow> bool \<Rightarrow> iconv_result option" where
  "iconv_gb2312_to_ucs2_endian src room e =
     (case gb_ucs2_loop e src room of None \<Rightarrow> None
      | Some (st, inlen, out) \<Rightarrow>
          Some \<lparr>ir_status = (if st = IcOk \<and> inlen > 0 then IcEinval else st), ir_inleft = of_nat inlen,
                ir_outleft = of_nat room - of_nat (length out), ir_written = out\<rparr>)"

section \<open>The registry\<close>

datatype iconv_fct = Ucs2_Gb | Ucs2be_Gb | Gb_Ucs2 | Gb_Ucs2be | Utf8_Ucs2 | Utf8_Ucs2be | Ucs2_Utf8 | Ucs2be_Utf8

definition iconv_map :: "(string \<times> string \<times> iconv_fct) list" where
  "iconv_map = [(''ucs2'', ''gb2312'', Ucs2_Gb), (''ucs2be'', ''gb2312'', Ucs2be_Gb),
     (''gb2312'', ''ucs2'', Gb_Ucs2), (''gb2312'', ''ucs2be'', Gb_Ucs2be),
     (''utf8'', ''ucs2'', Utf8_Ucs2), (''utf8'', ''ucs2be'', Utf8_Ucs2be),
     (''ucs2'', ''utf8'', Ucs2_Utf8), (''ucs2be'', ''utf8'', Ucs2be_Utf8)]"

fun open_loop :: "(string \<times> string \<times> iconv_fct) list \<Rightarrow> string \<Rightarrow> string \<Rightarrow> nat \<Rightarrow> nat option" where
  "open_loop [] to frm i = None"
| "open_loop ((f, t, c) # m) to frm i = (if f = frm \<and> t = to then Some i else open_loop m to frm (Suc i))"

text \<open>A conversion descriptor is the index of the entry, \<open>None\<close> is \<open>(iconv_t)-1\<close>.\<close>

definition iconv_open :: "string \<Rightarrow> string \<Rightarrow> nat option" where
  "iconv_open tocode fromcode = open_loop iconv_map tocode fromcode 0"

text \<open>\<open>iconv\<close> with a descriptor; the range test of the code (\<open>below first && above last\<close>) is never
  true, so any other descriptor is dereferenced: a fault. A null input buffer returns -1, the inner
  \<open>Some None\<close>.\<close>

definition iconv :: "nat \<Rightarrow> byte list option \<Rightarrow> nat
    \<Rightarrow> iconv_result option option" where
  "iconv cd inbuf room =
     (case inbuf of None \<Rightarrow> Some None
      | Some src \<Rightarrow>
          if cd < length iconv_map then
            map_option Some (case snd (snd (iconv_map ! cd)) of
              Ucs2_Gb \<Rightarrow> iconv_ucs2_to_gb2312_endian src room False
            | Ucs2be_Gb \<Rightarrow> iconv_ucs2_to_gb2312_endian src room True
            | Gb_Ucs2 \<Rightarrow> iconv_gb2312_to_ucs2_endian src room False
            | Gb_Ucs2be \<Rightarrow> iconv_gb2312_to_ucs2_endian src room True
            | Utf8_Ucs2 \<Rightarrow> iconv_utf8_to_ucs2 src room
            | Utf8_Ucs2be \<Rightarrow> iconv_utf8_to_ucs2be src room
            | Ucs2_Utf8 \<Rightarrow> Some (iconv_ucs2_to_utf8 src room)
            | Ucs2be_Utf8 \<Rightarrow> Some (iconv_ucs2be_to_utf8 src room))
          else None)"

section \<open>Properties\<close>

lemma swap16_bytes:
  "push_bit 8 (ucast (ucast u :: byte)) OR ucast (ucast (drop_bit 8 u) :: byte) = swap16 u"
  "push_bit 8 (ucast (ucast (drop_bit 8 u) :: byte)) OR ucast (ucast u :: byte) = u"
  "swap16 (swap16 u) = u"
  for u :: u16
proof -
  have 1: "push_bit 8 (ucast (ucast u :: byte)) = (push_bit 8 u :: u16)"
    by (rule bit_word_eqI) (auto simp: bit_simps)
  have 2: "ucast (ucast (drop_bit 8 u) :: byte) = (drop_bit 8 u :: u16)"
    by (rule bit_word_eqI) (auto simp: bit_simps dest: bit_imp_le_length)
  show "push_bit 8 (ucast (ucast u :: byte)) OR ucast (ucast (drop_bit 8 u) :: byte) = swap16 u"
    by (simp only: 1 2 swap16_def)
  show "push_bit 8 (ucast (ucast (drop_bit 8 u) :: byte)) OR ucast (ucast u :: byte) = u"
    by (rule bit_word_eqI) (auto simp: bit_simps 2)
  show "swap16 (swap16 u) = u"
    unfolding swap16_def
    by (rule bit_word_eqI) (auto simp: bit_simps dest: bit_imp_le_length)
qed

lemma units_ucs2: "units (concat (map (ucs2_of e) us)) = map (\<lambda>u. if e then swap16 u else u) us"
  by (cases e; induction us) (simp_all add: ucs2_of_def swap16_bytes)

text \<open>The specification: the bytes of a code unit, by its rank in the repertoire.\<close>

definition gb_of :: "u16 \<Rightarrow> byte list" where
  "gb_of u =
     (if u < 0x80 then [ucast u]
      else let gb = (if 0x4E00 \<le> u \<and> u < 0xA000
             then (if gb_has u then ucs2_to_gb2312_table ! gb_rank u else 0xA1A1)
             else (case map_of (rev tab_UCS2_to_GBK) u of Some v \<Rightarrow> v | None \<Rightarrow> 0xA1A1))
           in [ucast (drop_bit 8 gb), ucast gb])"

lemma gbk_search_map: "gbk_search t u gb = (case map_of (rev t) u of Some v \<Rightarrow> v | None \<Rightarrow> gb)"
  by (induction t arbitrary: gb) (auto simp: map_add_def split: option.splits)

lemma gb_code_ok:
  assumes "\<not> u < 0x80"
  shows "\<exists>gb. gb_code u = Some gb \<and> gb_of u = [ucast (drop_bit 8 gb), ucast gb]"
proof (cases "0x4E00 \<le> u \<and> u < 0xA000")
  case False
  then show ?thesis using assms by (auto simp: gb_code_def gb_of_def gbk_search_map Let_def)
next
  case True
  note r = get_ucs2_offset_rank [OF conjunct1 [OF True] conjunct2 [OF True]]
  show ?thesis
  proof (cases "gb_has u")
    case has: True
    then have lt: "gb_rank u < 6763" using r(2) by simp
    then have n: "unat (of_nat (gb_rank u) :: u16) = gb_rank u"
      by (simp add: unsigned_of_nat take_bit_nat_eq_self)
    have "unat (-1 :: u16) = 65535" by (simp add: unsigned_minus_1_eq_mask mask_eq_exp_minus_1)
    then have "(of_nat (gb_rank u) :: u16) \<noteq> -1" using lt n by auto
    then show ?thesis using True has r(1) n lt assms length_gb_table by (simp add: gb_code_def gb_of_def Let_def)
  next
    case False
    then show ?thesis using True r(1) assms by (simp add: gb_code_def gb_of_def)
  qed
qed

lemma ucs2_gb_step:
  assumes "2 \<le> room"
  shows "ucs2_gb_loop e ((if e then swap16 u else u) # ws) room =
    map_option (\<lambda>(st, n, out). (st, n, gb_of u @ out)) (ucs2_gb_loop e ws (room - length (gb_of u)))"
proof -
  have sw: "(if e then swap16 (if e then swap16 u else u) else if e then swap16 u else u) = u"
    by (simp add: swap16_bytes)
  show ?thesis
  proof (cases "u < 0x80")
    case True
    then show ?thesis using assms sw by (simp add: gb_of_def Let_def split del: if_split)
  next
    case False
    then obtain gb where g: "gb_code u = Some gb" "gb_of u = [ucast (drop_bit 8 gb), ucast gb]"
      using gb_code_ok by blast
    then show ?thesis using assms sw False by (simp add: Let_def split del: if_split flip: numeral_2_eq_2)
  qed
qed

lemma length_gb_of: "0 < length (gb_of u)" "length (gb_of u) \<le> 2"
  by (simp_all add: gb_of_def Let_def)

text \<open>Two bytes of room for each character are enough, although fewer may be written.\<close>

lemma ucs2_gb_loop_ok:
  "2 * length us \<le> room \<or> length (concat (map gb_of us)) < room \<Longrightarrow>
    ucs2_gb_loop e (map (\<lambda>u. if e then swap16 u else u) us) room
      = Some (IcOk, 0, concat (map gb_of us))"
proof (induction us arbitrary: room)
  case (Cons u us)
  have "2 \<le> room" using Cons.prems length_gb_of(1) [of u] by (cases "gb_of u") auto
  moreover have "2 * length us \<le> room - length (gb_of u) \<or> length (concat (map gb_of us)) < room - length (gb_of u)"
    using Cons.prems length_gb_of [of u] by auto
  ultimately show ?case using Cons.IH by (simp only: list.map ucs2_gb_step) simp
qed simp

text \<open>The UCS-2 to GB2312 converter is total and safe: for text of either endianness it writes one
  byte per ASCII character and two per other character, the table entry at the character's rank, the
  last matching entry of the symbol table, or A1A1.\<close>

lemma ucs2_to_gb2312_correct:
  assumes "length (concat (map gb_of us)) < room"
  shows "iconv_ucs2_to_gb2312_endian (concat (map (ucs2_of e) us)) room e
    = Some \<lparr>ir_status = IcOk, ir_inleft = 0,
        ir_outleft = of_nat room - of_nat (length (concat (map gb_of us))),
        ir_written = concat (map gb_of us)\<rparr>"
  using ucs2_gb_loop_ok [OF disjI2, OF assms] by (simp add: iconv_ucs2_to_gb2312_endian_def units_ucs2)

lemma gb_of_full_stop: "gb_of 0x3002 = [0xA1, 0xA3]"
proof -
  have "gbk_search tab_UCS2_to_GBK 0x3002 0xA1A1 = 0xA1A3" by (simp add: tab_UCS2_to_GBK_def)
  then show ?thesis by (simp add: gb_of_def flip: gbk_search_map)
qed

lemma ucs2_to_gb2312_correct_witness:
  "\<exists>r. iconv_ucs2_to_gb2312_endian (concat (map (ucs2_of True) [0x41, 0x3002])) 9 True = Some r
    \<and> ir_written r = [0x41, 0xA1, 0xA3]"
proof -
  have "gb_of 0x41 = [0x41]" by (simp add: gb_of_def)
  then show ?thesis
    using ucs2_to_gb2312_correct [of "[0x41, 0x3002]" 9 True] gb_of_full_stop by simp
qed

section \<open>The index of the decoder\<close>

lemma gb_offset_int:
  assumes "x = (uint hi - 0xA0) * 94 + (uint lo - 0xA1)"
  shows "int (unat (gb_offset hi lo)) = x mod 65536" "-15201 \<le> x \<and> x < 9025"
proof -
  have "0 \<le> uint hi" "uint hi < 256" "0 \<le> uint lo" "uint lo < 256"
    using unsigned_less [of hi, where 'a = int] unsigned_less [of lo, where 'a = int] by simp_all
  then show "-15201 \<le> x \<and> x < 9025" using assms by (auto)
  have "int (unat (gb_offset hi lo)) = uint (gb_offset hi lo)" by simp
  then show "int (unat (gb_offset hi lo)) = x mod 65536"
    using assms by (simp only: gb_offset_def uint_word_of_int) simp
qed

lemma index_negative:
  fixes a b :: int
  assumes "a \<le> 0x9E" and "b < 256"
  shows "(a - 0xA0) * 94 + (b - 0xA1) < 0"
  using assms by simp

lemma index_beyond:
  fixes a b :: int
  assumes "0xF8 \<le> a" and "0xA1 \<le> b"
  shows "8272 \<le> (a - 0xA0) * 94 + (b - 0xA1)"
  using assms by simp

text \<open>The GB2312 to UCS-2 converter reads its table outside the bounds whenever the input has a byte
  pair with a lead byte from 0x80 to 0x9E, where the index is negative and wraps to 16 bits, or one
  from 0xF8 on: the rows of GBK the table does not have.\<close>

lemma gb2312_to_ucs2_out_of_bounds:
  assumes "0x80 \<le> hi" and "hi < 0x9F \<or> 0xF8 \<le> hi \<and> 0xA1 \<le> lo" and "2 \<le> room"
  shows "iconv_gb2312_to_ucs2_endian (hi # lo # rest) room e = None"
proof -
  define x where "x = (uint hi - 0xA0) * 94 + (uint lo - 0xA1)"
  note i = gb_offset_int [OF x_def]
  have l: "uint lo < 256" "0 \<le> uint lo" using unsigned_less [of lo, where 'a = int] by simp_all
  have "8272 \<le> x mod 65536"
  proof (cases "hi < 0x9F")
    case True
    then have "uint hi \<le> 0x9E" by (simp add: word_less_def)
    then have "x < 0" using index_negative [OF _ l(1)] unfolding x_def by blast
    then have "x mod 65536 = x + 65536" using i(2) by (intro int_mod_pos_eq [where q = "-1"]) auto
    then show ?thesis using i(2) by linarith
  next
    case False
    then have "0xF8 \<le> uint hi" "0xA1 \<le> uint lo" using assms(2) by (auto simp: word_le_def)
    then have "8272 \<le> x" using index_beyond unfolding x_def by blast
    then show ?thesis using i(2) by simp
  qed
  then have "\<not> unat (gb_offset hi lo) < length gb2312_to_ucs2_table"
    using i(1) ucs_table(1) by linarith
  moreover have "\<not> hi < 0x80" using assms(1) by simp
  ultimately show ?thesis using assms(3) by (simp add: iconv_gb2312_to_ucs2_endian_def Let_def)
qed

lemma gb2312_to_ucs2_out_of_bounds_witness:
  "iconv_gb2312_to_ucs2_endian [0x81, 0x40] 2 False = None"
  by (rule gb2312_to_ucs2_out_of_bounds) simp_all

section \<open>Both ways\<close>

definition gb_char :: "u16 \<Rightarrow> bool" where
  "gb_char u \<longleftrightarrow> u < 0x80 \<or> (0x4E00 \<le> u \<and> u < 0xA000 \<and> gb_has u)"

lemma gb_hanzi:
  assumes "gb_char u" and "\<not> u < 0x80"
  obtains hi lo where "gb_of u = [hi, lo]" "\<not> hi < 0x80" "unat (gb_offset hi lo) < length gb2312_to_ucs2_table"
    "gb2312_to_ucs2_table ! unat (gb_offset hi lo) = u"
proof -
  let ?g = "ucs2_to_gb2312_table ! gb_rank u"
  let ?hi = "ucast (drop_bit 8 ?g) :: byte" and ?lo = "ucast ?g :: byte"
  have u: "0x4E00 \<le> u" "u < 0xA000" "gb_has u" using assms by (auto simp: gb_char_def)
  note inv = gb_table_inverse [OF u]
  have hi: "unat ?hi = unat ?g div 256"
  proof -
    have "unat ?hi = take_bit 8 (unat (drop_bit 8 ?g))" by (simp add: unsigned_ucast_eq)
    also have "unat (drop_bit 8 ?g) = unat ?g div 256" by (subst unat_drop_bit_eq) (simp add: drop_bit_eq_div)
    finally show ?thesis using inv by (simp add: take_bit_nat_eq_self)
  qed
  have lo: "unat ?lo = unat ?g mod 256" by (simp add: unsigned_ucast_eq take_bit_eq_mod)
  define x where "x = (uint ?hi - 0xA0) * 94 + (uint ?lo - 0xA1)"
  have ui: "uint ?hi = int (unat ?g div 256)" "uint ?lo = int (unat ?g mod 256)"
    using hi lo by (metis uint_nat)+
  define k where "k = 94 * (unat ?g div 256 - 0xA0) + (unat ?g mod 256 - 0xA1)"
  have xk: "x = int k"
    unfolding x_def k_def ui using inv by (simp add: of_nat_diff)
  have kb: "k < 8272"
  proof -
    have "unat ?g div 256 - 0xA0 \<le> 87" "unat ?g mod 256 - 0xA1 \<le> 93" using inv by linarith+
    then show ?thesis unfolding k_def by linarith
  qed
  have "int (unat (gb_offset ?hi ?lo)) = int k"
    using gb_offset_int(1) [OF x_def] xk kb by simp
  then have off: "unat (gb_offset ?hi ?lo) = k" by (simp only: of_nat_eq_iff)
  have "\<not> ?hi < 0x80"
  proof -
    have "0x80 \<le> unat ?hi" using hi inv by linarith
    then show ?thesis by (simp add: word_less_nat_alt)
  qed
  moreover have "gb_of u = [?hi, ?lo]" using u assms(2) by (simp add: gb_of_def Let_def)
  moreover have "gb2312_to_ucs2_table ! k = u" using inv unfolding k_def by blast
  ultimately show ?thesis using that off kb ucs_table(1) by simp
qed

lemma ucast_ascii:
  fixes u :: u16
  assumes "u < 0x80"
  shows "(ucast u :: byte) < 0x80" and "ucast (ucast u :: byte) = u"
proof -
  have "unat u < 128" using assms by (simp add: word_less_nat_alt)
  moreover have "unat (ucast u :: byte) = unat u mod 256"
    by (simp add: unsigned_ucast_eq take_bit_eq_mod unat_mod_distrib)
  ultimately have b: "unat (ucast u :: byte) = unat u" "unat (ucast u :: byte) < 128" by simp_all
  from b(2) show "(ucast u :: byte) < 0x80" by (simp add: word_less_nat_alt)
  have "unat (ucast (ucast u :: byte) :: u16) = unat (ucast u :: byte) mod 65536"
    by (simp add: unsigned_ucast_eq take_bit_eq_mod unat_mod_distrib)
  with b show "ucast (ucast u :: byte) = u" by (simp add: word_unat_eq_iff)
qed

lemma gb_ucs2_step:
  assumes "gb_char u" and "2 \<le> room"
  shows "gb_ucs2_loop e (gb_of u @ bs) room =
    map_option (\<lambda>(st, n, out). (st, n, ucs2_of e u @ out)) (gb_ucs2_loop e bs (room - 2))"
proof -
  have sw: "[ucast (if e then swap16 w else w), ucast (drop_bit 8 (if e then swap16 w else w))] = ucs2_of e w" for w
  proof -
    have "ucast (swap16 w) = (ucast (drop_bit 8 w) :: byte)" "ucast (drop_bit 8 (swap16 w)) = (ucast w :: byte)"
      unfolding swap16_def
      by (rule bit_word_eqI; auto simp: bit_simps dest: bit_imp_le_length)+
    then show ?thesis by (simp add: ucs2_of_def)
  qed
  show ?thesis
  proof (cases "u < 0x80")
    case True
    then have "gb_of u = [ucast u]" by (simp add: gb_of_def)
    then show ?thesis using assms(2) ucast_ascii [OF True] by (simp add: Let_def split del: if_split cong: if_cong flip: sw)
  next
    case False
    then obtain hi lo where "gb_of u = [hi, lo]" "\<not> hi < 0x80" "unat (gb_offset hi lo) < length gb2312_to_ucs2_table"
      "gb2312_to_ucs2_table ! unat (gb_offset hi lo) = u"
      using gb_hanzi assms(1) by metis
    then show ?thesis using assms(2) by (simp add: Let_def split del: if_split cong: if_cong flip: sw)
  qed
qed

lemma gb_ucs2_loop_ok:
  "\<forall>u \<in> set us. gb_char u \<Longrightarrow> 2 * length us \<le> room \<Longrightarrow>
    gb_ucs2_loop e (concat (map gb_of us)) room = Some (IcOk, 0, concat (map (ucs2_of e) us))"
proof (induction us arbitrary: room)
  case (Cons u us)
  have "gb_ucs2_loop e (concat (map gb_of us)) (room - 2) = Some (IcOk, 0, concat (map (ucs2_of e) us))"
    using Cons by simp
  then show ?case using gb_ucs2_step [of u room e "concat (map gb_of us)"] Cons.prems by simp
qed simp

text \<open>Round trip over the tables as they stand in the source: text of ASCII and the 6763 characters of
  the repertoire, converted from UCS-2 to GB2312 and back, in either endianness on either side and
  with enough room, is the same text; both conversions succeed.\<close>

lemma gb2312_roundtrip:
  assumes "\<forall>u \<in> set us. gb_char u" and "2 * length us < room" and "2 * length us \<le> room'"
  shows "\<exists>r r'. iconv_ucs2_to_gb2312_endian (concat (map (ucs2_of e) us)) room e = Some r
    \<and> iconv_gb2312_to_ucs2_endian (ir_written r) room' e' = Some r'
    \<and> ir_status r = IcOk \<and> ir_status r' = IcOk \<and> ir_written r' = concat (map (ucs2_of e') us)"
proof -
  have "length (concat (map gb_of us)) \<le> 2 * length us"
    by (induction us) (auto simp: gb_of_def Let_def)
  then have "length (concat (map gb_of us)) < room" using assms(2) by linarith
  from ucs2_gb_loop_ok [OF disjI2, OF this, of e] gb_ucs2_loop_ok [OF assms(1,3), of e'] show ?thesis
    by (simp add: iconv_ucs2_to_gb2312_endian_def iconv_gb2312_to_ucs2_endian_def units_ucs2)
qed

lemma gb2312_roundtrip_witness:
  "\<exists>r r'. iconv_ucs2_to_gb2312_endian (concat (map (ucs2_of True) [0x41, 0x4E00])) 9 True = Some r
    \<and> iconv_gb2312_to_ucs2_endian (ir_written r) 9 False = Some r'
    \<and> ir_written r' = concat (map (ucs2_of False) [0x41, 0x4E00])"
proof -
  have "gb_has 0x4E00" by (simp add: gb_has_def gb_bits_def gb_bytes_def ucs2_mirror_4E00_9FFF_def
      ucs2_mirror_a_def byte_bits_def bit_simps)
  then have "\<forall>u \<in> set [0x41, 0x4E00]. gb_char u" by (simp add: gb_char_def)
  from gb2312_roundtrip [OF this, of 9 9 True False] show ?thesis by auto
qed

end
