(* ===== verification/CStr.thy ===== *)
theory CStr
  imports Prelude
begin

text \<open>
  The string functions of \<open>newlib/libc/src/string.c\<close> and the unrolled \<open>strncat\<close> of
  \<open>platform/coolsand/src/cust_strncat.c\<close>. A pointer that is only read is the list of bytes from
  the pointer to the end of its object, so reading an empty list is a read outside the object;
  the destination of \<open>strncat\<close> is its whole object. Each function is compared with a
  definition on the string proper, the bytes before the first NUL.
\<close>

section \<open>Strings in memory\<close>

definition cstr :: "byte list \<Rightarrow> byte list" where
  "cstr m = takeWhile (\<lambda>b. b \<noteq> 0) m"

text \<open>The object holds a terminator.\<close>

definition terminated :: "byte list \<Rightarrow> bool" where
  "terminated m \<longleftrightarrow> 0 \<in> set m"

lemma cstr_simps [simp]:
  "cstr [] = []" "cstr (b # m) = (if b = 0 then [] else b # cstr m)"
  by (simp_all add: cstr_def)

lemma cstr_nonzero: "b \<in> set (cstr m) \<Longrightarrow> b \<noteq> 0"
  by (auto simp: cstr_def dest: set_takeWhileD)

lemma terminated_simps [simp]: "\<not> terminated []" "terminated (b # m) \<longleftrightarrow> b = 0 \<or> terminated m"
  by (auto simp: terminated_def)

lemma cstr_append: "0 \<notin> set s \<Longrightarrow> cstr (s @ 0 # m) = s"
  by (induction s) auto

section \<open>Case-insensitive comparison\<close>

definition charmap :: "byte list" where
  "charmap =
    [0x00, 0x01, 0x02, 0x03, 0x04, 0x05, 0x06, 0x07, 0x08, 0x09, 0x0A, 0x0B, 0x0C, 0x0D, 0x0E, 0x0F,
     0x10, 0x11, 0x12, 0x13, 0x14, 0x15, 0x16, 0x17, 0x18, 0x19, 0x1A, 0x1B, 0x1C, 0x1D, 0x1E, 0x1F,
     0x20, 0x21, 0x22, 0x23, 0x24, 0x25, 0x26, 0x27, 0x28, 0x29, 0x2A, 0x2B, 0x2C, 0x2D, 0x2E, 0x2F,
     0x30, 0x31, 0x32, 0x33, 0x34, 0x35, 0x36, 0x37, 0x38, 0x39, 0x3A, 0x3B, 0x3C, 0x3D, 0x3E, 0x3F,
     0x40, 0x61, 0x62, 0x63, 0x64, 0x65, 0x66, 0x67, 0x68, 0x69, 0x6A, 0x6B, 0x6C, 0x6D, 0x6E, 0x6F,
     0x70, 0x71, 0x72, 0x73, 0x74, 0x75, 0x76, 0x77, 0x78, 0x79, 0x7A, 0x5B, 0x5C, 0x5D, 0x5E, 0x5F,
     0x60, 0x61, 0x62, 0x63, 0x64, 0x65, 0x66, 0x67, 0x68, 0x69, 0x6A, 0x6B, 0x6C, 0x6D, 0x6E, 0x6F,
     0x70, 0x71, 0x72, 0x73, 0x74, 0x75, 0x76, 0x77, 0x78, 0x79, 0x7A, 0x7B, 0x7C, 0x7D, 0x7E, 0x7F,
     0x80, 0x81, 0x82, 0x83, 0x84, 0x85, 0x86, 0x87, 0x88, 0x89, 0x8A, 0x8B, 0x8C, 0x8D, 0x8E, 0x8F,
     0x90, 0x91, 0x92, 0x93, 0x94, 0x95, 0x96, 0x97, 0x98, 0x99, 0x9A, 0x9B, 0x9C, 0x9D, 0x9E, 0x9F,
     0xA0, 0xA1, 0xA2, 0xA3, 0xA4, 0xA5, 0xA6, 0xA7, 0xA8, 0xA9, 0xAA, 0xAB, 0xAC, 0xAD, 0xAE, 0xAF,
     0xB0, 0xB1, 0xB2, 0xB3, 0xB4, 0xB5, 0xB6, 0xB7, 0xB8, 0xB9, 0xBA, 0xBB, 0xBC, 0xBD, 0xBE, 0xBF,
     0xC0, 0xC1, 0xC2, 0xC3, 0xC4, 0xC5, 0xC6, 0xC7, 0xC8, 0xC9, 0xCA, 0xCB, 0xCC, 0xCD, 0xCE, 0xCF,
     0xD0, 0xD1, 0xD2, 0xD3, 0xD4, 0xD5, 0xD6, 0xD7, 0xD8, 0xD9, 0xDA, 0xDB, 0xDC, 0xDD, 0xDE, 0xDF,
     0xE0, 0xE1, 0xE2, 0xE3, 0xE4, 0xE5, 0xE6, 0xE7, 0xE8, 0xE9, 0xEA, 0xEB, 0xEC, 0xED, 0xEE, 0xEF,
     0xF0, 0xF1, 0xF2, 0xF3, 0xF4, 0xF5, 0xF6, 0xF7, 0xF8, 0xF9, 0xFA, 0xFB, 0xFC, 0xFD, 0xFE, 0xFF]"

fun strcasecmp :: "byte list \<Rightarrow> byte list \<Rightarrow> int option" where
  "strcasecmp (a # s1) (b # s2) =
     (if charmap ! unat a = charmap ! unat b
      then (if a = 0 then Some 0 else strcasecmp s1 s2)
      else Some (uint (charmap ! unat a) - uint (charmap ! unat b)))"
| "strcasecmp _ _ = None"

fun strncasecmp :: "byte list \<Rightarrow> byte list \<Rightarrow> nat \<Rightarrow> int option" where
  "strncasecmp s1 s2 0 = Some 0"
| "strncasecmp (a # s1) (b # s2) (Suc n) =
     (if charmap ! unat a \<noteq> charmap ! unat b
      then Some (uint (charmap ! unat a) - uint (charmap ! unat b))
      else if a = 0 then Some 0 else strncasecmp s1 s2 n)"
| "strncasecmp _ _ (Suc n) = None"

definition lower :: "byte \<Rightarrow> byte" where
  "lower b = (if 0x41 \<le> b \<and> b \<le> 0x5A then b + 32 else b)"

lemma charmap_table: "charmap = map (\<lambda>n. lower (of_nat n)) [0..<256]"
  by code_simp

lemma charmap_lower: "charmap ! unat b = lower b"
proof -
  have "unat b < 256" using unsigned_less [of b, where 'a = nat] by simp
  then show ?thesis by (simp add: charmap_table)
qed

lemma lower_zero [simp]: "lower b = 0 \<longleftrightarrow> b = 0" "lower 0 = 0"
proof -
  have "b + 32 \<noteq> 0" if "0x41 \<le> b" "b \<le> 0x5A"
  proof -
    have "65 \<le> unat b" "unat b \<le> 90" using that by (simp_all add: word_le_nat_alt)
    then have "unat (b + 32) = unat b + 32" by (simp add: unat_word_ariths)
    then show ?thesis by (metis add_is_0 unsigned_0 zero_neq_numeral)
  qed
  then show "lower b = 0 \<longleftrightarrow> b = 0" by (auto simp: lower_def)
  show "lower 0 = 0" by (simp add: lower_def)
qed

text \<open>The order of two strings ignoring case, the end of a string below every byte.\<close>

fun ic_compare :: "byte list \<Rightarrow> byte list \<Rightarrow> int" where
  "ic_compare [] [] = 0"
| "ic_compare [] (b # t) = - uint (lower b)"
| "ic_compare (a # s) [] = uint (lower a)"
| "ic_compare (a # s) (b # t) = (if lower a = lower b then ic_compare s t else uint (lower a) - uint (lower b))"

lemma ic_compare_zero: "0 \<notin> set s \<Longrightarrow> 0 \<notin> set t \<Longrightarrow> ic_compare s t = 0 \<longleftrightarrow> map lower s = map lower t"
proof (induction s t rule: ic_compare.induct)
  case (4 a s b t)
  then show ?case by (auto dest: unsigned_word_eqI)
qed (auto simp: unsigned_eq_0_iff)

lemma cstr_no_zero: "0 \<notin> set (cstr m)"
  using cstr_nonzero by blast

lemma strcasecmp_ok: "terminated s1 \<Longrightarrow> terminated s2 \<Longrightarrow> strcasecmp s1 s2 = Some (ic_compare (cstr s1) (cstr s2))"
  by (induction s1 s2 rule: strcasecmp.induct) (auto simp: charmap_lower)

lemma strcasecmp_eq:
  "terminated s1 \<Longrightarrow> terminated s2 \<Longrightarrow> strcasecmp s1 s2 = Some 0 \<longleftrightarrow> map lower (cstr s1) = map lower (cstr s2)"
  by (simp add: strcasecmp_ok ic_compare_zero cstr_no_zero)

lemma strncasecmp_ok:
  "terminated s1 \<Longrightarrow> terminated s2 \<Longrightarrow> strncasecmp s1 s2 n = Some (ic_compare (take n (cstr s1)) (take n (cstr s2)))"
  by (induction s1 s2 n rule: strncasecmp.induct) (auto simp: charmap_lower)

text \<open>\<open>strcasecmp\<close> and \<open>strncasecmp\<close> on two terminated strings never read past them, return 0
  exactly when the strings (their first \<open>n\<close> bytes) agree up to the case of ASCII letters, and
  otherwise the difference of the first bytes that differ, so the sign orders them.\<close>

lemma strcasecmp_correct:
  assumes "terminated s1" and "terminated s2"
  shows "strcasecmp s1 s2 = Some (ic_compare (cstr s1) (cstr s2))
    \<and> strncasecmp s1 s2 n = Some (ic_compare (take n (cstr s1)) (take n (cstr s2)))
    \<and> (strcasecmp s1 s2 = Some 0 \<longleftrightarrow> map lower (cstr s1) = map lower (cstr s2))
    \<and> (strncasecmp s1 s2 n = Some 0 \<longleftrightarrow> map lower (take n (cstr s1)) = map lower (take n (cstr s2)))"
proof -
  have "0 \<notin> set (take n (cstr m))" for m using cstr_no_zero [of m] by (auto dest: in_set_takeD)
  then show ?thesis
    by (simp add: strcasecmp_ok strncasecmp_ok ic_compare_zero cstr_no_zero assms)
qed

lemma strcasecmp_correct_witness:
  "strcasecmp [0x41, 0x62, 0] [0x61, 0x42, 0, 9] = Some 0 \<and> strncasecmp [0x41, 0x62, 0] [0x61, 0x63, 0] 1 = Some 0"
  using strcasecmp_correct [of "[0x41, 0x62, 0]" "[0x61, 0x42, 0, 9]" 1]
    strcasecmp_correct [of "[0x41, 0x62, 0]" "[0x61, 0x63, 0]" 1]
  by (simp add: lower_def)

section \<open>strpbrk\<close>

fun strpbrk_inner :: "byte \<Rightarrow> byte list \<Rightarrow> bool option" where
  "strpbrk_inner c [] = None"
| "strpbrk_inner c (sc # s2) = (if sc = 0 then Some False else if sc = c then Some True else strpbrk_inner c s2)"

text \<open>The result is the index of the byte found, \<open>Some None\<close> for \<open>NULL\<close>.\<close>

fun strpbrk :: "byte list \<Rightarrow> byte list \<Rightarrow> nat \<Rightarrow> nat option option" where
  "strpbrk [] s2 i = None"
| "strpbrk (c # s1) s2 i =
     (if c = 0 then Some None
      else case strpbrk_inner c s2 of None \<Rightarrow> None
        | Some True \<Rightarrow> Some (Some i) | Some False \<Rightarrow> strpbrk s1 s2 (Suc i))"

lemma strpbrk_inner_ok: "terminated s2 \<Longrightarrow> c \<noteq> 0 \<Longrightarrow> strpbrk_inner c s2 = Some (c \<in> set (cstr s2))"
  by (induction s2) auto

lemma strpbrk_ok:
  "terminated s1 \<Longrightarrow> terminated s2 \<Longrightarrow>
   strpbrk s1 s2 i = Some (if \<exists>c\<in>set (cstr s1). c \<in> set (cstr s2)
     then Some (i + length (takeWhile (\<lambda>c. c \<notin> set (cstr s2)) (cstr s1))) else None)"
  by (induction s1 arbitrary: i) (auto simp: strpbrk_inner_ok)

section \<open>strncat\<close>

text \<open>The state inside \<open>strncat\<close>: the destination, the index of the next store, the rest of the source
  and the last byte copied; or the function has returned.\<close>

datatype cat = CatDone "byte list" | CatMore "byte list" nat "byte list" byte

text \<open>\<open>c = *s2++; *++s1 = c; if (c == 0) return s;\<close>\<close>

fun cat_step :: "cat \<Rightarrow> cat option" where
  "cat_step (CatDone m) = Some (CatDone m)"
| "cat_step (CatMore m p src c) =
     (case src of [] \<Rightarrow> None
      | x # xs \<Rightarrow>
          if p < length m
          then Some (if x = 0 then CatDone (m[p := x]) else CatMore (m[p := x]) (Suc p) xs x)
          else None)"

fun cat_quads :: "nat \<Rightarrow> cat \<Rightarrow> cat option" where
  "cat_quads 0 st = Some st"
| "cat_quads (Suc n4) st =
     Option.bind (Option.bind (Option.bind (Option.bind (cat_step st) cat_step) cat_step) cat_step) (cat_quads n4)"

fun cat_rest :: "nat \<Rightarrow> cat \<Rightarrow> cat option" where
  "cat_rest 0 st = Some st"
| "cat_rest (Suc n) st = Option.bind (cat_step st) (cat_rest n)"

definition cat_finish :: "cat \<Rightarrow> byte list option" where
  "cat_finish st = (case st of CatDone m \<Rightarrow> Some m
     | CatMore m p src c \<Rightarrow>
         if c \<noteq> 0 then (if p < length m then Some (m[p := 0]) else None) else Some m)"

definition strncat :: "byte list \<Rightarrow> byte list \<Rightarrow> nat \<Rightarrow> byte list option" where
  "strncat s1 s2 n =
     (if terminated s1
      then let st = CatMore s1 (length (cstr s1)) s2 0 in
        Option.bind (Option.bind (if n \<ge> 4 then cat_quads (drop_bit 2 n) st else Some st)
          (cat_rest (if n \<ge> 4 then n AND 3 else n))) cat_finish
      else None)"

lemma cat_rest_add: "cat_rest (m + n) st = Option.bind (cat_rest m st) (cat_rest n)"
  by (induction m arbitrary: st) (auto simp: bind_eq_None_conv split: bind_split)

lemma cat_quads_rest: "cat_quads k st = cat_rest (4 * k) st"
proof (induction k arbitrary: st)
  case (Suc k)
  have "4 * Suc k = Suc (Suc (Suc (Suc (4 * k))))" by simp
  then show ?case by (simp only: cat_rest.simps cat_quads.simps) (auto simp: Suc split: bind_split)
qed simp

text \<open>Copying byte by byte: after \<open>n\<close> steps from a position inside the object.\<close>

lemma cat_rest_copies:
  assumes "terminated src" and "p + min n (length (cstr src)) < length m"
  shows "\<exists>c. cat_rest n (CatMore m p src c0) =
    Some (if n \<le> length (cstr src)
      then CatMore (take p m @ take n (cstr src) @ drop (p + n) m) (p + n) (drop n src) c
      else CatDone (take p m @ cstr src @ 0 # drop (Suc (p + length (cstr src))) m))
    \<and> (if n = 0 then c = c0 else n \<le> length (cstr src) \<longrightarrow> c \<noteq> 0)"
  using assms
proof (induction n arbitrary: m p src c0)
  case 0
  then show ?case by simp
next
  case (Suc n)
  obtain x xs where src: "src = x # xs" using Suc.prems(1) by (cases src) auto
  have p: "p < length m" using Suc.prems(2) by simp
  have fin: "cat_rest k (CatDone m') = Some (CatDone m')" for k m' by (induction k) auto
  show ?case
  proof (cases "x = 0")
    case True
    then show ?thesis using p src by (simp add: fin upd_conv_take_nth_drop)
  next
    case False
    have "terminated xs" "Suc p + min n (length (cstr xs)) < length (m[p := x])"
      using Suc.prems src False by simp_all
    from Suc.IH [OF this, of x] obtain c where
      c: "cat_rest n (CatMore (m[p := x]) (Suc p) xs x) = Some (if n \<le> length (cstr xs)
        then CatMore (take (Suc p) (m[p := x]) @ take n (cstr xs) @ drop (Suc p + n) (m[p := x])) (Suc p + n) (drop n xs) c
        else CatDone (take (Suc p) (m[p := x]) @ cstr xs @ 0 # drop (Suc (Suc p + length (cstr xs))) (m[p := x])))"
      "if n = 0 then c = x else n \<le> length (cstr xs) \<longrightarrow> c \<noteq> 0" by blast
    have t: "take (Suc p) (m[p := x]) = take p m @ [x]" by (rule take_Suc_update [OF p])
    show ?thesis
      using c src False p unfolding t by (intro exI [of _ c]) (auto split: if_splits)
  qed
qed

text \<open>The unrolled \<open>strncat\<close> appends the first \<open>n\<close> bytes of the source string (or all of it)
  and a terminator to the destination string, leaves the rest of the object as it was and
  touches nothing outside it, whenever the result fits the object.\<close>

lemma strncat_correct:
  assumes "terminated s1" and "terminated s2"
    and "length (cstr s1) + min n (length (cstr s2)) < length s1"
  shows "strncat s1 s2 n = Some (cstr s1 @ take n (cstr s2) @
    (if n = 0 then drop (length (cstr s1)) s1
     else 0 # drop (Suc (length (cstr s1) + min n (length (cstr s2)))) s1))"
proof -
  let ?p = "length (cstr s1)"
  have split: "strncat s1 s2 n = Option.bind (cat_rest n (CatMore s1 ?p s2 0)) cat_finish"
  proof (cases "n \<ge> 4")
    case True
    have "n AND 3 = n mod 4"
    proof -
      have "n AND 3 = take_bit 2 n" by (simp add: take_bit_eq_mask mask_eq_exp_minus_1)
      then show ?thesis by (simp add: take_bit_eq_mod)
    qed
    moreover have "drop_bit 2 n = n div 4" by (simp add: drop_bit_eq_div)
    moreover have "4 * (n div 4) + n mod 4 = n" by simp
    ultimately show ?thesis
      using True assms(1) cat_rest_add [of "4 * (n div 4)" "n mod 4" "CatMore s1 ?p s2 0"]
      by (simp add: strncat_def cat_quads_rest)
  next
    case False
    then show ?thesis using assms(1) by (simp add: strncat_def)
  qed
  have tk: "take ?p s1 = cstr s1"
    unfolding cstr_def by (metis takeWhile_eq_take)
  from cat_rest_copies [OF assms(2,3), of 0] obtain c where
    c: "cat_rest n (CatMore s1 ?p s2 0) = Some (if n \<le> length (cstr s2)
      then CatMore (cstr s1 @ take n (cstr s2) @ drop (?p + n) s1) (?p + n) (drop n s2) c
      else CatDone (cstr s1 @ cstr s2 @ 0 # drop (Suc (?p + length (cstr s2))) s1))"
      "if n = 0 then c = 0 else n \<le> length (cstr s2) \<longrightarrow> c \<noteq> 0"
    unfolding tk by blast
  show ?thesis
  proof (cases "n = 0")
    case True
    have "cstr s1 @ drop ?p s1 = s1" using tk append_take_drop_id [of ?p s1] by simp
    then show ?thesis using c True unfolding split by (simp add: cat_finish_def)
  next
    case False
    show ?thesis
    proof (cases "n \<le> length (cstr s2)")
      case True
      then have "?p + n < length s1" using assms(3) by simp
      then have "drop (?p + n) s1 = s1 ! (?p + n) # drop (Suc (?p + n)) s1" by (rule Cons_nth_drop_Suc [symmetric])
      then show ?thesis using c True False \<open>?p + n < length s1\<close>
        by (simp add: split cat_finish_def list_update_append min_absorb1)
    next
      case big: False
      then show ?thesis using c False by (simp add: split cat_finish_def)
    qed
  qed
qed

lemma strncat_correct_witness:
  "strncat [0x61, 0, 1, 2, 3, 4, 5, 6] [0x62, 0x63, 0x64, 0x65, 0x66, 0] 5
    = Some [0x61, 0x62, 0x63, 0x64, 0x65, 0x66, 0, 6]"
  using strncat_correct [of "[0x61, 0, 1, 2, 3, 4, 5, 6]" "[0x62, 0x63, 0x64, 0x65, 0x66, 0]" 5]
  by simp

end
