(* ===== verification/DevMan.thy ===== *)
theory DevMan
  imports CStr
begin

text \<open>
  The device manager and the file stubs of the C library, \<open>newlib/src/devman.c\<close> and
  \<open>newlib/src/stubs.c\<close>: a table of at most 16 devices, path resolution, and file descriptors that
  pack the device index and the device's own descriptor. Names are strings without their
  terminator; a device's functions are state transformers of the world \<open>'w\<close>, \<open>None\<close> for a null
  function pointer. As everywhere, the outer \<open>None\<close> of a result is a fault (here the call of a
  function through a device that does not exist).
\<close>

section \<open>Devices and the table\<close>

definition DM_MAX_DEVICES :: nat where "DM_MAX_DEVICES = 16"
definition DM_MAX_DEVICES_BITS :: nat where "DM_MAX_DEVICES_BITS = 4"
definition DM_MAX_DEV_NAME :: nat where "DM_MAX_DEV_NAME = 12"

definition DM_ERR_ALREADY_REGISTERED :: int where "DM_ERR_ALREADY_REGISTERED = -1"
definition DM_ERR_NOT_REGISTERED :: int where "DM_ERR_NOT_REGISTERED = -2"
definition DM_ERR_NO_SPACE :: int where "DM_ERR_NO_SPACE = -3"
definition DM_ERR_INVALID_NAME :: int where "DM_ERR_INVALID_NAME = -4"
definition DM_ERR_NO_DEVICE :: int where "DM_ERR_NO_DEVICE = -5"
definition DM_OK :: int where "DM_OK = 0"

lemmas dm_consts = DM_MAX_DEVICES_def DM_MAX_DEVICES_BITS_def DM_MAX_DEV_NAME_def
  DM_ERR_ALREADY_REGISTERED_def DM_ERR_NOT_REGISTERED_def DM_ERR_NO_SPACE_def
  DM_ERR_INVALID_NAME_def DM_ERR_NO_DEVICE_def DM_OK_def

abbreviation slash :: byte where "slash \<equiv> 0x2F"

record 'w dm_device =
  dv_name :: "byte list"
  dv_open :: "(byte list \<Rightarrow> int \<Rightarrow> int \<Rightarrow> 'w \<Rightarrow> int \<times> 'w) option"
  dv_close :: "(int \<Rightarrow> 'w \<Rightarrow> int \<times> 'w) option"
  dv_write :: "(int \<Rightarrow> byte list \<Rightarrow> 'w \<Rightarrow> int \<times> 'w) option"
  dv_read :: "(int \<Rightarrow> nat \<Rightarrow> 'w \<Rightarrow> (int \<times> byte list) \<times> 'w) option"
  dv_lseek :: "(int \<Rightarrow> int \<Rightarrow> int \<Rightarrow> 'w \<Rightarrow> int \<times> 'w) option"
  dv_opendir :: "(byte list \<Rightarrow> 'w \<Rightarrow> nat option \<times> 'w) option"
  dv_readdir :: "(nat \<Rightarrow> 'w \<Rightarrow> byte list option \<times> 'w) option"
  dv_closedir :: "(nat \<Rightarrow> 'w \<Rightarrow> int \<times> 'w) option"

text \<open>\<open>dm_list\<close> (a slot never written is \<open>None\<close>) and \<open>dm_num_devs\<close>.\<close>

record 'w dm_table =
  dm_list :: "'w dm_device option list"
  dm_num_devs :: nat

text \<open>Comparison of two names by the C function.\<close>

definition name_eq :: "byte list \<Rightarrow> byte list \<Rightarrow> bool" where
  "name_eq a b \<longleftrightarrow> strcasecmp (a @ [0]) (b @ [0]) = Some 0"

definition dev_at :: "'w dm_table \<Rightarrow> nat \<Rightarrow> 'w dm_device" where
  "dev_at t i = the (dm_list t ! i)"

fun find_name :: "'w dm_table \<Rightarrow> byte list \<Rightarrow> nat \<Rightarrow> nat \<Rightarrow> nat" where
  "find_name t name i 0 = i"
| "find_name t name i (Suc k) = (if name_eq name (dv_name (dev_at t i)) then i else find_name t name (Suc i) k)"

text \<open>\<open>find_name t name 0 n\<close> is the loop counter after the search among the first \<open>n\<close> devices.\<close>

definition bad_name :: "byte list \<Rightarrow> bool" where
  "bad_name name \<longleftrightarrow> name = [] \<or> hd name \<noteq> slash \<or> length name > DM_MAX_DEV_NAME"

definition dm_register :: "'w dm_device option \<Rightarrow> 'w dm_table \<Rightarrow> 'w dm_table \<times> int" where
  "dm_register pdev t =
     (case pdev of None \<Rightarrow> (t, DM_ERR_INVALID_NAME)
      | Some d \<Rightarrow>
          if bad_name (dv_name d) then (t, DM_ERR_INVALID_NAME)
          else if find_name t (dv_name d) 0 (dm_num_devs t) < dm_num_devs t then (t, DM_ERR_ALREADY_REGISTERED)
          else if dm_num_devs t = DM_MAX_DEVICES then (t, DM_ERR_NO_SPACE)
          else (t\<lparr>dm_list := (dm_list t)[dm_num_devs t := Some d], dm_num_devs := Suc (dm_num_devs t)\<rparr>,
                int (dm_num_devs t)))"

text \<open>\<open>memmove(dm_list + i, dm_list + i + 1, sizeof(DM_DEVICE* ))\<close> moves a single pointer.\<close>

definition dm_unregister :: "byte list option \<Rightarrow> 'w dm_table \<Rightarrow> 'w dm_table \<times> int" where
  "dm_unregister name t =
     (case name of None \<Rightarrow> (t, DM_ERR_INVALID_NAME)
      | Some nm \<Rightarrow>
          if bad_name nm then (t, DM_ERR_INVALID_NAME)
          else let i = find_name t nm 0 (dm_num_devs t) in
            if i = dm_num_devs t then (t, DM_ERR_NOT_REGISTERED)
            else let l = (if i \<noteq> dm_num_devs t - 1 then (dm_list t)[i := dm_list t ! (i + 1)] else dm_list t)
              in (t\<lparr>dm_list := l, dm_num_devs := dm_num_devs t - 1\<rparr>, DM_OK))"

definition dm_get_device_at :: "'w dm_table \<Rightarrow> int \<Rightarrow> 'w dm_device option" where
  "dm_get_device_at t idx = (if idx < 0 \<or> idx \<ge> int (dm_num_devs t) then None else dm_list t ! nat idx)"

definition dm_get_num_devices :: "'w dm_table \<Rightarrow> nat" where
  "dm_get_num_devices t = dm_num_devs t"

definition dm_init :: "'w dm_device \<Rightarrow> 'w dm_table \<Rightarrow> 'w dm_table \<times> int" where
  "dm_init std t = (fst (dm_register (Some std) t), DM_OK)"

text \<open>The longest registered name that is a prefix of \<open>name\<close>: the loop keeps the best index and length.\<close>

fun best_prefix :: "'w dm_table \<Rightarrow> byte list \<Rightarrow> nat \<Rightarrow> nat \<Rightarrow> nat \<Rightarrow> nat \<Rightarrow> nat \<times> nat" where
  "best_prefix t name i 0 matchlen pos = (matchlen, pos)"
| "best_prefix t name i (Suc k) matchlen pos =
     (let nm = dv_name (dev_at t i) in
      if strncasecmp (name @ [0]) (nm @ [0]) (length nm) = Some 0 \<and> length nm > matchlen
      then best_prefix t name (Suc i) k (length nm) i
      else best_prefix t name (Suc i) k matchlen pos)"

definition dm_device_id_from_name :: "'w dm_table \<Rightarrow> byte list \<Rightarrow> int \<times> byte list option" where
  "dm_device_id_from_name t name =
     (case best_prefix t name 0 (dm_num_devs t) 0 0 of (matchlen, pos) \<Rightarrow>
      if matchlen = 0 then (DM_ERR_NO_DEVICE, None)
      else (int pos, Some (drop (length (dv_name (dev_at t pos))) name)))"

section \<open>Directories\<close>

datatype errno = ENODEV | ENOSYS | EBADF | ENOMEM | Eother int

text \<open>A directory handle: the device index as a \<open>u8\<close> and the device's data. \<open>alloc\<close> tells whether
  \<open>malloc\<close> succeeds. The third component is the value left in \<open>errno\<close>, if it is set.\<close>

record dm_dir =
  dd_devid :: u8
  dd_userdata :: nat

definition dm_opendir :: "'w dm_table \<Rightarrow> bool \<Rightarrow> byte list \<Rightarrow> 'w \<Rightarrow> dm_dir option \<times> 'w \<times> errno option" where
  "dm_opendir t alloc dirname w =
     (case dm_device_id_from_name t dirname of
        (pos, None) \<Rightarrow> (None, w, Some ENOSYS)
      | (pos, Some rest) \<Rightarrow>
          (case dv_opendir (dev_at t (nat pos)) of None \<Rightarrow> (None, w, Some ENOSYS)
           | Some f \<Rightarrow>
               (case f rest w of
                  (None, w1) \<Rightarrow> (None, w1, None)
                | (Some data, w1) \<Rightarrow>
                    if alloc then (Some \<lparr>dd_devid = word_of_int pos, dd_userdata = data\<rparr>, w1, None)
                    else (None, w1, Some ENOMEM))))"

definition dm_readdir :: "'w dm_table \<Rightarrow> dm_dir \<Rightarrow> 'w \<Rightarrow> byte list option \<times> 'w \<times> errno option" where
  "dm_readdir t d w =
     (if unat (dd_devid d) \<ge> dm_num_devs t then (None, w, Some EBADF)
      else case dv_readdir (dev_at t (unat (dd_devid d))) of None \<Rightarrow> (None, w, Some EBADF)
        | Some f \<Rightarrow> (case f (dd_userdata d) w of (r, w1) \<Rightarrow> (r, w1, None)))"

text \<open>\<open>p_closedir_r\<close> is called without a test for null.\<close>

definition dm_closedir :: "'w dm_table \<Rightarrow> dm_dir \<Rightarrow> 'w \<Rightarrow> (int \<times> 'w \<times> errno option) option" where
  "dm_closedir t d w =
     (if unat (dd_devid d) \<ge> dm_num_devs t then Some (-1, w, Some EBADF)
      else case dv_closedir (dev_at t (unat (dd_devid d))) of None \<Rightarrow> None
        | Some f \<Rightarrow> (case f (dd_userdata d) w of (r, w1) \<Rightarrow> Some (r, w1, None)))"

section \<open>Descriptors and paths\<close>

definition DM_MAKE_DESC :: "int \<Rightarrow> int \<Rightarrow> int" where
  "DM_MAKE_DESC devid fd = push_bit (15 - DM_MAX_DEVICES_BITS) devid OR fd"

definition DM_GET_DEVID :: "int \<Rightarrow> int" where
  "DM_GET_DEVID desc = drop_bit (15 - DM_MAX_DEVICES_BITS) desc"

definition DM_GET_FD :: "int \<Rightarrow> int" where
  "DM_GET_FD desc = desc AND (push_bit (15 - DM_MAX_DEVICES_BITS) 1 - 1)"

text \<open>The scan of \<open>find_dm_entry\<close>: the index found and the last root device seen before it.\<close>

fun scan_devs :: "'w dm_table \<Rightarrow> byte list \<Rightarrow> nat \<Rightarrow> nat \<Rightarrow> nat option \<Rightarrow> nat \<times> nat option" where
  "scan_devs t nm i 0 root = (i, root)"
| "scan_devs t nm i (Suc k) root =
     (if name_eq nm (dv_name (dev_at t i)) then (i, root)
      else scan_devs t nm (Suc i) k (if dv_name (dev_at t i) = [slash] then Some i else root))"

text \<open>\<open>find_dm_entry\<close>: the device index and the file name, \<open>None\<close> for -1.\<close>

definition find_dm_entry :: "'w dm_table \<Rightarrow> byte list \<Rightarrow> (nat \<times> byte list) option" where
  "find_dm_entry t name =
     (if name = [] \<or> hd name \<noteq> slash then None
      else
        let pre = takeWhile (\<lambda>c. c \<noteq> slash) (tl name);
            len = Suc (length pre);
            found = len < length name in
        if found \<and> (len > DM_MAX_DEV_NAME \<or> len = 1) then None
        else
          let tempname = (if found then take len name else [slash]);
              preal = (if found then drop len name else name) in
          case scan_devs t tempname 0 (dm_num_devs t) None of (i, root) \<Rightarrow>
            (case (if i = dm_num_devs t then map_option (\<lambda>r. (r, name)) root else Some (i, preal)) of
               None \<Rightarrow> None
             | Some (i, preal) \<Rightarrow> if tl preal = [] then None else Some (i, tl preal)))"

definition open_r :: "'w dm_table \<Rightarrow> byte list \<Rightarrow> int \<Rightarrow> int \<Rightarrow> 'w \<Rightarrow> int \<times> 'w \<times> errno option" where
  "open_r t name flags mode w =
     (case find_dm_entry t name of None \<Rightarrow> (-1, w, Some ENODEV)
      | Some (devid, actname) \<Rightarrow>
          (case dv_open (dev_at t devid) of None \<Rightarrow> (-1, w, Some ENOSYS)
           | Some f \<Rightarrow>
               (case f actname flags mode w of (res, w1) \<Rightarrow>
                  if res < 0 then (res, w1, Some (Eother res))
                  else (DM_MAKE_DESC (int devid) res, w1, None))))"

definition close_r :: "'w dm_table \<Rightarrow> int \<Rightarrow> 'w \<Rightarrow> (int \<times> 'w \<times> errno option) option" where
  "close_r t file w =
     (case dm_get_device_at t (DM_GET_DEVID file) of None \<Rightarrow> None
      | Some d \<Rightarrow> (case dv_close d of None \<Rightarrow> Some (-1, w, Some ENOSYS)
          | Some f \<Rightarrow> (case f (DM_GET_FD file) w of (r, w1) \<Rightarrow> Some (r, w1, None))))"

definition lseek_r :: "'w dm_table \<Rightarrow> int \<Rightarrow> int \<Rightarrow> int \<Rightarrow> 'w \<Rightarrow> (int \<times> 'w \<times> errno option) option" where
  "lseek_r t file off whence w =
     (case dm_get_device_at t (DM_GET_DEVID file) of None \<Rightarrow> None
      | Some d \<Rightarrow> (case dv_lseek d of None \<Rightarrow> Some (-1, w, Some ENOSYS)
          | Some f \<Rightarrow> (case f (DM_GET_FD file) off whence w of (r, w1) \<Rightarrow> Some (r, w1, None))))"

definition read_r :: "'w dm_table \<Rightarrow> int \<Rightarrow> nat \<Rightarrow> 'w \<Rightarrow> ((int \<times> byte list) \<times> 'w \<times> errno option) option" where
  "read_r t file len w =
     (case dm_get_device_at t (DM_GET_DEVID file) of None \<Rightarrow> None
      | Some d \<Rightarrow> (case dv_read d of None \<Rightarrow> Some ((-1, []), w, Some ENOSYS)
          | Some f \<Rightarrow> (case f (DM_GET_FD file) len w of (r, w1) \<Rightarrow> Some (r, w1, None))))"

definition write_r :: "'w dm_table \<Rightarrow> int \<Rightarrow> byte list \<Rightarrow> 'w \<Rightarrow> (int \<times> 'w \<times> errno option) option" where
  "write_r t file data w =
     (case dm_get_device_at t (DM_GET_DEVID file) of None \<Rightarrow> None
      | Some d \<Rightarrow> (case dv_write d of None \<Rightarrow> Some (-1, w, Some ENOSYS)
          | Some f \<Rightarrow> (case f (DM_GET_FD file) data w of (r, w1) \<Rightarrow> Some (r, w1, None))))"

section \<open>The table as a list of devices with distinct names\<close>

definition devices :: "'w dm_table \<Rightarrow> 'w dm_device list" where
  "devices t = map (dev_at t) [0..<dm_num_devs t]"

definition good_name :: "byte list \<Rightarrow> bool" where
  "good_name nm \<longleftrightarrow> \<not> bad_name nm \<and> 0 \<notin> set nm"

definition dm_inv :: "'w dm_table \<Rightarrow> bool" where
  "dm_inv t \<longleftrightarrow> length (dm_list t) = DM_MAX_DEVICES \<and> dm_num_devs t \<le> DM_MAX_DEVICES
     \<and> (\<forall>i<dm_num_devs t. dm_list t ! i \<noteq> None) \<and> (\<forall>d\<in>set (devices t). good_name (dv_name d))
     \<and> distinct (map (\<lambda>d. map lower (dv_name d)) (devices t))"

lemma name_eq_lower:
  assumes "0 \<notin> set a" and "0 \<notin> set b"
  shows "name_eq a b \<longleftrightarrow> map lower a = map lower b"
proof -
  have "cstr (a @ [0]) = a" "cstr (b @ [0]) = b" using assms by (simp_all add: cstr_append)
  moreover have "terminated (a @ [0])" "terminated (b @ [0])" by (simp_all add: terminated_def)
  ultimately show ?thesis by (simp add: name_eq_def strcasecmp_eq)
qed

lemma length_devices [simp]: "length (devices t) = dm_num_devs t"
  by (simp add: devices_def)

lemma devices_nth [simp]: "i < dm_num_devs t \<Longrightarrow> devices t ! i = dev_at t i"
  by (simp add: devices_def)

lemma find_name_props:
  "let r = find_name t nm i k in i \<le> r \<and> r \<le> i + k
     \<and> (\<forall>j. i \<le> j \<and> j < r \<longrightarrow> \<not> name_eq nm (dv_name (dev_at t j)))
     \<and> (r < i + k \<longrightarrow> name_eq nm (dv_name (dev_at t r)))"
proof (induction k arbitrary: i)
  case (Suc k)
  have "j = i \<or> Suc i \<le> j" if "i \<le> j" for j using that by auto
  with Suc [of "Suc i"] show ?case by (auto simp: Let_def)
qed (auto simp: Let_def)

text \<open>Whether a device with this name (ignoring case) is registered.\<close>

definition registered :: "'w dm_table \<Rightarrow> byte list \<Rightarrow> bool" where
  "registered t nm \<longleftrightarrow> map lower nm \<in> (\<lambda>d. map lower (dv_name d)) ` set (devices t)"

lemma find_name_registered:
  assumes "dm_inv t" and "0 \<notin> set nm"
  shows "find_name t nm 0 (dm_num_devs t) < dm_num_devs t \<longleftrightarrow> registered t nm"
    and "find_name t nm 0 (dm_num_devs t) \<le> dm_num_devs t"
    and "i < dm_num_devs t \<Longrightarrow> map lower nm = map lower (dv_name (dev_at t i))
      \<Longrightarrow> find_name t nm 0 (dm_num_devs t) = i"
proof -
  let ?r = "find_name t nm 0 (dm_num_devs t)"
  have z: "0 \<notin> set (dv_name (dev_at t j))" if "j < dm_num_devs t" for j
    using assms(1) that by (auto simp: dm_inv_def good_name_def devices_def)
  have e: "name_eq nm (dv_name (dev_at t j)) \<longleftrightarrow> map lower nm = map lower (dv_name (dev_at t j))"
    if "j < dm_num_devs t" for j
    using name_eq_lower [OF assms(2) z [OF that]] .
  have f: "?r \<le> dm_num_devs t" "\<forall>j<?r. \<not> name_eq nm (dv_name (dev_at t j))"
      "?r < dm_num_devs t \<longrightarrow> name_eq nm (dv_name (dev_at t ?r))"
    using find_name_props [of t nm 0 "dm_num_devs t"] by (simp_all add: Let_def)
  show "?r \<le> dm_num_devs t" by (rule f(1))
  show reg: "?r < dm_num_devs t \<longleftrightarrow> registered t nm"
  proof
    assume "?r < dm_num_devs t"
    then show "registered t nm" using f(3) e by (auto simp: registered_def devices_def)
  next
    assume "registered t nm"
    then obtain j where "j < dm_num_devs t" "map lower nm = map lower (dv_name (dev_at t j))"
      by (auto simp: registered_def devices_def)
    then show "?r < dm_num_devs t" using f(2) e by (metis not_less less_le_trans)
  qed
  show "?r = i" if i: "i < dm_num_devs t" "map lower nm = map lower (dv_name (dev_at t i))"
  proof -
    have "?r \<le> i" using f(2) e [OF i(1)] i(2) by (meson not_less)
    then have r: "?r < dm_num_devs t" using i(1) by simp
    then have "map lower (dv_name (dev_at t ?r)) = map lower (dv_name (dev_at t i))" using f(3) e i(2) by simp
    moreover have "distinct (map (\<lambda>d. map lower (dv_name d)) (devices t))" using assms(1) by (simp add: dm_inv_def)
    ultimately show ?thesis using r i(1) by (auto simp: distinct_conv_nth)
  qed
qed

lemma devices_append:
  assumes "dm_inv t" and "dm_num_devs t < DM_MAX_DEVICES"
  shows "devices (t\<lparr>dm_list := (dm_list t)[dm_num_devs t := Some d], dm_num_devs := Suc (dm_num_devs t)\<rparr>)
    = devices t @ [d]"
  using assms by (auto simp: devices_def dev_at_def dm_inv_def)

text \<open>C12. \<open>dm_register\<close> keeps the table a list of devices with valid names that are distinct ignoring
  case: it appends the device and returns its index, or leaves the table unchanged and returns the
  error that applies (invalid name, already registered, no space, tested in this order).\<close>

theorem dm_register_correct:
  assumes "dm_inv t" and "0 \<notin> set (dv_name d)"
  shows "dm_inv (fst (dm_register (Some d) t))
    \<and> (if bad_name (dv_name d) then dm_register (Some d) t = (t, DM_ERR_INVALID_NAME)
       else if registered t (dv_name d) then dm_register (Some d) t = (t, DM_ERR_ALREADY_REGISTERED)
       else if length (devices t) = DM_MAX_DEVICES then dm_register (Some d) t = (t, DM_ERR_NO_SPACE)
       else devices (fst (dm_register (Some d) t)) = devices t @ [d]
         \<and> snd (dm_register (Some d) t) = int (length (devices t)))"
proof (cases "\<not> bad_name (dv_name d) \<and> \<not> registered t (dv_name d) \<and> dm_num_devs t \<noteq> DM_MAX_DEVICES")
  case False
  then show ?thesis using assms find_name_registered(1) [OF assms] by (auto simp: dm_register_def)
next
  case True
  let ?t = "t\<lparr>dm_list := (dm_list t)[dm_num_devs t := Some d], dm_num_devs := Suc (dm_num_devs t)\<rparr>"
  have lt: "dm_num_devs t < DM_MAX_DEVICES" using True assms(1) by (simp add: dm_inv_def)
  have run: "dm_register (Some d) t = (?t, int (dm_num_devs t))"
    using True find_name_registered(1) [OF assms] by (simp add: dm_register_def)
  note dv = devices_append [OF assms(1) lt, of d]
  have "dm_inv ?t"
    using assms True lt unfolding dm_inv_def dv
    by (auto simp: nth_list_update good_name_def registered_def less_Suc_eq)
  then show ?thesis using True dv by (simp add: run)
qed

definition no_ops :: "byte list \<Rightarrow> unit dm_device" where
  "no_ops nm = \<lparr>dv_name = nm, dv_open = None, dv_close = None, dv_write = None, dv_read = None,
     dv_lseek = None, dv_opendir = None, dv_readdir = None, dv_closedir = None\<rparr>"

definition dm_empty :: "'w dm_table" where
  "dm_empty = \<lparr>dm_list = replicate DM_MAX_DEVICES None, dm_num_devs = 0\<rparr>"

lemma dm_empty_inv: "dm_inv dm_empty"
  by (simp add: dm_inv_def dm_empty_def devices_def)

lemma dm_register_correct_witness:
  "devices (fst (dm_register (Some (no_ops [slash, 0x61])) dm_empty)) = [no_ops [slash, 0x61]]"
  using dm_register_correct [OF dm_empty_inv, of "no_ops [slash, 0x61]"]
  by (simp add: no_ops_def bad_name_def registered_def devices_def dm_empty_def dm_consts)

text \<open>\<open>dm_unregister\<close> of the device at index \<open>i\<close> removes it from the list when at most one device
  follows it; with two or more followers it moves only the next one, so that device is then in the
  table twice and the last device is lost.\<close>

lemma dm_unregister_correct:
  assumes "dm_inv t" and "i < dm_num_devs t" and "map lower nm = map lower (dv_name (dev_at t i))"
    and "good_name nm"
  shows "snd (dm_unregister (Some nm) t) = DM_OK
    \<and> devices (fst (dm_unregister (Some nm) t)) =
       (if dm_num_devs t \<le> i + 2 then take i (devices t) @ drop (Suc i) (devices t)
        else take i (devices t) @ dev_at t (i + 1) # drop (Suc i) (butlast (devices t)))"
proof -
  let ?n = "dm_num_devs t"
  have nm: "0 \<notin> set nm" "\<not> bad_name nm" using assms(4) by (auto simp: good_name_def)
  have find: "find_name t nm 0 ?n = i" by (rule find_name_registered(3) [OF assms(1) nm(1) assms(2,3)])
  let ?l = "if i \<noteq> ?n - 1 then (dm_list t)[i := dm_list t ! (i + 1)] else dm_list t"
  have run: "dm_unregister (Some nm) t = (t\<lparr>dm_list := ?l, dm_num_devs := ?n - 1\<rparr>, DM_OK)"
    using nm(2) assms(2) by (simp add: dm_unregister_def find)
  have len: "?n \<le> length (dm_list t)" using assms(1) by (simp add: dm_inv_def)
  have "devices (t\<lparr>dm_list := ?l, dm_num_devs := ?n - 1\<rparr>) =
       (if ?n \<le> i + 2 then take i (devices t) @ drop (Suc i) (devices t)
        else take i (devices t) @ dev_at t (i + 1) # drop (Suc i) (butlast (devices t)))" (is "?L = ?R")
  proof (rule nth_equalityI)
    show "length ?L = length ?R" using assms(2) by (auto simp: devices_def)
    fix j
    assume "j < length ?L"
    then have j: "j < ?n - 1" by (simp add: devices_def)
    then have "?L ! j = (if i = j \<and> i \<noteq> ?n - 1 then dev_at t (i + 1) else dev_at t j)"
      using len assms(2) by (auto simp: devices_def dev_at_def)
    moreover have "?R ! j = (if i = j \<and> i \<noteq> ?n - 1 then dev_at t (i + 1) else dev_at t j)"
    proof (cases "?n \<le> i + 2")
      case True
      then have "j = i \<Longrightarrow> ?n = i + 2" "j \<noteq> i \<Longrightarrow> j < i" using j assms(2) by auto
      then show ?thesis using True j assms(2) by (auto simp: nth_append)
    next
      case False
      then show ?thesis using j assms(2)
        by (auto simp: nth_append nth_Cons' nth_butlast less_diff_conv)
    qed
    ultimately show "?L ! j = ?R ! j" by simp
  qed
  then show ?thesis by (simp add: run)
qed

definition three_devs :: "unit dm_table" where
  "three_devs = \<lparr>dm_list = map (\<lambda>c. Some (no_ops [slash, c])) [0x61, 0x62, 0x63] @ replicate 13 None, dm_num_devs = 3\<rparr>"

lemma three_devs_devices:
  "devices three_devs = [no_ops [slash, 0x61], no_ops [slash, 0x62], no_ops [slash, 0x63]]"
  by (simp add: devices_def three_devs_def dev_at_def upt_rec)

lemma three_devs_inv: "dm_inv three_devs"
proof -
  have "\<forall>i<3. dm_list three_devs ! i \<noteq> None"
    by (simp add: three_devs_def All_less_Suc numeral_3_eq_3)
  moreover have "dm_num_devs three_devs = 3" "length (dm_list three_devs) = 16"
    by (simp_all add: three_devs_def)
  ultimately show ?thesis
    unfolding dm_inv_def three_devs_devices
    by (simp add: dm_consts no_ops_def good_name_def bad_name_def lower_def)
qed

lemma dm_unregister_correct_witness:
  "devices (fst (dm_unregister (Some [slash, 0x41]) three_devs)) = [no_ops [slash, 0x62], no_ops [slash, 0x62]]"
  using dm_unregister_correct [OF three_devs_inv, of 0 "[slash, 0x41]"]
  unfolding three_devs_devices
  by (simp add: three_devs_def dev_at_def no_ops_def lower_def good_name_def bad_name_def dm_consts)

section \<open>Descriptors route to the device that opened them\<close>

lemma desc_roundtrip:
  assumes "0 \<le> fd" and "fd < 2048"
  shows "DM_GET_DEVID (DM_MAKE_DESC devid fd) = devid" and "DM_GET_FD (DM_MAKE_DESC devid fd) = fd"
proof -
  have t: "take_bit 11 fd = fd" using assms by (simp add: take_bit_int_eq_self)
  have "push_bit 11 devid OR fd = push_bit 11 devid + fd"
  proof (rule disjunctive_add [symmetric])
    fix n
    have "\<not> bit fd n" if "11 \<le> n" using that t by (metis bit_take_bit_iff not_less)
    then show "\<not> bit (push_bit 11 devid) n \<or> \<not> bit fd n" by (auto simp: bit_push_bit_iff)
  qed
  then have e: "DM_MAKE_DESC devid fd = devid * 2048 + fd"
    by (simp add: DM_MAKE_DESC_def dm_consts push_bit_eq_mult)
  show "DM_GET_DEVID (DM_MAKE_DESC devid fd) = devid"
    using assms by (simp add: e DM_GET_DEVID_def dm_consts drop_bit_eq_div)
  have "DM_GET_FD (DM_MAKE_DESC devid fd) = take_bit 11 (devid * 2048 + fd)"
    by (simp add: e DM_GET_FD_def dm_consts take_bit_eq_mask mask_eq_exp_minus_1 push_bit_eq_mult)
  then show "DM_GET_FD (DM_MAKE_DESC devid fd) = fd"
    using assms by (simp add: take_bit_eq_mod)
qed

lemma scan_devs_find: "fst (scan_devs t nm i k root) = find_name t nm i k"
  by (induction k arbitrary: i root) auto

lemma scan_devs_root:
  "snd (scan_devs t nm i k root) = Some r \<Longrightarrow> root = Some r \<or> (i \<le> r \<and> r < i + k \<and> dv_name (dev_at t r) = [slash])"
  by (induction k arbitrary: i root) (force split: if_splits)+

text \<open>Path resolution: \<open>/dev/file\<close>, with a device name of 1 to 11 characters and no further slash in
  it, resolves to the registered device of that name (ignoring case) and the path behind it, whatever
  else is registered.\<close>

lemma find_dm_entry_device:
  assumes "dm_inv t" and "i < dm_num_devs t" and "map lower (slash # nm) = map lower (dv_name (dev_at t i))"
    and "nm \<noteq> []" and "length nm < DM_MAX_DEV_NAME" and "slash \<notin> set nm" and "0 \<notin> set nm" and "file \<noteq> []"
  shows "find_dm_entry t (slash # nm @ slash # file) = Some (i, file)"
proof -
  have "0 \<notin> set (slash # nm)" using assms(7) by simp
  note find = find_name_registered(3) [OF assms(1) this assms(2,3)]
  obtain root where sc: "scan_devs t (slash # nm) 0 (dm_num_devs t) None = (i, root)"
    using scan_devs_find [of t "slash # nm" 0 "dm_num_devs t" None] find
    by (cases "scan_devs t (slash # nm) 0 (dm_num_devs t) None") simp
  have tw: "takeWhile (\<lambda>c. c \<noteq> slash) (nm @ slash # file) = nm" using assms(6) by (induction nm) auto
  show ?thesis
    using assms by (simp add: find_dm_entry_def Let_def tw sc)
qed

lemma find_dm_entry_device_witness:
  "find_dm_entry three_devs [slash, 0x42, slash, 0x78] = Some (1, [0x78])"
  using find_dm_entry_device [OF three_devs_inv, of 1 "[0x42]" "[0x78]"]
  by (simp add: three_devs_def dev_at_def no_ops_def lower_def dm_consts)


definition echo_dev :: "nat dm_device" where
  "echo_dev = \<lparr>dv_name = [slash, 0x61], dv_open = Some (\<lambda>p fl md w. (7, w)), dv_close = None,
     dv_write = Some (\<lambda>fd bs w. (fd, w + length bs)), dv_read = None,
     dv_lseek = None, dv_opendir = None, dv_readdir = None, dv_closedir = None\<rparr>"


end
