(* ===== verification/GenStd.thy ===== *)
theory GenStd
  imports Prelude
begin

text \<open>
  The console device, \<open>newlib/src/genstd.c\<close>: \<open>std_read\<close> with its line editing and echo, and
  \<open>std_write\<close>. The characters the console returns are the list \<open>sd_in\<close> (-1 is a timeout, and
  an exhausted list is a read that never returns, \<open>None\<close>); \<open>sd_out\<close> collects what is sent.
  The theory shows the line discipline.
\<close>

section \<open>State and operations\<close>

definition DM_STDIN_NUM :: int where "DM_STDIN_NUM = 0"
definition DM_STDOUT_NUM :: int where "DM_STDOUT_NUM = 1"
definition DM_STDERR_NUM :: int where "DM_STDERR_NUM = 2"
definition STD_CTRLZ_CODE :: int where "STD_CTRLZ_CODE = 26"

record std_state =
  sd_send :: bool \<comment> \<open>\<open>std_send_char_func\<close> is set\<close>
  sd_get :: bool
  sd_prev :: int
  sd_in :: "int list"
  sd_out :: "(int \<times> int) list"

datatype std_errno = StdOk | StdBadf | StdInval

definition send :: "int \<Rightarrow> int \<Rightarrow> std_state \<Rightarrow> std_state" where
  "send fd c s = s\<lparr>sd_out := sd_out s @ [(fd, c)]\<rparr>"

definition isprint :: "int \<Rightarrow> bool" where
  "isprint c \<longleftrightarrow> 0x20 \<le> c \<and> c \<le> 0x7E"

text \<open>The loop of \<open>std_read\<close>; \<open>acc\<close> is \<open>ptr[0..i)\<close>. The result is the state and the bytes returned.\<close>

function std_loop :: "nat \<Rightarrow> byte list \<Rightarrow> std_state \<Rightarrow> (std_state \<times> byte list) option" where
  "std_loop len acc s =
     (if length acc < len then
        if sd_prev s \<noteq> -1 then std_loop len (acc @ [word_of_int (sd_prev s)]) (s\<lparr>sd_prev := -1\<rparr>)
        else case sd_in s of [] \<Rightarrow> None
        | c # cs \<Rightarrow>
            (let s1 = s\<lparr>sd_in := cs\<rparr> in
             if c = -1 then Some (s1, acc)
             else if c = 8 \<or> c = 0x7F then
               (if acc \<noteq> []
                then std_loop len (butlast acc) (send DM_STDOUT_NUM 8 (send DM_STDOUT_NUM 32 (send DM_STDOUT_NUM 8 s1)))
                else std_loop len acc s1)
             else if \<not> isprint c \<and> c \<noteq> 10 \<and> c \<noteq> 13 \<and> c \<noteq> STD_CTRLZ_CODE then std_loop len acc s1
             else if c = STD_CTRLZ_CODE then Some (s1, [])
             else
               let s2 = send DM_STDOUT_NUM c s1 in
               if c = 13 \<or> c = 10 then
                 (case cs of [] \<Rightarrow> None
                  | p # cs' \<Rightarrow>
                      Some (send DM_STDOUT_NUM (13 + 10 - c)
                        (s2\<lparr>sd_in := cs', sd_prev := (if p + c = 13 + 10 then -1 else p)\<rparr>), acc @ [10]))
               else std_loop len (acc @ [word_of_int c]) s2)
      else Some (s, acc))"
  by pat_completeness auto
termination
  by (relation "measure (\<lambda>(len, acc, s). length (sd_in s) + (if sd_prev s \<noteq> -1 then 1 else 0))")
    (auto simp: send_def)

declare std_loop.simps [simp del]

text \<open>The result of a read: the value, the bytes stored and \<open>errno\<close>.\<close>

definition std_read :: "int \<Rightarrow> nat \<Rightarrow> std_state \<Rightarrow> (std_state \<times> int \<times> byte list \<times> std_errno) option" where
  "std_read fd len s =
     (if \<not> sd_send s \<or> \<not> sd_get s then Some (s, -1, [], StdBadf)
      else if fd < DM_STDIN_NUM \<or> fd > DM_STDERR_NUM then Some (s, -1, [], StdBadf)
      else if fd \<noteq> DM_STDIN_NUM then Some (s, -1, [], StdInval)
      else case std_loop len [] s of None \<Rightarrow> None
        | Some (s1, bs) \<Rightarrow> Some (s1, int (length bs), bs, StdOk))"

fun write_loop :: "int \<Rightarrow> byte list \<Rightarrow> std_state \<Rightarrow> std_state" where
  "write_loop fd [] s = s"
| "write_loop fd (b # bs) s =
     write_loop fd bs (send fd (uint b) (if b = 10 then send fd 13 s else s))"

definition std_write :: "int \<Rightarrow> byte list \<Rightarrow> std_state \<Rightarrow> std_state \<times> int \<times> std_errno" where
  "std_write fd data s =
     (if \<not> sd_send s \<or> \<not> sd_get s then (s, -1, StdBadf)
      else if fd < DM_STDIN_NUM \<or> fd > DM_STDERR_NUM then (s, -1, StdBadf)
      else if fd \<noteq> DM_STDOUT_NUM \<and> fd \<noteq> DM_STDERR_NUM then (s, -1, StdInval)
      else (write_loop fd data s, int (length data), StdOk))"

definition std_set_send_func :: "bool \<Rightarrow> std_state \<Rightarrow> std_state" where
  "std_set_send_func f s = s\<lparr>sd_send := f\<rparr>"

definition std_set_get_func :: "bool \<Rightarrow> std_state \<Rightarrow> std_state" where
  "std_set_get_func f s = s\<lparr>sd_get := f\<rparr>"

section \<open>The line discipline\<close>

text \<open>The line being edited after a key, and what the key echoes.\<close>

definition edit_key :: "int \<Rightarrow> byte list \<Rightarrow> byte list" where
  "edit_key c l = (if c = 8 \<or> c = 0x7F then butlast l else if isprint c then l @ [word_of_int c] else l)"

definition echo_key :: "int \<Rightarrow> byte list \<Rightarrow> int list" where
  "echo_key c l = (if c = 8 \<or> c = 0x7F then (if l = [] then [] else [8, 32, 8]) else if isprint c then [c] else [])"

fun edit :: "int list \<Rightarrow> byte list \<Rightarrow> byte list" where
  "edit [] l = l"
| "edit (c # cs) l = edit cs (edit_key c l)"

fun echo :: "int list \<Rightarrow> byte list \<Rightarrow> int list" where
  "echo [] l = []"
| "echo (c # cs) l = echo_key c l @ echo cs (edit_key c l)"

text \<open>Keys that neither end the line nor the input.\<close>

definition editing :: "int \<Rightarrow> bool" where
  "editing c \<longleftrightarrow> c \<noteq> -1 \<and> c \<noteq> 10 \<and> c \<noteq> 13 \<and> c \<noteq> STD_CTRLZ_CODE"

definition on_stdout :: "int list \<Rightarrow> (int \<times> int) list" where
  "on_stdout cs = map (Pair DM_STDOUT_NUM) cs"

lemma std_loop_edit:
  "\<forall>c\<in>set keys. editing c \<Longrightarrow> length acc + length keys < len \<Longrightarrow> sd_prev s = -1 \<Longrightarrow> sd_in s = keys @ tail
   \<Longrightarrow> std_loop len acc s = std_loop len (edit keys acc)
        (s\<lparr>sd_in := tail, sd_out := sd_out s @ on_stdout (echo keys acc)\<rparr>)"
proof (induction keys arbitrary: acc s)
  case Nil
  then show ?case by (cases s) (simp add: on_stdout_def)
next
  case (Cons c cs)
  let ?s = "s\<lparr>sd_in := cs @ tail, sd_out := sd_out s @ on_stdout (echo_key c acc)\<rparr>"
  have l: "length (edit_key c acc) + length cs < len"
    using Cons.prems(2) by (auto simp: edit_key_def)
  have "std_loop len acc s = std_loop len (edit_key c acc) ?s"
    using Cons.prems
    by (subst std_loop.simps)
      (auto simp: editing_def edit_key_def echo_key_def send_def on_stdout_def Let_def isprint_def
        STD_CTRLZ_CODE_def)
  also have "\<dots> = std_loop len (edit cs (edit_key c acc)) (?s\<lparr>sd_in := tail,
      sd_out := sd_out ?s @ on_stdout (echo cs (edit_key c acc))\<rparr>)"
    using Cons.prems l by (intro Cons.IH) auto
  finally show ?case by (simp add: on_stdout_def)
qed

text \<open>A read of a console line: with keys that are printable, backspaces or ignored control
  characters, followed by CR or LF and one more character, \<open>std_read\<close> returns the edited line and
  a newline, echoes the editing and then CR LF (or LF CR), swallows the other half of a CR LF pair and
  keeps any other character for the next read.\<close>

lemma std_read_line:
  assumes "sd_send s" and "sd_get s" and "sd_prev s = -1" and "\<forall>c\<in>set keys. editing c"
    and "length keys < len" and "eol = 13 \<or> eol = 10" and "sd_in s = keys @ eol # nxt # tail"
  shows "std_read DM_STDIN_NUM len s = Some
    (s\<lparr>sd_prev := (if nxt = 23 - eol then -1 else nxt), sd_in := tail,
       sd_out := sd_out s @ on_stdout (echo keys [] @ [eol, 23 - eol])\<rparr>,
     int (length (edit keys [])) + 1, edit keys [] @ [10], StdOk)"
proof -
  have l: "length (edit keys []) < len"
  proof -
    have "length (edit cs a) \<le> length a + length cs" for cs a
    proof (induction cs arbitrary: a)
      case (Cons c cs)
      have "length (edit_key c a) \<le> Suc (length a)" by (auto simp: edit_key_def)
      with Cons [of "edit_key c a"] show ?case by simp
    qed simp
    from this [of keys "[]"] assms(5) show ?thesis by simp
  qed
  have "std_loop len [] s = std_loop len (edit keys [])
      (s\<lparr>sd_in := eol # nxt # tail, sd_out := sd_out s @ on_stdout (echo keys [])\<rparr>)"
    using assms by (intro std_loop_edit) auto
  also have "\<dots> = Some (s\<lparr>sd_prev := (if nxt = 23 - eol then -1 else nxt), sd_in := tail,
       sd_out := sd_out s @ on_stdout (echo keys [] @ [eol, 23 - eol])\<rparr>, edit keys [] @ [10])"
    using assms(3,6) l
    by (subst std_loop.simps) (auto simp: Let_def send_def on_stdout_def isprint_def STD_CTRLZ_CODE_def)
  finally show ?thesis using assms(1,2)
    by (simp add: std_read_def DM_STDIN_NUM_def DM_STDERR_NUM_def)
qed

lemma std_read_line_witness:
  "\<exists>s. std_read DM_STDIN_NUM 8 \<lparr>sd_send = True, sd_get = True, sd_prev = -1, sd_in = [0x61, 0x62, 8, 0x63, 13, 10], sd_out = []\<rparr>
     = Some (s, 3, [0x61, 0x63, 10], StdOk)"
  using std_read_line [of "\<lparr>sd_send = True, sd_get = True, sd_prev = -1, sd_in = [0x61, 0x62, 8, 0x63, 13, 10], sd_out = []\<rparr>"
      "[0x61, 0x62, 8, 0x63]" 8 13 10 "[]"]
  by (simp add: editing_def STD_CTRLZ_CODE_def edit_key_def isprint_def)

lemma write_loop_ok:
  "write_loop fd data s = s\<lparr>sd_out := sd_out s
     @ map (Pair fd) (concat (map (\<lambda>b. if b = 10 then [13, 10] else [uint b]) data))\<rparr>"
  by (induction data arbitrary: s) (simp_all add: send_def)

text \<open>What one turn of the loop does: it ends with at most \<open>len\<close> bytes or goes on with less input.\<close>

lemma std_loop_turn:
  assumes "std_loop len acc s = Some (s', bs)" and "length acc \<le> len"
  shows "length bs \<le> len \<or> (\<exists>acc1 s1. std_loop len acc1 s1 = Some (s', bs) \<and> length acc1 \<le> len
    \<and> length (sd_in s1) + (if sd_prev s1 \<noteq> -1 then 1 else 0) < length (sd_in s) + (if sd_prev s \<noteq> -1 then 1 else 0))"
proof -
  note run = assms(1) [unfolded std_loop.simps [of len acc s]]
  show ?thesis
  proof (cases "length acc < len \<and> sd_prev s = -1")
    case False
    then show ?thesis
    proof (cases "length acc < len")
      case True
      with False run have "std_loop len (acc @ [word_of_int (sd_prev s)]) (s\<lparr>sd_prev := -1\<rparr>) = Some (s', bs)"
        by simp
      then show ?thesis using False True by (intro disjI2 exI conjI) auto
    next
      case False
      then show ?thesis using run assms(2) by auto
    qed
  next
    case True
    then obtain c cs where c: "sd_in s = c # cs" using run by (cases "sd_in s") auto
    let ?again = "\<lambda>acc1 s1. std_loop len acc1 s1 = Some (s', bs) \<and> length acc1 \<le> len
       \<and> sd_prev s1 = -1 \<and> sd_in s1 = cs"
    consider "c = -1 \<or> c = STD_CTRLZ_CODE" | "c = 8 \<or> c = 0x7F" | "c = 10 \<or> c = 13"
      | "c \<noteq> -1" "c \<noteq> STD_CTRLZ_CODE" "c \<noteq> 8" "c \<noteq> 0x7F" "c \<noteq> 10" "c \<noteq> 13" by blast
    then have "length bs \<le> len \<or> (\<exists>acc1 s1. ?again acc1 s1)"
    proof cases
      case 1
      then show ?thesis using run True c by (auto simp: STD_CTRLZ_CODE_def isprint_def)
    next
      case 2
      then have "std_loop len (butlast acc) (if acc = [] then s\<lparr>sd_in := cs\<rparr>
          else send DM_STDOUT_NUM 8 (send DM_STDOUT_NUM 32 (send DM_STDOUT_NUM 8 (s\<lparr>sd_in := cs\<rparr>)))) = Some (s', bs)"
        using run True c by (cases "acc = []") auto
      then show ?thesis using True by (intro disjI2 exI conjI) (auto simp: send_def)
    next
      case 3
      then have "bs = acc @ [10]"
        using run True c by (auto simp: STD_CTRLZ_CODE_def isprint_def Let_def split: list.splits)
      then show ?thesis using True by simp
    next
      case 4
      then have "std_loop len (if isprint c then acc @ [word_of_int c] else acc)
          (if isprint c then send DM_STDOUT_NUM c (s\<lparr>sd_in := cs\<rparr>) else s\<lparr>sd_in := cs\<rparr>) = Some (s', bs)"
        using run True c by (cases "isprint c") (auto simp: Let_def)
      then show ?thesis using True by (intro disjI2 exI conjI) (auto simp: send_def)
    qed
    then show ?thesis
    proof (elim disjE exE)
      fix acc1 s1
      assume a: "?again acc1 s1"
      then have "length (sd_in s1) + (if sd_prev s1 \<noteq> -1 then 1 else 0)
          < length (sd_in s) + (if sd_prev s \<noteq> -1 then 1 else 0)"
        using True c by simp
      with a show ?thesis by blast
    qed simp
  qed
qed

lemma std_loop_bound: "std_loop len acc s = Some (s', bs) \<Longrightarrow> length acc \<le> len \<Longrightarrow> length bs \<le> len"
proof (induction "length (sd_in s) + (if sd_prev s \<noteq> -1 then 1 else 0)" arbitrary: acc s rule: less_induct)
  case less
  from std_loop_turn [OF less.prems] less.hyps show ?case by blast
qed

text \<open>\<open>std_read\<close> never stores or returns more than \<open>len\<close> bytes, whatever is typed, and
  \<open>std_write\<close> sends the bytes in order with a CR before every LF.\<close>

lemma std_io_bounds:
  assumes "sd_send s" and "sd_get s"
  shows "(std_read fd len s = Some (s', n, bs, e) \<longrightarrow> length bs \<le> len \<and> (n = int (length bs) \<or> n = -1))
    \<and> std_write DM_STDOUT_NUM data s =
       (s\<lparr>sd_out := sd_out s @ on_stdout (concat (map (\<lambda>b. if b = 10 then [13, 10] else [uint b]) data))\<rparr>,
        int (length data), StdOk)"
  using assms std_loop_bound [of len "[]" s]
  by (auto simp: std_read_def std_write_def write_loop_ok on_stdout_def DM_STDIN_NUM_def DM_STDOUT_NUM_def
      DM_STDERR_NUM_def split: if_splits option.splits)

lemma std_io_bounds_witness:
  "\<exists>s. std_write DM_STDOUT_NUM [0x61, 10] \<lparr>sd_send = True, sd_get = True, sd_prev = -1, sd_in = [], sd_out = []\<rparr> = (s, 2, StdOk)
     \<and> sd_out s = [(1, 0x61), (1, 13), (1, 10)]"
  using std_io_bounds [of "\<lparr>sd_send = True, sd_get = True, sd_prev = -1, sd_in = [], sd_out = []\<rparr>" 0 0 _ 0 "[]" StdOk "[0x61, 10]"]
  by (simp add: on_stdout_def DM_STDOUT_NUM_def)

end
