(* ===== verification/Staged.thy ===== *)
theory Staged
  imports Fifo
begin

text \<open>
  The reading side of the receive paths in \<open>platform/coolsand/src/platform_uart.c\<close>. Lua asks
  for one byte at a time, so the driver moves up to \<open>chunk\<close> bytes at once from the ring into a
  staging buffer and serves the requests from there; the UART ports (\<open>uart_phy_read\<close>, 126
  bytes, 8-bit indices) and the virtual AT channel (\<open>vatc_read\<close>, 512 bytes, 16-bit indices)
  share the loop. It is written over an arbitrary queue and proved once, in a locale that extends
  \<open>lossy_fifo\<close>: whatever the staging does, the reader sees the bytes of the queue in order.
\<close>

section \<open>The staging buffer\<close>

record 'i staged =
  st_buf :: "byte list"
  st_index :: 'i
  st_size :: 'i

text \<open>\<open>if(index >= size) { size = QueueDelete(queue, buf, chunk); index = 0; }\<close>\<close>

definition staged_refill ::
  "('q \<Rightarrow> nat \<Rightarrow> ('q \<times> byte list \<times> int) option) \<Rightarrow> nat \<Rightarrow> 'q \<Rightarrow> ('w :: len) word staged \<Rightarrow> ('q \<times> 'w word staged \<times> nat) option"
where
  "staged_refill del chunk q st =
     (if st_size st \<le> st_index st then
        (case del q chunk of None \<Rightarrow> None
         | Some (q', ys, r) \<Rightarrow>
             if length (st_buf st) < length ys then None
             else Some (q', \<lparr>st_buf = ys @ drop (length ys) (st_buf st), st_index = 0,
                             st_size = word_of_int r\<rparr>, 1))
      else Some (q, st, 0))"

text \<open>
  The \<open>while(rcvdlen < length)\<close> loop; the counter is \<open>length - rcvdlen\<close>. The result carries the
  bytes stored at \<open>data_p\<close> and the number of refills. A refilled buffer of size 0 breaks the loop.
\<close>

fun staged_loop ::
  "('q \<Rightarrow> nat \<Rightarrow> ('q \<times> byte list \<times> int) option) \<Rightarrow> nat \<Rightarrow> nat \<Rightarrow> 'q \<Rightarrow> ('w :: len) word staged
    \<Rightarrow> ('q \<times> 'w word staged \<times> byte list \<times> nat) option"
where
  "staged_loop del chunk 0 q st = Some (q, st, [], 0)"
| "staged_loop del chunk (Suc n) q st =
     (case staged_refill del chunk q st of None \<Rightarrow> None
      | Some (q1, st1, k) \<Rightarrow>
          if st_size st1 = 0 then Some (q1, st1, [], k)
          else if length (st_buf st1) \<le> unat (st_index st1) then None
          else (case staged_loop del chunk n q1 (st1\<lparr>st_index := st_index st1 + 1\<rparr>) of None \<Rightarrow> None
                | Some (q2, st2, ds, k') \<Rightarrow> Some (q2, st2, st_buf st1 ! unat (st_index st1) # ds, k + k')))"

section \<open>What is staged\<close>

definition staged_bytes :: "('w :: len) word staged \<Rightarrow> byte list" where
  "staged_bytes st = drop (unat (st_index st)) (take (unat (st_size st)) (st_buf st))"

definition staged_inv :: "nat \<Rightarrow> ('w :: len) word staged \<Rightarrow> bool" where
  "staged_inv chunk st \<longleftrightarrow> length (st_buf st) = chunk \<and> unat (st_size st) \<le> chunk"

lemma staged_bytes_Nil: "staged_inv chunk st \<Longrightarrow> staged_bytes st = [] \<longleftrightarrow> st_size st \<le> st_index st"
  by (auto simp: staged_bytes_def staged_inv_def word_le_nat_alt)

lemma staged_bytes_Cons:
  assumes "staged_inv chunk st" and "\<not> st_size st \<le> st_index st"
  shows "staged_bytes st = st_buf st ! unat (st_index st) # staged_bytes (st\<lparr>st_index := st_index st + 1\<rparr>)"
    and "unat (st_index st) < length (st_buf st)"
    and "staged_inv chunk (st\<lparr>st_index := st_index st + 1\<rparr>)"
proof -
  from assms(2) have lt: "unat (st_index st) < unat (st_size st)"
    by (simp add: word_le_nat_alt)
  then have "Suc (unat (st_index st)) < 2 ^ LENGTH('a)"
    using unsigned_less [of "st_size st", where 'a = nat] by linarith
  then have s: "unat (st_index st + 1) = Suc (unat (st_index st))"
    by (simp add: unat_word_ariths)
  show b: "unat (st_index st) < length (st_buf st)"
    using lt assms(1) by (simp add: staged_inv_def)
  have "unat (st_index st) < length (take (unat (st_size st)) (st_buf st))"
    using lt assms(1) by (simp add: staged_inv_def)
  from Cons_nth_drop_Suc [OF this] lt
  show "staged_bytes st = st_buf st ! unat (st_index st) # staged_bytes (st\<lparr>st_index := st_index st + 1\<rparr>)"
    by (simp add: staged_bytes_def s)
  show "staged_inv chunk (st\<lparr>st_index := st_index st + 1\<rparr>)"
    using assms(1) by (simp add: staged_inv_def)
qed

section \<open>Reading through the staging buffer\<close>

locale staged_fifo = lossy_fifo ins del inv cont cap
  for ins :: "'q \<Rightarrow> byte list \<Rightarrow> ('q \<times> int) option"
    and del :: "'q \<Rightarrow> nat \<Rightarrow> ('q \<times> byte list \<times> int) option"
    and inv :: "'q \<Rightarrow> bool"
    and cont :: "'q \<Rightarrow> byte list"
    and cap :: "'q \<Rightarrow> nat" +
  fixes chunk :: nat and width :: "('w :: len) itself"
  assumes chunk_pos: "0 < chunk"
    and chunk_width: "chunk < 2 ^ LENGTH('w)"
    and chunk_int: "int chunk \<le> INT_MAX"
begin

lemma refill:
  fixes st :: "'w word staged"
  assumes "inv q" and "staged_inv chunk st"
  shows "\<exists>q' st' k. staged_refill del chunk q st = Some (q', st', k) \<and> inv q' \<and> cap q' = cap q
     \<and> staged_inv chunk st' \<and> staged_bytes st' @ cont q' = staged_bytes st @ cont q
     \<and> (st_size st' = 0 \<longleftrightarrow> staged_bytes st @ cont q = [])
     \<and> (st_size st' = 0 \<longrightarrow> staged_bytes st' = [])
     \<and> (st_size st' \<noteq> 0 \<longrightarrow> \<not> st_size st' \<le> st_index st')"
proof (cases "st_size st \<le> st_index st")
  case True
  let ?ys = "take chunk (cont q)"
  let ?st = "\<lparr>st_buf = ?ys @ drop (length ?ys) (st_buf st), st_index = 0,
              st_size = word_of_int (wrap32 (int (length ?ys)))\<rparr> :: 'w word staged"
  obtain q' where q': "del q chunk = Some (q', ?ys, wrap32 (int (length ?ys)))" "inv q'"
      "cap q' = cap q" "cont q' = drop chunk (cont q)"
    using del_law [OF assms(1)] by blast
  have len: "length ?ys \<le> chunk" by simp
  then have "wrap32 (int (length ?ys)) = int (length ?ys)"
    using chunk_int by (simp add: wrap32_id INT_MIN_def)
  moreover have "int (length ?ys) < 2 ^ LENGTH('w)"
    using le_less_trans [OF len chunk_width] by (simp flip: of_nat_less_iff)
  ultimately have sz: "unat (st_size ?st) = length ?ys"
    by (simp add: unsigned_of_nat take_bit_nat_eq_self)
  have buf: "length (st_buf ?st) = chunk"
    using assms(2) len by (simp add: staged_inv_def)
  have inv': "staged_inv chunk ?st"
    using buf sz len by (simp add: staged_inv_def)
  have bytes: "staged_bytes ?st = ?ys"
    unfolding staged_bytes_def sz by (simp add: min_def)
  have old: "staged_bytes st = []" using True assms(2) by (simp add: staged_bytes_Nil)
  have z: "st_size ?st = 0 \<longleftrightarrow> ?ys = []"
    using sz by (metis length_0_conv unsigned_0 unsigned_word_eqI)
  have e: "?ys = [] \<longleftrightarrow> cont q = []" using chunk_pos by auto
  have nz: "st_size ?st \<noteq> 0 \<Longrightarrow> \<not> st_size ?st \<le> st_index ?st"
    by (simp add: word_le_0_iff)
  have "staged_refill del chunk q st = Some (q', ?st, 1)"
    using True q'(1) len assms(2) by (simp add: staged_refill_def staged_inv_def)
  moreover have "st_size ?st = 0 \<longrightarrow> staged_bytes ?st = []"
    unfolding bytes using z by blast
  moreover have "st_size ?st = 0 \<longleftrightarrow> staged_bytes st @ cont q = []"
    unfolding old using z e by simp
  moreover have "staged_bytes ?st @ cont q' = staged_bytes st @ cont q"
    unfolding bytes old q'(4) by simp
  ultimately show ?thesis
    using q'(2,3) inv' nz by blast
next
  case False
  then have "staged_bytes st \<noteq> []" using assms(2) by (simp add: staged_bytes_Nil)
  moreover from False have "st_size st \<noteq> 0" by auto
  ultimately show ?thesis using False assms by (auto simp: staged_refill_def)
qed

lemma read_stream:
  fixes st :: "'w word staged"
  assumes "inv q" and "staged_inv chunk st"
  shows "\<exists>q' st' k. staged_loop del chunk n q st = Some (q', st', take n (staged_bytes st @ cont q), k)
     \<and> inv q' \<and> cap q' = cap q \<and> staged_inv chunk st'
     \<and> staged_bytes st' @ cont q' = drop n (staged_bytes st @ cont q)"
  using assms
proof (induction n arbitrary: q st)
  case 0
  then show ?case by auto
next
  case (Suc n)
  obtain q1 st1 k where r: "staged_refill del chunk q st = Some (q1, st1, k)" "inv q1" "cap q1 = cap q"
      "staged_inv chunk st1" "staged_bytes st1 @ cont q1 = staged_bytes st @ cont q"
      "st_size st1 = 0 \<longleftrightarrow> staged_bytes st @ cont q = []"
      "st_size st1 \<noteq> 0 \<longrightarrow> \<not> st_size st1 \<le> st_index st1"
    using refill [OF Suc.prems] by metis
  show ?case
  proof (cases "st_size st1 = 0")
    case True
    with r show ?thesis by auto
  next
    case False
    with r have c: "staged_bytes st1 = st_buf st1 ! unat (st_index st1)
        # staged_bytes (st1\<lparr>st_index := st_index st1 + 1\<rparr>)" "unat (st_index st1) < length (st_buf st1)"
        "staged_inv chunk (st1\<lparr>st_index := st_index st1 + 1\<rparr>)"
      using staged_bytes_Cons [OF r(4)] by blast+
    from Suc.IH [OF r(2) c(3)] obtain q2 st2 k'
      where l: "staged_loop del chunk n q1 (st1\<lparr>st_index := st_index st1 + 1\<rparr>) = Some (q2, st2,
          take n (staged_bytes (st1\<lparr>st_index := st_index st1 + 1\<rparr>) @ cont q1), k')"
        "inv q2" "cap q2 = cap q1" "staged_inv chunk st2"
        "staged_bytes st2 @ cont q2 = drop n (staged_bytes (st1\<lparr>st_index := st_index st1 + 1\<rparr>) @ cont q1)"
      by blast
    have s: "staged_bytes st @ cont q = st_buf st1 ! unat (st_index st1)
        # (staged_bytes (st1\<lparr>st_index := st_index st1 + 1\<rparr>) @ cont q1)"
      using r(5) c(1) by (metis append_Cons)
    have "staged_loop del chunk (Suc n) q st = Some (q2, st2, take (Suc n) (staged_bytes st @ cont q), k + k')"
      using r(1) False c(2) l(1) by (simp add: s)
    moreover have "staged_bytes st2 @ cont q2 = drop (Suc n) (staged_bytes st @ cont q)"
      using l(5) by (simp add: s)
    ultimately show ?thesis using l r(3) by (intro exI conjI) auto
  qed
qed

end

end
