(* ===== verification/Uart.thy ===== *)
theory Uart
  imports Staged CycleQueue "HOL-Library.Sublist"
begin

text \<open>
  The UART driver, \<open>platform/coolsand/src/platform_uart.c\<close>: opening and closing of the ports,
  the receive interrupt, the host UART and virtual AT receive callbacks, the staged reads and the
  line buffer of the debug port. The functions of the OpenAT kernel (\<open>IVTBL(...)\<close>) are not in
  the repository: what they return is a parameter (\<open>ivtbl\<close>, the answers a call gets) and what
  they are asked to do is recorded in the log of the state. The receive queues are the rings of
  \<open>CycleQueue\<close>, used through the interface \<open>lossy_fifo\<close>; the staged reads are those of
  \<open>Staged\<close>.
\<close>

section \<open>State\<close>

definition VATC_RX_BUF_SIZE :: nat where "VATC_RX_BUF_SIZE = 8192"
definition VATC_READ_BUF_SIZE :: nat where "VATC_READ_BUF_SIZE = 512"
definition UART_RX_BUF_SIZE :: nat where "UART_RX_BUF_SIZE = 1024"
definition RX_BUFFER_SIZE :: nat where "RX_BUFFER_SIZE = 256"
definition READ_BUFFER_SIZE :: nat where "READ_BUFFER_SIZE = 126"
definition NUM_UART :: nat where "NUM_UART = 4"
definition PLATFORM_UART_ID_ATC :: u32 where "PLATFORM_UART_ID_ATC = 0x7f"
definition PLATFORM_PORT_ID_DEBUG :: u32 where "PLATFORM_PORT_ID_DEBUG = 0x80"
definition OPENAT_UART_3 :: nat where "OPENAT_UART_3 = 2"
definition PLATFORM_UART_OK :: u32 where "PLATFORM_UART_OK = 1"
definition PLATFORM_UART_ERR :: u32 where "PLATFORM_UART_ERR = 0"

lemmas uart_consts [layout_simps] = VATC_RX_BUF_SIZE_def VATC_READ_BUF_SIZE_def UART_RX_BUF_SIZE_def
  RX_BUFFER_SIZE_def READ_BUFFER_SIZE_def NUM_UART_def PLATFORM_UART_ID_ATC_def
  PLATFORM_PORT_ID_DEBUG_def OPENAT_UART_3_def PLATFORM_UART_OK_def PLATFORM_UART_ERR_def

record uart_phy =
  rxqueue :: cycle_queue
  staging :: "8 word staged"

record uart_ctx =
  opened :: bool
  workmode :: u8

datatype parity = NO_PARITY | ODD_PARITY | EVEN_PARITY
datatype flow = FLOW_NONE | FLOW_HW

record uart_param =
  p_baud :: nat
  p_dataBits :: u32
  p_stopBits :: u32
  p_parity :: parity
  p_flow :: flow
  p_handler :: "u32 option"

text \<open>What the driver asks of the kernel, in order.\<close>

datatype uart_event =
    Message u32
  | Config nat uart_param
  | HostInit
  | Close nat
  | Write nat "byte list"
  | HostSend "byte list"
  | ReadPort nat nat
  | RxInt nat bool
  | AtSem bool
  | AtCommand "byte list"
  | Print "byte list"

record uart_state =
  phys :: "uart_phy list"
  ctxs :: "uart_ctx list"
  vatcRx_Q :: cycle_queue
  vatc_staging :: "16 word staged"
  dbg_buf :: "byte list"
  dbg_count :: u16
  console_port :: u8
  u_log :: "uart_event list"

text \<open>The answers of the kernel to one call of the driver.\<close>

record ivtbl =
  config_uart :: bool
  close_uart :: bool
  host_init :: bool
  read_uart :: "byte list"
  write_uart :: u32

text \<open>\<open>uartmap[id].port\<close>; an identifier outside the table is a fault.\<close>

definition uartmap :: "nat list" where
  "uartmap = [1, 0, 1, 2]"

definition phy_port :: "u32 \<Rightarrow> nat option" where
  "phy_port uid = (if unat uid < NUM_UART then Some (uartmap ! unat uid) else None)"

definition u_emit :: "uart_event list \<Rightarrow> uart_state \<Rightarrow> uart_state" where
  "u_emit es s = s\<lparr>u_log := u_log s @ es\<rparr>"

definition set_phy :: "nat \<Rightarrow> uart_phy \<Rightarrow> uart_state \<Rightarrow> uart_state" where
  "set_phy p x s = s\<lparr>phys := (phys s)[p := x]\<rparr>"

definition set_ctx :: "u32 \<Rightarrow> uart_ctx \<Rightarrow> uart_state \<Rightarrow> uart_state" where
  "set_ctx uid c s = s\<lparr>ctxs := (ctxs s)[unat uid := c]\<rparr>"

definition sendUartMessage :: "u32 \<Rightarrow> uart_state \<Rightarrow> uart_state" where
  "sendUartMessage uid s = u_emit [Message uid] s"

section \<open>Opening and closing\<close>

definition baud2OpenatUartBaud :: "(u32 \<times> nat) list" where
  "baud2OpenatUartBaud = [(1200, 0), (2400, 1), (4800, 2), (9600, 3), (14400, 4), (19200, 5),
     (28800, 6), (38400, 7), (57600, 8), (76800, 9), (115200, 10), (230400, 11), (460800, 12),
     (576000, 13), (921600, 14), (1152000, 15), (4000000, 16)]"

definition OPENAT_UART_NUM_OF_BAUD_RATES :: nat where
  "OPENAT_UART_NUM_OF_BAUD_RATES = 17"

fun baud_loop :: "(u32 \<times> nat) list \<Rightarrow> u32 \<Rightarrow> nat \<Rightarrow> nat" where
  "baud_loop [] baud r = r"
| "baud_loop ((b, e) # t) baud r =
     (if baud = b then baud_loop t baud e
      else if baud < b then r
      else baud_loop t baud r)"

definition findOpenatUartBaud :: "u32 \<Rightarrow> nat" where
  "findOpenatUartBaud baud = baud_loop baud2OpenatUartBaud baud OPENAT_UART_NUM_OF_BAUD_RATES"

text \<open>The switches on \<open>stopbits\<close> and \<open>parity\<close>; \<open>None\<close> is the jump to \<open>uart_open_error\<close>.\<close>

definition stop_bits :: "int \<Rightarrow> u32 option" where
  "stop_bits stopbits = (if stopbits = 0 then Some 1 else if stopbits = 2 then Some 2 else None)"

definition parity_of :: "int \<Rightarrow> parity option" where
  "parity_of parity = (if parity = 0 then Some EVEN_PARITY else if parity = 1 then Some ODD_PARITY
     else if parity = 2 then Some NO_PARITY else None)"

definition uart_phy_open ::
  "ivtbl \<Rightarrow> u32 \<Rightarrow> u32 \<Rightarrow> int \<Rightarrow> int \<Rightarrow> int \<Rightarrow> u32 \<Rightarrow> uart_state \<Rightarrow> (uart_state \<times> u32) option"
where
  "uart_phy_open env uid baud databits parity stopbits mode s =
     (case phy_port uid of None \<Rightarrow> None
      | Some p \<Rightarrow>
        if opened (ctxs s ! unat uid) then Some (s, baud)
        else
          let phy = phys s ! p;
              q = rxqueue phy;
              q1 = (if cq_buf q = []
                    then QueueClean (q\<lparr>cq_buf := replicate UART_RX_BUF_SIZE 0,
                                       cq_size := of_nat UART_RX_BUF_SIZE\<rparr>)
                    else q);
              s1 = set_phy p (phy\<lparr>rxqueue := q1\<rparr>) s;
              open_ctx = \<lparr>opened = True, workmode = ucast mode\<rparr>
          in if p = OPENAT_UART_3 \<and> mode = 2 then
               let s2 = u_emit [HostInit] s1
               in Some (if host_init env then (set_ctx uid open_ctx s2, baud) else (s2, 0))
             else
               let b = findOpenatUartBaud baud
               in if b = OPENAT_UART_NUM_OF_BAUD_RATES then Some (s1, 0)
                  else (case stop_bits stopbits of None \<Rightarrow> Some (s1, 0)
                    | Some sb \<Rightarrow>
                      (case parity_of parity of None \<Rightarrow> Some (s1, 0)
                       | Some par \<Rightarrow>
                         let param = \<lparr>p_baud = b, p_dataBits = word_of_int databits, p_stopBits = sb,
                               p_parity = par,
                               p_flow = (if p = OPENAT_UART_3 then FLOW_HW else FLOW_NONE),
                               p_handler = (if ucast (console_port s1) = uid then None
                                            else if mode = 1 then None else Some uid)\<rparr>;
                             s2 = u_emit [Config p param] s1
                         in Some (if config_uart env then (set_ctx uid open_ctx s2, baud) else (s2, 0)))))"

definition uart_phy_close :: "ivtbl \<Rightarrow> u32 \<Rightarrow> uart_state \<Rightarrow> (uart_state \<times> u32) option" where
  "uart_phy_close env uid s =
     (case phy_port uid of None \<Rightarrow> None
      | Some p \<Rightarrow>
        let c = ctxs s ! unat uid in
        if \<not> opened c then Some (s, PLATFORM_UART_OK)
        else if p = OPENAT_UART_3 \<and> workmode c = 2 then Some (s, PLATFORM_UART_OK)
        else
          let s1 = u_emit [Close p] s;
              ret = (if close_uart env then PLATFORM_UART_OK else PLATFORM_UART_ERR);
              s2 = set_ctx uid (c\<lparr>opened := False\<rparr>) s1;
              phy = phys s2 ! p;
              s3 = set_phy p (phy\<lparr>rxqueue := QueueClean (rxqueue phy),
                                  staging := (staging phy)\<lparr>st_index := 0, st_size := 0\<rparr>\<rparr>) s2
          in Some (s3, ret))"

section \<open>Receiving\<close>

text \<open>
  The receive interrupt of port \<open>id\<close>. \<open>read_uart\<close> delivers \<open>read_uart env\<close> into
  \<open>temprxbuff\<close> (256 bytes); the count is kept in a \<open>uint8\<close>.
\<close>

definition uart_message_handle :: "ivtbl \<Rightarrow> u32 \<Rightarrow> nat \<Rightarrow> uart_state \<Rightarrow> uart_state option" where
  "uart_message_handle env uid dataLen s =
     (case phy_port uid of None \<Rightarrow> None
      | Some p \<Rightarrow>
        if RX_BUFFER_SIZE < length (read_uart env) then None
        else
          let s1 = u_emit [ReadPort p dataLen] s;
              len = (of_nat (length (read_uart env)) :: u8)
          in if len = 0 then Some s1
             else
               let phy = phys s1 ! p; needMsg = cq_empty (rxqueue phy) in
               (case QueueInsert (rxqueue phy) (take (unat len) (read_uart env)) of None \<Rightarrow> None
                | Some (q, _) \<Rightarrow>
                  let s2 = set_phy p (phy\<lparr>rxqueue := q\<rparr>) s1
                  in Some (if needMsg then sendUartMessage uid s2 else s2)))"

definition host_uart_recv :: "byte list \<Rightarrow> uart_state \<Rightarrow> uart_state option" where
  "host_uart_recv data s =
     (if data = [] then Some s
      else
        let phy = phys s ! OPENAT_UART_3; needMsg = cq_empty (rxqueue phy) in
        (case QueueInsert (rxqueue phy) data of None \<Rightarrow> None
         | Some (q, _) \<Rightarrow>
           let s1 = set_phy OPENAT_UART_3 (phy\<lparr>rxqueue := q\<rparr>) s
           in Some (if needMsg then sendUartMessage 3 s1 else s1)))"

definition RILAPI_ReceiveData :: "byte list \<Rightarrow> uart_state \<Rightarrow> uart_state option" where
  "RILAPI_ReceiveData data s =
     (let s1 = u_emit [AtSem True] s; needMsg = cq_empty (vatcRx_Q s1) in
      case QueueInsert (vatcRx_Q s1) data of None \<Rightarrow> None
      | Some (q, _) \<Rightarrow>
        let s2 = u_emit [AtSem False] (s1\<lparr>vatcRx_Q := q\<rparr>)
        in Some (if needMsg then sendUartMessage PLATFORM_UART_ID_ATC s2 else s2))"

definition platform_setup_vat_queue :: "uart_state \<Rightarrow> uart_state" where
  "platform_setup_vat_queue s = s\<lparr>vatcRx_Q := QueueClean (vatcRx_Q s)\<rparr>"

text \<open>Every refill runs with the receive interrupt off. The parameter \<open>id\<close> is a \<open>u8\<close> here.\<close>

definition uart_phy_read :: "ivtbl \<Rightarrow> u8 \<Rightarrow> nat \<Rightarrow> uart_state \<Rightarrow> (uart_state \<times> byte list) option" where
  "uart_phy_read env uid len s =
     (case phy_port (ucast uid) of None \<Rightarrow> None
      | Some p \<Rightarrow>
        let c = ctxs s ! unat uid in
        if \<not> opened c then Some (s, [])
        else if workmode c = 1 then
          (if len < length (read_uart env) then None
           else Some (u_emit [ReadPort p len] s, read_uart env))
        else
          let phy = phys s ! p in
          (case staged_loop QueueDelete READ_BUFFER_SIZE len (rxqueue phy) (staging phy) of None \<Rightarrow> None
           | Some (q, st, out, k) \<Rightarrow>
             Some (u_emit (concat (replicate k [RxInt p False, RxInt p True]))
                     (set_phy p (phy\<lparr>rxqueue := q, staging := st\<rparr>) s), out)))"

definition vatc_read :: "nat \<Rightarrow> uart_state \<Rightarrow> (uart_state \<times> byte list) option" where
  "vatc_read len s =
     (case staged_loop QueueDelete VATC_READ_BUF_SIZE len (vatcRx_Q s) (vatc_staging s) of None \<Rightarrow> None
      | Some (q, st, out, k) \<Rightarrow>
        Some (u_emit (concat (replicate k [AtSem True, AtSem False]))
                (s\<lparr>vatcRx_Q := q, vatc_staging := st\<rparr>), out))"

section \<open>The debug port\<close>

text \<open>
  \<open>print\<close> reads a C string: it stops at the first NUL of the buffer.
\<close>

definition debugPortFlush :: "uart_state \<Rightarrow> uart_state option" where
  "debugPortFlush s =
     (if dbg_count s \<noteq> 0 then
        if unat (dbg_count s) < length (dbg_buf s) then
          let buf = (dbg_buf s)[unat (dbg_count s) := 0]
          in Some ((u_emit [Print (takeWhile (\<lambda>c. c \<noteq> 0) buf)] s)
                     \<lparr>dbg_buf := replicate (length buf) 0, dbg_count := 0\<rparr>)
        else None
      else Some s)"

definition dbg_put :: "byte \<Rightarrow> uart_state \<Rightarrow> uart_state option" where
  "dbg_put data s =
     (if unat (dbg_count s) < length (dbg_buf s)
      then Some (s\<lparr>dbg_buf := (dbg_buf s)[unat (dbg_count s) := data], dbg_count := dbg_count s + 1\<rparr>)
      else None)"

definition debug_char :: "byte \<Rightarrow> uart_state \<Rightarrow> uart_state option" where
  "debug_char data s =
     (if data = 0x0D \<or> data = 0x0A then debugPortFlush s
      else if unat (dbg_count s) < length (dbg_buf s) - 1 then dbg_put data s
      else (case debugPortFlush s of None \<Rightarrow> None | Some s1 \<Rightarrow> dbg_put data s1))"

fun debugPortWrite :: "byte list \<Rightarrow> uart_state \<Rightarrow> uart_state option" where
  "debugPortWrite [] s = Some s"
| "debugPortWrite (data # ds) s =
     (case debug_char data s of None \<Rightarrow> None | Some s1 \<Rightarrow> debugPortWrite ds s1)"

section \<open>The platform interface\<close>

definition platform_uart_setup ::
  "ivtbl \<Rightarrow> u32 \<Rightarrow> u32 \<Rightarrow> int \<Rightarrow> int \<Rightarrow> int \<Rightarrow> u32 \<Rightarrow> uart_state \<Rightarrow> (uart_state \<times> u32) option"
where
  "platform_uart_setup env uid baud databits parity stopbits mode s =
     (if uid = PLATFORM_UART_ID_ATC then Some (s, baud)
      else if uid = PLATFORM_PORT_ID_DEBUG
      then Some (s\<lparr>dbg_buf := replicate (length (dbg_buf s)) 0, dbg_count := 0\<rparr>, baud)
      else uart_phy_open env uid baud databits parity stopbits mode s)"

definition platform_uart_close :: "ivtbl \<Rightarrow> u32 \<Rightarrow> uart_state \<Rightarrow> (uart_state \<times> u32) option" where
  "platform_uart_close env uid s =
     (if unat uid < NUM_UART then uart_phy_close env uid s else Some (s, PLATFORM_UART_ERR))"

definition uart_phy_write :: "ivtbl \<Rightarrow> u8 \<Rightarrow> byte list \<Rightarrow> uart_state \<Rightarrow> (uart_state \<times> u32) option" where
  "uart_phy_write env uid data s =
     (case phy_port (ucast uid) of None \<Rightarrow> None
      | Some p \<Rightarrow>
        let c = ctxs s ! unat uid in
        if \<not> opened c then Some (s, 0)
        else if p = OPENAT_UART_3 \<and> workmode c = 2
        then Some (u_emit [HostSend data] s, of_nat (length data))
        else Some (u_emit [Write p data] s, write_uart env))"

definition platform_s_uart_send_buff :: "ivtbl \<Rightarrow> u32 \<Rightarrow> byte list \<Rightarrow> uart_state \<Rightarrow> (uart_state \<times> u32) option" where
  "platform_s_uart_send_buff env uid buff s =
     (if uid = PLATFORM_UART_ID_ATC then Some (u_emit [AtCommand buff] s, of_nat (length buff))
      else if uid = PLATFORM_PORT_ID_DEBUG
      then map_option (\<lambda>s'. (s', of_nat (length buff))) (debugPortWrite buff s)
      else uart_phy_write env (ucast uid) buff s)"

definition platform_s_uart_send :: "ivtbl \<Rightarrow> u32 \<Rightarrow> byte \<Rightarrow> uart_state \<Rightarrow> (uart_state \<times> u32) option" where
  "platform_s_uart_send env uid data s =
     (if uid = PLATFORM_UART_ID_ATC then Some (u_emit [AtCommand [data]] s, 1)
      else if uid = PLATFORM_PORT_ID_DEBUG
      then map_option (\<lambda>s'. (s', 1)) (debugPortWrite [data] s)
      else uart_phy_write env (ucast uid) [data] s)"

text \<open>Reading the debug port waits on a fresh semaphore that nobody releases.\<close>

datatype recv = Ret int | Blocks

definition recv_result :: "byte list \<Rightarrow> recv" where
  "recv_result rcvd = Ret (if rcvd \<noteq> [] then uint (hd rcvd) else - 1)"

definition platform_s_uart_recv :: "ivtbl \<Rightarrow> u32 \<Rightarrow> uart_state \<Rightarrow> (uart_state \<times> recv) option" where
  "platform_s_uart_recv env uid s =
     (if uid = PLATFORM_UART_ID_ATC then map_option (map_prod (\<lambda>s. s) recv_result) (vatc_read 1 s)
      else if uid = PLATFORM_PORT_ID_DEBUG then Some (s, Blocks)
      else map_option (map_prod (\<lambda>s. s) recv_result) (uart_phy_read env (ucast uid) 1 s))"

section \<open>Invariant and streams\<close>

definition port_inv :: "uart_phy \<Rightarrow> bool" where
  "port_inv x \<longleftrightarrow> cq_inv (rxqueue x) \<and> cq_cap (rxqueue x) = UART_RX_BUF_SIZE
     \<and> staged_inv READ_BUFFER_SIZE (staging x)"

definition uart_inv :: "uart_state \<Rightarrow> bool" where
  "uart_inv s \<longleftrightarrow> length (phys s) = 3 \<and> length (ctxs s) = NUM_UART \<and> (\<forall>x \<in> set (phys s). port_inv x)
     \<and> cq_inv (vatcRx_Q s) \<and> cq_cap (vatcRx_Q s) = VATC_RX_BUF_SIZE
     \<and> staged_inv VATC_READ_BUF_SIZE (vatc_staging s)
     \<and> length (dbg_buf s) = 128 \<and> unat (dbg_count s) \<le> 127"

definition port_stream :: "uart_phy \<Rightarrow> byte list" where
  "port_stream x = staged_bytes (staging x) @ cq_contents (rxqueue x)"

text \<open>The bytes received on a port and not yet read, oldest first.\<close>

definition rx_staged :: "u32 \<Rightarrow> uart_state \<Rightarrow> byte list" where
  "rx_staged uid s = (if uid = PLATFORM_UART_ID_ATC then staged_bytes (vatc_staging s)
     else staged_bytes (staging (phys s ! (uartmap ! unat uid))))"

definition rx_ring :: "u32 \<Rightarrow> uart_state \<Rightarrow> byte list" where
  "rx_ring uid s = (if uid = PLATFORM_UART_ID_ATC then cq_contents (vatcRx_Q s)
     else cq_contents (rxqueue (phys s ! (uartmap ! unat uid))))"

definition rx_stream :: "u32 \<Rightarrow> uart_state \<Rightarrow> byte list" where
  "rx_stream uid s = rx_staged uid s @ rx_ring uid s"

definition rx_cap :: "u32 \<Rightarrow> nat" where
  "rx_cap uid = (if uid = PLATFORM_UART_ID_ATC then VATC_RX_BUF_SIZE else UART_RX_BUF_SIZE)"

definition sent :: "u32 \<Rightarrow> uart_state \<Rightarrow> nat" where
  "sent uid s = count_list (u_log s) (Message uid)"

interpretation uart_rx: staged_fifo QueueInsert QueueDelete cq_inv cq_contents cq_cap
    READ_BUFFER_SIZE "TYPE(8)"
  by unfold_locales (simp_all add: layout_simps)

interpretation vatc_rx: staged_fifo QueueInsert QueueDelete cq_inv cq_contents cq_cap
    VATC_READ_BUF_SIZE "TYPE(16)"
  by unfold_locales (simp_all add: layout_simps)

lemma unat_lt_4: "unat (uid :: u32) < 4 \<Longrightarrow> unat uid = 0 \<or> unat uid = 1 \<or> unat uid = 2 \<or> unat uid = 3"
  by auto

lemma uartmap_lt [simp]: "unat (uid :: u32) < NUM_UART \<Longrightarrow> uartmap ! unat uid < 3"
  using unat_lt_4 [of uid] by (auto simp: uartmap_def layout_simps)

lemma phy_port_valid [simp]: "unat uid < NUM_UART \<Longrightarrow> phy_port uid = Some (uartmap ! unat uid)"
  by (simp add: phy_port_def)

lemma not_atc [simp]: "unat uid < NUM_UART \<Longrightarrow> uid \<noteq> PLATFORM_UART_ID_ATC"
  "unat uid < NUM_UART \<Longrightarrow> uid \<noteq> PLATFORM_PORT_ID_DEBUG"
  by (auto simp: layout_simps)

lemma uart_inv_port: "uart_inv s \<Longrightarrow> p < 3 \<Longrightarrow> port_inv (phys s ! p)"
  by (simp add: uart_inv_def)

lemma uart_inv_set_phy [intro]: "uart_inv s \<Longrightarrow> port_inv x \<Longrightarrow> uart_inv (set_phy p x s)"
  by (auto simp: uart_inv_def set_phy_def dest!: set_update_subset_insert [THEN subsetD])

lemma uart_inv_emit [simp]: "uart_inv (u_emit es s) = uart_inv s"
  by (simp add: uart_inv_def u_emit_def)

lemma emit_fields [simp]:
  "phys (u_emit es s) = phys s" "ctxs (u_emit es s) = ctxs s" "vatcRx_Q (u_emit es s) = vatcRx_Q s"
  "vatc_staging (u_emit es s) = vatc_staging s" "dbg_buf (u_emit es s) = dbg_buf s"
  "dbg_count (u_emit es s) = dbg_count s" "u_log (u_emit es s) = u_log s @ es"
  "console_port (u_emit es s) = console_port s"
  by (simp_all add: u_emit_def)

lemma set_phy_fields [simp]:
  "phys (set_phy p x s) = (phys s)[p := x]" "ctxs (set_phy p x s) = ctxs s"
  "vatcRx_Q (set_phy p x s) = vatcRx_Q s" "vatc_staging (set_phy p x s) = vatc_staging s"
  "u_log (set_phy p x s) = u_log s" "dbg_buf (set_phy p x s) = dbg_buf s"
  "dbg_count (set_phy p x s) = dbg_count s" "console_port (set_phy p x s) = console_port s"
  by (simp_all add: set_phy_def)

lemma rx_emit [simp]: "rx_staged uid (u_emit es s) = rx_staged uid s" "rx_ring uid (u_emit es s) = rx_ring uid s"
  by (simp_all add: rx_staged_def rx_ring_def)

lemma sent_emit [simp]: "sent uid (u_emit es s) = sent uid s + count_list es (Message uid)"
  by (simp add: sent_def)

lemma cq_empty_contents: "cq_inv q \<Longrightarrow> cq_empty q \<longleftrightarrow> cq_contents q = []"
  by (metis cq_dist(4) cq_inv_def length_0_conv length_cq_contents(1))

text \<open>A non-empty delivery into a ring, whichever callback makes it.\<close>

lemma ring_insert:
  assumes "cq_inv q"
  obtains q' r where "QueueInsert q data = Some (q', r)" "cq_inv q'" "cq_cap q' = cq_cap q"
    "cq_contents q' = last_n (cq_cap q) (cq_contents q @ data)"
  using cq.ins_law [OF assms] by blast

section \<open>Deliveries\<close>

text \<open>
  What a receive callback promises: the ring keeps the newest bytes, the staged bytes stay, and a
  message is posted exactly when data reaches an empty ring.
\<close>

definition delivered :: "u32 \<Rightarrow> byte list \<Rightarrow> uart_state \<Rightarrow> uart_state \<Rightarrow> bool" where
  "delivered uid data s s' \<longleftrightarrow> uart_inv s' \<and> ctxs s' = ctxs s \<and> rx_staged uid s' = rx_staged uid s
     \<and> rx_ring uid s' = last_n (rx_cap uid) (rx_ring uid s @ data)
     \<and> sent uid s' = sent uid s + (if data \<noteq> [] \<and> rx_ring uid s = [] then 1 else 0)"

lemma rx_ring_short: "uart_inv s \<Longrightarrow> unat uid < NUM_UART \<or> uid = PLATFORM_UART_ID_ATC
    \<Longrightarrow> length (rx_ring uid s) \<le> rx_cap uid"
  by (auto simp: rx_ring_def rx_cap_def uart_inv_def port_inv_def) (metis length_cq_contents(2) nth_mem uartmap_lt)+

lemma port_deliver:
  assumes "uart_inv s" and uid: "unat uid < NUM_UART" and p: "p = uartmap ! unat uid"
    and ins: "QueueInsert (rxqueue (phys s ! p)) data = Some (q, r)"
    and data: "data \<noteq> []"
  shows "delivered uid data s (let s1 = set_phy p ((phys s ! p)\<lparr>rxqueue := q\<rparr>) s
           in if cq_empty (rxqueue (phys s ! p)) then sendUartMessage uid s1 else s1)"
proof -
  have p3: "p < 3" using uid p by simp
  then have i: "port_inv (phys s ! p)" and l: "length (phys s) = 3"
    using assms(1) by (auto intro: uart_inv_port simp: uart_inv_def)
  then have q: "cq_inv q" "cq_cap q = cq_cap (rxqueue (phys s ! p))"
      "cq_contents q = last_n (cq_cap (rxqueue (phys s ! p))) (cq_contents (rxqueue (phys s ! p)) @ data)"
    using ring_insert [of "rxqueue (phys s ! p)" data] ins by (auto simp: port_inv_def)
  then have "port_inv ((phys s ! p)\<lparr>rxqueue := q\<rparr>)" using i by (simp add: port_inv_def)
  then have "uart_inv (set_phy p ((phys s ! p)\<lparr>rxqueue := q\<rparr>) s)" using assms(1) by blast
  moreover have "cq_empty (rxqueue (phys s ! p)) \<longleftrightarrow> rx_ring uid s = []"
    using i uid p by (simp add: rx_ring_def port_inv_def cq_empty_contents)
  moreover have "cq_cap (rxqueue (phys s ! p)) = rx_cap uid"
    using i uid by (simp add: port_inv_def rx_cap_def)
  ultimately show ?thesis
    using q uid p p3 l data
    by (auto simp: delivered_def sendUartMessage_def Let_def rx_ring_def rx_staged_def sent_def)
qed

lemma interrupt_ok:
  assumes "uart_inv s" and "unat uid < NUM_UART" and len: "length (read_uart env) \<le> 255"
  shows "\<exists>s'. uart_message_handle env uid n s = Some s' \<and> delivered uid (read_uart env) s s'"
proof -
  let ?rx = "read_uart env" and ?p = "uartmap ! unat uid"
  let ?s1 = "u_emit [ReadPort ?p n] s"
  have u: "unat (of_nat (length ?rx) :: u8) = length ?rx"
    using len by (simp add: unsigned_of_nat take_bit_nat_eq_self)
  then have z: "(of_nat (length ?rx) :: u8) = 0 \<longleftrightarrow> ?rx = []"
    by (metis length_0_conv unsigned_0 unsigned_word_eqI)
  have i1: "uart_inv ?s1" using assms(1) by simp
  have r: "delivered uid d ?s1 s' \<Longrightarrow> delivered uid d s s'" for d s'
    by (simp add: delivered_def)
  show ?thesis
  proof (cases "?rx = []")
    case True
    then show ?thesis
      using assms z by (simp add: uart_message_handle_def layout_simps delivered_def rx_ring_short [unfolded layout_simps])
  next
    case False
    obtain q rr where ins: "QueueInsert (rxqueue (phys s ! ?p)) ?rx = Some (q, rr)"
      using ring_insert uart_inv_port [OF assms(1) uartmap_lt [OF assms(2)]] unfolding port_inv_def by metis
    from port_deliver [OF i1 assms(2) refl _ False] ins
    have "delivered uid ?rx ?s1 (let s1 = set_phy ?p ((phys ?s1 ! ?p)\<lparr>rxqueue := q\<rparr>) ?s1
           in if cq_empty (rxqueue (phys ?s1 ! ?p)) then sendUartMessage uid s1 else s1)"
      by simp
    from r [OF this] show ?thesis
      using False z u ins assms(2) len by (simp add: uart_message_handle_def Let_def RX_BUFFER_SIZE_def)
  qed
qed

lemma host_recv_ok:
  assumes "uart_inv s"
  shows "\<exists>s'. host_uart_recv data s = Some s' \<and> delivered 3 data s s'"
proof (cases "data = []")
  case True
  then show ?thesis
    using assms rx_ring_short [OF assms, of 3] by (simp add: host_uart_recv_def delivered_def NUM_UART_def)
next
  case False
  have u: "unat (3 :: u32) < NUM_UART" "uartmap ! unat (3 :: u32) = OPENAT_UART_3"
    by (simp_all add: layout_simps uartmap_def)
  obtain q rr where ins: "QueueInsert (rxqueue (phys s ! OPENAT_UART_3)) data = Some (q, rr)"
    using ring_insert uart_inv_port [OF assms, of OPENAT_UART_3] unfolding port_inv_def OPENAT_UART_3_def
    by (metis lessI numeral_3_eq_3 numeral_2_eq_2)
  from port_deliver [OF assms u(1) u(2) [symmetric] ins False] ins False show ?thesis
    by (simp add: host_uart_recv_def Let_def)
qed

lemma ril_ok:
  assumes "uart_inv s" and "data \<noteq> []"
  shows "\<exists>s'. RILAPI_ReceiveData data s = Some s' \<and> delivered PLATFORM_UART_ID_ATC data s s'"
proof -
  let ?q = "vatcRx_Q s"
  have i: "cq_inv ?q" "cq_cap ?q = VATC_RX_BUF_SIZE" using assms(1) by (auto simp: uart_inv_def)
  obtain q r where ins: "QueueInsert ?q data = Some (q, r)" "cq_inv q" "cq_cap q = cq_cap ?q"
      "cq_contents q = last_n (cq_cap ?q) (cq_contents ?q @ data)"
    using ring_insert [OF i(1)] by metis
  have "uart_inv (s\<lparr>vatcRx_Q := q, u_log := l\<rparr>)" for l
    using assms ins i(2) by (simp add: uart_inv_def)
  then show ?thesis
    using ins i cq_empty_contents [OF i(1)] assms(2)
    by (auto simp: RILAPI_ReceiveData_def delivered_def Let_def u_emit_def sendUartMessage_def sent_def
        rx_ring_def rx_staged_def rx_cap_def last_n_def)
qed

section \<open>Reads\<close>

definition interrupt_mode :: "u32 \<Rightarrow> uart_state \<Rightarrow> bool" where
  "interrupt_mode uid s \<longleftrightarrow> uid = PLATFORM_UART_ID_ATC
     \<or> unat uid < NUM_UART \<and> opened (ctxs s ! unat uid) \<and> workmode (ctxs s ! unat uid) \<noteq> 1"

lemma count_messages [simp]:
  "count_list (concat (replicate k [RxInt p False, RxInt p True])) (Message uid) = 0"
  "count_list (concat (replicate k [AtSem True, AtSem False])) (Message uid) = 0"
  by (induction k) auto

lemma unat_ucast_u8: "unat (uid :: u32) < 256 \<Longrightarrow> unat (ucast uid :: u8) = unat uid"
  by (simp add: unsigned_ucast_eq unsigned_take_bit_eq take_bit_nat_eq_self)

lemma ucast_u8_u32: "unat (uid :: u32) < 256 \<Longrightarrow> ucast (ucast uid :: u8) = uid"
proof (rule unsigned_word_eqI [where 'a = nat])
  assume "unat uid < 256"
  then have "unat (ucast uid :: u8) = unat uid" by (rule unat_ucast_u8)
  moreover have "unat (ucast (ucast uid :: u8) :: u32) = unat (ucast uid :: u8)"
    by (simp add: unsigned_ucast_eq unsigned_take_bit_eq take_bit_nat_eq_self
        less_trans [OF unsigned_less [of "ucast uid :: u8", where 'a = nat]])
  ultimately show "unat (ucast (ucast uid :: u8) :: u32) = unat uid" by simp
qed

text \<open>A read returns the next bytes of the stream and leaves the rest, for every other port too.\<close>

lemma phy_read_ok:
  assumes "uart_inv s" and "unat uid < NUM_UART" and "opened (ctxs s ! unat uid)"
    and "workmode (ctxs s ! unat uid) \<noteq> 1"
  shows "\<exists>s'. uart_phy_read env (ucast uid) n s = Some (s', take n (rx_stream uid s))
     \<and> uart_inv s' \<and> rx_stream uid s' = drop n (rx_stream uid s) \<and> ctxs s' = ctxs s
     \<and> (\<forall>p. p \<noteq> uartmap ! unat uid \<longrightarrow> phys s' ! p = phys s ! p) \<and> (\<forall>i. sent i s' = sent i s)"
proof -
  let ?p = "uartmap ! unat uid"
  let ?x = "phys s ! ?p"
  have p: "?p < 3" and l: "length (phys s) = 3" using assms(1,2) by (auto simp: uart_inv_def)
  from uart_inv_port [OF assms(1) p] have i: "port_inv ?x" .
  have uid: "ucast (ucast uid :: u8) = uid" "unat (ucast uid :: u8) = unat uid"
    using assms(2) ucast_u8_u32 [of uid] unat_ucast_u8 [of uid] by (simp_all add: layout_simps)
  obtain q st k where r: "staged_loop QueueDelete READ_BUFFER_SIZE n (rxqueue ?x) (staging ?x)
        = Some (q, st, take n (port_stream ?x), k)" "cq_inv q" "cq_cap q = cq_cap (rxqueue ?x)"
      "staged_inv READ_BUFFER_SIZE st" "staged_bytes st @ cq_contents q = drop n (port_stream ?x)"
    using uart_rx.read_stream [of "rxqueue ?x" "staging ?x" n] i unfolding port_inv_def port_stream_def by blast
  have st: "rx_stream uid s = port_stream ?x"
    using assms(2) by (simp add: rx_stream_def rx_staged_def rx_ring_def port_stream_def)
  have "port_inv (?x\<lparr>rxqueue := q, staging := st\<rparr>)" using r i by (simp add: port_inv_def)
  with assms(1) have inv': "uart_inv (set_phy ?p (?x\<lparr>rxqueue := q, staging := st\<rparr>) s)" by blast
  let ?s = "u_emit (concat (replicate k [RxInt ?p False, RxInt ?p True]))
    (set_phy ?p (?x\<lparr>rxqueue := q, staging := st\<rparr>) s)"
  have "uart_phy_read env (ucast uid) n s = Some (?s, take n (rx_stream uid s))"
    using assms(2-4) r(1) uid st by (simp add: uart_phy_read_def Let_def)
  moreover have "rx_stream uid ?s = drop n (rx_stream uid s)"
    unfolding st r(5) [symmetric] using assms(2) p l
    by (simp add: rx_stream_def rx_staged_def rx_ring_def)
  moreover have "sent i ?s = sent i s" for i by (simp add: sent_def)
  ultimately show ?thesis
    using inv' by (intro exI [of _ ?s]) simp
qed

lemma vatc_read_ok:
  assumes "uart_inv s"
  shows "\<exists>s'. vatc_read n s = Some (s', take n (rx_stream PLATFORM_UART_ID_ATC s))
     \<and> uart_inv s' \<and> rx_stream PLATFORM_UART_ID_ATC s' = drop n (rx_stream PLATFORM_UART_ID_ATC s)
     \<and> ctxs s' = ctxs s \<and> phys s' = phys s \<and> (\<forall>i. sent i s' = sent i s)"
proof -
  have i: "cq_inv (vatcRx_Q s)" "staged_inv VATC_READ_BUF_SIZE (vatc_staging s)"
    using assms by (auto simp: uart_inv_def)
  obtain q st k where r: "staged_loop QueueDelete VATC_READ_BUF_SIZE n (vatcRx_Q s) (vatc_staging s)
        = Some (q, st, take n (rx_stream PLATFORM_UART_ID_ATC s), k)" "cq_inv q" "cq_cap q = cq_cap (vatcRx_Q s)"
      "staged_inv VATC_READ_BUF_SIZE st" "staged_bytes st @ cq_contents q = drop n (rx_stream PLATFORM_UART_ID_ATC s)"
    using vatc_rx.read_stream [OF i, of n] unfolding rx_stream_def rx_staged_def rx_ring_def by auto
  have "uart_inv (s\<lparr>vatcRx_Q := q, vatc_staging := st\<rparr>)"
    using assms r by (simp add: uart_inv_def)
  then show ?thesis
    using r by (auto simp: vatc_read_def sent_def rx_stream_def rx_staged_def rx_ring_def)
qed

lemma recv_ok:
  assumes "uart_inv s" and "interrupt_mode uid s"
  shows "\<exists>s'. platform_s_uart_recv env uid s = Some (s', recv_result (take 1 (rx_stream uid s)))
     \<and> uart_inv s' \<and> rx_stream uid s' = tl (rx_stream uid s) \<and> ctxs s' = ctxs s
     \<and> (\<forall>i. sent i s' = sent i s)"
proof (cases "uid = PLATFORM_UART_ID_ATC")
  case True
  from vatc_read_ok [OF assms(1), of 1] obtain s' where "vatc_read 1 s = Some (s', take 1 (rx_stream PLATFORM_UART_ID_ATC s))"
    "uart_inv s'" "rx_stream PLATFORM_UART_ID_ATC s' = drop 1 (rx_stream PLATFORM_UART_ID_ATC s)" "ctxs s' = ctxs s"
    "\<forall>i. sent i s' = sent i s"
    by blast
  then show ?thesis using True by (auto simp: platform_s_uart_recv_def drop_Suc)
next
  case False
  with assms(2) have u: "unat uid < NUM_UART" "opened (ctxs s ! unat uid)" "workmode (ctxs s ! unat uid) \<noteq> 1"
    by (auto simp: interrupt_mode_def)
  from phy_read_ok [OF assms(1) u, of env 1] obtain s' where
    "uart_phy_read env (ucast uid) 1 s = Some (s', take 1 (rx_stream uid s))"
    "uart_inv s'" "rx_stream uid s' = drop 1 (rx_stream uid s)" "ctxs s' = ctxs s" "\<forall>i. sent i s' = sent i s"
    by blast
  then show ?thesis using u False by (auto simp: platform_s_uart_recv_def drop_Suc)
qed

section \<open>The receive protocol\<close>

text \<open>
  The Lua side takes a message and then reads bytes until it gets -1; interrupts may come between
  any two reads. \<open>rx_step uid\<close> interleaves the two. \<open>taken\<close> counts the messages taken,
  \<open>inb\<close> and \<open>outb\<close> are the bytes received and read so far.
\<close>

record rx_sys =
  us :: uart_state
  taken :: nat
  draining :: bool
  inb :: "byte list"
  outb :: "byte list"

inductive rx_step :: "u32 \<Rightarrow> rx_sys \<Rightarrow> rx_sys \<Rightarrow> bool" for uid where
  interrupt: "unat uid < NUM_UART \<Longrightarrow> length (read_uart env) \<le> 255
    \<Longrightarrow> uart_message_handle env uid n (us c) = Some s'
    \<Longrightarrow> rx_step uid c (c\<lparr>us := s', inb := inb c @ read_uart env\<rparr>)"
| host: "uid = 3 \<Longrightarrow> host_uart_recv data (us c) = Some s'
    \<Longrightarrow> rx_step uid c (c\<lparr>us := s', inb := inb c @ data\<rparr>)"
| ril: "uid = PLATFORM_UART_ID_ATC \<Longrightarrow> data \<noteq> [] \<Longrightarrow> RILAPI_ReceiveData data (us c) = Some s'
    \<Longrightarrow> rx_step uid c (c\<lparr>us := s', inb := inb c @ data\<rparr>)"
| take_msg: "taken c < sent uid (us c)
    \<Longrightarrow> rx_step uid c (c\<lparr>taken := Suc (taken c), draining := True\<rparr>)"
| recv_byte: "draining c \<Longrightarrow> platform_s_uart_recv env uid (us c) = Some (s', Ret b) \<Longrightarrow> b \<noteq> - 1
    \<Longrightarrow> rx_step uid c (c\<lparr>us := s', outb := outb c @ [word_of_int b]\<rparr>)"
| recv_none: "draining c \<Longrightarrow> platform_s_uart_recv env uid (us c) = Some (s', Ret (- 1))
    \<Longrightarrow> rx_step uid c (c\<lparr>us := s', draining := False\<rparr>)"

definition rx_init :: "u32 \<Rightarrow> rx_sys \<Rightarrow> bool" where
  "rx_init uid c \<longleftrightarrow> uart_inv (us c) \<and> interrupt_mode uid (us c) \<and> rx_stream uid (us c) = []
     \<and> taken c = sent uid (us c) \<and> \<not> draining c \<and> inb c = [] \<and> outb c = []"

definition rx_inv :: "u32 \<Rightarrow> rx_sys \<Rightarrow> bool" where
  "rx_inv uid c \<longleftrightarrow> uart_inv (us c) \<and> interrupt_mode uid (us c) \<and> taken c \<le> sent uid (us c)
     \<and> (rx_stream uid (us c) \<noteq> [] \<longrightarrow> draining c \<or> taken c < sent uid (us c))
     \<and> subseq (outb c @ rx_stream uid (us c)) (inb c)
     \<and> (length (inb c) \<le> rx_cap uid \<longrightarrow> outb c @ rx_stream uid (us c) = inb c)"

lemma interrupt_mode_cong: "ctxs s' = ctxs s \<Longrightarrow> interrupt_mode uid s' = interrupt_mode uid s"
  by (simp add: interrupt_mode_def)

lemma subseq_last_n: "subseq (last_n n xs) xs"
  by (simp add: last_n_def suffix_drop suffix_imp_subseq)

lemma subseq_left: "subseq (xs @ ys) zs \<Longrightarrow> subseq xs zs"
  by (metis prefixI prefix_imp_subseq subseq_order.order_trans)

lemma rx_inv_deliver:
  assumes "rx_inv uid c" and d: "delivered uid data (us c) s'"
  shows "rx_inv uid (c\<lparr>us := s', inb := inb c @ data\<rparr>)"
proof -
  let ?st = "rx_staged uid (us c)" and ?r = "rx_ring uid (us c)"
  have str: "rx_stream uid s' = ?st @ last_n (rx_cap uid) (?r @ data)" "rx_stream uid (us c) = ?st @ ?r"
    using d by (simp_all add: delivered_def rx_stream_def)
  have "subseq (last_n (rx_cap uid) (?r @ data)) (?r @ data)" by (rule subseq_last_n)
  then have "subseq (outb c @ rx_stream uid s') ((outb c @ rx_stream uid (us c)) @ data)"
    unfolding str append_assoc by (intro list_emb_append_mono) auto
  also have "subseq \<dots> (inb c @ data)"
    using assms(1) unfolding rx_inv_def by (intro list_emb_append_mono) auto
  finally have sub: "subseq (outb c @ rx_stream uid s') (inb c @ data)" .
  have eq: "outb c @ rx_stream uid s' = inb c @ data" if "length (inb c @ data) \<le> rx_cap uid"
  proof -
    from that have e: "outb c @ rx_stream uid (us c) = inb c" using assms(1) by (auto simp: rx_inv_def)
    then have "length (inb c) = length (outb c) + length ?st + length ?r" by (metis length_append str(2) add.assoc)
    with that have "length (?r @ data) \<le> rx_cap uid" by simp
    then show ?thesis using e by (simp add: str)
  qed
  have live: "rx_stream uid s' \<noteq> [] \<longrightarrow> draining c \<or> taken c < sent uid s'"
  proof (cases "data \<noteq> [] \<and> ?r = []")
    case True
    then show ?thesis using d assms(1) by (auto simp: delivered_def rx_inv_def)
  next
    case False
    then have "rx_stream uid s' \<noteq> [] \<longrightarrow> rx_stream uid (us c) \<noteq> []" by (auto simp: str)
    then show ?thesis using d assms(1) False by (auto simp: delivered_def rx_inv_def)
  qed
  have "ctxs s' = ctxs (us c)" using d by (simp add: delivered_def)
  then have "interrupt_mode uid s'"
    using interrupt_mode_cong [of s' "us c" uid] assms(1) by (simp add: rx_inv_def)
  moreover have "uart_inv s'" "taken c \<le> sent uid s'"
    using assms by (auto simp: rx_inv_def delivered_def)
  ultimately show ?thesis using sub eq live by (simp add: rx_inv_def)
qed

lemma rx_inv_step: "rx_step uid c c' \<Longrightarrow> rx_inv uid c \<Longrightarrow> rx_inv uid c'"
proof (induction rule: rx_step.induct)
  case (interrupt env n c s')
  from interrupt.prems have "uart_inv (us c)" by (simp add: rx_inv_def)
  from interrupt_ok [OF this interrupt.hyps(1,2), of n] interrupt.hyps(3)
  have "delivered uid (read_uart env) (us c) s'" by force
  with interrupt.prems show ?case by (rule rx_inv_deliver)
next
  case (host data c s')
  from host.prems have "uart_inv (us c)" by (simp add: rx_inv_def)
  from host_recv_ok [OF this, of data] host.hyps have "delivered uid data (us c) s'" by force
  with host.prems show ?case by (rule rx_inv_deliver)
next
  case (ril data c s')
  from ril.prems have "uart_inv (us c)" by (simp add: rx_inv_def)
  from ril_ok [OF this ril.hyps(2)] ril.hyps have "delivered uid data (us c) s'" by force
  with ril.prems show ?case by (rule rx_inv_deliver)
next
  case (take_msg c)
  then show ?case by (auto simp: rx_inv_def)
next
  case (recv_byte c env s' b)
  then have i: "uart_inv (us c)" "interrupt_mode uid (us c)" by (auto simp: rx_inv_def)
  from recv_ok [OF i, of env] recv_byte.hyps obtain x xs where "rx_stream uid (us c) = x # xs" "b = uint x"
    "uart_inv s'" "rx_stream uid s' = xs" "ctxs s' = ctxs (us c)" "sent uid s' = sent uid (us c)"
    by (cases "rx_stream uid (us c)") (auto simp: recv_result_def)
  moreover from this have "interrupt_mode uid s'" using i(2) interrupt_mode_cong [of s' "us c" uid] by simp
  ultimately show ?case using recv_byte.hyps recv_byte.prems by (auto simp: rx_inv_def)
next
  case (recv_none c env s')
  then have i: "uart_inv (us c)" "interrupt_mode uid (us c)" by (auto simp: rx_inv_def)
  from recv_ok [OF i, of env] recv_none.hyps
  have f: "recv_result (take 1 (rx_stream uid (us c))) = Ret (- 1)" "uart_inv s'"
    "rx_stream uid s' = tl (rx_stream uid (us c))" "ctxs s' = ctxs (us c)" "sent uid s' = sent uid (us c)"
    by force+
  from f(1) have "rx_stream uid (us c) = []"
  proof (cases "rx_stream uid (us c)")
    case (Cons x xs)
    have "uint x \<noteq> - 1" by (metis uint_ge_0 neg_0_le_iff_le not_one_le_zero)
    with f(1) Cons show ?thesis by (simp add: recv_result_def)
  qed
  moreover have "interrupt_mode uid s'" using i(2) interrupt_mode_cong [OF f(4), of uid] by simp
  ultimately show ?case using recv_none.hyps recv_none.prems f by (auto simp: rx_inv_def)
qed

lemma rx_inv_init: "rx_init uid c \<Longrightarrow> rx_inv uid c"
  by (auto simp: rx_init_def rx_inv_def)

lemma rx_inv_reachable: "(rx_step uid)\<^sup>*\<^sup>* c c' \<Longrightarrow> rx_inv uid c \<Longrightarrow> rx_inv uid c'"
  by (induction rule: rtranclp_induct) (auto intro: rx_inv_step)


definition boot_port :: uart_phy where
  "boot_port = \<lparr>rxqueue = \<lparr>cq_buf = replicate 1024 0, cq_size = 1024, cq_head = 0, cq_tail = 0,
       cq_empty = True, cq_full = False, cq_overflow = False\<rparr>,
     staging = \<lparr>st_buf = replicate 126 0, st_index = 0, st_size = 0\<rparr>\<rparr>"

text \<open>The state after the static initialisers, with port 1 opened in interrupt mode.\<close>

definition boot_uart :: uart_state where
  "boot_uart = \<lparr>phys = [boot_port, boot_port, boot_port],
     ctxs = [\<lparr>opened = False, workmode = 0\<rparr>, \<lparr>opened = True, workmode = 0\<rparr>,
             \<lparr>opened = False, workmode = 0\<rparr>, \<lparr>opened = False, workmode = 0\<rparr>],
     vatcRx_Q = \<lparr>cq_buf = replicate 8192 0, cq_size = 8192, cq_head = 0, cq_tail = 0,
       cq_empty = True, cq_full = False, cq_overflow = False\<rparr>,
     vatc_staging = \<lparr>st_buf = replicate 512 0, st_index = 0, st_size = 0\<rparr>,
     dbg_buf = replicate 128 0, dbg_count = 0, console_port = 0, u_log = []\<rparr>"

lemma boot_uart_inv: "uart_inv boot_uart" "interrupt_mode 1 boot_uart" "rx_stream 1 boot_uart = []"
    "sent 1 boot_uart = 0"
  by (simp_all add: uart_inv_def boot_uart_def boot_port_def port_inv_def cq_inv_def cq_ring_def cq_cap_def
      staged_inv_def interrupt_mode_def rx_stream_def rx_staged_def rx_ring_def sent_def uartmap_def
      staged_bytes_def cq_contents_def cq_count_def layout_simps)

definition boot_rx :: rx_sys where
  "boot_rx = \<lparr>us = boot_uart, taken = 0, draining = False, inb = [], outb = []\<rparr>"

lemma boot_rx_init: "rx_init 1 boot_rx"
  by (simp add: rx_init_def boot_rx_def boot_uart_inv)

lemma rx_drain_run:
  "rx_stream uid (us c) = xs \<Longrightarrow> draining c \<Longrightarrow> uart_inv (us c) \<Longrightarrow> interrupt_mode uid (us c)
    \<Longrightarrow> \<exists>c'. (rx_step uid)\<^sup>*\<^sup>* c c' \<and> \<not> draining c' \<and> inb c' = inb c \<and> taken c' = taken c
      \<and> sent uid (us c') = sent uid (us c)"
proof (induction xs arbitrary: c)
  case Nil
  from recv_ok [OF Nil(3,4), of undefined] Nil(1) obtain s'
    where "platform_s_uart_recv undefined uid (us c) = Some (s', Ret (- 1))" "sent uid s' = sent uid (us c)"
    by (auto simp: recv_result_def)
  with rx_step.recv_none [OF Nil(2) this(1)] show ?case
    by (intro exI [of _ "c\<lparr>us := s', draining := False\<rparr>"]) auto
next
  case (Cons x xs)
  from recv_ok [OF Cons(4,5), of undefined] Cons(2) obtain s'
    where r: "platform_s_uart_recv undefined uid (us c) = Some (s', Ret (uint x))" "sent uid s' = sent uid (us c)"
      "rx_stream uid s' = xs" "uart_inv s'" "ctxs s' = ctxs (us c)"
    by (auto simp: recv_result_def)
  have "uint x \<noteq> - 1" by (metis uint_ge_0 neg_0_le_iff_le not_one_le_zero)
  from rx_step.recv_byte [OF Cons(3) r(1) this]
  have st: "rx_step uid c (c\<lparr>us := s', outb := outb c @ [x]\<rparr>)" by simp
  from Cons(5) interrupt_mode_cong [OF r(5), of uid] have "interrupt_mode uid s'" by simp
  with Cons.IH [of "c\<lparr>us := s', outb := outb c @ [x]\<rparr>"] r Cons(3) obtain c' where
    "(rx_step uid)\<^sup>*\<^sup>* (c\<lparr>us := s', outb := outb c @ [x]\<rparr>) c'" "\<not> draining c'" "inb c' = inb c"
    "taken c' = taken c" "sent uid (us c') = sent uid (us c)"
    by auto
  with st show ?case by (blast intro: converse_rtranclp_into_rtranclp)
qed


text \<open>
  The count of a delivery is kept in a byte: the 256 bytes that fill \<open>temprxbuff\<close> are dropped,
  and no message is posted.
\<close>

lemma full_delivery_dropped:
  "unat uid < NUM_UART \<Longrightarrow> length (read_uart env) = 256
    \<Longrightarrow> uart_message_handle env uid n s = Some (u_emit [ReadPort (uartmap ! unat uid) n] s)"
  by (simp add: uart_message_handle_def RX_BUFFER_SIZE_def)

end
