(* ===== verification/UartPorts.thy ===== *)
theory UartPorts
  imports Uart
begin

text \<open>
  The other half of the UART driver: the line buffer of the debug port, the speed table and the
  opening and closing of the ports (definitions in \<open>Uart\<close>).
\<close>

section \<open>The debug port\<close>

definition newline :: "byte \<Rightarrow> bool" where
  "newline c \<longleftrightarrow> c = 0x0D \<or> c = 0x0A"

definition dbg_pending :: "uart_state \<Rightarrow> byte list" where
  "dbg_pending s = take (unat (dbg_count s)) (dbg_buf s)"

definition dbg_ok :: "uart_state \<Rightarrow> bool" where
  "dbg_ok s \<longleftrightarrow> length (dbg_buf s) = 128 \<and> unat (dbg_count s) \<le> 127 \<and> (\<forall>c \<in> set (dbg_pending s). \<not> newline c)"

text \<open>What \<open>print\<close> shows of a line: the bytes before its first NUL.\<close>

definition shown :: "byte list \<Rightarrow> uart_event" where
  "shown l = Print (takeWhile (\<lambda>c. c \<noteq> 0) l)"

definition dbg_line :: "byte list \<Rightarrow> bool" where
  "dbg_line l \<longleftrightarrow> l \<noteq> [] \<and> length l \<le> 127 \<and> (\<forall>c \<in> set l. \<not> newline c)"

lemma takeWhile_cut: "n < length xs \<Longrightarrow> takeWhile (\<lambda>c. c \<noteq> 0) (xs[n := 0]) = takeWhile (\<lambda>c. c \<noteq> (0 :: byte)) (take n xs)"
  by (simp add: upd_conv_take_nth_drop takeWhile_tail)

lemma debugPortFlush_ok:
  assumes "dbg_ok s"
  shows "\<exists>s' ls. debugPortFlush s = Some s' \<and> dbg_ok s' \<and> dbg_pending s' = [] \<and> dbg_count s' = 0
    \<and> u_log s' = u_log s @ map shown ls \<and> concat ls = dbg_pending s \<and> (\<forall>l \<in> set ls. dbg_line l)
    \<and> phys s' = phys s \<and> ctxs s' = ctxs s \<and> vatcRx_Q s' = vatcRx_Q s \<and> vatc_staging s' = vatc_staging s"
proof (cases "dbg_count s = 0")
  case True
  then show ?thesis using assms
    by (intro exI [of _ s] exI [of _ "[]"]) (simp add: debugPortFlush_def dbg_pending_def)
next
  case False
  then have "0 < unat (dbg_count s)" by (simp add: unat_gt_0)
  with assms have "dbg_line (dbg_pending s)"
    by (auto simp: dbg_ok_def dbg_line_def dbg_pending_def)
  then show ?thesis
    using assms False
    by (intro exI [of _ "the (debugPortFlush s)"] exI [of _ "[dbg_pending s]"])
      (auto simp: debugPortFlush_def dbg_ok_def dbg_pending_def shown_def takeWhile_cut)
qed

lemma dbg_put_ok:
  assumes "dbg_ok s" and "unat (dbg_count s) < 127" and "\<not> newline c"
  shows "\<exists>s'. dbg_put c s = Some s' \<and> dbg_ok s' \<and> dbg_pending s' = dbg_pending s @ [c] \<and> u_log s' = u_log s
    \<and> phys s' = phys s \<and> ctxs s' = ctxs s \<and> vatcRx_Q s' = vatcRx_Q s \<and> vatc_staging s' = vatc_staging s"
proof -
  have u: "unat (dbg_count s + 1) = Suc (unat (dbg_count s))"
    using assms(2) by (simp add: unat_word_ariths)
  show ?thesis
    using assms by (auto simp: dbg_put_def dbg_ok_def dbg_pending_def u take_Suc_update)
qed

lemma debug_char_ok:
  assumes "dbg_ok s"
  shows "\<exists>s' ls. debug_char c s = Some s' \<and> dbg_ok s' \<and> u_log s' = u_log s @ map shown ls
    \<and> concat ls @ dbg_pending s' = dbg_pending s @ filter (\<lambda>c. \<not> newline c) [c] \<and> (\<forall>l \<in> set ls. dbg_line l)
    \<and> (newline c \<longrightarrow> dbg_pending s' = [])"
proof -
  obtain s1 ls where f: "debugPortFlush s = Some s1" "dbg_ok s1" "dbg_pending s1 = []" "dbg_count s1 = 0"
      "u_log s1 = u_log s @ map shown ls" "concat ls = dbg_pending s" "\<forall>l \<in> set ls. dbg_line l"
    using debugPortFlush_ok [OF assms] by blast
  consider "newline c" | "\<not> newline c" "unat (dbg_count s) < 127" | "\<not> newline c" "\<not> unat (dbg_count s) < 127"
    by blast
  then show ?thesis
  proof cases
    case 1
    then show ?thesis using f by (auto simp: debug_char_def newline_def)
  next
    case 2
    from dbg_put_ok [OF assms 2(2,1)] obtain s' where
      "dbg_put c s = Some s'" "dbg_ok s'" "dbg_pending s' = dbg_pending s @ [c]" "u_log s' = u_log s"
      by blast
    then show ?thesis using 2 assms
      by (intro exI [of _ s'] exI [of _ "[]"]) (simp add: debug_char_def newline_def dbg_ok_def)
  next
    case 3
    from dbg_put_ok [OF f(2) _ 3(1)] f(4) obtain s' where
      "dbg_put c s1 = Some s'" "dbg_ok s'" "dbg_pending s' = dbg_pending s1 @ [c]" "u_log s' = u_log s1"
      by auto
    then show ?thesis using 3 f assms
      by (intro exI [of _ s'] exI [of _ ls]) (simp add: debug_char_def newline_def dbg_ok_def)
  qed
qed

text \<open>The debug port never overruns its 128-byte buffer and loses no byte: what it prints,
  followed by what is still pending, is the text written without its line ends, cut into non-empty
  lines of at most 127 bytes; a line end leaves nothing pending.\<close>

lemma debug_port_lines:
  assumes "dbg_ok s"
  shows "\<exists>s' ls. debugPortWrite bs s = Some s' \<and> dbg_ok s' \<and> u_log s' = u_log s @ map shown ls
    \<and> concat ls @ dbg_pending s' = dbg_pending s @ filter (\<lambda>c. \<not> newline c) bs
    \<and> (\<forall>l \<in> set ls. dbg_line l) \<and> (bs \<noteq> [] \<and> newline (last bs) \<longrightarrow> dbg_pending s' = [])"
  using assms
proof (induction bs arbitrary: s)
  case Nil
  then show ?case by (intro exI [of _ s] exI [of _ "[]"]) simp
next
  case (Cons b bs)
  obtain s1 l1 where 1: "debug_char b s = Some s1" "dbg_ok s1" "u_log s1 = u_log s @ map shown l1"
      "concat l1 @ dbg_pending s1 = dbg_pending s @ filter (\<lambda>c. \<not> newline c) [b]" "\<forall>l \<in> set l1. dbg_line l"
      "newline b \<longrightarrow> dbg_pending s1 = []"
    using debug_char_ok [OF Cons.prems] by metis
  obtain s2 l2 where 2: "debugPortWrite bs s1 = Some s2" "dbg_ok s2" "u_log s2 = u_log s1 @ map shown l2"
      "concat l2 @ dbg_pending s2 = dbg_pending s1 @ filter (\<lambda>c. \<not> newline c) bs" "\<forall>l \<in> set l2. dbg_line l"
      "bs \<noteq> [] \<and> newline (last bs) \<longrightarrow> dbg_pending s2 = []"
    using Cons.IH [OF 1(2)] by metis
  have c: "concat (l1 @ l2) @ dbg_pending s2 = dbg_pending s @ filter (\<lambda>c. \<not> newline c) (b # bs)"
    using 2(4) 1(4) by (simp add: append_assoc [symmetric] del: append_assoc) simp
  have e: "bs = [] \<longrightarrow> s2 = s1" using 2(1) by auto
  have n: "newline (last (b # bs)) \<longrightarrow> dbg_pending s2 = []"
    using 1(6) 2(6) e by (cases "bs = []") simp_all
  show ?case
    using 1 2 c n by (intro exI [of _ s2] exI [of _ "l1 @ l2"]) auto
qed

lemma debug_port_lines_witness:
  "\<exists>s' ls. debugPortWrite [0x68, 0x69, 0x0A] boot_uart = Some s' \<and> u_log s' = map shown ls
    \<and> concat ls = [0x68, 0x69]"
proof -
  have ok: "dbg_ok boot_uart" by (simp add: dbg_ok_def boot_uart_def dbg_pending_def)
  have "dbg_pending boot_uart = []" "u_log boot_uart = []" "newline (0x0A :: byte)"
    "\<not> newline (0x68 :: byte)" "\<not> newline (0x69 :: byte)"
    by (simp_all add: boot_uart_def dbg_pending_def newline_def)
  with debug_port_lines [OF ok, of "[0x68, 0x69, 0x0A]"] show ?thesis by auto
qed

section \<open>Opening and closing\<close>

definition port_request_ok :: "u32 \<Rightarrow> int \<Rightarrow> int \<Rightarrow> bool" where
  "port_request_ok baud parity stopbits \<longleftrightarrow> baud \<in> fst ` set baud2OpenatUartBaud
     \<and> stopbits \<in> {0, 2} \<and> parity \<in> {0, 1, 2}"

lemma baud_loop_sorted:
  "sorted (map fst t) \<Longrightarrow> distinct (map fst t)
    \<Longrightarrow> baud_loop t baud r = (case map_of t baud of None \<Rightarrow> r | Some e \<Rightarrow> e)"
proof (induction t arbitrary: r)
  case Nil
  then show ?case by simp
next
  case (Cons a t)
  obtain b e where a: "a = (b, e)" by force
  have big: "baud < b \<Longrightarrow> map_of t baud = None"
    using Cons.prems a by (fastforce simp: map_of_eq_None_iff)
  have same: "baud = b \<Longrightarrow> map_of t baud = None"
    using Cons.prems a by (auto simp: map_of_eq_None_iff)
  show ?case using Cons a big same by (auto split: option.splits)
qed

lemma findOpenatUartBaud_table:
  "findOpenatUartBaud baud = (case map_of baud2OpenatUartBaud baud of None \<Rightarrow> 17 | Some e \<Rightarrow> e)"
  unfolding findOpenatUartBaud_def OPENAT_UART_NUM_OF_BAUD_RATES_def
  by (rule baud_loop_sorted) (simp_all add: baud2OpenatUartBaud_def word_le_nat_alt)

lemma baud_known: "findOpenatUartBaud baud \<noteq> OPENAT_UART_NUM_OF_BAUD_RATES \<longleftrightarrow> baud \<in> fst ` set baud2OpenatUartBaud"
proof -
  have "map_of baud2OpenatUartBaud baud = Some e \<Longrightarrow> e \<noteq> 17" for e
    by (auto simp: baud2OpenatUartBaud_def split: if_splits)
  then show ?thesis
    by (auto simp: findOpenatUartBaud_table OPENAT_UART_NUM_OF_BAUD_RATES_def map_of_eq_None_iff
        split: option.splits) (metis domI map_of_eq_None_iff option.distinct(1))
qed

text \<open>Opening a closed port in a UART mode (not the host mode 2 of port 3) succeeds exactly
  for a listed speed, a supported parity and stop-bit setting and a kernel that accepts them; it
  returns the speed and opens the port in the requested mode, and otherwise returns 0 and leaves
  the port closed. In both cases the receive queues are untouched.\<close>

lemma uart_open_result:
  assumes "uart_inv s" and "unat uid < NUM_UART" and "\<not> opened (ctxs s ! unat uid)"
    and "\<not> (uid = 3 \<and> mode = 2)"
  shows "\<exists>s'. platform_uart_setup env uid baud databits parity stopbits mode s
      = Some (s', if port_request_ok baud parity stopbits \<and> config_uart env then baud else 0)
    \<and> uart_inv s' \<and> phys s' = phys s
    \<and> ctxs s' = (if port_request_ok baud parity stopbits \<and> config_uart env
        then (ctxs s)[unat uid := \<lparr>opened = True, workmode = ucast mode\<rparr>] else ctxs s)"
proof -
  let ?p = "uartmap ! unat uid"
  have p: "?p < 3" and l: "length (phys s) = 3" using assms(1,2) by (auto simp: uart_inv_def)
  have "length (cq_buf (rxqueue (phys s ! ?p))) = 1024"
    using uart_inv_port [OF assms(1) p] by (auto simp: port_inv_def cq_inv_def cq_ring_def layout_simps)
  then have buf: "cq_buf (rxqueue (phys s ! ?p)) \<noteq> []" by auto
  have same: "set_phy p (phys s ! p) s = s" for p by (simp add: set_phy_def)
  have no_host: "\<not> (?p = OPENAT_UART_3 \<and> mode = 2)"
    using assms(4) unat_lt_4 [of uid] assms(2) unsigned_word_eqI [of uid 3, where 'a = nat]
    by (auto simp: layout_simps uartmap_def)
  have ok: "port_request_ok baud parity stopbits \<longleftrightarrow> findOpenatUartBaud baud \<noteq> OPENAT_UART_NUM_OF_BAUD_RATES
      \<and> stop_bits stopbits \<noteq> None \<and> parity_of parity \<noteq> None"
    by (auto simp: port_request_ok_def baud_known stop_bits_def parity_of_def split: if_splits)
  have ctx: "uart_inv (set_ctx uid c (u_emit es s))" "phys (set_ctx uid c (u_emit es s)) = phys s"
    "ctxs (set_ctx uid c (u_emit es s)) = (ctxs s)[unat uid := c]" for c es
    using assms(1) by (auto simp: set_ctx_def uart_inv_def u_emit_def)
  show ?thesis
    unfolding platform_uart_setup_def uart_phy_open_def ok
    using assms(1-3) no_host buf ctx
    by (auto simp: Let_def same split: option.splits)
qed

lemma uart_open_result_witness:
  "\<exists>s'. platform_uart_setup \<lparr>config_uart = True, close_uart = True, host_init = True, read_uart = [],
      write_uart = 0\<rparr> 2 115200 8 2 0 0 boot_uart = Some (s', 115200) \<and> uart_inv s'"
proof -
  have "\<not> opened (ctxs boot_uart ! unat (2 :: u32))" "unat (2 :: u32) < NUM_UART"
    by (simp_all add: boot_uart_def NUM_UART_def)
  moreover have "port_request_ok 115200 2 0"
    by (simp add: port_request_ok_def baud2OpenatUartBaud_def)
  ultimately show ?thesis
    using uart_open_result [OF boot_uart_inv(1), of 2 0 "\<lparr>config_uart = True, close_uart = True,
        host_init = True, read_uart = [], write_uart = 0\<rparr>" 115200 8 2 0]
    by auto
qed

text \<open>Closing an open port (other than the host mode) discards what was received.\<close>

lemma uart_close_result:
  assumes "uart_inv s" and "unat uid < NUM_UART" and "opened (ctxs s ! unat uid)"
    and "\<not> (uartmap ! unat uid = OPENAT_UART_3 \<and> workmode (ctxs s ! unat uid) = 2)"
  shows "\<exists>s'. platform_uart_close env uid s = Some (s', if close_uart env then 1 else 0)
    \<and> rx_stream uid s' = [] \<and> \<not> opened (ctxs s' ! unat uid)"
proof -
  let ?p = "uartmap ! unat uid"
  have l: "?p < length (phys s)" "unat uid < length (ctxs s)"
    using assms(1,2) by (auto simp: uart_inv_def)
  have "cq_contents (QueueClean q) = []" for q by (simp add: QueueClean_def cq_contents_def cq_count_def)
  then show ?thesis
    using assms l
    by (auto simp: platform_uart_close_def uart_phy_close_def Let_def set_ctx_def set_phy_def u_emit_def
        rx_stream_def rx_ring_def rx_staged_def staged_bytes_def PLATFORM_UART_OK_def PLATFORM_UART_ERR_def)
qed

end
