(* ===== verification/RtosTimer.thy ===== *)
theory RtosTimer
  imports Prelude
begin

text \<open>
  The message, timer and power services of \<open>platform/coolsand/src/platform_rtos.c\<close>. The table
  \<open>luaTimerParam\<close> maps the timer numbers of Lua to kernel timers; the functions of the kernel
  (\<open>IVTBL(...)\<close>) are outside the repository: their answers are the parameter \<open>kernel\<close>, their
  calls are the log. The theory shows that the table refines a partial map with at most 30
  entries, that no kernel timer is leaked, deleted twice or used after its deletion, and that the
  table's semaphore is released on every path and never taken twice.
\<close>

section \<open>State\<close>

definition MAX_LUA_TIMERS :: nat where "MAX_LUA_TIMERS = 30"
definition OPENAT_INVALID_HANDLE :: u32 where "OPENAT_INVALID_HANDLE = 0"
definition PLATFORM_RTOS_WAIT_MSG_INFINITE :: u32 where "PLATFORM_RTOS_WAIT_MSG_INFINITE = 0"

lemmas rtos_consts [layout_simps] = MAX_LUA_TIMERS_def OPENAT_INVALID_HANDLE_def
  PLATFORM_RTOS_WAIT_MSG_INFINITE_def

datatype rtos_msg =
    RTOS_MSG_TIMER int
  | RTOS_MSG_KEYPAD bool u8 u8
  | RTOS_MSG_WAIT_MSG_TIMEOUT

datatype rtos_event =
    CreateTimer u32 int
  | StartTimer u32 int
  | StopTimer u32
  | DeleteTimer u32
  | CreateSem
  | WaitSem
  | ReleaseSem
  | SendMsg rtos_msg
  | WaitMsg
  | PowerOnSystem
  | ShutDown
  | PowerOffSystem

record lua_timer =
  hOsTimer :: u32
  luaTimerId :: int

record rtos_state =
  luaTimerParam :: "lua_timer list"
  hLuaTimerSem :: u32
  hRTOSWaitMsgTimer :: u32
  poweron_flag :: int
  cust_sys_flag :: bool
  r_log :: "rtos_event list"

text \<open>What the kernel answers to the calls of one operation.\<close>

record kernel =
  create_semaphore :: u32
  create_timer :: u32
  start_timer :: bool
  wait_message :: bool
  poweron_by_charger :: bool

definition r_emit :: "rtos_event list \<Rightarrow> rtos_state \<Rightarrow> rtos_state" where
  "r_emit es s = s\<lparr>r_log := r_log s @ es\<rparr>"

definition set_timer :: "nat \<Rightarrow> lua_timer \<Rightarrow> rtos_state \<Rightarrow> rtos_state" where
  "set_timer i t s = s\<lparr>luaTimerParam := (luaTimerParam s)[i := t]\<rparr>"

section \<open>The timer table\<close>

text \<open>The index at which a \<open>for\<close> loop over the table breaks, or its length.\<close>

fun scan_slots :: "(lua_timer \<Rightarrow> bool) \<Rightarrow> lua_timer list \<Rightarrow> nat" where
  "scan_slots P [] = 0"
| "scan_slots P (t # ts) = (if P t then 0 else Suc (scan_slots P ts))"

definition need_sem :: "kernel \<Rightarrow> rtos_state \<Rightarrow> rtos_state" where
  "need_sem k s = (if hLuaTimerSem s = OPENAT_INVALID_HANDLE
     then (r_emit [CreateSem] s)\<lparr>hLuaTimerSem := create_semaphore k\<rparr> else s)"

definition slot_of :: "int \<Rightarrow> lua_timer \<Rightarrow> bool" where
  "slot_of timer_id t \<longleftrightarrow> hOsTimer t \<noteq> OPENAT_INVALID_HANDLE \<and> luaTimerId t = timer_id"

definition platform_rtos_stop_timer :: "kernel \<Rightarrow> int \<Rightarrow> rtos_state \<Rightarrow> rtos_state \<times> int" where
  "platform_rtos_stop_timer k timer_id s =
     (let s1 = r_emit [WaitSem] (need_sem k s);
          i = scan_slots (slot_of timer_id) (luaTimerParam s1);
          s2 = (if i < MAX_LUA_TIMERS then
                  let t = luaTimerParam s1 ! i
                  in set_timer i (t\<lparr>hOsTimer := OPENAT_INVALID_HANDLE\<rparr>)
                       (r_emit [StopTimer (hOsTimer t), DeleteTimer (hOsTimer t)] s1)
                else s1)
      in (r_emit [ReleaseSem] s2, PLATFORM_OK))"

definition platform_rtos_start_timer :: "kernel \<Rightarrow> int \<Rightarrow> int \<Rightarrow> rtos_state \<Rightarrow> rtos_state \<times> int" where
  "platform_rtos_start_timer k timer_id milliSecond s =
     (let s1 = need_sem k s;
          s2 = (if scan_slots (slot_of timer_id) (luaTimerParam s1) < MAX_LUA_TIMERS
                then fst (platform_rtos_stop_timer k timer_id s1) else s1);
          s3 = r_emit [WaitSem] s2;
          i = scan_slots (\<lambda>t. hOsTimer t = OPENAT_INVALID_HANDLE) (luaTimerParam s3)
      in if MAX_LUA_TIMERS \<le> i then (r_emit [ReleaseSem] s3, PLATFORM_ERR)
         else
           let h = create_timer k; s4 = r_emit [CreateTimer h timer_id] s3
           in if h = OPENAT_INVALID_HANDLE then (r_emit [ReleaseSem] s4, PLATFORM_ERR)
              else
                let s5 = r_emit [StartTimer h milliSecond] s4
                in if \<not> start_timer k then (r_emit [ReleaseSem, DeleteTimer h] s5, PLATFORM_ERR)
                   else (r_emit [ReleaseSem] (set_timer i \<lparr>hOsTimer = h, luaTimerId = timer_id\<rparr> s5),
                         PLATFORM_OK))"

definition platform_rtos_timer_callback :: "u32 \<Rightarrow> int \<Rightarrow> rtos_state \<Rightarrow> rtos_state" where
  "platform_rtos_timer_callback hTimer timer_id s =
     (let s1 = r_emit [SendMsg (RTOS_MSG_TIMER timer_id), WaitSem] s;
          i = scan_slots (\<lambda>t. hOsTimer t = hTimer) (luaTimerParam s1);
          s2 = (if i < MAX_LUA_TIMERS then
                  let t = luaTimerParam s1 ! i
                  in set_timer i (t\<lparr>hOsTimer := OPENAT_INVALID_HANDLE\<rparr>) (r_emit [DeleteTimer (hOsTimer t)] s1)
                else s1)
      in r_emit [ReleaseSem] s2)"

section \<open>Messages and power\<close>

definition platform_rtos_init :: "kernel \<Rightarrow> rtos_state \<Rightarrow> rtos_state \<times> int" where
  "platform_rtos_init k s = ((r_emit [CreateTimer (create_timer k) 0] s)\<lparr>hRTOSWaitMsgTimer := create_timer k\<rparr>, PLATFORM_OK)"

definition rtos_wait_message_timeout :: "rtos_state \<Rightarrow> rtos_state" where
  "rtos_wait_message_timeout s = r_emit [SendMsg RTOS_MSG_WAIT_MSG_TIMEOUT] s"

definition platform_rtos_receive :: "kernel \<Rightarrow> u32 \<Rightarrow> rtos_state \<Rightarrow> rtos_state \<times> int" where
  "platform_rtos_receive k timeout s =
     (r_emit [if timeout = PLATFORM_RTOS_WAIT_MSG_INFINITE then StopTimer (hRTOSWaitMsgTimer s)
              else StartTimer (hRTOSWaitMsgTimer s) (uint timeout), WaitMsg] s,
      if wait_message k then PLATFORM_OK else PLATFORM_ERR)"

definition platform_keypad_message :: "bool \<Rightarrow> u8 \<Rightarrow> u8 \<Rightarrow> rtos_state \<Rightarrow> rtos_state" where
  "platform_keypad_message bPressed r c s = r_emit [SendMsg (RTOS_MSG_KEYPAD bPressed r c)] s"

definition platform_rtos_poweron :: "int \<Rightarrow> rtos_state \<Rightarrow> rtos_state" where
  "platform_rtos_poweron flag s =
     (let s1 = s\<lparr>poweron_flag := flag\<rparr>
      in if poweron_flag s1 = 1 then (r_emit [PowerOnSystem] s1)\<lparr>cust_sys_flag := True\<rparr> else s1)"

definition platform_poweron_try :: "rtos_state \<Rightarrow> rtos_state" where
  "platform_poweron_try s =
     (if poweron_flag s = - 1 then (r_emit [PowerOnSystem] s)\<lparr>cust_sys_flag := True\<rparr> else s)"

definition platform_rtos_poweroff :: "kernel \<Rightarrow> rtos_state \<Rightarrow> rtos_state" where
  "platform_rtos_poweroff k s =
     r_emit [if poweron_by_charger k \<and> \<not> cust_sys_flag s then ShutDown else PowerOffSystem] s"

section \<open>What the kernel sees\<close>

text \<open>The kernel timers alive after a sequence of calls, and the state of the semaphore: \<open>None\<close> is
  a second \<open>wait_semaphore\<close> while it is held (a deadlock) or a release while it is free.\<close>

fun live_timers :: "u32 set \<Rightarrow> rtos_event list \<Rightarrow> u32 set" where
  "live_timers L [] = L"
| "live_timers L (CreateTimer h _ # es) = live_timers (if h = 0 then L else insert h L) es"
| "live_timers L (DeleteTimer h # es) = live_timers (L - {h}) es"
| "live_timers L (_ # es) = live_timers L es"

text \<open>Start, stop and delete only name living timers; a delivered timer is new.\<close>

fun timer_use_ok :: "u32 set \<Rightarrow> rtos_event list \<Rightarrow> bool" where
  "timer_use_ok L [] = True"
| "timer_use_ok L (CreateTimer h _ # es) = (h \<notin> L \<and> timer_use_ok (if h = 0 then L else insert h L) es)"
| "timer_use_ok L (DeleteTimer h # es) = (h \<in> L \<and> timer_use_ok (L - {h}) es)"
| "timer_use_ok L (StartTimer h _ # es) = (h \<in> L \<and> timer_use_ok L es)"
| "timer_use_ok L (StopTimer h # es) = (h \<in> L \<and> timer_use_ok L es)"
| "timer_use_ok L (_ # es) = timer_use_ok L es"

fun sem_state :: "bool \<Rightarrow> rtos_event list \<Rightarrow> bool option" where
  "sem_state b [] = Some b"
| "sem_state b (WaitSem # es) = (if b then None else sem_state True es)"
| "sem_state b (ReleaseSem # es) = (if b then sem_state False es else None)"
| "sem_state b (_ # es) = sem_state b es"

lemma live_timers_append [simp]: "live_timers L (xs @ ys) = live_timers (live_timers L xs) ys"
  by (induction L xs rule: live_timers.induct) auto

lemma timer_use_ok_append [simp]:
  "timer_use_ok L (xs @ ys) \<longleftrightarrow> timer_use_ok L xs \<and> timer_use_ok (live_timers L xs) ys"
  by (induction L xs rule: timer_use_ok.induct) auto

lemma sem_state_append [simp]:
  "sem_state b (xs @ ys) = (case sem_state b xs of None \<Rightarrow> None | Some b' \<Rightarrow> sem_state b' ys)"
  by (induction b xs rule: sem_state.induct) auto

section \<open>The table as a map\<close>

definition used_slot :: "rtos_state \<Rightarrow> nat \<Rightarrow> bool" where
  "used_slot s i \<longleftrightarrow> i < length (luaTimerParam s) \<and> hOsTimer (luaTimerParam s ! i) \<noteq> OPENAT_INVALID_HANDLE"

abbreviation slot_id :: "rtos_state \<Rightarrow> nat \<Rightarrow> int" where
  "slot_id s i \<equiv> luaTimerId (luaTimerParam s ! i)"

abbreviation slot_handle :: "rtos_state \<Rightarrow> nat \<Rightarrow> u32" where
  "slot_handle s i \<equiv> hOsTimer (luaTimerParam s ! i)"

text \<open>The kernel timer that serves a timer number of Lua.\<close>

definition tmap :: "rtos_state \<Rightarrow> int \<Rightarrow> u32 option" where
  "tmap s timer_id =
     (let i = scan_slots (slot_of timer_id) (luaTimerParam s)
      in if i < length (luaTimerParam s) then Some (slot_handle s i) else None)"

definition table_inv :: "rtos_state \<Rightarrow> bool" where
  "table_inv s \<longleftrightarrow> length (luaTimerParam s) = MAX_LUA_TIMERS
     \<and> (\<forall>i j. used_slot s i \<and> used_slot s j \<and> (slot_id s i = slot_id s j \<or> slot_handle s i = slot_handle s j) \<longrightarrow> i = j)"

definition rtos_inv :: "rtos_state \<Rightarrow> bool" where
  "rtos_inv s \<longleftrightarrow> table_inv s
     \<and> live_timers {} (r_log s) = insert (hRTOSWaitMsgTimer s) (ran (tmap s))
     \<and> hRTOSWaitMsgTimer s \<notin> ran (tmap s) \<and> hRTOSWaitMsgTimer s \<noteq> OPENAT_INVALID_HANDLE
     \<and> timer_use_ok {} (r_log s) \<and> sem_state False (r_log s) = Some False"

lemma scan_slots_Least:
  "scan_slots P ts < length ts \<Longrightarrow> P (ts ! scan_slots P ts)"
  "j < scan_slots P ts \<Longrightarrow> \<not> P (ts ! j)"
  "scan_slots P ts \<le> length ts"
  by (induction ts arbitrary: j) (auto simp: nth_Cons split: nat.splits if_splits)

lemma scan_slots_ex: "scan_slots P ts < length ts \<longleftrightarrow> (\<exists>i < length ts. P (ts ! i))"
  using scan_slots_Least(1) [of P ts] scan_slots_Least(2) [of _ P ts] scan_slots_Least(3) [of P ts]
  by (metis le_neq_implies_less)

lemma emit_simps [simp]:
  "luaTimerParam (r_emit es s) = luaTimerParam s" "r_log (r_emit es s) = r_log s @ es"
  "hRTOSWaitMsgTimer (r_emit es s) = hRTOSWaitMsgTimer s" "hLuaTimerSem (r_emit es s) = hLuaTimerSem s"
  "poweron_flag (r_emit es s) = poweron_flag s" "cust_sys_flag (r_emit es s) = cust_sys_flag s"
  by (simp_all add: r_emit_def)

lemma set_timer_simps [simp]:
  "luaTimerParam (set_timer i t s) = (luaTimerParam s)[i := t]" "r_log (set_timer i t s) = r_log s"
  "hRTOSWaitMsgTimer (set_timer i t s) = hRTOSWaitMsgTimer s"
  "cust_sys_flag (set_timer i t s) = cust_sys_flag s" "poweron_flag (set_timer i t s) = poweron_flag s"
  by (simp_all add: set_timer_def)

lemma tmap_slots: "luaTimerParam s = luaTimerParam s' \<Longrightarrow> tmap s = tmap s'"
  by (simp add: tmap_def fun_eq_iff Let_def)

lemma table_inv_slots: "luaTimerParam s = luaTimerParam s' \<Longrightarrow> table_inv s = table_inv s'"
  by (simp add: table_inv_def used_slot_def)

text \<open>The map read slot by slot.\<close>

lemma tmap_eq:
  assumes "table_inv s"
  shows "tmap s n = Some h \<longleftrightarrow> (\<exists>i. used_slot s i \<and> slot_id s i = n \<and> slot_handle s i = h)"
proof -
  let ?i = "scan_slots (slot_of n) (luaTimerParam s)"
  have "?i < length (luaTimerParam s) \<Longrightarrow> used_slot s ?i \<and> slot_id s ?i = n"
    using scan_slots_Least(1) [of "slot_of n" "luaTimerParam s"] by (simp add: used_slot_def slot_of_def)
  moreover have "used_slot s i \<and> slot_id s i = n \<Longrightarrow> ?i < length (luaTimerParam s)" for i
    unfolding scan_slots_ex by (auto simp: used_slot_def slot_of_def)
  ultimately show ?thesis
    using assms unfolding tmap_def table_inv_def Let_def by (metis option.inject option.simps(3))
qed

lemma tmap_None:
  assumes "table_inv s"
  shows "tmap s n = None \<longleftrightarrow> (\<forall>i. used_slot s i \<longrightarrow> slot_id s i \<noteq> n)"
  using tmap_eq [OF assms] by (metis not_Some_eq)

lemma ran_tmap: "table_inv s \<Longrightarrow> ran (tmap s) = {h. \<exists>i. used_slot s i \<and> slot_handle s i = h}"
  by (auto simp: ran_def tmap_eq)

lemma map_ext_Some: "(\<And>x y. f x = Some y \<longleftrightarrow> g x = Some y) \<Longrightarrow> f = g"
  by (metis not_Some_eq ext)

text \<open>Freeing a slot removes its number; filling a free one adds it.\<close>

lemma free_slot:
  assumes "table_inv s" and "i < length (luaTimerParam s)" and "hOsTimer t = OPENAT_INVALID_HANDLE"
    and "used_slot s i"
  shows "table_inv (set_timer i t s)" and "tmap (set_timer i t s) = (tmap s)(slot_id s i := None)"
    and "ran (tmap (set_timer i t s)) = ran (tmap s) - {slot_handle s i}"
proof -
  let ?s = "set_timer i t s"
  have u: "used_slot ?s j \<longleftrightarrow> used_slot s j \<and> j \<noteq> i" for j
    using assms(2,3) by (cases "j = i") (auto simp: used_slot_def)
  have f: "j \<noteq> i \<Longrightarrow> luaTimerParam ?s ! j = luaTimerParam s ! j" for j by simp
  show inv': "table_inv ?s"
    using assms(1) unfolding table_inv_def u by (metis f set_timer_simps(1) length_list_update)
  show "tmap ?s = (tmap s)(slot_id s i := None)"
  proof (rule map_ext_Some)
    fix n h
    show "tmap ?s n = Some h \<longleftrightarrow> ((tmap s)(slot_id s i := None)) n = Some h"
      unfolding tmap_eq [OF inv'] u fun_upd_apply using assms(1,4) tmap_eq [OF assms(1), of n h]
      unfolding table_inv_def by (metis f option.simps(3))
  qed
  show "ran (tmap ?s) = ran (tmap s) - {slot_handle s i}"
    unfolding ran_tmap [OF inv'] ran_tmap [OF assms(1)] u
    using assms(1,4) unfolding table_inv_def by (auto simp: f) (metis nth_list_update_neq)
qed

lemma fill_slot:
  assumes "table_inv s" and "i < length (luaTimerParam s)" and "\<not> used_slot s i"
    and "tmap s n = None" and "h \<notin> ran (tmap s)" and "h \<noteq> OPENAT_INVALID_HANDLE"
  shows "table_inv (set_timer i \<lparr>hOsTimer = h, luaTimerId = n\<rparr> s)"
    and "tmap (set_timer i \<lparr>hOsTimer = h, luaTimerId = n\<rparr> s) = (tmap s)(n \<mapsto> h)"
proof -
  let ?s = "set_timer i \<lparr>hOsTimer = h, luaTimerId = n\<rparr> s"
  have u: "used_slot ?s j \<longleftrightarrow> used_slot s j \<or> j = i" for j
    using assms(2,6) by (auto simp: used_slot_def nth_list_update)
  have f: "luaTimerParam ?s ! j = (if j = i then \<lparr>hOsTimer = h, luaTimerId = n\<rparr> else luaTimerParam s ! j)" for j
    using assms(2) by (simp add: nth_list_update)
  have new: "used_slot s j \<Longrightarrow> slot_id s j \<noteq> n \<and> slot_handle s j \<noteq> h" for j
    using assms(4,5) tmap_None [OF assms(1)] ran_tmap [OF assms(1)] by auto
  show inv': "table_inv ?s"
    using assms(1,3) new unfolding table_inv_def u f by (auto split: if_splits)
  show "tmap ?s = (tmap s)(n \<mapsto> h)"
  proof (rule map_ext_Some)
    fix m k
    show "tmap ?s m = Some k \<longleftrightarrow> ((tmap s)(n \<mapsto> h)) m = Some k"
      unfolding tmap_eq [OF inv'] u f fun_upd_apply
      using assms(3) new tmap_eq [OF assms(1), of m k] by (cases "m = n") (auto split: if_splits, metis+)
  qed
qed

section \<open>The operations\<close>

lemma need_sem_simps [simp]:
  "luaTimerParam (need_sem k s) = luaTimerParam s" "hRTOSWaitMsgTimer (need_sem k s) = hRTOSWaitMsgTimer s"
  "tmap (need_sem k s) = tmap s" "table_inv (need_sem k s) = table_inv s"
  "live_timers L (r_log (need_sem k s)) = live_timers L (r_log s)"
  "timer_use_ok L (r_log (need_sem k s)) = timer_use_ok L (r_log s)"
  "sem_state b (r_log (need_sem k s)) = sem_state b (r_log s)"
  by (auto simp: need_sem_def tmap_def table_inv_def used_slot_def Let_def split: option.splits)

lemma tmap_emit [simp]: "tmap (r_emit es s) = tmap s"
  by (rule tmap_slots) simp

lemma table_inv_emit [simp]: "table_inv (r_emit es s) = table_inv s"
  by (rule table_inv_slots) simp

lemma used_emit [simp]: "used_slot (r_emit es s) = used_slot s" "used_slot (need_sem k s) = used_slot s"
  by (simp_all add: used_slot_def fun_eq_iff)

lemma rtos_inv_need_sem [simp]: "rtos_inv (need_sem k s) = rtos_inv s"
  by (simp add: rtos_inv_def)

lemma scan_slot_of:
  assumes "table_inv s"
  shows "scan_slots (slot_of n) (luaTimerParam s) < MAX_LUA_TIMERS \<longleftrightarrow> tmap s n \<noteq> None"
    and "tmap s n = Some h \<Longrightarrow> used_slot s (scan_slots (slot_of n) (luaTimerParam s))
      \<and> slot_id s (scan_slots (slot_of n) (luaTimerParam s)) = n
      \<and> slot_handle s (scan_slots (slot_of n) (luaTimerParam s)) = h"
  using assms scan_slots_Least(1) [of "slot_of n" "luaTimerParam s"]
  by (auto simp: tmap_def table_inv_def Let_def used_slot_def slot_of_def split: if_splits)

lemma stop_timer_ok:
  assumes "rtos_inv s"
  shows "rtos_inv (fst (platform_rtos_stop_timer k n s))
    \<and> tmap (fst (platform_rtos_stop_timer k n s)) = (tmap s)(n := None)
    \<and> hRTOSWaitMsgTimer (fst (platform_rtos_stop_timer k n s)) = hRTOSWaitMsgTimer s"
proof -
  have t: "table_inv s" using assms by (simp add: rtos_inv_def)
  let ?i = "scan_slots (slot_of n) (luaTimerParam s)"
  show ?thesis
  proof (cases "tmap s n")
    case None
    then have "\<not> ?i < MAX_LUA_TIMERS" using scan_slot_of(1) [OF t] by simp
    then have run: "fst (platform_rtos_stop_timer k n s) = r_emit [ReleaseSem] (r_emit [WaitSem] (need_sem k s))"
      by (simp add: platform_rtos_stop_timer_def Let_def)
    show ?thesis
      using assms None unfolding run by (simp add: rtos_inv_def fun_upd_idem)
  next
    case (Some h)
    then have i: "?i < MAX_LUA_TIMERS" "used_slot s ?i" "slot_id s ?i = n" "slot_handle s ?i = h"
      using scan_slot_of [OF t] by auto
    let ?t = "(luaTimerParam s ! ?i)\<lparr>hOsTimer := OPENAT_INVALID_HANDLE\<rparr>"
    let ?s = "r_emit [StopTimer h, DeleteTimer h] (r_emit [WaitSem] (need_sem k s))"
    have run: "fst (platform_rtos_stop_timer k n s) = r_emit [ReleaseSem] (set_timer ?i ?t ?s)"
      using i by (simp add: platform_rtos_stop_timer_def Let_def)
    have u: "used_slot ?s ?i" "?i < length (luaTimerParam ?s)" "table_inv ?s" "tmap ?s = tmap s"
      using i t by (simp_all add: used_slot_def table_inv_def)
    note f = free_slot [OF u(3,2) _ u(1), of ?t]
    have h: "h \<in> ran (tmap s)" using Some by (auto simp: ran_def)
    have l: "live_timers {} (r_log s) = insert (hRTOSWaitMsgTimer s) (ran (tmap s))"
      and w: "hRTOSWaitMsgTimer s \<notin> ran (tmap s)" using assms by (auto simp: rtos_inv_def)
    from h w have ne: "h \<noteq> hRTOSWaitMsgTimer s" by auto
    show ?thesis
      unfolding run rtos_inv_def
      using assms f i u(4) h l w ne by (auto simp: rtos_inv_def)
  qed
qed

text \<open>Stopping an absent timer changes nothing, so the conditional stop of \<open>start_timer\<close> is a stop.\<close>

definition free_slots :: "rtos_state \<Rightarrow> bool" where
  "free_slots s \<longleftrightarrow> card (dom (tmap s)) < MAX_LUA_TIMERS"

lemma free_slot_scan:
  assumes "table_inv s"
  shows "scan_slots (\<lambda>t. hOsTimer t = OPENAT_INVALID_HANDLE) (luaTimerParam s) < MAX_LUA_TIMERS \<longleftrightarrow> free_slots s"
proof -
  have len: "length (luaTimerParam s) = MAX_LUA_TIMERS" using assms by (simp add: table_inv_def)
  let ?U = "{i. used_slot s i}"
  have fin: "finite ?U" "?U \<subseteq> {..<MAX_LUA_TIMERS}" using len by (auto simp: used_slot_def)
  have "dom (tmap s) = slot_id s ` ?U" using tmap_None [OF assms] by (auto simp: dom_def image_iff)
  moreover have "inj_on (slot_id s) ?U" using assms by (auto simp: table_inv_def inj_on_def)
  ultimately have c: "card (dom (tmap s)) = card ?U" by (simp add: card_image)
  have "card ?U < MAX_LUA_TIMERS \<longleftrightarrow> ?U \<noteq> {..<MAX_LUA_TIMERS}"
  proof (cases "?U = {..<MAX_LUA_TIMERS}")
    case True
    then show ?thesis by (simp only: card_lessThan) simp
  next
    case False
    with fin have "?U \<subset> {..<MAX_LUA_TIMERS}" by blast
    then have "card ?U < card {..<MAX_LUA_TIMERS}" by (intro psubset_card_mono) auto
    then have "card ?U < MAX_LUA_TIMERS" by (simp only: card_lessThan)
    with False show ?thesis by blast
  qed
  also have "\<dots> \<longleftrightarrow> (\<exists>i < MAX_LUA_TIMERS. hOsTimer (luaTimerParam s ! i) = OPENAT_INVALID_HANDLE)"
    using fin len by (auto simp: used_slot_def)
  finally show ?thesis
    unfolding free_slots_def c using scan_slots_ex [of _ "luaTimerParam s"] len by simp
qed

lemma start_after_stop:
  assumes "rtos_inv s"
  obtains s2 where "rtos_inv s2" "tmap s2 = (tmap s)(n := None)" "hRTOSWaitMsgTimer s2 = hRTOSWaitMsgTimer s"
    "(if scan_slots (slot_of n) (luaTimerParam (need_sem k s)) < MAX_LUA_TIMERS
      then fst (platform_rtos_stop_timer k n (need_sem k s)) else need_sem k s) = s2"
proof (cases "tmap s n")
  case None
  then have "\<not> scan_slots (slot_of n) (luaTimerParam s) < MAX_LUA_TIMERS"
    using scan_slot_of(1) [of s n] assms by (simp add: rtos_inv_def)
  with that [of "need_sem k s"] assms None show ?thesis by (simp add: fun_upd_idem)
next
  case (Some h)
  then have "scan_slots (slot_of n) (luaTimerParam s) < MAX_LUA_TIMERS"
    using scan_slot_of(1) [of s n] assms by (simp add: rtos_inv_def)
  with that [of "fst (platform_rtos_stop_timer k n (need_sem k s))"]
    stop_timer_ok [of "need_sem k s" k n] assms show ?thesis by simp
qed

lemma start_timer_ok:
  assumes "rtos_inv s"
    and "create_timer k \<notin> insert (hRTOSWaitMsgTimer s) (ran ((tmap s)(n := None)))"
  shows "case platform_rtos_start_timer k n ms s of (s', r) \<Rightarrow> rtos_inv s' \<and> hRTOSWaitMsgTimer s' = hRTOSWaitMsgTimer s \<and>
    (if card (dom ((tmap s)(n := None))) < MAX_LUA_TIMERS \<and> create_timer k \<noteq> OPENAT_INVALID_HANDLE \<and> start_timer k
     then r = PLATFORM_OK \<and> tmap s' = (tmap s)(n \<mapsto> create_timer k)
     else r = PLATFORM_ERR \<and> tmap s' = (tmap s)(n := None))"
proof -
  obtain s2 where s2: "rtos_inv s2" "tmap s2 = (tmap s)(n := None)" "hRTOSWaitMsgTimer s2 = hRTOSWaitMsgTimer s"
    "(if scan_slots (slot_of n) (luaTimerParam (need_sem k s)) < MAX_LUA_TIMERS
      then fst (platform_rtos_stop_timer k n (need_sem k s)) else need_sem k s) = s2"
    using start_after_stop [OF assms(1)] by blast
  let ?h = "create_timer k"
  let ?i = "scan_slots (\<lambda>t. hOsTimer t = OPENAT_INVALID_HANDLE) (luaTimerParam s2)"
  let ?s5 = "r_emit [StartTimer ?h ms] (r_emit [CreateTimer ?h n] (r_emit [WaitSem] s2))"
  have t: "table_inv s2" and live: "live_timers {} (r_log s2) = insert (hRTOSWaitMsgTimer s2) (ran (tmap s2))"
    and use_ok: "timer_use_ok {} (r_log s2)" and sem: "sem_state False (r_log s2) = Some False"
    and w: "hRTOSWaitMsgTimer s2 \<notin> ran (tmap s2)" "hRTOSWaitMsgTimer s2 \<noteq> OPENAT_INVALID_HANDLE"
    using s2(1) by (auto simp: rtos_inv_def)
  have free: "?i < MAX_LUA_TIMERS \<longleftrightarrow> card (dom ((tmap s)(n := None))) < MAX_LUA_TIMERS"
    using free_slot_scan [OF t] s2(2) by (simp add: free_slots_def)
  have fresh: "?h \<notin> ran (tmap s2)" "?h \<noteq> hRTOSWaitMsgTimer s2"
    using assms(2) unfolding s2(2,3) by auto
  have run: "platform_rtos_start_timer k n ms s =
      (if MAX_LUA_TIMERS \<le> ?i then (r_emit [ReleaseSem] (r_emit [WaitSem] s2), PLATFORM_ERR)
       else if ?h = OPENAT_INVALID_HANDLE
       then (r_emit [ReleaseSem] (r_emit [CreateTimer ?h n] (r_emit [WaitSem] s2)), PLATFORM_ERR)
       else if \<not> start_timer k then (r_emit [ReleaseSem, DeleteTimer ?h] ?s5, PLATFORM_ERR)
       else (r_emit [ReleaseSem] (set_timer ?i \<lparr>hOsTimer = ?h, luaTimerId = n\<rparr> ?s5), PLATFORM_OK))"
    unfolding platform_rtos_start_timer_def Let_def s2(4) by simp
  have "0 \<notin> insert (hRTOSWaitMsgTimer s2) (ran (tmap s2))"
    using w ran_tmap [OF t] by (auto simp: used_slot_def OPENAT_INVALID_HANDLE_def)
  then have inv': "rtos_inv (r_emit [ReleaseSem] (r_emit [WaitSem] s2))"
      "?h = OPENAT_INVALID_HANDLE \<Longrightarrow> rtos_inv (r_emit [ReleaseSem] (r_emit [CreateTimer ?h n] (r_emit [WaitSem] s2)))"
      "?h \<noteq> OPENAT_INVALID_HANDLE \<Longrightarrow> rtos_inv (r_emit [ReleaseSem, DeleteTimer ?h] ?s5)"
    unfolding rtos_inv_def using t live use_ok sem w fresh by (simp_all add: OPENAT_INVALID_HANDLE_def)
  show ?thesis
  proof (cases "MAX_LUA_TIMERS \<le> ?i \<or> ?h = OPENAT_INVALID_HANDLE \<or> \<not> start_timer k")
    case True
    then consider "MAX_LUA_TIMERS \<le> ?i" | "\<not> MAX_LUA_TIMERS \<le> ?i" "?h = OPENAT_INVALID_HANDLE"
      | "\<not> MAX_LUA_TIMERS \<le> ?i" "?h \<noteq> OPENAT_INVALID_HANDLE" "\<not> start_timer k" by blast
    then show ?thesis
      unfolding s2(2) [symmetric] free [folded s2(2), symmetric]
      by cases (use run inv' in \<open>simp_all add: s2(2,3)\<close>)
  next
    case False
    let ?s = "set_timer ?i \<lparr>hOsTimer = ?h, luaTimerId = n\<rparr> ?s5"
    have u: "table_inv ?s5" "?i < length (luaTimerParam ?s5)" "\<not> used_slot ?s5 ?i" "tmap ?s5 n = None"
        "?h \<notin> ran (tmap ?s5)"
      using t False fresh s2(2) scan_slots_Least(1) [of "\<lambda>t. hOsTimer t = OPENAT_INVALID_HANDLE" "luaTimerParam s2"]
      by (auto simp: table_inv_def used_slot_def)
    note f = fill_slot [OF u]
    have tm: "tmap ?s = (tmap s)(n \<mapsto> ?h)" and ti: "table_inv ?s"
      using f False s2(2) by auto
    have rn: "ran (tmap ?s) = insert ?h (ran (tmap s2))"
      using ran_map_upd [of "tmap s2" n ?h] tm s2(2) by simp
    show ?thesis
      using run False free live use_ok sem w fresh tm ti rn s2(3)
      by (auto simp: rtos_inv_def OPENAT_INVALID_HANDLE_def)
  qed
qed

text \<open>C26. \<open>platform_rtos_start_timer\<close> restarts a timer number on the map of running timers: the old
  kernel timer of that number is stopped and deleted first; the new one is entered, and PLATFORM_OK
  returned, exactly when fewer than 30 others are running and the kernel creates and starts it. In
  every other case PLATFORM_ERR is returned, the number is no longer running and no kernel timer is
  left behind. The kernel is assumed to hand out a timer that is not alive.\<close>

theorem start_timer_refines:
  assumes "rtos_inv s"
    and "create_timer k \<notin> insert (hRTOSWaitMsgTimer s) (ran ((tmap s)(n := None)))"
  shows "case platform_rtos_start_timer k n ms s of (s', r) \<Rightarrow> rtos_inv s' \<and>
    (if card (dom ((tmap s)(n := None))) < MAX_LUA_TIMERS \<and> create_timer k \<noteq> OPENAT_INVALID_HANDLE \<and> start_timer k
     then r = PLATFORM_OK \<and> tmap s' = (tmap s)(n \<mapsto> create_timer k)
     else r = PLATFORM_ERR \<and> tmap s' = (tmap s)(n := None))"
  using start_timer_ok [OF assms, of ms] by (auto split: prod.splits)

lemma timer_callback_ok:
  assumes "rtos_inv s" and "hTimer \<noteq> OPENAT_INVALID_HANDLE"
  shows "rtos_inv (platform_rtos_timer_callback hTimer n s)"
    and "tmap (platform_rtos_timer_callback hTimer n s)
      = (\<lambda>m. if tmap s m = Some hTimer then None else tmap s m)"
proof -
  have t: "table_inv s" using assms(1) by (simp add: rtos_inv_def)
  then have len: "length (luaTimerParam s) = MAX_LUA_TIMERS" by (simp add: table_inv_def)
  let ?P = "\<lambda>t. hOsTimer t = hTimer"
  let ?i = "scan_slots ?P (luaTimerParam s)"
  let ?m = "\<lambda>m. if tmap s m = Some hTimer then None else tmap s m"
  let ?s1 = "r_emit [SendMsg (RTOS_MSG_TIMER n), WaitSem] s"
  have "rtos_inv (platform_rtos_timer_callback hTimer n s) \<and> tmap (platform_rtos_timer_callback hTimer n s) = ?m"
  proof (cases "?i < MAX_LUA_TIMERS")
    case False
    then have "\<not> (\<exists>i < length (luaTimerParam s). slot_handle s i = hTimer)"
      using scan_slots_ex [of ?P "luaTimerParam s"] len by simp
    then have "hTimer \<notin> ran (tmap s)" using ran_tmap [OF t] by (auto simp: used_slot_def)
    then have "?m = tmap s" by (auto simp: ran_def)
    with False assms show ?thesis
      by (simp add: platform_rtos_timer_callback_def Let_def rtos_inv_def)
  next
    case True
    then have u: "used_slot ?s1 ?i" "slot_handle s ?i = hTimer" "?i < length (luaTimerParam ?s1)" "table_inv ?s1"
      using scan_slots_Least(1) [of ?P "luaTimerParam s"] len assms(2) t by (auto simp: used_slot_def)
    let ?s2 = "r_emit [DeleteTimer hTimer] ?s1"
    let ?t = "(luaTimerParam s ! ?i)\<lparr>hOsTimer := OPENAT_INVALID_HANDLE\<rparr>"
    have run: "platform_rtos_timer_callback hTimer n s = r_emit [ReleaseSem] (set_timer ?i ?t ?s2)"
      using True u(2) by (simp add: platform_rtos_timer_callback_def Let_def)
    have v: "table_inv ?s2" "?i < length (luaTimerParam ?s2)" "used_slot ?s2 ?i" using u by simp_all
    note f = free_slot [OF v(1,2) _ v(3), of ?t]
    have iff: "tmap s m = Some hTimer \<longleftrightarrow> m = slot_id s ?i" for m
      using t u unfolding tmap_eq [OF t] table_inv_def by (metis used_emit(1))
    then have m: "?m = (tmap s)(slot_id s ?i := None)" by auto
    have h: "hTimer \<in> ran (tmap s)" using iff by (auto simp: ran_def)
    show ?thesis
      unfolding run m using assms f u(2) h by (auto simp: rtos_inv_def)
  qed
  then show "rtos_inv (platform_rtos_timer_callback hTimer n s)"
    and "tmap (platform_rtos_timer_callback hTimer n s) = ?m" by blast+
qed

section \<open>Interleavings\<close>

text \<open>
  The calls of the Lua task, the timer and keypad callbacks and the time-out of the message wait,
  in any order. A new kernel timer is one that is not alive; timers that fire are not null.
\<close>

inductive rtos_step :: "rtos_state \<Rightarrow> rtos_state \<Rightarrow> bool" where
  start: "create_timer k \<notin> insert (hRTOSWaitMsgTimer s) (ran ((tmap s)(n := None)))
    \<Longrightarrow> rtos_step s (fst (platform_rtos_start_timer k n ms s))"
| stop: "rtos_step s (fst (platform_rtos_stop_timer k n s))"
| fire: "hTimer \<noteq> OPENAT_INVALID_HANDLE \<Longrightarrow> rtos_step s (platform_rtos_timer_callback hTimer n s)"
| receive: "rtos_step s (fst (platform_rtos_receive k timeout s))"
| timeout: "rtos_step s (rtos_wait_message_timeout s)"
| keypad: "rtos_step s (platform_keypad_message b r c s)"
| poweron: "rtos_step s (platform_rtos_poweron flag s)"
| poweron_try: "rtos_step s (platform_poweron_try s)"
| poweroff: "rtos_step s (platform_rtos_poweroff k s)"

definition boot_rtos :: rtos_state where
  "boot_rtos = \<lparr>luaTimerParam = replicate MAX_LUA_TIMERS \<lparr>hOsTimer = 0, luaTimerId = 0\<rparr>, hLuaTimerSem = 0,
     hRTOSWaitMsgTimer = 0, poweron_flag = - 1, cust_sys_flag = False, r_log = []\<rparr>"

definition power_inv :: "rtos_state \<Rightarrow> bool" where
  "power_inv s \<longleftrightarrow> (cust_sys_flag s \<longleftrightarrow> PowerOnSystem \<in> set (r_log s))"

lemma boot_table: "table_inv boot_rtos" "tmap boot_rtos = (\<lambda>n. None)"
proof -
  show t: "table_inv boot_rtos"
    by (auto simp: table_inv_def used_slot_def boot_rtos_def OPENAT_INVALID_HANDLE_def)
  show "tmap boot_rtos = (\<lambda>n. None)"
  proof
    fix n
    show "tmap boot_rtos n = None"
      using tmap_None [OF t, of n] by (auto simp: used_slot_def boot_rtos_def OPENAT_INVALID_HANDLE_def)
  qed
qed

lemma init_inv:
  assumes "create_timer k \<noteq> OPENAT_INVALID_HANDLE"
  shows "rtos_inv (fst (platform_rtos_init k boot_rtos))" and "power_inv (fst (platform_rtos_init k boot_rtos))"
proof -
  let ?s = "fst (platform_rtos_init k boot_rtos)"
  have slots: "luaTimerParam ?s = luaTimerParam boot_rtos" by (simp add: platform_rtos_init_def r_emit_def)
  have "table_inv ?s" "tmap ?s = (\<lambda>n. None)"
    using boot_table table_inv_slots [OF slots] tmap_slots [OF slots] by auto
  then show "rtos_inv ?s" "power_inv ?s"
    using assms by (simp_all add: rtos_inv_def power_inv_def platform_rtos_init_def boot_rtos_def r_emit_def
        OPENAT_INVALID_HANDLE_def)
qed

lemma inv_log_only:
  assumes "rtos_inv s" and "luaTimerParam s' = luaTimerParam s" and "hRTOSWaitMsgTimer s' = hRTOSWaitMsgTimer s"
    and "r_log s' = r_log s @ es" and "live_timers (live_timers {} (r_log s)) es = live_timers {} (r_log s)"
    and "timer_use_ok (live_timers {} (r_log s)) es" and "sem_state False es = Some False"
  shows "rtos_inv s'"
  using assms tmap_slots [OF assms(2)] table_inv_slots [OF assms(2)] by (simp add: rtos_inv_def)

lemma rtos_inv_step: "rtos_step s s' \<Longrightarrow> rtos_inv s \<Longrightarrow> rtos_inv s'"
proof (induction rule: rtos_step.induct)
  case (start k s n ms)
  then show ?case using start_timer_ok [of s k n ms] by (auto split: prod.splits)
next
  case (stop s k n)
  then show ?case using stop_timer_ok by blast
next
  case (fire hTimer s n)
  then show ?case by (rule timer_callback_ok(1) [rotated])
next
  case (receive s k timeout)
  then have "hRTOSWaitMsgTimer s \<in> live_timers {} (r_log s)" by (auto simp: rtos_inv_def)
  with receive show ?case
    by (intro inv_log_only [OF receive.prems, where es = "[if timeout = PLATFORM_RTOS_WAIT_MSG_INFINITE
          then StopTimer (hRTOSWaitMsgTimer s) else StartTimer (hRTOSWaitMsgTimer s) (uint timeout), WaitMsg]"])
      (simp_all add: platform_rtos_receive_def)
next
  case (timeout s)
  then show ?case by (intro inv_log_only [OF timeout.prems, where es = "[SendMsg RTOS_MSG_WAIT_MSG_TIMEOUT]"])
      (simp_all add: rtos_wait_message_timeout_def)
next
  case (keypad s b r c)
  then show ?case by (intro inv_log_only [OF keypad.prems, where es = "[SendMsg (RTOS_MSG_KEYPAD b r c)]"])
      (simp_all add: platform_keypad_message_def)
next
  case (poweron s flag)
  then show ?case
    by (intro inv_log_only [OF poweron.prems, where es = "if flag = 1 then [PowerOnSystem] else []"])
      (simp_all add: platform_rtos_poweron_def Let_def)
next
  case (poweron_try s)
  then show ?case
    by (intro inv_log_only [OF poweron_try.prems, where es = "if poweron_flag s = - 1 then [PowerOnSystem] else []"])
      (simp_all add: platform_poweron_try_def)
next
  case (poweroff s k)
  then show ?case
    by (intro inv_log_only [OF poweroff.prems, where es = "[if poweron_by_charger k \<and> \<not> cust_sys_flag s then ShutDown else PowerOffSystem]"])
      (simp_all add: platform_rtos_poweroff_def)
qed

lemma stop_timer_power [simp]:
  "power_inv (fst (platform_rtos_stop_timer k n s)) = power_inv s"
  by (auto simp: power_inv_def platform_rtos_stop_timer_def need_sem_def Let_def)

lemma power_inv_step: "rtos_step s s' \<Longrightarrow> power_inv s \<Longrightarrow> power_inv s'"
proof (induction rule: rtos_step.induct)
  case (start k s n ms)
  define s2 where "s2 = (if scan_slots (slot_of n) (luaTimerParam (need_sem k s)) < MAX_LUA_TIMERS
      then fst (platform_rtos_stop_timer k n (need_sem k s)) else need_sem k s)"
  have "power_inv (need_sem k s) = power_inv s" by (auto simp: power_inv_def need_sem_def)
  then have "power_inv s2 = power_inv s" by (simp add: s2_def)
  with start.prems show ?case
    unfolding platform_rtos_start_timer_def Let_def s2_def [symmetric]
    by (auto simp: power_inv_def)
next
  case (stop s k n)
  then show ?case by simp
qed (auto simp: power_inv_def platform_rtos_timer_callback_def platform_rtos_receive_def
    rtos_wait_message_timeout_def platform_keypad_message_def platform_rtos_poweron_def
    platform_poweron_try_def platform_rtos_poweroff_def Let_def)

lemma rtos_reachable:
  assumes "rtos_step\<^sup>*\<^sup>* s s'" and "rtos_inv s" and "power_inv s"
  shows "rtos_inv s' \<and> power_inv s'"
  using assms by (induction rule: rtranclp_induct) (auto intro: rtos_inv_step power_inv_step)

text \<open>C4. Discipline towards the kernel, after any interleaving of the calls and callbacks: every
  start, stop and delete names a living kernel timer and none is deleted twice; the living ones are
  exactly the message-wait timer and those of the at most 30 running numbers (none is leaked); the
  table semaphore is free and was never taken twice; and switching off uses \<open>shut_down\<close> exactly if
  the charger switched the phone on and the system was never powered on.\<close>

theorem rtos_kernel_discipline:
  assumes "create_timer k \<noteq> OPENAT_INVALID_HANDLE" and "rtos_step\<^sup>*\<^sup>* (fst (platform_rtos_init k boot_rtos)) s"
  shows "timer_use_ok {} (r_log s)
    \<and> live_timers {} (r_log s) = insert (hRTOSWaitMsgTimer s) (ran (tmap s))
    \<and> card (dom (tmap s)) \<le> MAX_LUA_TIMERS
    \<and> sem_state False (r_log s) = Some False
    \<and> (ShutDown = last (r_log (platform_rtos_poweroff k' s))
        \<longleftrightarrow> poweron_by_charger k' \<and> PowerOnSystem \<notin> set (r_log s))"
proof -
  have i: "rtos_inv s" "power_inv s" using rtos_reachable [OF assms(2) init_inv [OF assms(1)]] by auto
  then have t: "table_inv s" by (simp add: rtos_inv_def)
  then have "dom (tmap s) \<subseteq> slot_id s ` {..<MAX_LUA_TIMERS}"
    using tmap_None [OF t] by (auto simp: dom_def table_inv_def used_slot_def image_iff)
  then have "card (dom (tmap s)) \<le> card {..<MAX_LUA_TIMERS}"
    by (rule surj_card_le [rotated]) simp
  then show ?thesis
    using i by (auto simp: rtos_inv_def power_inv_def platform_rtos_poweroff_def)
qed

definition kernel1 :: kernel where
  "kernel1 = \<lparr>create_semaphore = 9, create_timer = 5, start_timer = True, wait_message = True, poweron_by_charger = True\<rparr>"

definition kernel2 :: kernel where
  "kernel2 = kernel1\<lparr>create_timer := 6\<rparr>"

lemma kernels: "create_timer kernel1 = 5" "create_timer kernel2 = 6" "start_timer kernel2"
  by (simp_all add: kernel1_def kernel2_def)

definition rtos1 :: rtos_state where
  "rtos1 = fst (platform_rtos_init kernel1 boot_rtos)"

lemma rtos1_ok: "rtos_inv rtos1" "hRTOSWaitMsgTimer rtos1 = 5" "tmap rtos1 = (\<lambda>n. None)"
    "create_timer kernel2 \<notin> insert (hRTOSWaitMsgTimer rtos1) (ran ((tmap rtos1)(3 := None)))"
proof -
  show "rtos_inv rtos1"
    unfolding rtos1_def by (rule init_inv) (simp add: kernels OPENAT_INVALID_HANDLE_def)
  show w: "hRTOSWaitMsgTimer rtos1 = 5" by (simp add: rtos1_def platform_rtos_init_def kernels)
  show t: "tmap rtos1 = (\<lambda>n. None)"
    using boot_table(2) tmap_slots [of rtos1 boot_rtos] by (simp add: rtos1_def platform_rtos_init_def r_emit_def)
  show "create_timer kernel2 \<notin> insert (hRTOSWaitMsgTimer rtos1) (ran ((tmap rtos1)(3 := None)))"
    by (simp add: w t kernels)
qed

lemma start_timer_refines_witness:
  "tmap (fst (platform_rtos_start_timer kernel2 3 100 rtos1)) = [3 \<mapsto> 6]"
  using start_timer_refines [OF rtos1_ok(1,4), of 100]
  by (auto simp: rtos1_ok(2,3) kernels MAX_LUA_TIMERS_def OPENAT_INVALID_HANDLE_def split: prod.splits)

lemma rtos_kernel_discipline_witness:
  "\<exists>s. rtos_step\<^sup>*\<^sup>* rtos1 s \<and> tmap s 3 = Some 6 \<and> live_timers {} (r_log s) = {5, 6}"
proof -
  let ?s = "fst (platform_rtos_start_timer kernel2 3 100 rtos1)"
  have s: "tmap ?s = [3 \<mapsto> 6]" "hRTOSWaitMsgTimer ?s = 5"
    using start_timer_ok [OF rtos1_ok(1,4), of 100]
    by (auto simp: rtos1_ok(2,3) kernels MAX_LUA_TIMERS_def OPENAT_INVALID_HANDLE_def split: prod.splits)
  have st: "rtos_step\<^sup>*\<^sup>* rtos1 ?s" using rtos_step.start [OF rtos1_ok(4)] by blast
  have nz: "create_timer kernel1 \<noteq> OPENAT_INVALID_HANDLE" by (simp add: kernels OPENAT_INVALID_HANDLE_def)
  from rtos_kernel_discipline [OF nz st [unfolded rtos1_def]] s have "live_timers {} (r_log ?s) = {5, 6}"
    unfolding rtos1_def by auto
  with st s show ?thesis by (intro exI [of _ ?s]) simp
qed

end
