(* ===== verification/Crc.thy ===== *)
theory Crc
  imports Prelude
begin

text \<open>
  The checksum of \<open>platform/src/crc.c\<close>: the table-driven \<open>calcCRC16\<close> with the tables as they
  stand in the source, and the proof that it is the bitwise CRC-16/MODBUS (reflected polynomial
  0xA001, initial value 0xFFFF).
\<close>

section \<open>The code\<close>

definition CRCHiTable :: "u8 list" where
  "CRCHiTable = [
     0x00, 0xC1, 0x81, 0x40, 0x01, 0xC0, 0x80, 0x41, 0x01, 0xC0, 0x80, 0x41, 0x00, 0xC1, 0x81, 0x40,
     0x01, 0xC0, 0x80, 0x41, 0x00, 0xC1, 0x81, 0x40, 0x00, 0xC1, 0x81, 0x40, 0x01, 0xC0, 0x80, 0x41,
     0x01, 0xC0, 0x80, 0x41, 0x00, 0xC1, 0x81, 0x40, 0x00, 0xC1, 0x81, 0x40, 0x01, 0xC0, 0x80, 0x41,
     0x00, 0xC1, 0x81, 0x40, 0x01, 0xC0, 0x80, 0x41, 0x01, 0xC0, 0x80, 0x41, 0x00, 0xC1, 0x81, 0x40,
     0x01, 0xC0, 0x80, 0x41, 0x00, 0xC1, 0x81, 0x40, 0x00, 0xC1, 0x81, 0x40, 0x01, 0xC0, 0x80, 0x41,
     0x00, 0xC1, 0x81, 0x40, 0x01, 0xC0, 0x80, 0x41, 0x01, 0xC0, 0x80, 0x41, 0x00, 0xC1, 0x81, 0x40,
     0x00, 0xC1, 0x81, 0x40, 0x01, 0xC0, 0x80, 0x41, 0x01, 0xC0, 0x80, 0x41, 0x00, 0xC1, 0x81, 0x40,
     0x01, 0xC0, 0x80, 0x41, 0x00, 0xC1, 0x81, 0x40, 0x00, 0xC1, 0x81, 0x40, 0x01, 0xC0, 0x80, 0x41,
     0x01, 0xC0, 0x80, 0x41, 0x00, 0xC1, 0x81, 0x40, 0x00, 0xC1, 0x81, 0x40, 0x01, 0xC0, 0x80, 0x41,
     0x00, 0xC1, 0x81, 0x40, 0x01, 0xC0, 0x80, 0x41, 0x01, 0xC0, 0x80, 0x41, 0x00, 0xC1, 0x81, 0x40,
     0x00, 0xC1, 0x81, 0x40, 0x01, 0xC0, 0x80, 0x41, 0x01, 0xC0, 0x80, 0x41, 0x00, 0xC1, 0x81, 0x40,
     0x01, 0xC0, 0x80, 0x41, 0x00, 0xC1, 0x81, 0x40, 0x00, 0xC1, 0x81, 0x40, 0x01, 0xC0, 0x80, 0x41,
     0x00, 0xC1, 0x81, 0x40, 0x01, 0xC0, 0x80, 0x41, 0x01, 0xC0, 0x80, 0x41, 0x00, 0xC1, 0x81, 0x40,
     0x01, 0xC0, 0x80, 0x41, 0x00, 0xC1, 0x81, 0x40, 0x00, 0xC1, 0x81, 0x40, 0x01, 0xC0, 0x80, 0x41,
     0x01, 0xC0, 0x80, 0x41, 0x00, 0xC1, 0x81, 0x40, 0x00, 0xC1, 0x81, 0x40, 0x01, 0xC0, 0x80, 0x41,
     0x00, 0xC1, 0x81, 0x40, 0x01, 0xC0, 0x80, 0x41, 0x01, 0xC0, 0x80, 0x41, 0x00, 0xC1, 0x81, 0x40]"

definition CRCLoTable :: "u8 list" where
  "CRCLoTable = [
     0x00, 0xC0, 0xC1, 0x01, 0xC3, 0x03, 0x02, 0xC2, 0xC6, 0x06, 0x07, 0xC7, 0x05, 0xC5, 0xC4, 0x04,
     0xCC, 0x0C, 0x0D, 0xCD, 0x0F, 0xCF, 0xCE, 0x0E, 0x0A, 0xCA, 0xCB, 0x0B, 0xC9, 0x09, 0x08, 0xC8,
     0xD8, 0x18, 0x19, 0xD9, 0x1B, 0xDB, 0xDA, 0x1A, 0x1E, 0xDE, 0xDF, 0x1F, 0xDD, 0x1D, 0x1C, 0xDC,
     0x14, 0xD4, 0xD5, 0x15, 0xD7, 0x17, 0x16, 0xD6, 0xD2, 0x12, 0x13, 0xD3, 0x11, 0xD1, 0xD0, 0x10,
     0xF0, 0x30, 0x31, 0xF1, 0x33, 0xF3, 0xF2, 0x32, 0x36, 0xF6, 0xF7, 0x37, 0xF5, 0x35, 0x34, 0xF4,
     0x3C, 0xFC, 0xFD, 0x3D, 0xFF, 0x3F, 0x3E, 0xFE, 0xFA, 0x3A, 0x3B, 0xFB, 0x39, 0xF9, 0xF8, 0x38,
     0x28, 0xE8, 0xE9, 0x29, 0xEB, 0x2B, 0x2A, 0xEA, 0xEE, 0x2E, 0x2F, 0xEF, 0x2D, 0xED, 0xEC, 0x2C,
     0xE4, 0x24, 0x25, 0xE5, 0x27, 0xE7, 0xE6, 0x26, 0x22, 0xE2, 0xE3, 0x23, 0xE1, 0x21, 0x20, 0xE0,
     0xA0, 0x60, 0x61, 0xA1, 0x63, 0xA3, 0xA2, 0x62, 0x66, 0xA6, 0xA7, 0x67, 0xA5, 0x65, 0x64, 0xA4,
     0x6C, 0xAC, 0xAD, 0x6D, 0xAF, 0x6F, 0x6E, 0xAE, 0xAA, 0x6A, 0x6B, 0xAB, 0x69, 0xA9, 0xA8, 0x68,
     0x78, 0xB8, 0xB9, 0x79, 0xBB, 0x7B, 0x7A, 0xBA, 0xBE, 0x7E, 0x7F, 0xBF, 0x7D, 0xBD, 0xBC, 0x7C,
     0xB4, 0x74, 0x75, 0xB5, 0x77, 0xB7, 0xB6, 0x76, 0x72, 0xB2, 0xB3, 0x73, 0xB1, 0x71, 0x70, 0xB0,
     0x50, 0x90, 0x91, 0x51, 0x93, 0x53, 0x52, 0x92, 0x96, 0x56, 0x57, 0x97, 0x55, 0x95, 0x94, 0x54,
     0x9C, 0x5C, 0x5D, 0x9D, 0x5F, 0x9F, 0x9E, 0x5E, 0x5A, 0x9A, 0x9B, 0x5B, 0x99, 0x59, 0x58, 0x98,
     0x88, 0x48, 0x49, 0x89, 0x4B, 0x8B, 0x8A, 0x4A, 0x4E, 0x8E, 0x8F, 0x4F, 0x8D, 0x4D, 0x4C, 0x8C,
     0x44, 0x84, 0x85, 0x45, 0x87, 0x47, 0x46, 0x86, 0x82, 0x42, 0x43, 0x83, 0x41, 0x81, 0x80, 0x40]"

text \<open>The \<open>while(length--)\<close> loop with \<open>crcHi\<close> and \<open>crcLo\<close>.\<close>

fun crc_loop :: "u8 \<Rightarrow> u8 \<Rightarrow> byte list \<Rightarrow> u8 \<times> u8" where
  "crc_loop crcHi crcLo [] = (crcHi, crcLo)"
| "crc_loop crcHi crcLo (d # ds) =
     (let index = crcLo XOR d
      in crc_loop (CRCLoTable ! unat index) (crcHi XOR CRCHiTable ! unat index) ds)"

definition calcCRC16 :: "byte list \<Rightarrow> u16" where
  "calcCRC16 data =
     (case crc_loop 0xFF 0xFF data of (crcHi, crcLo) \<Rightarrow> push_bit 8 (ucast crcHi) OR ucast crcLo)"

section \<open>The checksum, bit by bit\<close>

definition crc_shift :: "u16 \<Rightarrow> u16" where
  "crc_shift c = (if bit c 0 then drop_bit 1 c XOR 0xA001 else drop_bit 1 c)"

definition crc_byte :: "u16 \<Rightarrow> byte \<Rightarrow> u16" where
  "crc_byte c d = (crc_shift ^^ 8) (c XOR ucast d)"

definition crc16_modbus :: "byte list \<Rightarrow> u16" where
  "crc16_modbus data = foldl crc_byte 0xFFFF data"

lemma drop_bit_xor_u16: "drop_bit n (a XOR b :: u16) = drop_bit n a XOR drop_bit n b"
  by (rule bit_eqI) (auto simp: bit_drop_bit_eq bit_xor_iff)

lemma crc_shift_xor: "crc_shift (a XOR b) = crc_shift a XOR crc_shift b"
  by (rule bit_eqI) (auto simp: crc_shift_def bit_xor_iff drop_bit_xor_u16)

lemma crc_shifts_xor: "(crc_shift ^^ n) (a XOR b) = (crc_shift ^^ n) a XOR (crc_shift ^^ n) b"
  by (induction n) (simp_all add: crc_shift_xor)

lemma crc_shifts_high: "n \<le> k \<Longrightarrow> (\<And>i. i < k \<Longrightarrow> \<not> bit c i) \<Longrightarrow> (crc_shift ^^ n) c = drop_bit n c"
proof (induction n)
  case 0
  then show ?case by simp
next
  case (Suc n)
  then have "(crc_shift ^^ n) c = drop_bit n c" by simp
  moreover have "\<not> bit (drop_bit n c) 0" using Suc.prems by (simp add: bit_drop_bit_eq)
  ultimately show ?case by (simp add: crc_shift_def [of "drop_bit n c"])
qed

text \<open>The tables hold the bitwise checksum of every byte.\<close>

lemma crc_shift_8: "(crc_shift ^^ 8) c = crc_shift (crc_shift (crc_shift (crc_shift (crc_shift (crc_shift (crc_shift (crc_shift c)))))))"
  by (simp add: numeral_eq_Suc)

fun table_scan :: "u16 \<Rightarrow> u8 list \<Rightarrow> u8 list \<Rightarrow> bool" where
  "table_scan c (l # ls) (h # hs) \<longleftrightarrow>
     crc_shift (crc_shift (crc_shift (crc_shift (crc_shift (crc_shift (crc_shift (crc_shift c)))))))
       = push_bit 8 (ucast l) OR ucast h \<and> table_scan (c + 1) ls hs"
| "table_scan c ls hs \<longleftrightarrow> True"

lemma table_scan_nth:
  "table_scan c ls hs \<Longrightarrow> length ls = length hs \<Longrightarrow> i < length ls
    \<Longrightarrow> (crc_shift ^^ 8) (c + of_nat i) = push_bit 8 (ucast (ls ! i)) OR ucast (hs ! i)"
proof (induction c ls hs arbitrary: i rule: table_scan.induct)
  case (1 c l ls h hs)
  then show ?case by (cases i) (auto simp: crc_shift_8 add.assoc)
qed auto

lemma tables_scan: "table_scan 0 CRCLoTable CRCHiTable"
  by (simp add: CRCLoTable_def CRCHiTable_def crc_shift_def)

lemma table_entry:
  "(crc_shift ^^ 8) (ucast (x :: u8)) = push_bit 8 (ucast (CRCLoTable ! unat x)) OR ucast (CRCHiTable ! unat x)"
proof -
  have "length CRCLoTable = 256" "length CRCHiTable = 256"
    by (simp_all add: CRCLoTable_def CRCHiTable_def)
  moreover have "unat x < 256" using unsigned_less [of x, where 'a = nat] by simp
  moreover have "(of_nat (unat x) :: u16) = ucast x" by simp
  ultimately show ?thesis using table_scan_nth [OF tables_scan, of "unat x"] by simp
qed

definition crc_word :: "u8 \<Rightarrow> u8 \<Rightarrow> u16" where
  "crc_word hi lo = push_bit 8 (ucast hi) OR ucast lo"

lemma crc_word_bit: "bit (crc_word hi lo) n \<longleftrightarrow> (if n < 8 then bit lo n else bit hi (n - 8))"
  using bit_imp_le_length [of lo n] bit_imp_le_length [of hi "n - 8"]
  by (auto simp: crc_word_def bit_or_iff bit_push_bit_iff bit_ucast_iff)

lemma crc_word_xor: "crc_word h l XOR crc_word h' l' = crc_word (h XOR h') (l XOR l')"
  by (rule bit_eqI) (auto simp: bit_xor_iff crc_word_bit)

lemma crc_byte_table:
  "crc_byte (crc_word hi lo) d
    = crc_word (CRCLoTable ! unat (lo XOR d)) (hi XOR CRCHiTable ! unat (lo XOR d))"
proof -
  have split: "crc_word hi lo XOR ucast d = crc_word hi 0 XOR ucast (lo XOR d)"
    by (rule bit_eqI) (auto simp: bit_xor_iff crc_word_bit bit_ucast_iff dest: bit_imp_le_length)
  have high: "(crc_shift ^^ 8) (crc_word hi 0) = crc_word 0 hi"
  proof -
    have "(crc_shift ^^ 8) (crc_word hi 0) = drop_bit 8 (crc_word hi 0)"
      by (rule crc_shifts_high [of 8 8]) (simp_all add: crc_word_bit)
    also have "\<dots> = crc_word 0 hi"
      by (rule bit_eqI) (auto simp: bit_drop_bit_eq crc_word_bit dest: bit_imp_le_length)
    finally show ?thesis .
  qed
  show ?thesis
    unfolding crc_byte_def split crc_shifts_xor high table_entry
    by (simp add: crc_word_xor flip: crc_word_def)
qed

lemma crc_loop_bitwise:
  "crc_loop hi lo ds = (h', l') \<Longrightarrow> crc_word h' l' = foldl crc_byte (crc_word hi lo) ds"
  by (induction ds arbitrary: hi lo) (auto simp: Let_def crc_byte_table)

text \<open>C20. \<open>calcCRC16\<close> with the tables of the source equals the bitwise CRC-16/MODBUS (reflected
  polynomial A001, initial value FFFF) of every byte sequence.\<close>

theorem calcCRC16_correct: "calcCRC16 data = crc16_modbus data"
proof -
  obtain h l where r: "crc_loop 0xFF 0xFF data = (h, l)" by force
  have "crc_word 0xFF 0xFF = 0xFFFF" by (simp add: crc_word_def)
  with crc_loop_bitwise [OF r] r show ?thesis
    by (simp add: calcCRC16_def crc16_modbus_def flip: crc_word_def)
qed

text \<open>Appending the checksum, low byte first, makes the checksum of the whole message 0: the test a
  receiver makes.\<close>

lemma crc_residue: "calcCRC16 (data @ [ucast (calcCRC16 data), ucast (drop_bit 8 (calcCRC16 data))]) = 0"
proof -
  obtain h l where r: "crc_loop 0xFF 0xFF data = (h, l)" by force
  have app: "crc_loop hi lo (xs @ ys) = (case crc_loop hi lo xs of (h, l) \<Rightarrow> crc_loop h l ys)" for hi lo xs ys
    by (induction xs arbitrary: hi lo) (auto simp: Let_def)
  have w: "calcCRC16 data = crc_word h l" using r by (simp add: calcCRC16_def crc_word_def)
  have lo: "ucast (crc_word h l) = l"
    by (rule bit_eqI) (auto simp: bit_ucast_iff crc_word_bit dest: bit_imp_le_length)
  have hi: "ucast (drop_bit 8 (crc_word h l)) = h"
    by (rule bit_eqI) (auto simp: bit_ucast_iff crc_word_bit bit_drop_bit_eq dest: bit_imp_le_length)
  have z: "CRCLoTable ! 0 = 0" "CRCHiTable ! 0 = 0" by (simp_all add: CRCLoTable_def CRCHiTable_def)
  show ?thesis unfolding w lo hi by (simp add: calcCRC16_def app r Let_def z)
qed

end
