(* ===== verification/BufDev.thy ===== *)
theory BufDev
  imports Prelude
begin

text \<open>
  The device buffers of \<open>platform/src/buf.c\<close>: rings of \<open>2^n\<close> elements of 1, 2 or 4 bytes that the
  interrupt side fills and the Lua side empties. The descriptor is the C struct; \<open>bd_buf\<close> is the
  block \<open>buf\<close> points to. The theory shows that a buffer with room is a FIFO of elements, that the
  overflow test lets one element too many in, and that shrinking a buffer in use leaves the write
  pointer outside the new block.
\<close>

section \<open>The code\<close>

record buf_desc =
  bd_logsize :: u8
  bd_wptr :: u16
  bd_rptr :: u16
  bd_count :: u16
  bd_buf :: "byte list option"
  bd_logdsize :: u8

definition BUF_SIZE_NONE :: u8 where "BUF_SIZE_NONE = 0"

text \<open>The macros compute in \<open>int\<close> and the result is stored in a \<open>u16\<close>.\<close>

definition BUF_REALSIZE :: "buf_desc \<Rightarrow> u32" where
  "BUF_REALSIZE p = push_bit (unat (bd_logsize p) - unat (bd_logdsize p)) 1"

definition BUF_BYTESIZE :: "buf_desc \<Rightarrow> u32" where
  "BUF_BYTESIZE p = push_bit (unat (bd_logsize p)) 1"

definition BUF_REALDSIZE :: "buf_desc \<Rightarrow> u32" where
  "BUF_REALDSIZE p = push_bit (unat (bd_logdsize p)) 1"

definition BUF_MOD_INCR :: "buf_desc \<Rightarrow> u16 \<Rightarrow> u16" where
  "BUF_MOD_INCR p m = ucast ((ucast m + push_bit (unat (bd_logdsize p)) 1)
     AND (push_bit (unat (bd_logsize p)) 1 - 1 :: u32))"

text \<open>\<open>block\<close> is what \<open>realloc(pbuf->buf, BUF_BYTESIZE)\<close> returns.\<close>

definition buf_set :: "byte list option \<Rightarrow> u8 \<Rightarrow> u8 \<Rightarrow> buf_desc \<Rightarrow> buf_desc \<times> int" where
  "buf_set block logsize logdsize p =
     (let p1 = p\<lparr>bd_logdsize := logdsize, bd_logsize := logsize + logdsize, bd_buf := block\<rparr>
      in if bd_buf p1 = None then
           (p1\<lparr>bd_logsize := BUF_SIZE_NONE, bd_rptr := 0, bd_wptr := 0, bd_count := 0\<rparr>,
            if logsize \<noteq> BUF_SIZE_NONE then PLATFORM_ERR else PLATFORM_OK)
         else (p1, PLATFORM_OK))"

definition buf_flush :: "buf_desc \<Rightarrow> buf_desc" where
  "buf_flush p = p\<lparr>bd_rptr := 0, bd_wptr := 0, bd_count := 0\<rparr>"

text \<open>The copy of \<open>DUFF_DEVICE_8\<close> between the block and a caller's buffer, inside both.\<close>

definition copy_out :: "byte list \<Rightarrow> nat \<Rightarrow> nat \<Rightarrow> byte list option" where
  "copy_out b at n = (if at + n \<le> length b then Some (take n (drop at b)) else None)"

definition copy_in :: "byte list \<Rightarrow> nat \<Rightarrow> nat \<Rightarrow> byte list \<Rightarrow> byte list option" where
  "copy_in b at n src =
     (if at + n \<le> length b \<and> n \<le> length src
      then Some (take at b @ take n src @ drop (at + n) b) else None)"

definition buf_write :: "byte list \<Rightarrow> buf_desc \<Rightarrow> (buf_desc \<times> int) option" where
  "buf_write data p =
     (if bd_logsize p = BUF_SIZE_NONE then Some (p, PLATFORM_ERR)
      else if BUF_REALSIZE p < ucast (bd_count p) then Some (p, PLATFORM_ERR)
      else
        (case bd_buf p of None \<Rightarrow> None
         | Some b \<Rightarrow>
           (case copy_in b (unat (bd_wptr p)) (unat (BUF_REALDSIZE p)) data of None \<Rightarrow> None
            | Some b' \<Rightarrow>
              Some (p\<lparr>bd_buf := Some b', bd_wptr := BUF_MOD_INCR p (bd_wptr p),
                      bd_count := bd_count p + 1\<rparr>, PLATFORM_OK))))"

definition buf_is_enabled :: "buf_desc \<Rightarrow> bool" where
  "buf_is_enabled p \<longleftrightarrow> bd_logsize p \<noteq> BUF_SIZE_NONE"

definition buf_get_size :: "buf_desc \<Rightarrow> u32" where
  "buf_get_size p = (if bd_logsize p = BUF_SIZE_NONE then 0 else BUF_REALSIZE p)"

definition buf_get_count :: "buf_desc \<Rightarrow> u32" where
  "buf_get_count p = ucast (bd_count p)"

definition buf_read :: "buf_desc \<Rightarrow> (buf_desc \<times> byte list \<times> int) option" where
  "buf_read p =
     (if bd_logsize p = BUF_SIZE_NONE \<or> bd_count p = 0 then Some (p, [], PLATFORM_UNDERFLOW)
      else
        (case bd_buf p of None \<Rightarrow> None
         | Some b \<Rightarrow>
           (case copy_out b (unat (bd_rptr p)) (unat (BUF_REALDSIZE p)) of None \<Rightarrow> None
            | Some d \<Rightarrow>
              Some (p\<lparr>bd_count := bd_count p - 1, bd_rptr := BUF_MOD_INCR p (bd_rptr p)\<rparr>, d,
                    PLATFORM_OK))))"

section \<open>The elements of a buffer\<close>

definition dsize :: "buf_desc \<Rightarrow> nat" where
  "dsize p = 2 ^ unat (bd_logdsize p)"

definition nelems :: "buf_desc \<Rightarrow> nat" where
  "nelems p = 2 ^ (unat (bd_logsize p) - unat (bd_logdsize p))"

definition elem_at :: "nat \<Rightarrow> byte list \<Rightarrow> nat \<Rightarrow> byte list" where
  "elem_at ds b k = take ds (drop (k * ds) b)"

definition buf_shape :: "buf_desc \<Rightarrow> bool" where
  "buf_shape p \<longleftrightarrow> bd_logsize p \<noteq> 0 \<and> unat (bd_logsize p) \<le> 15 \<and> bd_logdsize p \<le> bd_logsize p
     \<and> (\<exists>b. bd_buf p = Some b \<and> length b = 2 ^ unat (bd_logsize p))"

text \<open>\<open>r\<close> and \<open>c\<close>: the index of the oldest element and the number of elements.\<close>

definition buf_inv :: "buf_desc \<Rightarrow> bool" where
  "buf_inv p \<longleftrightarrow> buf_shape p \<and> unat (bd_count p) \<le> nelems p
     \<and> (\<exists>r < nelems p. unat (bd_rptr p) = r * dsize p
          \<and> unat (bd_wptr p) = ((r + unat (bd_count p)) mod nelems p) * dsize p)"

definition buf_elems :: "buf_desc \<Rightarrow> byte list list" where
  "buf_elems p = map (\<lambda>j. elem_at (dsize p) (the (bd_buf p)) ((unat (bd_rptr p) div dsize p + j) mod nelems p))
     [0..<unat (bd_count p)]"

lemma length_buf_elems [simp]: "length (buf_elems p) = unat (bd_count p)"
  by (simp add: buf_elems_def)

lemma sizes:
  assumes "buf_shape p"
  shows "nelems p * dsize p = 2 ^ unat (bd_logsize p)" and "0 < nelems p" and "0 < dsize p"
    and "nelems p \<le> 2 ^ 15" and "dsize p \<le> 2 ^ 15"
    and "unat (BUF_REALSIZE p) = nelems p" and "unat (BUF_REALDSIZE p) = dsize p"
proof -
  let ?l = "unat (bd_logsize p)" and ?d = "unat (bd_logdsize p)"
  have le: "?d \<le> ?l" "?l \<le> 15" using assms by (auto simp: buf_shape_def word_le_nat_alt)
  have pw: "n \<le> 15 \<Longrightarrow> unat (push_bit n 1 :: u32) = 2 ^ n" for n :: nat
  proof -
    assume n: "n \<le> 15"
    then have "(2 :: nat) ^ n < 2 ^ 32" by (intro power_strict_increasing) auto
    then show ?thesis using n
      unfolding unsigned_push_bit_eq by (simp add: take_bit_nat_eq_self)
  qed
  show "nelems p * dsize p = 2 ^ ?l" using le by (simp add: nelems_def dsize_def flip: power_add)
  show "0 < nelems p" "0 < dsize p" by (simp_all add: nelems_def dsize_def)
  show "nelems p \<le> 2 ^ 15" "dsize p \<le> 2 ^ 15"
    using le power_increasing [of "?l - ?d" 15 "2 :: nat"] power_increasing [of ?d 15 "2 :: nat"]
    unfolding nelems_def dsize_def by simp_all
  show "unat (BUF_REALSIZE p) = nelems p" "unat (BUF_REALDSIZE p) = dsize p"
    using le pw unfolding BUF_REALSIZE_def BUF_REALDSIZE_def nelems_def dsize_def by simp_all
qed

text \<open>The pointer step is a step to the next element of the ring.\<close>

lemma mod_incr:
  assumes "buf_shape p" and "unat m = k * dsize p" and "k < nelems p"
  shows "unat (BUF_MOD_INCR p m) = ((k + 1) mod nelems p) * dsize p"
proof -
  let ?l = "unat (bd_logsize p)" and ?d = "unat (bd_logdsize p)"
  have le: "?d \<le> ?l" "?l \<le> 15" using assms(1) by (auto simp: buf_shape_def word_le_nat_alt)
  note s = sizes [OF assms(1)]
  have l15: "(2 :: nat) ^ ?l \<le> 2 ^ 15" using le(2) by (intro power_increasing) auto
  have "k * dsize p < 2 ^ ?l"
    using assms(3) s(1,3) by (metis mult_less_mono1)
  then have small: "unat m + dsize p < 2 ^ 32" using assms(2) s(5) l15 by simp
  have x: "unat (ucast m + push_bit ?d 1 :: u32) = unat m + dsize p"
  proof -
    have "unat (push_bit ?d 1 :: u32) = dsize p" using s(7) by (simp add: BUF_REALDSIZE_def)
    then show ?thesis using small by (simp add: unat_word_ariths)
  qed
  have "unat (ucast ((ucast m + push_bit ?d 1 :: u32) AND (push_bit ?l 1 - 1)) :: u16)
      = unat (take_bit ?l (ucast m + push_bit ?d 1 :: u32))"
  proof -
    have mk: "(push_bit ?l 1 - 1 :: u32) = mask ?l" by (simp add: mask_eq_exp_minus_1 push_bit_eq_mult)
    have "unat (take_bit ?l (ucast m + push_bit ?d 1 :: u32)) < 2 ^ ?l"
      by (simp add: unsigned_take_bit_eq)
    then have "unat (take_bit ?l (ucast m + push_bit ?d 1 :: u32)) < 2 ^ 16" using l15 by simp
    moreover have "min ?l 16 = ?l" using le(2) by simp
    ultimately show ?thesis
      unfolding mk by (simp add: take_bit_eq_mask [symmetric] unsigned_ucast_eq unsigned_take_bit_eq
          take_bit_nat_eq_self)
  qed
  also have "\<dots> = (unat m + dsize p) mod 2 ^ ?l"
    by (subst unsigned_take_bit_eq) (simp only: x take_bit_eq_mod)
  also have "\<dots> = ((k + 1) * dsize p) mod (nelems p * dsize p)"
    by (simp add: assms(2) s(1) add.commute)
  also have "\<dots> = ((k + 1) mod nelems p) * dsize p" by (simp add: mult_mod_left)
  finally show ?thesis by (simp add: BUF_MOD_INCR_def)
qed

text \<open>Storing one element changes that element only.\<close>

lemma elem_at_copy_in:
  assumes "length b = n * ds" and "k < n" and "ds \<le> length src"
  shows "\<exists>b'. copy_in b (k * ds) ds src = Some b' \<and> length b' = length b
    \<and> (\<forall>j < n. elem_at ds b' j = (if j = k then take ds src else elem_at ds b j))"
proof -
  have fit: "k * ds + ds \<le> n * ds" using assms(2) by (metis Suc_leI mult_Suc mult_le_mono1 add.commute)
  let ?b = "take (k * ds) b @ take ds src @ drop (k * ds + ds) b"
  have "elem_at ds ?b j = (if j = k then take ds src else elem_at ds b j)" if j: "j < n" for j
  proof -
    consider "j < k" | "j = k" | "k < j" by linarith
    then show ?thesis
    proof cases
      case 1
      then have "j * ds + ds \<le> k * ds" by (metis Suc_leI mult_Suc mult_le_mono1 add.commute)
      then show ?thesis using 1 fit assms by (simp add: elem_at_def take_drop min_def)
    next
      case 2
      then show ?thesis using fit assms by (simp add: elem_at_def)
    next
      case 3
      then have "k * ds + ds \<le> j * ds" by (metis Suc_leI mult_Suc mult_le_mono1 add.commute)
      then have "drop (j * ds) ?b = drop (j * ds) b" using fit assms 3 by simp
      then show ?thesis using 3 by (simp add: elem_at_def)
    qed
  qed
  then show ?thesis using fit assms by (auto simp: copy_in_def)
qed

section \<open>A buffer with room is a FIFO\<close>

lemma buf_invD:
  assumes "buf_inv p"
  obtains r b where "buf_shape p" "bd_buf p = Some b" "length b = nelems p * dsize p" "r < nelems p"
    "unat (bd_rptr p) = r * dsize p" "unat (bd_rptr p) div dsize p = r"
    "unat (bd_wptr p) = ((r + unat (bd_count p)) mod nelems p) * dsize p" "unat (bd_count p) \<le> nelems p"
    "bd_logsize p \<noteq> BUF_SIZE_NONE"
proof -
  from assms obtain r b where rb: "buf_shape p" "bd_buf p = Some b" "length b = 2 ^ unat (bd_logsize p)" "r < nelems p"
    "unat (bd_rptr p) = r * dsize p" "unat (bd_wptr p) = ((r + unat (bd_count p)) mod nelems p) * dsize p"
    "unat (bd_count p) \<le> nelems p"
    by (auto simp: buf_inv_def buf_shape_def)
  moreover from rb(1) have "bd_logsize p \<noteq> BUF_SIZE_NONE" by (simp add: buf_shape_def BUF_SIZE_NONE_def)
  moreover have "unat (bd_rptr p) div dsize p = r" using rb(5) sizes(3) [OF rb(1)] by simp
  ultimately show ?thesis using that sizes(1) [OF rb(1)] by simp
qed

lemma same_shape:
  assumes "bd_logsize p' = bd_logsize p" and "bd_logdsize p' = bd_logdsize p"
  shows "nelems p' = nelems p" and "dsize p' = dsize p"
  using assms by (simp_all add: nelems_def dsize_def)

lemma buf_write_ok:
  assumes "buf_inv p" and "unat (bd_count p) < nelems p" and "dsize p \<le> length data"
  shows "\<exists>p'. buf_write data p = Some (p', PLATFORM_OK) \<and> buf_inv p' \<and> nelems p' = nelems p \<and> dsize p' = dsize p
    \<and> buf_elems p' = buf_elems p @ [take (dsize p) data]"
proof -
  obtain r b where i: "buf_shape p" "bd_buf p = Some b" "length b = nelems p * dsize p" "r < nelems p"
    "unat (bd_rptr p) = r * dsize p" "unat (bd_rptr p) div dsize p = r"
    "unat (bd_wptr p) = ((r + unat (bd_count p)) mod nelems p) * dsize p" "bd_logsize p \<noteq> BUF_SIZE_NONE"
    using buf_invD [OF assms(1)] by metis
  note sz = sizes [OF i(1)]
  let ?c = "unat (bd_count p)" let ?k = "(r + ?c) mod nelems p"
  have k: "?k < nelems p" using sz(2) by simp
  obtain b' where b': "copy_in b (?k * dsize p) (dsize p) data = Some b'" "length b' = length b"
      "\<forall>j < nelems p. elem_at (dsize p) b' j = (if j = ?k then take (dsize p) data else elem_at (dsize p) b j)"
    using elem_at_copy_in [OF i(3) k assms(3)] by blast
  have room: "\<not> BUF_REALSIZE p < ucast (bd_count p)"
    using assms(2) sz(6) by (simp add: word_less_nat_alt)
  let ?p = "p\<lparr>bd_buf := Some b', bd_wptr := BUF_MOD_INCR p (bd_wptr p), bd_count := bd_count p + 1\<rparr>"
  have run: "buf_write data p = Some (?p, PLATFORM_OK)"
    using i room b'(1) sz(7) by (simp add: buf_write_def)
  have cnt: "unat (bd_count p + 1) = Suc ?c"
    using assms(2) sz(4) by (simp add: unat_word_ariths)
  have w: "unat (BUF_MOD_INCR p (bd_wptr p)) = ((r + Suc ?c) mod nelems p) * dsize p"
    using mod_incr [OF i(1,7) k] by (simp add: mod_Suc_eq)
  have sh: "nelems ?p = nelems p" "dsize ?p = dsize p" by (simp_all add: nelems_def dsize_def)
  have inv': "buf_inv ?p"
    unfolding buf_inv_def sh using i assms(2) cnt w b'(2) by (auto simp: buf_shape_def)
  have "map (\<lambda>j. elem_at (dsize p) b' ((r + j) mod nelems p)) [0..<?c]
      = map (\<lambda>j. elem_at (dsize p) b ((r + j) mod nelems p)) [0..<?c]"
  proof (rule map_cong [OF refl])
    fix j
    assume "j \<in> set [0..<?c]"
    then have j: "j < ?c" by simp
    have "(r + j) mod nelems p \<noteq> ?k"
    proof
      assume "(r + j) mod nelems p = ?k"
      then have "j mod nelems p = ?c mod nelems p" by (simp add: nat_mod_eq_iff)
      then show False using j assms(2) by simp
    qed
    then show "elem_at (dsize p) b' ((r + j) mod nelems p) = elem_at (dsize p) b ((r + j) mod nelems p)"
      using b'(3) sz(2) by simp
  qed
  then have "buf_elems ?p = buf_elems p @ [take (dsize p) data]"
    unfolding buf_elems_def sh using i b'(3) k cnt by simp
  with run inv' sh show ?thesis by blast
qed

lemma buf_read_ok:
  assumes "buf_inv p"
  shows "if buf_elems p = [] then buf_read p = Some (p, [], PLATFORM_UNDERFLOW)
    else \<exists>p'. buf_read p = Some (p', hd (buf_elems p), PLATFORM_OK) \<and> buf_inv p' \<and> nelems p' = nelems p
      \<and> dsize p' = dsize p \<and> buf_elems p' = tl (buf_elems p)"
proof -
  obtain r b where i: "buf_shape p" "bd_buf p = Some b" "length b = nelems p * dsize p" "r < nelems p"
    "unat (bd_rptr p) = r * dsize p" "unat (bd_rptr p) div dsize p = r"
    "unat (bd_wptr p) = ((r + unat (bd_count p)) mod nelems p) * dsize p" "unat (bd_count p) \<le> nelems p"
    "bd_logsize p \<noteq> BUF_SIZE_NONE"
    using buf_invD [OF assms] by metis
  note sz = sizes [OF i(1)]
  have e: "buf_elems p = [] \<longleftrightarrow> bd_count p = 0"
    by (metis length_buf_elems length_0_conv unsigned_0 unsigned_word_eqI)
  show ?thesis
  proof (cases "bd_count p = 0")
    case True
    then show ?thesis using e by (simp add: buf_read_def)
  next
    case False
    then obtain c where c: "unat (bd_count p) = Suc c" by (metis not0_implies_Suc unat_eq_zero)
    let ?p = "p\<lparr>bd_count := bd_count p - 1, bd_rptr := BUF_MOD_INCR p (bd_rptr p)\<rparr>"
    have fit: "r * dsize p + dsize p \<le> length b"
      using i(3,4) by (metis Suc_leI mult_Suc mult_le_mono1 add.commute)
    have el: "buf_elems p = elem_at (dsize p) b r # map (\<lambda>j. elem_at (dsize p) b ((r + Suc j) mod nelems p)) [0..<c]"
    proof -
      have "[0..<Suc c] = 0 # map Suc [0..<c]" by (simp add: map_Suc_upt upt_conv_Cons)
      then show ?thesis unfolding buf_elems_def using i c by (simp del: upt_Suc)
    qed
    have run: "buf_read p = Some (?p, hd (buf_elems p), PLATFORM_OK)"
      using i False fit sz(7) el by (simp add: buf_read_def copy_out_def elem_at_def)
    have cnt: "unat (bd_count p - 1) = c"
      using c False by (simp add: unat_minus_one)
    have rp: "unat (BUF_MOD_INCR p (bd_rptr p)) = ((r + 1) mod nelems p) * dsize p"
      by (rule mod_incr [OF i(1,5,4)])
    have sh: "nelems ?p = nelems p" "dsize ?p = dsize p" by (simp_all add: nelems_def dsize_def)
    have inv': "buf_inv ?p"
      unfolding buf_inv_def sh
      using i rp cnt c sz(2) by (auto simp: buf_shape_def mod_simps intro!: exI [of _ "(r + 1) mod nelems p"])
    have "buf_elems ?p = map (\<lambda>j. elem_at (dsize p) b ((r + Suc j) mod nelems p)) [0..<c]"
      unfolding buf_elems_def sh using i(2) rp cnt sz(3) by (simp add: mod_simps)
    then have "buf_elems ?p = tl (buf_elems p)" by (simp add: el)
    with run inv' sh False e show ?thesis by auto
  qed
qed

datatype buf_op = Write "byte list" | Read

text \<open>A run, and the elements it delivers.\<close>

fun run_buf :: "buf_op list \<Rightarrow> buf_desc \<Rightarrow> (buf_desc \<times> byte list list) option" where
  "run_buf [] p = Some (p, [])"
| "run_buf (Write d # ops) p = (case buf_write d p of None \<Rightarrow> None | Some (p', _) \<Rightarrow> run_buf ops p')"
| "run_buf (Read # ops) p =
     (case buf_read p of None \<Rightarrow> None
      | Some (p', d, r) \<Rightarrow>
        (case run_buf ops p' of None \<Rightarrow> None
         | Some (p'', ds) \<Rightarrow> Some (p'', if r = PLATFORM_OK then d # ds else ds)))"

text \<open>The same run on a list, and the condition that it never exceeds \<open>n\<close> elements.\<close>

fun spec_buf :: "nat \<Rightarrow> buf_op list \<Rightarrow> byte list list \<Rightarrow> byte list list \<times> byte list list" where
  "spec_buf ds [] es = (es, [])"
| "spec_buf ds (Write d # ops) es = spec_buf ds ops (es @ [take ds d])"
| "spec_buf ds (Read # ops) [] = spec_buf ds ops []"
| "spec_buf ds (Read # ops) (e # es) = (case spec_buf ds ops es of (es', out) \<Rightarrow> (es', e # out))"

fun has_room :: "nat \<Rightarrow> nat \<Rightarrow> buf_op list \<Rightarrow> nat \<Rightarrow> bool" where
  "has_room n ds [] c = True"
| "has_room n ds (Write d # ops) c = (c < n \<and> ds \<le> length d \<and> has_room n ds ops (Suc c))"
| "has_room n ds (Read # ops) c = has_room n ds ops (c - 1)"

lemma run_buf_ok:
  "buf_inv p \<Longrightarrow> has_room (nelems p) (dsize p) ops (length (buf_elems p))
    \<Longrightarrow> \<exists>p'. run_buf ops p = Some (p', snd (spec_buf (dsize p) ops (buf_elems p))) \<and> buf_inv p'
      \<and> buf_elems p' = fst (spec_buf (dsize p) ops (buf_elems p))"
proof (induction ops arbitrary: p)
  case Nil
  then show ?case by simp
next
  case (Cons op ops)
  show ?case
  proof (cases op)
    case (Write d)
    with Cons.prems have "unat (bd_count p) < nelems p" "dsize p \<le> length d" by simp_all
    from buf_write_ok [OF Cons.prems(1) this] obtain p' where p': "buf_write d p = Some (p', PLATFORM_OK)" "buf_inv p'"
      "nelems p' = nelems p" "dsize p' = dsize p" "buf_elems p' = buf_elems p @ [take (dsize p) d]" by blast
    have "has_room (nelems p') (dsize p') ops (length (buf_elems p'))"
      using Cons.prems(2) Write p'(3-5) by (simp del: length_buf_elems)
    from Cons.IH [OF p'(2) this] p' Write show ?thesis by auto
  next
    case Read
    show ?thesis
    proof (cases "buf_elems p")
      case Nil
      then have r: "buf_read p = Some (p, [], PLATFORM_UNDERFLOW)" using buf_read_ok [OF Cons.prems(1)] by simp
      from Nil have c: "unat (bd_count p) = 0" by (metis length_buf_elems list.size(3))
      have "has_room (nelems p) (dsize p) ops (length (buf_elems p))"
        using Cons.prems(2) Read c by simp
      from Cons.IH [OF Cons.prems(1) this] r Read Nil show ?thesis
        by (auto simp: PLATFORM_UNDERFLOW_def PLATFORM_OK_def)
    next
      case (Cons e es)
      then obtain p' where p': "buf_read p = Some (p', e, PLATFORM_OK)" "buf_inv p'" "nelems p' = nelems p"
        "dsize p' = dsize p" "buf_elems p' = es" using buf_read_ok [OF Cons.prems(1)] by auto
      have "length (buf_elems p) = Suc (length es)" using local.Cons by simp
      then have "has_room (nelems p') (dsize p') ops (length (buf_elems p'))"
        using Cons.prems(2) Read p'(3-5) by simp
      from Cons.IH [OF p'(2) this] p' Read local.Cons show ?thesis by (auto split: prod.splits)
    qed
  qed
qed

text \<open>C25. A device buffer is a FIFO: any sequence of writes and reads that never has more than
  \<open>BUF_REALSIZE\<close> elements outstanding stays inside the block and delivers the elements written, whole
  and in order, for every element size.\<close>

theorem buf_fifo:
  assumes "buf_inv p" and "has_room (nelems p) (dsize p) ops (length (buf_elems p))"
  shows "\<exists>p'. run_buf ops p = Some (p', snd (spec_buf (dsize p) ops (buf_elems p)))
    \<and> buf_inv p' \<and> buf_elems p' = fst (spec_buf (dsize p) ops (buf_elems p))"
  using assms by (rule run_buf_ok)

text \<open>A two-element buffer of 16-bit elements.\<close>

definition buf2 :: buf_desc where
  "buf2 = \<lparr>bd_logsize = 2, bd_wptr = 0, bd_rptr = 0, bd_count = 0, bd_buf = Some [0, 0, 0, 0], bd_logdsize = 1\<rparr>"

lemma buf2_inv: "buf_inv buf2" "nelems buf2 = 2" "dsize buf2 = 2" "buf_elems buf2 = []"
  by (auto simp: buf_inv_def buf_shape_def buf2_def nelems_def dsize_def buf_elems_def word_le_nat_alt
      intro!: exI [of _ 0])

lemma buf_fifo_witness:
  "\<exists>p'. run_buf [Write [1, 2], Write [3, 4], Read, Write [5, 6], Read, Read] buf2
    = Some (p', [[1, 2], [3, 4], [5, 6]])"
  using buf_fifo [OF buf2_inv(1), of "[Write [1, 2], Write [3, 4], Read, Write [5, 6], Read, Read]"]
  by (simp add: buf2_inv) blast

section \<open>Where it is not\<close>

text \<open>The overflow test of \<open>buf_write\<close> is off by one: a buffer that holds exactly \<open>BUF_REALSIZE\<close>
  elements accepts one more, reports PLATFORM_OK, overwrites the oldest element and counts more elements
  than fit; the next write is refused.\<close>

lemma buf_write_overrun:
  assumes "buf_inv p" and "unat (bd_count p) = nelems p" and "dsize p \<le> length data" and "dsize p \<le> length data'"
  shows "\<exists>p'. buf_write data p = Some (p', PLATFORM_OK) \<and> unat (bd_count p') = nelems p' + 1
    \<and> hd (buf_elems p') = take (dsize p) data \<and> buf_write data' p' = Some (p', PLATFORM_ERR)"
proof -
  obtain r b where i: "buf_shape p" "bd_buf p = Some b" "length b = nelems p * dsize p" "r < nelems p"
    "unat (bd_rptr p) = r * dsize p" "unat (bd_rptr p) div dsize p = r"
    "unat (bd_wptr p) = ((r + unat (bd_count p)) mod nelems p) * dsize p" "bd_logsize p \<noteq> BUF_SIZE_NONE"
    using buf_invD [OF assms(1)] by metis
  note sz = sizes [OF i(1)]
  have w: "unat (bd_wptr p) = r * dsize p" using i(4,7) assms(2) by simp
  obtain b' where b': "copy_in b (r * dsize p) (dsize p) data = Some b'"
      "\<forall>j < nelems p. elem_at (dsize p) b' j = (if j = r then take (dsize p) data else elem_at (dsize p) b j)"
    using elem_at_copy_in [OF i(3,4) assms(3)] by blast
  let ?p = "p\<lparr>bd_buf := Some b', bd_wptr := BUF_MOD_INCR p (bd_wptr p), bd_count := bd_count p + 1\<rparr>"
  have run: "buf_write data p = Some (?p, PLATFORM_OK)"
    using i w b'(1) sz(6,7) assms(2) by (simp add: buf_write_def word_less_nat_alt)
  have cnt: "unat (bd_count p + 1) = Suc (nelems p)"
    using assms(2) sz(4) by (simp add: unat_word_ariths)
  have sh: "nelems ?p = nelems p" "dsize ?p = dsize p" "BUF_REALSIZE ?p = BUF_REALSIZE p"
    by (simp_all add: nelems_def dsize_def BUF_REALSIZE_def)
  have "buf_elems ?p = elem_at (dsize p) b' r # map (\<lambda>j. elem_at (dsize p) b' ((r + j) mod nelems p)) [1..<Suc (nelems p)]"
    unfolding buf_elems_def sh using i(4,6) cnt sz(2) by (simp add: upt_conv_Cons del: upt_Suc)
  then have h: "hd (buf_elems ?p) = take (dsize p) data" using b'(2) i(4) by simp
  have "buf_write data' ?p = Some (?p, PLATFORM_ERR)"
    using i(8) cnt sz(6) sh(3) by (simp add: buf_write_def word_less_nat_alt)
  with run cnt h sh show ?thesis by auto
qed

definition buf2_full :: buf_desc where
  "buf2_full = buf2\<lparr>bd_count := 2, bd_buf := Some [1, 2, 3, 4]\<rparr>"

lemma buf_write_overrun_witness:
  "\<exists>p'. buf_write [5, 6] buf2_full = Some (p', PLATFORM_OK) \<and> hd (buf_elems p') = [5, 6]"
proof -
  have "buf_inv buf2_full" "unat (bd_count buf2_full) = nelems buf2_full" "dsize buf2_full = 2"
    by (auto simp: buf_inv_def buf_shape_def buf2_full_def buf2_def nelems_def dsize_def word_le_nat_alt
        intro!: exI [of _ 0])
  from buf_write_overrun [OF this(1,2), of "[5, 6]" "[7, 8]"] this(3) show ?thesis by auto
qed

text \<open>\<open>buf_set\<close> keeps the pointers of the buffer it resizes: after shrinking a buffer whose write
  pointer lies in the part given up, the next write is outside the new block.\<close>

lemma buf_set_shrink_fault:
  assumes "length blk = 2 ^ unat (logsize + bd_logdsize p)" and "bd_logdsize p \<le> 2" and "logsize + bd_logdsize p \<noteq> 0"
    and "2 ^ unat (logsize + bd_logdsize p) \<le> unat (bd_wptr p)" and "bd_count p = 0"
  shows "\<exists>p'. buf_set (Some blk) logsize (bd_logdsize p) p = (p', PLATFORM_OK) \<and> buf_write data p' = None"
proof -
  let ?p = "p\<lparr>bd_logsize := logsize + bd_logdsize p, bd_buf := Some blk\<rparr>"
  have "unat (bd_logdsize p) \<le> 2" using assms(2) by (simp add: word_le_nat_alt)
  then consider "unat (bd_logdsize p) = 0" | "unat (bd_logdsize p) = 1" | "unat (bd_logdsize p) = 2" by linarith
  then have "0 < unat (BUF_REALDSIZE ?p)" by cases (simp_all add: BUF_REALDSIZE_def)
  then show ?thesis
    using assms by (auto simp: buf_set_def buf_write_def copy_in_def BUF_SIZE_NONE_def word_less_nat_alt)
qed

definition buf4 :: buf_desc where
  "buf4 = \<lparr>bd_logsize = 2, bd_wptr = 3, bd_rptr = 3, bd_count = 0, bd_buf = Some [0, 0, 0, 0], bd_logdsize = 0\<rparr>"

lemma buf_set_shrink_fault_witness:
  "\<exists>p'. buf_set (Some [0, 0]) 1 0 buf4 = (p', PLATFORM_OK) \<and> buf_write [9] p' = None"
  using buf_set_shrink_fault [of "[0, 0]" 1 buf4 "[9]"] by (simp add: buf4_def)

end
