(* ===== verification/Bitarray.thy ===== *)
theory Bitarray
  imports Prelude
begin

text \<open>
  The Lua module \<open>bitarray\<close> (\<open>modules/src/bitarray.c\<close>): arrays of 1, 2, 4, 8, 16 or 32-bit
  elements packed in bytes. The arguments are modelled after the Lua stack has been read
  (\<open>ba_init\<close>); \<open>Inl\<close> is a \<open>luaL_error\<close>, and \<open>None\<close> an access outside the
  \<open>values\<close> of the array or a division by zero. The theory shows which stores a later load sees, and
  when a new array is safe to index.
\<close>

section \<open>The code\<close>

record bitarray =
  ba_capacity :: u32
  ba_elsize :: u8
  ba_values :: "byte list"

datatype lua_error = InvalidElementSize | InvalidArguments | InvalidIndex | NotMultiple | InvalidMode | ElementTooLarge

text \<open>First argument of \<open>new\<close>: a capacity with the optional fill value, a string, or a table.\<close>

datatype ba_init = Capacity u32 "int option" | Bytes "byte list" | Table "int list" | OtherArg

definition ROUND_SIZE :: "u32 \<Rightarrow> u32" where
  "ROUND_SIZE s = drop_bit 3 s + (if s AND 7 \<noteq> 0 then 1 else 0)"

definition bitarray_index_shift :: "nat list" where
  "bitarray_index_shift = [0, 3, 2, 0, 1]"

definition bitarray_index_mask :: "u32 list" where
  "bitarray_index_mask = [0, 0x01, 0x03, 0, 0x0F]"

text \<open>The checks and the allocation behind the argument decoding; the fresh block is filled by \<open>ini\<close>.\<close>

definition new_array :: "u32 \<Rightarrow> u8 \<Rightarrow> (nat \<Rightarrow> byte list option) \<Rightarrow> (lua_error + bitarray) option" where
  "new_array capacity elsize ini =
     (if elsize = 0 \<or> elsize > 32 \<or> elsize AND (elsize - 1) \<noteq> 0 then Some (Inl InvalidElementSize)
      else
        let total = ROUND_SIZE (capacity * ucast elsize) in
        if total = 0 then Some (Inl InvalidArguments)
        else (case ini (unat total) of None \<Rightarrow> None
          | Some bs \<Rightarrow> Some (Inr \<lparr>ba_capacity = capacity, ba_elsize = elsize, ba_values = bs\<rparr>)))"

text \<open>A string or a table gives the capacity; \<open>memcpy\<close> or the loop stores its bytes.\<close>

definition sized_array :: "u8 \<Rightarrow> byte list \<Rightarrow> (lua_error + bitarray) option" where
  "sized_array elsize src =
     (let bits = push_bit 3 (of_nat (length src)) in
      if elsize = 0 then None
      else if bits mod ucast elsize \<noteq> 0 then Some (Inl NotMultiple)
      else new_array (bits div ucast elsize) elsize
             (\<lambda>total. if total < length src then None
                       else Some (src @ replicate (total - length src) 0)))"

definition bitarray_new :: "ba_init \<Rightarrow> int option \<Rightarrow> (lua_error + bitarray) option" where
  "bitarray_new arg1 arg2 =
     (let elsize = (case arg2 of Some n \<Rightarrow> word_of_int n | None \<Rightarrow> 8) in
      case arg1 of
        Capacity capacity fill \<Rightarrow>
          new_array capacity elsize
            (\<lambda>total. Some (replicate total (case fill of Some n \<Rightarrow> word_of_int n | None \<Rightarrow> 0)))
      | Bytes buf \<Rightarrow> sized_array elsize buf
      | Table xs \<Rightarrow> sized_array elsize (map word_of_int xs)
      | OtherArg \<Rightarrow> Some (Inl InvalidArguments))"

text \<open>The element loads and stores; \<open>idx\<close> counts from 1.\<close>

definition load :: "byte list \<Rightarrow> nat \<Rightarrow> byte option" where
  "load bs i = (if i < length bs then Some (bs ! i) else None)"

text \<open>\<open>n\<close> bytes at \<open>i\<close>, least significant first.\<close>

fun load_le :: "byte list \<Rightarrow> nat \<Rightarrow> nat \<Rightarrow> u32 option" where
  "load_le bs i 0 = Some 0"
| "load_le bs i (Suc n) =
     (case load bs i of None \<Rightarrow> None
      | Some b \<Rightarrow> map_option (\<lambda>v. ucast b OR push_bit 8 v) (load_le bs (Suc i) n))"

fun store_le :: "byte list \<Rightarrow> nat \<Rightarrow> nat \<Rightarrow> u32 \<Rightarrow> byte list option" where
  "store_le bs i 0 v = Some bs"
| "store_le bs i (Suc n) v =
     (if i < length bs then store_le (bs[i := ucast v]) (Suc i) n (drop_bit 8 v) else None)"

text \<open>The bit position of element \<open>idx\<close> (from 0) in its byte: the first element is the highest.\<close>

definition sub_pos :: "nat \<Rightarrow> u32 \<Rightarrow> nat" where
  "sub_pos es idx =
     (let mask = push_bit (bitarray_index_shift ! es) 1 :: u8; rest = ucast idx AND (mask - 1)
      in (unat mask - 1 - unat rest) * es)"

definition bitarray_getval :: "bitarray \<Rightarrow> u32 \<Rightarrow> u32 option" where
  "bitarray_getval pa idx1 =
     (let idx = idx1 - 1; es = unat (ba_elsize pa) in
      if es < 8 then
        (if length bitarray_index_shift \<le> es then None
         else
           let shift = drop_bit (bitarray_index_shift ! es) idx in
           (case load (ba_values pa) (unat shift) of None \<Rightarrow> None
            | Some val \<Rightarrow> Some (drop_bit (sub_pos es idx) (ucast val) AND bitarray_index_mask ! es)))
      else if es = 8 then load_le (ba_values pa) (unat idx) 1
      else if es = 16 then load_le (ba_values pa) (2 * unat idx) 2
      else if es = 32 then load_le (ba_values pa) (4 * unat idx) 4
      else Some 0)"

definition bitarray_get :: "bitarray \<Rightarrow> u32 \<Rightarrow> (lua_error + u32) option" where
  "bitarray_get pa idx =
     (if idx = 0 \<or> ba_capacity pa < idx then Some (Inl InvalidIndex)
      else map_option Inr (bitarray_getval pa idx))"

text \<open>For elements of a byte or more the code stores \<open>val\<close>, which is still 0.\<close>

definition bitarray_set :: "bitarray \<Rightarrow> u32 \<Rightarrow> u32 \<Rightarrow> (lua_error + bitarray) option" where
  "bitarray_set pa idx1 newval =
     (if idx1 = 0 \<or> ba_capacity pa < idx1 then Some (Inl InvalidIndex)
      else
        let idx = idx1 - 1; es = unat (ba_elsize pa); val = 0 in
        if es < 8 then
          (if length bitarray_index_shift \<le> es then None
           else
             let shift = unat (drop_bit (bitarray_index_shift ! es) idx) in
             (case load (ba_values pa) shift of None \<Rightarrow> None
              | Some b \<Rightarrow>
                let v1 = ucast b AND NOT (push_bit (sub_pos es idx) (bitarray_index_mask ! es));
                    v2 = v1 OR push_bit (sub_pos es idx) newval
                in Some (Inr (pa\<lparr>ba_values := (ba_values pa)[shift := ucast v2]\<rparr>))))
        else
          map_option (\<lambda>bs. Inr (pa\<lparr>ba_values := bs\<rparr>))
            (if es = 8 then store_le (ba_values pa) (unat idx) 1 val
             else if es = 16 then store_le (ba_values pa) (2 * unat idx) 2 val
             else if es = 32 then store_le (ba_values pa) (4 * unat idx) 4 val
             else Some (ba_values pa)))"

definition bitarray_len :: "bitarray \<Rightarrow> u32" where
  "bitarray_len pa = ba_capacity pa"

definition bitarray_iter :: "bitarray \<Rightarrow> u32 \<Rightarrow> (u32 \<times> u32) option option" where
  "bitarray_iter pa i =
     (let idx = i + 1
      in if idx \<le> ba_capacity pa then map_option (\<lambda>v. Some (idx, v)) (bitarray_getval pa idx) else Some None)"

datatype unpack_mode = Raw | Seq | OtherMode

text \<open>The loop \<open>for(idx = 1; idx <= capacity; idx++)\<close>; \<open>k\<close> elements are left.\<close>

fun getvals :: "bitarray \<Rightarrow> u32 \<Rightarrow> nat \<Rightarrow> u32 list option" where
  "getvals pa idx 0 = Some []"
| "getvals pa idx (Suc k) =
     (case bitarray_getval pa idx of None \<Rightarrow> None
      | Some v \<Rightarrow> map_option (\<lambda>vs. v # vs) (getvals pa (idx + 1) k))"

definition raw_size :: "bitarray \<Rightarrow> nat" where
  "raw_size pa = unat (ROUND_SIZE (ba_capacity pa * ucast (ba_elsize pa)))"

definition raw_bytes :: "bitarray \<Rightarrow> byte list option" where
  "raw_bytes pa = (if raw_size pa \<le> length (ba_values pa) then Some (take (raw_size pa) (ba_values pa)) else None)"

definition bitarray_tostring :: "bitarray \<Rightarrow> unpack_mode option \<Rightarrow> (lua_error + byte list) option" where
  "bitarray_tostring pa m =
     (let mode = (case m of None \<Rightarrow> Seq | Some x \<Rightarrow> x) in
      if mode = OtherMode then Some (Inl InvalidMode)
      else if mode = Seq \<and> ba_elsize pa > 8 then Some (Inl ElementTooLarge)
      else if mode = Seq then map_option (\<lambda>vs. Inr (map ucast vs)) (getvals pa 1 (unat (ba_capacity pa)))
      else map_option Inr (raw_bytes pa))"

definition bitarray_totable :: "bitarray \<Rightarrow> unpack_mode option \<Rightarrow> (lua_error + u32 list) option" where
  "bitarray_totable pa m =
     (let mode = (case m of None \<Rightarrow> Seq | Some x \<Rightarrow> x) in
      if mode = OtherMode then Some (Inl InvalidMode)
      else if mode = Seq \<and> ba_elsize pa > 8 then Some (Inl ElementTooLarge)
      else if mode = Seq then map_option Inr (getvals pa 1 (unat (ba_capacity pa)))
      else map_option (\<lambda>bs. Inr (map ucast bs)) (raw_bytes pa))"

section \<open>Well-formed arrays\<close>

definition elsize_ok :: "u8 \<Rightarrow> bool" where
  "elsize_ok es \<longleftrightarrow> es \<in> {1, 2, 4, 8, 16, 32}"

definition ba_wf :: "bitarray \<Rightarrow> bool" where
  "ba_wf pa \<longleftrightarrow> elsize_ok (ba_elsize pa)
     \<and> unat (ba_capacity pa) * unat (ba_elsize pa) \<le> 8 * length (ba_values pa)"

lemma elsize_pow2:
  assumes "elsize \<noteq> 0" and "\<not> elsize > 32" and "elsize AND (elsize - 1) = 0"
  shows "elsize_ok elsize"
proof -
  have "\<forall>n \<le> 32. n \<noteq> 0 \<longrightarrow> (of_nat n :: u8) AND (of_nat n - 1) = 0 \<longrightarrow> elsize_ok (of_nat n)"
    by (simp add: elsize_ok_def numeral_eq_Suc all_conj_distrib le_Suc_eq)
  moreover have "unat elsize \<le> 32" using assms(2) by (simp add: word_le_nat_alt not_less)
  moreover have "of_nat (unat elsize) = elsize" by simp
  ultimately show ?thesis using assms by (metis unat_eq_zero)
qed

section \<open>Whole bytes\<close>

lemma load_le_total: "i + n \<le> length bs \<Longrightarrow> \<exists>v. load_le bs i n = Some v"
proof (induction n arbitrary: i)
  case 0
  then show ?case by simp
next
  case (Suc n)
  then have "\<exists>v. load_le bs (Suc i) n = Some v" by simp
  with Suc.prems show ?case by (auto simp: load_def)
qed

lemma load_le_cong:
  "(\<And>j. i \<le> j \<Longrightarrow> j < i + n \<Longrightarrow> bs ! j = bs' ! j) \<Longrightarrow> length bs = length bs' \<Longrightarrow> load_le bs i n = load_le bs' i n"
proof (induction n arbitrary: i)
  case 0
  then show ?case by simp
next
  case (Suc n)
  have "load_le bs (Suc i) n = load_le bs' (Suc i) n" using Suc.prems by (intro Suc.IH) auto
  moreover have "load bs i = load bs' i" using Suc.prems by (simp add: load_def)
  ultimately show ?case by (simp add: split: option.splits)
qed

lemma load_le_zero: "(\<And>j. i \<le> j \<Longrightarrow> j < i + n \<Longrightarrow> bs ! j = 0) \<Longrightarrow> i + n \<le> length bs \<Longrightarrow> load_le bs i n = Some 0"
proof (induction n arbitrary: i)
  case 0
  then show ?case by simp
next
  case (Suc n)
  then have "load_le bs (Suc i) n = Some 0" by (intro Suc.IH) auto
  with Suc.prems show ?case by (simp add: load_def)
qed

lemma store_le_zero:
  "i + n \<le> length bs \<Longrightarrow> \<exists>bs'. store_le bs i n 0 = Some bs' \<and> length bs' = length bs
    \<and> (\<forall>j. bs' ! j = (if i \<le> j \<and> j < i + n then 0 else bs ! j))"
proof (induction n arbitrary: bs i)
  case 0
  then show ?case by auto
next
  case (Suc n)
  then have "Suc i + n \<le> length (bs[i := 0])" by simp
  from Suc.IH [OF this] obtain bs' where "store_le (bs[i := 0]) (Suc i) n 0 = Some bs'" "length bs' = length bs"
    "\<forall>j. bs' ! j = (if Suc i \<le> j \<and> j < Suc i + n then 0 else bs[i := 0] ! j)" by auto
  with Suc.prems show ?case by (auto simp: nth_list_update)
qed

section \<open>Parts of a byte\<close>

abbreviation sub_size :: "nat \<Rightarrow> bool" where
  "sub_size es \<equiv> es = 1 \<or> es = 2 \<or> es = 4"

lemma index_tables:
  assumes "sub_size es"
  shows "es < length bitarray_index_shift" and "2 ^ (bitarray_index_shift ! es) = 8 div es"
    and "bitarray_index_mask ! es = mask es"
  using assms by (auto simp: bitarray_index_shift_def bitarray_index_mask_def mask_eq_exp_minus_1)

lemma sub_shift: "sub_size es \<Longrightarrow> unat (drop_bit (bitarray_index_shift ! es) (idx :: u32)) = unat idx div (8 div es)"
  by (subst unat_drop_bit_eq) (simp only: drop_bit_eq_div index_tables(2))

lemma sub_pos_eq:
  assumes "sub_size es"
  shows "sub_pos es idx = (8 div es - 1 - unat idx mod (8 div es)) * es"
proof -
  have "unat (ucast idx AND mask n :: u8) = unat idx mod 2 ^ n" if "n \<le> 8" for n
  proof -
    have "unat (ucast idx AND mask n :: u8) = take_bit n (unat (ucast idx :: u8))"
      by (simp add: unsigned_take_bit_eq flip: take_bit_eq_mask)
    also have "\<dots> = take_bit n (unat idx)"
      using that by (simp add: unsigned_ucast_eq unsigned_take_bit_eq)
    finally show ?thesis by (simp add: take_bit_eq_mod)
  qed
  from this [of 3] this [of 2] this [of 1] show ?thesis
    using assms by (auto simp: sub_pos_def Let_def bitarray_index_shift_def mask_eq_exp_minus_1)
qed

definition sub_get :: "nat \<Rightarrow> nat \<Rightarrow> byte \<Rightarrow> u32" where
  "sub_get es p b = drop_bit p (ucast b) AND mask es"

definition sub_put :: "nat \<Rightarrow> nat \<Rightarrow> u32 \<Rightarrow> byte \<Rightarrow> byte" where
  "sub_put es p v b = ucast (ucast b AND NOT (push_bit p (mask es)) OR push_bit p v :: u32)"

lemma bit_sub_get: "es \<le> 8 \<Longrightarrow> bit (sub_get es p b) n \<longleftrightarrow> n < es \<and> bit b (p + n)"
  by (auto simp: sub_get_def bit_and_iff bit_drop_bit_eq bit_ucast_iff bit_mask_iff dest: bit_imp_le_length)

lemma small_bits:
  assumes "(v :: u32) < push_bit es 1" and "bit v k"
  shows "k < es"
proof -
  have "unat (push_bit es 1 :: u32) \<le> 2 ^ es"
    unfolding unsigned_push_bit_eq by (simp add: take_bit_eq_mod)
  then have "(2 :: nat) ^ k < 2 ^ es"
    using bit_imp_ge [OF assms(2)] assms(1) unfolding word_less_nat_alt by linarith
  then show ?thesis by (rule nat_power_less_imp_less [rotated]) simp
qed

lemma bit_sub_put:
  assumes "p + es \<le> 8" and "v < push_bit es 1"
  shows "bit (sub_put es p v b) n \<longleftrightarrow> (if p \<le> n \<and> n < p + es then bit v (n - p) else bit b n)"
proof -
  have "bit b n \<Longrightarrow> n < 8" by (auto dest: bit_imp_le_length)
  moreover have "bit v (n - p) \<Longrightarrow> n < p + es" using small_bits [OF assms(2), of "n - p"] by simp
  ultimately show ?thesis
    using assms(1)
    by (auto simp: sub_put_def bit_ucast_iff bit_or_iff bit_and_iff bit_not_iff bit_push_bit_iff bit_mask_iff)
qed

lemma sub_get_put:
  assumes "p + es \<le> 8" and "v < push_bit es 1"
  shows "sub_get es p (sub_put es p v b) = v"
    and "q + es \<le> p \<or> p + es \<le> q \<Longrightarrow> sub_get es q (sub_put es p v b) = sub_get es q b"
proof -
  have es: "es \<le> 8" using assms(1) by simp
  show "sub_get es p (sub_put es p v b) = v"
    by (rule bit_eqI) (auto simp: bit_sub_get [OF es] bit_sub_put [OF assms] dest: small_bits [OF assms(2)])
  show "sub_get es q (sub_put es p v b) = sub_get es q b" if "q + es \<le> p \<or> p + es \<le> q"
    using that by (intro bit_eqI) (auto simp: bit_sub_get [OF es] bit_sub_put [OF assms])
qed

section \<open>Loads after stores\<close>

lemma unat_pred: "idx \<noteq> 0 \<Longrightarrow> unat (idx - 1 :: u32) = unat idx - 1"
  by (rule unat_minus_one)

lemma getval_sub:
  assumes "sub_size (unat (ba_elsize pa))" and "unat (idx - 1) div (8 div unat (ba_elsize pa)) < length (ba_values pa)"
  shows "bitarray_getval pa idx = Some (sub_get (unat (ba_elsize pa)) (sub_pos (unat (ba_elsize pa)) (idx - 1))
    (ba_values pa ! (unat (idx - 1) div (8 div unat (ba_elsize pa)))))"
proof -
  have "unat (ba_elsize pa) < 8" using assms(1) by auto
  then show ?thesis
    using assms(2) index_tables [OF assms(1)] sub_shift [OF assms(1)]
    by (simp add: bitarray_getval_def Let_def load_def sub_get_def not_le)
qed

lemma set_sub:
  assumes "sub_size (unat (ba_elsize pa))" and "unat (idx - 1) div (8 div unat (ba_elsize pa)) < length (ba_values pa)"
    and "idx \<noteq> 0" and "\<not> ba_capacity pa < idx"
  shows "bitarray_set pa idx v = Some (Inr (pa\<lparr>ba_values := (ba_values pa)
    [unat (idx - 1) div (8 div unat (ba_elsize pa)) := sub_put (unat (ba_elsize pa))
       (sub_pos (unat (ba_elsize pa)) (idx - 1)) v (ba_values pa ! (unat (idx - 1) div (8 div unat (ba_elsize pa))))]\<rparr>))"
proof -
  have "unat (ba_elsize pa) < 8" using assms(1) by auto
  then show ?thesis
    using assms(2-4) index_tables [OF assms(1)] sub_shift [OF assms(1)]
    by (simp add: bitarray_set_def Let_def load_def sub_put_def not_le)
qed

lemma sub_in_range:
  assumes "ba_wf pa" and "sub_size (unat (ba_elsize pa))" and "idx \<noteq> 0" and "idx \<le> ba_capacity pa"
  shows "unat (idx - 1) div (8 div unat (ba_elsize pa)) < length (ba_values pa)"
proof -
  have "unat idx \<le> unat (ba_capacity pa)" using assms(4) by (simp add: word_le_nat_alt)
  moreover have "0 < unat idx" using assms(3) by (simp add: unat_gt_0)
  moreover have "unat (ba_capacity pa) * unat (ba_elsize pa) \<le> 8 * length (ba_values pa)"
    using assms(1) by (simp add: ba_wf_def)
  ultimately show ?thesis using assms(2) by (auto simp: unat_pred [OF assms(3)])
qed

abbreviation whole_size :: "nat \<Rightarrow> bool" where
  "whole_size es \<equiv> es = 8 \<or> es = 16 \<or> es = 32"

lemma elsize_cases: "elsize_ok es \<Longrightarrow> sub_size (unat es) \<or> whole_size (unat es)"
  by (auto simp: elsize_ok_def)

lemma getval_whole:
  "whole_size (unat (ba_elsize pa)) \<Longrightarrow>
    bitarray_getval pa idx = load_le (ba_values pa) (unat (ba_elsize pa) div 8 * unat (idx - 1)) (unat (ba_elsize pa) div 8)"
  by (auto simp: bitarray_getval_def Let_def)

lemma set_whole:
  "whole_size (unat (ba_elsize pa)) \<Longrightarrow> idx \<noteq> 0 \<Longrightarrow> \<not> ba_capacity pa < idx \<Longrightarrow>
    bitarray_set pa idx v = map_option (\<lambda>bs. Inr (pa\<lparr>ba_values := bs\<rparr>))
      (store_le (ba_values pa) (unat (ba_elsize pa) div 8 * unat (idx - 1)) (unat (ba_elsize pa) div 8) 0)"
  by (auto simp: bitarray_set_def Let_def)

lemma whole_in_range:
  assumes "ba_wf pa" and "whole_size (unat (ba_elsize pa))" and "idx \<noteq> 0" and "idx \<le> ba_capacity pa"
  shows "unat (ba_elsize pa) div 8 * unat (idx - 1) + unat (ba_elsize pa) div 8 \<le> length (ba_values pa)"
proof -
  have "unat idx \<le> unat (ba_capacity pa)" using assms(4) by (simp add: word_le_nat_alt)
  moreover have "0 < unat idx" using assms(3) by (simp add: unat_gt_0)
  moreover have "unat (ba_capacity pa) * unat (ba_elsize pa) \<le> 8 * length (ba_values pa)"
    using assms(1) by (simp add: ba_wf_def)
  ultimately show ?thesis using assms(2) by (auto simp: unat_pred [OF assms(3)])
qed

lemma getval_total:
  assumes "ba_wf pa" and "idx \<noteq> 0" and "idx \<le> ba_capacity pa"
  shows "\<exists>v. bitarray_getval pa idx = Some v"
proof -
  have "elsize_ok (ba_elsize pa)" using assms(1) by (simp add: ba_wf_def)
  then consider "sub_size (unat (ba_elsize pa))" | "whole_size (unat (ba_elsize pa))" using elsize_cases by blast
  then show ?thesis
    by cases (use getval_sub sub_in_range [OF assms(1) _ assms(2,3)] getval_whole load_le_total
        whole_in_range [OF assms(1) _ assms(2,3)] in metis)+
qed

lemma idx_neq: "i \<noteq> 0 \<Longrightarrow> j \<noteq> 0 \<Longrightarrow> i \<noteq> j \<Longrightarrow> unat (i - 1 :: u32) \<noteq> unat (j - 1)"
  by (metis diff_eq_eq unsigned_word_eqI)

lemma slots_apart:
  assumes "a < b" and "b < (n :: nat)"
  shows "(n - 1 - b) * es + es \<le> (n - 1 - a) * es"
proof -
  have "Suc (n - 1 - b) \<le> n - 1 - a" using assms by linarith
  then have "Suc (n - 1 - b) * es \<le> (n - 1 - a) * es" by (rule mult_le_mono1)
  then show ?thesis by simp
qed

lemma sub_slots:
  assumes "sub_size es" and "unat i div (8 div es) = unat j div (8 div es)" and "unat i \<noteq> unat j"
  shows "sub_pos es i + es \<le> sub_pos es j \<or> sub_pos es j + es \<le> sub_pos es i"
proof -
  have "unat i mod (8 div es) \<noteq> unat j mod (8 div es)" using assms(2,3) by (metis div_mult_mod_eq)
  moreover have "unat i mod (8 div es) < 8 div es" "unat j mod (8 div es) < 8 div es"
    using assms(1) by auto
  ultimately show ?thesis
    unfolding sub_pos_eq [OF assms(1)] using slots_apart by (metis linorder_neqE_nat)
qed

lemma sub_pos_fits: "sub_size es \<Longrightarrow> sub_pos es i + es \<le> 8"
  by (auto simp: sub_pos_eq)

lemma set_get_sub:
  assumes wf: "ba_wf pa" and sub: "sub_size (unat (ba_elsize pa))" and i: "idx \<noteq> 0" "idx \<le> ba_capacity pa"
    and v: "v < push_bit (unat (ba_elsize pa)) 1"
  shows "\<exists>pa'. bitarray_set pa idx v = Some (Inr pa') \<and> ba_wf pa' \<and> ba_capacity pa' = ba_capacity pa
    \<and> (\<forall>j. j \<noteq> 0 \<and> j \<le> ba_capacity pa \<longrightarrow>
          bitarray_getval pa' j = (if j = idx then Some v else bitarray_getval pa j))"
proof -
  let ?es = "unat (ba_elsize pa)"
  let ?k = "\<lambda>j. unat (j - 1) div (8 div ?es)"
  let ?pa = "pa\<lparr>ba_values := (ba_values pa)[?k idx := sub_put ?es (sub_pos ?es (idx - 1)) v (ba_values pa ! ?k idx)]\<rparr>"
  have run: "bitarray_set pa idx v = Some (Inr ?pa)"
    using set_sub [OF sub sub_in_range [OF wf sub i] i(1), of v] i(2) by (simp add: not_less)
  have wf': "ba_wf ?pa" using wf by (simp add: ba_wf_def)
  have "bitarray_getval ?pa j = (if j = idx then Some v else bitarray_getval pa j)" if j: "j \<noteq> 0" "j \<le> ba_capacity pa" for j
  proof -
    note rj = sub_in_range [OF wf sub j]
    have g: "bitarray_getval pa j = Some (sub_get ?es (sub_pos ?es (j - 1)) (ba_values pa ! ?k j))"
      by (rule getval_sub [OF sub rj])
    have g': "bitarray_getval ?pa j = Some (sub_get ?es (sub_pos ?es (j - 1)) (ba_values ?pa ! ?k j))"
      using getval_sub [of ?pa j] sub rj by simp
    note fit = sub_pos_fits [OF sub, of "idx - 1"]
    consider "j = idx" | "j \<noteq> idx" "?k j = ?k idx" | "j \<noteq> idx" "?k j \<noteq> ?k idx" by blast
    then show ?thesis
    proof cases
      case 1
      then show ?thesis using g' rj sub_get_put(1) [OF fit v] by simp
    next
      case 2
      then show ?thesis
        using g g' rj sub_get_put(2) [OF fit v] sub_slots [OF sub 2(2) idx_neq [OF j(1) i(1) 2(1)]] by auto
    next
      case 3
      then show ?thesis using g g' by simp
    qed
  qed
  with run wf' show ?thesis by auto
qed

lemma set_get_whole:
  assumes wf: "ba_wf pa" and sz: "whole_size (unat (ba_elsize pa))" and i: "idx \<noteq> 0" "idx \<le> ba_capacity pa"
  shows "\<exists>pa'. bitarray_set pa idx v = Some (Inr pa') \<and> ba_wf pa' \<and> ba_capacity pa' = ba_capacity pa
    \<and> (\<forall>j. j \<noteq> 0 \<and> j \<le> ba_capacity pa \<longrightarrow>
          bitarray_getval pa' j = (if j = idx then Some 0 else bitarray_getval pa j))"
proof -
  let ?n = "unat (ba_elsize pa) div 8"
  obtain bs where bs: "store_le (ba_values pa) (?n * unat (idx - 1)) ?n 0 = Some bs"
      "length bs = length (ba_values pa)"
      "\<forall>j. bs ! j = (if ?n * unat (idx - 1) \<le> j \<and> j < ?n * unat (idx - 1) + ?n then 0 else ba_values pa ! j)"
    using store_le_zero [OF whole_in_range [OF wf sz i]] by blast
  let ?pa = "pa\<lparr>ba_values := bs\<rparr>"
  have run: "bitarray_set pa idx v = Some (Inr ?pa)"
    using set_whole [OF sz i(1), of v] i(2) bs(1) by (simp add: not_less)
  have wf': "ba_wf ?pa" using wf bs(2) by (simp add: ba_wf_def)
  have "bitarray_getval ?pa j = (if j = idx then Some 0 else bitarray_getval pa j)" if j: "j \<noteq> 0" "j \<le> ba_capacity pa" for j
  proof (cases "j = idx")
    case True
    then show ?thesis
      using getval_whole [of ?pa j] sz bs(2,3) whole_in_range [OF wf sz i] by (simp add: load_le_zero)
  next
    case False
    have "unat (j - 1) \<noteq> unat (idx - 1)" by (rule idx_neq [OF j(1) i(1) False])
    then have "?n * unat (j - 1) + ?n \<le> ?n * unat (idx - 1) \<or> ?n * unat (idx - 1) + ?n \<le> ?n * unat (j - 1)"
      by (metis Suc_leI linorder_neqE_nat mult_Suc_right mult_le_mono2 add.commute)
    then have "load_le bs (?n * unat (j - 1)) ?n = load_le (ba_values pa) (?n * unat (j - 1)) ?n"
      using bs(2,3) by (intro load_le_cong) auto
    then show ?thesis using False getval_whole [of ?pa j] getval_whole [of pa j] sz by simp
  qed
  with run wf' show ?thesis by auto
qed

text \<open>Indexing a well-formed bit array: an index outside 1..capacity is an error of both functions;
  inside, \<open>bitarray_set\<close> never leaves the values and a later \<open>bitarray_get\<close> sees the old value at
  every other index; at the index itself it sees the value stored for elements of 1, 2 or 4 bits (values
  that fit), but 0 for elements of 8, 16 or 32 bits.\<close>

lemma bitarray_set_get:
  assumes "ba_wf pa" and "unat (ba_elsize pa) < 8 \<longrightarrow> v < push_bit (unat (ba_elsize pa)) 1"
  shows "if idx = 0 \<or> ba_capacity pa < idx
    then bitarray_set pa idx v = Some (Inl InvalidIndex) \<and> bitarray_get pa idx = Some (Inl InvalidIndex)
    else \<exists>pa'. bitarray_set pa idx v = Some (Inr pa') \<and> ba_wf pa' \<and> ba_capacity pa' = ba_capacity pa
      \<and> bitarray_get pa' idx = Some (Inr (if unat (ba_elsize pa) < 8 then v else 0))
      \<and> (\<forall>j. j \<noteq> idx \<longrightarrow> bitarray_get pa' j = bitarray_get pa j)
      \<and> (\<forall>j. bitarray_get pa j \<noteq> None)"
proof (cases "idx = 0 \<or> ba_capacity pa < idx")
  case True
  then show ?thesis by (simp add: bitarray_set_def bitarray_get_def)
next
  case False
  then have i: "idx \<noteq> 0" "idx \<le> ba_capacity pa" by (auto simp: not_less)
  have "elsize_ok (ba_elsize pa)" using assms(1) by (simp add: ba_wf_def)
  then consider (sub) "sub_size (unat (ba_elsize pa))" | (whole) "whole_size (unat (ba_elsize pa))"
    using elsize_cases by blast
  then obtain pa' where pa': "bitarray_set pa idx v = Some (Inr pa')" "ba_wf pa'" "ba_capacity pa' = ba_capacity pa"
    "\<forall>j. j \<noteq> 0 \<and> j \<le> ba_capacity pa \<longrightarrow> bitarray_getval pa' j
        = (if j = idx then Some (if unat (ba_elsize pa) < 8 then v else 0) else bitarray_getval pa j)"
  proof cases
    case sub
    then have small: "unat (ba_elsize pa) < 8" by auto
    with assms(2) have "v < push_bit (unat (ba_elsize pa)) 1" by blast
    from set_get_sub [OF assms(1) sub i this] obtain pa' where
      "bitarray_set pa idx v = Some (Inr pa')" "ba_wf pa'" "ba_capacity pa' = ba_capacity pa"
      "\<forall>j. j \<noteq> 0 \<and> j \<le> ba_capacity pa \<longrightarrow>
          bitarray_getval pa' j = (if j = idx then Some v else bitarray_getval pa j)" by blast
    with small show ?thesis by (intro that [of pa']) simp_all
  next
    case whole
    then have big: "\<not> unat (ba_elsize pa) < 8" by auto
    from set_get_whole [OF assms(1) whole i, of v] obtain pa' where
      "bitarray_set pa idx v = Some (Inr pa')" "ba_wf pa'" "ba_capacity pa' = ba_capacity pa"
      "\<forall>j. j \<noteq> 0 \<and> j \<le> ba_capacity pa \<longrightarrow>
          bitarray_getval pa' j = (if j = idx then Some 0 else bitarray_getval pa j)" by blast
    with big show ?thesis by (intro that [of pa']) simp_all
  qed
  have "bitarray_get pa j \<noteq> None" for j
    using getval_total [OF assms(1), of j] by (auto simp: bitarray_get_def not_less)
  with pa' i False show ?thesis by (auto simp: bitarray_get_def not_less)
qed

lemma bitarray_set_get_witness:
  "\<exists>pa'. bitarray_set \<lparr>ba_capacity = 3, ba_elsize = 4, ba_values = [0x12, 0x30]\<rparr> 2 7 = Some (Inr pa')
    \<and> bitarray_get pa' 2 = Some (Inr 7)"
proof -
  let ?pa = "\<lparr>ba_capacity = 3, ba_elsize = 4, ba_values = [0x12, 0x30]\<rparr>"
  have "ba_wf ?pa" by (simp add: ba_wf_def elsize_ok_def)
  from bitarray_set_get [OF this, of 7 2] show ?thesis by auto
qed

section \<open>New arrays\<close>

lemma ceil8: "(x + 7) div 8 = x div 8 + (if x mod 8 \<noteq> 0 then 1 else 0)" for x :: nat
proof -
  have "(8 * (x div 8) + x mod 8 + 7) div 8 = x div 8 + (x mod 8 + 7) div 8"
    by (metis add.assoc div_mult_self4 zero_neq_numeral)
  moreover have "(x mod 8 + 7) div 8 = (if x mod 8 \<noteq> 0 then 1 else 0)"
  proof -
    have "x mod 8 < 8" by simp
    then consider "x mod 8 = 0" | "1 \<le> x mod 8" "x mod 8 + 7 < 2 * 8" by linarith
    then show ?thesis by cases (auto intro: div_nat_eqI)
  qed
  ultimately show ?thesis by simp
qed

lemma round_size: "unat (ROUND_SIZE s) = (unat s + 7) div 8"
proof -
  have a: "unat (drop_bit 3 s) = unat s div 8" by (subst unat_drop_bit_eq) (simp add: drop_bit_eq_div)
  have "s AND 7 = take_bit 3 s" by (simp add: take_bit_eq_mask mask_eq_exp_minus_1)
  then have "unat (s AND 7) = unat s mod 8" by (simp add: take_bit_eq_mod unat_mod_distrib)
  then have b: "s AND 7 \<noteq> 0 \<longleftrightarrow> unat s mod 8 \<noteq> 0" by (metis unsigned_0 unsigned_word_eqI)
  have "unat s < 2 ^ 32" using unsigned_less [of s, where 'a = nat] by simp
  then have "Suc (unat s div 8) < 2 ^ 32" by simp
  then have "unat (drop_bit 3 s + 1) = Suc (unat s div 8)" using a by (simp add: unat_word_ariths)
  then show ?thesis
    using a b unfolding ROUND_SIZE_def ceil8 by (cases "unat s mod 8 = 0") simp_all
qed

lemma new_array_wf:
  assumes "new_array capacity elsize ini = Some (Inr pa)" and "unat capacity * unat elsize < 2 ^ 32"
    and "\<And>n bs. ini n = Some bs \<Longrightarrow> length bs \<ge> n"
  shows "ba_wf pa \<and> ba_capacity pa = capacity \<and> ba_elsize pa = elsize \<and> capacity \<noteq> 0"
proof -
  let ?t = "ROUND_SIZE (capacity * ucast elsize)"
  from assms(1) have e: "elsize \<noteq> 0" "\<not> elsize > 32" "elsize AND (elsize - 1) = 0" "?t \<noteq> 0"
    by (auto simp: new_array_def Let_def split: if_splits option.splits)
  from assms(1) e obtain bs where bs: "ini (unat ?t) = Some bs"
      "pa = \<lparr>ba_capacity = capacity, ba_elsize = elsize, ba_values = bs\<rparr>"
    by (auto simp: new_array_def Let_def split: option.splits)
  have "unat (ucast elsize :: u32) = unat elsize"
    using unsigned_less [of elsize, where 'a = nat] by (simp add: unsigned_ucast_eq unsigned_take_bit_eq take_bit_nat_eq_self)
  then have m: "unat (capacity * ucast elsize) = unat capacity * unat elsize"
    using assms(2) by (simp add: unat_word_ariths)
  have "unat capacity * unat elsize \<le> 8 * unat ?t" unfolding round_size m by simp
  also have "\<dots> \<le> 8 * length bs" using assms(3) [OF bs(1)] by simp
  finally have "ba_wf pa" using elsize_pow2 [OF e(1-3)] bs(2) by (simp add: ba_wf_def)
  moreover have "capacity \<noteq> 0" using e(4) by (auto simp: ROUND_SIZE_def)
  ultimately show ?thesis using bs(2) by simp
qed



end
