(* ===== verification/Pack.thy ===== *)
theory Pack
  imports Prelude
begin

text \<open>
  The Lua module \<open>pack\<close> (\<open>modules/src/lpack.c\<close>): \<open>pack.pack(f, ...)\<close> and
  \<open>pack.unpack(s, f, init)\<close> on the integral Lua of this firmware, where a number is a 32-bit
  \<open>long\<close> and the floating-point codes are compiled out. A Lua number is the word of its bits. The
  theory shows the round trip of the two functions and where \<open>unpack\<close> reads outside its string.
\<close>

section \<open>Codes\<close>

definition OP_ZSTRING :: byte where "OP_ZSTRING = 0x7A"
definition OP_BSTRING :: byte where "OP_BSTRING = 0x70"
definition OP_WSTRING :: byte where "OP_WSTRING = 0x50"
definition OP_SSTRING :: byte where "OP_SSTRING = 0x61"
definition OP_STRING :: byte where "OP_STRING = 0x41"
definition OP_NUMBER :: byte where "OP_NUMBER = 0x6E"
definition OP_CHAR :: byte where "OP_CHAR = 0x63"
definition OP_BYTE :: byte where "OP_BYTE = 0x62"
definition OP_SHORT :: byte where "OP_SHORT = 0x68"
definition OP_USHORT :: byte where "OP_USHORT = 0x48"
definition OP_INT :: byte where "OP_INT = 0x69"
definition OP_UINT :: byte where "OP_UINT = 0x49"
definition OP_LONG :: byte where "OP_LONG = 0x6C"
definition OP_ULONG :: byte where "OP_ULONG = 0x4C"
definition OP_LITTLEENDIAN :: byte where "OP_LITTLEENDIAN = 0x3C"
definition OP_BIGENDIAN :: byte where "OP_BIGENDIAN = 0x3E"
definition OP_NATIVE :: byte where "OP_NATIVE = 0x3D"

lemmas pack_codes [layout_simps] = OP_ZSTRING_def OP_BSTRING_def OP_WSTRING_def OP_SSTRING_def OP_STRING_def
  OP_NUMBER_def OP_CHAR_def OP_BYTE_def OP_SHORT_def OP_USHORT_def OP_INT_def OP_UINT_def OP_LONG_def
  OP_ULONG_def OP_LITTLEENDIAN_def OP_BIGENDIAN_def OP_NATIVE_def

datatype lua_val = Num u32 | Str "byte list"

datatype pack_error = BadCode byte | BadArgument

text \<open>A format is the bytes before its NUL. \<open>isdigit\<close> and the count behind a code:\<close>

definition digit :: "byte \<Rightarrow> bool" where
  "digit c \<longleftrightarrow> 0x30 \<le> c \<and> c \<le> 0x39"

definition count_of :: "byte list \<Rightarrow> nat" where
  "count_of ds = (if ds = [] then 1 else foldl (\<lambda>N d. 10 * N + unat (d - 0x30)) 0 ds)"

text \<open>The machine is little endian: only \<open>>\<close> swaps.\<close>

definition doendian :: "byte \<Rightarrow> bool" where
  "doendian c \<longleftrightarrow> c = OP_BIGENDIAN"

text \<open>The exchange loop of \<open>doswap\<close> reverses the bytes.\<close>

fun swap_loop :: "nat \<Rightarrow> nat \<Rightarrow> nat \<Rightarrow> byte list \<Rightarrow> byte list" where
  "swap_loop 0 i j a = a"
| "swap_loop (Suc n) i j a = swap_loop n (Suc i) (j - 1) (a[i := a ! j, j := a ! i])"

definition doswap :: "bool \<Rightarrow> byte list \<Rightarrow> byte list" where
  "doswap swap a = (if swap then swap_loop (length a div 2) 0 (length a - 1) a else a)"

definition endian_code :: "byte \<Rightarrow> bool" where
  "endian_code c \<longleftrightarrow> c = OP_LITTLEENDIAN \<or> c = OP_BIGENDIAN \<or> c = OP_NATIVE"

text \<open>\<open>sizeof\<close> of the type behind a numeric code, and the number a value of the type is pushed as.\<close>

definition num_size :: "byte \<Rightarrow> nat option" where
  "num_size c =
     (if c = OP_CHAR \<or> c = OP_BYTE then Some 1
      else if c = OP_SHORT \<or> c = OP_USHORT then Some 2
      else if c = OP_NUMBER \<or> c = OP_INT \<or> c = OP_UINT \<or> c = OP_LONG \<or> c = OP_ULONG then Some 4
      else None)"

definition num_cast :: "byte \<Rightarrow> u32 \<Rightarrow> u32" where
  "num_cast c v =
     (if c = OP_CHAR then scast (ucast v :: u8)
      else if c = OP_BYTE then ucast (ucast v :: u8)
      else if c = OP_SHORT then scast (ucast v :: u16)
      else if c = OP_USHORT then ucast (ucast v :: u16)
      else v)"

definition str_size :: "byte \<Rightarrow> nat option" where
  "str_size c = (if c = OP_BSTRING then Some 1 else if c = OP_WSTRING then Some 2
     else if c = OP_SSTRING then Some 4 else None)"

text \<open>The memory of an \<open>n\<close>-byte variable, and its value.\<close>

fun bytes_of :: "nat \<Rightarrow> u32 \<Rightarrow> byte list" where
  "bytes_of 0 v = []"
| "bytes_of (Suc n) v = ucast v # bytes_of n (drop_bit 8 v)"

fun word_of :: "byte list \<Rightarrow> u32" where
  "word_of [] = 0"
| "word_of (b # bs) = ucast b OR push_bit 8 (word_of bs)"

section \<open>Packing\<close>

type_synonym pack_state = "bool \<times> lua_val list \<times> byte list"

definition pack_one :: "byte \<Rightarrow> pack_state \<Rightarrow> pack_error + pack_state" where
  "pack_one c st =
     (case st of (swap, args, b) \<Rightarrow>
      if c = OP_STRING \<or> c = OP_ZSTRING then
        (case args of Str a # args' \<Rightarrow> Inr (swap, args', b @ a @ (if c = OP_ZSTRING then [0] else []))
         | _ \<Rightarrow> Inl BadArgument)
      else (case str_size c of
          Some m \<Rightarrow>
            (case args of Str a # args' \<Rightarrow>
               Inr (swap, args', b @ doswap swap (bytes_of m (of_nat (length a))) @ a)
             | _ \<Rightarrow> Inl BadArgument)
        | None \<Rightarrow>
          (case num_size c of
             Some m \<Rightarrow>
               (case args of Num v # args' \<Rightarrow> Inr (swap, args', b @ doswap swap (bytes_of m v))
                | _ \<Rightarrow> Inl BadArgument)
           | None \<Rightarrow> if c = 0x20 \<or> c = 0x2C then Inr st else Inl (BadCode c))))"

text \<open>\<open>while (N--) switch (c)\<close>; an endianness code sets \<open>N\<close> to 0.\<close>

fun pack_rep :: "nat \<Rightarrow> byte \<Rightarrow> pack_state \<Rightarrow> pack_error + pack_state" where
  "pack_rep 0 c st = Inr st"
| "pack_rep (Suc N) c st =
     (if endian_code c then Inr (doendian c, snd st)
      else (case pack_one c st of Inl e \<Rightarrow> Inl e | Inr st' \<Rightarrow> pack_rep N c st'))"

function pack_loop :: "byte list \<Rightarrow> pack_state \<Rightarrow> pack_error + pack_state" where
  "pack_loop [] st = Inr st"
| "pack_loop (c # f) st =
     (case pack_rep (count_of (takeWhile digit f)) c st of Inl e \<Rightarrow> Inl e
      | Inr st' \<Rightarrow> pack_loop (dropWhile digit f) st')"
  by pat_completeness auto
termination
  by (relation "measure (\<lambda>(f, _). length f)") (auto simp: le_imp_less_Suc length_dropWhile_le)

definition l_pack :: "byte list \<Rightarrow> lua_val list \<Rightarrow> pack_error + byte list" where
  "l_pack f args = (case pack_loop f (False, args, []) of Inl e \<Rightarrow> Inl e | Inr (_, _, b) \<Rightarrow> Inr b)"

section \<open>Unpacking\<close>

text \<open>\<open>Done\<close> is the jump to \<open>done\<close>; \<open>Fault\<close> is a read outside the string.\<close>

type_synonym unpack_state = "bool \<times> u32 \<times> lua_val list"

datatype outcome = Next unpack_state | Done unpack_state | Error pack_error | Fault

text \<open>\<open>n\<close> bytes at \<open>s+i\<close>; the NUL behind a Lua string may be read.\<close>

definition bytes_at :: "byte list \<Rightarrow> u32 \<Rightarrow> nat \<Rightarrow> byte list option" where
  "bytes_at s i n = (if unat i + n \<le> Suc (length s) then Some (take n (drop (unat i) (s @ [0]))) else None)"

definition push_str :: "byte list \<Rightarrow> bool \<Rightarrow> u32 \<Rightarrow> u32 \<Rightarrow> u32 \<Rightarrow> lua_val list \<Rightarrow> outcome" where
  "push_str s swap i l i' vs =
     (case bytes_at s i (unat l) of None \<Rightarrow> Fault | Some a \<Rightarrow> Next (swap, i', vs @ [Str a]))"

definition unpack_one :: "byte list \<Rightarrow> byte \<Rightarrow> unpack_state \<Rightarrow> outcome" where
  "unpack_one s c st =
     (case st of (swap, i, vs) \<Rightarrow>
      let len = of_nat (length s) in
      if c = OP_ZSTRING then
        (if len \<le> i then Done st
         else
           let l = of_nat (length (takeWhile (\<lambda>x. x \<noteq> 0) (drop (unat i) s)))
           in push_str s swap i l (i + l + 1) vs)
      else (case str_size c of
          Some m \<Rightarrow>
            if len < i + of_nat m then Done st
            else (case bytes_at s i m of None \<Rightarrow> Fault
              | Some p \<Rightarrow>
                let l = word_of (doswap swap p) in
                if len < i + of_nat m + l then Done st
                else push_str s swap (i + of_nat m) l (i + of_nat m + l) vs)
        | None \<Rightarrow>
          (case num_size c of
             Some m \<Rightarrow>
               if len < i + of_nat m then Done st
               else (case bytes_at s i m of None \<Rightarrow> Fault
                 | Some p \<Rightarrow> Next (swap, i + of_nat m, vs @ [Num (num_cast c (word_of (doswap swap p)))]))
           | None \<Rightarrow> if c = 0x20 \<or> c = 0x2C then Next st else Error (BadCode c))))"

fun unpack_rep :: "byte list \<Rightarrow> nat \<Rightarrow> byte \<Rightarrow> unpack_state \<Rightarrow> outcome" where
  "unpack_rep s 0 c st = Next st"
| "unpack_rep s (Suc N) c st =
     (if endian_code c then Next (doendian c, snd st)
      else if c = OP_STRING then
        (case st of (swap, i, vs) \<Rightarrow>
           if of_nat (length s) < i + of_nat (Suc N) then Done st
           else push_str s swap i (of_nat (Suc N)) (i + of_nat (Suc N)) vs)
      else (case unpack_one s c st of Next st' \<Rightarrow> unpack_rep s N c st' | r \<Rightarrow> r))"

text \<open>\<open>A0\<close> pushes an empty string.\<close>

function unpack_loop :: "byte list \<Rightarrow> byte list \<Rightarrow> unpack_state \<Rightarrow> outcome" where
  "unpack_loop s [] st = Done st"
| "unpack_loop s (c # f) st =
     (let ds = takeWhile digit f;
          st1 = (if ds \<noteq> [] \<and> count_of ds = 0 \<and> c = OP_STRING
                 then (fst st, fst (snd st), snd (snd st) @ [Str []]) else st)
      in case unpack_rep s (count_of ds) c st1 of
           Next st' \<Rightarrow> unpack_loop s (dropWhile digit f) st'
         | r \<Rightarrow> r)"
  by pat_completeness auto
termination
  by (relation "measure (\<lambda>(s, f, _). length f)") (auto simp: le_imp_less_Suc length_dropWhile_le)

text \<open>The result: the next position and the values.\<close>

definition l_unpack :: "byte list \<Rightarrow> byte list \<Rightarrow> u32 \<Rightarrow> (pack_error + u32 \<times> lua_val list) option" where
  "l_unpack s f init =
     (case unpack_loop s f (False, init - 1, []) of
        Next (_, i, vs) \<Rightarrow> Some (Inr (i + 1, vs))
      | Done (_, i, vs) \<Rightarrow> Some (Inr (i + 1, vs))
      | Error e \<Rightarrow> Some (Inl e)
      | Fault \<Rightarrow> None)"

section \<open>Byte order\<close>

lemma small_length:
  "length a \<in> {1, 2, 4} \<Longrightarrow>
    (\<exists>x. a = [x]) \<or> (\<exists>x y. a = [x, y]) \<or> (\<exists>x y z u. a = [x, y, z, u])"
  by (auto simp: numeral_eq_Suc length_Suc_conv)

lemma doswap_rev: "length a \<in> {1, 2, 4} \<Longrightarrow> doswap swap a = (if swap then rev a else a)"
  by (drule small_length) (auto simp: doswap_def numeral_2_eq_2 numeral_3_eq_3 div2_Suc_Suc [unfolded numeral_2_eq_2])

lemma length_bytes_of [simp]: "length (bytes_of n v) = n"
  by (induction n arbitrary: v) auto

lemma word_of_bytes: "word_of (bytes_of n v) = take_bit (8 * n) v"
proof (induction n arbitrary: v)
  case 0
  then show ?case by simp
next
  case (Suc n)
  show ?case
    unfolding bytes_of.simps word_of.simps Suc
    by (rule bit_word_eqI)
      (auto simp: bit_or_iff bit_push_bit_iff bit_take_bit_iff bit_ucast_iff bit_drop_bit_eq
        dest: bit_imp_le_length)
qed

definition m_ok :: "nat \<Rightarrow> bool" where "m_ok m \<longleftrightarrow> m \<in> {1, 2, 4}"

lemma num_size_ok: "num_size c = Some m \<Longrightarrow> m_ok m"
  by (auto simp: num_size_def m_ok_def split: if_splits)

lemma str_size_ok: "str_size c = Some m \<Longrightarrow> m_ok m"
  by (auto simp: str_size_def m_ok_def split: if_splits)

lemma swap_bytes [simp]:
  assumes "m_ok m"
  shows "length (doswap swap (bytes_of m v)) = m"
    "word_of (doswap swap (doswap swap (bytes_of m v))) = take_bit (8 * m) v"
  using assms by (auto simp: m_ok_def doswap_rev word_of_bytes)

lemma ucast_take_bit:
  "ucast (take_bit 8 (v :: u32)) = (ucast v :: u8)"
  "ucast (take_bit 16 (v :: u32)) = (ucast v :: u16)"
  by (rule bit_word_eqI; simp add: bit_ucast_iff bit_take_bit_iff)+

lemma take_bit_32: "take_bit 32 v = (v :: u32)"
  by (rule bit_word_eqI) (simp add: bit_take_bit_iff)

lemma num_cast_low:
  assumes "num_size c = Some m"
  shows "num_cast c (take_bit (8 * m) v) = num_cast c v"
proof (cases "c = OP_CHAR \<or> c = OP_BYTE")
  case True
  then have "m = 1" using assms by (simp add: num_size_def)
  then have "ucast (take_bit (8 * m) v) = (ucast v :: u8)" by (simp add: ucast_take_bit)
  then show ?thesis using True by (auto simp: num_cast_def)
next
  case F: False
  show ?thesis
  proof (cases "c = OP_SHORT \<or> c = OP_USHORT")
    case True
    then have "m = 2" using assms F by (simp add: num_size_def)
    then have "ucast (take_bit (8 * m) v) = (ucast v :: u16)" by (simp add: ucast_take_bit)
    then show ?thesis using True F by (auto simp: num_cast_def)
  next
    case False
    then have "m = 4" using assms F by (simp add: num_size_def split: if_splits)
    then show ?thesis by (simp add: take_bit_32)
  qed
qed

section \<open>What fits a code\<close>

fun fits :: "byte \<Rightarrow> lua_val \<Rightarrow> bool" where
  "fits c (Num v) \<longleftrightarrow> num_size c \<noteq> None \<and> num_cast c v = v"
| "fits c (Str a) \<longleftrightarrow> (c = OP_ZSTRING \<and> 0 \<notin> set a)
     \<or> (\<exists>m. str_size c = Some m \<and> length a < 256 ^ m)"

fun enc :: "bool \<Rightarrow> byte \<Rightarrow> lua_val \<Rightarrow> byte list" where
  "enc swap c (Num v) = doswap swap (bytes_of (the (num_size c)) v)"
| "enc swap c (Str a) = (if c = OP_ZSTRING then a @ [0]
     else doswap swap (bytes_of (the (str_size c)) (of_nat (length a))) @ a)"

text \<open>The codes of a format, each as often as its count says, and those that take a value.\<close>

function expand :: "byte list \<Rightarrow> byte list" where
  "expand [] = []"
| "expand (c # f) = (let n = count_of (takeWhile digit f) in
     (if endian_code c \<or> c = 0x20 \<or> c = 0x2C then [] else replicate n c) @ expand (dropWhile digit f))"
  by pat_completeness auto
termination
  by (relation "measure length") (auto simp: le_imp_less_Suc length_dropWhile_le)

lemma pack_one_fits:
  assumes "fits c v"
  shows "pack_one c (swap, v # args, b) = Inr (swap, args, b @ enc swap c v)"
  using assms by (cases v) (auto simp: pack_one_def num_size_def str_size_def layout_simps split: if_splits)

lemma fits_not_special:
  assumes "fits c v"
  shows "\<not> endian_code c" "c \<noteq> OP_STRING"
  using assms by (cases v; auto simp: endian_code_def num_size_def str_size_def layout_simps split: if_splits)+

lemma length_lt_word: "length a < 2 ^ 31 \<Longrightarrow> unat (of_nat (length a) :: u32) = length a"
  by (simp add: take_bit_nat_eq_self unat_of_nat)

lemma bytes_at_mid:
  assumes "length (pre @ mid @ post) < 2 ^ 31"
  shows "bytes_at (pre @ mid @ post) (of_nat (length pre)) (length mid) = Some mid"
  using assms length_lt_word [of pre] by (simp add: bytes_at_def)

lemma of_nat_le_of_nat:
  "a < 2 ^ 31 \<Longrightarrow> b < 2 ^ 31 \<Longrightarrow> (of_nat a :: u32) \<le> of_nat b \<longleftrightarrow> a \<le> b"
  by (simp add: word_le_nat_alt take_bit_nat_eq_self unat_of_nat)

lemma of_nat_less_of_nat:
  "a < 2 ^ 31 \<Longrightarrow> b < 2 ^ 31 \<Longrightarrow> (of_nat a :: u32) < of_nat b \<longleftrightarrow> a < b"
  by (simp add: word_less_nat_alt take_bit_nat_eq_self unat_of_nat)

lemma length_field:
  assumes "length a < 256 ^ m" and "length a < 2 ^ 31"
  shows "take_bit (8 * m) (of_nat (length a)) = (of_nat (length a) :: u32)"
proof -
  have "length a < 2 ^ (8 * m)" using assms(1) by (simp add: power_mult)
  then have "take_bit (8 * m) (length a) = length a" by (simp add: take_bit_nat_eq_self)
  then show ?thesis by (metis take_bit_of_nat)
qed

lemma unpack_num:
  assumes "fits c (Num v)" and "length (pre @ enc swap c (Num v) @ post) < 2 ^ 31"
  shows "unpack_one (pre @ enc swap c (Num v) @ post) c (swap, of_nat (length pre), vs)
    = Next (swap, of_nat (length (pre @ enc swap c (Num v))), vs @ [Num v])"
proof -
  from assms(1) obtain m where m: "num_size c = Some m" "num_cast c v = v" by auto
  let ?h = "doswap swap (bytes_of m v)"
  have [simp]: "length ?h = m" using num_size_ok [OF m(1)] by simp
  have e: "enc swap c (Num v) = ?h" using m by simp
  have at: "bytes_at (pre @ ?h @ post) (of_nat (length pre)) m = Some ?h"
    using bytes_at_mid [of pre ?h post] assms(2) m by simp
  have le: "\<not> of_nat (length (pre @ ?h @ post)) < (of_nat (length pre) + of_nat m :: u32)"
    using of_nat_less_of_nat [of "length (pre @ ?h @ post)" "length pre + m"] assms(2) m by simp
  have w: "num_cast c (word_of (doswap swap ?h)) = v"
    using m num_size_ok [OF m(1)] num_cast_low [OF m(1)] by simp
  have c: "c \<noteq> OP_ZSTRING" "str_size c = None"
    using m(1) by (auto simp: num_size_def str_size_def layout_simps)
  show ?thesis unfolding e unpack_one_def using at le w c m by (simp add: Let_def)
qed

lemma unpack_pstr:
  assumes m: "str_size c = Some m" "length a < 256 ^ m"
    and "length (pre @ enc swap c (Str a) @ post) < 2 ^ 31"
  shows "unpack_one (pre @ enc swap c (Str a) @ post) c (swap, of_nat (length pre), vs)
    = Next (swap, of_nat (length (pre @ enc swap c (Str a))), vs @ [Str a])"
proof -
  let ?h = "doswap swap (bytes_of m (of_nat (length a)))"
  let ?s = "pre @ ?h @ a @ post"
  have [simp]: "length ?h = m" using str_size_ok [OF m(1)] by simp
  have c: "c \<noteq> OP_ZSTRING" using m(1) by (auto simp: str_size_def layout_simps)
  have e: "pre @ enc swap c (Str a) @ post = ?s" "length (pre @ enc swap c (Str a)) = length pre + m + length a"
    using m c by simp_all
  have bnd: "length ?s < 2 ^ 31" using assms(3) unfolding e .
  have at: "bytes_at ?s (of_nat (length pre)) m = Some ?h"
    using bytes_at_mid [of pre ?h "a @ post"] bnd by simp
  have at2: "bytes_at ?s (of_nat (length pre) + of_nat m) (length a) = Some a"
    using bytes_at_mid [of "pre @ ?h" a post] bnd by simp
  have le: "\<not> of_nat (length ?s) < (of_nat (length pre) + of_nat m :: u32)"
    using of_nat_less_of_nat [of "length ?s" "length pre + m"] bnd by simp
  have le2: "\<not> of_nat (length ?s) < (of_nat (length pre) + of_nat m + of_nat (length a) :: u32)"
    using of_nat_less_of_nat [of "length ?s" "length pre + m + length a"] bnd by simp
  have la: "length a < 2 ^ 31" using bnd by simp
  have w: "word_of (doswap swap ?h) = of_nat (length a)"
    using str_size_ok [OF m(1)] length_field [OF m(2) la] by simp
  show ?thesis
    unfolding e unpack_one_def using at at2 le le2 w c m length_lt_word [OF la]
    by (simp add: Let_def push_str_def)
qed

lemma unpack_zstr:
  assumes "c = OP_ZSTRING" "0 \<notin> set a"
    and "length (pre @ enc swap c (Str a) @ post) < 2 ^ 31"
  shows "unpack_one (pre @ enc swap c (Str a) @ post) c (swap, of_nat (length pre), vs)
    = Next (swap, of_nat (length (pre @ enc swap c (Str a))), vs @ [Str a])"
proof -
  let ?s = "pre @ a @ 0 # post"
  have e: "pre @ enc swap c (Str a) @ post = ?s" "length (pre @ enc swap c (Str a)) = length pre + length a + 1"
    using assms(1) by simp_all
  have bnd: "length ?s < 2 ^ 31" using assms(3) unfolding e .
  have la: "length a < 2 ^ 31" "length pre < 2 ^ 31" using bnd by simp_all
  have t: "takeWhile (\<lambda>x. x \<noteq> 0) (drop (unat (of_nat (length pre) :: u32)) ?s) = a"
    using assms(2) length_lt_word [OF la(2)] by (simp add: takeWhile_append2 in_set_conv_decomp)
      (metis (mono_tags, lifting) append.right_neutral in_set_conv_decomp takeWhile.simps(2) takeWhile_append2)
  have at: "bytes_at ?s (of_nat (length pre)) (length a) = Some a"
    using bytes_at_mid [of pre a "0 # post"] bnd by simp
  have le: "\<not> of_nat (length ?s) \<le> (of_nat (length pre) :: u32)"
    using of_nat_le_of_nat [of "length ?s" "length pre"] bnd by simp
  show ?thesis
    unfolding e unpack_one_def using at le t assms(1) length_lt_word [OF la(1)]
    by (simp add: Let_def push_str_def add.assoc)
qed

lemma unpack_one_fits:
  assumes "fits c v" and "length (pre @ enc swap c v @ post) < 2 ^ 31"
  shows "unpack_one (pre @ enc swap c v @ post) c (swap, of_nat (length pre), vs)
    = Next (swap, of_nat (length (pre @ enc swap c v)), vs @ [v])"
proof (cases v)
  case (Num n)
  then show ?thesis using assms unpack_num by simp
next
  case (Str a)
  then show ?thesis
    using assms unpack_zstr [of c a] unpack_pstr [of c _ a] unfolding Str fits.simps by blast
qed

section \<open>Repetitions and formats\<close>

lemma pack_rep_fits:
  "list_all2 fits (replicate n c) vs \<Longrightarrow>
    pack_rep n c (swap, vs @ args, b) = Inr (swap, args, b @ concat (map (enc swap c) vs))"
proof (induction n arbitrary: vs b)
  case (Suc n)
  then obtain v vs' where v: "vs = v # vs'" "fits c v" "list_all2 fits (replicate n c) vs'"
    by (auto simp: list_all2_Cons1)
  then show ?case
    using Suc.IH [OF v(3)] by (simp add: pack_one_fits fits_not_special)
qed simp

lemma unpack_rep_fits:
  "list_all2 fits (replicate n c) vs \<Longrightarrow> length (pre @ concat (map (enc swap c) vs) @ post) < 2 ^ 31 \<Longrightarrow>
    unpack_rep (pre @ concat (map (enc swap c) vs) @ post) n c (swap, of_nat (length pre), rs)
      = Next (swap, of_nat (length (pre @ concat (map (enc swap c) vs))), rs @ vs)"
proof (induction n arbitrary: vs pre rs)
  case (Suc n)
  then obtain v vs' where v: "vs = v # vs'" "fits c v" "list_all2 fits (replicate n c) vs'"
    by (auto simp: list_all2_Cons1)
  let ?q = "concat (map (enc swap c) vs') @ post"
  have one: "unpack_one (pre @ enc swap c v @ ?q) c (swap, of_nat (length pre), rs)
      = Next (swap, of_nat (length (pre @ enc swap c v)), rs @ [v])"
    using Suc.prems v by (intro unpack_one_fits) simp_all
  show ?case
    using one Suc.IH [OF v(3), of "pre @ enc swap c v" "rs @ [v]"] Suc.prems(2) v fits_not_special [OF v(2)]
    by (simp add: add.assoc)
qed simp

lemma skip_one:
  assumes "c = 0x20 \<or> c = 0x2C"
  shows "pack_one c st = Inr st" "unpack_one s c st' = Next st'"
proof -
  have "c \<noteq> OP_STRING" "c \<noteq> OP_ZSTRING" "str_size c = None" "num_size c = None"
    using assms by (auto simp: str_size_def num_size_def layout_simps)
  then show "pack_one c st = Inr st" "unpack_one s c st' = Next st'"
    using assms by (auto simp: pack_one_def unpack_one_def Let_def split: prod.splits)
qed

text \<open>A blank or endianness code changes neither the bytes nor the values.\<close>

lemma skip_rep:
  assumes "endian_code c \<or> c = 0x20 \<or> c = 0x2C"
  shows "pack_rep n c (swap, args, b) = Inr (if 0 < n \<and> endian_code c then doendian c else swap, args, b)"
    "unpack_rep s n c (swap, i, rs) = Next (if 0 < n \<and> endian_code c then doendian c else swap, i, rs)"
proof (induction n)
  case (Suc n)
  have "c \<noteq> OP_STRING" using assms by (auto simp: endian_code_def layout_simps)
  moreover have "\<not> endian_code c \<Longrightarrow> pack_one c (swap, args, b) = Inr (swap, args, b)
      \<and> unpack_one s c (swap, i, rs) = Next (swap, i, rs)"
    using assms skip_one [of c] by blast
  ultimately show "pack_rep (Suc n) c (swap, args, b)
        = Inr (if 0 < Suc n \<and> endian_code c then doendian c else swap, args, b)"
    and "unpack_rep s (Suc n) c (swap, i, rs)
        = Next (if 0 < Suc n \<and> endian_code c then doendian c else swap, i, rs)"
    using Suc by simp_all
qed simp_all

lemma pack_unpack_loop:
  "list_all2 fits (expand f) args \<Longrightarrow> OP_STRING \<notin> set f \<Longrightarrow>
    \<exists>e. (\<forall>b. \<exists>sw. pack_loop f (swap, args, b) = Inr (sw, [], b @ e))
      \<and> (\<forall>pre rs. length (pre @ e) < 2 ^ 31 \<longrightarrow>
          (\<exists>sw. unpack_loop (pre @ e) f (swap, of_nat (length pre), rs)
            = Done (sw, of_nat (length (pre @ e)), rs @ args)))"
proof (induction f arbitrary: swap args rule: expand.induct)
  case 1
  then show ?case by simp
next
  case (2 c f)
  let ?n = "count_of (takeWhile digit f)" and ?f = "dropWhile digit f"
  have nA: "c \<noteq> OP_STRING" "OP_STRING \<notin> set ?f"
    using 2(3) by (auto dest: set_dropWhileD)
  show ?case
  proof (cases "endian_code c \<or> c = 0x20 \<or> c = 0x2C")
    case True
    then have "list_all2 fits (expand ?f) args" using 2(2) by (simp add: Let_def)
    then show ?thesis
      using 2(1) [OF refl _ nA(2), of args "if 0 < ?n \<and> endian_code c then doendian c else swap"]
        skip_rep [OF True] nA(1)
      by (simp add: Let_def)
  next
    case False
    then obtain a1 a2 where a: "args = a1 @ a2" "list_all2 fits (replicate ?n c) a1"
        "list_all2 fits (expand ?f) a2"
      using 2(2) by (auto simp: Let_def list_all2_append1)
    let ?e1 = "concat (map (enc swap c) a1)"
    from 2(1) [OF refl a(3) nA(2), of swap] obtain e where
        e: "\<And>b. \<exists>sw. pack_loop ?f (swap, a2, b) = Inr (sw, [], b @ e)"
        "\<And>pre rs. length (pre @ e) < 2 ^ 31 \<Longrightarrow>
          \<exists>sw. unpack_loop (pre @ e) ?f (swap, of_nat (length pre), rs)
            = Done (sw, of_nat (length (pre @ e)), rs @ a2)"
      by blast
    have "\<exists>sw. pack_loop (c # f) (swap, args, b) = Inr (sw, [], b @ ?e1 @ e)" for b
      using e(1) [of "b @ ?e1"] pack_rep_fits [OF a(2)] a(1) by simp
    moreover have "\<exists>sw. unpack_loop (pre @ ?e1 @ e) (c # f) (swap, of_nat (length pre), rs)
            = Done (sw, of_nat (length (pre @ ?e1 @ e)), rs @ args)"
      if "length (pre @ ?e1 @ e) < 2 ^ 31" for pre rs
      using e(2) [of "pre @ ?e1" "rs @ a1"] unpack_rep_fits [OF a(2), of pre swap e rs] that a(1) nA(1)
      by (simp add: Let_def)
    ultimately show ?thesis by blast
  qed
qed



text \<open>
  The length of an \<open>a\<close> field is trusted up to a wrapped sum: the four bytes of 0xFFFFFFFF make
  \<open>i+m+l\<close> equal 3, which passes the check of a four-byte string, and 4 GB are read.
\<close>

lemma unpack_length_wraps:
  "l_unpack [0xFF, 0xFF, 0xFF, 0xFF] [OP_SSTRING] 1 = None"
proof -
  have w: "word_of (doswap False [0xFF, 0xFF, 0xFF, 0xFF]) = 0xFFFFFFFF"
    by code_simp
  have z: "str_size OP_SSTRING = Some 4" "OP_SSTRING \<noteq> OP_ZSTRING" "OP_SSTRING \<noteq> OP_STRING"
      "\<not> endian_code OP_SSTRING"
    by code_simp+
  have "unpack_one [0xFF, 0xFF, 0xFF, 0xFF] OP_SSTRING (False, 0, []) = Fault"
    using w z by (simp add: unpack_one_def bytes_at_def push_str_def)
  then show ?thesis
    using z by (simp add: l_unpack_def count_of_def)
qed

end
