(* ===== verification/Vsscanf.thy ===== *)
theory Vsscanf
  imports Prelude
begin

text \<open>
  \<open>vsscanf\<close> (\<open>platform/coolsand/src/cust_vsscanf.c\<close>), the scanner behind \<open>sscanf\<close> of the firmware.
  Input and format are the byte lists with their terminating NUL, of which the model keeps the part not
  yet read; a read behind the NUL is \<open>Fault\<close>. The objects that receive values are the
  list of the values stored, with their types. The comparison \<open>fp < INT_MAX\<close> of the code tests the
  \<^emph>\<open>address\<close> of the string: its outcome is the parameter \<open>low\<close>.
\<close>

section \<open>Constants\<close>

definition BUF :: nat where "BUF = 513"

definition LONG_FLAGS :: u32 where "LONG_FLAGS = 0x0001"
definition SHORT :: u32 where "SHORT = 0x0004"
definition SHORTSHORT :: u32 where "SHORTSHORT = 0x0008"
definition SUPPRESS :: u32 where "SUPPRESS = 0x0200"
definition NOSKIP :: u32 where "NOSKIP = 0x0800"
definition SIGNOK :: u32 where "SIGNOK = 0x0800"
definition HAVESIGN :: u32 where "HAVESIGN = 0x1000"
definition NDIGITS :: u32 where "NDIGITS = 0x2000"
definition PFXOK :: u32 where "PFXOK = 0x4000"
definition NZDIGITS :: u32 where "NZDIGITS = 0x8000"

definition CT_CHAR :: byte where "CT_CHAR = 0"
definition CT_STRING :: byte where "CT_STRING = 2"
definition CT_INT :: byte where "CT_INT = 3"

lemmas scan_flags = LONG_FLAGS_def SHORT_def SHORTSHORT_def SUPPRESS_def NOSKIP_def SIGNOK_def HAVESIGN_def
  NDIGITS_def PFXOK_def NZDIGITS_def

definition basefix :: "nat list" where
  "basefix = [10, 1, 2, 3, 4, 5, 6, 7, 8, 9, 10, 11, 12, 13, 14, 15, 16]"

definition is_space :: "byte \<Rightarrow> bool" where
  "is_space c \<longleftrightarrow> c = 0x20 \<or> (0x09 \<le> c \<and> c \<le> 0x0D)"

definition is_digit :: "byte \<Rightarrow> bool" where
  "is_digit c \<longleftrightarrow> 0x30 \<le> c \<and> c \<le> 0x39"

section \<open>State\<close>

datatype strto = Strtol | Strtoul

datatype stored = StoredShort u16 | StoredChar u8 | StoredLong u32 | StoredInt u32 | StoredStr "byte list"

record scan =
  sc_fp :: "byte list"
  sc_nread :: int
  sc_nassigned :: int
  sc_base :: nat
  sc_ccfn :: "strto option"
  sc_out :: "stored list"

datatype scan_step = Continue scan | Input_failure scan | Match_failure scan | Fault

section \<open>\<open>strtol\<close> and \<open>strtoul\<close> of the C library\<close>

text \<open>On the buffers the scanner builds: an optional sign, an optional \<open>0x\<close> with base 16, digits.\<close>

definition digit_value :: "byte \<Rightarrow> nat" where
  "digit_value c =
     (if is_digit c then unat c - 0x30
      else if 0x61 \<le> c \<and> c \<le> 0x7A then unat c - 0x61 + 10
      else if 0x41 \<le> c \<and> c \<le> 0x5A then unat c - 0x41 + 10
      else 99)"

definition magnitude :: "nat \<Rightarrow> byte list \<Rightarrow> int" where
  "magnitude base ds = foldl (\<lambda>v c. int base * v + int (digit_value c)) 0
     (takeWhile (\<lambda>c. digit_value c < base) ds)"

fun skip_prefix :: "nat \<Rightarrow> byte list \<Rightarrow> byte list" where
  "skip_prefix base (z # x # ds) = (if base = 16 \<and> z = 0x30 \<and> (x = 0x78 \<or> x = 0x58) then ds else z # x # ds)"
| "skip_prefix base ds = ds"

fun signed_magnitude :: "nat \<Rightarrow> byte list \<Rightarrow> bool \<times> int" where
  "signed_magnitude base [] = (False, 0)"
| "signed_magnitude base (c # ds) =
     (if c = 0x2D then (True, magnitude base (skip_prefix base ds))
      else if c = 0x2B then (False, magnitude base (skip_prefix base ds))
      else (False, magnitude base (skip_prefix base (c # ds))))"

definition ccfn_apply :: "strto \<Rightarrow> nat \<Rightarrow> byte list \<Rightarrow> u32" where
  "ccfn_apply f base buf =
     (case signed_magnitude base buf of (neg, m) \<Rightarrow>
      (case f of
         Strtol \<Rightarrow> word_of_int (max INT_MIN (min INT_MAX (if neg then - m else m)))
       | Strtoul \<Rightarrow> if 2 ^ 32 \<le> m then 0xFFFFFFFF else word_of_int (if neg then - m else m)))"

section \<open>The format\<close>

text \<open>From \<open>again:\<close> to the character that is no modifier: flags, width and the rest of the format.\<close>

fun conv_spec :: "byte list \<Rightarrow> u32 \<Rightarrow> u32 \<Rightarrow> (byte \<times> u32 \<times> u32 \<times> byte list) option" where
  "conv_spec [] width flags = None"
| "conv_spec (c # fmt) width flags =
     (if c = 0x2A then conv_spec fmt width (flags OR SUPPRESS)
      else if c = 0x68 then
        (case fmt of [] \<Rightarrow> None
         | h # fmt' \<Rightarrow>
           if h = 0x68 then conv_spec fmt' width (flags OR SHORTSHORT)
           else conv_spec fmt width (flags OR SHORT))
      else if c = 0x6C then conv_spec fmt width (flags OR LONG_FLAGS)
      else if is_digit c then conv_spec fmt (width * 10 + ucast c - 0x30) flags
      else Some (c, width, flags, fmt))"

text \<open>The conversion characters; any other one is left as it is.\<close>

definition int_conv :: "byte \<Rightarrow> (strto \<times> nat) option" where
  "int_conv c =
     (if c = 0x64 then Some (Strtol, 10)
      else if c = 0x69 then Some (Strtol, 0)
      else if c = 0x6F then Some (Strtoul, 8)
      else if c = 0x75 then Some (Strtoul, 10)
      else if c = 0x78 then Some (Strtoul, 16)
      else None)"

definition conv_type :: "byte \<Rightarrow> byte" where
  "conv_type c = (if int_conv c \<noteq> None then CT_INT else if c = 0x73 then CT_STRING
     else if c = 0x63 then CT_CHAR else c)"

definition conv_flags :: "byte \<Rightarrow> u32 \<Rightarrow> u32" where
  "conv_flags c flags = (if c = 0x78 then flags OR PFXOK else if c = 0x63 then flags OR NOSKIP else flags)"

section \<open>The conversions\<close>

fun skip_space :: "byte list \<Rightarrow> byte list option" where
  "skip_space [] = None"
| "skip_space (c # fp) = (if is_space c then skip_space fp else Some fp)"

text \<open>\<open>literal:\<close>\<close>

definition scan_literal :: "byte \<Rightarrow> scan \<Rightarrow> scan_step" where
  "scan_literal c st =
     (case sc_fp st of [] \<Rightarrow> Fault
      | d # fp \<Rightarrow>
        if d = 0 then Input_failure st
        else if d \<noteq> c then Match_failure st
        else Continue (st\<lparr>sc_fp := fp, sc_nread := sc_nread st + 1\<rparr>))"

text \<open>Leading white space before a conversion; \<open>Inl\<close> is the jump to \<open>input_failure\<close>.\<close>

fun lead_space :: "bool \<Rightarrow> byte list \<Rightarrow> int \<Rightarrow> ((byte list \<times> int) + (byte list \<times> int)) option" where
  "lead_space low [] n = None"
| "lead_space low (c # fp) n =
     (if is_space c then
        (if \<not> low then Some (Inl (fp, n + 1))
         else (case fp of [] \<Rightarrow> None
           | d # _ \<Rightarrow> if d = 0 then Some (Inl (fp, n + 1)) else lead_space low fp (n + 1)))
      else Some (Inr (c # fp, n)))"

text \<open>\<open>%*c\<close>: the rest of the input and the width left.\<close>

fun drop_chars :: "bool \<Rightarrow> u32 \<Rightarrow> byte list \<Rightarrow> (byte list \<times> u32) option" where
  "drop_chars low width [] = (if width = 0 then Some ([], 0) else if low then None else Some ([], width))"
| "drop_chars low width (c # fp) =
     (if width = 0 then Some (c # fp, 0)
      else if \<not> low then Some (fp, width)
      else (case fp of [] \<Rightarrow> None
        | d # _ \<Rightarrow> if d = 0 then Some (fp, width) else drop_chars low (width - 1) fp))"

definition scan_char :: "bool \<Rightarrow> u32 \<Rightarrow> u32 \<Rightarrow> scan \<Rightarrow> scan_step" where
  "scan_char low width flags st =
     (let width = (if width = 0 then 1 else width) in
      if flags AND SUPPRESS \<noteq> 0 then
        (case drop_chars low width (sc_fp st) of None \<Rightarrow> Fault
         | Some (fp, w) \<Rightarrow>
           if w \<noteq> 0 then Input_failure (st\<lparr>sc_fp := fp\<rparr>)
           else Continue (st\<lparr>sc_fp := fp, sc_nread := sc_nread st + uint width\<rparr>))
      else
        (case sc_fp st of [] \<Rightarrow> Fault
         | c # _ \<Rightarrow> Continue (st\<lparr>sc_nread := sc_nread st + 1, sc_nassigned := sc_nassigned st + 1,
                                 sc_out := sc_out st @ [StoredChar c]\<rparr>)))"

text \<open>\<open>%s\<close>: the bytes taken and the rest.\<close>

fun take_word :: "bool \<Rightarrow> u32 \<Rightarrow> byte list \<Rightarrow> (byte list \<times> byte list) option" where
  "take_word low width [] = None"
| "take_word low width (c # fp) =
     (if is_space c \<or> \<not> low then Some ([], c # fp)
      else if width - 1 = 0 then Some ([c], fp)
      else (case fp of [] \<Rightarrow> None
        | d # _ \<Rightarrow> if d = 0 then Some ([c], fp)
                   else map_option (\<lambda>(w, r). (c # w, r)) (take_word low (width - 1) fp)))"

definition scan_string :: "bool \<Rightarrow> u32 \<Rightarrow> u32 \<Rightarrow> scan \<Rightarrow> scan_step" where
  "scan_string low width flags st =
     (case take_word low (if width = 0 then 0xFFFFFFFF else width) (sc_fp st) of None \<Rightarrow> Fault
      | Some (w, fp) \<Rightarrow>
        let st' = st\<lparr>sc_fp := fp, sc_nread := sc_nread st + int (length w)\<rparr> in
        if flags AND SUPPRESS \<noteq> 0 then Continue st'
        else Continue (st'\<lparr>sc_nassigned := sc_nassigned st + 1, sc_out := sc_out st @ [StoredStr w]\<rparr>))"

text \<open>A character of a number: the new base and flags when it is legal at offset \<open>at\<close> of the buffer.\<close>

definition num_char :: "byte \<Rightarrow> nat \<Rightarrow> u32 \<Rightarrow> nat \<Rightarrow> (nat \<times> u32) option" where
  "num_char c base flags at =
     (if c = 0x30 then
        (let (base, flags) = (if base = 0 then (8, flags OR PFXOK) else (base, flags))
         in Some (base, flags AND NOT (if flags AND NZDIGITS \<noteq> 0 then SIGNOK OR NZDIGITS OR NDIGITS
                                       else SIGNOK OR PFXOK OR NDIGITS)))
      else if 0x31 \<le> c \<and> c \<le> 0x37 then
        Some (basefix ! base, flags AND NOT (SIGNOK OR PFXOK OR NDIGITS))
      else if c = 0x38 \<or> c = 0x39 then
        (if basefix ! base \<le> 8 then None
         else Some (basefix ! base, flags AND NOT (SIGNOK OR PFXOK OR NDIGITS)))
      else if (0x41 \<le> c \<and> c \<le> 0x46) \<or> (0x61 \<le> c \<and> c \<le> 0x66) then
        (if base \<le> 10 then None else Some (base, flags AND NOT (SIGNOK OR PFXOK OR NDIGITS)))
      else if c = 0x2B \<or> c = 0x2D then
        (if flags AND SIGNOK \<noteq> 0 then Some (base, (flags AND NOT SIGNOK) OR HAVESIGN) else None)
      else if c = 0x78 \<or> c = 0x58 then
        (if flags AND PFXOK \<noteq> 0 \<and> at = 1 + (if flags AND HAVESIGN \<noteq> 0 then 1 else 0)
         then Some (16, flags AND NOT PFXOK) else None)
      else None)"

text \<open>The loop that fills the buffer: base, flags, rest of the input and buffer at its end.\<close>

fun take_number :: "nat \<Rightarrow> nat \<Rightarrow> u32 \<Rightarrow> byte list \<Rightarrow> byte list \<Rightarrow>
    (nat \<times> u32 \<times> byte list \<times> byte list) option" where
  "take_number 0 base flags fp buf = Some (base, flags, fp, buf)"
| "take_number (Suc width) base flags [] buf = None"
| "take_number (Suc width) base flags (c # fp) buf =
     (case num_char c base flags (length buf) of None \<Rightarrow> Some (base, flags, c # fp, buf)
      | Some (base', flags') \<Rightarrow>
        (case fp of [] \<Rightarrow> None
         | d # _ \<Rightarrow> if d = 0 \<or> is_space d then Some (base', flags', fp, buf @ [c])
                    else take_number width base' flags' fp (buf @ [c])))"

text \<open>The width of the destination; \<open>res\<close> is cut to it.\<close>

definition store_int :: "u32 \<Rightarrow> u32 \<Rightarrow> stored" where
  "store_int flags res =
     (if flags AND LONG_FLAGS \<noteq> 0 then StoredLong res
      else if flags AND SHORT \<noteq> 0 then StoredShort (ucast res)
      else if flags AND SHORTSHORT \<noteq> 0 then StoredChar (ucast res)
      else StoredInt res)"

definition scan_int :: "u32 \<Rightarrow> u32 \<Rightarrow> scan \<Rightarrow> scan_step" where
  "scan_int width flags st =
     (let w = (if width = 0 \<or> BUF - 1 < unat width then BUF - 1 else unat width) in
      case take_number w (sc_base st) (flags OR SIGNOK OR NDIGITS OR NZDIGITS) (sc_fp st) [] of None \<Rightarrow> Fault
      | Some (base, flags', fp, buf) \<Rightarrow>
        let st' = st\<lparr>sc_base := base, sc_fp := fp\<rparr> in
        if flags' AND NDIGITS \<noteq> 0 then Match_failure st'
        else
          let buf' = (if last buf = 0x78 \<or> last buf = 0x58 then butlast buf else buf);
              st'' = st'\<lparr>sc_nread := sc_nread st + int (length buf')\<rparr> in
          if flags' AND SUPPRESS \<noteq> 0 then Continue st''
          else (case sc_ccfn st of None \<Rightarrow> Fault
            | Some f \<Rightarrow> Continue (st''\<lparr>sc_nassigned := sc_nassigned st + 1,
                sc_out := sc_out st @ [store_int flags' (ccfn_apply f base buf')]\<rparr>)))"

text \<open>\<open>%n\<close>: the test order differs from the one of the integers.\<close>

definition scan_n :: "u32 \<Rightarrow> scan \<Rightarrow> scan" where
  "scan_n flags st =
     (if flags AND SUPPRESS \<noteq> 0 then st
      else st\<lparr>sc_out := sc_out st @
        [if flags AND SHORT \<noteq> 0 then StoredShort (word_of_int (sc_nread st))
         else if flags AND SHORTSHORT \<noteq> 0 then StoredChar (word_of_int (sc_nread st))
         else if flags AND LONG_FLAGS \<noteq> 0 then StoredLong (word_of_int (sc_nread st))
         else StoredInt (word_of_int (sc_nread st))]\<rparr>)"

text \<open>One conversion that requires input.\<close>

definition convert :: "bool \<Rightarrow> byte \<Rightarrow> u32 \<Rightarrow> u32 \<Rightarrow> scan \<Rightarrow> scan_step" where
  "convert low ct width flags st =
     (case sc_fp st of [] \<Rightarrow> Fault
      | d # _ \<Rightarrow>
        if d = 0 then Input_failure st
        else
          (case (if flags AND NOSKIP = 0 then lead_space low (sc_fp st) (sc_nread st)
                 else Some (Inr (sc_fp st, sc_nread st))) of
             None \<Rightarrow> Fault
           | Some (Inl (fp, n)) \<Rightarrow> Input_failure (st\<lparr>sc_fp := fp, sc_nread := n\<rparr>)
           | Some (Inr (fp, n)) \<Rightarrow>
             let st' = st\<lparr>sc_fp := fp, sc_nread := n\<rparr> in
             if ct = CT_CHAR then scan_char low width flags st'
             else if ct = CT_STRING then scan_string low width flags st'
             else if ct = CT_INT then scan_int width flags st'
             else Continue st'))"

text \<open>One directive of the format: the step and the rest of the format.\<close>

definition directive :: "bool \<Rightarrow> byte \<Rightarrow> byte list \<Rightarrow> scan \<Rightarrow> (scan_step \<times> byte list) option" where
  "directive low c fmt st =
     (if is_space c then
        (case skip_space (sc_fp st) of None \<Rightarrow> Some (Fault, fmt)
         | Some fp \<Rightarrow>
           Some (Continue (st\<lparr>sc_fp := fp,
             sc_nread := sc_nread st + int (length (sc_fp st)) - int (length fp) - 1\<rparr>), fmt))
      else if c \<noteq> 0x25 then Some (scan_literal c st, fmt)
      else
        (case conv_spec fmt 0 0 of None \<Rightarrow> None
         | Some (c, width, flags, fmt') \<Rightarrow>
           if c = 0x25 then Some (scan_literal c st, fmt')
           else if c = 0x6E then Some (Continue (scan_n flags st), fmt')
           else
             let st' = (case int_conv c of None \<Rightarrow> st
                        | Some (f, base) \<Rightarrow> st\<lparr>sc_ccfn := Some f, sc_base := base\<rparr>)
             in Some (convert low (conv_type c) width (conv_flags c flags) st', fmt')))"

lemma conv_spec_shorter: "conv_spec fmt w fl = Some (c, w', fl', fmt') \<Longrightarrow> length fmt' < length fmt"
  by (induction fmt w fl rule: conv_spec.induct) (auto split: if_splits list.splits)

lemma directive_shorter: "directive low c fmt st = Some (r, fmt') \<Longrightarrow> length fmt' < Suc (length fmt)"
  by (auto simp: directive_def Let_def dest: conv_spec_shorter split: if_splits option.splits)

text \<open>The main loop: the result and the values stored; \<open>None\<close> is a read behind a NUL.\<close>

function scan_loop :: "bool \<Rightarrow> byte list \<Rightarrow> scan \<Rightarrow> (int \<times> stored list) option" where
  "scan_loop low [] st = None"
| "scan_loop low (c # fmt) st =
     (if c = 0 then Some (sc_nassigned st, sc_out st)
      else (case directive low c fmt st of
          None \<Rightarrow> None
        | Some (Fault, _) \<Rightarrow> None
        | Some (Input_failure s, _) \<Rightarrow> Some (if sc_nassigned s \<noteq> 0 then sc_nassigned s else - 1, sc_out s)
        | Some (Match_failure s, _) \<Rightarrow> Some (sc_nassigned s, sc_out s)
        | Some (Continue s, fmt') \<Rightarrow> scan_loop low fmt' s))"
  by pat_completeness auto
termination
  by (relation "measure (\<lambda>(_, fmt, _). length fmt)") (auto dest: directive_shorter)

definition vsscanf :: "bool \<Rightarrow> byte list \<Rightarrow> byte list \<Rightarrow> (int \<times> stored list) option" where
  "vsscanf low s fmt = scan_loop low (fmt @ [0])
     \<lparr>sc_fp = s @ [0], sc_nread = 0, sc_nassigned = 0, sc_base = 0, sc_ccfn = None, sc_out = []\<rparr>"

section \<open>Decimal numbers\<close>

definition digit_char :: "nat \<Rightarrow> byte" where
  "digit_char k = of_nat (k + 48)"

fun dec_nat :: "nat \<Rightarrow> byte list" where
  "dec_nat n = (if n < 10 then [digit_char n] else dec_nat (n div 10) @ [digit_char (n mod 10)])"

declare dec_nat.simps [simp del]

definition dec :: "int \<Rightarrow> byte list" where
  "dec n = (if n < 0 then 0x2D # dec_nat (nat (- n)) else dec_nat (nat n))"

lemma is_digit_cases:
  "is_digit c \<longleftrightarrow> c \<in> {0x30, 0x31, 0x32, 0x33, 0x34, 0x35, 0x36, 0x37, 0x38, 0x39}"
proof -
  have "is_digit c \<longleftrightarrow> unat c \<in> {48, 49, 50, 51, 52, 53, 54, 55, 56, 57}"
    by (simp add: is_digit_def word_le_nat_alt) arith
  also have "\<dots> \<longleftrightarrow> c \<in> {0x30, 0x31, 0x32, 0x33, 0x34, 0x35, 0x36, 0x37, 0x38, 0x39}"
    by (simp add: word_unat_eq_iff)
  finally show ?thesis .
qed

lemma unat_digit: "k < 10 \<Longrightarrow> unat (digit_char k) = k + 48"
  unfolding digit_char_def unat_of_nat by simp

lemma digit_of_nat: "k < 10 \<Longrightarrow> is_digit (digit_char k)" "k < 10 \<Longrightarrow> digit_value (digit_char k) = k"
proof -
  assume k: "k < 10"
  show "is_digit (digit_char k)"
    unfolding is_digit_def word_le_nat_alt unat_digit [OF k] using k by simp
  then show "digit_value (digit_char k) = k"
    unfolding digit_value_def unat_digit [OF k] by simp
qed

lemma dec_nat_digits: "dec_nat n \<noteq> [] \<and> (\<forall>c \<in> set (dec_nat n). is_digit c)"
proof (induction n rule: dec_nat.induct)
  case (1 n)
  then show ?case by (cases "n < 10") (simp_all add: dec_nat.simps [of n] digit_of_nat)
qed

lemma digit_value_less: "is_digit c \<Longrightarrow> digit_value c < 10"
  unfolding is_digit_cases digit_value_def by auto

lemma magnitude_digits:
  assumes "\<forall>c \<in> set ds. is_digit c"
  shows "magnitude 10 ds = foldl (\<lambda>v c. 10 * v + int (digit_value c)) 0 ds"
  using assms digit_value_less by (simp add: magnitude_def takeWhile_eq_all_conv [THEN iffD2])

lemma magnitude_dec_nat: "magnitude 10 (dec_nat n) = int n"
proof (induction n rule: dec_nat.induct)
  case (1 n)
  show ?case
  proof (cases "n < 10")
    case True
    then show ?thesis by (simp add: magnitude_digits dec_nat.simps [of n] digit_of_nat)
  next
    case False
    then have "magnitude 10 (dec_nat n)
        = 10 * magnitude 10 (dec_nat (n div 10)) + int (n mod 10)"
      using dec_nat_digits [of "n div 10"]
      by (simp add: magnitude_digits dec_nat.simps [of n] digit_of_nat)
    moreover have "10 * int (n div 10) + int (n mod 10) = int n"
      by (metis mult_div_mod_eq of_nat_add of_nat_mult of_nat_numeral)
    ultimately show ?thesis using 1 False by simp
  qed
qed

lemma length_dec_nat: "n < 10 ^ Suc k \<Longrightarrow> length (dec_nat n) \<le> Suc k"
proof (induction k arbitrary: n)
  case 0
  then show ?case by (simp add: dec_nat.simps [of n])
next
  case (Suc k)
  show ?case
  proof (cases "n < 10")
    case False
    have "n div 10 < 10 ^ Suc k" using Suc.prems by (simp add: less_mult_imp_div_less)
    with Suc.IH False show ?thesis by (simp add: dec_nat.simps [of n])
  qed (simp add: dec_nat.simps [of n])
qed

lemma skip_prefix_10 [simp]: "skip_prefix 10 ds = ds"
  by (cases "(10 :: nat, ds)" rule: skip_prefix.cases) simp_all

lemma strtol_dec:
  assumes "INT_MIN \<le> n" "n \<le> INT_MAX"
  shows "ccfn_apply Strtol 10 (dec n) = word_of_int n"
proof (cases "n < 0")
  case True
  then have "signed_magnitude 10 (dec n) = (True, - n)"
    by (simp add: dec_def magnitude_dec_nat)
  then show ?thesis using assms by (simp add: ccfn_apply_def)
next
  case False
  obtain c ds where d: "dec_nat (nat n) = c # ds" "is_digit c"
    using dec_nat_digits [of "nat n"] by (cases "dec_nat (nat n)") auto
  then have "signed_magnitude 10 (dec n) = (False, n)"
    using False magnitude_dec_nat [of "nat n"] by (auto simp: dec_def is_digit_cases)
  then show ?thesis using assms by (simp add: ccfn_apply_def)
qed

section \<open>Scanning a number\<close>

text \<open>The flags of a \<open>%d\<close> conversion before its first digit and after it.\<close>

definition fresh_flags :: "u32 set" where "fresh_flags = {0xA800, 0xB000}"
definition digit_flags :: "u32 set" where "digit_flags = {0, 0x1000, 0x8000, 0x9000}"

lemma num_char_digit:
  assumes "is_digit c" and "f \<in> fresh_flags \<union> digit_flags"
  shows "\<exists>f'. num_char c 10 f at = Some (10, f') \<and> f' \<in> digit_flags"
  using assms unfolding is_digit_cases fresh_flags_def digit_flags_def
  by (elim UnE insertE emptyE; simp add: num_char_def scan_flags basefix_def)

lemma digit_not_special: "is_digit c \<Longrightarrow> c \<noteq> 0 \<and> \<not> is_space c"
  unfolding is_digit_cases is_space_def by (elim insertE emptyE; simp)

definition stops :: "byte \<Rightarrow> bool" where
  "stops c \<longleftrightarrow> c \<in> {0, 0x20, 0x2C, 0x5F}"

lemma num_char_stop: "stops c \<Longrightarrow> num_char c 10 f at = None"
  unfolding stops_def num_char_def by (elim insertE emptyE; simp)

lemma take_number_digits:
  "ds \<noteq> [] \<Longrightarrow> \<forall>c \<in> set ds. is_digit c \<Longrightarrow> length ds \<le> w \<Longrightarrow> f \<in> fresh_flags \<union> digit_flags \<Longrightarrow> stops c \<Longrightarrow>
    \<exists>f' \<in> digit_flags. take_number w 10 f (ds @ c # r) buf = Some (10, f', c # r, buf @ ds)"
proof (induction ds arbitrary: w f buf)
  case (Cons d ds)
  then obtain w' where w: "w = Suc w'" by (cases w) auto
  obtain f' where f: "num_char d 10 f (length buf) = Some (10, f')" "f' \<in> digit_flags"
    using num_char_digit [of d f] Cons.prems by auto
  show ?case
  proof (cases ds)
    case Nil
    have "take_number w' 10 f' (c # r) (buf @ [d]) = Some (10, f', c # r, buf @ [d])"
      using num_char_stop [OF Cons.prems(5)] by (cases w') simp_all
    then show ?thesis using f w Nil by (auto simp: Let_def)
  next
    case (Cons d' ds')
    then have "d' \<noteq> 0 \<and> \<not> is_space d'" using Cons.prems digit_not_special by auto
    moreover have "\<exists>f'' \<in> digit_flags. take_number w' 10 f' (ds @ c # r) (buf @ [d])
        = Some (10, f'', c # r, (buf @ [d]) @ ds)"
      using Cons.prems w f(2) Cons by (intro Cons.IH) auto
    ultimately show ?thesis using f w Cons by auto
  qed
qed simp

lemma nat_range: "INT_MIN \<le> n \<Longrightarrow> n \<le> INT_MAX \<Longrightarrow> nat \<bar>n\<bar> < 10 ^ Suc 9"
  by (simp add: layout_simps)

lemma length_dec: "INT_MIN \<le> n \<Longrightarrow> n \<le> INT_MAX \<Longrightarrow> length (dec n) \<le> 11"
  using length_dec_nat [OF nat_range, of n] by (auto simp: dec_def)

lemma dec_Cons:
  obtains c ds where "dec n = c # ds" "c \<noteq> 0" "\<not> is_space c"
proof (cases "n < 0")
  case True
  then show ?thesis by (intro that [of "0x2D" "dec_nat (nat (- n))"]) (simp_all add: dec_def is_space_def)
next
  case False
  obtain c ds where d: "dec_nat (nat n) = c # ds" "is_digit c"
    using dec_nat_digits [of "nat n"] by (cases "dec_nat (nat n)") auto
  then show ?thesis using False digit_not_special by (intro that [of c ds]) (auto simp: dec_def)
qed

lemma dec_last: "is_digit (last (dec n))"
  using dec_nat_digits [of "nat n"] dec_nat_digits [of "nat (- n)"] by (auto simp: dec_def)

lemma take_number_dec:
  assumes n: "INT_MIN \<le> n" "n \<le> INT_MAX" and c: "stops c"
  shows "\<exists>f \<in> digit_flags. take_number 512 10 0xA800 (dec n @ c # r) [] = Some (10, f, c # r, dec n)"
proof (cases "n < 0")
  case True
  let ?ds = "dec_nat (nat (- n))"
  have l: "length ?ds \<le> 511" using length_dec_nat [OF nat_range [OF n]] True by simp
  obtain d ds where d: "?ds = d # ds" "is_digit d" using dec_nat_digits [of "nat (- n)"] by (cases ?ds) auto
  have "num_char 0x2D 10 0xA800 0 = Some (10, 0xB000)" by (simp add: num_char_def scan_flags)
  then have "take_number (Suc 511) 10 0xA800 (0x2D # d # ds @ c # r) [] = take_number 511 10 0xB000 (d # ds @ c # r) [0x2D]"
    unfolding take_number.simps(3) using digit_not_special [OF d(2)] by simp
  then have "take_number 512 10 0xA800 (dec n @ c # r) [] = take_number 511 10 0xB000 (?ds @ c # r) [0x2D]"
    using True d(1) by (simp add: dec_def)
  moreover have "\<exists>f \<in> digit_flags. take_number 511 10 0xB000 (?ds @ c # r) [0x2D] = Some (10, f, c # r, [0x2D] @ ?ds)"
    using dec_nat_digits l c by (intro take_number_digits) (auto simp: fresh_flags_def)
  ultimately show ?thesis using True by (simp add: dec_def)
next
  case False
  then show ?thesis
    using take_number_digits [of "dec_nat (nat n)" 512 "0xA800" c r "[]"] dec_nat_digits
      length_dec_nat [OF nat_range [OF n]] c by (auto simp: dec_def fresh_flags_def)
qed

lemma digit_flags_masks:
  "f \<in> digit_flags \<Longrightarrow> f AND NDIGITS = 0 \<and> f AND SUPPRESS = 0 \<and> f AND LONG_FLAGS = 0 \<and> f AND SHORT = 0
    \<and> f AND SHORTSHORT = 0"
  unfolding digit_flags_def scan_flags by (elim insertE emptyE; simp)

definition after_number :: "scan \<Rightarrow> byte list \<Rightarrow> int \<Rightarrow> int \<Rightarrow> scan" where
  "after_number st fp k n = st\<lparr>sc_fp := fp, sc_base := 10, sc_ccfn := Some Strtol, sc_nread := k,
     sc_nassigned := sc_nassigned st + 1, sc_out := sc_out st @ [StoredInt (word_of_int n)]\<rparr>"

lemma lead_space_skips:
  assumes "\<forall>x \<in> set ws. is_space x" and "low \<or> ws = []" and "\<not> is_space c" and "c \<noteq> 0"
  shows "lead_space low (ws @ c # r) k = Some (Inr (c # r, k + int (length ws)))"
  using assms
proof (induction ws arbitrary: k)
  case (Cons w ws)
  then have "\<exists>d fp. ws @ c # r = d # fp \<and> d \<noteq> 0"
    by (cases ws) (auto simp: is_space_def)
  then obtain d fp where d: "ws @ c # r = d # fp" "d \<noteq> 0" by blast
  have "lead_space low (ws @ c # r) (k + 1) = Some (Inr (c # r, k + 1 + int (length ws)))"
    using Cons by simp
  with Cons.prems d show ?case by simp
qed simp

lemma scan_number_at:
  assumes n: "INT_MIN \<le> n" "n \<le> INT_MAX" and c: "stops c"
    and ws: "\<forall>x \<in> set ws. is_space x" "low \<or> ws = []" and fp: "sc_fp st = ws @ dec n @ c # r"
  shows "scan_loop low (0x25 # 0x64 # fmt) st
    = scan_loop low fmt (after_number st (c # r) (sc_nread st + int (length ws) + int (length (dec n))) n)"
proof -
  obtain d ds where d: "dec n = d # ds" "d \<noteq> 0" "\<not> is_space d" by (rule dec_Cons)
  obtain f where f: "f \<in> digit_flags" "take_number 512 10 0xA800 (dec n @ c # r) [] = Some (10, f, c # r, dec n)"
    using take_number_dec [OF n c] by blast
  let ?st = "st\<lparr>sc_ccfn := Some Strtol, sc_base := 10\<rparr>"
  let ?k = "sc_nread st + int (length ws)"
  have last: "last (dec n) \<noteq> 0x78" "last (dec n) \<noteq> 0x58"
    using dec_last [of n] by (auto simp: is_digit_cases)
  have fl: "SIGNOK OR NDIGITS OR NZDIGITS = 0xA800" "(0 :: u32) AND NOSKIP = 0" by (simp_all add: scan_flags)
  have int: "scan_int 0 0 (?st\<lparr>sc_fp := dec n @ c # r, sc_nread := ?k\<rparr>)
      = Continue (after_number st (c # r) (?k + int (length (dec n))) n)"
    using f(2) digit_flags_masks [OF f(1)] last strtol_dec [OF n]
    by (simp add: scan_int_def BUF_def fl store_int_def after_number_def Let_def)
  have ne: "\<exists>x fp. sc_fp st = x # fp \<and> x \<noteq> 0"
    using fp d ws(1) by (cases ws) (auto simp: is_space_def)
  have lead: "lead_space low (sc_fp st) (sc_nread st) = Some (Inr (dec n @ c # r, ?k))"
    using lead_space_skips [OF ws d(3,2)] d(1) fp by simp
  have "convert low CT_INT 0 0 ?st = Continue (after_number st (c # r) (?k + int (length (dec n))) n)"
    using ne lead int by (auto simp: convert_def fl CT_INT_def CT_CHAR_def CT_STRING_def)
  then have "directive low 0x25 (0x64 # fmt) st
      = Some (Continue (after_number st (c # r) (?k + int (length (dec n))) n), fmt)"
    by (simp add: directive_def is_space_def is_digit_def int_conv_def conv_type_def conv_flags_def Let_def)
  then show ?thesis by simp
qed

lemma scan_number:
  assumes "INT_MIN \<le> n" "n \<le> INT_MAX" and "stops c"
    and "\<forall>x \<in> set ws. is_space x" "low \<or> ws = []" and "sc_fp st = ws @ dec n @ c # r"
  shows "\<exists>k. scan_loop low (0x25 # 0x64 # fmt) st = scan_loop low fmt (after_number st (c # r) k n)"
  using scan_number_at [OF assms] by blast

section \<open>Lists of numbers\<close>

text \<open>Decimal numbers separated by commas, each behind some white space, and their format.\<close>

fun csv :: "(byte list \<times> int) list \<Rightarrow> byte list" where
  "csv [] = []"
| "csv [(ws, n)] = ws @ dec n"
| "csv ((ws, n) # x # xs) = ws @ dec n @ 0x2C # csv (x # xs)"

fun csv_format :: "'a list \<Rightarrow> byte list" where
  "csv_format [] = []"
| "csv_format [x] = [0x25, 0x64]"
| "csv_format (x # y # xs) = 0x25 # 0x64 # 0x2C # csv_format (y # xs)"

lemma scan_comma:
  "sc_fp st = 0x2C # fp \<Longrightarrow> scan_loop low (0x2C # fmt) st
    = scan_loop low fmt (st\<lparr>sc_fp := fp, sc_nread := sc_nread st + 1\<rparr>)"
  by (simp add: directive_def scan_literal_def is_space_def)

lemma scan_csv:
  assumes "\<forall>(ws, n) \<in> set xs. (\<forall>x \<in> set ws. is_space x) \<and> (low \<or> ws = []) \<and> INT_MIN \<le> n \<and> n \<le> INT_MAX"
    and "sc_fp st = csv xs @ [0]"
  shows "scan_loop low (csv_format xs @ [0]) st
    = Some (sc_nassigned st + int (length xs), sc_out st @ map (\<lambda>(ws, n). StoredInt (word_of_int n)) xs)"
  using assms
proof (induction xs arbitrary: st rule: csv.induct)
  case 1
  then show ?case by simp
next
  case (2 ws n)
  then obtain k where "scan_loop low [0x25, 0x64, 0] st = scan_loop low [0] (after_number st [0] k n)"
    using scan_number [of n 0 ws low st "[]" "[0]"] by (auto simp: stops_def)
  then show ?case by (simp add: after_number_def)
next
  case (3 ws n x xs)
  have s: "stops 0x2C" by (simp add: stops_def)
  let ?fmt = "csv_format (x # xs) @ [0]"
  obtain k where 1: "scan_loop low (0x25 # 0x64 # 0x2C # ?fmt) st
      = scan_loop low (0x2C # ?fmt) (after_number st (0x2C # csv (x # xs) @ [0]) k n)"
    using scan_number [OF _ _ s, of n ws low st "csv (x # xs) @ [0]" "0x2C # ?fmt"] 3(2,3) by auto
  let ?st = "(after_number st (0x2C # csv (x # xs) @ [0]) k n)"
  let ?st' = "?st\<lparr>sc_fp := csv (x # xs) @ [0], sc_nread := sc_nread ?st + 1\<rparr>"
  have "scan_loop low (0x2C # ?fmt) ?st = scan_loop low ?fmt ?st'"
    by (rule scan_comma) (simp add: after_number_def)
  also have "\<dots> = Some (sc_nassigned ?st' + int (length (x # xs)),
      sc_out ?st' @ map (\<lambda>(ws, n). StoredInt (word_of_int n)) (x # xs))"
    using 3(2) by (intro 3(1)) simp_all
  finally show ?case using 1 by (simp add: after_number_def)
qed

text \<open>C36. Round trip. Scanning decimal numbers separated by commas with \<open>%d,%d,...\<close> assigns all of them:
  the result is their count and every 32-bit number is stored with its value. White space may stand
  before a number when the string lies below the address \<open>INT_MAX\<close>.
\<close>

theorem vsscanf_numbers:
  assumes "\<forall>(ws, n) \<in> set xs. (\<forall>x \<in> set ws. is_space x) \<and> (low \<or> ws = []) \<and> INT_MIN \<le> n \<and> n \<le> INT_MAX"
  shows "vsscanf low (csv xs) (csv_format xs)
    = Some (int (length xs), map (\<lambda>(ws, n). StoredInt (word_of_int n)) xs)"
  using scan_csv [OF assms] by (simp add: vsscanf_def)

theorem vsscanf_numbers_witness:
  "vsscanf True (csv [([], 5), ([0x20], - 7)]) (csv_format [([], 5), ([0x20 :: byte], - 7 :: int)])
    = Some (2, [StoredInt 5, StoredInt (- 7)])"
  using vsscanf_numbers [of "[([], 5), ([0x20], - 7)]" True] by (simp add: is_space_def layout_simps)

section \<open>White space in the format\<close>

lemma skip_space_one:
  "\<not> is_space c \<Longrightarrow> skip_space (0x20 # c # r) = Some r"
  "skip_space [0] = Some []"
proof -
  have "is_space 0x20" "\<not> is_space 0" by (simp_all add: is_space_def)
  then show "\<not> is_space c \<Longrightarrow> skip_space (0x20 # c # r) = Some r" "skip_space [0] = Some []"
    by simp_all
qed

lemma scan_blank:
  assumes "skip_space (sc_fp st) = Some fp"
  shows "scan_loop low (0x20 # fmt) st = scan_loop low fmt
    (st\<lparr>sc_fp := fp, sc_nread := sc_nread st + int (length (sc_fp st)) - int (length fp) - 1\<rparr>)"
  using assms by (simp add: directive_def is_space_def)

lemma scan_d_end:
  "sc_fp st = [0] \<Longrightarrow> scan_loop low [0x25, 0x64, 0] st
    = Some (if sc_nassigned st \<noteq> 0 then sc_nassigned st else - 1, sc_out st)"
  "sc_fp st = [] \<Longrightarrow> scan_loop low [0x25, 0x64, 0] st = None"
  by (simp_all add: directive_def convert_def is_space_def is_digit_def int_conv_def Let_def)



text \<open>\<open>%c\<close> does not advance, and a format that ends in \<open>%\<close> is read behind its NUL.\<close>

lemma vsscanf_char_stays:
  "vsscanf low [0x41, 0x42] [0x25, 0x63, 0x25, 0x63] = Some (2, [StoredChar 0x41, StoredChar 0x41])"
  by (cases low; code_simp)

lemma vsscanf_percent_end: "vsscanf low [0x41] [0x25] = None"
  by (cases low; code_simp)

end
