(* ===== verification/Display.thy ===== *)
theory Display
  imports Prelude
begin

text \<open>
  The drawing layer \<open>platform/src/common_disp.c\<close>: a frame buffer of 16-bit pixels, or of one bit per
  pixel in pages of eight rows, text in fixed fonts, BMP and PNG pictures and rectangles. The frame
  buffer is the byte list of its block; an access outside the block, the glyph, the font or the
  picture file is \<open>None\<close>. \<open>u16\<close> coordinates are numbers below 65536, with the reduction written out
  where a sum can exceed it. Fonts that are data files, the decoded PNG rows of libpng and the blocks of
  \<open>malloc\<close> are parameters.
\<close>

section \<open>State\<close>

definition MAX_FONTS :: nat where "MAX_FONTS = 10"
definition COLOR_WHITE :: int where "COLOR_WHITE = 0xFFFF"
definition COLOR_BLACK :: int where "COLOR_BLACK = 0"

record disp_bitmap =
  bm_width :: nat
  bm_height :: nat
  bm_bpp :: nat
  bm_data :: "byte list"

record font_info =
  fi_width :: nat
  fi_height :: nat
  fi_size :: nat
  fi_start :: nat
  fi_end :: nat
  fi_data :: "byte list option"

text \<open>\<open>framebuffer\<close> is the live block behind the pointer; \<open>fb_set\<close> says that the pointer is not null.\<close>

record disp =
  framebuffer :: "byte list option"
  fb_set :: bool
  lcd_width :: nat
  lcd_height :: nat
  lcd_bpp :: nat
  disp_bkcolor :: int
  disp_color :: int
  lcd_hwfillcolor :: int
  fonts_inited :: bool
  dispFonts :: "font_info list"
  curr_font_id :: nat
  dispHzFont :: font_info
  hz_ext_data :: "byte list"

definition blankChar :: "byte list" where
  "blankChar = replicate (16 * 16 div 8) 0"

definition sansHzFont16ExtOffset :: "nat list" where
  "sansHzFont16ExtOffset = [
    0xA1A2, 0xA1A3, 0xA1AA, 0xA1AD, 0xA1AE, 0xA1AF, 0xA1B0, 0xA1B1,
    0xA1B2, 0xA1B3, 0xA1B4, 0xA1B5, 0xA1B6, 0xA1B7, 0xA1B8, 0xA1B9,
    0xA1BA, 0xA1BB, 0xA1BE, 0xA1BF, 0xA3A1, 0xA3A8, 0xA3A9, 0xA3AC,
    0xA3AD, 0xA3AE, 0xA3BA, 0xA3BB, 0xA3BF, 0xE0C5]"

section \<open>Loops and memory\<close>

text \<open>A \<open>for\<close> loop whose body can fault, over the values of its variables.\<close>

fun for_each :: "('a \<Rightarrow> 's \<Rightarrow> 's option) \<Rightarrow> 'a list \<Rightarrow> 's \<Rightarrow> 's option" where
  "for_each f [] s = Some s"
| "for_each f (a # as) s = (case f a s of None \<Rightarrow> None | Some s' \<Rightarrow> for_each f as s')"

text \<open>\<open>buffer16[i] = v\<close> and the bits of a page byte.\<close>

definition put16 :: "int \<Rightarrow> u16 \<Rightarrow> byte list \<Rightarrow> byte list option" where
  "put16 i v b =
     (if 0 \<le> i \<and> 2 * nat i + 1 < length b
      then Some (b[2 * nat i := ucast v, 2 * nat i + 1 := ucast (drop_bit 8 v)]) else None)"

definition put_bit :: "nat \<Rightarrow> nat \<Rightarrow> bool \<Rightarrow> byte list \<Rightarrow> byte list option" where
  "put_bit i k on b =
     (if i < length b
      then Some (b[i := (if on then b ! i OR push_bit k 1 else b ! i AND NOT (push_bit k 1))]) else None)"

definition on_fb :: "(byte list \<Rightarrow> byte list option) \<Rightarrow> disp \<Rightarrow> disp option" where
  "on_fb f d =
     (case framebuffer d of None \<Rightarrow> None
      | Some b \<Rightarrow> (case f b of None \<Rightarrow> None | Some b' \<Rightarrow> Some (d\<lparr>framebuffer := Some b'\<rparr>)))"

section \<open>Initialisation\<close>

text \<open>The compiled-in fonts; \<open>font_dat\<close>, \<open>hz_dat\<close> and \<open>ext\<close> are the contents of \<open>font.dat\<close>,
  \<open>fonthz.dat\<close> and \<open>fonthzext.dat\<close>, with \<open>hz_dat = None\<close> when \<open>LUA_DISP_SUPPORT_HZ\<close> is not
  defined. \<open>block\<close> is the result of \<open>malloc\<close>.\<close>

definition sansFont16 :: "byte list \<Rightarrow> font_info" where
  "sansFont16 font_dat =
     \<lparr>fi_width = 8, fi_height = 16, fi_size = 8 * 16 div 8, fi_start = 0x20, fi_end = 0x7E, fi_data = Some font_dat\<rparr>"

definition sansHzFont16 :: "byte list option \<Rightarrow> font_info" where
  "sansHzFont16 hz_dat =
     \<lparr>fi_width = 16, fi_height = 16, fi_size = (16 + 7) div 8 * 16, fi_start = 0, fi_end = 0, fi_data = hz_dat\<rparr>"

definition fontInit :: "byte list \<Rightarrow> byte list option \<Rightarrow> byte list \<Rightarrow> disp \<Rightarrow> disp" where
  "fontInit font_dat hz_dat ext d =
     (if fonts_inited d then d
      else d\<lparr>fonts_inited := True, dispFonts := sansFont16 font_dat # replicate (MAX_FONTS - 1)
         \<lparr>fi_width = 0, fi_height = 0, fi_size = 0, fi_start = 0, fi_end = 0, fi_data = None\<rparr>,
       dispHzFont := sansHzFont16 hz_dat, hz_ext_data := ext\<rparr>)"

definition platform_disp_init ::
  "nat \<Rightarrow> nat \<Rightarrow> nat \<Rightarrow> int \<Rightarrow> byte list option \<Rightarrow> byte list \<Rightarrow> byte list option \<Rightarrow> byte list \<Rightarrow> disp \<Rightarrow> disp option" where
  "platform_disp_init width height bpp hwfillcolor block font_dat hz_dat ext d =
     (if bpp \<noteq> 16 \<and> bpp \<noteq> 1 then None
      else
        let d1 = d\<lparr>lcd_width := width, lcd_height := height, lcd_bpp := bpp,
              framebuffer := block, fb_set := (block \<noteq> None)\<rparr>;
            d2 = (if bpp = 1 then d1\<lparr>disp_bkcolor := COLOR_BLACK, disp_color := COLOR_WHITE,
                    lcd_hwfillcolor := (if hwfillcolor \<noteq> - 1 then hwfillcolor else lcd_hwfillcolor d1)\<rparr>
                  else d1)
        in Some (fontInit font_dat hz_dat ext d2))"

text \<open>Closing frees the block and keeps the pointer.\<close>

definition platform_disp_close :: "disp \<Rightarrow> disp option" where
  "platform_disp_close d =
     (if \<not> fb_set d then Some d
      else if framebuffer d = None then None else Some (d\<lparr>framebuffer := None\<rparr>))"

definition fb_size :: "disp \<Rightarrow> nat" where
  "fb_size d = lcd_width d * lcd_height d * lcd_bpp d div 8"

definition platform_disp_clear :: "disp \<Rightarrow> disp option" where
  "platform_disp_clear d =
     (if lcd_bpp d = 1 then
        on_fb (\<lambda>b. if length b < fb_size d then None
          else Some (replicate (fb_size d) (if disp_bkcolor d \<noteq> lcd_hwfillcolor d then 0 else 0xFF)
                     @ drop (fb_size d) b)) d
      else
        for_each (\<lambda>(col, row). on_fb (put16 (int (row * lcd_width d + col)) (word_of_int (disp_bkcolor d))))
          (List.product [0..<lcd_width d] [0..<lcd_height d]) d)"

text \<open>What \<open>platform_lcd_update\<close> is called with.\<close>

record platform_rect =
  ltx :: u16
  lty :: u16
  rbx :: u16
  rby :: u16

definition platform_disp_update :: "disp \<Rightarrow> platform_rect \<times> byte list option" where
  "platform_disp_update d =
     (\<lparr>ltx = 0, lty = 0, rbx = of_nat (lcd_width d) - 1, rby = of_nat (lcd_height d) - 1\<rparr>, framebuffer d)"

section \<open>Glyphs\<close>

text \<open>\<open>pBitmap->data[bwbytes*by+bx/8] & (0x80>>(bx%8))\<close>.\<close>

definition bmp_bit :: "disp_bitmap \<Rightarrow> nat \<Rightarrow> nat \<Rightarrow> bool option" where
  "bmp_bit bm bx by' =
     (let i = (bm_width bm + 7) div 8 * by' + bx div 8
      in if i < length (bm_data bm) then Some (bm_data bm ! i AND drop_bit (bx mod 8) 0x80 \<noteq> 0) else None)"

definition glyph_cells :: "disp_bitmap \<Rightarrow> nat \<Rightarrow> nat \<Rightarrow> disp \<Rightarrow> (nat \<times> nat) list" where
  "glyph_cells bm startX startY d =
     List.product [startX..<min (lcd_width d) (startX + bm_width bm)]
       [startY..<min (lcd_height d) (startY + bm_height bm)]"

definition disp_bitmap_bpp1 :: "disp_bitmap \<Rightarrow> nat \<Rightarrow> nat \<Rightarrow> disp \<Rightarrow> disp option" where
  "disp_bitmap_bpp1 bm startX startY d =
     (if bm_bpp bm \<noteq> 1 then Some d
      else
        for_each (\<lambda>(x, y) s.
            case bmp_bit bm (x - startX) (y - startY) of None \<Rightarrow> None
            | Some False \<Rightarrow> Some s
            | Some True \<Rightarrow>
              on_fb (put_bit (y div 8 * lcd_width d + x) (y mod 8) (disp_color d = lcd_hwfillcolor d)) s)
          (glyph_cells bm startX startY d) d)"

definition disp_1bitbmp_bpp16 :: "disp_bitmap \<Rightarrow> nat \<Rightarrow> nat \<Rightarrow> disp \<Rightarrow> disp option" where
  "disp_1bitbmp_bpp16 bm startX startY d =
     (if bm_bpp bm \<noteq> 1 then None
      else for_each (\<lambda>(x, y) s.
         case bmp_bit bm (x - startX) (y - startY) of None \<Rightarrow> None
         | Some False \<Rightarrow> Some s
         | Some True \<Rightarrow> on_fb (put16 (int (y * lcd_width d + x)) (word_of_int (disp_color d))) s)
       (glyph_cells bm startX startY d) d)"

definition getFontBitmap :: "nat \<Rightarrow> disp \<Rightarrow> disp_bitmap" where
  "getFontBitmap charcode d =
     (let fi = dispFonts d ! curr_font_id d
      in \<lparr>bm_width = fi_width fi, bm_height = fi_height fi, bm_bpp = 1,
          bm_data = (case fi_data fi of None \<Rightarrow> blankChar
            | Some data \<Rightarrow> if fi_start fi \<le> charcode \<and> charcode \<le> fi_end fi
                          then drop ((charcode - fi_start fi) * fi_size fi) data else blankChar)\<rparr>)"

text \<open>The search of \<open>sansHzFont16ExtOffset\<close> stops at the first larger entry.\<close>

fun ext_search :: "nat list \<Rightarrow> nat \<Rightarrow> nat \<Rightarrow> nat option" where
  "ext_search [] charcode index = None"
| "ext_search (c # cs) charcode index =
     (if charcode < c then None else if charcode = c then Some index else ext_search cs charcode (Suc index))"

definition getHzBitmap :: "nat \<Rightarrow> disp \<Rightarrow> disp_bitmap" where
  "getHzBitmap charcode d =
     (let fi = dispHzFont d; byte1 = charcode div 256; byte2 = charcode mod 256
      in \<lparr>bm_width = fi_width fi, bm_height = fi_height fi, bm_bpp = 1,
          bm_data = (case fi_data fi of None \<Rightarrow> blankChar
            | Some data \<Rightarrow>
              if 0xB0 \<le> byte1 \<and> byte1 \<le> 0xF7 \<and> 0xA1 \<le> byte2 \<and> byte2 \<le> 0xFE
              then drop (((byte1 - 0xB0) * 94 + byte2 - 0xA1) * fi_size fi) data
              else (case ext_search sansHzFont16ExtOffset charcode 0 of None \<Rightarrow> blankChar
                    | Some index \<Rightarrow> drop (index * fi_size fi) (hz_ext_data d)))\<rparr>)"

definition getCharBitmap :: "nat \<Rightarrow> disp \<Rightarrow> disp_bitmap" where
  "getCharBitmap charcode d = (if 0xA0A0 \<le> charcode then getHzBitmap charcode d else getFontBitmap charcode d)"

section \<open>Text\<close>

text \<open>One character, and the bitmap as \<open>next_line\<close> sees it.\<close>

definition draw_char :: "nat \<Rightarrow> nat \<Rightarrow> nat \<Rightarrow> disp \<Rightarrow> (disp_bitmap \<times> disp) option" where
  "draw_char charcode x y d =
     (let bm = getCharBitmap charcode d in
      if lcd_bpp d = 1 then
        (if bm_width bm = 14 \<and> bm_height bm = 14
         then map_option (\<lambda>d'. (bm\<lparr>bm_width := 16, bm_height := 16\<rparr>, d'))
                (disp_bitmap_bpp1 bm ((x + 1) mod 65536) ((y + 1) mod 65536) d)
         else map_option (\<lambda>d'. (bm, d')) (disp_bitmap_bpp1 bm x y d))
      else map_option (\<lambda>d'. (bm, d')) (disp_1bitbmp_bpp16 bm x y d))"

definition next_line :: "disp_bitmap \<Rightarrow> disp \<Rightarrow> nat \<times> nat \<Rightarrow> nat \<times> nat" where
  "next_line bm d = (\<lambda>(x, y).
     let (x', y') = (if lcd_width d \<le> x + bm_width bm then (0, (y + bm_height bm) mod 65536)
                     else (x + bm_width bm, y))
     in (x', if lcd_height d \<le> y' then 0 else y'))"

text \<open>\<open>bm\<close> is \<open>None\<close> before the first character: the variable \<open>bitmap\<close> is not initialised.\<close>

function puttext_loop :: "byte list \<Rightarrow> nat \<times> nat \<Rightarrow> disp_bitmap option \<Rightarrow> disp \<Rightarrow> disp option" where
  "puttext_loop [] xy bm d = Some d"
| "puttext_loop (c # cs) xy bm d =
     (if c = 0x0D \<or> c = 0x0A then
        (case bm of None \<Rightarrow> None | Some b \<Rightarrow> puttext_loop cs (next_line b d xy) bm d)
      else
        let (charcode, rest) =
          (if bit c 7 then
             (case cs of [] \<Rightarrow> (0x3F, [])
              | e # es \<Rightarrow> if bit e 7 then (256 * unat c + unat e, es) else (0x3F, cs))
           else (unat c, cs))
        in (case draw_char charcode (fst xy) (snd xy) d of None \<Rightarrow> None
            | Some (b, d') \<Rightarrow> puttext_loop rest (next_line b d' xy) (Some b) d'))"
  by pat_completeness auto
termination
  by (relation "measure (\<lambda>(s, _). length s)") (auto split: if_splits list.splits)

definition platform_disp_puttext :: "byte list \<Rightarrow> nat \<Rightarrow> nat \<Rightarrow> disp \<Rightarrow> disp option" where
  "platform_disp_puttext str x y d =
     puttext_loop str (if lcd_width d \<le> x then 0 else x, if lcd_height d \<le> y then 0 else y) None d"

section \<open>BMP pictures\<close>

fun rd_le :: "byte list \<Rightarrow> nat \<Rightarrow> nat \<Rightarrow> u32 option" where
  "rd_le b i 0 = Some 0"
| "rd_le b i (Suc n) =
     (if i < length b
      then (case rd_le b (Suc i) n of None \<Rightarrow> None | Some v \<Rightarrow> Some (ucast (b ! i) OR push_bit 8 v)) else None)"

definition rd8 :: "byte list \<Rightarrow> int \<Rightarrow> byte option" where
  "rd8 b i = (if 0 \<le> i \<and> nat i < length b then Some (b ! nat i) else None)"

record bmp_header =
  bitmap_offset :: u32
  bh_width :: u32
  bh_height :: u32
  number_of_planes :: u32
  bits_per_pixel :: u32

text \<open>The packed headers at the start of the file: 14 and 40 bytes.\<close>

definition bmp_header_of :: "byte list \<Rightarrow> bmp_header option" where
  "bmp_header_of b =
     (case (rd_le b 10 4, rd_le b 18 4, rd_le b 22 4, rd_le b 26 2, rd_le b 28 2) of
        (Some off, Some w, Some h, Some planes, Some bpp) \<Rightarrow>
          Some \<lparr>bitmap_offset = off, bh_width = w, bh_height = h, number_of_planes = planes, bits_per_pixel = bpp\<rparr>
      | _ \<Rightarrow> None)"

definition RGB24ToRGB16 :: "u16 \<Rightarrow> u16 \<Rightarrow> u16 \<Rightarrow> u16" where
  "RGB24ToRGB16 r g b =
     push_bit 8 (r AND 0x00F8) OR push_bit 3 (g AND 0x00FC) OR drop_bit 3 (b AND 0xF8)"

text \<open>The second palette entry, white or not; the comparison stops at the first difference.\<close>

definition palette_white :: "byte list \<Rightarrow> bool option" where
  "palette_white b =
     (case rd8 b 58 of None \<Rightarrow> None | Some p0 \<Rightarrow>
      if p0 \<noteq> 0xFF then Some False else
      (case rd8 b 59 of None \<Rightarrow> None | Some p1 \<Rightarrow>
       if p1 \<noteq> 0xFF then Some False else
       (case rd8 b 60 of None \<Rightarrow> None | Some p2 \<Rightarrow> Some (p2 = 0xFF))))"

text \<open>The row index of the picture on line \<open>row\<close> of the screen, and the rows for which the loop runs.\<close>

definition bmp_row :: "bmp_header \<Rightarrow> nat \<Rightarrow> nat \<Rightarrow> nat \<Rightarrow> u32" where
  "bmp_row h upper y row = bh_height h - of_nat upper - 1 - of_nat (row - y)"

definition bmp_rows :: "bmp_header \<Rightarrow> nat \<Rightarrow> u32 \<Rightarrow> nat \<Rightarrow> nat \<Rightarrow> nat list" where
  "bmp_rows h upper bottom y height =
     takeWhile (\<lambda>row. bh_height h - bottom - 1 \<le> bmp_row h upper y row) [y..<height]"

definition bitmapRowBytes :: "bmp_header \<Rightarrow> int" where
  "bitmapRowBytes h = uint (ucast (drop_bit 3 ((bh_width h * bits_per_pixel h + 31) AND NOT 31)) :: u16)"

definition mono_pixel :: "byte list \<Rightarrow> bmp_header \<Rightarrow> byte \<Rightarrow> u32 \<Rightarrow> nat \<Rightarrow> bool option" where
  "mono_pixel b h finalfill brow bcol =
     (case rd8 b (uint (bitmap_offset h) + (bitmapRowBytes h * sint brow + int (bcol div 8))) of None \<Rightarrow> None
      | Some v \<Rightarrow> Some (v AND drop_bit (bcol mod 8) 0x80 = drop_bit (bcol mod 8) finalfill))"

definition color_pixel :: "byte list \<Rightarrow> bmp_header \<Rightarrow> u32 \<Rightarrow> nat \<Rightarrow> u16 option" where
  "color_pixel b h brow bcol =
     (let data_index = word_of_int (sint brow * bitmapRowBytes h + int bcol * uint (bits_per_pixel h) div 8) :: u32;
          at = uint (bitmap_offset h) + uint data_index
      in if bits_per_pixel h = 24 then
           (case (rd8 b (at + 2), rd8 b (at + 1), rd8 b at) of
              (Some r, Some g, Some bl) \<Rightarrow> Some (RGB24ToRGB16 (ucast r) (ucast g) (ucast bl))
            | _ \<Rightarrow> None)
         else (case (rd8 b at, rd8 b (at + 1)) of
              (Some lo, Some hi) \<Rightarrow> Some (ucast lo OR push_bit 8 (ucast hi)) | _ \<Rightarrow> None))"

definition put_bmp_file_buff ::
  "byte list \<Rightarrow> nat \<Rightarrow> nat \<Rightarrow> int \<Rightarrow> nat \<Rightarrow> nat \<Rightarrow> nat \<Rightarrow> nat \<Rightarrow> disp \<Rightarrow> (disp \<times> int) option" where
  "put_bmp_file_buff b x y transcolor left upper right bottom d =
     (case bmp_header_of b of None \<Rightarrow> None
      | Some h \<Rightarrow>
        if right < left \<or> bottom < upper then Some (d, PLATFORM_ERR)
        else
          let whole = (left = 0 \<and> upper = 0 \<and> right = 0 \<and> bottom = 0);
              width = (if whole then min (unat (bh_width h + of_nat x)) (lcd_width d)
                       else min (right - left + 1 + x) (lcd_width d));
              height = (if whole then min (unat (bh_height h + of_nat y)) (lcd_height d)
                        else min (bottom - upper + 1 + y) (lcd_height d));
              bot = (if whole then bh_height h - 1 else of_nat bottom);
              cells = List.product (bmp_rows h upper bot y height) [x..<width]
          in if lcd_bpp d = 1 \<and> bits_per_pixel h = 1 then
               (case (if number_of_planes h = 1 then palette_white b else Some True) of None \<Rightarrow> None
                | Some bmpfill \<Rightarrow>
                  let finalfill = (if (lcd_hwfillcolor d = COLOR_WHITE) = bmpfill then 0x80 else 0) in
                  map_option (\<lambda>d'. (d', PLATFORM_OK))
                    (for_each (\<lambda>(row, col) s.
                        case mono_pixel b h finalfill (bmp_row h upper y row) (left + (col - x)) of None \<Rightarrow> None
                        | Some on \<Rightarrow> on_fb (put_bit (row div 8 * lcd_width d + col) (row mod 8) on) s) cells d))
             else if lcd_bpp d \<noteq> 16 then Some (d, PLATFORM_ERR)
             else if bits_per_pixel h \<noteq> 24 \<and> bits_per_pixel h \<noteq> 16 then Some (d, PLATFORM_ERR)
             else
               map_option (\<lambda>d'. (d', PLATFORM_OK))
                 (for_each (\<lambda>(row, col) s.
                     case color_pixel b h (bmp_row h upper y row) (left + (col - x)) of None \<Rightarrow> None
                     | Some rgb16 \<Rightarrow>
                       if transcolor = - 1 \<or> uint rgb16 \<noteq> transcolor
                       then on_fb (put16 (int (row * lcd_width d + col)) rgb16) s else Some s) cells d))"

section \<open>PNG pictures\<close>

text \<open>What libpng delivers for a file: its size, the number of channels and the rows of bytes, up to the
  first error.\<close>

record png_image =
  png_width :: u32
  png_height :: u32
  png_channel :: nat
  png_rows :: "byte list list"

definition png_pixel :: "png_image \<Rightarrow> nat \<Rightarrow> nat \<Rightarrow> u16 option" where
  "png_pixel p row col =
     (if row < length (png_rows p) then
        let at = int (col * png_channel p) in
        (case (rd8 (png_rows p ! row) at, rd8 (png_rows p ! row) (at + 1), rd8 (png_rows p ! row) (at + 2)) of
           (Some r, Some g, Some bl) \<Rightarrow> Some (RGB24ToRGB16 (ucast r) (ucast g) (ucast bl)) | _ \<Rightarrow> None)
      else None)"

text \<open>\<open>png = None\<close>: the file does not exist, libpng reports an error in the header, or there is no
  memory. An error in a row leaves the loop by \<open>longjmp\<close>.\<close>

definition put_png_file_buff ::
  "png_image option \<Rightarrow> nat \<Rightarrow> nat \<Rightarrow> int \<Rightarrow> nat \<Rightarrow> nat \<Rightarrow> nat \<Rightarrow> nat \<Rightarrow> disp \<Rightarrow> (disp \<times> int) option" where
  "put_png_file_buff png x y transcolor left upper right bottom d =
     (if right < left \<or> bottom < upper then Some (d, PLATFORM_ERR)
      else (case png of None \<Rightarrow> Some (d, PLATFORM_ERR)
        | Some p \<Rightarrow>
          if png_channel p \<noteq> 3 \<and> png_channel p \<noteq> 4 then Some (d, PLATFORM_ERR)
          else
            let whole = (left = 0 \<and> upper = 0 \<and> right = 0 \<and> bottom = 0);
                right' = (if whole then unat (png_width p - 1) else right);
                bottom' = (if whole then unat (png_height p - 1) else bottom);
                rows = min (unat (png_height p)) (Suc bottom')
            in map_option (\<lambda>d'. (d', if length (png_rows p) < rows then PLATFORM_ERR else PLATFORM_OK))
                 (for_each (\<lambda>(row, col) s.
                     case png_pixel p row col of None \<Rightarrow> None
                     | Some rgb16 \<Rightarrow>
                       if transcolor = - 1 \<or> uint rgb16 \<noteq> transcolor
                       then on_fb (put16 (int (((y + row - upper) * lcd_width d + (x + col - left)) mod 2 ^ 32)) rgb16) s
                       else Some s)
                   (List.product [upper..<min rows (length (png_rows p))] [left..<Suc right']) d)))"

text \<open>\<open>strstr (filename, pat) \<noteq> NULL\<close>.\<close>

definition name_has :: "string \<Rightarrow> string \<Rightarrow> bool" where
  "name_has name pat = list_ex (\<lambda>i. take (length pat) (drop i name) = pat) [0..<Suc (length name)]"

text \<open>\<open>file\<close> is \<open>None\<close> when the file does not exist or its buffer cannot be allocated.\<close>

definition platform_disp_putimage ::
  "string \<Rightarrow> byte list option \<Rightarrow> png_image option \<Rightarrow> nat \<Rightarrow> nat \<Rightarrow> int \<Rightarrow> nat \<Rightarrow> nat \<Rightarrow> nat \<Rightarrow> nat \<Rightarrow> disp
    \<Rightarrow> (disp \<times> int) option" where
  "platform_disp_putimage filename file png x y transcolor left upper right bottom d =
     (if name_has filename ''.bmp'' \<or> name_has filename ''.BMP'' then
        (case file of None \<Rightarrow> Some (d, PLATFORM_ERR)
          | Some b \<Rightarrow> put_bmp_file_buff b x y transcolor left upper right bottom d)
      else if name_has filename ''.png'' \<or> name_has filename ''.PNG'' then
        put_png_file_buff png x y transcolor left upper right bottom d
      else Some (d, PLATFORM_ERR))"

section \<open>Rectangles, colours and fonts\<close>

definition platform_disp_drawrect :: "int \<Rightarrow> int \<Rightarrow> int \<Rightarrow> int \<Rightarrow> int \<Rightarrow> disp \<Rightarrow> (disp \<times> int) option" where
  "platform_disp_drawrect ax1 ay1 ax2 ay2 color d =
     (let w = int (lcd_width d); h = int (lcd_height d);
          x1 = min ax1 (w - 1); x2 = min ax2 (w - 1); y1 = min ay1 (h - 1); y2 = min ay2 (h - 1)
      in if x2 \<le> x1 \<or> y2 \<le> y1 then Some (d, PLATFORM_ERR)
         else if lcd_bpp d = 16 then
           map_option (\<lambda>d'. (d', PLATFORM_OK))
             (if color = - 1 then
                let c = word_of_int (disp_color d) in
                (case for_each (\<lambda>i s. case on_fb (put16 (y1 * w + i) c) s of None \<Rightarrow> None
                    | Some s' \<Rightarrow> on_fb (put16 (y1 * w + (y2 - y1) * w + i) c) s') [x1..x2] d of None \<Rightarrow> None
                 | Some d1 \<Rightarrow>
                   for_each (\<lambda>j s. case on_fb (put16 (j * w + x1) c) s of None \<Rightarrow> None
                     | Some s' \<Rightarrow> on_fb (put16 (j * w + x2) c) s') [y1..y2] d1)
              else
                for_each (\<lambda>(j, i). on_fb (put16 (j * w + i) (word_of_int color))) (List.product [y1..y2] [x1..x2]) d)
         else if lcd_bpp d = 1 then
           (if color = COLOR_BLACK \<or> color = COLOR_WHITE then
              map_option (\<lambda>d'. (d', PLATFORM_OK))
                (for_each (\<lambda>(x, y). on_fb (put_bit (y div 8 * lcd_width d + x) (y mod 8) (color = lcd_hwfillcolor d)))
                  (List.product [nat (x1 mod 65536)..<nat x2] [nat (y1 mod 65536)..<nat y2]) d)
            else Some (d, PLATFORM_OK))
         else Some (d, PLATFORM_ERR))"

definition platform_disp_setcolor :: "int \<Rightarrow> disp \<Rightarrow> disp \<times> int" where
  "platform_disp_setcolor color d = (d\<lparr>disp_color := color\<rparr>, disp_color d)"

definition platform_disp_setbkcolor :: "int \<Rightarrow> disp \<Rightarrow> disp \<times> int" where
  "platform_disp_setbkcolor color d = (d\<lparr>disp_bkcolor := color\<rparr>, disp_bkcolor d)"

fun free_font :: "font_info list \<Rightarrow> nat" where
  "free_font [] = 0"
| "free_font (fi # fs) = (if fi_data fi = None then 0 else Suc (free_font fs))"

text \<open>The header of a font file is 7 bytes; \<open>size\<close> of a glyph is stored in a byte.\<close>

definition platform_disp_loadfont :: "byte list option \<Rightarrow> disp \<Rightarrow> disp \<times> int" where
  "platform_disp_loadfont file d =
     (case file of None \<Rightarrow> (d, - 1)
      | Some buf \<Rightarrow>
        if length buf \<le> 7 then (d, - 1)
        else
          let width = unat (buf ! 0); height = unat (buf ! 1); type = buf ! 2;
              start = unat (buf ! 3) + 256 * unat (buf ! 4); end = unat (buf ! 5) + 256 * unat (buf ! 6);
              charsize = (width + 7) div 8 * height; i = free_font (dispFonts d)
          in if type \<noteq> 0 \<or> end < start \<or> charsize * (end - start + 1) \<noteq> length buf - 7 \<or> MAX_FONTS \<le> i
             then (d, - 1)
             else (d\<lparr>dispFonts := (dispFonts d)[i := \<lparr>fi_width = width, fi_height = height,
                       fi_size = charsize mod 256, fi_start = start, fi_end = end, fi_data = Some (drop 7 buf)\<rparr>]\<rparr>,
                   int i))"

definition platform_disp_setfont :: "int \<Rightarrow> disp \<Rightarrow> disp \<times> int" where
  "platform_disp_setfont i d =
     (if i < 0 \<or> int MAX_FONTS \<le> i \<or> fi_data (dispFonts d ! nat i) = None then (d, - 1)
      else (d\<lparr>curr_font_id := nat i\<rparr>, int (curr_font_id d)))"

end
