(* ===== verification/Canvas.thy ===== *)
theory Canvas
  imports Display
begin

text \<open>
  The two pixel formats of theory \<open>Display\<close> under one interface. Locale \<open>canvas\<close>: pixels are read and
  written by coordinates, and writing a pixel inside the screen changes that pixel only. Its lemma
  describes every drawing loop, whatever the order of its pixels; both formats interpret it.
\<close>

section \<open>The interface\<close>

text \<open>Only the frame buffer differs.\<close>

definition same_disp :: "disp \<Rightarrow> disp \<Rightarrow> bool" where
  "same_disp d s \<longleftrightarrow> (\<exists>fb. s = d\<lparr>framebuffer := fb\<rparr>)"

lemma same_refl [simp]: "same_disp d d"
  unfolding same_disp_def by (rule exI [of _ "framebuffer d"]) simp

lemma same_trans: "same_disp d s \<Longrightarrow> same_disp s t \<Longrightarrow> same_disp d t"
  by (auto simp: same_disp_def)

lemma same_fields [simp]:
  assumes "same_disp d s"
  shows "lcd_width s = lcd_width d" "lcd_height s = lcd_height d" "lcd_bpp s = lcd_bpp d"
    "disp_color s = disp_color d" "lcd_hwfillcolor s = lcd_hwfillcolor d"
    "dispFonts s = dispFonts d" "curr_font_id s = curr_font_id d" "dispHzFont s = dispHzFont d" "hz_ext_data s = hz_ext_data d"
  using assms by (auto simp: same_disp_def)

lemma on_fb_Some:
  "framebuffer d = Some b \<Longrightarrow> f b = Some b' \<Longrightarrow> on_fb f d = Some (d\<lparr>framebuffer := Some b'\<rparr>)"
  by (simp add: on_fb_def)

locale canvas =
  fixes put :: "nat \<Rightarrow> nat \<Rightarrow> 'v \<Rightarrow> disp \<Rightarrow> disp option"
    and get :: "nat \<Rightarrow> nat \<Rightarrow> disp \<Rightarrow> 'v"
    and ok :: "disp \<Rightarrow> bool"
  assumes put_ok: "ok s \<Longrightarrow> x < lcd_width s \<Longrightarrow> y < lcd_height s \<Longrightarrow>
    \<exists>s'. put x y v s = Some s' \<and> ok s' \<and> same_disp s s'
      \<and> (\<forall>x' y'. x' < lcd_width s \<longrightarrow> y' < lcd_height s \<longrightarrow> get x' y' s' = (if x' = x \<and> y' = y then v else get x' y' s))"
begin

text \<open>The picture after the pixels \<open>cells\<close> were painted with \<open>f\<close>, which skips where it is \<open>None\<close>.\<close>

definition painted :: "(nat \<times> nat \<Rightarrow> 'v option) \<Rightarrow> (nat \<times> nat) set \<Rightarrow> disp \<Rightarrow> disp \<Rightarrow> bool" where
  "painted f S d d' \<longleftrightarrow> (\<forall>x y. x < lcd_width d \<longrightarrow> y < lcd_height d \<longrightarrow>
     get x y d' = (if (x, y) \<in> S then (case f (x, y) of None \<Rightarrow> get x y d | Some v \<Rightarrow> v) else get x y d))"

lemma painted_Un:
  assumes "painted f S d s" and "painted f T s t" and "lcd_width s = lcd_width d" and "lcd_height s = lcd_height d"
  shows "painted f (S \<union> T) d t"
  unfolding painted_def
proof (intro allI impI)
  fix x y
  assume "x < lcd_width d" "y < lcd_height d"
  then have "get x y s = (if (x, y) \<in> S then (case f (x, y) of None \<Rightarrow> get x y d | Some v \<Rightarrow> v) else get x y d)"
    "get x y t = (if (x, y) \<in> T then (case f (x, y) of None \<Rightarrow> get x y s | Some v \<Rightarrow> v) else get x y s)"
    using assms unfolding painted_def by simp_all
  then show "get x y t = (if (x, y) \<in> S \<union> T then (case f (x, y) of None \<Rightarrow> get x y d | Some v \<Rightarrow> v) else get x y d)"
    by (cases "f (x, y)") auto
qed

lemma paint_step:
  assumes "ok s" and "x < lcd_width s" and "y < lcd_height s"
  shows "\<exists>s'. (case f (x, y) of None \<Rightarrow> Some s | Some v \<Rightarrow> put x y v s) = Some s' \<and> ok s' \<and> same_disp s s'
    \<and> painted f {(x, y)} s s'"
proof (cases "f (x, y)")
  case None
  then show ?thesis using assms(1) by (simp add: painted_def)
next
  case (Some v)
  from put_ok [OF assms, of v] obtain s' where s': "put x y v s = Some s'" "ok s'" "same_disp s s'"
    "\<forall>x' y'. x' < lcd_width s \<longrightarrow> y' < lcd_height s \<longrightarrow> get x' y' s' = (if x' = x \<and> y' = y then v else get x' y' s)"
    by blast
  have "painted f {(x, y)} s s'" unfolding painted_def using s'(4) Some by simp
  with s' Some show ?thesis by simp
qed

lemma paint_loop:
  assumes "ok d"
    and "\<And>c. c \<in> set cells \<Longrightarrow> fst (pos c) < lcd_width d \<and> snd (pos c) < lcd_height d"
    and "\<And>c s. c \<in> set cells \<Longrightarrow> same_disp d s \<Longrightarrow> g c s = (case f (pos c) of None \<Rightarrow> Some s
      | Some v \<Rightarrow> put (fst (pos c)) (snd (pos c)) v s)"
  shows "\<exists>d'. for_each g cells d = Some d' \<and> ok d' \<and> same_disp d d' \<and> painted f (pos ` set cells) d d'"
proof -
  have "\<exists>d'. for_each g cells s = Some d' \<and> ok d' \<and> same_disp d d' \<and> painted f (pos ` set cells) s d'"
    if "ok s" "same_disp d s" "set cells \<subseteq> set cells0" "\<And>c. c \<in> set cells0 \<Longrightarrow> fst (pos c) < lcd_width d \<and> snd (pos c) < lcd_height d"
      "\<And>c s. c \<in> set cells0 \<Longrightarrow> same_disp d s \<Longrightarrow> g c s = (case f (pos c) of None \<Rightarrow> Some s
      | Some v \<Rightarrow> put (fst (pos c)) (snd (pos c)) v s)" for cells0 s
    using that(1,2,3)
  proof (induction cells arbitrary: s)
    case Nil
    then show ?case by (simp add: painted_def)
  next
    case (Cons c cells)
    have inside: "fst (pos c) < lcd_width s" "snd (pos c) < lcd_height s"
      using that(4) [of c] Cons.prems by auto
    have step: "g c s = (case f (pos c) of None \<Rightarrow> Some s | Some v \<Rightarrow> put (fst (pos c)) (snd (pos c)) v s)"
      using that(5) [of c s] Cons.prems by auto
    obtain s1 where s1: "g c s = Some s1" "ok s1" "same_disp s s1" "painted f {pos c} s s1"
      using paint_step [OF Cons.prems(1) inside, of f] unfolding step prod.collapse by blast
    have same1: "same_disp d s1" using same_trans [OF Cons.prems(2) s1(3)] .
    obtain d' where d': "for_each g cells s1 = Some d'" "ok d'" "same_disp d d'"
        "painted f (pos ` set cells) s1 d'"
      using Cons.IH [OF s1(2) same1] Cons.prems(3) by auto
    have "painted f (pos ` set (c # cells)) s d'"
      using painted_Un [OF s1(4) d'(4)] s1(3) by simp
    with s1(1) d'(1,2,3) show ?case by simp
  qed
  from this [of d cells] assms show ?thesis by simp
qed

text \<open>A picture drawn in one colour.\<close>

definition inked :: "'v \<Rightarrow> (nat \<Rightarrow> nat \<Rightarrow> bool) \<Rightarrow> disp \<Rightarrow> disp \<Rightarrow> bool" where
  "inked v P d d' \<longleftrightarrow> (\<forall>x y. x < lcd_width d \<longrightarrow> y < lcd_height d \<longrightarrow>
     get x y d' = (if P x y then v else get x y d))"

lemma inked_none [intro]: "inked v (\<lambda>x y. False) d d"
  by (simp add: inked_def)

lemma inked_trans:
  assumes "inked v P d s" and "inked v Q s t" and "same_disp d s"
  shows "inked v (\<lambda>x y. P x y \<or> Q x y) d t"
  using assms unfolding inked_def by (auto simp: same_fields)

lemma inked_cong:
  assumes "inked v P d d'" and "\<And>x y. x < lcd_width d \<Longrightarrow> y < lcd_height d \<Longrightarrow> P x y = Q x y"
  shows "inked v Q d d'"
  using assms unfolding inked_def by simp

lemma painted_inked:
  assumes "painted f S d d'" and "\<And>p u. f p = Some u \<Longrightarrow> u = v"
  shows "inked v (\<lambda>x y. (x, y) \<in> S \<and> f (x, y) \<noteq> None) d d'"
  using assms unfolding inked_def painted_def by (auto split: option.splits)

end

section \<open>Sixteen bits per pixel\<close>

definition px16 :: "byte list \<Rightarrow> nat \<Rightarrow> u16" where
  "px16 b i = ucast (b ! (2 * i)) OR push_bit 8 (ucast (b ! (2 * i + 1)))"

lemma px16_put16:
  assumes "2 * i + 1 < length b"
  shows "\<exists>b'. put16 (int i) v b = Some b' \<and> length b' = length b
    \<and> (\<forall>j. 2 * j + 1 < length b \<longrightarrow> px16 b' j = (if j = i then v else px16 b j))"
proof -
  let ?b = "b[2 * i := ucast v, 2 * i + 1 := ucast (drop_bit 8 v)]"
  have "ucast (ucast v :: byte) OR push_bit 8 (ucast (ucast (drop_bit 8 v) :: byte)) = v"
    by (rule bit_word_eqI) (auto simp: bit_simps)
  then have "px16 ?b i = v" using assms by (simp add: px16_def)
  moreover have "px16 ?b j = px16 b j" if "j \<noteq> i" for j
  proof -
    have "2 * j \<noteq> 2 * i" "2 * j \<noteq> 2 * i + 1" "2 * j + 1 \<noteq> 2 * i" "2 * j + 1 \<noteq> 2 * i + 1"
      using that by presburger+
    then show ?thesis by (simp add: px16_def)
  qed
  moreover have "put16 (int i) v b = Some ?b" using assms by (simp add: put16_def)
  ultimately show ?thesis by (intro exI [of _ ?b]) simp
qed

definition pixel16 :: "nat \<Rightarrow> nat \<Rightarrow> disp \<Rightarrow> u16" where
  "pixel16 x y d = px16 (the (framebuffer d)) (y * lcd_width d + x)"

definition put_pixel16 :: "nat \<Rightarrow> nat \<Rightarrow> u16 \<Rightarrow> disp \<Rightarrow> disp option" where
  "put_pixel16 x y v d = on_fb (put16 (int (y * lcd_width d + x)) v) d"

definition ok16 :: "disp \<Rightarrow> bool" where
  "ok16 d \<longleftrightarrow> (\<exists>b. framebuffer d = Some b \<and> 2 * (lcd_width d * lcd_height d) \<le> length b)"

lemma half_bound: "i < n \<Longrightarrow> 2 * n \<le> l \<Longrightarrow> 2 * i + 1 < (l :: nat)"
  by linarith

lemma cell_bound:
  assumes "x < w" and "y < (h :: nat)"
  shows "y * w + x < w * h"
proof -
  have "Suc y * w \<le> h * w" using assms(2) by (intro mult_le_mono1) simp
  then show ?thesis using assms(1) by (simp add: mult.commute)
qed

lemma cell_inj:
  assumes "x < w" and "x' < (w :: nat)"
  shows "y * w + x = y' * w + x' \<longleftrightarrow> x = x' \<and> y = y'"
proof
  assume e: "y * w + x = y' * w + x'"
  have "(y * w + x) mod w = x" "(y' * w + x') mod w = x'" using assms by simp_all
  then have "x = x'" using e by simp
  then show "x = x' \<and> y = y'" using e assms by simp
qed simp

interpretation c16: canvas put_pixel16 pixel16 ok16
proof
  fix s x y v
  assume "ok16 s" and x: "x < lcd_width s" and y: "y < lcd_height s"
  then obtain b where b: "framebuffer s = Some b" "2 * (lcd_width s * lcd_height s) \<le> length b"
    by (auto simp: ok16_def)
  have bound: "2 * (y' * lcd_width s + x') + 1 < length b" if "x' < lcd_width s" "y' < lcd_height s" for x' y'
    using half_bound [OF cell_bound [OF that] b(2)] .
  from px16_put16 [OF bound [OF x y], of v] obtain b' where b':
    "put16 (int (y * lcd_width s + x)) v b = Some b'" "length b' = length b"
    "\<forall>j. 2 * j + 1 < length b \<longrightarrow> px16 b' j = (if j = y * lcd_width s + x then v else px16 b j)" by blast
  let ?s = "s\<lparr>framebuffer := Some b'\<rparr>"
  have "put_pixel16 x y v s = Some ?s" unfolding put_pixel16_def by (rule on_fb_Some [OF b(1)]) (rule b'(1))
  moreover have "ok16 ?s" using b b'(2) by (simp add: ok16_def)
  moreover have "same_disp s ?s" by (auto simp: same_disp_def)
  moreover have "\<forall>x' y'. x' < lcd_width s \<longrightarrow> y' < lcd_height s \<longrightarrow>
      pixel16 x' y' ?s = (if x' = x \<and> y' = y then v else pixel16 x' y' s)"
    using b'(3) bound b(1) cell_inj [OF _ x] by (auto simp: pixel16_def)
  ultimately show "\<exists>s'. put_pixel16 x y v s = Some s' \<and> ok16 s' \<and> same_disp s s'
      \<and> (\<forall>x' y'. x' < lcd_width s \<longrightarrow> y' < lcd_height s \<longrightarrow>
        pixel16 x' y' s' = (if x' = x \<and> y' = y then v else pixel16 x' y' s))" by blast
qed

section \<open>One bit per pixel\<close>

definition pixel1 :: "nat \<Rightarrow> nat \<Rightarrow> disp \<Rightarrow> bool" where
  "pixel1 x y d = bit (the (framebuffer d) ! (y div 8 * lcd_width d + x)) (y mod 8)"

definition put_pixel1 :: "nat \<Rightarrow> nat \<Rightarrow> bool \<Rightarrow> disp \<Rightarrow> disp option" where
  "put_pixel1 x y on d = on_fb (put_bit (y div 8 * lcd_width d + x) (y mod 8) on) d"

definition ok1 :: "disp \<Rightarrow> bool" where
  "ok1 d \<longleftrightarrow> (\<exists>b. framebuffer d = Some b \<and> lcd_width d * ((lcd_height d + 7) div 8) \<le> length b)"

lemma bit_put_bit:
  fixes v :: byte
  assumes "k < 8" and "k' < 8"
  shows "bit (if on then v OR push_bit k 1 else v AND NOT (push_bit k 1)) k' = (if k' = k then on else bit v k')"
  using assms by (auto simp: bit_or_iff bit_and_iff bit_not_iff bit_push_bit_iff bit_1_iff simp del: push_bit_of_1)

interpretation c1: canvas put_pixel1 pixel1 ok1
proof
  fix s x y on
  assume "ok1 s" and x: "x < lcd_width s" and y: "y < lcd_height s"
  then obtain b where b: "framebuffer s = Some b" "lcd_width s * ((lcd_height s + 7) div 8) \<le> length b"
    by (auto simp: ok1_def)
  let ?i = "y div 8 * lcd_width s + x"
  have bound: "y' div 8 * lcd_width s + x' < length b" if "x' < lcd_width s" "y' < lcd_height s" for x' y'
  proof -
    have "y' div 8 < (lcd_height s + 7) div 8" using that(2) by linarith
    then show ?thesis using cell_bound [OF that(1)] b(2) by (meson le_trans not_less)
  qed
  let ?b = "b[?i := (if on then b ! ?i OR push_bit (y mod 8) 1 else b ! ?i AND NOT (push_bit (y mod 8) 1))]"
  let ?s = "s\<lparr>framebuffer := Some ?b\<rparr>"
  have "put_bit ?i (y mod 8) on b = Some ?b" using bound [OF x y] by (simp add: put_bit_def)
  then have "put_pixel1 x y on s = Some ?s" unfolding put_pixel1_def by (rule on_fb_Some [OF b(1)])
  moreover have "ok1 ?s" using b by (simp add: ok1_def)
  moreover have "same_disp s ?s" by (auto simp: same_disp_def)
  moreover have "pixel1 x' y' ?s = (if x' = x \<and> y' = y then on else pixel1 x' y' s)"
    if x': "x' < lcd_width s" and y': "y' < lcd_height s" for x' y'
  proof (cases "y' div 8 * lcd_width s + x' = ?i")
    case True
    then have e: "x' = x" "y' div 8 = y div 8" using cell_inj [OF x' x] by auto
    then have "y' mod 8 = y mod 8 \<longleftrightarrow> y' = y" by (metis div_mult_mod_eq)
    then show ?thesis
      using e True bound [OF x y] b(1) bit_put_bit [of "y mod 8" "y' mod 8"] by (simp add: pixel1_def)
  next
    case False
    then have "\<not> (x' = x \<and> y' = y)" by auto
    moreover have "pixel1 x' y' ?s = pixel1 x' y' s" using False b(1) by (simp add: pixel1_def)
    ultimately show ?thesis by auto
  qed
  ultimately show "\<exists>s'. put_pixel1 x y on s = Some s' \<and> ok1 s' \<and> same_disp s s'
      \<and> (\<forall>x' y'. x' < lcd_width s \<longrightarrow> y' < lcd_height s \<longrightarrow>
        pixel1 x' y' s' = (if x' = x \<and> y' = y then on else pixel1 x' y' s))" by blast
qed

end
