(* ===== verification/DisplayProps.thy ===== *)
theory DisplayProps
  imports Canvas
begin

text \<open>
  What the drawing functions of \<open>common_disp.c\<close> do to the screen: glyphs, text, rectangles and BMP
  pictures pixel by pixel, and the conditions under which they stay inside their memory.
\<close>

section \<open>Glyphs\<close>

definition glyph_ok :: "disp_bitmap \<Rightarrow> bool" where
  "glyph_ok bm \<longleftrightarrow> bm_bpp bm = 1 \<and> (bm_width bm + 7) div 8 * bm_height bm \<le> length (bm_data bm)"

lemma bmp_bit_total:
  assumes "glyph_ok bm" and "bx < bm_width bm" and "by' < bm_height bm"
  shows "\<exists>b. bmp_bit bm bx by' = Some b"
proof -
  have "bx div 8 < (bm_width bm + 7) div 8" using assms(2) by linarith
  then have "by' * ((bm_width bm + 7) div 8) + bx div 8 < (bm_width bm + 7) div 8 * bm_height bm"
    using cell_bound assms(3) by blast
  then show ?thesis using assms(1) by (simp add: glyph_ok_def bmp_bit_def Let_def mult.commute)
qed

definition glyph_paint :: "disp_bitmap \<Rightarrow> nat \<Rightarrow> nat \<Rightarrow> 'v \<Rightarrow> nat \<times> nat \<Rightarrow> 'v option" where
  "glyph_paint bm sx sy v = (\<lambda>(x, y). if bmp_bit bm (x - sx) (y - sy) = Some True then Some v else None)"

lemma glyph_cells_inside:
  assumes "c \<in> set (glyph_cells bm sx sy d)"
  shows "fst c < lcd_width d \<and> snd c < lcd_height d" "fst c - sx < bm_width bm \<and> snd c - sy < bm_height bm"
  using assms by (auto simp: glyph_cells_def)

lemma glyph16:
  assumes "ok16 d" and "glyph_ok bm"
  shows "\<exists>d'. disp_1bitbmp_bpp16 bm sx sy d = Some d' \<and> ok16 d' \<and> same_disp d d'
    \<and> c16.painted (glyph_paint bm sx sy (word_of_int (disp_color d))) (set (glyph_cells bm sx sy d)) d d'"
proof -
  have e: "disp_1bitbmp_bpp16 bm sx sy d = for_each (\<lambda>(x, y) s.
         case bmp_bit bm (x - sx) (y - sy) of None \<Rightarrow> None
         | Some False \<Rightarrow> Some s
         | Some True \<Rightarrow> on_fb (put16 (int (y * lcd_width d + x)) (word_of_int (disp_color d))) s)
       (glyph_cells bm sx sy d) d"
    using assms(2) by (simp add: disp_1bitbmp_bpp16_def glyph_ok_def)
  show ?thesis
    unfolding e
  proof (rule c16.paint_loop [where pos = "\<lambda>c. c", unfolded image_ident])
    show "ok16 d" by fact
    fix c
    assume c: "c \<in> set (glyph_cells bm sx sy d)"
    note i = glyph_cells_inside [OF c]
    show "fst c < lcd_width d \<and> snd c < lcd_height d" by (rule i(1))
    obtain b where b: "bmp_bit bm (fst c - sx) (snd c - sy) = Some b"
      using bmp_bit_total [OF assms(2) conjunct1 [OF i(2)] conjunct2 [OF i(2)]] by blast
    fix s
    assume "same_disp d s"
    then show "(case c of (x, y) \<Rightarrow> \<lambda>s. case bmp_bit bm (x - sx) (y - sy) of None \<Rightarrow> None
        | Some True \<Rightarrow> on_fb (put16 (int (y * lcd_width d + x)) (word_of_int (disp_color d))) s | Some False \<Rightarrow> Some s) s
      = (case glyph_paint bm sx sy (word_of_int (disp_color d)) c of None \<Rightarrow> Some s
         | Some v \<Rightarrow> put_pixel16 (fst c) (snd c) v s)"
      using b by (cases b) (auto simp: glyph_paint_def put_pixel16_def split: prod.splits)
  qed
qed

lemma glyph1:
  assumes "ok1 d" and "glyph_ok bm"
  shows "\<exists>d'. disp_bitmap_bpp1 bm sx sy d = Some d' \<and> ok1 d' \<and> same_disp d d'
    \<and> c1.painted (glyph_paint bm sx sy (disp_color d = lcd_hwfillcolor d)) (set (glyph_cells bm sx sy d)) d d'"
proof -
  have e: "disp_bitmap_bpp1 bm sx sy d = for_each (\<lambda>(x, y) s.
            case bmp_bit bm (x - sx) (y - sy) of None \<Rightarrow> None
            | Some False \<Rightarrow> Some s
            | Some True \<Rightarrow>
              on_fb (put_bit (y div 8 * lcd_width d + x) (y mod 8) (disp_color d = lcd_hwfillcolor d)) s)
          (glyph_cells bm sx sy d) d"
    using assms(2) by (simp add: disp_bitmap_bpp1_def glyph_ok_def)
  show ?thesis
    unfolding e
  proof (rule c1.paint_loop [where pos = "\<lambda>c. c", unfolded image_ident])
    show "ok1 d" by fact
    fix c
    assume c: "c \<in> set (glyph_cells bm sx sy d)"
    note i = glyph_cells_inside [OF c]
    show "fst c < lcd_width d \<and> snd c < lcd_height d" by (rule i(1))
    obtain b where b: "bmp_bit bm (fst c - sx) (snd c - sy) = Some b"
      using bmp_bit_total [OF assms(2) conjunct1 [OF i(2)] conjunct2 [OF i(2)]] by blast
    fix s
    assume "same_disp d s"
    then show "(case c of (x, y) \<Rightarrow> \<lambda>s. case bmp_bit bm (x - sx) (y - sy) of None \<Rightarrow> None
        | Some True \<Rightarrow> on_fb (put_bit (y div 8 * lcd_width d + x) (y mod 8) (disp_color d = lcd_hwfillcolor d)) s
        | Some False \<Rightarrow> Some s) s
      = (case glyph_paint bm sx sy (disp_color d = lcd_hwfillcolor d) c of None \<Rightarrow> Some s
         | Some v \<Rightarrow> put_pixel1 (fst c) (snd c) v s)"
      using b by (cases b) (auto simp: glyph_paint_def put_pixel1_def split: prod.splits)
  qed
qed

section \<open>Fonts\<close>

text \<open>
  A font is usable when its glyphs are no larger than the blank character and its data hold them
  all; the Chinese font has 16 by 16 pixels.
\<close>

definition font_ok :: "font_info \<Rightarrow> bool" where
  "font_ok fi \<longleftrightarrow> (fi_width fi + 7) div 8 * fi_height fi \<le> 32
     \<and> (\<forall>data. fi_data fi = Some data \<longrightarrow> fi_size fi = (fi_width fi + 7) div 8 * fi_height fi
          \<and> (fi_end fi + 1 - fi_start fi) * fi_size fi \<le> length data)"

definition hz_ok :: "disp \<Rightarrow> bool" where
  "hz_ok d \<longleftrightarrow> fi_width (dispHzFont d) = 16 \<and> fi_height (dispHzFont d) = 16 \<and> fi_size (dispHzFont d) = 32
     \<and> (\<forall>data. fi_data (dispHzFont d) = Some data \<longrightarrow> 72 * 94 * 32 \<le> length data)
     \<and> 30 * 32 \<le> length (hz_ext_data d)"

definition screen_ok :: "disp \<Rightarrow> bool" where
  "screen_ok d \<longleftrightarrow> (if lcd_bpp d = 1 then ok1 d else ok16 d)"

definition disp_wf :: "disp \<Rightarrow> bool" where
  "disp_wf d \<longleftrightarrow> screen_ok d \<and> font_ok (dispFonts d ! curr_font_id d) \<and> hz_ok d"

lemma disp_wf_same: "disp_wf d \<Longrightarrow> same_disp d s \<Longrightarrow> screen_ok s \<Longrightarrow> disp_wf s"
  by (auto simp: disp_wf_def hz_ok_def same_disp_def)

lemma length_blank [simp]: "length blankChar = 32"
  by (simp add: blankChar_def)

lemma font_glyph_ok: "font_ok (dispFonts d ! curr_font_id d) \<Longrightarrow> glyph_ok (getFontBitmap c d)"
proof -
  let ?fi = "dispFonts d ! curr_font_id d"
  assume f: "font_ok ?fi"
  show ?thesis
  proof (cases "\<exists>data. fi_data ?fi = Some data \<and> fi_start ?fi \<le> c \<and> c \<le> fi_end ?fi")
    case True
    then obtain data where d: "fi_data ?fi = Some data" "fi_start ?fi \<le> c" "c \<le> fi_end ?fi" by blast
    have "(c - fi_start ?fi + 1) * fi_size ?fi \<le> (fi_end ?fi + 1 - fi_start ?fi) * fi_size ?fi"
      using d by (intro mult_le_mono1) simp
    also have "\<dots> \<le> length data" using f d(1) unfolding font_ok_def by blast
    finally have "(c - fi_start ?fi) * fi_size ?fi + fi_size ?fi \<le> length data" by (simp add: algebra_simps)
    then have "fi_size ?fi \<le> length (drop ((c - fi_start ?fi) * fi_size ?fi) data)" by simp
    moreover have "fi_size ?fi = (fi_width ?fi + 7) div 8 * fi_height ?fi" using f d(1) unfolding font_ok_def by blast
    ultimately show ?thesis using d by (simp add: glyph_ok_def getFontBitmap_def Let_def)
  next
    case False
    then have "bm_data (getFontBitmap c d) = blankChar"
      by (auto simp: getFontBitmap_def Let_def split: option.splits)
    then show ?thesis using f by (simp add: glyph_ok_def getFontBitmap_def font_ok_def Let_def)
  qed
qed

lemma ext_search_bound: "ext_search cs c i = Some k \<Longrightarrow> k < i + length cs"
  by (induction cs c i rule: ext_search.induct) (auto split: if_splits)

lemma hz_glyph_ok: "hz_ok d \<Longrightarrow> glyph_ok (getHzBitmap c d)"
proof -
  assume h: "hz_ok d"
  let ?bm = "getHzBitmap c d"
  have "32 \<le> length (bm_data ?bm)"
  proof (cases "fi_data (dispHzFont d)")
    case None
    then show ?thesis by (simp add: getHzBitmap_def Let_def)
  next
    case (Some data)
    show ?thesis
    proof (cases "0xB0 \<le> c div 256 \<and> c div 256 \<le> 0xF7 \<and> 0xA1 \<le> c mod 256 \<and> c mod 256 \<le> 0xFE")
      case True
      define k where "k = (c div 256 - 0xB0) * 94 + c mod 256 - 0xA1"
      have "(c div 256 - 0xB0) * 94 \<le> 71 * 94" using True by (intro mult_le_mono1) linarith
      then have "k \<le> 71 * 94 + 93" using True unfolding k_def by linarith
      then have "k * 32 + 32 \<le> 72 * 94 * 32" by simp
      moreover have e: "bm_data ?bm = drop (k * 32) data"
        using True Some h by (simp add: getHzBitmap_def Let_def hz_ok_def k_def)
      moreover have "72 * 94 * 32 \<le> length data" using h Some unfolding hz_ok_def by blast
      ultimately have "32 \<le> length data - k * 32" by linarith
      then show ?thesis using e by simp
    next
      case not_hz: False
      then have "bm_data ?bm = (case ext_search sansHzFont16ExtOffset c 0 of None \<Rightarrow> blankChar
          | Some i \<Rightarrow> drop (i * fi_size (dispHzFont d)) (hz_ext_data d))"
        using Some by (simp only: getHzBitmap_def Let_def disp_bitmap.simps option.simps if_False)
      note ext = this
      show ?thesis
      proof (cases "ext_search sansHzFont16ExtOffset c 0")
        case None
        then show ?thesis using ext by simp
      next
        case (Some k)
        then have "k < 30" using ext_search_bound [OF Some] by (simp add: sansHzFont16ExtOffset_def)
        moreover have "bm_data ?bm = drop (k * 32) (hz_ext_data d)"
          using ext Some h by (simp add: hz_ok_def)
        moreover have "30 * 32 \<le> length (hz_ext_data d)" using h by (simp add: hz_ok_def)
        ultimately show ?thesis by simp
      qed
    qed
  qed
  then show ?thesis using h by (simp add: glyph_ok_def getHzBitmap_def hz_ok_def Let_def)
qed

lemma char_glyph_ok: "disp_wf d \<Longrightarrow> glyph_ok (getCharBitmap c d)"
  by (simp add: getCharBitmap_def font_glyph_ok hz_glyph_ok disp_wf_def)

section \<open>Text\<close>

text \<open>The pixels a glyph sets, and the picture of either depth after they were set.\<close>

definition glyph_at :: "disp_bitmap \<times> nat \<times> nat \<Rightarrow> nat \<Rightarrow> nat \<Rightarrow> bool" where
  "glyph_at g x y = (case g of (bm, gx, gy) \<Rightarrow>
     gx \<le> x \<and> x < gx + bm_width bm \<and> gy \<le> y \<and> y < gy + bm_height bm \<and> bmp_bit bm (x - gx) (y - gy) = Some True)"

definition shown :: "(nat \<Rightarrow> nat \<Rightarrow> bool) \<Rightarrow> disp \<Rightarrow> disp \<Rightarrow> bool" where
  "shown P d d' \<longleftrightarrow> (\<forall>x y. x < lcd_width d \<longrightarrow> y < lcd_height d \<longrightarrow>
     (if lcd_bpp d = 1 then pixel1 x y d' = (if P x y then disp_color d = lcd_hwfillcolor d else pixel1 x y d)
      else pixel16 x y d' = (if P x y then word_of_int (disp_color d) else pixel16 x y d)))"

lemma shown_inked:
  "shown P d d' \<longleftrightarrow> (if lcd_bpp d = 1 then c1.inked (disp_color d = lcd_hwfillcolor d) P d d'
     else c16.inked (word_of_int (disp_color d)) P d d')"
  by (auto simp: shown_def c1.inked_def c16.inked_def)

lemma shown_none: "shown (\<lambda>x y. False) d d"
  by (simp add: shown_def)

lemma shown_trans:
  assumes "shown P d s" and "shown Q s t" and "same_disp d s"
  shows "shown (\<lambda>x y. P x y \<or> Q x y) d t"
  using assms c1.inked_trans c16.inked_trans same_fields [OF assms(3)] by (auto simp: shown_inked split: if_splits)

lemma glyph_paint_ink: "glyph_paint bm sx sy v p = Some u \<Longrightarrow> u = v"
  by (auto simp: glyph_paint_def split: prod.splits if_splits)

lemma glyph_paint_at:
  "x < lcd_width d \<Longrightarrow> y < lcd_height d \<Longrightarrow>
    ((x, y) \<in> set (glyph_cells bm sx sy d) \<and> glyph_paint bm sx sy v (x, y) \<noteq> None) = glyph_at (bm, sx, sy) x y"
  by (auto simp: glyph_cells_def glyph_paint_def glyph_at_def)

lemma glyph_shown:
  assumes "screen_ok d" and "glyph_ok bm"
  shows "\<exists>d'. (if lcd_bpp d = 1 then disp_bitmap_bpp1 bm sx sy d else disp_1bitbmp_bpp16 bm sx sy d) = Some d'
    \<and> screen_ok d' \<and> same_disp d d' \<and> shown (glyph_at (bm, sx, sy)) d d'"
proof (cases "lcd_bpp d = 1")
  case True
  then have "ok1 d" using assms(1) by (simp add: screen_ok_def)
  from glyph1 [OF this assms(2), of sx sy] obtain d' where d': "disp_bitmap_bpp1 bm sx sy d = Some d'" "ok1 d'"
    "same_disp d d'" "c1.painted (glyph_paint bm sx sy (disp_color d = lcd_hwfillcolor d)) (set (glyph_cells bm sx sy d)) d d'"
    by blast
  have "c1.inked (disp_color d = lcd_hwfillcolor d) (glyph_at (bm, sx, sy)) d d'"
    by (rule c1.inked_cong [OF c1.painted_inked [OF d'(4)]])
      (auto simp: glyph_paint_at dest: glyph_paint_ink simp del: not_None_eq)
  then show ?thesis using True d' by (auto simp: shown_inked screen_ok_def)
next
  case False
  then have "ok16 d" using assms(1) by (simp add: screen_ok_def)
  from glyph16 [OF this assms(2), of sx sy] obtain d' where d': "disp_1bitbmp_bpp16 bm sx sy d = Some d'" "ok16 d'"
    "same_disp d d'" "c16.painted (glyph_paint bm sx sy (word_of_int (disp_color d))) (set (glyph_cells bm sx sy d)) d d'"
    by blast
  have "c16.inked (word_of_int (disp_color d)) (glyph_at (bm, sx, sy)) d d'"
    by (rule c16.inked_cong [OF c16.painted_inked [OF d'(4)]])
      (auto simp: glyph_paint_at dest: glyph_paint_ink simp del: not_None_eq)
  then show ?thesis using False d' by (auto simp: shown_inked screen_ok_def)
qed

text \<open>One character and where its glyph goes.\<close>

definition placed :: "nat \<Rightarrow> nat \<Rightarrow> nat \<Rightarrow> disp \<Rightarrow> disp_bitmap \<times> nat \<times> nat" where
  "placed code x y d =
     (let bm = getCharBitmap code d
      in if lcd_bpp d = 1 \<and> bm_width bm = 14 \<and> bm_height bm = 14
         then (bm, (x + 1) mod 65536, (y + 1) mod 65536) else (bm, x, y))"

definition advance :: "nat \<Rightarrow> disp \<Rightarrow> disp_bitmap" where
  "advance code d =
     (let bm = getCharBitmap code d
      in if lcd_bpp d = 1 \<and> bm_width bm = 14 \<and> bm_height bm = 14 then bm\<lparr>bm_width := 16, bm_height := 16\<rparr> else bm)"

lemma draw_char_shown:
  assumes "disp_wf d"
  shows "\<exists>d'. draw_char c x y d = Some (advance c d, d') \<and> disp_wf d' \<and> same_disp d d'
    \<and> shown (glyph_at (placed c x y d)) d d'"
proof -
  have s: "screen_ok d" using assms by (simp add: disp_wf_def)
  obtain bm gx gy where p: "placed c x y d = (bm, gx, gy)" by (metis prod.exhaust)
  have bm: "bm = getCharBitmap c d" using p by (auto simp: placed_def Let_def split: if_splits)
  then have g: "glyph_ok bm" using char_glyph_ok [OF assms] by simp
  from glyph_shown [OF s g, of gx gy] obtain d' where d':
    "(if lcd_bpp d = 1 then disp_bitmap_bpp1 bm gx gy d else disp_1bitbmp_bpp16 bm gx gy d) = Some d'"
    "screen_ok d'" "same_disp d d'" "shown (glyph_at (placed c x y d)) d d'" unfolding p by blast
  have "draw_char c x y d = Some (advance c d, d')"
    using d'(1) p by (auto simp: draw_char_def advance_def placed_def Let_def split: if_splits)
  then show ?thesis using d' disp_wf_same [OF assms d'(3,2)] by blast
qed

text \<open>
  The specification of a text: its bytes are decoded into characters and line breaks (\<open>None\<close>), and
  each character gets its glyph and its place.
\<close>

definition newline :: "byte \<Rightarrow> bool" where
  "newline c \<longleftrightarrow> c = 0x0D \<or> c = 0x0A"

fun tokens :: "byte list \<Rightarrow> nat option list" where
  "tokens [] = []"
| "tokens [c] = (if newline c then [None] else if bit c 7 then [Some 0x3F] else [Some (unat c)])"
| "tokens (c # e # cs) =
     (if newline c then None # tokens (e # cs)
      else if bit c 7 \<and> bit e 7 then Some (256 * unat c + unat e) # tokens cs
      else Some (if bit c 7 then 0x3F else unat c) # tokens (e # cs))"

fun layout :: "nat option list \<Rightarrow> nat \<times> nat \<Rightarrow> disp_bitmap \<Rightarrow> disp \<Rightarrow> (disp_bitmap \<times> nat \<times> nat) list" where
  "layout [] xy bm d = []"
| "layout (None # ts) xy bm d = layout ts (next_line bm d xy) bm d"
| "layout (Some c # ts) xy bm d =
     placed c (fst xy) (snd xy) d # layout ts (next_line (advance c d) d xy) (advance c d) d"

lemma charset_same:
  assumes "same_disp d s"
  shows "getCharBitmap c s = getCharBitmap c d"
  unfolding getCharBitmap_def getHzBitmap_def getFontBitmap_def same_fields [OF assms] ..

lemma place_same:
  assumes "same_disp d s"
  shows "placed c x y s = placed c x y d" "advance c s = advance c d" "next_line bm s = next_line bm d"
  using assms by (simp_all add: placed_def advance_def charset_same next_line_def)

lemma layout_same: "same_disp d s \<Longrightarrow> layout ts xy bm s = layout ts xy bm d"
  by (induction ts xy bm d rule: layout.induct) (simp_all add: place_same)

definition covered :: "(disp_bitmap \<times> nat \<times> nat) list \<Rightarrow> nat \<Rightarrow> nat \<Rightarrow> bool" where
  "covered gs x y \<longleftrightarrow> (\<exists>g\<in>set gs. glyph_at g x y)"

lemma covered_simps [simp]: "covered [] = (\<lambda>x y. False)" "covered (g # gs) = (\<lambda>x y. glyph_at g x y \<or> covered gs x y)"
  by (simp_all add: covered_def fun_eq_iff)

text \<open>What drawing the tokens \<open>ts\<close> means; one step of it.\<close>

definition text_drawn :: "nat option list \<Rightarrow> nat \<times> nat \<Rightarrow> disp_bitmap \<Rightarrow> disp \<Rightarrow> disp \<Rightarrow> bool" where
  "text_drawn ts xy bm d d' \<longleftrightarrow> disp_wf d' \<and> same_disp d d' \<and> shown (covered (layout ts xy bm d)) d d'"

lemma text_drawn_Nil: "disp_wf d \<Longrightarrow> text_drawn [] xy bm d d"
  by (simp add: text_drawn_def shown_none)

lemma text_drawn_Cons:
  assumes "shown (glyph_at (placed c (fst xy) (snd xy) d)) d d1" and "same_disp d d1"
    and "text_drawn ts (next_line (advance c d) d xy) (advance c d) d1 d'"
  shows "text_drawn (Some c # ts) xy bm d d'"
  using assms shown_trans [OF assms(1) _ assms(2)] same_trans [OF assms(2)]
  by (auto simp: text_drawn_def layout_same [OF assms(2)])

lemma puttext_loop_step:
  assumes "disp_wf d" and "\<not> newline c"
    and "(code, rest) = (if bit c 7 then (case cs of [] \<Rightarrow> (0x3F, [])
        | e # es \<Rightarrow> if bit e 7 then (256 * unat c + unat e, es) else (0x3F, cs)) else (unat c, cs))"
    and "\<And>d1. disp_wf d1 \<Longrightarrow> same_disp d d1 \<Longrightarrow>
      \<exists>d'. puttext_loop rest (next_line (advance code d) d xy) (Some (advance code d)) d1 = Some d'
        \<and> text_drawn ts (next_line (advance code d) d xy) (advance code d) d1 d'"
  shows "\<exists>d'. puttext_loop (c # cs) xy bm d = Some d' \<and> text_drawn (Some code # ts) xy b d d'"
proof -
  obtain d1 where d1: "draw_char code (fst xy) (snd xy) d = Some (advance code d, d1)" "disp_wf d1" "same_disp d d1"
    "shown (glyph_at (placed code (fst xy) (snd xy) d)) d d1"
    using draw_char_shown [OF assms(1)] by blast
  obtain d' where d': "puttext_loop rest (next_line (advance code d) d xy) (Some (advance code d)) d1 = Some d'"
    "text_drawn ts (next_line (advance code d) d xy) (advance code d) d1 d'"
    using assms(4) [OF d1(2,3)] by blast
  have "puttext_loop (c # cs) xy bm d = Some d'"
    using assms(2) d1(1) d'(1) place_same [OF d1(3)]
    unfolding puttext_loop.simps assms(3) [symmetric] newline_def by simp
  then show ?thesis using text_drawn_Cons [OF d1(4,3) d'(2)] by blast
qed

lemma puttext_loop_drawn:
  "disp_wf d \<Longrightarrow> bm = Some b \<or> bm = None \<and> (str = [] \<or> \<not> newline (hd str)) \<Longrightarrow>
    \<exists>d'. puttext_loop str xy bm d = Some d' \<and> text_drawn (tokens str) xy b d d'"
proof (induction str arbitrary: xy bm b d rule: tokens.induct)
  case 1
  then show ?case by (auto simp: text_drawn_Nil)
next
  case (2 c)
  show ?case
  proof (cases "newline c")
    case True
    then show ?thesis using 2 by (auto simp: newline_def text_drawn_def shown_def)
  next
    case False
    show ?thesis
      using puttext_loop_step [OF 2(1) False, of "if bit c 7 then 0x3F else unat c" "[]" "[]" xy "[]" bm b] False
      by (auto simp: text_drawn_Nil)
  qed
next
  case (3 c e cs)
  show ?case
  proof (cases "newline c")
    case True
    then have "bm = Some b" using 3(5) by auto
    then show ?thesis
      using 3(1) [OF True 3(4), of "Some b" b "next_line b d xy"] True by (auto simp: newline_def text_drawn_def)
  next
    case nl: False
    show ?thesis
    proof (cases "bit c 7 \<and> bit e 7")
      case True
      show ?thesis
        using puttext_loop_step [OF 3(4) nl, of "256 * unat c + unat e" cs "e # cs" xy "tokens cs" bm b] True nl
          3(2) [OF nl True] by auto
    next
      case False
      show ?thesis
        using puttext_loop_step [OF 3(4) nl, of "if bit c 7 then 0x3F else unat c" "e # cs" "e # cs" xy
            "tokens (e # cs)" bm b] False nl 3(3) [OF nl False] by auto
    qed
  qed
qed


text \<open>A small screen with a font of two glyphs, for the witnesses.\<close>

definition demo :: "nat \<Rightarrow> disp" where
  "demo bpp = \<lparr>framebuffer = Some (replicate 512 0), fb_set = True, lcd_width = 16, lcd_height = 16, lcd_bpp = bpp,
     disp_bkcolor = COLOR_WHITE, disp_color = 0x7BEF, lcd_hwfillcolor = COLOR_BLACK, fonts_inited = True,
     dispFonts = replicate MAX_FONTS \<lparr>fi_width = 8, fi_height = 2, fi_size = 2, fi_start = 0x41, fi_end = 0x42,
       fi_data = Some [0x81, 0x7E, 0x18, 0x18]\<rparr>,
     curr_font_id = 0, dispHzFont = sansHzFont16 None, hz_ext_data = replicate 960 0\<rparr>"

lemma demo_wf: "disp_wf (demo 16)" "disp_wf (demo 1)"
  by (simp_all add: demo_def disp_wf_def screen_ok_def ok16_def ok1_def font_ok_def hz_ok_def sansHzFont16_def
      MAX_FONTS_def del: replicate.simps replicate_Suc)


end
