(* ===== verification/DisplayOps.thy ===== *)
theory DisplayOps
  imports DisplayProps
begin

text \<open>
  The display as a whole: every operation keeps the state well formed, from the initialisation on, and
  rectangles are drawn pixel by pixel.
\<close>

section \<open>Operations keep the frame buffer\<close>

definition fb_kept :: "disp \<Rightarrow> disp \<Rightarrow> bool" where
  "fb_kept d d' \<longleftrightarrow> same_disp d d' \<and> map_option length (framebuffer d') = map_option length (framebuffer d)"

lemma fb_kept_refl [simp]: "fb_kept d d"
  by (simp add: fb_kept_def)

lemma fb_kept_trans: "fb_kept d s \<Longrightarrow> fb_kept s t \<Longrightarrow> fb_kept d t"
  using same_trans by (auto simp: fb_kept_def)

lemma fb_kept_ok:
  assumes "fb_kept d d'" and "screen_ok d"
  shows "screen_ok d'"
  using assms by (auto simp: fb_kept_def screen_ok_def ok16_def ok1_def split: if_splits)

lemma put16_length: "put16 i v b = Some b' \<Longrightarrow> length b' = length b"
  by (auto simp: put16_def split: if_splits)

lemma put_bit_length: "put_bit i k on b = Some b' \<Longrightarrow> length b' = length b"
  by (auto simp: put_bit_def split: if_splits)

text \<open>The results of a step from \<open>d\<close> keep the frame buffer; one rule per construct of the code.\<close>

definition kept_at :: "disp \<Rightarrow> disp option \<Rightarrow> bool" where
  "kept_at d r \<longleftrightarrow> (\<forall>d'. r = Some d' \<longrightarrow> fb_kept d d')"

definition kept_res :: "disp \<Rightarrow> (disp \<times> 'a) option \<Rightarrow> bool" where
  "kept_res d r \<longleftrightarrow> (\<forall>d' e. r = Some (d', e) \<longrightarrow> fb_kept d d')"

named_theorems kept_rules

lemma kept_triv [kept_rules]: "kept_at d (Some d)" "kept_at d None" "kept_res d (Some (d, e))" "kept_res d None"
  by (simp_all add: kept_at_def kept_res_def)

lemma kept_on_fb:
  assumes "\<And>b b'. f b = Some b' \<Longrightarrow> length b' = length b"
  shows "kept_at d (on_fb f d)"
  unfolding kept_at_def
proof (intro allI impI)
  fix d'
  assume "on_fb f d = Some d'"
  then obtain b b' where b: "framebuffer d = Some b" "f b = Some b'" "d' = d\<lparr>framebuffer := Some b'\<rparr>"
    by (auto simp: on_fb_def split: option.splits)
  then show "fb_kept d d'" using assms [OF b(2)] by (auto simp: fb_kept_def same_disp_def)
qed

lemma kept_put [kept_rules]: "kept_at d (on_fb (put16 i v) d)" "kept_at d (on_fb (put_bit n k on) d)"
  by (rule kept_on_fb, erule put16_length put_bit_length)+

lemma kept_if [kept_rules]:
  "kept_at d p \<Longrightarrow> kept_at d q \<Longrightarrow> kept_at d (if b then p else q)"
  "kept_res d r \<Longrightarrow> kept_res d s \<Longrightarrow> kept_res d (if b then r else s)"
  by simp_all

lemma kept_option [kept_rules]:
  "kept_at d p \<Longrightarrow> (\<And>v. kept_at d (q v)) \<Longrightarrow> kept_at d (case x of None \<Rightarrow> p | Some v \<Rightarrow> q v)"
  "kept_res d r \<Longrightarrow> (\<And>v. kept_res d (s v)) \<Longrightarrow> kept_res d (case x of None \<Rightarrow> r | Some v \<Rightarrow> s v)"
  by (simp_all split: option.split)

lemma kept_bool [kept_rules]: "kept_at d p \<Longrightarrow> kept_at d q \<Longrightarrow> kept_at d (case b of True \<Rightarrow> p | False \<Rightarrow> q)"
  by (simp split: bool.split)

lemma kept_prod [kept_rules]: "(\<And>x y. kept_at d (f x y d)) \<Longrightarrow> kept_at d ((case p of (x, y) \<Rightarrow> f x y) d)"
  by (simp split: prod.split)

lemma kept_bind:
  "kept_at d r \<Longrightarrow> (\<And>s. kept_at s (f s)) \<Longrightarrow> kept_at d (case r of None \<Rightarrow> None | Some s \<Rightarrow> f s)"
  using fb_kept_trans by (auto simp: kept_at_def split: option.splits)

lemma kept_for [kept_rules]: "(\<And>a s. kept_at s (f a s)) \<Longrightarrow> kept_at d (for_each f as d)"
proof (induction as arbitrary: d)
  case (Cons a as)
  then show ?case using kept_bind [of d "f a d" "for_each f as"] by simp
qed (simp add: kept_rules)

lemma kept_map [kept_rules]: "kept_at d r \<Longrightarrow> kept_res d (map_option (\<lambda>d'. (d', e)) r)"
  by (auto simp: kept_res_def kept_at_def)

lemma clear_kept: "kept_at d (platform_disp_clear d)"
  unfolding platform_disp_clear_def by (intro kept_rules kept_on_fb) (auto split: if_splits)

lemma glyph_kept: "kept_at d (disp_bitmap_bpp1 bm x y d)" "kept_at d (disp_1bitbmp_bpp16 bm x y d)"
  unfolding disp_bitmap_bpp1_def disp_1bitbmp_bpp16_def by (intro kept_rules)+

lemma draw_char_kept: "draw_char c x y d = Some (bm, d') \<Longrightarrow> fb_kept d d'"
  using glyph_kept unfolding kept_at_def by (auto simp: draw_char_def Let_def split: if_splits)

lemma puttext_loop_kept: "puttext_loop str xy bm d = Some d' \<Longrightarrow> fb_kept d d'"
proof (induction str xy bm d rule: puttext_loop.induct)
  case (2 c cs xy bm d)
  show ?case
  proof (cases "c = 0x0D \<or> c = 0x0A")
    case True
    then have e: "puttext_loop (c # cs) xy bm d
        = (case bm of None \<Rightarrow> None | Some b \<Rightarrow> puttext_loop cs (next_line b d xy) bm d)"
      by (simp only: puttext_loop.simps if_True)
    from 2(3) obtain b where b: "bm = Some b" "puttext_loop cs (next_line b d xy) bm d = Some d'"
      unfolding e by (cases bm) simp_all
    show ?thesis using 2(1) [OF True b(1)] b(2) by simp
  next
    case False
    obtain code rest where p: "(if bit c 7 then
             (case cs of [] \<Rightarrow> (0x3F, [])
              | e # es \<Rightarrow> if bit e 7 then (256 * unat c + unat e, es) else (0x3F, cs))
           else (unat c, cs)) = (code, rest)"
      by (rule that [OF prod.collapse [symmetric]])
    have e: "puttext_loop (c # cs) xy bm d = (case draw_char code (fst xy) (snd xy) d of None \<Rightarrow> None
        | Some (b, d') \<Rightarrow> puttext_loop rest (next_line b d' xy) (Some b) d')"
      unfolding puttext_loop.simps if_not_P [OF False] p Let_def prod.case ..
    from 2(3) obtain b d1 where d1: "draw_char code (fst xy) (snd xy) d = Some (b, d1)"
      "puttext_loop rest (next_line b d1 xy) (Some b) d1 = Some d'"
      unfolding e by (cases "draw_char code (fst xy) (snd xy) d") auto
    show ?thesis
      using fb_kept_trans [OF draw_char_kept [OF d1(1)] 2(2) [OF False p [symmetric] refl d1(1) refl d1(2)]] .
  qed
qed simp

lemma puttext_kept: "kept_at d (platform_disp_puttext str x y d)"
  using puttext_loop_kept by (simp add: kept_at_def platform_disp_puttext_def)

lemma bmp_kept: "kept_res d (put_bmp_file_buff b x y t l u r bo d)"
  unfolding put_bmp_file_buff_def Let_def by (intro kept_rules)

lemma png_kept: "kept_res d (put_png_file_buff p x y t l u r bo d)"
  unfolding put_png_file_buff_def Let_def by (intro kept_rules)

lemma putimage_kept: "kept_res d (platform_disp_putimage name file p x y t l u r bo d)"
  unfolding platform_disp_putimage_def by (intro kept_rules bmp_kept png_kept)

lemma drawrect_kept: "kept_res d (platform_disp_drawrect x1 y1 x2 y2 c d)"
  unfolding platform_disp_drawrect_def Let_def by (intro kept_bind kept_rules)

section \<open>The state stays well formed\<close>

definition disp_typed :: "disp \<Rightarrow> bool" where
  "disp_typed d \<longleftrightarrow> screen_ok d \<and> hz_ok d \<and> length (dispFonts d) = MAX_FONTS \<and> curr_font_id d < MAX_FONTS
     \<and> (\<forall>fi\<in>set (dispFonts d). font_ok fi)"

lemma disp_typed_wf: "disp_typed d \<Longrightarrow> disp_wf d"
  by (simp add: disp_typed_def disp_wf_def)

text \<open>The calls a Lua script can make between initialisation and closing.\<close>

datatype disp_op =
    Clear
  | PutText "byte list" nat nat
  | PutImage string "byte list option" "png_image option" nat nat int nat nat nat nat
  | DrawRect int int int int int
  | SetColor int
  | SetBkColor int
  | LoadFont "byte list option"
  | SetFont int

fun disp_step :: "disp_op \<Rightarrow> disp \<Rightarrow> disp option" where
  "disp_step Clear d = platform_disp_clear d"
| "disp_step (PutText str x y) d = platform_disp_puttext str x y d"
| "disp_step (PutImage name src png x y t l u r b) d = map_option fst (platform_disp_putimage name src png x y t l u r b d)"
| "disp_step (DrawRect x1 y1 x2 y2 c) d = map_option fst (platform_disp_drawrect x1 y1 x2 y2 c d)"
| "disp_step (SetColor c) d = Some (fst (platform_disp_setcolor c d))"
| "disp_step (SetBkColor c) d = Some (fst (platform_disp_setbkcolor c d))"
| "disp_step (LoadFont src) d = Some (fst (platform_disp_loadfont src d))"
| "disp_step (SetFont i) d = Some (fst (platform_disp_setfont i d))"

text \<open>A font file with glyphs of at most 32 bytes, the size of the blank character.\<close>

fun op_fits :: "disp_op \<Rightarrow> bool" where
  "op_fits (LoadFont (Some buf)) = ((unat (buf ! 0) + 7) div 8 * unat (buf ! 1) \<le> 32)"
| "op_fits _ = True"

lemma fb_kept_typed: "fb_kept d d' \<Longrightarrow> disp_typed d \<Longrightarrow> disp_typed d'"
  using fb_kept_ok [of d d'] by (auto simp: disp_typed_def hz_ok_def fb_kept_def)

lemma kept_atD: "kept_at d r \<Longrightarrow> r = Some d' \<Longrightarrow> fb_kept d d'"
  by (simp add: kept_at_def)

lemma kept_resD: "kept_res d r \<Longrightarrow> map_option fst r = Some d' \<Longrightarrow> fb_kept d d'"
  by (auto simp: kept_res_def)

lemma free_font_le: "free_font fs \<le> length fs"
  by (induction fs) auto

lemma screen_ok_fields:
  "framebuffer d' = framebuffer d \<Longrightarrow> lcd_width d' = lcd_width d \<Longrightarrow> lcd_height d' = lcd_height d \<Longrightarrow>
    lcd_bpp d' = lcd_bpp d \<Longrightarrow> screen_ok d' = screen_ok d"
  by (simp add: screen_ok_def ok16_def ok1_def)

lemma loadfont_result:
  fixes buf d
  defines "w \<equiv> unat (buf ! 0)" and "h \<equiv> unat (buf ! 1)"
    and "a \<equiv> unat (buf ! 3) + 256 * unat (buf ! 4)" and "e \<equiv> unat (buf ! 5) + 256 * unat (buf ! 6)"
    and "i \<equiv> free_font (dispFonts d)"
  shows "platform_disp_loadfont (Some buf) d =
    (if 7 < length buf \<and> buf ! 2 = 0 \<and> a \<le> e \<and> (w + 7) div 8 * h * (e - a + 1) = length buf - 7 \<and> i < MAX_FONTS
     then (d\<lparr>dispFonts := (dispFonts d)[i := \<lparr>fi_width = w, fi_height = h, fi_size = (w + 7) div 8 * h mod 256,
       fi_start = a, fi_end = e, fi_data = Some (drop 7 buf)\<rparr>]\<rparr>, int i) else (d, - 1))"
  unfolding platform_disp_loadfont_def Let_def option.case assms by (simp only: not_le [symmetric] de_Morgan_conj) simp

lemma loadfont_typed:
  assumes "disp_typed d" and "op_fits (LoadFont src)"
  shows "disp_typed (fst (platform_disp_loadfont src d))"
proof (cases "fst (platform_disp_loadfont src d) = d")
  case True
  then show ?thesis using assms(1) by simp
next
  case False
  then obtain buf where buf: "src = Some buf" by (cases src) (auto simp: platform_disp_loadfont_def)
  define w h a e where "w = unat (buf ! 0)" and "h = unat (buf ! 1)"
    and "a = unat (buf ! 3) + 256 * unat (buf ! 4)" and "e = unat (buf ! 5) + 256 * unat (buf ! 6)"
  define fi where "fi = \<lparr>fi_width = w, fi_height = h, fi_size = (w + 7) div 8 * h mod 256, fi_start = a, fi_end = e,
    fi_data = Some (drop 7 buf)\<rparr>"
  define C where "C \<longleftrightarrow> 7 < length buf \<and> buf ! 2 = 0 \<and> a \<le> e
    \<and> (w + 7) div 8 * h * (e - a + 1) = length buf - 7 \<and> free_font (dispFonts d) < MAX_FONTS"
  have res: "platform_disp_loadfont src d =
      (if C then (d\<lparr>dispFonts := (dispFonts d)[free_font (dispFonts d) := fi]\<rparr>, int (free_font (dispFonts d))) else (d, - 1))"
    unfolding buf C_def w_def h_def a_def e_def fi_def by (rule loadfont_result)
  then have C using False by (cases C) simp_all
  then have new: "fst (platform_disp_loadfont src d) = d\<lparr>dispFonts := (dispFonts d)[free_font (dispFonts d) := fi]\<rparr>"
    and le: "a \<le> e" and size: "(w + 7) div 8 * h * (e - a + 1) = length buf - 7"
    using res by (simp_all add: C_def)
  have small: "(w + 7) div 8 * h \<le> 32" using assms(2) buf by (simp add: w_def h_def)
  then have "(e + 1 - a) * ((w + 7) div 8 * h) = length buf - 7"
    using size le by (simp add: mult.commute Suc_diff_le)
  then have "font_ok fi" using small by (simp add: font_ok_def fi_def)
  then have "\<forall>f\<in>set ((dispFonts d)[free_font (dispFonts d) := fi]). font_ok f"
    using assms(1) set_update_subset_insert by (fastforce simp: disp_typed_def)
  then show ?thesis using assms(1) unfolding new disp_typed_def
    by (simp add: hz_ok_def screen_ok_fields [of "d\<lparr>dispFonts := (dispFonts d)[free_font (dispFonts d) := fi]\<rparr>" d])
qed

lemma setters_typed:
  assumes "disp_typed d"
  shows "disp_typed (fst (platform_disp_setcolor c d))" "disp_typed (fst (platform_disp_setbkcolor c d))"
    "disp_typed (fst (platform_disp_setfont i d))"
  using assms screen_ok_fields [of "d\<lparr>disp_color := c\<rparr>" d] screen_ok_fields [of "d\<lparr>disp_bkcolor := c\<rparr>" d]
    screen_ok_fields [of "d\<lparr>curr_font_id := nat i\<rparr>" d]
  by (auto simp: disp_typed_def hz_ok_def platform_disp_setcolor_def platform_disp_setbkcolor_def
      platform_disp_setfont_def MAX_FONTS_def)

lemma disp_step_typed:
  assumes "disp_typed d" and "op_fits op" and "disp_step op d = Some d'"
  shows "disp_typed d'"
proof (cases op)
  case Clear
  then show ?thesis using assms fb_kept_typed [OF kept_atD [OF clear_kept]] by simp
next
  case (PutText str x y)
  then show ?thesis using assms fb_kept_typed [OF kept_atD [OF puttext_kept]] by simp
next
  case (PutImage name src png x y t l u r b)
  then show ?thesis using assms fb_kept_typed [OF kept_resD [OF putimage_kept]] by simp
next
  case (DrawRect x1 y1 x2 y2 c)
  then show ?thesis using assms fb_kept_typed [OF kept_resD [OF drawrect_kept]] by simp
qed (use assms loadfont_typed setters_typed in auto)

text \<open>The buffer \<open>malloc (width * height * bpp / 8)\<close> holds the screen, at one bit per pixel only for
  whole pages.\<close>

lemma page_bytes: "h mod 8 = 0 \<Longrightarrow> w * ((h + 7) div 8) = w * h div (8 :: nat)"
  by (auto simp: mod_eq_0_iff_dvd mult.left_commute elim!: dvdE)

lemma page_split:
  assumes "h mod 8 \<noteq> 0"
  shows "(h + 7) div 8 = Suc (h div 8)" "(h - 1) div 8 = h div 8" "h < 8 * Suc (h div (8 :: nat))"
proof -
  obtain q r where h: "h = 8 * q + r" "r < 8" using mult_div_mod_eq [of 8 h] by (metis mod_less_divisor zero_less_numeral)
  have r: "0 < r" using assms h by (cases r) simp_all
  have q: "h div 8 = q" using h by simp
  show "(h + 7) div 8 = Suc (h div 8)" unfolding q using h r by (intro div_nat_eqI) simp_all
  show "(h - 1) div 8 = h div 8" unfolding q using h r by (intro div_nat_eqI) simp_all
  show "h < 8 * Suc (h div 8)" unfolding q using h by simp
qed

lemma page_bytes_short:
  assumes "h mod 8 \<noteq> 0" and "0 < w"
  shows "w * h div 8 < w * ((h + 7) div (8 :: nat))"
proof -
  have "w * h < w * (8 * Suc (h div 8))" using page_split(3) [OF assms(1)] assms(2) by simp
  then have "w * h div 8 < w * Suc (h div 8)" by (simp only: less_mult_imp_div_less mult.left_commute mult.commute [of 8])
  then show ?thesis by (simp add: page_split(1) [OF assms(1)])
qed

lemma init_screen:
  assumes "bpp = 16 \<or> bpp = 1 \<and> height mod 8 = 0" and "length block = width * height * bpp div 8"
    and "framebuffer d = Some block" and "lcd_width d = width" and "lcd_height d = height" and "lcd_bpp d = bpp"
  shows "screen_ok d"
proof (cases "bpp = 1")
  case True
  then show ?thesis using assms page_bytes [of height width] by (simp add: screen_ok_def ok1_def)
next
  case False
  then show ?thesis using assms by (simp add: screen_ok_def ok16_def)
qed

lemma init_fonts: "length font_dat = 1520 \<Longrightarrow> font_ok (sansFont16 font_dat)"
  by (simp add: font_ok_def sansFont16_def)

lemma no_font: "font_ok \<lparr>fi_width = 0, fi_height = 0, fi_size = 0, fi_start = 0, fi_end = 0, fi_data = None\<rparr>"
  by (simp add: font_ok_def)

lemma disp_init_typed:
  assumes "bpp = 16 \<or> bpp = 1 \<and> height mod 8 = 0" and "length block = width * height * bpp div 8"
    and "length font_dat = 1520" and "length hz_dat = 216576" and "length ext = 960"
    and "\<not> fonts_inited d0" and "curr_font_id d0 = 0"
  shows "\<exists>d. platform_disp_init width height bpp fill (Some block) font_dat (Some hz_dat) ext d0 = Some d \<and> disp_typed d"
proof -
  define d1 where "d1 = d0\<lparr>lcd_width := width, lcd_height := height, lcd_bpp := bpp,
    framebuffer := Some block, fb_set := True\<rparr>"
  define d2 where "d2 = (if bpp = 1 then d1\<lparr>disp_bkcolor := COLOR_BLACK, disp_color := COLOR_WHITE,
    lcd_hwfillcolor := (if fill \<noteq> - 1 then fill else lcd_hwfillcolor d1)\<rparr> else d1)"
  define d where "d = fontInit font_dat (Some hz_dat) ext d2"
  have "platform_disp_init width height bpp fill (Some block) font_dat (Some hz_dat) ext d0 = Some d"
    using assms(1) by (auto simp: platform_disp_init_def Let_def d_def d2_def d1_def)
  moreover have "screen_ok d"
    by (rule init_screen [OF assms(1,2)]) (simp_all add: d_def d2_def d1_def fontInit_def)
  moreover have "hz_ok d" using assms(4,5,6) by (simp add: d_def d2_def d1_def fontInit_def hz_ok_def sansHzFont16_def)
  moreover have "\<forall>fi\<in>set (dispFonts d). font_ok fi" "length (dispFonts d) = MAX_FONTS"
    using assms(6) init_fonts [OF assms(3)] no_font by (simp_all add: d_def d2_def d1_def fontInit_def MAX_FONTS_def)
  moreover have "curr_font_id d < MAX_FONTS" using assms(7) by (simp add: d_def d2_def d1_def fontInit_def MAX_FONTS_def)
  ultimately show ?thesis by (simp add: disp_typed_def)
qed

text \<open>The frame buffer of a screen of one bit per pixel whose height is no multiple of eight is too short:
  its last pixel lies outside.\<close>

lemma init_short_buffer:
  assumes "height mod 8 \<noteq> 0" and "0 < width" and "length block = width * height * 1 div 8"
    and "platform_disp_init width height 1 fill (Some block) font_dat hz_dat ext d0 = Some d"
  shows "put_pixel1 (width - 1) (height - 1) on d = None"
proof -
  have f: "framebuffer d = Some block" "lcd_width d = width"
    using assms(4) by (auto simp: platform_disp_init_def fontInit_def Let_def)
  note p = page_split(1,2) [OF assms(1)]
  have "length block < width * Suc (height div 8)"
    using page_bytes_short [OF assms(1,2)] assms(3) p(1) by simp
  then have "length block \<le> (height - 1) div 8 * width + (width - 1)"
    unfolding p(2) using assms(2) by (simp add: mult.commute)
  then show ?thesis using f by (simp add: put_pixel1_def on_fb_def put_bit_def)
qed

section \<open>Rectangles\<close>

lemma for_each_append:
  "for_each f (as @ bs) s = (case for_each f as s of None \<Rightarrow> None | Some s' \<Rightarrow> for_each f bs s')"
  by (induction as arbitrary: s) (auto split: option.splits)

text \<open>A loop with two writes per turn is a loop over single pixels.\<close>

lemma for_each_pair:
  "for_each (\<lambda>i s. case f (p i) s of None \<Rightarrow> None | Some s' \<Rightarrow> f (q i) s') as s
    = for_each f (concat (map (\<lambda>i. [p i, q i]) as)) s"
  by (induction as arbitrary: s) (auto split: option.splits)

definition frame_cells :: "int \<Rightarrow> int \<Rightarrow> int \<Rightarrow> int \<Rightarrow> (nat \<times> nat) list" where
  "frame_cells x1 y1 x2 y2 =
     concat (map (\<lambda>i. [(nat i, nat y1), (nat i, nat y2)]) [x1..x2])
     @ concat (map (\<lambda>j. [(nat x1, nat j), (nat x2, nat j)]) [y1..y2])"

definition fill_cells :: "int \<Rightarrow> int \<Rightarrow> int \<Rightarrow> int \<Rightarrow> (nat \<times> nat) list" where
  "fill_cells x1 y1 x2 y2 = map (\<lambda>(j, i). (nat i, nat j)) (List.product [y1..y2] [x1..x2])"

lemma set_frame_cells:
  "0 \<le> x1 \<Longrightarrow> 0 \<le> y1 \<Longrightarrow> x1 < x2 \<Longrightarrow> y1 < y2 \<Longrightarrow> (x, y) \<in> set (frame_cells x1 y1 x2 y2) \<longleftrightarrow>
    x1 \<le> int x \<and> int x \<le> x2 \<and> y1 \<le> int y \<and> int y \<le> y2
      \<and> (int x = x1 \<or> int x = x2 \<or> int y = y1 \<or> int y = y2)"
  by (auto simp: frame_cells_def intro: bexI [of _ "int x"] bexI [of _ "int y"])

lemma set_fill_cells:
  "0 \<le> x1 \<Longrightarrow> 0 \<le> y1 \<Longrightarrow> (x, y) \<in> set (fill_cells x1 y1 x2 y2) \<longleftrightarrow>
    x1 \<le> int x \<and> int x \<le> x2 \<and> y1 \<le> int y \<and> int y \<le> y2"
  by (force simp: fill_cells_def image_iff)

lemma for_each_cong: "(\<And>a. a \<in> set as \<Longrightarrow> f a = g a) \<Longrightarrow> for_each f as s = for_each g as s"
  by (induction as arbitrary: s) (auto split: option.splits)

lemma for_each_map: "for_each f (map p as) s = for_each (\<lambda>a. f (p a)) as s"
  by (induction as arbitrary: s) (auto split: option.splits)

text \<open>Plotting a list of pixels.\<close>

definition plot16 :: "nat \<Rightarrow> u16 \<Rightarrow> nat \<times> nat \<Rightarrow> disp \<Rightarrow> disp option" where
  "plot16 w v c = on_fb (put16 (int (snd c * w + fst c)) v)"

lemma plot16_cells:
  assumes "ok16 d" and "\<And>x y. (x, y) \<in> set cells \<Longrightarrow> x < lcd_width d \<and> y < lcd_height d"
  shows "\<exists>d'. for_each (plot16 (lcd_width d) v) cells d = Some d' \<and> ok16 d' \<and> same_disp d d'
    \<and> (\<forall>x y. x < lcd_width d \<longrightarrow> y < lcd_height d \<longrightarrow>
        pixel16 x y d' = (if (x, y) \<in> set cells then v else pixel16 x y d))"
proof -
  have "\<exists>d'. for_each (plot16 (lcd_width d) v) cells d = Some d' \<and> ok16 d' \<and> same_disp d d'
      \<and> c16.painted (\<lambda>_. Some v) ((\<lambda>c. c) ` set cells) d d'"
    by (rule c16.paint_loop) (use assms in \<open>auto simp: plot16_def put_pixel16_def\<close>)
  then show ?thesis by (auto simp: c16.painted_def)
qed

lemma frame_loop:
  assumes "0 \<le> x1" and "0 \<le> y1" and "x1 < x2" and "y1 < y2"
  shows "(case for_each (\<lambda>i s. case on_fb (put16 (y1 * int w + i) c) s of None \<Rightarrow> None
        | Some s' \<Rightarrow> on_fb (put16 (y1 * int w + (y2 - y1) * int w + i) c) s') [x1..x2] d of None \<Rightarrow> None
      | Some d1 \<Rightarrow> for_each (\<lambda>j s. case on_fb (put16 (j * int w + x1) c) s of None \<Rightarrow> None
        | Some s' \<Rightarrow> on_fb (put16 (j * int w + x2) c) s') [y1..y2] d1)
    = for_each (plot16 w c) (frame_cells x1 y1 x2 y2) d"
proof -
  have bottom: "y1 * int w + (y2 - y1) * int w + i = y2 * int w + i" for i by (simp add: algebra_simps)
  have plot: "0 \<le> i \<Longrightarrow> 0 \<le> j \<Longrightarrow> plot16 w c (nat i, nat j) = on_fb (put16 (j * int w + i) c)" for i j
    by (simp add: plot16_def)
  have row: "for_each (\<lambda>i s. case on_fb (put16 (y1 * int w + i) c) s of None \<Rightarrow> None
        | Some s' \<Rightarrow> on_fb (put16 (y1 * int w + (y2 - y1) * int w + i) c) s') [x1..x2] s
      = for_each (plot16 w c) (concat (map (\<lambda>i. [(nat i, nat y1), (nat i, nat y2)]) [x1..x2])) s" for s
    unfolding for_each_pair [symmetric]
    by (rule for_each_cong) (use assms in \<open>auto simp: plot bottom fun_eq_iff cong: option.case_cong\<close>)
  have col: "for_each (\<lambda>j s. case on_fb (put16 (j * int w + x1) c) s of None \<Rightarrow> None
        | Some s' \<Rightarrow> on_fb (put16 (j * int w + x2) c) s') [y1..y2] s
      = for_each (plot16 w c) (concat (map (\<lambda>j. [(nat x1, nat j), (nat x2, nat j)]) [y1..y2])) s" for s
    unfolding for_each_pair [symmetric]
    by (rule for_each_cong) (use assms in \<open>auto simp: plot bottom fun_eq_iff cong: option.case_cong\<close>)
  show ?thesis unfolding row col frame_cells_def for_each_append ..
qed

lemma fill_loop:
  assumes "0 \<le> x1" and "0 \<le> y1"
  shows "for_each (\<lambda>(j, i). on_fb (put16 (j * int w + i) c)) (List.product [y1..y2] [x1..x2]) d
    = for_each (plot16 w c) (fill_cells x1 y1 x2 y2) d"
  unfolding fill_cells_def for_each_map
  by (rule for_each_cong) (use assms in \<open>auto simp: plot16_def\<close>)

text \<open>A rectangle on a colour screen: after clipping to the right and bottom edges, an empty range is
  an error and changes nothing, the colour -1 draws the one pixel wide frame in the current colour, and
  any other colour fills the rectangle, edges included; every pixel outside is unchanged.\<close>

lemma drawrect_correct:
  assumes "ok16 d" and "lcd_bpp d = 16" and "0 \<le> x1" and "0 \<le> y1"
  shows "let X2 = min x2 (int (lcd_width d) - 1); Y2 = min y2 (int (lcd_height d) - 1) in
    if X2 \<le> x1 \<or> Y2 \<le> y1 then platform_disp_drawrect x1 y1 x2 y2 color d = Some (d, PLATFORM_ERR)
    else \<exists>d'. platform_disp_drawrect x1 y1 x2 y2 color d = Some (d', PLATFORM_OK) \<and> ok16 d' \<and> same_disp d d'
      \<and> (\<forall>x y. x < lcd_width d \<longrightarrow> y < lcd_height d \<longrightarrow>
          pixel16 x y d' =
            (if x1 \<le> int x \<and> int x \<le> X2 \<and> y1 \<le> int y \<and> int y \<le> Y2
                \<and> (color = - 1 \<longrightarrow> int x = x1 \<or> int x = X2 \<or> int y = y1 \<or> int y = Y2)
             then word_of_int (if color = - 1 then disp_color d else color) else pixel16 x y d))"
proof -
  define w h X2 Y2 where "w = lcd_width d" and "h = lcd_height d"
    and "X2 = min x2 (int w - 1)" and "Y2 = min y2 (int h - 1)"
  define cells where "cells = (if color = - 1 then frame_cells x1 y1 X2 Y2 else fill_cells x1 y1 X2 Y2)"
  define v :: u16 where "v = word_of_int (if color = - 1 then disp_color d else color)"
  have clip: "X2 \<le> min x1 (int w - 1) \<longleftrightarrow> X2 \<le> x1" "Y2 \<le> min y1 (int h - 1) \<longleftrightarrow> Y2 \<le> y1"
    by (auto simp: X2_def Y2_def)
  show ?thesis
  proof (cases "X2 \<le> x1 \<or> Y2 \<le> y1")
    case True
    then have "platform_disp_drawrect x1 y1 x2 y2 color d = Some (d, PLATFORM_ERR)"
      using clip by (simp add: platform_disp_drawrect_def Let_def X2_def Y2_def w_def h_def)
    then show ?thesis using True by (simp add: X2_def Y2_def w_def h_def Let_def)
  next
    case False
    then have r: "x1 < X2" "y1 < Y2" and m: "min x1 (int w - 1) = x1" "min y1 (int h - 1) = y1"
      by (auto simp: X2_def Y2_def)
    have draw: "platform_disp_drawrect x1 y1 x2 y2 color d
        = map_option (\<lambda>d'. (d', PLATFORM_OK)) (for_each (plot16 w v) cells d)"
      using frame_loop [OF assms(3,4) r] fill_loop [OF assms(3,4)] False assms(2)
      unfolding platform_disp_drawrect_def Let_def w_def [symmetric] h_def [symmetric] X2_def [symmetric]
        Y2_def [symmetric] m cells_def v_def
      by (cases "color = - 1") simp_all
    have cells: "(x, y) \<in> set cells \<longleftrightarrow> x1 \<le> int x \<and> int x \<le> X2 \<and> y1 \<le> int y \<and> int y \<le> Y2
        \<and> (color = - 1 \<longrightarrow> int x = x1 \<or> int x = X2 \<or> int y = y1 \<or> int y = Y2)" for x y
      using set_frame_cells [OF assms(3,4) r] set_fill_cells [OF assms(3,4)] by (simp add: cells_def)
    have inside: "(x, y) \<in> set cells \<Longrightarrow> x < lcd_width d \<and> y < lcd_height d" for x y
      unfolding cells X2_def Y2_def w_def h_def by linarith
    obtain d' where d': "for_each (plot16 w v) cells d = Some d'" "ok16 d'" "same_disp d d'"
      "\<forall>x y. x < w \<longrightarrow> y < h \<longrightarrow> pixel16 x y d' = (if (x, y) \<in> set cells then v else pixel16 x y d)"
      using plot16_cells [OF assms(1), of cells v] inside unfolding w_def h_def by blast
    then show ?thesis
      using False draw unfolding cells w_def [symmetric] h_def [symmetric] X2_def [symmetric] Y2_def [symmetric]
        Let_def v_def [symmetric] by auto
  qed
qed

lemma drawrect_correct_witness:
  "\<exists>d'. platform_disp_drawrect 2 3 9 40 (- 1) (demo 16) = Some (d', PLATFORM_OK)
    \<and> pixel16 5 15 d' = 0x7BEF \<and> pixel16 5 14 d' = pixel16 5 14 (demo 16)"
proof -
  have ok: "ok16 (demo 16)" using demo_wf(1) by (simp add: disp_wf_def screen_ok_def demo_def)
  show ?thesis
    using drawrect_correct [OF ok, of 2 3 9 40 "- 1"] by (auto simp: demo_def Let_def)
qed

end
