(* ===== verification/DisplayBmp.thy ===== *)
theory DisplayBmp
  imports DisplayOps
begin

text \<open>
  BMP pictures of 24 bits per pixel on a colour screen: the rows of the file run from the bottom of the
  picture to its top and are padded to four bytes; \<open>put_bmp_file_buff\<close> shows them upright, clipped to
  the screen, without the transparent colour.
\<close>

section \<open>Words of the header\<close>

lemma align_word: "drop_bit 3 (x AND NOT 31) = push_bit 2 (drop_bit 5 (x :: u32))"
proof -
  have "drop_bit 3 (x AND NOT (mask 5)) = push_bit 2 (drop_bit 5 x)"
    by (rule bit_word_eqI) (auto simp: bit_simps dest: bit_imp_le_length)
  then show ?thesis by (simp add: mask_eq_exp_minus_1)
qed

lemma unat_push2_drop5: "unat (push_bit 2 (drop_bit 5 (x :: u32))) = unat x div 32 * 4"
proof -
  have "unat x < 2 ^ 32" using unsigned_less [of x] by simp
  then have "unat x div 32 * 4 < 2 ^ 32" by linarith
  then show ?thesis
    by (simp add: unat_drop_bit_eq drop_bit_eq_div push_bit_eq_mult unat_word_ariths mult.commute)
qed

lemma unat_small: "n < 2 ^ 32 \<Longrightarrow> unat (of_nat n :: u32) = n"
  by (simp add: unsigned_of_nat take_bit_nat_eq_self)

lemma uint_ucast16:
  fixes v :: u32
  assumes "unat v = m" and "m < 65536"
  shows "uint (ucast v :: u16) = int m"
proof -
  have "uint v = int (unat v)" by simp
  then have "uint v = int m" unfolding assms(1) .
  then show ?thesis using assms(2) by (simp add: unsigned_ucast_eq take_bit_int_eq_self)
qed

lemma sint_small: "n < 2 ^ 31 \<Longrightarrow> sint (of_nat n :: u32) = int n"
  by (simp add: signed_of_nat signed_take_bit_int_eq_self)

definition bmp_row_bytes :: "nat \<Rightarrow> nat" where
  "bmp_row_bytes w = (24 * w + 31) div 32 * 4"

lemma row_bytes:
  assumes "bits_per_pixel h = 24" and "bmp_row_bytes (unat (bh_width h)) < 65536"
  shows "bitmapRowBytes h = int (bmp_row_bytes (unat (bh_width h)))"
proof -
  let ?w = "unat (bh_width h)"
  have w: "24 * ?w + 31 < 2 ^ 32" using assms(2) unfolding bmp_row_bytes_def by (simp add: div_less_iff_less_mult)
  have "bh_width h * bits_per_pixel h + 31 = of_nat (24 * ?w + 31)" using assms(1) by simp
  then have "unat (bh_width h * bits_per_pixel h + 31) = 24 * ?w + 31"
    using unat_small [OF w] by metis
  then have "unat (drop_bit 3 ((bh_width h * bits_per_pixel h + 31) AND NOT 31)) = bmp_row_bytes ?w"
    unfolding align_word unat_push2_drop5 bmp_row_bytes_def by simp
  from uint_ucast16 [OF this assms(2)] show ?thesis unfolding bitmapRowBytes_def .
qed

section \<open>The picture\<close>

text \<open>The pixel in column \<open>i\<close> and line \<open>j\<close> from the top, in the 16-bit format of the screen.\<close>

definition bmp_rgb :: "byte list \<Rightarrow> bmp_header \<Rightarrow> nat \<Rightarrow> nat \<Rightarrow> u16" where
  "bmp_rgb b h i j =
     (let at = unat (bitmap_offset h) + bmp_row_bytes (unat (bh_width h)) * (unat (bh_height h) - 1 - j) + 3 * i
      in RGB24ToRGB16 (ucast (b ! (at + 2))) (ucast (b ! (at + 1))) (ucast (b ! at)))"

text \<open>A complete file: 24 bits per pixel, all its rows present, and of a size the target can hold.\<close>

definition bmp24_ok :: "byte list \<Rightarrow> bmp_header \<Rightarrow> bool" where
  "bmp24_ok b h \<longleftrightarrow> bmp_header_of b = Some h \<and> bits_per_pixel h = 24 \<and> 0 < bh_width h \<and> 0 < bh_height h
     \<and> bmp_row_bytes (unat (bh_width h)) < 65536
     \<and> unat (bitmap_offset h) + bmp_row_bytes (unat (bh_width h)) * unat (bh_height h) \<le> length b
     \<and> length b < 2 ^ 31"

lemma row_bytes_ge: "3 * w \<le> bmp_row_bytes w"
  unfolding bmp_row_bytes_def by presburger

lemma cell_in_row:
  assumes "i < w" and "j < (hh :: nat)"
  shows "bmp_row_bytes w * (hh - 1 - j) + 3 * i + 2 < bmp_row_bytes w * hh"
proof -
  have "bmp_row_bytes w * (hh - 1 - j) + bmp_row_bytes w = bmp_row_bytes w * (hh - j)"
    using assms(2) by (metis Suc_diff_Suc add.commute diff_Suc_eq_diff_pred mult_Suc_right)
  also have "\<dots> \<le> bmp_row_bytes w * hh" by simp
  finally show ?thesis using row_bytes_ge [of w] assms(1) by linarith
qed

lemma bmp_row_line:
  assumes "j + upper < unat (bh_height h)" and "unat (bh_height h) < 2 ^ 31"
  shows "bmp_row h upper y (y + j) = of_nat (unat (bh_height h) - 1 - (upper + j))"
proof -
  obtain n where n: "unat (bh_height h) = Suc (upper + j) + n"
    using less_imp_add_positive [OF assms(1)] by (metis Suc_pred add.commute add_Suc_shift)
  have "bh_height h = of_nat (unat (bh_height h))" by simp
  then have "bh_height h = 1 + of_nat upper + of_nat j + of_nat n" unfolding n by simp
  then have "bmp_row h upper y (y + j) = of_nat n" by (simp add: bmp_row_def)
  then show ?thesis unfolding n by simp
qed

lemma color_pixel_rgb:
  assumes ok: "bmp24_ok b h" and i: "i < unat (bh_width h)" and j: "j < unat (bh_height h)"
  shows "color_pixel b h (of_nat (unat (bh_height h) - 1 - j)) i = Some (bmp_rgb b h i j)"
proof -
  define W H R off where "W = unat (bh_width h)" and "H = unat (bh_height h)"
    and "R = bmp_row_bytes W" and "off = unat (bitmap_offset h)"
  define k where "k = R * (H - 1 - j) + 3 * i"
  have fits: "off + R * H \<le> length b" "length b < 2 ^ 31" and bpp: "bits_per_pixel h = 24" and R: "R < 65536"
    using ok by (simp_all add: bmp24_ok_def W_def H_def R_def off_def)
  have k: "k + 2 < R * H" using cell_in_row [of i W j H] i j by (simp add: k_def R_def W_def H_def)
  have "H \<le> R * H" using k by (cases R) simp_all
  then have row: "sint (of_nat (H - 1 - j) :: u32) = int (H - 1 - j)" using fits by (intro sint_small) linarith
  have "sint (of_nat (H - 1 - j) :: u32) * bitmapRowBytes h + int i * uint (bits_per_pixel h) div 8 = int k"
    unfolding row row_bytes [OF bpp R [unfolded R_def W_def]] bpp by (simp add: k_def R_def W_def)
  moreover have "uint (word_of_int (int k) :: u32) = int k"
    using k fits by (simp add: unsigned_of_nat take_bit_nat_eq_self)
  ultimately have d: "uint (word_of_int (sint (of_nat (H - 1 - j) :: u32) * bitmapRowBytes h
      + int i * uint (bits_per_pixel h) div 8) :: u32) = int k" by simp
  have rd: "rd8 b (int off + int k + int n) = Some (b ! (off + k + n))" if "n \<le> 2" for n
    using that k fits by (simp add: rd8_def flip: of_nat_add)
  have o: "uint (bitmap_offset h) = int off" by (simp add: off_def)
  show ?thesis
    using rd [of 0] rd [of 1] rd [of 2]
    unfolding color_pixel_def Let_def H_def [symmetric] d o bmp_rgb_def W_def [symmetric] R_def [symmetric]
      off_def [symmetric]
    by (simp add: bpp k_def add.assoc)
qed

section \<open>Showing it\<close>

text \<open>The rows of the region are all processed: the unsigned comparison never stops the loop early.\<close>

lemma bmp_rows_all:
  assumes "upper \<le> btm" and "btm < unat (bh_height h)" and "unat (bh_height h) < 2 ^ 31" and "height \<le> y + (btm - upper + 1)"
  shows "bmp_rows h upper (of_nat btm) y height = [y..<height]"
proof -
  have stop: "bh_height h - of_nat btm - 1 = of_nat (unat (bh_height h) - 1 - btm)"
    using bmp_row_line [of 0 btm h 0] assms(2,3) by (simp add: bmp_row_def)
  have "bh_height h - of_nat btm - 1 \<le> bmp_row h upper y row" if "row \<in> set [y..<height]" for row
  proof -
    have r: "row = y + (row - y)" "row - y + upper \<le> btm" using that assms(1,4) by auto
    have "bmp_row h upper y row = of_nat (unat (bh_height h) - 1 - (upper + (row - y)))"
      using bmp_row_line [of "row - y" upper h y] r assms(2,3) by simp
    then show ?thesis unfolding stop
      using r assms(3) by (simp add: word_le_nat_alt unat_small)
  qed
  then show ?thesis unfolding bmp_rows_def by (simp add: takeWhile_eq_all_conv)
qed

lemma bmp_loop:
  assumes ok: "ok16 d" "bmp24_ok b h"
    and reg: "left \<le> right" "right < unat (bh_width h)" "upper \<le> btm" "btm < unat (bh_height h)"
    and wd: "width = min (right - left + 1 + x) (lcd_width d)" and ht: "height = min (btm - upper + 1 + y) (lcd_height d)"
  shows "\<exists>d'. for_each (\<lambda>(row, col) s.
                     case color_pixel b h (bmp_row h upper y row) (left + (col - x)) of None \<Rightarrow> None
                     | Some rgb16 \<Rightarrow>
                       if tc = - 1 \<or> uint rgb16 \<noteq> tc
                       then on_fb (put16 (int (row * lcd_width d + col)) rgb16) s else Some s)
       (List.product (bmp_rows h upper (of_nat btm) y height) [x..<width]) d = Some d' \<and> ok16 d' \<and> same_disp d d'
    \<and> (\<forall>px py. px < lcd_width d \<longrightarrow> py < lcd_height d \<longrightarrow>
        pixel16 px py d' = (let v = bmp_rgb b h (left + (px - x)) (upper + (py - y)) in
          if x \<le> px \<and> px < x + (right - left + 1) \<and> y \<le> py \<and> py < y + (btm - upper + 1) \<and> (tc = - 1 \<or> uint v \<noteq> tc)
          then v else pixel16 px py d))"
proof -
  have H: "unat (bh_height h) < 2 ^ 31"
  proof -
    have "0 < bmp_row_bytes (unat (bh_width h))" using row_bytes_ge [of "unat (bh_width h)"] reg(2) by linarith
    then have "unat (bh_height h) \<le> bmp_row_bytes (unat (bh_width h)) * unat (bh_height h)" by simp
    then show ?thesis using ok(2) unfolding bmp24_ok_def by linarith
  qed
  have rows: "bmp_rows h upper (of_nat btm) y height = [y..<height]"
    by (rule bmp_rows_all [OF reg(3,4) H]) (simp add: ht)
  define f where "f = (\<lambda>(px, py). let v = bmp_rgb b h (left + (px - x)) (upper + (py - y)) in
    if tc = - 1 \<or> uint v \<noteq> tc then Some v else None)"
  let ?cells = "List.product [y..<height] [x..<width]"
  have px: "color_pixel b h (bmp_row h upper y row) (left + (col - x)) = Some (bmp_rgb b h (left + (col - x)) (upper + (row - y)))"
    if "(row, col) \<in> set ?cells" for row col
  proof -
    have r: "row = y + (row - y)" "left + (col - x) < unat (bh_width h)" "row - y + upper < unat (bh_height h)"
      using that reg wd ht by auto
    show ?thesis
      using bmp_row_line [OF r(3) H, of y] color_pixel_rgb [OF ok(2) r(2), of "upper + (row - y)"] r(1,3)
      by (simp add: add.commute)
  qed
  have "\<exists>d'. for_each (\<lambda>(row, col) s.
                     case color_pixel b h (bmp_row h upper y row) (left + (col - x)) of None \<Rightarrow> None
                     | Some rgb16 \<Rightarrow>
                       if tc = - 1 \<or> uint rgb16 \<noteq> tc
                       then on_fb (put16 (int (row * lcd_width d + col)) rgb16) s else Some s) ?cells d = Some d'
      \<and> ok16 d' \<and> same_disp d d' \<and> c16.painted f ((\<lambda>(row, col). (col, row)) ` set ?cells) d d'"
  proof (rule c16.paint_loop [OF ok(1)])
    fix c
    assume c: "c \<in> set ?cells"
    then show "fst (case c of (row, col) \<Rightarrow> (col, row)) < lcd_width d \<and> snd (case c of (row, col) \<Rightarrow> (col, row)) < lcd_height d"
      by (auto simp: wd ht)
    fix s
    assume "same_disp d s"
    then show "(case c of (row, col) \<Rightarrow> \<lambda>s.
                     case color_pixel b h (bmp_row h upper y row) (left + (col - x)) of None \<Rightarrow> None
                     | Some rgb16 \<Rightarrow>
                       if tc = - 1 \<or> uint rgb16 \<noteq> tc
                       then on_fb (put16 (int (row * lcd_width d + col)) rgb16) s else Some s) s =
        (case f (case c of (row, col) \<Rightarrow> (col, row)) of None \<Rightarrow> Some s
         | Some v \<Rightarrow> put_pixel16 (fst (case c of (row, col) \<Rightarrow> (col, row))) (snd (case c of (row, col) \<Rightarrow> (col, row))) v s)"
      using px c by (cases c) (auto simp: f_def put_pixel16_def Let_def)
  qed
  moreover have "(px, py) \<in> (\<lambda>(row, col). (col, row)) ` set ?cells \<longleftrightarrow>
      x \<le> px \<and> px < x + (right - left + 1) \<and> y \<le> py \<and> py < y + (btm - upper + 1)"
    if "px < lcd_width d" "py < lcd_height d" for px py
    using that by (auto simp: wd ht image_iff)
  ultimately show ?thesis unfolding rows c16.painted_def by (auto simp: f_def Let_def)
qed

lemma unat_plus:
  assumes "unat (u :: u32) < 2 ^ 31" and "n < 65536"
  shows "unat (u + of_nat n) = unat u + n"
proof -
  have "u + of_nat n = of_nat (unat u + n)" by simp
  then show ?thesis using unat_small [of "unat u + n"] assms by simp
qed

lemma bmp24_dims:
  assumes "bmp24_ok b h"
  shows "unat (bh_width h) < 2 ^ 31" "unat (bh_height h) < 2 ^ 31" "0 < unat (bh_width h)" "0 < unat (bh_height h)"
proof -
  show w: "0 < unat (bh_width h)" "0 < unat (bh_height h)"
    using assms by (simp_all add: bmp24_ok_def unat_gt_0 word_gt_0)
  have "0 < bmp_row_bytes (unat (bh_width h))" using row_bytes_ge [of "unat (bh_width h)"] w(1) by linarith
  then have "unat (bh_height h) \<le> bmp_row_bytes (unat (bh_width h)) * unat (bh_height h)" by simp
  then show "unat (bh_height h) < 2 ^ 31" using assms unfolding bmp24_ok_def by linarith
  show "unat (bh_width h) < 2 ^ 31"
  proof -
    have "bmp_row_bytes (unat (bh_width h)) < 65536" using assms by (simp add: bmp24_ok_def)
    then have "unat (bh_width h) < 65536" using row_bytes_ge [of "unat (bh_width h)"] by linarith
    then show ?thesis by simp
  qed
qed

text \<open>C16. A complete BMP file of 24 bits per pixel is shown upright: with the region given inside the
  picture, or the whole picture for an all-zero region, pixel \<open>(left + i, upper + j)\<close> of the picture, read
  from its row counted from the bottom of the file with rows padded to four bytes, appears at
  \<open>(x + i, y + j)\<close> in the 16-bit format, unless it lies outside the screen or has the transparent
  colour; every other pixel keeps its value.\<close>

theorem bmp24_correct:
  assumes "ok16 d" and "lcd_bpp d = 16" and "bmp24_ok b h" and "x < 65536" and "y < 65536"
    and "(left, upper, right, bottom) = (0, 0, 0, 0) \<and> (rgt, btm) = (unat (bh_width h) - 1, unat (bh_height h) - 1)
      \<or> (left, upper, right, bottom) \<noteq> (0, 0, 0, 0) \<and> (rgt, btm) = (right, bottom)
        \<and> left \<le> right \<and> right < unat (bh_width h) \<and> upper \<le> bottom \<and> bottom < unat (bh_height h)"
  shows "\<exists>d'. put_bmp_file_buff b x y tc left upper right bottom d = Some (d', PLATFORM_OK) \<and> ok16 d' \<and> same_disp d d'
    \<and> (\<forall>px py. px < lcd_width d \<longrightarrow> py < lcd_height d \<longrightarrow>
        pixel16 px py d' = (let v = bmp_rgb b h (left + (px - x)) (upper + (py - y)) in
          if x \<le> px \<and> px < x + (rgt - left + 1) \<and> y \<le> py \<and> py < y + (btm - upper + 1) \<and> (tc = - 1 \<or> uint v \<noteq> tc)
          then v else pixel16 px py d))"
proof -
  note dims = bmp24_dims [OF assms(3)]
  have h: "bmp_header_of b = Some h" "bits_per_pixel h = 24" using assms(3) by (simp_all add: bmp24_ok_def)
  define whole where "whole \<longleftrightarrow> (left = 0 \<and> upper = 0 \<and> right = 0 \<and> bottom = 0)"
  have reg: "left \<le> rgt" "rgt < unat (bh_width h)" "upper \<le> btm" "btm < unat (bh_height h)"
    using assms(6) dims by auto
  have width: "(if whole then min (unat (bh_width h + of_nat x)) (lcd_width d) else min (right - left + 1 + x) (lcd_width d))
      = min (rgt - left + 1 + x) (lcd_width d)"
    using assms(6) dims unat_plus [OF dims(1) assms(4)] by (auto simp: whole_def)
  have height: "(if whole then min (unat (bh_height h + of_nat y)) (lcd_height d) else min (bottom - upper + 1 + y) (lcd_height d))
      = min (btm - upper + 1 + y) (lcd_height d)"
    using assms(6) dims unat_plus [OF dims(2) assms(5)] by (auto simp: whole_def)
  have "bh_height h - 1 = of_nat (unat (bh_height h) - 1)" using dims(4) by (simp add: of_nat_diff)
  then have bottom: "(if whole then bh_height h - 1 else of_nat bottom) = of_nat btm"
    using assms(6) by (auto simp: whole_def)
  have range: "\<not> (right < left \<or> bottom < upper)" using assms(6) by auto
  have "put_bmp_file_buff b x y tc left upper right bottom d = map_option (\<lambda>d'. (d', PLATFORM_OK))
      (for_each (\<lambda>(row, col) s.
                     case color_pixel b h (bmp_row h upper y row) (left + (col - x)) of None \<Rightarrow> None
                     | Some rgb16 \<Rightarrow>
                       if tc = - 1 \<or> uint rgb16 \<noteq> tc
                       then on_fb (put16 (int (row * lcd_width d + col)) rgb16) s else Some s)
       (List.product (bmp_rows h upper (of_nat btm) y (min (btm - upper + 1 + y) (lcd_height d)))
          [x..<min (rgt - left + 1 + x) (lcd_width d)]) d)"
    unfolding put_bmp_file_buff_def Let_def h(1) option.case if_not_P [OF range] whole_def [symmetric] width height bottom
    using assms(2) h(2) by simp
  with bmp_loop [OF assms(1,3) reg refl refl, where x = x and y = y and tc = tc] show ?thesis by auto
qed

text \<open>A picture of two by two pixels at the right edge of the screen.\<close>

definition demo_bmp :: "byte list" where
  "demo_bmp = [0x42, 0x4D, 70, 0, 0, 0, 0, 0, 0, 0, 54, 0, 0, 0, 40, 0, 0, 0, 2, 0, 0, 0, 2, 0, 0, 0, 1, 0, 24, 0]
     @ replicate 24 0 @ [0, 0, 0xFF, 0, 0xFF, 0, 0, 0, 0xFF, 0, 0, 0xFF, 0xFF, 0xFF, 0, 0]"

definition demo_header :: bmp_header where
  "demo_header = \<lparr>bitmap_offset = 54, bh_width = 2, bh_height = 2, number_of_planes = 1, bits_per_pixel = 24\<rparr>"

lemma demo_bmp_ok: "bmp24_ok demo_bmp demo_header"
proof -
  have "bmp_header_of demo_bmp = Some demo_header" by code_simp
  moreover have "length demo_bmp = 70" by code_simp
  ultimately show ?thesis by (simp add: bmp24_ok_def demo_header_def bmp_row_bytes_def)
qed

theorem bmp24_correct_witness:
  "\<exists>d'. put_bmp_file_buff demo_bmp 15 4 (- 1) 0 0 0 0 (demo 16) = Some (d', PLATFORM_OK)
    \<and> pixel16 15 4 d' = 0x001F \<and> pixel16 15 5 d' = 0xF800 \<and> pixel16 14 4 d' = pixel16 14 4 (demo 16)"
proof -
  have ok: "ok16 (demo 16)" using demo_wf(1) by (simp add: disp_wf_def screen_ok_def demo_def)
  have bpp: "lcd_bpp (demo 16) = 16" and dims: "lcd_width (demo 16) = 16" "lcd_height (demo 16) = 16"
    by (simp_all add: demo_def)
  have rgb: "bmp_rgb demo_bmp demo_header 0 0 = 0x001F" "bmp_rgb demo_bmp demo_header 0 1 = 0xF800" by code_simp+
  have w: "unat (bh_width demo_header) = 2" "unat (bh_height demo_header) = 2" by (simp_all add: demo_header_def)
  show ?thesis
    using bmp24_correct [OF ok bpp demo_bmp_ok, of 15 4 0 0 0 0 1 1 "- 1"] rgb unfolding w dims by auto
qed

end
