(* ===== verification/Pio.thy ===== *)
theory Pio
  imports Vsscanf CStr
begin

text \<open>
  The general purpose pins: their numbering in \<open>platform/include/platform.h\<close>, the port operations of
  \<open>platform/coolsand/src/platform.c\<close> above the GPIO calls of the kernel, and the Lua module
  \<open>modules/src/pio.c\<close>, whose keys \<open>pio.P0_5\<close> are parsed with \<open>sscanf\<close>. The kernel is a parameter that
  answers a call after the calls made before; the calls are the log in the state. A result \<open>None\<close> is an
  access outside a table.
\<close>

section \<open>Numbering\<close>

definition PLATFORM_IO_PORTS :: nat where "PLATFORM_IO_PORTS = 16"
definition PLATFORM_IO_PINS_BITS :: nat where "PLATFORM_IO_PINS_BITS = 5"
definition PLATFORM_IO_FULL_PORT_MASK :: int where "PLATFORM_IO_FULL_PORT_MASK = push_bit 14 1"
definition PLATFORM_IO_ALL_PINS :: u32 where "PLATFORM_IO_ALL_PINS = 0xFFFFFFFF"
definition PLATFORM_IO_UNKNOWN_PIN :: u32 where "PLATFORM_IO_UNKNOWN_PIN = 0xFFFFFFFE"

definition PLATFORM_IO_ENCODE :: "int \<Rightarrow> int \<Rightarrow> bool \<Rightarrow> int" where
  "PLATFORM_IO_ENCODE port pin full =
     push_bit PLATFORM_IO_PINS_BITS port OR pin OR (if full then PLATFORM_IO_FULL_PORT_MASK else 0)"

definition PLATFORM_IO_GET_PORT :: "int \<Rightarrow> nat" where
  "PLATFORM_IO_GET_PORT code = nat (drop_bit PLATFORM_IO_PINS_BITS code AND 15)"

definition PLATFORM_IO_GET_PIN :: "int \<Rightarrow> nat" where
  "PLATFORM_IO_GET_PIN code = nat (code AND 31)"

definition PLATFORM_IO_IS_PORT :: "int \<Rightarrow> bool" where
  "PLATFORM_IO_IS_PORT code \<longleftrightarrow> code AND PLATFORM_IO_FULL_PORT_MASK \<noteq> 0"

definition PIO_PIN_ARRAY :: "nat list" where "PIO_PIN_ARRAY = [32, 10, 9]"
definition NUM_PIO :: nat where "NUM_PIO = 3"
definition PIO_PIN_EX :: nat where "PIO_PIN_EX = 9"

text \<open>The port numbers of the kernel.\<close>

definition OPENAT_GPIO_0 :: nat where "OPENAT_GPIO_0 = 0"
definition OPENAT_GPIO_31 :: nat where "OPENAT_GPIO_31 = 31"
definition OPENAT_GPIO_EX_7 :: nat where "OPENAT_GPIO_EX_7 = 32"
definition OPENAT_GPIO_EX_8 :: nat where "OPENAT_GPIO_EX_8 = 33"
definition OPENAT_GPO_0 :: nat where "OPENAT_GPO_0 = 34"
definition OPENAT_GPO_9 :: nat where "OPENAT_GPO_9 = 43"
definition OPENAT_GPIO_UNKNOWN :: nat where "OPENAT_GPIO_UNKNOWN = 0xFF"

definition openatGPIOEx :: "nat list" where
  "openatGPIOEx = replicate 7 OPENAT_GPIO_UNKNOWN @ [OPENAT_GPIO_EX_7, OPENAT_GPIO_EX_8]"

lemmas pio_numbers = OPENAT_GPIO_0_def OPENAT_GPIO_31_def OPENAT_GPIO_EX_7_def OPENAT_GPIO_EX_8_def OPENAT_GPO_0_def
  OPENAT_GPO_9_def OPENAT_GPIO_UNKNOWN_def PIO_PIN_ARRAY_def NUM_PIO_def PIO_PIN_EX_def openatGPIOEx_def

definition platform_pio_has_port :: "u32 \<Rightarrow> bool" where
  "platform_pio_has_port port \<longleftrightarrow> unat port < NUM_PIO"

definition platform_pio_has_pin :: "u32 \<Rightarrow> u32 \<Rightarrow> bool" where
  "platform_pio_has_pin port pin \<longleftrightarrow> unat port < NUM_PIO \<and> unat pin < PIO_PIN_ARRAY ! unat port"

text \<open>The pin code of a kernel port: the loop over \<open>openatGPIOEx\<close> stops at the first entry.\<close>

fun find_ex :: "nat \<Rightarrow> nat list \<Rightarrow> nat \<Rightarrow> nat option" where
  "find_ex pin [] g = None"
| "find_ex pin (e # es) g = (if e = g then Some pin else find_ex (Suc pin) es g)"

definition platform_get_pio_pin :: "nat \<Rightarrow> u32" where
  "platform_get_pio_pin g =
     (if OPENAT_GPIO_0 \<le> g \<and> g \<le> OPENAT_GPIO_31 then
        word_of_int (PLATFORM_IO_ENCODE 0 (int (g - OPENAT_GPIO_0)) False)
      else if OPENAT_GPIO_31 < g \<and> g < OPENAT_GPO_0 then
        (case find_ex 0 openatGPIOEx g of None \<Rightarrow> PLATFORM_IO_UNKNOWN_PIN
         | Some pin \<Rightarrow> word_of_int (PLATFORM_IO_ENCODE 2 (int pin) False))
      else if OPENAT_GPO_0 \<le> g \<and> g \<le> OPENAT_GPO_9 then
        word_of_int (PLATFORM_IO_ENCODE 1 (int (g - OPENAT_GPO_0)) False)
      else PLATFORM_IO_UNKNOWN_PIN)"

definition get_real_gpio :: "nat \<Rightarrow> nat \<Rightarrow> nat option" where
  "get_real_gpio port pin =
     (if port = 0 then Some (OPENAT_GPIO_0 + pin)
      else if port = 1 then Some (OPENAT_GPO_0 + pin)
      else if port = 2 then (if pin < length openatGPIOEx then Some (openatGPIOEx ! pin) else None)
      else Some OPENAT_GPIO_UNKNOWN)"

definition platform_pio_get_gpio_port :: "int \<Rightarrow> nat option" where
  "platform_pio_get_gpio_port port_pin =
     (if word_of_int port_pin = PLATFORM_IO_UNKNOWN_PIN then Some OPENAT_GPIO_UNKNOWN
      else get_real_gpio (PLATFORM_IO_GET_PORT port_pin) (PLATFORM_IO_GET_PIN port_pin))"

section \<open>Interrupts\<close>

text \<open>The message sent to the Lua task: interrupt and resource number.\<close>

datatype gpio_edge = INT_GPIO_POSEDGE | INT_GPIO_NEGEDGE

definition GpioIntCallback :: "nat \<Rightarrow> byte \<Rightarrow> (gpio_edge \<times> u32) list" where
  "GpioIntCallback gpioNum state =
     (let pin = platform_get_pio_pin gpioNum
      in if pin \<noteq> PLATFORM_IO_UNKNOWN_PIN
         then [(if state \<noteq> 0 then INT_GPIO_POSEDGE else INT_GPIO_NEGEDGE, pin)] else [])"

section \<open>Port operations\<close>

definition PLATFORM_IO_PIN_SET :: nat where "PLATFORM_IO_PIN_SET = 0"
definition PLATFORM_IO_PIN_CLEAR :: nat where "PLATFORM_IO_PIN_CLEAR = 1"
definition PLATFORM_IO_PIN_GET :: nat where "PLATFORM_IO_PIN_GET = 2"
definition PLATFORM_IO_PIN_DIR_INPUT :: nat where "PLATFORM_IO_PIN_DIR_INPUT = 3"
definition PLATFORM_IO_PIN_DIR_OUTPUT :: nat where "PLATFORM_IO_PIN_DIR_OUTPUT = 4"
definition PLATFORM_IO_PIN_DIR_OUTPUT1 :: nat where "PLATFORM_IO_PIN_DIR_OUTPUT1 = 5"
definition PLATFORM_IO_PIN_DIR_INT :: nat where "PLATFORM_IO_PIN_DIR_INT = 6"
definition PLATFORM_IO_PIN_PULLUP :: nat where "PLATFORM_IO_PIN_PULLUP = 7"
definition PLATFORM_IO_PIN_PULLDOWN :: nat where "PLATFORM_IO_PIN_PULLDOWN = 8"
definition PLATFORM_IO_PIN_NOPULL :: nat where "PLATFORM_IO_PIN_NOPULL = 9"
definition PLATFORM_IO_PIN_CLOSE :: nat where "PLATFORM_IO_PIN_CLOSE = 10"
definition PLATFORM_IO_PORT_SET_VALUE :: nat where "PLATFORM_IO_PORT_SET_VALUE = 11"
definition PLATFORM_IO_PORT_GET_VALUE :: nat where "PLATFORM_IO_PORT_GET_VALUE = 12"
definition PLATFORM_IO_PORT_DIR_INPUT :: nat where "PLATFORM_IO_PORT_DIR_INPUT = 13"
definition PLATFORM_IO_PORT_DIR_OUTPUT :: nat where "PLATFORM_IO_PORT_DIR_OUTPUT = 14"

lemmas pio_ops = PLATFORM_IO_PIN_SET_def PLATFORM_IO_PIN_CLEAR_def PLATFORM_IO_PIN_GET_def
  PLATFORM_IO_PIN_DIR_INPUT_def PLATFORM_IO_PIN_DIR_OUTPUT_def PLATFORM_IO_PIN_DIR_OUTPUT1_def
  PLATFORM_IO_PIN_DIR_INT_def PLATFORM_IO_PIN_PULLUP_def PLATFORM_IO_PIN_PULLDOWN_def
  PLATFORM_IO_PIN_NOPULL_def PLATFORM_IO_PIN_CLOSE_def PLATFORM_IO_PORT_SET_VALUE_def
  PLATFORM_IO_PORT_GET_VALUE_def PLATFORM_IO_PORT_DIR_INPUT_def PLATFORM_IO_PORT_DIR_OUTPUT_def

datatype gpio_cfg = CfgInt nat | CfgInput | CfgOutput nat
datatype gpio_call = ConfigGpio nat gpio_cfg | SetGpio nat nat | ReadGpio nat | CloseGpio nat

text \<open>The kernel's answer: the \<open>BOOL\<close> result, and for \<open>read_gpio\<close> the byte in \<open>gpioValue\<close>.\<close>

type_synonym gpio_kernel = "gpio_call list \<Rightarrow> gpio_call \<Rightarrow> u32 \<times> byte"

text \<open>The kernel call of an operation on one port, \<open>None\<close> for the ones not supported.\<close>

definition pin_call :: "nat \<Rightarrow> nat \<Rightarrow> gpio_call option" where
  "pin_call op g =
     (if op = PLATFORM_IO_PIN_DIR_INT then Some (ConfigGpio g (CfgInt 20))
      else if op = PLATFORM_IO_PIN_DIR_INPUT then Some (ConfigGpio g CfgInput)
      else if op = PLATFORM_IO_PIN_DIR_OUTPUT \<or> op = PLATFORM_IO_PIN_DIR_OUTPUT1
        then Some (ConfigGpio g (CfgOutput (op - PLATFORM_IO_PIN_DIR_OUTPUT)))
      else if op = PLATFORM_IO_PIN_SET then Some (SetGpio g 1)
      else if op = PLATFORM_IO_PIN_CLEAR then Some (SetGpio g 0)
      else if op = PLATFORM_IO_PIN_CLOSE then Some (CloseGpio g)
      else None)"

fun pio_loop :: "gpio_kernel \<Rightarrow> nat \<Rightarrow> u32 \<Rightarrow> nat \<Rightarrow> nat list \<Rightarrow> u32 \<Rightarrow> gpio_call list \<Rightarrow> (u32 \<times> gpio_call list) option" where
  "pio_loop k port pinmask op [] retval log = Some (retval, log)"
| "pio_loop k port pinmask op (i # is) retval log =
     (if \<not> bit pinmask i then pio_loop k port pinmask op is retval log
      else (case get_real_gpio port i of None \<Rightarrow> None
        | Some g \<Rightarrow>
          if g = OPENAT_GPIO_UNKNOWN then Some (0, log)
          else if op = PLATFORM_IO_PIN_GET then
            (case k log (ReadGpio g) of (ret, v) \<Rightarrow> Some (if ret = 1 then ucast v else 0xFF, log @ [ReadGpio g]))
          else
            (case (case pin_call op g of None \<Rightarrow> (0, log) | Some c \<Rightarrow> (fst (k log c), log @ [c])) of (retval', log') \<Rightarrow>
             if pinmask AND NOT (push_bit i 1) = 0 then Some (retval', log')
             else pio_loop k port pinmask op is retval' log')))"

definition platform_pio_op :: "gpio_kernel \<Rightarrow> nat \<Rightarrow> u32 \<Rightarrow> nat \<Rightarrow> gpio_call list \<Rightarrow> (u32 \<times> gpio_call list) option" where
  "platform_pio_op k port pinmask op log =
     (if port = 1 \<and> op = PLATFORM_IO_PIN_DIR_INPUT then Some (0, log)
      else if port = 1 \<and> op = PLATFORM_IO_PIN_GET then Some (0xFF, log)
      else if op = PLATFORM_IO_PIN_DIR_INT \<and> (port = 1 \<or> port = 0 \<and> pinmask AND NOT 0xFF \<noteq> 0) then Some (0, log)
      else if length PIO_PIN_ARRAY \<le> port then None
      else pio_loop k port pinmask op [0..<PIO_PIN_ARRAY ! port] 1 log)"

section \<open>The Lua module\<close>

definition PIO_DIR_OUTPUT :: int where "PIO_DIR_OUTPUT = 0"
definition PIO_DIR_INPUT :: int where "PIO_DIR_INPUT = 1"
definition PIO_DIR_OUTPUT1 :: int where "PIO_DIR_OUTPUT1 = 2"

text \<open>The results of a library function: the numbers it returns, or the message of \<open>luaL_error\<close>.\<close>

datatype lua = LuaError string | LuaReturns "u32 list"

type_synonym pio_result = "(lua \<times> gpio_call list) option"

definition pin_valid :: "int \<Rightarrow> bool" where
  "pin_valid v \<longleftrightarrow> \<not> PLATFORM_IO_IS_PORT v \<and> platform_pio_has_port (of_nat (PLATFORM_IO_GET_PORT v))
     \<and> platform_pio_has_pin (of_nat (PLATFORM_IO_GET_PORT v)) (of_nat (PLATFORM_IO_GET_PIN v))"

fun collect_pins :: "int list \<Rightarrow> u32 list \<Rightarrow> u32 list option" where
  "collect_pins [] pio_masks = Some pio_masks"
| "collect_pins (v # vs) pio_masks =
     (if pin_valid v then
        (let port = PLATFORM_IO_GET_PORT v
         in collect_pins vs (pio_masks[port := pio_masks ! port OR push_bit (PLATFORM_IO_GET_PIN v) 1]))
      else None)"

fun run_ports :: "gpio_kernel \<Rightarrow> (nat \<times> u32) list \<Rightarrow> nat \<Rightarrow> gpio_call list \<Rightarrow> pio_result" where
  "run_ports k [] op log = Some (LuaReturns [], log)"
| "run_ports k ((i, m) # ps) op log =
     (case platform_pio_op k i m op log of None \<Rightarrow> None
      | Some (r, log') \<Rightarrow> if r = 0 then Some (LuaError ''invalid PIO operation'', log') else run_ports k ps op log')"

definition pioh_set_pins :: "gpio_kernel \<Rightarrow> int list \<Rightarrow> nat \<Rightarrow> gpio_call list \<Rightarrow> pio_result" where
  "pioh_set_pins k args op log =
     (case collect_pins args (replicate PLATFORM_IO_PORTS 0) of
        None \<Rightarrow> Some (LuaError ''invalid pin'', log)
      | Some pio_masks \<Rightarrow>
        run_ports k (filter (\<lambda>(i, m). m \<noteq> 0) (enumerate 0 pio_masks)) op log)"

fun collect_ports :: "int list \<Rightarrow> u32 \<Rightarrow> u32 option" where
  "collect_ports [] port_mask = Some port_mask"
| "collect_ports (v # vs) port_mask =
     (if PLATFORM_IO_IS_PORT v \<and> platform_pio_has_port (of_nat (PLATFORM_IO_GET_PORT v))
      then collect_ports vs (port_mask OR push_bit (PLATFORM_IO_GET_PORT v) 1) else None)"

definition pioh_set_ports :: "gpio_kernel \<Rightarrow> int list \<Rightarrow> nat \<Rightarrow> u32 \<Rightarrow> gpio_call list \<Rightarrow> pio_result" where
  "pioh_set_ports k args op pins log =
     (case collect_ports args 0 of
        None \<Rightarrow> Some (LuaError ''invalid port'', log)
      | Some port_mask \<Rightarrow>
        run_ports k (map (\<lambda>i. (i, pins)) (filter (bit port_mask) [0..<PLATFORM_IO_PORTS])) op log)"

text \<open>\<open>pin\<close> says whether \<open>optype\<close> is \<open>PIO_PIN_OP\<close>; \<open>args\<close> are the arguments behind the first. The
  helpers' results are dropped, their errors leave by \<open>longjmp\<close>.\<close>

definition pio_gen_setdir :: "gpio_kernel \<Rightarrow> bool \<Rightarrow> int \<Rightarrow> int list \<Rightarrow> gpio_call list \<Rightarrow> pio_result" where
  "pio_gen_setdir k pin op args log =
     (case (if op = PIO_DIR_INPUT then Some (if pin then PLATFORM_IO_PIN_DIR_INPUT else PLATFORM_IO_PORT_DIR_INPUT)
            else if op = PIO_DIR_OUTPUT then Some (if pin then PLATFORM_IO_PIN_DIR_OUTPUT else PLATFORM_IO_PORT_DIR_OUTPUT)
            else if op = PIO_DIR_OUTPUT1 then Some (if pin then PLATFORM_IO_PIN_DIR_OUTPUT1 else PLATFORM_IO_PORT_DIR_OUTPUT)
            else if \<not> (pin \<and> op = int PLATFORM_IO_PIN_DIR_INT) then None
            else Some (nat op)) of
        None \<Rightarrow> Some (LuaError ''invalid direction'', log)
      | Some op' \<Rightarrow> if pin then pioh_set_pins k args op' log else pioh_set_ports k args op' PLATFORM_IO_ALL_PINS log)"

definition pio_gen_setpull :: "gpio_kernel \<Rightarrow> bool \<Rightarrow> int \<Rightarrow> int list \<Rightarrow> gpio_call list \<Rightarrow> pio_result" where
  "pio_gen_setpull k pin op args log =
     (if op \<noteq> int PLATFORM_IO_PIN_PULLUP \<and> op \<noteq> int PLATFORM_IO_PIN_PULLDOWN \<and> op \<noteq> int PLATFORM_IO_PIN_NOPULL
      then Some (LuaError ''invalid pull type'', log)
      else if pin then pioh_set_pins k args (nat op) log else pioh_set_ports k args (nat op) PLATFORM_IO_ALL_PINS log)"

definition pio_gen_setval :: "gpio_kernel \<Rightarrow> bool \<Rightarrow> u32 \<Rightarrow> int list \<Rightarrow> gpio_call list \<Rightarrow> pio_result" where
  "pio_gen_setval k pin val args log =
     (if pin \<and> val \<noteq> 1 \<and> val \<noteq> 0 then Some (LuaError ''invalid pin value'', log)
      else if pin then pioh_set_pins k args (if val = 1 then PLATFORM_IO_PIN_SET else PLATFORM_IO_PIN_CLEAR) log
      else pioh_set_ports k args PLATFORM_IO_PORT_SET_VALUE val log)"

definition pio_pin_close :: "gpio_kernel \<Rightarrow> int list \<Rightarrow> gpio_call list \<Rightarrow> pio_result" where
  "pio_pin_close k args log = pioh_set_pins k args PLATFORM_IO_PIN_CLOSE log"

definition pio_pin_setval :: "gpio_kernel \<Rightarrow> int \<Rightarrow> int list \<Rightarrow> gpio_call list \<Rightarrow> pio_result" where
  "pio_pin_setval k val args log = pio_gen_setval k True (word_of_int val) args log"

definition pio_pin_sethigh :: "gpio_kernel \<Rightarrow> int list \<Rightarrow> gpio_call list \<Rightarrow> pio_result" where
  "pio_pin_sethigh k args log = pio_gen_setval k True 1 args log"

definition pio_pin_setlow :: "gpio_kernel \<Rightarrow> int list \<Rightarrow> gpio_call list \<Rightarrow> pio_result" where
  "pio_pin_setlow k args log = pio_gen_setval k True 0 args log"

definition pio_port_setval :: "gpio_kernel \<Rightarrow> int \<Rightarrow> int list \<Rightarrow> gpio_call list \<Rightarrow> pio_result" where
  "pio_port_setval k val args log = pio_gen_setval k False (word_of_int val) args log"

definition pio_port_sethigh :: "gpio_kernel \<Rightarrow> int list \<Rightarrow> gpio_call list \<Rightarrow> pio_result" where
  "pio_port_sethigh k args log = pio_gen_setval k False PLATFORM_IO_ALL_PINS args log"

definition pio_port_setlow :: "gpio_kernel \<Rightarrow> int list \<Rightarrow> gpio_call list \<Rightarrow> pio_result" where
  "pio_port_setlow k args log = pio_gen_setval k False 0 args log"

fun pio_pin_getval :: "gpio_kernel \<Rightarrow> int list \<Rightarrow> u32 list \<Rightarrow> gpio_call list \<Rightarrow> pio_result" where
  "pio_pin_getval k [] vals log = Some (LuaReturns vals, log)"
| "pio_pin_getval k (v # vs) vals log =
     (if \<not> pin_valid v then Some (LuaError ''invalid pin'', log)
      else (case platform_pio_op k (PLATFORM_IO_GET_PORT v) (push_bit (PLATFORM_IO_GET_PIN v) 1) PLATFORM_IO_PIN_GET log of
          None \<Rightarrow> None
        | Some (r, log') \<Rightarrow>
          if r = 0xFF then Some (LuaError ''pin.getval failed'', log') else pio_pin_getval k vs (vals @ [r]) log'))"

fun pio_port_getval :: "gpio_kernel \<Rightarrow> int list \<Rightarrow> u32 list \<Rightarrow> gpio_call list \<Rightarrow> pio_result" where
  "pio_port_getval k [] vals log = Some (LuaReturns vals, log)"
| "pio_port_getval k (v # vs) vals log =
     (if \<not> PLATFORM_IO_IS_PORT v \<or> \<not> platform_pio_has_port (of_nat (PLATFORM_IO_GET_PORT v))
      then Some (LuaError ''invalid port'', log)
      else (case platform_pio_op k (PLATFORM_IO_GET_PORT v) PLATFORM_IO_ALL_PINS PLATFORM_IO_PORT_GET_VALUE log of
          None \<Rightarrow> None
        | Some (r, log') \<Rightarrow> pio_port_getval k vs (vals @ [r]) log'))"

text \<open>The value of an \<open>int\<close> that \<open>sscanf\<close> stored.\<close>

definition int_of :: "stored \<Rightarrow> u32" where
  "int_of s = (case s of StoredInt w \<Rightarrow> w | _ \<Rightarrow> 0)"

text \<open>\<open>pio.P<port>\<close> and \<open>pio.P<port>_<pin>\<close> (\<open>PIO_PREFIX\<close> is \<open>'0'\<close>): \<open>Some None\<close> when there is no such key.\<close>

definition pio_mt_index :: "bool \<Rightarrow> byte list \<Rightarrow> u32 option option" where
  "pio_mt_index low key =
     (case key of [] \<Rightarrow> Some None
      | p # rest \<Rightarrow>
        if p \<noteq> 0x50 then Some None
        else if rest \<noteq> [] \<and> 0x41 \<le> hd rest \<and> hd rest \<le> 0x5A then Some None
        else if 0x5F \<notin> set key then
          (case vsscanf low rest [0x25, 0x64, 0x25, 0x6E] of None \<Rightarrow> None
           | Some (n, out) \<Rightarrow>
             if n \<noteq> 1 \<or> int_of (out ! 1) \<noteq> of_nat (length rest) then Some None
             else if platform_pio_has_port (int_of (out ! 0))
             then Some (Some (word_of_int (PLATFORM_IO_ENCODE (sint (int_of (out ! 0))) 0 True))) else Some None)
        else
          (case vsscanf low rest [0x25, 0x64, 0x5F, 0x25, 0x64, 0x25, 0x6E] of None \<Rightarrow> None
           | Some (n, out) \<Rightarrow>
             if n \<noteq> 2 \<or> int_of (out ! 2) \<noteq> of_nat (length rest) then Some None
             else if platform_pio_has_port (int_of (out ! 0)) \<and> platform_pio_has_pin (int_of (out ! 0)) (int_of (out ! 1))
             then Some (Some (word_of_int (PLATFORM_IO_ENCODE (sint (int_of (out ! 0))) (sint (int_of (out ! 1))) False)))
             else Some None))"

definition pio_decode :: "int \<Rightarrow> nat \<times> nat" where
  "pio_decode code = (PLATFORM_IO_GET_PORT code, PLATFORM_IO_GET_PIN code)"

end
