(* ===== verification/PioProps.thy ===== *)
theory PioProps
  imports Pio
begin

text \<open>
  The pins of theory \<open>Pio\<close>: the codes of the Lua module, the ports of the kernel and the resource
  numbers of interrupts agree; the keys of the module are parsed exactly; and a call with several pins
  configures exactly these.
\<close>

section \<open>Numbers\<close>

text \<open>The pins of the board, port by port.\<close>

definition pio_pins :: "(nat \<times> nat) list" where
  "pio_pins = concat (map (\<lambda>port. map (Pair port) [0..<PIO_PIN_ARRAY ! port]) [0..<NUM_PIO])"

definition pin_code :: "nat \<times> nat \<Rightarrow> int" where
  "pin_code p = PLATFORM_IO_ENCODE (int (fst p)) (int (snd p)) False"

lemma set_pio_pins: "(port, pin) \<in> set pio_pins \<longleftrightarrow> port < 3 \<and> pin < PIO_PIN_ARRAY ! port"
  by (force simp: pio_pins_def NUM_PIO_def)

lemma pins_decode: "list_all (\<lambda>p. pio_decode (pin_code p) = p \<and> pin_valid (pin_code p)) pio_pins"
  by code_simp

lemma pins_gpio:
  "list_all (\<lambda>(port, pin). case get_real_gpio port pin of None \<Rightarrow> False
     | Some g \<Rightarrow> platform_pio_get_gpio_port (pin_code (port, pin)) = Some g
         \<and> (g = OPENAT_GPIO_UNKNOWN \<or> platform_get_pio_pin g = word_of_int (pin_code (port, pin)))) pio_pins"
  by code_simp

lemma gpio_pins: "list_all (\<lambda>g. list_ex (\<lambda>(port, pin). get_real_gpio port pin = Some g) pio_pins) [0..<44]"
  by code_simp

lemma codes_known: "list_all (\<lambda>p. (word_of_int (pin_code p) :: u32) \<noteq> PLATFORM_IO_UNKNOWN_PIN) pio_pins"
  by code_simp

text \<open>Pin numbers round-trip. The code of an existing pin decodes to it and is valid for the Lua
  functions; it names the kernel port the pin operations use, unless that port is unknown; and the
  kernel port of an interrupt is reported under that same code. Every kernel port up to
  \<open>OPENAT_GPO_9\<close> belongs to a pin, and no other one is reported.\<close>

lemma gpio_numbering:
  "(\<forall>(port, pin) \<in> set pio_pins. pio_decode (pin_code (port, pin)) = (port, pin) \<and> pin_valid (pin_code (port, pin))
      \<and> (\<exists>g. get_real_gpio port pin = Some g \<and> platform_pio_get_gpio_port (pin_code (port, pin)) = Some g
        \<and> (g \<noteq> OPENAT_GPIO_UNKNOWN \<longrightarrow> GpioIntCallback g state
          = [(if state \<noteq> 0 then INT_GPIO_POSEDGE else INT_GPIO_NEGEDGE, word_of_int (pin_code (port, pin)))])))
    \<and> (\<forall>g. if g \<le> OPENAT_GPO_9 then \<exists>(port, pin) \<in> set pio_pins. get_real_gpio port pin = Some g
         else GpioIntCallback g state = [])"
proof (intro conjI ballI allI)
  fix p
  assume p: "p \<in> set pio_pins"
  obtain port pin where pp: "p = (port, pin)" by (cases p)
  obtain g where g: "get_real_gpio port pin = Some g" "platform_pio_get_gpio_port (pin_code (port, pin)) = Some g"
    "g = OPENAT_GPIO_UNKNOWN \<or> platform_get_pio_pin g = word_of_int (pin_code (port, pin))"
    using pins_gpio p pp by (auto simp: list_all_iff split: option.splits)
  have "word_of_int (pin_code (port, pin)) \<noteq> PLATFORM_IO_UNKNOWN_PIN"
    using codes_known p pp by (auto simp: list_all_iff)
  then show "case p of (port, pin) \<Rightarrow> pio_decode (pin_code (port, pin)) = (port, pin) \<and> pin_valid (pin_code (port, pin))
      \<and> (\<exists>g. get_real_gpio port pin = Some g \<and> platform_pio_get_gpio_port (pin_code (port, pin)) = Some g
        \<and> (g \<noteq> OPENAT_GPIO_UNKNOWN \<longrightarrow> GpioIntCallback g state
          = [(if state \<noteq> 0 then INT_GPIO_POSEDGE else INT_GPIO_NEGEDGE, word_of_int (pin_code (port, pin)))]))"
    using pins_decode p pp g by (auto simp: list_all_iff GpioIntCallback_def Let_def)
next
  fix g
  show "if g \<le> OPENAT_GPO_9 then \<exists>(port, pin) \<in> set pio_pins. get_real_gpio port pin = Some g
     else GpioIntCallback g state = []"
  proof (cases "g \<le> OPENAT_GPO_9")
    case True
    then have "g \<in> set [0..<44]" by (simp add: OPENAT_GPO_9_def)
    then have "list_ex (\<lambda>(port, pin). get_real_gpio port pin = Some g) pio_pins"
      using gpio_pins unfolding list_all_iff by blast
    then show ?thesis using True by (auto simp: list_ex_iff)
  next
    case False
    then have "platform_get_pio_pin g = PLATFORM_IO_UNKNOWN_PIN"
      by (simp add: platform_get_pio_pin_def pio_numbers)
    then show ?thesis using False by (simp add: GpioIntCallback_def)
  qed
qed

lemma gpio_numbering_witness:
  "pio_decode (pin_code (2, 8)) = (2, 8) \<and> GpioIntCallback OPENAT_GPIO_EX_8 1 = [(INT_GPIO_POSEDGE, 72)]"
proof -
  have "(2, 8) \<in> set pio_pins" by (simp add: set_pio_pins PIO_PIN_ARRAY_def)
  moreover have "get_real_gpio 2 8 = Some OPENAT_GPIO_EX_8" "OPENAT_GPIO_EX_8 \<noteq> OPENAT_GPIO_UNKNOWN"
    by code_simp+
  moreover have "(word_of_int (pin_code (2, 8)) :: u32) = 72" by code_simp
  ultimately show ?thesis using gpio_numbering [of 1] by force
qed

section \<open>Keys\<close>

text \<open>The state of the scanner at the start.\<close>

lemma dec_chars: "c \<in> set (dec n) \<Longrightarrow> c = 0x2D \<or> is_digit c"
  using dec_nat_digits [of "nat n"] dec_nat_digits [of "nat (- n)"] by (auto simp: dec_def split: if_splits)

lemma dec_plain: "0x5F \<notin> set (dec n)" "\<not> (0x41 \<le> hd (dec n) \<and> hd (dec n) \<le> 0x5A)" "dec n \<noteq> []"
proof -
  show ne: "dec n \<noteq> []" using dec_nat_digits by (auto simp: dec_def)
  show "0x5F \<notin> set (dec n)" using dec_chars [of "0x5F" n] by (auto simp: is_digit_def)
  show "\<not> (0x41 \<le> hd (dec n) \<and> hd (dec n) \<le> 0x5A)"
    using dec_chars [of "hd (dec n)" n] ne unfolding is_digit_cases by auto
qed

lemma scan_n_directive:
  "scan_loop low (0x25 # 0x6E # fmt) st
    = scan_loop low fmt (st\<lparr>sc_out := sc_out st @ [StoredInt (word_of_int (sc_nread st))]\<rparr>)"
  by (simp add: directive_def is_space_def is_digit_def scan_n_def scan_flags)

lemma scan_underscore:
  "sc_fp st = 0x5F # fp \<Longrightarrow> scan_loop low (0x5F # fmt) st
    = scan_loop low fmt (st\<lparr>sc_fp := fp, sc_nread := sc_nread st + 1\<rparr>)"
  by (simp add: directive_def scan_literal_def is_space_def)

lemma scan_port:
  assumes "INT_MIN \<le> n" "n \<le> INT_MAX"
  shows "vsscanf low (dec n) [0x25, 0x64, 0x25, 0x6E]
    = Some (1, [StoredInt (word_of_int n), StoredInt (word_of_int (int (length (dec n))))])"
proof -
  have "stops 0" by (simp add: stops_def)
  then show ?thesis
    using scan_number_at [OF assms, of 0 "[]" low _ "[]" "[0x25, 0x6E, 0]"]
    by (simp add: vsscanf_def scan_n_directive after_number_def del: scan_loop.simps) simp
qed

lemma scan_port_pin:
  assumes a: "INT_MIN \<le> a" "a \<le> INT_MAX" and b: "INT_MIN \<le> b" "b \<le> INT_MAX"
  shows "vsscanf low (dec a @ 0x5F # dec b) [0x25, 0x64, 0x5F, 0x25, 0x64, 0x25, 0x6E]
    = Some (2, [StoredInt (word_of_int a), StoredInt (word_of_int b),
        StoredInt (word_of_int (int (length (dec a @ 0x5F # dec b))))])"
proof -
  have stops: "stops 0" "stops 0x5F" by (simp_all add: stops_def)
  let ?fmt = "[0x25, 0x64, 0x25, 0x6E, 0]"
  let ?st = "\<lparr>sc_fp = dec a @ 0x5F # dec b @ [0], sc_nread = 0, sc_nassigned = 0, sc_base = 0, sc_ccfn = None, sc_out = []\<rparr>"
  have "scan_loop low (0x25 # 0x64 # 0x5F # ?fmt) ?st
      = scan_loop low (0x5F # ?fmt) (after_number ?st (0x5F # dec b @ [0]) (int (length (dec a))) a)"
    using scan_number_at [OF a stops(2), of "[]" low ?st "dec b @ [0]" "0x5F # ?fmt"] by simp
  also have "\<dots> = scan_loop low ?fmt (after_number ?st (dec b @ [0]) (int (length (dec a)) + 1) a)"
    by (subst scan_underscore) (simp_all add: after_number_def del: scan_loop.simps)
  also have "\<dots> = scan_loop low [0x25, 0x6E, 0] (after_number (after_number ?st (dec b @ [0]) (int (length (dec a)) + 1) a)
      [0] (int (length (dec a)) + 1 + int (length (dec b))) b)"
    using scan_number_at [OF b stops(1), of "[]" low "after_number ?st (dec b @ [0]) (int (length (dec a)) + 1) a" "[]"]
    by (simp add: after_number_def del: scan_loop.simps)
  also have "\<dots> = Some (2, [StoredInt (word_of_int a), StoredInt (word_of_int b),
        StoredInt (word_of_int (int (length (dec a)) + 1 + int (length (dec b))))])"
    by (simp add: scan_n_directive after_number_def del: scan_loop.simps) simp
  finally show ?thesis by (simp add: vsscanf_def algebra_simps del: scan_loop.simps)
qed

text \<open>An \<open>int\<close> as an \<open>unsigned\<close>: the range tests of the ports and pins.\<close>

lemma unat_of_int:
  assumes "INT_MIN \<le> a" "a \<le> INT_MAX"
  shows "unat (word_of_int a :: u32) = (if 0 \<le> a then nat a else nat (a + 2 ^ 32))"
proof -
  have "a mod 2 ^ 32 = (if 0 \<le> a then a else a + 2 ^ 32)"
    using assms by (simp add: layout_simps) (smt (verit) mod_add_self2 mod_pos_pos_trivial)
  then show ?thesis by (simp add: unsigned_of_int take_bit_eq_mod)
qed

lemma sint_of_int: "INT_MIN \<le> a \<Longrightarrow> a \<le> INT_MAX \<Longrightarrow> sint (word_of_int a :: u32) = a"
  by (simp add: layout_simps signed_of_int signed_take_bit_int_eq_self)

lemma has_port_int:
  assumes "INT_MIN \<le> a" "a \<le> INT_MAX"
  shows "platform_pio_has_port (word_of_int a) \<longleftrightarrow> 0 \<le> a \<and> a < 3"
  using assms by (auto simp: platform_pio_has_port_def unat_of_int NUM_PIO_def layout_simps)

lemma pin_array: "PIO_PIN_ARRAY ! port \<le> 32 \<or> 3 \<le> port"
  by (cases "port < 3") (auto simp: PIO_PIN_ARRAY_def less_Suc_eq numeral_3_eq_3)

lemma has_pin_int:
  assumes "INT_MIN \<le> a" "a \<le> INT_MAX" and "INT_MIN \<le> b" "b \<le> INT_MAX"
  shows "platform_pio_has_pin (word_of_int a) (word_of_int b)
    \<longleftrightarrow> 0 \<le> a \<and> a < 3 \<and> 0 \<le> b \<and> b < int (PIO_PIN_ARRAY ! nat a)"
proof -
  have p: "unat (word_of_int a :: u32) < 3 \<longleftrightarrow> 0 \<le> a \<and> a < 3"
    using has_port_int [OF assms(1,2)] by (simp add: platform_pio_has_port_def NUM_PIO_def)
  have "0 \<le> a \<Longrightarrow> unat (word_of_int a :: u32) = nat a" using unat_of_int [OF assms(1,2)] by simp
  moreover have "unat (word_of_int b :: u32) < n \<longleftrightarrow> 0 \<le> b \<and> b < int n" if "n \<le> 32" for n
    using unat_of_int [OF assms(3,4)] assms(3) that by (auto simp: layout_simps)
  ultimately show ?thesis
    using p pin_array [of "nat a"] by (auto simp: platform_pio_has_pin_def NUM_PIO_def)
qed

text \<open>The keys of the module are parsed exactly. The key \<open>P<a>_<b>\<close> with the decimal numbers of two
  32-bit integers is the code of pin \<open>b\<close> of port \<open>a\<close> when the board has it and no key otherwise, also for
  negative numbers; \<open>P<a>\<close> is the code of the whole port.\<close>

lemma pio_keys:
  assumes "INT_MIN \<le> a" "a \<le> INT_MAX" and "INT_MIN \<le> b" "b \<le> INT_MAX"
  shows "pio_mt_index low (0x50 # dec a @ 0x5F # dec b)
      = Some (if 0 \<le> a \<and> 0 \<le> b \<and> (nat a, nat b) \<in> set pio_pins
              then Some (word_of_int (pin_code (nat a, nat b))) else None)
    \<and> pio_mt_index low (0x50 # dec a)
      = Some (if 0 \<le> a \<and> a < 3 then Some (word_of_int (PLATFORM_IO_ENCODE a 0 True)) else None)"
proof -
  have ne: "dec a \<noteq> []" "\<And>xs. hd (dec a @ xs) = hd (dec a)" using dec_plain(3) [of a] by simp_all
  have "pio_mt_index low (0x50 # dec a @ 0x5F # dec b)
      = Some (if 0 \<le> a \<and> 0 \<le> b \<and> (nat a, nat b) \<in> set pio_pins
              then Some (word_of_int (pin_code (nat a, nat b))) else None)"
    using has_pin_int [OF assms] has_port_int [OF assms(1,2)] dec_plain(2) [of a] ne(1)
    by (auto simp: pio_mt_index_def scan_port_pin [OF assms] int_of_def sint_of_int assms set_pio_pins pin_code_def ne(2))
  moreover have "pio_mt_index low (0x50 # dec a)
      = Some (if 0 \<le> a \<and> a < 3 then Some (word_of_int (PLATFORM_IO_ENCODE a 0 True)) else None)"
    using has_port_int [OF assms(1,2)] dec_plain(1,2) [of a] ne(1)
    by (auto simp: pio_mt_index_def scan_port [OF assms(1,2)] int_of_def sint_of_int assms)
  ultimately show ?thesis ..
qed

lemma pio_keys_witness:
  "pio_mt_index True (0x50 # dec 2 @ 0x5F # dec 8) = Some (Some 72)
    \<and> pio_mt_index True (0x50 # dec (- 1)) = Some None"
  using pio_keys [of 2 8 True] pio_keys [of "- 1" 8 True]
  by (simp add: layout_simps set_pio_pins PIO_PIN_ARRAY_def pin_code_def PLATFORM_IO_ENCODE_def PLATFORM_IO_PINS_BITS_def)

section \<open>Operations on pins\<close>

text \<open>The calls of a list in order and the result of the last.\<close>

fun run_calls :: "gpio_kernel \<Rightarrow> gpio_call list \<Rightarrow> u32 \<Rightarrow> gpio_call list \<Rightarrow> u32 \<times> gpio_call list" where
  "run_calls k [] r log = (r, log)"
| "run_calls k (c # cs) r log = run_calls k cs (fst (k log c)) (log @ [c])"

lemma run_calls_log: "snd (run_calls k cs r log) = log @ cs"
  by (induction cs arbitrary: r log) simp_all

lemma run_calls_true: "(\<And>log c. fst (k log c) \<noteq> 0) \<Longrightarrow> r \<noteq> 0 \<Longrightarrow> fst (run_calls k cs r log) \<noteq> 0"
  by (induction cs arbitrary: r log) simp_all

definition op_call :: "nat \<Rightarrow> nat \<times> nat \<Rightarrow> gpio_call" where
  "op_call op p = the (pin_call op (the (get_real_gpio (fst p) (snd p))))"

definition usable :: "nat \<Rightarrow> nat \<times> nat \<Rightarrow> bool" where
  "usable op p \<longleftrightarrow> p \<in> set pio_pins \<and> get_real_gpio (fst p) (snd p) \<noteq> Some OPENAT_GPIO_UNKNOWN
     \<and> (op = PLATFORM_IO_PIN_DIR_INPUT \<longrightarrow> fst p \<noteq> 1)
     \<and> (op = PLATFORM_IO_PIN_DIR_INT \<longrightarrow> fst p \<noteq> 1 \<and> (fst p = 0 \<longrightarrow> snd p < 8))"

definition pin_op :: "nat \<Rightarrow> bool" where
  "pin_op op \<longleftrightarrow> op \<in> {PLATFORM_IO_PIN_SET, PLATFORM_IO_PIN_CLEAR, PLATFORM_IO_PIN_DIR_INPUT, PLATFORM_IO_PIN_DIR_OUTPUT,
     PLATFORM_IO_PIN_DIR_OUTPUT1, PLATFORM_IO_PIN_DIR_INT, PLATFORM_IO_PIN_CLOSE}"

lemma pin_op_call: "pin_op op \<Longrightarrow> \<exists>c. pin_call op g = Some c" "pin_op op \<Longrightarrow> op \<noteq> PLATFORM_IO_PIN_GET"
  by (auto simp: pin_op_def pin_call_def pio_ops)

lemma usable_gpio: "usable op (port, i) \<Longrightarrow> \<exists>g. get_real_gpio port i = Some g \<and> g \<noteq> OPENAT_GPIO_UNKNOWN"
  using pins_gpio by (auto simp: usable_def list_all_iff split: option.splits)

text \<open>The loop makes the calls of the pins in the mask; leaving it after the only pin changes nothing.\<close>

lemma single_bit:
  fixes m :: u32
  assumes "m AND NOT (push_bit i 1) = 0" and "bit m j"
  shows "j = i"
proof (rule ccontr)
  assume ne: "j \<noteq> i"
  have "j < 32" using assms(2) bit_imp_le_length by fastforce
  then have "bit (m AND NOT (push_bit i 1)) j" using assms(2) ne by (simp add: bit_simps)
  then show False using assms(1) by simp
qed

lemma pio_loop_calls:
  assumes "pin_op op" and "distinct is" and "\<forall>i\<in>set is. bit m i \<longrightarrow> usable op (port, i)"
  shows "pio_loop k port m op is r log
    = Some (run_calls k (map (\<lambda>i. op_call op (port, i)) (filter (bit m) is)) r log)"
  using assms(2,3)
proof (induction "is" arbitrary: r log)
  case (Cons i "is")
  show ?case
  proof (cases "bit m i")
    case True
    obtain g where g: "get_real_gpio port i = Some g" "g \<noteq> OPENAT_GPIO_UNKNOWN"
      using usable_gpio [of op port i] Cons.prems(2) True by auto
    obtain c where c: "pin_call op g = Some c" using pin_op_call(1) [OF assms(1)] by blast
    have call: "op_call op (port, i) = c" using g c by (simp add: op_call_def)
    have none: "filter (bit m) is = []" if "m AND NOT (push_bit i 1) = 0"
      using single_bit [OF that] Cons.prems(1) by (auto simp: filter_empty_conv)
    show ?thesis
      using True g c call none pin_op_call(2) [OF assms(1)] Cons by simp
  qed (use Cons in simp)
qed simp

lemma pio_op_calls:
  assumes "pin_op op" and "port < 3" and "\<forall>i. bit m i \<longrightarrow> usable op (port, i)" and "m \<noteq> 0"
  shows "platform_pio_op k port m op log
    = Some (run_calls k (map (\<lambda>i. op_call op (port, i)) (filter (bit m) [0..<PIO_PIN_ARRAY ! port])) 1 log)"
proof -
  obtain j where j: "bit m j" using assms(4) by (auto simp: bit_eq_iff)
  then have u: "usable op (port, j)" using assms(3) by blast
  have "m AND NOT 0xFF = 0" if "op = PLATFORM_IO_PIN_DIR_INT" "port = 0"
  proof (rule bit_word_eqI)
    fix n
    have "bit m n \<Longrightarrow> n < 8" using assms(3) that by (auto simp: usable_def)
    moreover have "bit (0xFF :: u32) n \<longleftrightarrow> n < 8"
      using bit_mask_iff [of 8 n, where 'a = "32 word"] by (auto simp: mask_eq_exp_minus_1)
    ultimately show "bit (m AND NOT 0xFF) n = bit 0 n" by (auto simp: bit_simps)
  qed
  then have "platform_pio_op k port m op log = pio_loop k port m op [0..<PIO_PIN_ARRAY ! port] 1 log"
    using u assms(1,2) pin_op_call(2) [OF assms(1)]
    by (auto simp: platform_pio_op_def usable_def PIO_PIN_ARRAY_def)
  then show ?thesis using pio_loop_calls [OF assms(1)] assms(3) by simp
qed

text \<open>The masks hold exactly the pins of the arguments.\<close>

lemma pin_valid_pins:
  assumes "pin_valid v"
  shows "pio_decode v \<in> set pio_pins"
proof -
  have "nat (x AND 15) \<le> nat 15" "nat (x AND 31) \<le> nat 31" for x :: int
    by (intro nat_mono AND_upper2; simp)+
  then have "PLATFORM_IO_GET_PORT v \<le> 15" "PLATFORM_IO_GET_PIN v \<le> 31"
    unfolding PLATFORM_IO_GET_PORT_def PLATFORM_IO_GET_PIN_def by fastforce+
  then have "PLATFORM_IO_GET_PORT v < 2 ^ 32" "PLATFORM_IO_GET_PIN v < 2 ^ 32" by simp_all
  then show ?thesis
    using assms by (simp add: pin_valid_def platform_pio_has_port_def platform_pio_has_pin_def pio_decode_def
        set_pio_pins NUM_PIO_def unsigned_of_nat take_bit_nat_eq_self)
qed

lemma collect_pins_masks:
  assumes "\<forall>v\<in>set args. pin_valid v" and "length ms = 16"
  shows "\<exists>ms'. collect_pins args ms = Some ms' \<and> length ms' = 16
    \<and> (\<forall>p i. p < 16 \<longrightarrow> bit (ms' ! p) i \<longleftrightarrow> bit (ms ! p) i \<or> (p, i) \<in> pio_decode ` set args)"
  using assms
proof (induction args arbitrary: ms)
  case (Cons v args)
  obtain port pin where v: "pio_decode v = (port, pin)" by (cases "pio_decode v")
  then have p: "PLATFORM_IO_GET_PORT v = port" "PLATFORM_IO_GET_PIN v = pin" by (simp_all add: pio_decode_def)
  have b: "port < 3" "pin < 32"
    using pin_valid_pins [of v] Cons.prems(1) pin_array [of port] v by (auto simp: set_pio_pins)
  let ?ms = "ms[port := ms ! port OR push_bit pin 1]"
  have set: "bit (?ms ! q) i \<longleftrightarrow> bit (ms ! q) i \<or> (q, i) = (port, pin)" if "q < 16" for q i
    using b that Cons.prems(2) by (auto simp: nth_list_update bit_simps)
  obtain ms' where ms': "collect_pins args ?ms = Some ms'" "length ms' = 16"
    "\<forall>q i. q < 16 \<longrightarrow> bit (ms' ! q) i \<longleftrightarrow> bit (?ms ! q) i \<or> (q, i) \<in> pio_decode ` set args"
    using Cons.IH [of ?ms] Cons.prems by auto
  then show ?case using Cons.prems(1) p set v by (auto simp: Let_def)
qed simp

definition pins_in :: "nat \<Rightarrow> u32 \<Rightarrow> (nat \<times> nat) list" where
  "pins_in port m = map (Pair port) (filter (bit m) [0..<PIO_PIN_ARRAY ! port])"

lemma run_ports_calls:
  assumes "pin_op op" and "\<And>log c. fst (k log c) \<noteq> 0"
    and "\<forall>(port, m)\<in>set ps. port < 3 \<and> m \<noteq> 0 \<and> (\<forall>i. bit m i \<longrightarrow> usable op (port, i))"
  shows "run_ports k ps op log
    = Some (LuaReturns [], log @ map (op_call op) (concat (map (\<lambda>(port, m). pins_in port m) ps)))"
  using assms(3)
proof (induction ps arbitrary: log)
  case (Cons pm ps)
  obtain port m where pm: "pm = (port, m)" by (cases pm)
  define r where "r = run_calls k (map (\<lambda>i. op_call op (port, i)) (filter (bit m) [0..<PIO_PIN_ARRAY ! port])) 1 log"
  have op: "platform_pio_op k port m op log = Some r"
    using pio_op_calls [OF assms(1)] Cons.prems pm unfolding r_def by simp
  have "fst r \<noteq> 0" unfolding r_def by (rule run_calls_true) (simp_all add: assms(2))
  moreover have "snd r = log @ map (op_call op) (pins_in port m)"
    by (simp add: r_def run_calls_log pins_in_def comp_def)
  ultimately show ?case using Cons op by (cases r) (simp add: pm)
qed simp

lemma concat_nonzero:
  "concat (map (\<lambda>(p, m). pins_in p m) (filter (\<lambda>(p, m). m \<noteq> 0) ps)) = concat (map (\<lambda>(p, m). pins_in p m) ps)"
  by (induction ps) (auto simp: pins_in_def)

lemma collect_pins_none: "\<exists>v\<in>set args. \<not> pin_valid v \<Longrightarrow> collect_pins args ms = None"
  by (induction args arbitrary: ms) (auto simp: Let_def)



text \<open>With several pins only the answer to the last call counts.\<close>

lemma set_pins_last_answer:
  "pioh_set_pins (\<lambda>log c. (if log = [] then 0 else 1, 0)) [0, 1] PLATFORM_IO_PIN_SET []
    = Some (LuaReturns [], [SetGpio 0 1, SetGpio 1 1])"
  by code_simp

text \<open>A pin of the extension port that does not exist reads as 0.\<close>

lemma getval_missing_pin: "pio_pin_getval k [64] [] log = Some (LuaReturns [0], log)"
  by code_simp

end
