(* ===== verification/Luadb.thy ===== *)
theory Luadb
  imports Prelude
begin

text \<open>
  The script package "luadb" of \<open>platform/src/preload.c\<close>: the tagged headers of the package and of its
  files, their check sums, the table of files that are used in place, and \<open>parse_luadb_data\<close>, which
  decodes a package and puts its files into the table or the file system. Configuration of the target:
  table access, PNG, AMR and MP3 files in the table. File system, decompressor and allocator are the
  parameter \<open>host\<close>; what they are asked to do is a log. The allocation of a file name is taken to succeed.
\<close>

section \<open>Errors and state\<close>

definition LUADB_ERR_NONE :: int where "LUADB_ERR_NONE = 0"
definition LUADB_ERR_TLV_LEN :: int where "LUADB_ERR_TLV_LEN = - 1"
definition LUADB_ERR_CHECK_FAIL :: int where "LUADB_ERR_CHECK_FAIL = - 2"
definition LUADB_ERR_FILE_COUNT :: int where "LUADB_ERR_FILE_COUNT = - 4"
definition LUADB_ERR_MAGIC :: int where "LUADB_ERR_MAGIC = - 5"
definition LUADB_ERR_OUT_OF_RANGE :: int where "LUADB_ERR_OUT_OF_RANGE = - 6"
definition LUADB_ERR_UNKNOWN_TYPE :: int where "LUADB_ERR_UNKNOWN_TYPE = - 7"
definition LUADB_ERR_UNZIP_FILE :: int where "LUADB_ERR_UNZIP_FILE = - 8"
definition LUADB_ERR_WRITE_FILE :: int where "LUADB_ERR_WRITE_FILE = - 9"
definition LUADB_ERR_ADD_TABLE_ITEM :: int where "LUADB_ERR_ADD_TABLE_ITEM = - 10"
definition LUADB_ERR_NOT_DBDATA :: int where "LUADB_ERR_NOT_DBDATA = - 100"

lemmas luadb_errs = LUADB_ERR_NONE_def LUADB_ERR_TLV_LEN_def LUADB_ERR_CHECK_FAIL_def LUADB_ERR_FILE_COUNT_def
  LUADB_ERR_MAGIC_def LUADB_ERR_OUT_OF_RANGE_def LUADB_ERR_UNKNOWN_TYPE_def LUADB_ERR_UNZIP_FILE_def
  LUADB_ERR_WRITE_FILE_def LUADB_ERR_ADD_TABLE_ITEM_def LUADB_ERR_NOT_DBDATA_def

datatype lua_section = UPDATE_SECTION | FLASH_SECTION | MAX_SECTION

record head_info =
  hi_verNum :: u16
  hi_filecount :: nat
  hi_length :: u32

text \<open>\<open>fi_name\<close> is the block of \<open>nameLen + 1\<close> bytes without its final NUL; \<open>df_data\<close> is the position of the
  contents in the package.\<close>

record file_item =
  df_name :: "byte list"
  df_length :: u32
  df_data :: nat
  df_offset :: u32

section \<open>Headers\<close>

fun rd16 :: "byte list \<Rightarrow> u16 option" where
  "rd16 (a # b # _) = Some (ucast a OR push_bit 8 (ucast b))"
| "rd16 _ = None"

fun rd32 :: "byte list \<Rightarrow> u32 option" where
  "rd32 (a # b # c # d # _) =
     Some ((ucast a OR push_bit 8 (ucast b)) OR push_bit 16 (ucast c OR push_bit 8 (ucast d)))"
| "rd32 _ = None"

definition calcCheckCode :: "byte list \<Rightarrow> u16" where
  "calcCheckCode bs = of_nat (sum_list (map unat bs))"

definition ASSERT_LEN :: "nat \<Rightarrow> nat \<Rightarrow> int" where
  "ASSERT_LEN len defLen = (if len = defLen then 0 else LUADB_ERR_TLV_LEN)"

definition MAGIC :: u32 where "MAGIC = 0xA55AA55A"

record tlv =
  tv_magic :: u32
  tv_check :: u16
  tv_end :: bool
  tv_pos :: nat

text \<open>One entry of a file header: type, length, the bytes behind them.\<close>

definition file_entry :: "nat \<Rightarrow> nat \<Rightarrow> byte list \<Rightarrow> tlv \<times> file_item \<Rightarrow> (int \<times> tlv \<times> file_item) option" where
  "file_entry type len v st =
     (case st of (t, fi) \<Rightarrow>
      if type = 0x00 \<or> type = 0xFF then Some (ASSERT_LEN len 0, t, fi)
      else if type = 1 then map_option (\<lambda>x. (ASSERT_LEN len 4, t\<lparr>tv_magic := x\<rparr>, fi)) (rd32 v)
      else if type = 2 then
        (if len \<le> length v then Some (0, t, fi\<lparr>df_name := take len v\<rparr>) else None)
      else if type = 3 then map_option (\<lambda>x. (ASSERT_LEN len 4, t, fi\<lparr>df_length := x\<rparr>)) (rd32 v)
      else if type = 0xFE then map_option (\<lambda>x. (ASSERT_LEN len 2, t\<lparr>tv_check := x, tv_end := True\<rparr>, fi)) (rd16 v)
      else Some (LUADB_ERR_UNKNOWN_TYPE, t, fi))"

definition head_entry :: "nat \<Rightarrow> nat \<Rightarrow> byte list \<Rightarrow> tlv \<times> head_info \<Rightarrow> (int \<times> tlv \<times> head_info) option" where
  "head_entry type len v st =
     (case st of (t, hi) \<Rightarrow>
      if type = 1 then map_option (\<lambda>x. (ASSERT_LEN len 4, t\<lparr>tv_magic := x\<rparr>, hi)) (rd32 v)
      else if type = 2 then map_option (\<lambda>x. (ASSERT_LEN len 2, t, hi\<lparr>hi_verNum := x\<rparr>)) (rd16 v)
      else if type = 3 then map_option (\<lambda>x. (ASSERT_LEN len 4, t, hi\<lparr>hi_length := x\<rparr>)) (rd32 v)
      else if type = 4 then
        (case v of [] \<Rightarrow> None | x # _ \<Rightarrow> Some (ASSERT_LEN len 1, t, hi\<lparr>hi_filecount := unat x\<rparr>))
      else if type = 0x00 \<or> type = 0xFF then Some (ASSERT_LEN len 0, t, hi)
      else if type = 0xFE then map_option (\<lambda>x. (ASSERT_LEN len 2, t\<lparr>tv_check := x, tv_end := True\<rparr>, hi)) (rd16 v)
      else Some (LUADB_ERR_UNKNOWN_TYPE, t, hi))"

text \<open>The loop over the entries, for either header: \<open>bs\<close> are the bytes from \<open>pos\<close> on.\<close>

function entries ::
  "(nat \<Rightarrow> nat \<Rightarrow> byte list \<Rightarrow> tlv \<times> 'a \<Rightarrow> (int \<times> tlv \<times> 'a) option) \<Rightarrow> byte list \<Rightarrow> tlv \<times> 'a \<Rightarrow> (int \<times> tlv \<times> 'a) option" where
  "entries f (ty # len # v) (t, x) =
     (case f (unat ty) (unat len) v (t, x) of None \<Rightarrow> None
      | Some (err, t', x') \<Rightarrow>
        let t'' = t'\<lparr>tv_pos := tv_pos t + 2 + unat len\<rparr> in
        if err \<noteq> 0 \<or> tv_end t' then Some (err, t'', x')
        else entries f (drop (unat len) v) (t'', x'))"
| "entries f [] (t, x) = None"
| "entries f [b] (t, x) = None"
  by pat_completeness auto
termination
  by (relation "measure (\<lambda>(_, bs, _). length bs)") auto

definition tlv_start :: tlv where
  "tlv_start = \<lparr>tv_magic = 0, tv_check = 0, tv_end = False, tv_pos = 0\<rparr>"

text \<open>The checks behind the loop, common to both headers.\<close>

definition check_head :: "byte list \<Rightarrow> int \<Rightarrow> tlv \<Rightarrow> int" where
  "check_head bs err t =
     (if err \<noteq> 0 then err
      else if tv_magic t \<noteq> MAGIC then LUADB_ERR_MAGIC
      else if calcCheckCode (take (tv_pos t - 2) bs) \<noteq> tv_check t then LUADB_ERR_CHECK_FAIL
      else 0)"

text \<open>The file header at \<open>offset\<close> of the package; the new offset is the 32-bit sum.\<close>

definition decodeFile :: "byte list \<Rightarrow> u32 \<Rightarrow> (int \<times> file_item \<times> u32) option" where
  "decodeFile pData offset =
     (let bs = drop (unat offset) pData in
      case entries file_entry bs (tlv_start, \<lparr>df_name = [], df_length = 0, df_data = 0, df_offset = 0\<rparr>) of
        None \<Rightarrow> None
      | Some (err, t, fi) \<Rightarrow>
        let e = check_head bs err t in
        if e \<noteq> 0 then Some (e, fi, offset)
        else Some (0, fi\<lparr>df_data := unat offset + tv_pos t, df_offset := offset + of_nat (tv_pos t)\<rparr>,
                   offset + (of_nat (tv_pos t) + df_length fi)))"

definition decodeHeadInfo :: "byte list \<Rightarrow> (int \<times> head_info) option" where
  "decodeHeadInfo pData =
     (case entries head_entry pData (tlv_start, \<lparr>hi_verNum = 0, hi_filecount = 0, hi_length = 0\<rparr>) of
        None \<Rightarrow> None
      | Some (err, t, hi) \<Rightarrow> Some (check_head pData err t, hi))"

fun decode_files :: "byte list \<Rightarrow> u32 \<Rightarrow> nat \<Rightarrow> u32 \<Rightarrow> file_item list \<Rightarrow> (int \<times> file_item list \<times> u32) option" where
  "decode_files pData len 0 offset fs = Some (0, fs, offset)"
| "decode_files pData len (Suc n) offset fs =
     (if \<not> offset < len then Some (0, fs, offset)
      else (case decodeFile pData offset of None \<Rightarrow> None
        | Some (err, fi, offset') \<Rightarrow>
          if err \<noteq> 0 then Some (err, fs @ [fi], offset') else decode_files pData len n offset' (fs @ [fi])))"

text \<open>The decoding half of \<open>parse_luadb_data\<close>: the files of the package, or an error.\<close>

definition decode_luadb :: "byte list \<Rightarrow> u32 \<Rightarrow> head_info \<Rightarrow> (int + file_item list) option" where
  "decode_luadb pData len hi =
     (case decode_files pData len (hi_filecount hi) (hi_length hi) [] of None \<Rightarrow> None
      | Some (err, fs, offset) \<Rightarrow>
        if err \<noteq> 0 then Some (Inl err)
        else if len < offset then Some (Inl LUADB_ERR_OUT_OF_RANGE)
        else if length fs \<noteq> hi_filecount hi then Some (Inl LUADB_ERR_FILE_COUNT)
        else Some (Inr fs))"

section \<open>The table of files used in place\<close>

record table_item =
  ti_file :: "byte list"
  ti_offset :: int
  ti_len :: int

datatype effect = Unzip "byte list" | WriteFile "byte list" "byte list" | RemoveFile "byte list"
  | UnzipFile "byte list" "byte list" | Restart

record luadb =
  pUpdateFileTable :: "table_item list"
  pFlashFileTable :: "table_item list"
  db_log :: "effect list"
  delupdpack :: bool
  wrFile :: bool

text \<open>\<open>mem\<close>: both allocations succeed.\<close>

definition AddUncompressFileItem :: "bool \<Rightarrow> lua_section \<Rightarrow> byte list \<Rightarrow> int \<Rightarrow> int \<Rightarrow> luadb \<Rightarrow> luadb \<times> bool" where
  "AddUncompressFileItem mem nSection pFile nOffset nLen s =
     (if nSection = MAX_SECTION \<or> pFile = [] \<or> nLen = 0 \<or> \<not> mem then (s, False)
      else
        let item = \<lparr>ti_file = pFile, ti_offset = nOffset, ti_len = nLen\<rparr> in
        (if nSection = UPDATE_SECTION then s\<lparr>pUpdateFileTable := item # pUpdateFileTable s\<rparr>
         else s\<lparr>pFlashFileTable := item # pFlashFileTable s\<rparr>, True))"

fun find_item :: "table_item list \<Rightarrow> byte list \<Rightarrow> table_item option" where
  "find_item [] pFile = None"
| "find_item (i # is) pFile = (if pFile = ti_file i then Some i else find_item is pFile)"

definition FindUncompressFileItem :: "byte list \<Rightarrow> luadb \<Rightarrow> (lua_section \<times> table_item) option" where
  "FindUncompressFileItem pFile s =
     (if pFile = [] then None
      else (case find_item (pUpdateFileTable s) pFile of
          Some i \<Rightarrow> Some (UPDATE_SECTION, i)
        | None \<Rightarrow> map_option (Pair FLASH_SECTION) (find_item (pFlashFileTable s) pFile)))"

section \<open>Placing the files\<close>

text \<open>The environment: the contents of a file, if the file system has it; the results of the decompressor; can a file
  be opened for writing; how many bytes does a write take; do the allocations for file \<open>n\<close> succeed.\<close>

record host =
  h_unzip :: "effect list \<Rightarrow> byte list \<Rightarrow> byte list \<Rightarrow> int"
  h_open :: "effect list \<Rightarrow> byte list \<Rightarrow> bool"
  h_write :: "effect list \<Rightarrow> byte list \<Rightarrow> byte list \<Rightarrow> nat"
  h_file :: "effect list \<Rightarrow> byte list \<Rightarrow> byte list option"
  h_unzip_file :: "effect list \<Rightarrow> byte list \<Rightarrow> byte list \<Rightarrow> int"
  h_mem :: "nat \<Rightarrow> bool"
  h_files_mem :: bool
  lua_dir :: "byte list"
  lua_data_dir :: "byte list"

text \<open>\<open>file_exist\<close> (\<open>shell.c\<close>) opens the file, and \<open>fopen\<close> finds the table first and last.\<close>

definition file_exist :: "host \<Rightarrow> byte list \<Rightarrow> luadb \<Rightarrow> bool" where
  "file_exist h path s \<longleftrightarrow> h_file h (db_log s) path \<noteq> None \<or> FindUncompressFileItem path s \<noteq> None"

definition ext_zip :: "byte list" where "ext_zip = [0x2E, 0x7A, 0x69, 0x70]"
definition ext_lua :: "byte list" where "ext_lua = [0x2E, 0x6C, 0x75, 0x61]"

text \<open>\<open>.lua\<close>, \<open>.bmp\<close>, \<open>.BMP\<close>, \<open>.png\<close>, \<open>.PNG\<close>, \<open>.amr\<close>, \<open>.AMR\<close>, \<open>.MP3\<close>, \<open>.mp3\<close>.\<close>

definition table_exts :: "byte list list" where
  "table_exts = [ext_lua, [0x2E, 0x62, 0x6D, 0x70], [0x2E, 0x42, 0x4D, 0x50], [0x2E, 0x70, 0x6E, 0x67],
     [0x2E, 0x50, 0x4E, 0x47], [0x2E, 0x61, 0x6D, 0x72], [0x2E, 0x41, 0x4D, 0x52], [0x2E, 0x4D, 0x50, 0x33],
     [0x2E, 0x6D, 0x70, 0x33]]"

text \<open>\<open>strcpy\<close>, \<open>strcat\<close> and \<open>strncat\<close> into \<open>filename[256]\<close>.\<close>

definition make_path :: "byte list \<Rightarrow> byte list \<Rightarrow> nat \<Rightarrow> byte list option" where
  "make_path dir name n =
     (let path = dir @ [0x2F] @ takeWhile (\<lambda>b. b \<noteq> 0) (take n name)
      in if length path < 256 then Some path else None)"

definition slice :: "byte list \<Rightarrow> file_item \<Rightarrow> byte list option" where
  "slice pData fi =
     (if df_data fi + unat (df_length fi) \<le> length pData
      then Some (take (unat (df_length fi)) (drop (df_data fi) pData)) else None)"

text \<open>\<open>((FALSE == file_exist(filename)) && !(exist && nSection == UPDATE)) || override\<close>\<close>

definition must_write :: "host \<Rightarrow> bool \<Rightarrow> byte list \<Rightarrow> luadb \<Rightarrow> bool" where
  "must_write h override path s \<longleftrightarrow>
     (\<not> file_exist h path s
      \<and> \<not> (case FindUncompressFileItem path s of None \<Rightarrow> False | Some (sec, _) \<Rightarrow> sec = UPDATE_SECTION)) \<or> override"

definition put_zip :: "host \<Rightarrow> byte list \<Rightarrow> bool \<Rightarrow> file_item \<Rightarrow> luadb \<Rightarrow> (int \<times> luadb) option" where
  "put_zip h pData override fi s =
     (let name = df_name fi; withoutZipLen = length name - 4; withoutLuaLen = (withoutZipLen + 256 - 4) mod 256 in
      if length name < withoutLuaLen then None
      else
        (case make_path (if take 4 (drop withoutLuaLen name) = ext_lua then lua_dir h else lua_data_dir h) name withoutZipLen of
           None \<Rightarrow> None
         | Some path \<Rightarrow>
           if \<not> must_write h override path s then Some (0, s)
           else (case slice pData fi of None \<Rightarrow> None
             | Some d \<Rightarrow>
               let s' = s\<lparr>db_log := db_log s @ [Unzip path]\<rparr> in
               if h_unzip h (db_log s) d path \<noteq> 0 then Some (LUADB_ERR_UNZIP_FILE, s')
               else Some (0, s'\<lparr>wrFile := True\<rparr>))))"

text \<open>\<open>fopen\<close> and \<open>fwrite\<close>: the handle of a table item (\<open>nSection\<close>) cannot be written to, and a write of
  no byte is reported as \<open>EOF\<close>.\<close>

definition written :: "nat \<Rightarrow> u32" where
  "written w = (if w = 0 then - 1 else of_nat w)"

definition write_file :: "host \<Rightarrow> byte list \<Rightarrow> file_item \<Rightarrow> byte list \<Rightarrow> luadb \<Rightarrow> (int \<times> luadb) option" where
  "write_file h pData fi path s =
     (let found = FindUncompressFileItem path s;
          update = (case found of Some (UPDATE_SECTION, _) \<Rightarrow> True | _ \<Rightarrow> False);
          close = (\<lambda>w s. if w \<noteq> df_length fi then (LUADB_ERR_WRITE_FILE, s\<lparr>db_log := db_log s @ [RemoveFile path]\<rparr>)
                          else (0, s\<lparr>wrFile := True\<rparr>)) in
      if \<not> update \<and> h_open h (db_log s) path then
        (case slice pData fi of None \<Rightarrow> None
         | Some d \<Rightarrow> Some (close (written (h_write h (db_log s) path d))
                                (s\<lparr>db_log := db_log s @ [WriteFile path (take (h_write h (db_log s) path d) d)]\<rparr>)))
      else if found \<noteq> None then Some (close (- 1) s)
      else Some (LUADB_ERR_WRITE_FILE, s))"

definition put_plain :: "host \<Rightarrow> byte list \<Rightarrow> bool \<Rightarrow> lua_section \<Rightarrow> nat \<Rightarrow> file_item \<Rightarrow> luadb \<Rightarrow> (int \<times> luadb) option" where
  "put_plain h pData override section n fi s =
     (let name = df_name fi; ext = drop (length name - 4) name; s = s\<lparr>delupdpack := False\<rparr> in
      case make_path (if ext = ext_lua then lua_dir h else lua_data_dir h) name (length name) of
        None \<Rightarrow> None
      | Some path \<Rightarrow>
        if ext \<in> set table_exts then
          (case AddUncompressFileItem (h_mem h n) section path (sint (df_offset fi)) (sint (df_length fi)) s of
             (s', added) \<Rightarrow> Some (if added then 0 else LUADB_ERR_ADD_TABLE_ITEM, s'))
        else if must_write h override path s then write_file h pData fi path s
        else Some (0, s))"

definition put_file :: "host \<Rightarrow> byte list \<Rightarrow> bool \<Rightarrow> lua_section \<Rightarrow> nat \<Rightarrow> file_item \<Rightarrow> luadb \<Rightarrow> (int \<times> luadb) option" where
  "put_file h pData override section n fi s =
     (if length (df_name fi) \<le> 4 then Some (0, s)
      else if drop (length (df_name fi) - 4) (df_name fi) = ext_zip then put_zip h pData override fi s
      else put_plain h pData override section n fi s)"

fun put_files :: "host \<Rightarrow> byte list \<Rightarrow> bool \<Rightarrow> lua_section \<Rightarrow> nat \<Rightarrow> file_item list \<Rightarrow> luadb \<Rightarrow> (int \<times> luadb) option" where
  "put_files h pData override section n [] s = Some (0, s)"
| "put_files h pData override section n (fi # fs) s =
     (case put_file h pData override section n fi s of None \<Rightarrow> None
      | Some (err, s') \<Rightarrow> if err \<noteq> 0 then Some (err, s') else put_files h pData override section (Suc n) fs s')"

section \<open>The package\<close>

definition LUA_UPDATE_FILE :: "byte list" where
  "LUA_UPDATE_FILE = map (of_nat \<circ> of_char) ''/luazip/update.bin''"

text \<open>The end of \<open>parse_luadb_data\<close>: result, state and the new value of \<open>*pRestart\<close>.\<close>

definition finish :: "lua_section \<Rightarrow> bool \<Rightarrow> int \<times> luadb \<Rightarrow> int \<times> luadb \<times> bool" where
  "finish section restart r =
     (case r of (err, s) \<Rightarrow>
      let del = delupdpack s \<and> err = LUADB_ERR_NONE \<and> section = UPDATE_SECTION
      in (err, if del then s\<lparr>db_log := db_log s @ [RemoveFile LUA_UPDATE_FILE]\<rparr> else s,
          restart \<or> del \<or> err = LUADB_ERR_NONE \<and> wrFile s \<and> section = UPDATE_SECTION))"

definition parse_luadb_data ::
  "host \<Rightarrow> byte list \<Rightarrow> u32 \<Rightarrow> bool \<Rightarrow> lua_section \<Rightarrow> bool \<Rightarrow> luadb \<Rightarrow> (int \<times> luadb \<times> bool) option" where
  "parse_luadb_data h pData len override section restart s0 =
     (let s = s0\<lparr>delupdpack := True, wrFile := False\<rparr> in
      case pData of [] \<Rightarrow> None
      | b # bs \<Rightarrow>
        if b \<noteq> 0x01 \<and> bs = [] then None
        else if \<not> (b = 0x01 \<or> hd bs = 0x04) then Some (LUADB_ERR_NOT_DBDATA, s0, restart)
        else
          (case decodeHeadInfo pData of None \<Rightarrow> None
           | Some (err, hi) \<Rightarrow>
             if err \<noteq> 0 then Some (finish section restart (err, s))
             else if \<not> h_files_mem h then Some (finish section restart (0, s))
             else (case decode_luadb pData len hi of None \<Rightarrow> None
               | Some (Inl e) \<Rightarrow> Some (finish section restart (e, s))
               | Some (Inr fs) \<Rightarrow> map_option (finish section restart) (put_files h pData override section 0 fs s))))"

end
