(* ===== verification/LuaFile.thy ===== *)
theory LuaFile
  imports Luadb
begin

text \<open>
  Files used in place (\<open>platform/src/preload.c\<close>): a handle is a table item with a position, read from
  the script section in flash or, through the file system, from the update package. The package is a
  parameter: opening it, seeking to a position and reading a number of bytes.
\<close>

section \<open>Handles\<close>

record lfile =
  lf_section :: lua_section
  lf_item :: table_item
  lf_offset :: int

record storage =
  st_flash :: "byte list"
  st_update :: "int \<Rightarrow> nat \<Rightarrow> byte list option"

definition EOF_EXT :: int where "EOF_EXT = - 1"
definition SEEK_SET :: int where "SEEK_SET = 0"
definition SEEK_CUR :: int where "SEEK_CUR = 1"
definition SEEK_END :: int where "SEEK_END = 2"

lemmas seek_defs = SEEK_SET_def SEEK_CUR_def SEEK_END_def

text \<open>\<open>fopen_ext\<close>: \<open>None\<close> when the allocation of the handle fails, which the code does not survive.\<close>

definition fopen_ext :: "bool \<Rightarrow> byte list \<Rightarrow> luadb \<Rightarrow> lfile option option" where
  "fopen_ext mem file s =
     (case FindUncompressFileItem file s of None \<Rightarrow> Some None
      | Some (section, item) \<Rightarrow>
        if mem then Some (Some \<lparr>lf_section = section, lf_item = item, lf_offset = 0\<rparr>) else None)"

text \<open>The comparison of \<open>fread_ext\<close> is unsigned.\<close>

definition fread_len :: "lfile \<Rightarrow> nat \<Rightarrow> int" where
  "fread_len f resid =
     (let avail = wrap32 (ti_len (lf_item f) - lf_offset f)
      in if int resid \<le> avail mod 2 ^ 32 then wrap32 (int resid) else avail)"

definition fetch :: "storage \<Rightarrow> lfile \<Rightarrow> nat \<Rightarrow> byte list option option" where
  "fetch st f len =
     (let pos = wrap32 (ti_offset (lf_item f) + lf_offset f) in
      case lf_section f of
        UPDATE_SECTION \<Rightarrow> Some (st_update st pos len)
      | FLASH_SECTION \<Rightarrow>
          if 0 \<le> pos \<and> nat pos + len \<le> length (st_flash st)
          then Some (Some (take len (drop (nat pos) (st_flash st)))) else None
      | MAX_SECTION \<Rightarrow> Some None)"

text \<open>The returned count, the bytes stored and the handle.\<close>

definition fread_ext :: "storage \<Rightarrow> u32 \<Rightarrow> u32 \<Rightarrow> lfile \<Rightarrow> (nat \<times> byte list \<times> lfile) option" where
  "fread_ext st sz cnt f =
     (let resid = unat (cnt * sz) in
      if resid = 0 then Some (0, [], f)
      else let len = fread_len f resid in
        if len \<le> 0 then Some (0, [], f)
        else (case fetch st f (nat len) of
            None \<Rightarrow> None
          | Some None \<Rightarrow> Some (0, [], f)
          | Some (Some bs) \<Rightarrow> Some (nat len div unat sz, bs, f\<lparr>lf_offset := wrap32 (lf_offset f + len)\<rparr>)))"

text \<open>\<open>c\<close> is a signed \<open>char\<close>; it stays unset when the package is shorter than the table says.\<close>

definition getc_ext :: "storage \<Rightarrow> lfile \<Rightarrow> (int \<times> lfile) option" where
  "getc_ext st f =
     (case fread_ext st 1 1 f of None \<Rightarrow> None
      | Some (n, bs, f') \<Rightarrow>
        if n \<noteq> 1 then Some (EOF_EXT, f') else (case bs of [] \<Rightarrow> None | b # _ \<Rightarrow> Some (sint b, f')))"

definition fseek_ext :: "lfile \<Rightarrow> int \<Rightarrow> int \<Rightarrow> int \<times> lfile" where
  "fseek_ext f offset whence =
     (let nLen = ti_len (lf_item f); cur = wrap32 (lf_offset f + offset) in
      if whence = SEEK_SET then
        (if nLen < offset \<or> offset < 0 then (- 1, f) else (0, f\<lparr>lf_offset := offset\<rparr>))
      else if whence = SEEK_CUR then
        (if nLen < cur \<or> cur < 0 then (- 1, f) else (0, f\<lparr>lf_offset := cur\<rparr>))
      else if whence = SEEK_END then
        (if offset < wrap32 (- nLen) \<or> 0 < offset then (- 1, f) else (0, f\<lparr>lf_offset := wrap32 (nLen - offset)\<rparr>))
      else (- 1, f))"

definition ungetc_ext :: "int \<Rightarrow> lfile \<Rightarrow> int \<times> lfile" where
  "ungetc_ext c f = (0, snd (fseek_ext f (- 1) SEEK_CUR))"

definition ftell_ext :: "lfile \<Rightarrow> int" where
  "ftell_ext f = lf_offset f"

definition feof_ext :: "lfile \<Rightarrow> bool" where
  "feof_ext f \<longleftrightarrow> ti_len (lf_item f) \<le> lf_offset f"

section \<open>Lines\<close>

definition store_at :: "byte list \<Rightarrow> nat \<Rightarrow> byte \<Rightarrow> byte list option" where
  "store_at buf i b = (if i < length buf then Some (buf[i := b]) else None)"

text \<open>The loop of \<open>fgets_ext\<close> and of \<open>lualibc_fgets\<close>, over any \<open>getc\<close>: the last character read, the
  index, the buffer and the handle.\<close>

function fgets_loop :: "('f \<Rightarrow> (int \<times> 'f) option) \<Rightarrow> nat \<Rightarrow> int \<Rightarrow> nat \<Rightarrow> byte list \<Rightarrow> 'f \<Rightarrow> (int \<times> nat \<times> byte list \<times> 'f) option" where
  "fgets_loop gc n c idx buf f =
     (if c = EOF_EXT \<or> n - 1 \<le> idx then Some (c, idx, buf, f)
      else (case store_at buf idx (of_int c) of None \<Rightarrow> None
        | Some buf \<Rightarrow>
          if c = 0x0A then map_option (\<lambda>buf. (c, idx, buf, f)) (store_at buf (idx + 1) 0)
          else (case gc f of None \<Rightarrow> None | Some (c', f') \<Rightarrow> fgets_loop gc n c' (idx + 1) buf f')))"
  by pat_completeness auto
termination
  by (relation "measure (\<lambda>(gc, n, c, idx, buf, f). n - 1 - idx)") auto

declare fgets_loop.simps [simp del]

text \<open>\<open>fst\<close> of the result: a line was read (the buffer is returned, not \<open>NULL\<close>).\<close>

definition fgets_gen :: "('f \<Rightarrow> (int \<times> 'f) option) \<Rightarrow> byte list \<Rightarrow> int \<Rightarrow> 'f \<Rightarrow> (bool \<times> byte list \<times> 'f) option" where
  "fgets_gen gc buf n f =
     (if n \<le> 1 then Some (False, buf, f)
      else (case gc f of None \<Rightarrow> None
        | Some (c, f) \<Rightarrow>
          if c = EOF_EXT then Some (False, buf, f)
          else (case fgets_loop gc (nat n) c 0 buf f of None \<Rightarrow> None
            | Some (c, idx, buf, f) \<Rightarrow>
              (case (if c = EOF_EXT then store_at buf idx 0 else Some buf) of None \<Rightarrow> None
               | Some buf \<Rightarrow> map_option (\<lambda>buf. (True, buf, f)) (store_at buf (nat n - 1) 0)))))"

definition fgets_ext :: "storage \<Rightarrow> byte list \<Rightarrow> int \<Rightarrow> lfile \<Rightarrow> (bool \<times> byte list \<times> lfile) option" where
  "fgets_ext st buf n f = fgets_gen (getc_ext st) buf n f"

end
