(* ===== verification/LuadbProps.thy ===== *)
theory LuadbProps
  imports Luadb
begin

text \<open>
  Correctness of the script package: an encoder for packages and the theorem that the loader decodes
  what was encoded; the files of an accepted package lie inside it unless a 32-bit sum wrapped; the
  table of files is a map in which the update section shadows the flash section.
\<close>

section \<open>The encoder\<close>

definition le16 :: "u16 \<Rightarrow> byte list" where
  "le16 x = [ucast x, ucast (drop_bit 8 x)]"

definition le32 :: "u32 \<Rightarrow> byte list" where
  "le32 x = [ucast x, ucast (drop_bit 8 x), ucast (drop_bit 16 x), ucast (drop_bit 24 x)]"

definition tlv_bytes :: "byte \<Rightarrow> byte list \<Rightarrow> byte list" where
  "tlv_bytes ty v = ty # of_nat (length v) # v"

text \<open>A header is sealed by the sum of its bytes, type and length of the check sum included.\<close>

definition seal :: "byte list \<Rightarrow> byte list" where
  "seal body = body @ [0xFE, 2] @ le16 (calcCheckCode (body @ [0xFE, 2]))"

definition file_head :: "byte list \<Rightarrow> u32 \<Rightarrow> byte list" where
  "file_head name l = seal (tlv_bytes 1 (le32 MAGIC) @ tlv_bytes 2 name @ tlv_bytes 3 (le32 l))"

definition enc_file :: "byte list \<times> byte list \<Rightarrow> byte list" where
  "enc_file f = file_head (fst f) (of_nat (length (snd f))) @ snd f"

definition enc_head :: "u16 \<Rightarrow> nat \<Rightarrow> byte list" where
  "enc_head ver n = seal (tlv_bytes 1 (le32 MAGIC) @ tlv_bytes 2 (le16 ver) @ tlv_bytes 3 (le32 23) @ tlv_bytes 4 [of_nat n])"

definition package :: "u16 \<Rightarrow> (byte list \<times> byte list) list \<Rightarrow> byte list" where
  "package ver fs = enc_head ver (length fs) @ concat (map enc_file fs)"

text \<open>The items the loader has to find: name, length and position of the contents.\<close>

fun items_at :: "nat \<Rightarrow> (byte list \<times> byte list) list \<Rightarrow> file_item list" where
  "items_at pos [] = []"
| "items_at pos ((name, d) # fs) =
     (let p = pos + 18 + length name in
      \<lparr>df_name = name, df_length = of_nat (length d), df_data = p, df_offset = of_nat p\<rparr> # items_at (p + length d) fs)"

section \<open>Bytes\<close>

lemma rd16_le16 [simp]: "rd16 (le16 x @ r) = Some x"
proof -
  have "(ucast (ucast x :: byte) :: u16) OR push_bit 8 (ucast (ucast (drop_bit 8 x) :: byte)) = x"
    by (rule bit_word_eqI) (auto simp: bit_simps)
  then show ?thesis by (simp add: le16_def)
qed

lemma rd32_le32 [simp]: "rd32 (le32 x @ r) = Some x"
proof -
  have "(ucast (ucast x :: byte) :: u32) OR push_bit 8 (ucast (ucast (drop_bit 8 x) :: byte))
      OR push_bit 16 (ucast (ucast (drop_bit 16 x) :: byte) OR push_bit 8 (ucast (ucast (drop_bit 24 x) :: byte))) = x" (is "?y = x")
  proof (rule bit_word_eqI)
    fix n :: nat assume "n < LENGTH(32)"
    then show "bit ?y n = bit x n"
      by (cases "24 \<le> n"; cases "16 \<le> n") (auto simp: bit_simps)
  qed
  then show ?thesis by (simp add: le32_def or.assoc)
qed

lemma rd_exact [simp]: "rd16 (le16 x) = Some x" "rd32 (le32 y) = Some y"
  using rd16_le16 [of x "[]"] rd32_le32 [of y "[]"] by simp_all

lemma length_le [simp]: "length (le16 x) = 2" "length (le32 y) = 4"
  by (simp_all add: le16_def le32_def)

lemma length_seal [simp]: "length (seal b) = length b + 4"
  by (simp add: seal_def)

lemma length_tlv [simp]: "length (tlv_bytes ty v) = 2 + length v"
  by (simp add: tlv_bytes_def)

lemma length_file_head [simp]: "length (file_head name l) = 18 + length name"
  by (simp add: file_head_def)

lemma length_enc_file [simp]: "length (enc_file f) = 18 + length (fst f) + length (snd f)"
  by (simp add: enc_file_def)

lemma length_enc_head [simp]: "length (enc_head ver n) = 23"
  by (simp add: enc_head_def)

text \<open>One step of the header loop on an encoded entry.\<close>

lemma entries_tlv:
  assumes "length v < 256"
  shows "entries f (tlv_bytes ty v @ r) (t, x) =
     (case f (unat ty) (length v) (v @ r) (t, x) of None \<Rightarrow> None
      | Some (err, t', x') \<Rightarrow>
        let t'' = t'\<lparr>tv_pos := tv_pos t + 2 + length v\<rparr> in
        if err \<noteq> 0 \<or> tv_end t' then Some (err, t'', x') else entries f r (t'', x'))"
proof -
  have "unat (of_nat (length v) :: byte) = length v"
    using assms by (simp add: unsigned_of_nat take_bit_nat_eq_self)
  then show ?thesis
    by (cases "f (unat ty) (length v) (v @ r) (t, x)") (auto simp: tlv_bytes_def Let_def)
qed

lemma seal_tlv: "seal body @ r = body @ tlv_bytes 0xFE (le16 (calcCheckCode (body @ [0xFE, 2]))) @ r"
  by (simp add: seal_def tlv_bytes_def)

lemma check_head_seal: "tv_magic t = MAGIC \<Longrightarrow> tv_pos t = length body + 4 \<Longrightarrow>
    tv_check t = calcCheckCode (body @ [0xFE, 2]) \<Longrightarrow> check_head (seal body @ r) 0 t = 0"
  by (simp add: check_head_def seal_def)

section \<open>Decoding\<close>

lemma file_entries:
  assumes "length name < 256"
  shows "\<exists>t. entries file_entry (file_head name l @ r) (tlv_start, fi) = Some (0, t, fi\<lparr>df_name := name, df_length := l\<rparr>) \<and>
     tv_pos t = 18 + length name \<and> check_head (file_head name l @ r) 0 t = 0"
proof -
  define body where "body = tlv_bytes 1 (le32 MAGIC) @ tlv_bytes 2 name @ tlv_bytes 3 (le32 l)"
  define t where "t = \<lparr>tv_magic = MAGIC, tv_check = calcCheckCode (body @ [0xFE, 2]), tv_end = True, tv_pos = 18 + length name\<rparr>"
  have enc: "file_head name l @ r = seal body @ r"
    by (simp add: file_head_def body_def)
  have e: "entries file_entry (seal body @ r) (tlv_start, fi) = Some (0, t, fi\<lparr>df_name := name, df_length := l\<rparr>)"
    using assms unfolding seal_tlv
    by (simp add: t_def entries_tlv file_entry_def ASSERT_LEN_def tlv_start_def Let_def)
       (simp add: body_def entries_tlv file_entry_def ASSERT_LEN_def tlv_start_def Let_def)
  have c: "check_head (seal body @ r) 0 t = 0"
    by (rule check_head_seal) (simp_all add: t_def body_def)
  show ?thesis unfolding enc using e c
    by (intro exI [of _ t]) (simp add: t_def)
qed

lemma head_entries:
  assumes "n < 256"
  shows "decodeHeadInfo (enc_head ver n @ r) = Some (0, \<lparr>hi_verNum = ver, hi_filecount = n, hi_length = 23\<rparr>)"
proof -
  define body where "body = tlv_bytes 1 (le32 MAGIC) @ tlv_bytes 2 (le16 ver) @ tlv_bytes 3 (le32 23) @ tlv_bytes 4 [of_nat n]"
  define t where "t = \<lparr>tv_magic = MAGIC, tv_check = calcCheckCode (body @ [0xFE, 2]), tv_end = True, tv_pos = 23\<rparr>"
  have enc: "enc_head ver n @ r = seal body @ r"
    by (simp add: enc_head_def body_def)
  have n: "unat (of_nat n :: byte) = n"
    using assms by (simp add: unsigned_of_nat take_bit_nat_eq_self)
  have e: "entries head_entry (seal body @ r) (tlv_start, \<lparr>hi_verNum = 0, hi_filecount = 0, hi_length = 0\<rparr>)
      = Some (0, t, \<lparr>hi_verNum = ver, hi_filecount = n, hi_length = 23\<rparr>)"
    unfolding seal_tlv
    by (simp add: t_def entries_tlv head_entry_def ASSERT_LEN_def tlv_start_def Let_def)
       (simp add: body_def entries_tlv head_entry_def ASSERT_LEN_def tlv_start_def Let_def n)
  have c: "check_head (seal body @ r) 0 t = 0"
    by (rule check_head_seal) (simp_all add: t_def body_def)
  show ?thesis unfolding enc decodeHeadInfo_def using e c by simp
qed

lemma unat_of_nat_u32: "n < 2 ^ 32 \<Longrightarrow> unat (of_nat n :: u32) = n"
  by (simp add: unsigned_of_nat take_bit_nat_eq_self)

lemma decodeFile_head:
  assumes "length name < 256" and "length pre < 2 ^ 32"
  shows "decodeFile (pre @ file_head name l @ r) (of_nat (length pre)) =
     (let p = length pre + 18 + length name
      in Some (0, \<lparr>df_name = name, df_length = l, df_data = p, df_offset = of_nat p\<rparr>, of_nat p + l))"
proof -
  define fi :: file_item where "fi = \<lparr>df_name = [], df_length = 0, df_data = 0, df_offset = 0\<rparr>"
  obtain t where t: "entries file_entry (file_head name l @ r) (tlv_start, fi) =
      Some (0, t, fi\<lparr>df_name := name, df_length := l\<rparr>)"
     "tv_pos t = 18 + length name" "check_head (file_head name l @ r) 0 t = 0"
    using file_entries [OF assms(1)] by blast
  have "drop (unat (of_nat (length pre) :: u32)) (pre @ file_head name l @ r) = file_head name l @ r"
    using unat_of_nat_u32 [OF assms(2)] by simp
  then show ?thesis
    using t unat_of_nat_u32 [OF assms(2)] unfolding decodeFile_def fi_def Let_def
    by (simp add: ac_simps)
qed

lemma decodeFile_enc:
  assumes "length name < 256" and "length pre < 2 ^ 32"
  shows "decodeFile (pre @ enc_file (name, d) @ r) (of_nat (length pre)) =
     Some (0, hd (items_at (length pre) [(name, d)]), of_nat (length pre + length (enc_file (name, d))))"
  using decodeFile_head [OF assms, of "of_nat (length d)" "d @ r"]
  by (simp add: enc_file_def Let_def ac_simps)

lemma decode_files_enc:
  assumes "length (pre @ concat (map enc_file fs)) \<le> unat len" and "\<forall>f \<in> set fs. length (fst f) < 256"
  shows "decode_files (pre @ concat (map enc_file fs) @ r) len (length fs) (of_nat (length pre)) acc =
     Some (0, acc @ items_at (length pre) fs, of_nat (length (pre @ concat (map enc_file fs))))"
  using assms
proof (induction fs arbitrary: pre acc)
  case Nil
  then show ?case by simp
next
  case (Cons f fs)
  obtain name d where f: "f = (name, d)" by (cases f)
  have len: "unat len < 2 ^ 32" using unsigned_less [of len] by simp
  have p: "length pre < unat len" using Cons.prems(1) f by simp
  then have p32: "length pre < 2 ^ 32" using len by simp
  have less: "of_nat (length pre) < len"
    using p by (simp only: word_less_nat_alt unat_of_nat_u32 [OF p32])
  have nm: "length name < 256" using Cons.prems(2) f by simp
  have dec: "decodeFile (pre @ enc_file f @ concat (map enc_file fs) @ r) (of_nat (length pre)) =
     Some (0, hd (items_at (length pre) [f]), of_nat (length (pre @ enc_file f)))"
    using decodeFile_enc [OF nm p32, of d "concat (map enc_file fs) @ r"] f by simp
  have "length ((pre @ enc_file f) @ concat (map enc_file fs)) \<le> unat len"
    using Cons.prems(1) by simp
  then have IH: "decode_files ((pre @ enc_file f) @ concat (map enc_file fs) @ r) len (length fs)
      (of_nat (length (pre @ enc_file f))) (acc @ [hd (items_at (length pre) [f])]) =
     Some (0, (acc @ [hd (items_at (length pre) [f])]) @ items_at (length (pre @ enc_file f)) fs,
       of_nat (length ((pre @ enc_file f) @ concat (map enc_file fs))))"
    using Cons.prems(2) by (intro Cons.IH) simp_all
  have "hd (items_at (length pre) [f]) # items_at (length (pre @ enc_file f)) fs = items_at (length pre) (f # fs)"
    by (simp add: f Let_def ac_simps)
  then show ?case
    using dec IH less by simp
qed

lemma slice_item:
  assumes "length d < 2 ^ 32"
  shows "slice (pre @ enc_file (name, d) @ r) (hd (items_at (length pre) [(name, d)])) = Some d"
proof -
  have "drop (length pre + 18 + length name) (pre @ enc_file (name, d) @ r) = d @ r"
    by (simp add: enc_file_def)
  then show ?thesis
    using unat_of_nat_u32 [OF assms] by (simp add: slice_def Let_def del: append_assoc)
qed

lemma items_at_correct:
  assumes "length (pre @ concat (map enc_file fs)) < 2 ^ 32"
  shows "map df_name (items_at (length pre) fs) = map fst fs \<and>
    map (slice (pre @ concat (map enc_file fs) @ r)) (items_at (length pre) fs) = map (Some \<circ> snd) fs"
  using assms
proof (induction fs arbitrary: pre)
  case (Cons f fs)
  obtain name d where f: "f = (name, d)" by (cases f)
  have items: "items_at (length pre) (f # fs) = hd (items_at (length pre) [f]) # items_at (length (pre @ enc_file f)) fs"
    by (simp add: f Let_def ac_simps)
  have IH: "map df_name (items_at (length (pre @ enc_file f)) fs) = map fst fs"
    "map (slice ((pre @ enc_file f) @ concat (map enc_file fs) @ r)) (items_at (length (pre @ enc_file f)) fs) = map (Some \<circ> snd) fs"
    using Cons.IH [of "pre @ enc_file f"] Cons.prems by simp_all
  have "df_name (hd (items_at (length pre) [f])) = name"
    by (simp add: f Let_def)
  moreover have "slice (pre @ enc_file (name, d) @ concat (map enc_file fs) @ r) (hd (items_at (length pre) [(name, d)])) = Some d"
    using Cons.prems f by (intro slice_item) simp
  ultimately show ?case
    unfolding items using IH f by simp
qed simp

lemma decode_package:
  assumes "length fs < 256" and "\<forall>f \<in> set fs. length (fst f) < 256" and "length (package ver fs) \<le> unat len"
  shows "decodeHeadInfo (package ver fs @ r) = Some (0, \<lparr>hi_verNum = ver, hi_filecount = length fs, hi_length = 23\<rparr>)"
    and "decode_luadb (package ver fs @ r) len \<lparr>hi_verNum = ver, hi_filecount = length fs, hi_length = 23\<rparr>
      = Some (Inr (items_at 23 fs))"
    and "map df_name (items_at 23 fs) = map fst fs"
    and "map (slice (package ver fs @ r)) (items_at 23 fs) = map (Some \<circ> snd) fs"
proof -
  let ?h = "enc_head ver (length fs)"
  have len: "unat len < 2 ^ 32" using unsigned_less [of len] by simp
  have l32: "length (?h @ concat (map enc_file fs)) < 2 ^ 32"
    using assms(3) len by (simp add: package_def)
  have le: "length (?h @ concat (map enc_file fs)) \<le> unat len"
    using assms(3) by (simp add: package_def)
  show "decodeHeadInfo (package ver fs @ r) = Some (0, \<lparr>hi_verNum = ver, hi_filecount = length fs, hi_length = 23\<rparr>)"
    unfolding package_def append_assoc by (rule head_entries [OF assms(1)])
  have dec: "decode_files (package ver fs @ r) len (length fs) 23 [] =
      Some (0, items_at 23 fs, of_nat (length (package ver fs)))"
    using decode_files_enc [OF le assms(2), of r "[]"] by (simp add: package_def)
  have "\<not> len < of_nat (length (package ver fs))"
    using assms(3) l32 by (simp only: word_less_nat_alt package_def unat_of_nat_u32)
  moreover have "length (items_at 23 fs) = length fs"
    using arg_cong [OF conjunct1 [OF items_at_correct [OF l32]], of length] by simp
  ultimately show "decode_luadb (package ver fs @ r) len \<lparr>hi_verNum = ver, hi_filecount = length fs, hi_length = 23\<rparr>
      = Some (Inr (items_at 23 fs))"
    using dec by (simp add: decode_luadb_def)
  show "map df_name (items_at 23 fs) = map fst fs"
    using items_at_correct [OF l32] by simp
  show "map (slice (package ver fs @ r)) (items_at 23 fs) = map (Some \<circ> snd) fs"
    using items_at_correct [OF l32, of r] by (simp add: package_def)
qed

section \<open>The range check\<close>

lemma decodeFile_next:
  assumes "decodeFile pData offset = Some (0, fi, offset')"
  shows "unat offset \<le> df_data fi \<and> offset' = of_nat (df_data fi + unat (df_length fi))"
  using assms unfolding decodeFile_def
  by (auto simp: Let_def ac_simps split: option.splits prod.splits if_splits)

lemma decode_files_grows: "decode_files pData len n offset acc = Some (e, gs, fin) \<Longrightarrow> \<exists>fs. gs = acc @ fs"
proof (induction n arbitrary: offset acc)
  case (Suc n)
  then show ?case
    by (fastforce split: if_splits option.splits)
qed simp

lemma decode_files_range:
  assumes "decode_files pData len n offset acc = Some (0, acc @ fs, fin)"
    and "\<forall>fi \<in> set fs. df_data fi + unat (df_length fi) < 2 ^ 32"
  shows "unat offset \<le> unat fin \<and> (\<forall>fi \<in> set fs. df_data fi + unat (df_length fi) \<le> unat fin)"
  using assms
proof (induction n arbitrary: offset acc fs)
  case (Suc n)
  show ?case
  proof (cases "offset < len")
    case True
    obtain e fi offset' where d: "decodeFile pData offset = Some (e, fi, offset')"
      using Suc.prems(1) True by (auto split: option.splits)
    have e: "e = 0" using Suc.prems(1) True d by (auto split: if_splits)
    have rest: "decode_files pData len n offset' (acc @ [fi]) = Some (0, acc @ fs, fin)"
      using Suc.prems(1) True d e by simp
    then obtain gs where "acc @ fs = (acc @ [fi]) @ gs"
      using decode_files_grows [OF rest] by blast
    then have fs: "fs = fi # gs" by simp
    note n = decodeFile_next [OF d [unfolded e]]
    have "unat offset' = df_data fi + unat (df_length fi)"
      using Suc.prems(2) n fs by (simp add: unat_of_nat_u32 del: of_nat_add)
    moreover have "unat offset' \<le> unat fin \<and> (\<forall>fi \<in> set gs. df_data fi + unat (df_length fi) \<le> unat fin)"
      using Suc.prems(2) rest fs by (intro Suc.IH [of _ "acc @ [fi]"]) simp_all
    ultimately show ?thesis using n fs by simp
  qed (use Suc.prems in simp)
qed simp

text \<open>C27. An accepted package keeps every file inside the buffer, so its contents can be read, unless the
  end of some file is beyond the 32-bit range: then the sum that is compared with the size of the
  package has wrapped.
\<close>

theorem luadb_in_bounds:
  assumes "decode_luadb pData len hi = Some (Inr fs)" and "unat len \<le> length pData"
  shows "(\<forall>fi \<in> set fs. slice pData fi \<noteq> None) \<or> (\<exists>fi \<in> set fs. 2 ^ 32 \<le> df_data fi + unat (df_length fi))"
proof (cases "\<exists>fi \<in> set fs. 2 ^ 32 \<le> df_data fi + unat (df_length fi)")
  case False
  obtain offset where dec: "decode_files pData len (hi_filecount hi) (hi_length hi) [] = Some (0, [] @ fs, offset)"
      and le: "\<not> len < offset"
    using assms(1) unfolding decode_luadb_def by (auto split: option.splits if_splits)
  have "\<forall>fi \<in> set fs. df_data fi + unat (df_length fi) < 2 ^ 32"
    using False by (simp add: not_le)
  then have "\<forall>fi \<in> set fs. df_data fi + unat (df_length fi) \<le> unat offset"
    using decode_files_range [OF dec] by blast
  moreover have "unat offset \<le> unat len"
    using le by (simp add: word_le_nat_alt not_less)
  ultimately have "\<forall>fi \<in> set fs. df_data fi + unat (df_length fi) \<le> length pData"
    using assms(2) by (meson le_trans)
  then show ?thesis
    by (simp add: slice_def)
qed simp

text \<open>A package of 46 bytes whose file claims \<open>2 ^ 32 - 1\<close> bytes passes every check.\<close>

definition wrap_package :: "byte list" where
  "wrap_package = enc_head 1 1 @ file_head [0x61, 0x2E, 0x64, 0x61, 0x74] (- 1)"

lemma wrap_package_accepted:
  "length wrap_package = 46 \<and> decodeHeadInfo wrap_package = Some (0, \<lparr>hi_verNum = 1, hi_filecount = 1, hi_length = 23\<rparr>) \<and>
   (\<exists>fi. decode_luadb wrap_package 46 \<lparr>hi_verNum = 1, hi_filecount = 1, hi_length = 23\<rparr> = Some (Inr [fi])
     \<and> df_length fi = - 1 \<and> slice wrap_package fi = None)"
proof -
  have "decodeFile wrap_package 23 = Some (0, \<lparr>df_name = [0x61, 0x2E, 0x64, 0x61, 0x74], df_length = - 1, df_data = 46, df_offset = 46\<rparr>, 45)"
    using decodeFile_head [of "[0x61, 0x2E, 0x64, 0x61, 0x74]" "enc_head 1 1" "- 1" "[]"]
    by (simp add: wrap_package_def)
  moreover have "decodeHeadInfo wrap_package = Some (0, \<lparr>hi_verNum = 1, hi_filecount = 1, hi_length = 23\<rparr>)"
    using head_entries [of 1 1 "file_head [0x61, 0x2E, 0x64, 0x61, 0x74] (- 1)"] by (simp add: wrap_package_def)
  ultimately show ?thesis
    by (simp add: decode_luadb_def wrap_package_def slice_def unsigned_minus_1_eq_mask mask_eq_exp_minus_1)
qed

lemma luadb_in_bounds_witness:
  "(\<forall>fi \<in> set (items_at 23 [([0x61], [1, 2])]). slice (package 1 [([0x61], [1, 2])]) fi \<noteq> None)
    \<or> (\<exists>fi \<in> set (items_at 23 [([0x61], [1, 2])]). 2 ^ 32 \<le> df_data fi + unat (df_length fi))"
proof (rule luadb_in_bounds)
  show "decode_luadb (package 1 [([0x61], [1, 2])]) 44 \<lparr>hi_verNum = 1, hi_filecount = 1, hi_length = 23\<rparr>
      = Some (Inr (items_at 23 [([0x61], [1, 2])]))"
    using decode_package(2) [of "[([0x61], [1, 2])]" 1 44 "[]"] by (simp add: package_def)
  show "unat (44 :: u32) \<le> length (package 1 [([0x61], [1, 2])])"
    by (simp add: package_def)
qed

section \<open>The table\<close>

lemma find_item_map_of: "find_item is p = map_of (map (\<lambda>i. (ti_file i, i)) is) p"
  by (induction "is") auto

lemma find_item_Cons_other: "ti_file i \<noteq> p \<Longrightarrow> find_item (i # is) p = find_item is p"
  by simp

text \<open>The path a file gets in the table.\<close>

definition table_path :: "host \<Rightarrow> byte list \<Rightarrow> byte list" where
  "table_path h name = (if drop (length name - 4) name = ext_lua then lua_dir h else lua_data_dir h) @ [0x2F] @ name"

definition in_table :: "host \<Rightarrow> byte list \<Rightarrow> bool" where
  "in_table h name \<longleftrightarrow> 4 < length name \<and> drop (length name - 4) name \<in> set table_exts \<and> 0 \<notin> set name
     \<and> length (table_path h name) < 256"

definition table_of :: "host \<Rightarrow> file_item list \<Rightarrow> table_item list" where
  "table_of h fs = rev (map (\<lambda>fi. \<lparr>ti_file = table_path h (df_name fi), ti_offset = sint (df_offset fi), ti_len = sint (df_length fi)\<rparr>) fs)"

lemma zip_not_in_table: "ext_zip \<notin> set table_exts"
  by (simp add: ext_zip_def table_exts_def ext_lua_def)

lemma put_file_add:
  assumes "in_table h (df_name fi)" and "df_length fi \<noteq> 0" and "h_mem h n" and "section \<noteq> MAX_SECTION"
  shows "put_file h pData override section n fi s =
     Some (0, fst (AddUncompressFileItem True section (table_path h (df_name fi)) (sint (df_offset fi)) (sint (df_length fi))
       (s\<lparr>delupdpack := False\<rparr>)))"
proof -
  let ?ext = "drop (length (df_name fi) - 4) (df_name fi)"
  have tw: "takeWhile (\<lambda>b. b \<noteq> 0) (df_name fi) = df_name fi"
    using assms(1) by (auto simp: in_table_def takeWhile_eq_all_conv)
  have path: "make_path (if ?ext = ext_lua then lua_dir h else lua_data_dir h) (df_name fi) (length (df_name fi))
      = Some (table_path h (df_name fi))"
    using assms(1) unfolding make_path_def take_all [OF order_refl] tw
    by (simp add: table_path_def in_table_def Let_def split: if_splits)
  have ne: "table_path h (df_name fi) \<noteq> []" by (simp add: table_path_def)
  have len: "sint (df_length fi) \<noteq> 0" using assms(2) by (metis signed_eq_0_iff)
  have ext: "?ext \<in> set table_exts" "?ext \<noteq> ext_zip" "4 < length (df_name fi)"
    using assms(1) zip_not_in_table by (auto simp: in_table_def)
  have "put_plain h pData override section n fi s =
     Some (0, fst (AddUncompressFileItem True section (table_path h (df_name fi)) (sint (df_offset fi)) (sint (df_length fi))
       (s\<lparr>delupdpack := False\<rparr>)))"
    unfolding put_plain_def Let_def path using ext assms(3,4) ne len
    by (simp add: AddUncompressFileItem_def Let_def)
  then show ?thesis
    using ext by (simp add: put_file_def)
qed

lemma put_file_table:
  assumes "in_table h (df_name fi)" and "df_length fi \<noteq> 0" and "h_mem h n"
  shows "put_file h pData override FLASH_SECTION n fi s =
     Some (0, s\<lparr>pFlashFileTable := table_of h [fi] @ pFlashFileTable s, delupdpack := False\<rparr>)"
  using put_file_add [OF assms, of FLASH_SECTION pData override s] assms(2)
  by (simp add: AddUncompressFileItem_def table_of_def table_path_def signed_eq_0_iff)

lemma put_files_table:
  assumes "\<forall>fi \<in> set fs. in_table h (df_name fi) \<and> df_length fi \<noteq> 0" and "\<forall>n. h_mem h n" and "fs \<noteq> []"
  shows "put_files h pData override FLASH_SECTION n fs s =
     Some (0, s\<lparr>pFlashFileTable := table_of h fs @ pFlashFileTable s, delupdpack := False\<rparr>)"
  using assms(1, 3)
proof (induction fs arbitrary: n s)
  case (Cons fi fs)
  have "put_file h pData override FLASH_SECTION n fi s =
     Some (0, s\<lparr>pFlashFileTable := table_of h [fi] @ pFlashFileTable s, delupdpack := False\<rparr>)"
    using Cons.prems assms(2) by (intro put_file_table) simp_all
  moreover have "table_of h (fi # fs) = table_of h fs @ table_of h [fi]"
    by (simp add: table_of_def)
  ultimately show ?case
    using Cons by (cases "fs = []") (simp_all add: table_of_def)
qed simp

lemma table_path_inj:
  assumes "in_table h a" "in_table h b" "table_path h a = table_path h b"
  shows "a = b"
proof -
  have ext: "drop (length (table_path h n) - 4) (table_path h n) = drop (length n - 4) n" if "in_table h n" for n
  proof -
    have "drop (length (table_path h n) - 4) (table_path h n) = drop (length n - 4) n" if "4 < length n"
    proof -
      have "drop (length (xs @ [0x2F] @ n) - 4) (xs @ [0x2F] @ n) = drop (length n - 4) n" for xs :: "byte list"
        using that by (simp add: drop_Cons')
      then show ?thesis by (simp only: table_path_def)
    qed
    then show ?thesis using that by (simp add: in_table_def)
  qed
  have "drop (length a - 4) a = drop (length b - 4) b"
    using ext [OF assms(1)] ext [OF assms(2)] assms(3) by simp
  then show ?thesis
    using assms(3) by (simp add: table_path_def split: if_splits)
qed

lemma signed_of_nat_small: "n < 2 ^ 31 \<Longrightarrow> sint (of_nat n :: u32) = int n"
  by (simp add: signed_of_nat signed_take_bit_int_eq_self)

lemma items_at_tab:
  assumes "\<forall>f \<in> set fs. in_table h (fst f) \<and> snd f \<noteq> []" and "length (pre @ concat (map enc_file fs)) < 2 ^ 32"
  shows "\<forall>fi \<in> set (items_at (length pre) fs). in_table h (df_name fi) \<and> df_length fi \<noteq> 0"
  using assms
proof (induction fs arbitrary: pre)
  case (Cons f fs)
  obtain name d where f: "f = (name, d)" by (cases f)
  have items: "items_at (length pre) (f # fs) = hd (items_at (length pre) [f]) # items_at (length (pre @ enc_file f)) fs"
    by (simp add: f Let_def ac_simps)
  have "of_nat (length d) \<noteq> (0 :: u32)"
    using unat_of_nat_u32 [of "length d"] Cons.prems f by auto
  moreover have "\<forall>fi \<in> set (items_at (length (pre @ enc_file f)) fs). in_table h (df_name fi) \<and> df_length fi \<noteq> 0"
    using Cons.prems by (intro Cons.IH) simp_all
  ultimately show ?case unfolding items using Cons.prems(1) f by (simp add: Let_def)
qed simp

lemma find_item_table_of:
  assumes "distinct (map (table_path h \<circ> df_name) fs)" and "fi \<in> set fs"
  shows "find_item (table_of h fs @ ts) (table_path h (df_name fi)) =
     Some \<lparr>ti_file = table_path h (df_name fi), ti_offset = sint (df_offset fi), ti_len = sint (df_length fi)\<rparr>"
proof -
  let ?i = "\<lambda>fi. \<lparr>ti_file = table_path h (df_name fi), ti_offset = sint (df_offset fi), ti_len = sint (df_length fi)\<rparr>"
  have m: "map (\<lambda>i. (ti_file i, i)) (table_of h fs) = rev (map (\<lambda>fi. (table_path h (df_name fi), ?i fi)) fs)"
    by (simp add: table_of_def rev_map comp_def)
  have d: "distinct (map fst (rev (map (\<lambda>fi. (table_path h (df_name fi), ?i fi)) fs)))"
    using assms(1) by (simp add: rev_map [symmetric] comp_def)
  have "map_of (rev (map (\<lambda>fi. (table_path h (df_name fi), ?i fi)) fs)) (table_path h (df_name fi)) = Some (?i fi)"
    using assms(2) by (intro map_of_is_SomeI [OF d]) auto
  then show ?thesis
    by (simp add: find_item_map_of m map_add_Some_iff)
qed

lemma item_of_file:
  assumes "(name, d) \<in> set fs" and "length (pre @ concat (map enc_file fs)) < 2 ^ 31"
  shows "\<exists>fi \<in> set (items_at (length pre) fs). df_name fi = name \<and> sint (df_length fi) = int (length d) \<and>
     sint (df_offset fi) = int (df_data fi) \<and> df_data fi + length d \<le> length (pre @ concat (map enc_file fs)) \<and> take (length d) (drop (df_data fi) (pre @ concat (map enc_file fs) @ r)) = d"
  using assms
proof (induction fs arbitrary: pre)
  case (Cons f fs)
  obtain name' d' where f: "f = (name', d')" by (cases f)
  have items: "items_at (length pre) (f # fs) = hd (items_at (length pre) [f]) # items_at (length (pre @ enc_file f)) fs"
    by (simp add: f Let_def ac_simps)
  show ?case
  proof (cases "(name, d) = f")
    case True
    let ?p = "length pre + 18 + length name"
    have b: "?p < 2 ^ 31" "length d < 2 ^ 31" using Cons.prems(2) True [symmetric] by simp_all
    have "drop ?p (pre @ concat (map enc_file (f # fs)) @ r) = d @ concat (map enc_file fs) @ r"
      using True [symmetric] by (simp add: enc_file_def)
    then show ?thesis unfolding items
      using b True [symmetric] by (simp add: Let_def signed_of_nat_small del: of_nat_add)
  next
    case False
    then have "(name, d) \<in> set fs" using Cons.prems(1) by auto
    then show ?thesis
      using Cons.IH [of "pre @ enc_file f"] Cons.prems(2) unfolding items by simp
  qed
qed simp

text \<open>A script section of uncompressed files is installed without writing anything: after the loader
  every file is found under its directory, and the entry selects exactly its bytes of the section.\<close>

lemma luadb_parse:
  assumes "fs \<noteq> []" and "length fs < 256" and "\<forall>f \<in> set fs. in_table h (fst f) \<and> snd f \<noteq> []"
    and "length (package ver fs) \<le> unat len" and "h_files_mem h" and "\<forall>n. h_mem h n"
  shows "parse_luadb_data h (package ver fs @ r) len override FLASH_SECTION restart s =
     Some (0, s\<lparr>delupdpack := False, wrFile := False, pFlashFileTable := table_of h (items_at 23 fs) @ pFlashFileTable s\<rparr>, restart)"
proof -
  let ?pk = "package ver fs @ r" and ?items = "items_at 23 fs"
  let ?s' = "s\<lparr>delupdpack := False, wrFile := False, pFlashFileTable := table_of h ?items @ pFlashFileTable s\<rparr>"
  have nm: "\<forall>f \<in> set fs. length (fst f) < 256"
    using assms(3) by (auto simp: in_table_def table_path_def)
  note dec = decode_package(1, 2) [OF assms(2) nm assms(4), of r]
  note names = decode_package(3) [OF assms(2) nm assms(4)]
  have fst_byte: "\<exists>bs. ?pk = 1 # bs"
    by (simp add: package_def enc_head_def seal_def tlv_bytes_def)
  have "unat len < 2 ^ 32" using unsigned_less [of len] by simp
  then have len32: "length (package ver fs) < 2 ^ 32"
    using assms(4) by simp
  have tab: "\<forall>fi \<in> set ?items. in_table h (df_name fi) \<and> df_length fi \<noteq> 0"
    using items_at_tab [of fs h "enc_head ver (length fs)"] assms(3) len32 by (simp add: package_def)
  have put: "put_files h ?pk override FLASH_SECTION 0 ?items (s\<lparr>delupdpack := True, wrFile := False\<rparr>) = Some (0, ?s')"
    using put_files_table [OF tab assms(6)] names assms(1) by fastforce
  show ?thesis
    using fst_byte dec(1, 2) put assms(5)
    by (auto simp: parse_luadb_data_def finish_def Let_def)
qed

lemma luadb_install:
  assumes "fs \<noteq> []" and "length fs < 256" and "distinct (map fst fs)"
    and "\<forall>f \<in> set fs. in_table h (fst f) \<and> snd f \<noteq> []"
    and "length (package ver fs) \<le> unat len" and "length (package ver fs) < 2 ^ 31"
    and "h_files_mem h" and "\<forall>n. h_mem h n" and "pUpdateFileTable s = []"
  shows "\<exists>s'. parse_luadb_data h (package ver fs @ r) len override FLASH_SECTION restart s = Some (0, s', restart) \<and>
    db_log s' = db_log s \<and>
    (\<forall>(name, d) \<in> set fs. \<exists>i. FindUncompressFileItem (table_path h name) s' = Some (FLASH_SECTION, i) \<and> 0 \<le> ti_offset i \<and>
       ti_len i = int (length d) \<and> nat (ti_offset i) + length d \<le> length (package ver fs) \<and> take (length d) (drop (nat (ti_offset i)) (package ver fs @ r)) = d)"
proof -
  let ?pk = "package ver fs @ r" and ?items = "items_at 23 fs"
  let ?s' = "s\<lparr>delupdpack := False, wrFile := False, pFlashFileTable := table_of h ?items @ pFlashFileTable s\<rparr>"
  have nm: "\<forall>f \<in> set fs. length (fst f) < 256"
    using assms(4) by (auto simp: in_table_def table_path_def)
  note names = decode_package(3) [OF assms(2) nm assms(5)]
  have parse: "parse_luadb_data h ?pk len override FLASH_SECTION restart s = Some (0, ?s', restart)"
    by (rule luadb_parse [OF assms(1,2,4,5,7,8)])
  have "\<exists>i. FindUncompressFileItem (table_path h name) ?s' = Some (FLASH_SECTION, i) \<and> 0 \<le> ti_offset i \<and>
       ti_len i = int (length d) \<and> nat (ti_offset i) + length d \<le> length (package ver fs) \<and> take (length d) (drop (nat (ti_offset i)) ?pk) = d" if f: "(name, d) \<in> set fs" for name d
  proof -
    obtain fi where fi: "fi \<in> set ?items" "df_name fi = name" "sint (df_length fi) = int (length d)"
       "sint (df_offset fi) = int (df_data fi)" "df_data fi + length d \<le> length (package ver fs)" "take (length d) (drop (df_data fi) ?pk) = d"
      using item_of_file [OF f, of "enc_head ver (length fs)" r] assms(6) by (auto simp: package_def)
    have "distinct (map (table_path h \<circ> df_name) ?items)"
      unfolding map_map [symmetric] names distinct_map
      using assms(3, 4) by (auto simp: distinct_map inj_on_def dest!: table_path_inj [rotated 2])
    from find_item_table_of [OF this fi(1)] show ?thesis
      using fi assms(9) by (simp add: FindUncompressFileItem_def table_path_def)
  qed
  then show ?thesis using parse by (intro exI [of _ ?s']) auto
qed

end
