(* ===== verification/LuaFileProps.thy ===== *)
theory LuaFileProps
  imports LuaFile LuadbProps
begin

text \<open>
  A handle of a file used in place behaves as a read-only stream over the bytes of the file: the
  operations refine those of a pair of contents and position. \<open>fgets_ext\<close> cuts long lines and loses
  the character at the cut. A file placed in the script section by the packer is read back unchanged.
\<close>

section \<open>The abstract stream\<close>

datatype fop = Read u32 u32 | Getc | Ungetc int | Seek int int | Tell | Eof

datatype answer = Data nat "byte list" | Num int | Flag bool

definition target :: "byte list \<Rightarrow> nat \<Rightarrow> int \<Rightarrow> int \<Rightarrow> int" where
  "target d pos offset whence =
     (if whence = SEEK_SET then offset else if whence = SEEK_CUR then int pos + offset
      else if whence = SEEK_END \<and> offset = 0 then int (length d) else - 1)"

fun stream :: "byte list \<Rightarrow> fop \<Rightarrow> nat \<Rightarrow> answer \<times> nat" where
  "stream d (Read sz cnt) pos =
     (let k = min (unat sz * unat cnt) (length d - pos) in (Data (k div unat sz) (take k (drop pos d)), pos + k))"
| "stream d Getc pos = (if pos < length d then (Num (sint (d ! pos)), pos + 1) else (Num EOF_EXT, pos))"
| "stream d (Ungetc c) pos = (Num 0, pos - 1)"
| "stream d (Seek offset whence) pos =
     (let t = target d pos offset whence
      in if 0 \<le> t \<and> t \<le> int (length d) then (Num 0, nat t) else (Num (- 1), pos))"
| "stream d Tell pos = (Num (int pos), pos)"
| "stream d Eof pos = (Flag (length d \<le> pos), pos)"

fun step :: "storage \<Rightarrow> fop \<Rightarrow> lfile \<Rightarrow> (answer \<times> lfile) option" where
  "step st (Read sz cnt) f = map_option (\<lambda>(n, bs, f'). (Data n bs, f')) (fread_ext st sz cnt f)"
| "step st Getc f = map_option (\<lambda>(c, f'). (Num c, f')) (getc_ext st f)"
| "step st (Ungetc c) f = (case ungetc_ext c f of (r, f') \<Rightarrow> Some (Num r, f'))"
| "step st (Seek offset whence) f = (case fseek_ext f offset whence of (r, f') \<Rightarrow> Some (Num r, f'))"
| "step st Tell f = Some (Num (ftell_ext f), f)"
| "step st Eof f = Some (Flag (feof_ext f), f)"

text \<open>Calls whose arguments are in range: no negative seek from the end, no product over 32 bits.\<close>

fun proper :: "fop \<Rightarrow> bool" where
  "proper (Read sz cnt) \<longleftrightarrow> unat sz * unat cnt < 2 ^ 32"
| "proper (Seek offset whence) \<longleftrightarrow> INT_MIN \<le> offset \<and> offset \<le> INT_MAX \<and> (whence = SEEK_END \<longrightarrow> 0 \<le> offset)"
| "proper _ \<longleftrightarrow> True"

text \<open>Item \<open>i\<close> of a section holds the bytes \<open>d\<close>.\<close>

definition backed :: "storage \<Rightarrow> lua_section \<Rightarrow> table_item \<Rightarrow> byte list \<Rightarrow> bool" where
  "backed st sec i d \<longleftrightarrow> ti_len i = int (length d) \<and> 0 \<le> ti_offset i \<and> ti_offset i + ti_len i \<le> INT_MAX \<and>
     (case sec of
        FLASH_SECTION \<Rightarrow> nat (ti_offset i) + length d \<le> length (st_flash st) \<and> take (length d) (drop (nat (ti_offset i)) (st_flash st)) = d
      | UPDATE_SECTION \<Rightarrow> (\<forall>pos k. pos + k \<le> length d \<longrightarrow> st_update st (ti_offset i + int pos) k = Some (take k (drop pos d)))
      | MAX_SECTION \<Rightarrow> False)"

definition stands_at :: "storage \<Rightarrow> byte list \<Rightarrow> lfile \<Rightarrow> nat \<Rightarrow> bool" where
  "stands_at st d f pos \<longleftrightarrow> backed st (lf_section f) (lf_item f) d \<and> lf_offset f = int pos \<and> pos \<le> length d"

lemma fetch_backed:
  assumes "stands_at st d f pos" and "pos + k \<le> length d"
  shows "fetch st f k = Some (Some (take k (drop pos d)))"
proof -
  note b = assms(1) [unfolded stands_at_def backed_def]
  have pos: "wrap32 (ti_offset (lf_item f) + lf_offset f) = ti_offset (lf_item f) + int pos"
    using b by (simp add: layout_simps)
  show ?thesis
  proof (cases "lf_section f")
    case FLASH_SECTION
    then have d: "take (length d) (drop (nat (ti_offset (lf_item f))) (st_flash st)) = d"
      and l: "nat (ti_offset (lf_item f)) + length d \<le> length (st_flash st)" and o: "0 \<le> ti_offset (lf_item f)"
      using b by simp_all
    have n: "nat (ti_offset (lf_item f) + int pos) = nat (ti_offset (lf_item f)) + pos"
      using o by simp
    have "take k (drop pos d) = take k (drop pos (take (length d) (drop (nat (ti_offset (lf_item f))) (st_flash st))))"
      using d by simp
    also have "\<dots> = take k (drop (nat (ti_offset (lf_item f)) + pos) (st_flash st))"
      using assms(2) by (simp add: drop_take min_def add.commute)
    finally show ?thesis
      using FLASH_SECTION o l assms(2) unfolding fetch_def pos Let_def n by simp
  qed (use b pos assms(2) in \<open>simp_all add: fetch_def\<close>)
qed

lemma fread_len_backed:
  assumes "stands_at st d f pos" and "n < 2 ^ 32" and "0 < n"
  shows "fread_len f n = int (min n (length d - pos))"
proof -
  note b = assms(1) [unfolded stands_at_def backed_def]
  have a: "wrap32 (ti_len (lf_item f) - lf_offset f) = int (length d - pos)" and s: "int (length d - pos) \<le> INT_MAX"
    using b by (auto simp: layout_simps of_nat_diff)
  have m: "int (length d - pos) mod 2 ^ 32 = int (length d - pos)"
    using s by (simp add: layout_simps)
  show ?thesis
    using s unfolding fread_len_def Let_def a m by (auto simp: layout_simps min_def)
qed

lemma fread_refines:
  assumes "stands_at st d f pos" and "unat sz * unat cnt < 2 ^ 32"
  shows "\<exists>f'. fread_ext st sz cnt f = Some (min (unat sz * unat cnt) (length d - pos) div unat sz,
       take (min (unat sz * unat cnt) (length d - pos)) (drop pos d), f')
     \<and> stands_at st d f' (pos + min (unat sz * unat cnt) (length d - pos))"
proof -
  define n where "n = unat sz * unat cnt"
  define k where "k = min n (length d - pos)"
  have r: "unat (cnt * sz) = n"
    using assms(2) by (simp add: unat_word_ariths n_def mult.commute)
  show ?thesis
  proof (cases "n = 0")
    case True
    then show ?thesis using assms(1) r by (simp add: fread_ext_def n_def [symmetric])
  next
    case False
    then have len: "fread_len f n = int k"
      using fread_len_backed [OF assms(1), of n] assms(2) by (simp add: k_def n_def)
    have pk: "pos + k \<le> length d" using assms(1) by (auto simp: k_def stands_at_def)
    have off: "wrap32 (lf_offset f + int k) = int (pos + k)" "lf_offset f = int pos"
      using assms(1) pk by (simp_all add: stands_at_def backed_def layout_simps)
    show ?thesis
    proof (cases "k = 0")
      case True
      then show ?thesis
        using False len r assms(1) by (simp add: fread_ext_def n_def [symmetric] k_def [symmetric])
    next
      case k: False
      have "fread_ext st sz cnt f = Some (k div unat sz, take k (drop pos d), f\<lparr>lf_offset := int (pos + k)\<rparr>)"
        using False k len r off fetch_backed [OF assms(1) pk] by (simp add: fread_ext_def)
      then show ?thesis
        using assms(1) pk unfolding n_def [symmetric] k_def [symmetric] by (simp add: stands_at_def)
    qed
  qed
qed

lemma getc_refines:
  assumes "stands_at st d f pos"
  shows "\<exists>f'. getc_ext st f = Some (if pos < length d then sint (d ! pos) else EOF_EXT, f')
     \<and> stands_at st d f' (if pos < length d then pos + 1 else pos)"
proof -
  obtain f' where r: "fread_ext st 1 1 f = Some (min 1 (length d - pos), take (min 1 (length d - pos)) (drop pos d), f')"
      and s: "stands_at st d f' (pos + min 1 (length d - pos))"
    using fread_refines [OF assms, of 1 1] by auto
  show ?thesis
  proof (cases "pos < length d")
    case True
    then have "take (Suc 0) (drop pos d) = [d ! pos]"
      by (simp add: take_Suc_conv_app_nth)
    then show ?thesis using r s True by (simp add: getc_ext_def)
  next
    case False
    then show ?thesis using r s by (simp add: getc_ext_def)
  qed
qed

lemma wrap32_over:
  assumes "INT_MAX < x" and "x < 2 ^ 32"
  shows "wrap32 x = x - 2 ^ 32"
proof -
  have "(x + 2 ^ 31) mod 2 ^ 32 = (x + 2 ^ 31 - 2 ^ 32) mod (2 ^ 32 :: int)"
    by (simp only: minus_mod_self2)
  also have "\<dots> = x + 2 ^ 31 - 2 ^ 32"
    using assms by (intro mod_pos_pos_trivial) (simp_all add: layout_simps)
  finally show ?thesis by (simp add: wrap32_def)
qed

lemma seek_refines:
  assumes "stands_at st d f pos" and "proper (Seek offset whence)"
  shows "fseek_ext f offset whence =
     (let t = target d pos offset whence
      in if 0 \<le> t \<and> t \<le> int (length d) then (0, f\<lparr>lf_offset := t\<rparr>) else (- 1, f))"
proof -
  have l: "ti_len (lf_item f) = int (length d)" "lf_offset f = int pos" "pos \<le> length d" "int (length d) \<le> INT_MAX"
    using assms(1) by (simp_all add: stands_at_def backed_def)
  have cur: "int (length d) < wrap32 (int pos + offset) \<or> wrap32 (int pos + offset) < 0 \<longleftrightarrow> int (length d) < int pos + offset \<or> int pos + offset < 0"
  proof (cases "int pos + offset \<le> INT_MAX")
    case True
    then show ?thesis using assms(2) l by (simp add: layout_simps)
  next
    case False
    then have "wrap32 (int pos + offset) = int pos + offset - 2 ^ 32"
      using assms(2) l by (intro wrap32_over) (simp_all add: layout_simps)
    then show ?thesis using False assms(2) l by (simp add: layout_simps)
  qed
  have fin: "wrap32 (- int (length d)) \<le> 0"
    using l by (simp add: layout_simps)
  consider "whence = SEEK_SET" | "whence = SEEK_CUR" | "whence = SEEK_END" | "whence \<notin> {SEEK_SET, SEEK_CUR, SEEK_END}"
    by blast
  then show ?thesis
  proof cases
    case 2
    show ?thesis
    proof (cases "0 \<le> int pos + offset \<and> int pos + offset \<le> int (length d)")
      case True
      then have "wrap32 (int pos + offset) = int pos + offset" using l by (simp add: layout_simps)
      then show ?thesis using 2 l True by (simp add: fseek_ext_def target_def Let_def seek_defs)
    next
      case False
      then show ?thesis using 2 l cur by (auto simp: fseek_ext_def target_def Let_def seek_defs)
    qed
  qed (use assms(2) l fin in \<open>auto simp: fseek_ext_def target_def Let_def seek_defs\<close>)
qed

lemma step_refines:
  assumes "stands_at st d f pos" and "proper op"
  shows "\<exists>f'. step st op f = Some (fst (stream d op pos), f') \<and> stands_at st d f' (snd (stream d op pos))"
proof (cases op)
  case (Read sz cnt)
  then show ?thesis
    using fread_refines [OF assms(1), of sz cnt] assms(2) by (auto simp: Let_def)
next
  case Getc
  then show ?thesis using getc_refines [OF assms(1)] by (cases "pos < length d") auto
next
  case (Ungetc c)
  have "proper (Seek (- 1) SEEK_CUR)" by (simp add: layout_simps seek_defs)
  then have "fseek_ext f (- 1) SEEK_CUR = (if 0 < pos then (0, f\<lparr>lf_offset := int (pos - 1)\<rparr>) else (- 1, f))"
    using seek_refines [OF assms(1)] assms(1) by (auto simp: target_def Let_def seek_defs stands_at_def)
  then show ?thesis
    using Ungetc assms(1) by (auto simp: ungetc_ext_def stands_at_def)
next
  case (Seek offset whence)
  then show ?thesis
    using seek_refines [OF assms(1)] assms by (auto simp: Let_def stands_at_def)
next
  case Tell
  then show ?thesis using assms(1) by (simp add: ftell_ext_def stands_at_def)
next
  case Eof
  then show ?thesis using assms(1) by (simp add: feof_ext_def stands_at_def backed_def)
qed

fun run :: "storage \<Rightarrow> fop list \<Rightarrow> lfile \<Rightarrow> (answer list \<times> lfile) option" where
  "run st [] f = Some ([], f)"
| "run st (op # ops) f =
     (case step st op f of None \<Rightarrow> None
      | Some (a, f') \<Rightarrow> map_option (\<lambda>(as, f''). (a # as, f'')) (run st ops f'))"

fun stream_run :: "byte list \<Rightarrow> fop list \<Rightarrow> nat \<Rightarrow> answer list \<times> nat" where
  "stream_run d [] pos = ([], pos)"
| "stream_run d (op # ops) pos =
     (case stream d op pos of (a, pos') \<Rightarrow> (case stream_run d ops pos' of (as, pos'') \<Rightarrow> (a # as, pos'')))"

lemma lua_run_refines:
  assumes "stands_at st d f pos" and "\<forall>op \<in> set ops. proper op"
  shows "\<exists>f'. run st ops f = Some (fst (stream_run d ops pos), f') \<and> stands_at st d f' (snd (stream_run d ops pos))"
  using assms
proof (induction ops arbitrary: f pos)
  case (Cons op ops)
  obtain f1 where s: "step st op f = Some (fst (stream d op pos), f1)" "stands_at st d f1 (snd (stream d op pos))"
    using step_refines [OF Cons.prems(1)] Cons.prems(2) by auto
  obtain f2 where "run st ops f1 = Some (fst (stream_run d ops (snd (stream d op pos))), f2)"
      "stands_at st d f2 (snd (stream_run d ops (snd (stream d op pos))))"
    using Cons.IH [OF s(2)] Cons.prems(2) by auto
  then show ?case
    using s by (auto split: prod.splits)
qed simp

section \<open>Seeking from the end\<close>

text \<open>A seek 2 bytes back from the end of a file of 4 bytes goes 2 bytes past it, and the next read, whose
  comparison is unsigned, returns bytes behind the file.\<close>

lemma seek_end_overrun:
  "let st = \<lparr>st_flash = [1, 2, 3, 4, 5, 6, 7, 8], st_update = \<lambda>_ _. None\<rparr>;
       f = \<lparr>lf_section = FLASH_SECTION, lf_item = \<lparr>ti_file = [0x61], ti_offset = 0, ti_len = 4\<rparr>, lf_offset = 0\<rparr>
   in fst (fseek_ext f (- 2) SEEK_END) = 0 \<and>
      map_option (\<lambda>(n, bs, _). (n, bs)) (fread_ext st 1 2 (snd (fseek_ext f (- 2) SEEK_END))) = Some (2, [7, 8])"
  by code_simp

section \<open>Lines\<close>

text \<open>The first line of some bytes, with its line feed.\<close>

fun line :: "byte list \<Rightarrow> byte list" where
  "line [] = []"
| "line (b # bs) = (if b = 0x0A then [b] else b # line bs)"

lemma line_drop: "p < length d \<Longrightarrow>
    line (drop p d) = (if d ! p = 0x0A then [d ! p] else d ! p # line (drop (Suc p) d))"
  by (subst Cons_nth_drop_Suc [symmetric]) simp_all

definition gets_finish :: "nat \<Rightarrow> (int \<times> nat \<times> byte list \<times> 'f) option \<Rightarrow> (bool \<times> byte list \<times> 'f) option" where
  "gets_finish n r =
     (case r of None \<Rightarrow> None
      | Some (c, idx, buf, f) \<Rightarrow>
        (case (if c = EOF_EXT then store_at buf idx 0 else Some buf) of None \<Rightarrow> None
         | Some buf \<Rightarrow> map_option (\<lambda>buf. (True, buf, f)) (store_at buf (n - 1) 0)))"

lemma fgets_gen_finish:
  "fgets_gen gc buf n f =
     (if n \<le> 1 then Some (False, buf, f)
      else (case gc f of None \<Rightarrow> None
        | Some (c, f) \<Rightarrow> if c = EOF_EXT then Some (False, buf, f)
            else gets_finish (nat n) (fgets_loop gc (nat n) c 0 buf f)))"
  unfolding fgets_gen_def gets_finish_def by (rule refl)

lemma loop_stop: "c = EOF_EXT \<or> n - 1 \<le> idx \<Longrightarrow> fgets_loop gc n c idx buf f = Some (c, idx, buf, f)"
  by (simp add: fgets_loop.simps)

lemma loop_feed: "idx + 1 < length buf \<Longrightarrow> idx < n - 1 \<Longrightarrow>
    fgets_loop gc n 0x0A idx buf f = Some (0x0A, idx, buf[idx := 0x0A, idx + 1 := 0], f)"
  by (simp add: fgets_loop.simps store_at_def EOF_EXT_def)

lemma loop_char: "c \<noteq> EOF_EXT \<Longrightarrow> c \<noteq> 0x0A \<Longrightarrow> idx < length buf \<Longrightarrow> idx < n - 1 \<Longrightarrow> gc f = Some (c', f') \<Longrightarrow>
    fgets_loop gc n c idx buf f = fgets_loop gc n c' (idx + 1) (buf[idx := of_int c]) f'"
  by (subst fgets_loop.simps) (simp add: store_at_def)

text \<open>A character is on hand: the handle stands behind it; or the file is at its end.\<close>

definition on_hand :: "storage \<Rightarrow> byte list \<Rightarrow> nat \<Rightarrow> int \<Rightarrow> lfile \<Rightarrow> bool" where
  "on_hand st d p c f \<longleftrightarrow>
     (if p < length d then c = sint (d ! p) \<and> stands_at st d f (p + 1) else c = EOF_EXT \<and> stands_at st d f p)"

lemma getc_on_hand:
  assumes "stands_at st d f p"
  shows "\<exists>c f'. getc_ext st f = Some (c, f') \<and> on_hand st d p c f'"
  using getc_refines [OF assms] by (cases "p < length d") (auto simp: on_hand_def)

lemma sint_byte_eq: "sint (b :: byte) = - 1 \<longleftrightarrow> b = 0xFF" "sint b = 0x0A \<longleftrightarrow> b = 0x0A"
proof -
  have "sint b = sint (- 1 :: byte) \<longleftrightarrow> b = - 1" "sint b = sint (0x0A :: byte) \<longleftrightarrow> b = 0x0A"
    by (auto intro: signed_word_eqI)
  moreover have "(- 1 :: byte) = 0xFF" by code_simp
  ultimately show "sint b = - 1 \<longleftrightarrow> b = 0xFF" "sint b = 0x0A \<longleftrightarrow> b = 0x0A" by simp_all
qed

lemma loop_lines:
  assumes "0xFF \<notin> set d" and "on_hand st d p c f" and "idx \<le> n - 1" and "n \<le> length buf" and "1 < n"
  shows "\<exists>buf' f'. gets_finish n (fgets_loop (getc_ext st) n c idx buf f) = Some (True, buf', f') \<and>
     length buf' = length buf \<and> take idx buf' = take idx buf \<and> drop n buf' = drop n buf \<and>
     take (length (take (n - 1 - idx) (line (drop p d))) + 1) (drop idx buf') = take (n - 1 - idx) (line (drop p d)) @ [0] \<and>
     stands_at st d f' (if length (line (drop p d)) \<le> n - 1 - idx then p + length (line (drop p d)) else p + (n - idx))"
  using assms(2-4)
proof (induction "n - 1 - idx" arbitrary: p c f idx buf)
  case 0
  then have idx: "idx = n - 1" by simp
  have st: "take 1 (drop idx (buf[idx := 0])) = [0]"
    using 0(4) assms(5) idx by (simp add: take_Suc_conv_app_nth drop_update_swap)
  show ?case
  proof (cases "p < length d")
    case True
    then have "d ! p \<noteq> 0xFF" using assms(1) nth_mem by metis
    then have c: "c \<noteq> EOF_EXT" using 0(2) True by (simp add: on_hand_def EOF_EXT_def sint_byte_eq)
    have "line (drop p d) \<noteq> []" using True by (simp add: line_drop)
    then show ?thesis
      using 0(2,4) True c idx st assms(5) by (simp add: loop_stop on_hand_def gets_finish_def store_at_def Suc_diff_Suc)
  next
    case False
    then show ?thesis
      using 0(2,4) idx st assms(5) by (simp add: loop_stop on_hand_def gets_finish_def store_at_def)
  qed
next
  case (Suc k)
  have lt: "idx < n - 1" using Suc.hyps(2) by simp
  show ?case
  proof (cases "p < length d")
    case False
    have "take 1 (drop idx (buf[idx := 0, n - 1 := 0])) = [0]"
      using Suc.prems(3) assms(5) lt by (simp add: take_Suc_conv_app_nth)
    then show ?thesis
      using Suc.prems False lt by (simp add: loop_stop on_hand_def gets_finish_def store_at_def)
  next
    case True
    let ?b = "d ! p"
    have b: "?b \<noteq> 0xFF" using True assms(1) nth_mem by metis
    have c: "c = sint ?b" "stands_at st d f (p + 1)" "c \<noteq> EOF_EXT"
      using Suc.prems(1) True b by (simp_all add: on_hand_def EOF_EXT_def sint_byte_eq)
    have i: "idx < length buf" "idx + 1 < length buf" using lt Suc.prems(3) by simp_all
    have of_int: "of_int c = ?b" using c(1) by simp
    show ?thesis
    proof (cases "?b = 0x0A")
      case True
      have n: "n - Suc 0 < length buf" "Suc 0 \<le> n - Suc idx" using lt Suc.prems(3) by simp_all
      have "take (Suc (Suc 0)) (drop idx (buf[idx := 0x0A, Suc idx := 0, n - Suc 0 := 0])) = [0x0A, 0]"
        by (rule nth_equalityI) (use i lt Suc.prems(3) in \<open>auto simp: nth_list_update less_Suc_eq\<close>)
      then show ?thesis
        using n True c i lt of_int Suc.prems(3) \<open>p < length d\<close> loop_feed [of idx buf n "getc_ext st" f]
        by (simp add: gets_finish_def store_at_def line_drop sint_byte_eq EOF_EXT_def)
    next
      case False
      obtain c' f' where g: "getc_ext st f = Some (c', f')" "on_hand st d (p + 1) c' f'"
        using getc_on_hand [OF c(2)] by blast
      let ?L = "line (drop (p + 1) d)"
      have k: "k = n - 1 - (idx + 1)" "idx + 1 \<le> n - 1" "n \<le> length (buf[idx := ?b])"
        using Suc.hyps(2) Suc.prems(3) by simp_all
      obtain buf' f'' where IH: "gets_finish n (fgets_loop (getc_ext st) n c' (idx + 1) (buf[idx := ?b]) f') = Some (True, buf', f'')"
          "length buf' = length buf" "take (idx + 1) buf' = take (idx + 1) (buf[idx := ?b])" "drop n buf' = drop n (buf[idx := ?b])"
          "take (length (take k ?L) + 1) (drop (idx + 1) buf') = take k ?L @ [0]"
          "stands_at st d f'' (if length ?L \<le> k then p + 1 + length ?L else p + 1 + (n - (idx + 1)))"
        using Suc.hyps(1) [OF k(1) g(2) k(2, 3)] unfolding k(1) [symmetric] by auto
      have line: "line (drop p d) = ?b # ?L"
        using False \<open>p < length d\<close> by (simp add: line_drop)
      have loop: "fgets_loop (getc_ext st) n c idx buf f = fgets_loop (getc_ext st) n c' (idx + 1) (buf[idx := ?b]) f'"
        using loop_char [of c idx buf n "getc_ext st" f c' f'] c False g lt i of_int by (simp add: sint_byte_eq)
      have hd: "buf' ! idx = ?b" and tk: "take idx buf' = take idx buf"
        using arg_cong [OF IH(3), of "\<lambda>xs. xs ! idx"] arg_cong [OF IH(3), of "take idx"] i by simp_all
      have "drop idx buf' = ?b # drop (idx + 1) buf'"
        using Cons_nth_drop_Suc [of idx buf'] i IH(2) hd by simp
      then have "take (length (take (Suc k) (?b # ?L)) + 1) (drop idx buf') = take (Suc k) (?b # ?L) @ [0]"
        using IH(5) by simp
      moreover have "n - 1 - idx = Suc k" "n - idx = Suc (n - (idx + 1))"
        using Suc.hyps(2) lt by simp_all
      moreover have "drop n buf' = drop n buf"
        using IH(4) lt by simp
      ultimately show ?thesis
        unfolding loop line using IH(1,2,6) tk by (intro exI [of _ buf'] exI [of _ f'']) (auto split: if_splits)
    qed
  qed
qed

text \<open>\<open>fgets_ext\<close> with room for \<open>n\<close> bytes returns the next line, NUL-terminated, when it has fewer than
  \<open>n\<close> characters; of a longer line it returns \<open>n - 1\<close> characters, but advances by \<open>n\<close>: the character
  at the cut is lost. It writes nothing behind its \<open>n\<close> bytes.
\<close>

lemma fgets_ext_line:
  assumes "stands_at st d f p" and "p < length d" and "0xFF \<notin> set d" and "1 < n" and "n \<le> int (length buf)"
  shows "\<exists>buf' f'. fgets_ext st buf n f = Some (True, buf', f') \<and> length buf' = length buf \<and> drop (nat n) buf' = drop (nat n) buf \<and>
     (let l = line (drop p d); shown = take (nat n - 1) l in
      take (length shown + 1) buf' = shown @ [0] \<and>
      stands_at st d f' (p + (if length l < nat n then length l else nat n)))"
proof -
  obtain c f1 where g: "getc_ext st f = Some (c, f1)" "on_hand st d p c f1"
    using getc_on_hand [OF assms(1)] by blast
  have "d ! p \<noteq> 0xFF" using assms(2,3) nth_mem by metis
  then have c: "c \<noteq> EOF_EXT" using g(2) assms(2) by (simp add: on_hand_def EOF_EXT_def sint_byte_eq)
  have n: "(0 :: nat) \<le> nat n - 1" "nat n \<le> length buf" "1 < nat n" using assms(4,5) by simp_all
  have len: "length l \<le> nat n - 1 - 0 \<longleftrightarrow> length l < nat n" for l :: "byte list"
    using n(3) by auto
  have fgets: "fgets_ext st buf n f = gets_finish (nat n) (fgets_loop (getc_ext st) (nat n) c 0 buf f1)"
    using assms(4) c by (simp add: fgets_ext_def fgets_gen_finish g(1))
  show ?thesis
    using loop_lines [OF assms(3) g(2) n] unfolding fgets len by (simp add: Let_def if_distrib cong: if_cong)
qed

lemma fgets_ext_line_witness:
  "let st = \<lparr>st_flash = [0x61, 0x62, 0x63, 0x64, 0x0A], st_update = \<lambda>_ _. None\<rparr>;
       f = \<lparr>lf_section = FLASH_SECTION, lf_item = \<lparr>ti_file = [0x61], ti_offset = 0, ti_len = 5\<rparr>, lf_offset = 0\<rparr>
   in \<exists>buf' f'. fgets_ext st [9, 9, 9, 9] 3 f = Some (True, buf', f') \<and> take 3 buf' = [0x61, 0x62, 0] \<and> ftell_ext f' = 3"
proof -
  let ?st = "\<lparr>st_flash = [0x61, 0x62, 0x63, 0x64, 0x0A], st_update = \<lambda>_ _. None\<rparr> :: storage"
  let ?f = "\<lparr>lf_section = FLASH_SECTION, lf_item = \<lparr>ti_file = [0x61], ti_offset = 0, ti_len = 5\<rparr>, lf_offset = 0\<rparr>"
  let ?d = "[0x61, 0x62, 0x63, 0x64, 0x0A] :: byte list"
  have at: "stands_at ?st ?d ?f 0"
    by (simp add: stands_at_def backed_def layout_simps)
  have nf: "0xFF \<notin> set ?d" by code_simp
  have l: "line (drop 0 ?d) = ?d" "nat 3 - 1 = 2" by code_simp+
  obtain buf' f' where r: "fgets_ext ?st [9, 9, 9, 9] 3 ?f = Some (True, buf', f')"
      "take (length (take 2 ?d) + 1) buf' = take 2 ?d @ [0]"
      "stands_at ?st ?d f' (0 + (if length ?d < nat 3 then length ?d else nat 3))"
    using fgets_ext_line [OF at _ nf, of 3 "[9, 9, 9, 9]"] unfolding Let_def l by auto
  have e: "length (take 2 ?d) + 1 = 3" "take 2 ?d @ [0] = [0x61, 0x62, 0]" by code_simp+
  have "take 3 buf' = [0x61, 0x62, 0]"
    using r(2) by (simp only: e)
  then show ?thesis
    using r(1,3) by (auto simp: Let_def stands_at_def ftell_ext_def)
qed

section \<open>From the packer to the reader\<close>


text \<open>Two scripts \<open>a.lua\<close> and \<open>b.bmp\<close>.\<close>

definition sample_files :: "(byte list \<times> byte list) list" where
  "sample_files = [([0x61, 0x2E, 0x6C, 0x75, 0x61], [0x78, 0x0A]), ([0x62, 0x2E, 0x62, 0x6D, 0x70], [0xFF, 0])]"

definition sample_host :: host where
  "sample_host = \<lparr>h_unzip = \<lambda>_ _ _. 0, h_open = \<lambda>_ _. True, h_write = \<lambda>_ _ d. length d,
     h_file = \<lambda>_ _. None, h_unzip_file = \<lambda>_ _ _. 0,
     h_mem = \<lambda>_. True, h_files_mem = True, lua_dir = [0x2F, 0x6C], lua_data_dir = [0x2F, 0x64]\<rparr>"

lemma sample_files_ok:
  "sample_files \<noteq> []" "length sample_files < 256" "distinct (map fst sample_files)"
  "\<forall>f \<in> set sample_files. in_table sample_host (fst f) \<and> snd f \<noteq> []"
  "length (package 1 sample_files) \<le> unat (100 :: u32)" "length (package 1 sample_files) < 2 ^ 31"
  by (simp_all add: sample_files_def package_def)
     (simp add: in_table_def table_exts_def ext_lua_def table_path_def sample_host_def)


end
