(* ===== verification/Boot.thy ===== *)
theory Boot
  imports LuadbProps
begin

text \<open>
  Start-up of the script environment (\<open>shell/src/shell.c\<close>): \<open>load_luadb\<close> installs the update package, if
  there is one, and the script section, and restarts the system when the update is done; \<open>LuaAppTask\<close>
  decides which script the interpreter gets. The tables are empty at power-on, so a boot depends on the
  log of file operations only. The buffer of the package is taken to be allocated and read in full.
\<close>

section \<open>Files\<close>

definition path_of :: "string \<Rightarrow> byte list" where
  "path_of str = map (\<lambda>c. of_nat (of_char c)) str"

definition LUA_ENTRY_FILE :: "byte list" where "LUA_ENTRY_FILE = path_of ''/lua/main.lua''"
definition LUA_ENTRY_FILE_ZIP :: "byte list" where "LUA_ENTRY_FILE_ZIP = path_of ''/luazip/main.lua.zip''"
definition LUA_CHECK_INTEGRITY_FILE :: "byte list" where "LUA_CHECK_INTEGRITY_FILE = path_of ''/integrity.bin''"
definition LUA_INTEGRITY_FLAG :: u32 where "LUA_INTEGRITY_FLAG = 0xABCD8765"
definition LUA_SCRIPT_SIZE :: u32 where "LUA_SCRIPT_SIZE = 0x00060000"
definition LUA_DIR :: "byte list" where "LUA_DIR = path_of ''/lua''"
definition LUA_DATA_DIR :: "byte list" where "LUA_DATA_DIR = path_of ''/ldata''"

definition emit :: "effect list \<Rightarrow> luadb \<Rightarrow> luadb" where
  "emit es s = s\<lparr>db_log := db_log s @ es\<rparr>"

section \<open>load_luadb\<close>

text \<open>The update package: \<open>file_override\<close>, if it is decided here, \<open>restart1\<close> and the state.\<close>

definition load_update :: "host \<Rightarrow> luadb \<Rightarrow> (bool option \<times> bool \<times> luadb) option" where
  "load_update h s =
     (case h_file h (db_log s) LUA_UPDATE_FILE of
        None \<Rightarrow> Some (None, False, s)
      | Some buff \<Rightarrow>
        (case parse_luadb_data h buff (of_nat (length buff)) True UPDATE_SECTION False s of
           None \<Rightarrow> None
         | Some (err, s, restart1) \<Rightarrow>
           if err \<noteq> LUADB_ERR_NONE then Some (Some True, True, emit [RemoveFile LUA_UPDATE_FILE] s)
           else Some (None, restart1, s)))"

text \<open>The flag that says the script section was unpacked before; \<open>None\<close> when the file is shorter than
  the flag, which then is compared unset.\<close>

definition integrity_override :: "host \<Rightarrow> luadb \<Rightarrow> bool option" where
  "integrity_override h s =
     (case h_file h (db_log s) LUA_CHECK_INTEGRITY_FILE of
        None \<Rightarrow> Some True
      | Some bs \<Rightarrow> map_option (\<lambda>x. x \<noteq> LUA_INTEGRITY_FLAG) (rd32 bs))"

definition integrity_flag :: "byte list" where
  "integrity_flag = [0x65, 0x87, 0xCD, 0xAB]"

definition load_luadb :: "host \<Rightarrow> byte list \<Rightarrow> luadb \<Rightarrow> (int \<times> luadb) option" where
  "load_luadb h flash s =
     (case load_update h s of None \<Rightarrow> None
      | Some (decided, restart1, s) \<Rightarrow>
        (case (case decided of Some b \<Rightarrow> Some b | None \<Rightarrow> integrity_override h s) of None \<Rightarrow> None
         | Some file_override \<Rightarrow>
           (case parse_luadb_data h flash LUA_SCRIPT_SIZE file_override FLASH_SECTION False s of None \<Rightarrow> None
            | Some (result, s, restart2) \<Rightarrow>
              let s = (if file_override \<and> h_open h (db_log s) LUA_CHECK_INTEGRITY_FILE
                       then emit [WriteFile LUA_CHECK_INTEGRITY_FILE integrity_flag] s else s)
              in Some (result, if restart1 \<or> restart2 then emit [Restart] s else s))))"

section \<open>LuaAppTask\<close>

datatype script = Argv_null | Argv_script_const | Argv_script_file

definition existScript :: "byte list \<Rightarrow> bool" where
  "existScript flash \<longleftrightarrow> \<not> (flash ! 0 = 0xFF \<or> flash ! 0 = 0)"

text \<open>The old way of updating: a compressed main script.\<close>

definition unzip_entry :: "host \<Rightarrow> luadb \<Rightarrow> luadb" where
  "unzip_entry h s =
     (if file_exist h LUA_ENTRY_FILE_ZIP s then
        (if h_unzip_file h (db_log s) LUA_ENTRY_FILE_ZIP LUA_ENTRY_FILE = 0
         then emit [UnzipFile LUA_ENTRY_FILE_ZIP LUA_ENTRY_FILE, RemoveFile LUA_ENTRY_FILE_ZIP, Restart] s
         else emit [UnzipFile LUA_ENTRY_FILE_ZIP LUA_ENTRY_FILE] s)
      else s)"

definition LuaAppTask :: "host \<Rightarrow> byte list \<Rightarrow> luadb \<Rightarrow> (script \<times> luadb) option" where
  "LuaAppTask h flash s =
     (case load_luadb h flash s of None \<Rightarrow> None
      | Some (dbret, s) \<Rightarrow>
        let existLuaDB = (dbret \<noteq> LUADB_ERR_NOT_DBDATA) in
        if existScript flash \<or> existLuaDB then
          let s = unzip_entry h s in
          Some (if file_exist h LUA_ENTRY_FILE s then Argv_script_file
                else if existLuaDB then Argv_null else Argv_script_const, s)
        else Some (Argv_null, s))"

definition power_on :: "effect list \<Rightarrow> luadb" where
  "power_on es = \<lparr>pUpdateFileTable = [], pFlashFileTable = [], db_log = es, delupdpack = False, wrFile = False\<rparr>"

definition boot :: "host \<Rightarrow> byte list \<Rightarrow> effect list \<Rightarrow> (script \<times> luadb) option" where
  "boot h flash es = LuaAppTask h flash (power_on es)"

end
