(* ===== verification/BootProps.thy ===== *)
theory BootProps
  imports Boot
begin

text \<open>
  What start-up promises: an update package of compressed files is removed after one restart, whether it
  could be unpacked or not, and the next boot runs on; a package that also has a file used in place is kept,
  and restarts the system at every boot. The file system is a parameter with the contract \<open>fs_ok\<close>.
\<close>

section \<open>The file system\<close>

fun touched :: "effect \<Rightarrow> byte list set" where
  "touched (Unzip p) = {p}"
| "touched (WriteFile p d) = {p}"
| "touched (RemoveFile p) = {p}"
| "touched (UnzipFile q p) = {p}"
| "touched Restart = {}"

text \<open>A removed file is gone, a written file has its bytes, other files keep theirs.\<close>

definition fs_ok :: "host \<Rightarrow> bool" where
  "fs_ok h \<longleftrightarrow> (\<forall>es p. h_file h (es @ [RemoveFile p]) p = None) \<and>
     (\<forall>es p d. h_file h (es @ [WriteFile p d]) p = Some d) \<and>
     (\<forall>es e p. p \<notin> touched e \<longrightarrow> h_file h (es @ [e]) p = h_file h es p)"

lemma fs_laws:
  assumes "fs_ok h"
  shows "h_file h (es @ [RemoveFile p]) p = None" and "h_file h (es @ [WriteFile p d]) p = Some d"
    and "p \<notin> touched e \<Longrightarrow> h_file h (es @ [e]) p = h_file h es p"
  using assms unfolding fs_ok_def by blast+

lemma fs_keeps:
  assumes "fs_ok h" and "\<forall>e \<in> set es'. p \<notin> touched e"
  shows "h_file h (es @ es') p = h_file h es p"
  using assms(2)
proof (induction es' rule: rev_induct)
  case (snoc e es')
  have "h_file h ((es @ es') @ [e]) p = h_file h (es @ es') p"
    using snoc.prems by (intro fs_laws(3) [OF assms(1)]) simp
  then show ?case using snoc by simp
qed simp

section \<open>Compressed files\<close>

definition zip_path :: "host \<Rightarrow> byte list \<Rightarrow> byte list" where
  "zip_path h name = (if take 4 (drop (length name - 8) name) = ext_lua then lua_dir h else lua_data_dir h)
     @ [0x2F] @ take (length name - 4) name"

definition zip_ok :: "host \<Rightarrow> byte list \<Rightarrow> bool" where
  "zip_ok h name \<longleftrightarrow> 8 \<le> length name \<and> length name < 256 \<and> drop (length name - 4) name = ext_zip \<and> 0 \<notin> set name
     \<and> length (zip_path h name) < 256"

lemma put_file_zip:
  assumes "zip_ok h (df_name fi)" and "slice pData fi = Some d"
  shows "put_file h pData True section n fi s =
     (let p = zip_path h (df_name fi); s' = emit [Unzip p] s in
      if h_unzip h (db_log s) d p \<noteq> 0 then Some (LUADB_ERR_UNZIP_FILE, s') else Some (0, s'\<lparr>wrFile := True\<rparr>))"
proof -
  let ?n = "length (df_name fi)"
  have m: "(?n - 4 + 256 - 4) mod 256 = ?n - 8"
  proof -
    have n: "8 \<le> ?n" "?n < 256"
      using assms(1) unfolding zip_ok_def by blast+
    obtain k where k: "?n = 8 + k" using le_Suc_ex [OF n(1)] by blast
    then have "k < 256" using n(2) by simp
    then show ?thesis by (simp add: k)
  qed
  have tw: "takeWhile (\<lambda>b. b \<noteq> 0) (take (?n - 4) (df_name fi)) = take (?n - 4) (df_name fi)"
    using assms(1) by (auto simp: zip_ok_def takeWhile_eq_all_conv dest: in_set_takeD)
  have len: "length (zip_path h (df_name fi)) < 256"
    using assms(1) by (simp add: zip_ok_def)
  have path: "make_path (if take 4 (drop (?n - 8) (df_name fi)) = ext_lua then lua_dir h else lua_data_dir h) (df_name fi) (?n - 4)
      = Some (zip_path h (df_name fi))"
    using len unfolding make_path_def Let_def tw zip_path_def by (simp only: if_True)
  show ?thesis
    using assms path unfolding put_file_def put_zip_def Let_def m
    by (simp add: zip_ok_def must_write_def emit_def)
qed

text \<open>Compressed files only: whatever the decompressor answers, nothing but its calls is done.\<close>

lemma put_files_zips:
  assumes "\<forall>fi \<in> set fs. zip_ok h (df_name fi) \<and> slice pData fi \<noteq> None"
  shows "\<exists>err k w. put_files h pData True section n fs s =
     Some (err, s\<lparr>db_log := db_log s @ map (\<lambda>fi. Unzip (zip_path h (df_name fi))) (take k fs), wrFile := w\<rparr>)"
  using assms
proof (induction fs arbitrary: n s)
  case Nil
  have "s = s\<lparr>db_log := db_log s, wrFile := wrFile s\<rparr>" by simp
  then show ?case by (metis append_Nil2 list.map_disc_iff put_files.simps(1) take_Nil)
next
  case (Cons fi fs)
  obtain d where d: "slice pData fi = Some d" using Cons.prems by auto
  let ?p = "zip_path h (df_name fi)"
  have z: "zip_ok h (df_name fi)" using Cons.prems by simp
  show ?case
  proof (cases "h_unzip h (db_log s) d ?p = 0")
    case True
    let ?s = "emit [Unzip ?p] s\<lparr>wrFile := True\<rparr>"
    obtain err k w where "put_files h pData True section (Suc n) fs ?s =
       Some (err, ?s\<lparr>db_log := db_log ?s @ map (\<lambda>fi. Unzip (zip_path h (df_name fi))) (take k fs), wrFile := w\<rparr>)"
      using Cons.IH [of "Suc n" ?s] Cons.prems by auto
    then show ?thesis using put_file_zip [OF z d, of "section" n s] True
      by (intro exI [of _ err] exI [of _ "Suc k"] exI [of _ w]) (simp add: Let_def emit_def)
  next
    case False
    then show ?thesis using put_file_zip [OF z d, of "section" n s]
      by (intro exI [of _ LUADB_ERR_UNZIP_FILE] exI [of _ "Suc 0"] exI [of _ "wrFile s"])
        (simp add: Let_def emit_def LUADB_ERR_UNZIP_FILE_def)
  qed
qed

section \<open>The directories\<close>

definition dirs_ok :: "host \<Rightarrow> bool" where
  "dirs_ok h \<longleftrightarrow> lua_dir h = LUA_DIR \<and> lua_data_dir h = LUA_DATA_DIR"

lemmas path_defs = LUA_DIR_def LUA_DATA_DIR_def LUA_UPDATE_FILE_def LUA_CHECK_INTEGRITY_FILE_def path_of_def

lemma dir_heads: "take 5 LUA_DIR @ [0x2F] = [0x2F, 0x6C, 0x75, 0x61, 0x2F]" "take 3 LUA_DATA_DIR = [0x2F, 0x6C, 0x64]"
  "take 3 LUA_UPDATE_FILE = [0x2F, 0x6C, 0x75]" "take 5 LUA_UPDATE_FILE = [0x2F, 0x6C, 0x75, 0x61, 0x7A]"
  "take 2 LUA_CHECK_INTEGRITY_FILE = [0x2F, 0x69]" "LUA_DIR = [0x2F, 0x6C, 0x75, 0x61]" "LUA_DATA_DIR = [0x2F, 0x6C, 0x64, 0x61, 0x74, 0x61]"
  by code_simp+

text \<open>No file of a package can have the path of the package or of the integrity flag.\<close>

lemma dir_path_other:
  assumes "dir \<in> {LUA_DIR, LUA_DATA_DIR}"
  shows "dir @ [0x2F] @ name \<noteq> LUA_UPDATE_FILE" and "dir @ [0x2F] @ name \<noteq> LUA_CHECK_INTEGRITY_FILE"
proof -
  show "dir @ [0x2F] @ name \<noteq> LUA_UPDATE_FILE"
  proof
    assume e: "dir @ [0x2F] @ name = LUA_UPDATE_FILE"
    show False
      using assms arg_cong [OF e, of "take 5"] arg_cong [OF e, of "take 3"]
      unfolding dir_heads(3,4) by (auto simp: dir_heads(6,7))
  qed
  show "dir @ [0x2F] @ name \<noteq> LUA_CHECK_INTEGRITY_FILE"
  proof
    assume e: "dir @ [0x2F] @ name = LUA_CHECK_INTEGRITY_FILE"
    show False
      using assms arg_cong [OF e, of "take 2"] unfolding dir_heads(5) by (auto simp: dir_heads(6,7))
  qed
qed

lemma zip_path_other:
  assumes "dirs_ok h"
  shows "zip_path h name \<noteq> LUA_UPDATE_FILE" and "zip_path h name \<noteq> LUA_CHECK_INTEGRITY_FILE"
  using assms dir_path_other unfolding zip_path_def dirs_ok_def by auto

lemma update_not_integrity: "LUA_CHECK_INTEGRITY_FILE \<noteq> LUA_UPDATE_FILE"
  by code_simp

section \<open>The script section\<close>

text \<open>A script section whose files are all used in place.\<close>

definition flash_ok :: "host \<Rightarrow> byte list \<Rightarrow> bool" where
  "flash_ok h flash \<longleftrightarrow> h_files_mem h \<and> (\<forall>n. h_mem h n) \<and>
     (\<exists>ver fs r. flash = package ver fs @ r \<and> fs \<noteq> [] \<and> length fs < 256 \<and>
        (\<forall>f \<in> set fs. in_table h (fst f) \<and> snd f \<noteq> []) \<and> length (package ver fs) \<le> unat LUA_SCRIPT_SIZE)"

lemma parse_flash:
  assumes "flash_ok h flash"
  shows "\<exists>s'. parse_luadb_data h flash LUA_SCRIPT_SIZE override FLASH_SECTION False s = Some (0, s', False) \<and> db_log s' = db_log s"
proof -
  obtain ver fs r where f: "flash = package ver fs @ r" "fs \<noteq> []" "length fs < 256"
      "\<forall>f \<in> set fs. in_table h (fst f) \<and> snd f \<noteq> []" "length (package ver fs) \<le> unat LUA_SCRIPT_SIZE"
      and m: "h_files_mem h" "\<forall>n. h_mem h n"
    using assms unfolding flash_ok_def by blast
  show ?thesis
    using luadb_parse [OF f(2-5) m, of r override False s] f(1) by simp
qed

text \<open>The integrity file is absent or has its four bytes.\<close>

definition flag_ok :: "host \<Rightarrow> effect list \<Rightarrow> bool" where
  "flag_ok h es \<longleftrightarrow> (\<forall>bs. h_file h es LUA_CHECK_INTEGRITY_FILE = Some bs \<longrightarrow> 4 \<le> length bs)"

lemma rd32_long: "4 \<le> length bs \<Longrightarrow> rd32 bs \<noteq> None"
  by (cases bs rule: rd32.cases) simp_all

lemma integrity_some: "flag_ok h (db_log s) \<Longrightarrow> integrity_override h s \<noteq> None"
  using rd32_long unfolding flag_ok_def integrity_override_def by (auto split: option.splits)

definition flag_write :: "bool \<Rightarrow> effect list" where
  "flag_write w = (if w then [WriteFile LUA_CHECK_INTEGRITY_FILE integrity_flag] else [])"

lemma load_tail:
  assumes "load_update h s = Some (decided, restart1, s1)" and "flash_ok h flash" and "flag_ok h (db_log s1)"
  shows "\<exists>s2 w. load_luadb h flash s = Some (0, s2) \<and>
     db_log s2 = db_log s1 @ flag_write w @ (if restart1 then [Restart] else [])"
proof -
  obtain b where b: "(case decided of Some b \<Rightarrow> Some b | None \<Rightarrow> integrity_override h s1) = Some b"
    using integrity_some [OF assms(3)] by (cases decided) auto
  obtain s' where p: "parse_luadb_data h flash LUA_SCRIPT_SIZE b FLASH_SECTION False s1 = Some (0, s', False)" "db_log s' = db_log s1"
    using parse_flash [OF assms(2)] by blast
  define w where "w = (b \<and> h_open h (db_log s') LUA_CHECK_INTEGRITY_FILE)"
  define s2 where "s2 = emit (flag_write w @ (if restart1 then [Restart] else [])) s'"
  have "(if w then emit [WriteFile LUA_CHECK_INTEGRITY_FILE integrity_flag] s' else s') = emit (flag_write w) s'"
    by (simp add: emit_def flag_write_def)
  then have "load_luadb h flash s = Some (0, s2)"
    using assms(1) b p(1) by (simp add: load_luadb_def Let_def w_def [symmetric] s2_def) (simp add: emit_def)
  moreover have "db_log s2 = db_log s1 @ flag_write w @ (if restart1 then [Restart] else [])"
    using p(2) by (simp add: s2_def emit_def)
  ultimately show ?thesis by blast
qed

lemma flag_ok_write:
  assumes "fs_ok h" and "flag_ok h es"
  shows "flag_ok h (es @ flag_write w @ (if b then [Restart] else []))"
proof -
  have "flag_ok h (es @ flag_write w)"
    using assms fs_laws(2) [OF assms(1)] by (auto simp: flag_ok_def flag_write_def integrity_flag_def)
  then show ?thesis
    using fs_laws(3) [OF assms(1), of LUA_CHECK_INTEGRITY_FILE Restart "es @ flag_write w"] by (auto simp: flag_ok_def)
qed

section \<open>The update package\<close>

definition unzips :: "host \<Rightarrow> byte list list \<Rightarrow> effect list" where
  "unzips h names = map (\<lambda>n. Unzip (zip_path h n)) names"

lemma unzips_other:
  assumes "dirs_ok h" and "e \<in> set (unzips h names)"
  shows "LUA_UPDATE_FILE \<notin> touched e" and "LUA_CHECK_INTEGRITY_FILE \<notin> touched e"
proof -
  obtain n where "e = Unzip (zip_path h n)" using assms(2) by (auto simp: unzips_def)
  then show "LUA_UPDATE_FILE \<notin> touched e" and "LUA_CHECK_INTEGRITY_FILE \<notin> touched e"
    using zip_path_other [OF assms(1), of n] by auto
qed

lemma package_byte: "\<exists>bs. package ver fs = 1 # bs"
  by (simp add: package_def enc_head_def seal_def tlv_bytes_def)

lemma load_update_zips:
  assumes "h_file h (db_log s) LUA_UPDATE_FILE = Some (package v zs)" and "h_files_mem h"
    and "\<forall>z \<in> set zs. zip_ok h (fst z)" and "length zs < 256" and "length (package v zs) < 2 ^ 32"
  shows "\<exists>k decided s1. load_update h s = Some (decided, True, s1) \<and>
     db_log s1 = db_log s @ unzips h (take k (map fst zs)) @ [RemoveFile LUA_UPDATE_FILE]"
proof -
  let ?pk = "package v zs" and ?items = "items_at 23 zs"
  have nm: "\<forall>f \<in> set zs. length (fst f) < 256"
    using assms(3) by (auto simp: zip_ok_def)
  have le: "length ?pk \<le> unat (of_nat (length ?pk) :: u32)"
    using unat_of_nat_u32 [OF assms(5)] by simp
  note dec = decode_package(1, 2, 4) [OF assms(4) nm le, of "[]", unfolded append_Nil2]
  note names = decode_package(3) [OF assms(4) nm le]
  have "\<forall>fi \<in> set ?items. zip_ok h (df_name fi) \<and> slice ?pk fi \<noteq> None"
  proof
    fix fi assume fi: "fi \<in> set ?items"
    have "df_name fi \<in> set (map fst zs)" using fi names by (metis image_eqI image_set)
    moreover have "slice ?pk fi \<in> set (map (Some \<circ> snd) zs)" using fi dec(3) by (metis image_eqI image_set)
    ultimately show "zip_ok h (df_name fi) \<and> slice ?pk fi \<noteq> None" using assms(3) by auto
  qed
  from put_files_zips [OF this, of UPDATE_SECTION 0 "s\<lparr>delupdpack := True, wrFile := False\<rparr>"]
  obtain err k w where put: "put_files h ?pk True UPDATE_SECTION 0 ?items (s\<lparr>delupdpack := True, wrFile := False\<rparr>) =
      Some (err, s\<lparr>delupdpack := True, wrFile := False\<rparr>\<lparr>db_log := db_log (s\<lparr>delupdpack := True, wrFile := False\<rparr>) @
        map (\<lambda>fi. Unzip (zip_path h (df_name fi))) (take k ?items), wrFile := w\<rparr>)"
    by blast
  have un: "map (\<lambda>fi. Unzip (zip_path h (df_name fi))) (take k ?items) = unzips h (take k (map fst zs))"
    unfolding unzips_def names [symmetric] by (simp add: take_map comp_def)
  have parse: "parse_luadb_data h ?pk (of_nat (length ?pk)) True UPDATE_SECTION False s =
      Some (finish UPDATE_SECTION False (err, s\<lparr>delupdpack := True, db_log := db_log s @ unzips h (take k (map fst zs)), wrFile := w\<rparr>))"
    using package_byte [of v zs] dec(1,2) put [unfolded un] assms(2) unfolding parse_luadb_data_def by (auto simp: Let_def)
  show ?thesis
    using assms(1) parse by (cases "err = 0") (auto simp: load_update_def finish_def emit_def LUADB_ERR_NONE_def Let_def)
qed

text \<open>C7. An update package of compressed files is applied by one restart: the boot that finds it tries to
  unpack it, removes it, whatever the decompressor says, and restarts; the boot after that does not restart.
\<close>

theorem update_settles:
  assumes "fs_ok h" and "dirs_ok h" and "flash_ok h flash" and "flag_ok h es"
    and "h_file h es LUA_UPDATE_FILE = Some (package v zs)"
    and "\<forall>z \<in> set zs. zip_ok h (fst z)" and "length zs < 256" and "length (package v zs) < 2 ^ 32"
  shows "\<exists>s1 s2. load_luadb h flash (power_on es) = Some (0, s1) \<and> Restart \<in> set (drop (length es) (db_log s1)) \<and>
     h_file h (db_log s1) LUA_UPDATE_FILE = None \<and>
     load_luadb h flash (power_on (db_log s1)) = Some (0, s2) \<and> Restart \<notin> set (drop (length (db_log s1)) (db_log s2))"
proof -
  have mem: "h_files_mem h" using assms(3) by (simp add: flash_ok_def)
  obtain k decided s0 where up: "load_update h (power_on es) = Some (decided, True, s0)"
      "db_log s0 = es @ unzips h (take k (map fst zs)) @ [RemoveFile LUA_UPDATE_FILE]"
    using load_update_zips [of h "power_on es" v zs] assms(5-8) mem by (auto simp: power_on_def)
  have keep: "h_file h (db_log s0) LUA_CHECK_INTEGRITY_FILE = h_file h es LUA_CHECK_INTEGRITY_FILE"
    unfolding up(2) using unzips_other(2) [OF assms(2)] update_not_integrity
    by (intro fs_keeps [OF assms(1)]) auto
  then have flag: "flag_ok h (db_log s0)" using assms(4) by (simp add: flag_ok_def)
  obtain s1 w where s1: "load_luadb h flash (power_on es) = Some (0, s1)" "db_log s1 = db_log s0 @ flag_write w @ [Restart]"
    using load_tail [OF up(1) assms(3) flag] by auto
  have gone: "h_file h (db_log s0) LUA_UPDATE_FILE = None"
    using fs_laws(1) [OF assms(1), of "es @ unzips h (take k (map fst zs))"] up(2) by simp
  have gone1: "h_file h (db_log s1) LUA_UPDATE_FILE = None"
    using fs_keeps [OF assms(1), of "flag_write w @ [Restart]" LUA_UPDATE_FILE "db_log s0"] gone update_not_integrity
    unfolding s1(2) by (auto simp: flag_write_def)
  have flag1: "flag_ok h (db_log s1)"
    using flag_ok_write [OF assms(1) flag, of w True] s1(2) by simp
  have up1: "load_update h (power_on (db_log s1)) = Some (None, False, power_on (db_log s1))"
    using gone1 by (simp add: load_update_def power_on_def)
  obtain s2 w' where s2: "load_luadb h flash (power_on (db_log s1)) = Some (0, s2)"
      "db_log s2 = db_log (power_on (db_log s1)) @ flag_write w'"
    using load_tail [OF up1 assms(3)] flag1 by (auto simp: power_on_def)
  show ?thesis
    using s1 s2 gone1 up(2) by (auto simp: power_on_def flag_write_def)
qed

section \<open>Packages that are kept\<close>

lemma zip_or_table: "zip_ok h name \<Longrightarrow> in_table h name \<Longrightarrow> False"
  using zip_not_in_table by (simp add: zip_ok_def in_table_def)

lemma put_files_mixed:
  assumes "\<forall>fi \<in> set fs. zip_ok h (df_name fi) \<and> slice pData fi \<noteq> None \<or> in_table h (df_name fi) \<and> df_length fi \<noteq> 0"
    and "\<forall>l d p. h_unzip h l d p = 0" and "\<forall>n. h_mem h n"
  shows "\<exists>s'. put_files h pData True UPDATE_SECTION n fs s = Some (0, s') \<and>
     db_log s' = db_log s @ unzips h (filter (zip_ok h) (map df_name fs)) \<and>
     (delupdpack s' \<longleftrightarrow> delupdpack s \<and> (\<forall>fi \<in> set fs. zip_ok h (df_name fi))) \<and>
     (wrFile s' \<longleftrightarrow> wrFile s \<or> (\<exists>fi \<in> set fs. zip_ok h (df_name fi)))"
  using assms(1)
proof (induction fs arbitrary: n s)
  case Nil
  then show ?case by (simp add: unzips_def)
next
  case (Cons fi fs)
  show ?case
  proof (cases "zip_ok h (df_name fi)")
    case True
    then obtain d where d: "slice pData fi = Some d" using Cons.prems zip_or_table by fastforce
    have put: "put_file h pData True UPDATE_SECTION n fi s = Some (0, emit [Unzip (zip_path h (df_name fi))] s\<lparr>wrFile := True\<rparr>)"
      using put_file_zip [OF True d, of UPDATE_SECTION n s] assms(2) by (simp add: Let_def)
    obtain s' where "put_files h pData True UPDATE_SECTION (Suc n) fs (emit [Unzip (zip_path h (df_name fi))] s\<lparr>wrFile := True\<rparr>) = Some (0, s')"
       "db_log s' = db_log s @ Unzip (zip_path h (df_name fi)) # unzips h (filter (zip_ok h) (map df_name fs))"
       "delupdpack s' \<longleftrightarrow> delupdpack s \<and> (\<forall>fi \<in> set fs. zip_ok h (df_name fi))" "wrFile s'"
      using Cons.IH [of "Suc n" "emit [Unzip (zip_path h (df_name fi))] s\<lparr>wrFile := True\<rparr>"] Cons.prems
      by (auto simp: emit_def)
    then show ?thesis
      using put True by (simp add: unzips_def)
  next
    case False
    let ?s = "fst (AddUncompressFileItem True UPDATE_SECTION (table_path h (df_name fi)) (sint (df_offset fi)) (sint (df_length fi))
       (s\<lparr>delupdpack := False\<rparr>))"
    have put: "put_file h pData True UPDATE_SECTION n fi s = Some (0, ?s)"
      using Cons.prems False assms(3) by (intro put_file_add) auto
    have s: "db_log ?s = db_log s" "\<not> delupdpack ?s" "wrFile ?s = wrFile s"
      by (auto simp: AddUncompressFileItem_def Let_def)
    obtain s' where "put_files h pData True UPDATE_SECTION (Suc n) fs ?s = Some (0, s')"
       "db_log s' = db_log s @ unzips h (filter (zip_ok h) (map df_name fs))"
       "\<not> delupdpack s'" "wrFile s' \<longleftrightarrow> wrFile s \<or> (\<exists>fi \<in> set fs. zip_ok h (df_name fi))"
      using Cons.IH [of "Suc n" ?s] Cons.prems s by auto
    then show ?thesis
      using put False by auto
  qed
qed

definition mixed :: "host \<Rightarrow> (byte list \<times> byte list) list \<Rightarrow> bool" where
  "mixed h us \<longleftrightarrow> (\<forall>u \<in> set us. zip_ok h (fst u) \<or> in_table h (fst u) \<and> snd u \<noteq> []) \<and>
     (\<exists>u \<in> set us. zip_ok h (fst u)) \<and> (\<exists>u \<in> set us. in_table h (fst u)) \<and> length us < 256"

lemma items_at_mem: "fi \<in> set (items_at pos us) \<Longrightarrow> \<exists>u \<in> set us. df_name fi = fst u \<and> of_nat (length (snd u)) = df_length fi"
  by (induction pos us rule: items_at.induct) (auto simp: Let_def)

lemma package_member: "u \<in> set us \<Longrightarrow> length (snd u) \<le> length (package v us)"
  using member_le_sum_list [of "length (enc_file u)" "map (length \<circ> enc_file) us"]
  by (force simp: package_def length_concat comp_def)

lemma mixed_items:
  assumes "mixed h us" and "length (package v us) < 2 ^ 32"
  shows "\<forall>fi \<in> set (items_at 23 us). zip_ok h (df_name fi) \<and> slice (package v us) fi \<noteq> None \<or> in_table h (df_name fi) \<and> df_length fi \<noteq> 0"
    and "set (map df_name (items_at 23 us)) = set (map fst us)"
    and "decodeHeadInfo (package v us) = Some (0, \<lparr>hi_verNum = v, hi_filecount = length us, hi_length = 23\<rparr>)"
    and "decode_luadb (package v us) (of_nat (length (package v us))) \<lparr>hi_verNum = v, hi_filecount = length us, hi_length = 23\<rparr>
      = Some (Inr (items_at 23 us))"
proof -
  have nm: "\<forall>u \<in> set us. length (fst u) < 256"
    using assms(1) by (auto simp: mixed_def zip_ok_def in_table_def table_path_def)
  have n: "length us < 256" using assms(1) by (simp add: mixed_def)
  have le: "length (package v us) \<le> unat (of_nat (length (package v us)) :: u32)"
    using unat_of_nat_u32 [OF assms(2)] by simp
  note dec = decode_package(1, 2, 4) [OF n nm le, of "[]", unfolded append_Nil2]
  note names = decode_package(3) [OF n nm le]
  show "decodeHeadInfo (package v us) = Some (0, \<lparr>hi_verNum = v, hi_filecount = length us, hi_length = 23\<rparr>)"
    "decode_luadb (package v us) (of_nat (length (package v us))) \<lparr>hi_verNum = v, hi_filecount = length us, hi_length = 23\<rparr>
      = Some (Inr (items_at 23 us))"
    by (rule dec(1), rule dec(2))
  show "set (map df_name (items_at 23 us)) = set (map fst us)" by (simp only: names)
  show "\<forall>fi \<in> set (items_at 23 us). zip_ok h (df_name fi) \<and> slice (package v us) fi \<noteq> None \<or> in_table h (df_name fi) \<and> df_length fi \<noteq> 0"
  proof
    fix fi assume fi: "fi \<in> set (items_at 23 us)"
    have "slice (package v us) fi \<in> set (map (Some \<circ> snd) us)" using fi dec(3) by (metis image_eqI image_set)
    then have "slice (package v us) fi \<noteq> None" by auto
    moreover have "\<exists>u \<in> set us. df_name fi = fst u \<and> of_nat (length (snd u)) = df_length fi"
      using fi items_at_mem by blast
    then obtain u where u: "u \<in> set us" "df_name fi = fst u" "of_nat (length (snd u)) = df_length fi" by blast
    have "snd u \<noteq> [] \<Longrightarrow> df_length fi \<noteq> 0"
      using u(1,3) package_member [OF u(1), of v] assms(2) unat_of_nat_u32 [of "length (snd u)"] by force
    ultimately show "zip_ok h (df_name fi) \<and> slice (package v us) fi \<noteq> None \<or> in_table h (df_name fi) \<and> df_length fi \<noteq> 0"
      using assms(1) u by (auto simp: mixed_def)
  qed
qed

lemma load_update_mixed:
  assumes "h_file h (db_log s) LUA_UPDATE_FILE = Some (package v us)" and "mixed h us" and "length (package v us) < 2 ^ 32"
    and "h_files_mem h" and "\<forall>n. h_mem h n" and "\<forall>l d p. h_unzip h l d p = 0"
  shows "\<exists>names s1. load_update h s = Some (None, True, s1) \<and> db_log s1 = db_log s @ unzips h names"
proof -
  let ?pk = "package v us" and ?items = "items_at 23 us"
  note items = mixed_items [OF assms(2,3)]
  obtain s' where put: "put_files h ?pk True UPDATE_SECTION 0 ?items (s\<lparr>delupdpack := True, wrFile := False\<rparr>) = Some (0, s')"
     "db_log s' = db_log s @ unzips h (filter (zip_ok h) (map df_name ?items))"
     "delupdpack s' \<longleftrightarrow> (\<forall>fi \<in> set ?items. zip_ok h (df_name fi))" "wrFile s' \<longleftrightarrow> (\<exists>fi \<in> set ?items. zip_ok h (df_name fi))"
    using put_files_mixed [OF items(1) assms(6,5), of 0 "s\<lparr>delupdpack := True, wrFile := False\<rparr>"] by auto
  have names: "df_name ` set ?items = fst ` set us" using items(2) by simp
  obtain z where z: "z \<in> set us" "zip_ok h (fst z)" using assms(2) by (auto simp: mixed_def)
  obtain t where t: "t \<in> set us" "in_table h (fst t)" using assms(2) by (auto simp: mixed_def)
  have "\<exists>fi \<in> set ?items. zip_ok h (df_name fi)"
    using z names by (metis (no_types, lifting) image_iff)
  moreover have "\<exists>fi \<in> set ?items. \<not> zip_ok h (df_name fi)"
    using t names zip_or_table by (metis (no_types, lifting) image_iff)
  ultimately have w: "\<not> delupdpack s'" "wrFile s'" using put(3,4) by auto
  have "parse_luadb_data h ?pk (of_nat (length ?pk)) True UPDATE_SECTION False s = Some (0, s', True)"
    using package_byte [of v us] items(3,4) put(1) w assms(4) unfolding parse_luadb_data_def
    by (auto simp: Let_def finish_def LUADB_ERR_NONE_def)
  then show ?thesis
    using assms(1) put(2) by (auto simp: load_update_def LUADB_ERR_NONE_def)
qed

lemma boot_again:
  assumes "fs_ok h" and "dirs_ok h" and "flash_ok h flash" and "flag_ok h es"
    and "h_file h es LUA_UPDATE_FILE = Some (package v us)" and "mixed h us" and "length (package v us) < 2 ^ 32"
    and "\<forall>l d p. h_unzip h l d p = 0"
  shows "\<exists>s. load_luadb h flash (power_on es) = Some (0, s) \<and> Restart \<in> set (drop (length es) (db_log s)) \<and>
     h_file h (db_log s) LUA_UPDATE_FILE = Some (package v us) \<and> flag_ok h (db_log s)"
proof -
  have mem: "h_files_mem h" "\<forall>n. h_mem h n" using assms(3) by (auto simp: flash_ok_def)
  obtain names s0 where up: "load_update h (power_on es) = Some (None, True, s0)" "db_log s0 = es @ unzips h names"
    using load_update_mixed [of h "power_on es" v us] assms(5-8) mem by (auto simp: power_on_def)
  have "h_file h (db_log s0) LUA_CHECK_INTEGRITY_FILE = h_file h es LUA_CHECK_INTEGRITY_FILE"
    unfolding up(2) using unzips_other(2) [OF assms(2)] by (intro fs_keeps [OF assms(1)]) auto
  then have flag: "flag_ok h (db_log s0)" using assms(4) by (simp add: flag_ok_def)
  obtain s w where s: "load_luadb h flash (power_on es) = Some (0, s)" "db_log s = db_log s0 @ flag_write w @ [Restart]"
    using load_tail [OF up(1) assms(3) flag] by auto
  have "h_file h (es @ unzips h names @ flag_write w @ [Restart]) LUA_UPDATE_FILE = h_file h es LUA_UPDATE_FILE"
    using unzips_other(1) [OF assms(2)] update_not_integrity
    by (intro fs_keeps [OF assms(1)]) (auto simp: flag_write_def)
  then show ?thesis
    using s up(2) assms(5) flag_ok_write [OF assms(1) flag, of w True] by (auto simp: append_assoc)
qed

text \<open>The log after \<open>n\<close> boots.\<close>

fun boots :: "host \<Rightarrow> byte list \<Rightarrow> nat \<Rightarrow> effect list \<Rightarrow> effect list option" where
  "boots h flash 0 es = Some es"
| "boots h flash (Suc n) es =
     (case load_luadb h flash (power_on es) of None \<Rightarrow> None | Some (_, s) \<Rightarrow> boots h flash n (db_log s))"


section \<open>The script that runs\<close>

lemma find_table_of: "find_item (table_of h fs) p \<noteq> None \<longleftrightarrow> p \<in> table_path h ` df_name ` set fs"
proof -
  have "find_item is p \<noteq> None \<longleftrightarrow> p \<in> ti_file ` set is" for "is"
    by (induction "is") auto
  then show ?thesis by (simp add: table_of_def image_image)
qed

lemma entry_heads: "LUA_ENTRY_FILE = LUA_DIR @ [0x2F] @ path_of ''main.lua''" "take 5 LUA_ENTRY_FILE_ZIP = [0x2F, 0x6C, 0x75, 0x61, 0x7A]"
  "take 3 LUA_ENTRY_FILE = [0x2F, 0x6C, 0x75]" "take 3 LUA_ENTRY_FILE_ZIP = [0x2F, 0x6C, 0x75]"
  "drop (length (path_of ''main.lua'') - 4) (path_of ''main.lua'') = ext_lua"
  "LUA_ENTRY_FILE \<noteq> LUA_CHECK_INTEGRITY_FILE" "LUA_ENTRY_FILE_ZIP \<noteq> LUA_CHECK_INTEGRITY_FILE"
  by code_simp+

lemma table_path_entry:
  assumes "dirs_ok h"
  shows "table_path h name = LUA_ENTRY_FILE \<longleftrightarrow> name = path_of ''main.lua''" and "table_path h name \<noteq> LUA_ENTRY_FILE_ZIP"
proof -
  have data: "take 3 (LUA_DATA_DIR @ xs) = [0x2F, 0x6C, 0x64]" for xs by (simp add: dir_heads(7))
  have dir: "take 5 (LUA_DIR @ [0x2F] @ xs) = [0x2F, 0x6C, 0x75, 0x61, 0x2F]" for xs by (simp add: dir_heads(6))
  have no_data: "LUA_DATA_DIR @ xs \<noteq> LUA_ENTRY_FILE" "LUA_DATA_DIR @ xs \<noteq> LUA_ENTRY_FILE_ZIP" for xs
  proof -
    have "take 3 (LUA_DATA_DIR @ xs) \<noteq> take 3 LUA_ENTRY_FILE" "take 3 (LUA_DATA_DIR @ xs) \<noteq> take 3 LUA_ENTRY_FILE_ZIP"
      unfolding data entry_heads(3,4) by code_simp+
    then show "LUA_DATA_DIR @ xs \<noteq> LUA_ENTRY_FILE" "LUA_DATA_DIR @ xs \<noteq> LUA_ENTRY_FILE_ZIP" by metis+
  qed
  have no_zip: "LUA_DIR @ [0x2F] @ xs \<noteq> LUA_ENTRY_FILE_ZIP" for xs
  proof -
    have "take 5 (LUA_DIR @ [0x2F] @ xs) \<noteq> take 5 LUA_ENTRY_FILE_ZIP"
      unfolding dir entry_heads(2) by code_simp
    then show ?thesis by metis
  qed
  show "table_path h name = LUA_ENTRY_FILE \<longleftrightarrow> name = path_of ''main.lua''"
  proof
    assume "name = path_of ''main.lua''"
    then show "table_path h name = LUA_ENTRY_FILE"
      using assms entry_heads(5) unfolding entry_heads(1) table_path_def dirs_ok_def by simp
  next
    assume t: "table_path h name = LUA_ENTRY_FILE"
    then have "table_path h name = LUA_DIR @ [0x2F] @ name"
      using assms no_data(1) unfolding table_path_def dirs_ok_def
      by (cases "drop (length name - 4) name = ext_lua") auto
    then show "name = path_of ''main.lua''" using t unfolding entry_heads(1) by simp
  qed
  show "table_path h name \<noteq> LUA_ENTRY_FILE_ZIP"
    using assms no_data(2) no_zip unfolding table_path_def dirs_ok_def
    by (cases "drop (length name - 4) name = ext_lua") auto
qed


section \<open>An instance\<close>

text \<open>A file system that replays the log, with an update package at the beginning.\<close>

fun replay :: "byte list option \<Rightarrow> effect list \<Rightarrow> byte list \<Rightarrow> byte list option" where
  "replay upd [] p = (if p = LUA_UPDATE_FILE then upd else None)"
| "replay upd (e # es) p =
     (case e of RemoveFile q \<Rightarrow> if q = p then None else replay upd es p
      | WriteFile q d \<Rightarrow> if q = p then Some d else replay upd es p
      | Unzip q \<Rightarrow> if q = p then Some [] else replay upd es p
      | UnzipFile _ q \<Rightarrow> if q = p then Some [] else replay upd es p
      | Restart \<Rightarrow> replay upd es p)"

definition replay_host :: "byte list option \<Rightarrow> host" where
  "replay_host upd = \<lparr>h_unzip = \<lambda>_ _ _. 0, h_open = \<lambda>_ _. True, h_write = \<lambda>_ _ d. length d, h_file = \<lambda>es. replay upd (rev es),
     h_unzip_file = \<lambda>_ _ _. 0, h_mem = \<lambda>_. True, h_files_mem = True, lua_dir = LUA_DIR, lua_data_dir = LUA_DATA_DIR\<rparr>"

definition sample_script :: "(byte list \<times> byte list) list" where
  "sample_script = [(path_of ''main.lua'', [0x78])]"

definition sample_zip :: "byte list \<times> byte list" where
  "sample_zip = (path_of ''b.lua.zip'', [1, 2, 3])"

lemma replay_host_ok: "fs_ok (replay_host upd)" "dirs_ok (replay_host upd)" "flag_ok (replay_host upd) []"
  "h_file (replay_host upd) [] LUA_UPDATE_FILE = upd"
proof -
  show "fs_ok (replay_host upd)"
    unfolding fs_ok_def
  proof (intro conjI allI impI)
    fix es e p assume "p \<notin> touched e"
    then show "h_file (replay_host upd) (es @ [e]) p = h_file (replay_host upd) es p"
      by (cases e) (auto simp: replay_host_def)
  qed (simp_all add: replay_host_def)
  show "dirs_ok (replay_host upd)" by (simp add: dirs_ok_def replay_host_def)
  show "flag_ok (replay_host upd) []" "h_file (replay_host upd) [] LUA_UPDATE_FILE = upd"
    using update_not_integrity by (simp_all add: flag_ok_def replay_host_def)
qed

lemma sample_ok: "in_table (replay_host upd) (path_of ''main.lua'')" "zip_ok (replay_host upd) (path_of ''b.lua.zip'')"
proof -
  have "in_table (replay_host None) (path_of ''main.lua'')" "zip_ok (replay_host None) (path_of ''b.lua.zip'')"
    by code_simp+
  moreover have paths: "table_path (replay_host upd) = table_path (replay_host None)" "zip_path (replay_host upd) = zip_path (replay_host None)"
    by (rule ext, simp add: table_path_def zip_path_def replay_host_def)+
  ultimately show "in_table (replay_host upd) (path_of ''main.lua'')" "zip_ok (replay_host upd) (path_of ''b.lua.zip'')"
    by (simp_all add: in_table_def zip_ok_def)
qed

lemma sample_flash: "flash_ok (replay_host upd) (package 1 sample_script)"
proof -
  have "length (package 1 sample_script) \<le> unat LUA_SCRIPT_SIZE"
    by (simp add: package_def sample_script_def path_of_def LUA_SCRIPT_SIZE_def)
  then show ?thesis
    using sample_ok(1) unfolding flash_ok_def
    by (intro conjI exI [of _ 1] exI [of _ sample_script] exI [of _ "[]"]) (auto simp: sample_script_def replay_host_def)
qed

lemma update_settles_witness:
  "\<exists>s1 s2. let h = replay_host (Some (package 1 [sample_zip])) in
     load_luadb h (package 1 sample_script) (power_on []) = Some (0, s1) \<and> Restart \<in> set (drop (length ([] :: effect list)) (db_log s1)) \<and>
     h_file h (db_log s1) LUA_UPDATE_FILE = None \<and>
     load_luadb h (package 1 sample_script) (power_on (db_log s1)) = Some (0, s2) \<and> Restart \<notin> set (drop (length (db_log s1)) (db_log s2))"
  unfolding Let_def
proof (rule update_settles [OF replay_host_ok(1,2) sample_flash replay_host_ok(3) replay_host_ok(4)])
  show "\<forall>z \<in> set [sample_zip]. zip_ok (replay_host (Some (package 1 [sample_zip]))) (fst z)"
    using sample_ok(2) by (simp add: sample_zip_def)
  show "length [sample_zip] < 256" "length (package 1 [sample_zip]) < 2 ^ 32"
    by (simp_all add: package_def sample_zip_def path_of_def)
qed

definition sample_mixed :: "(byte list \<times> byte list) list" where
  "sample_mixed = sample_zip # sample_script"



end
