(* ===== verification/Stdio.thy ===== *)
theory Stdio
  imports DevMan LuaFile
begin

text \<open>
  The stream layer \<open>newlib/libc/src/stdio.c\<close> with the static table of streams of \<open>findfp.c\<close>, over the
  system calls of theory \<open>DevMan\<close>. A stream is a slot of the table, or a handle on a file used in place
  (theory \<open>LuaFile\<close>). The state carries the world the devices work on.
\<close>

section \<open>State\<close>

definition SRD :: u16 where "SRD = 0x0004"
definition SWR :: u16 where "SWR = 0x0008"
definition SNBF :: u16 where "SNBF = 0x0002"
definition SRW :: u16 where "SRW = 0x0010"
definition SEOF :: u16 where "SEOF = 0x0020"
definition SERR :: u16 where "SERR = 0x0040"
definition SOFF :: u16 where "SOFF = 0x1000"
definition O_RDONLY :: u32 where "O_RDONLY = 0x0"
definition O_WRONLY :: u32 where "O_WRONLY = 0x1"
definition O_RDWR :: u32 where "O_RDWR = 0x2"
definition O_CREAT :: u32 where "O_CREAT = 0x40"
definition O_TRUNC :: u32 where "O_TRUNC = 0x200"
definition O_APPEND :: u32 where "O_APPEND = 0x400"
definition FOPEN_MAX :: nat where "FOPEN_MAX = 20"

record FILE =
  fp_flags :: u16
  fp_file :: int
  fp_offset :: int

record 'w stdio =
  files :: "FILE list"
  world :: 'w

datatype handle = Ext lfile | Slot nat

definition fp_at :: "'w stdio \<Rightarrow> nat \<Rightarrow> FILE" where
  "fp_at s i = files s ! i"

definition set_fp :: "nat \<Rightarrow> FILE \<Rightarrow> 'w stdio \<Rightarrow> 'w stdio" where
  "set_fp i f s = s\<lparr>files := (files s)[i := f]\<rparr>"

text \<open>\<open>__sF\<close> and \<open>usual\<close>: the standard streams and 17 free slots.\<close>

definition initial_files :: "FILE list" where
  "initial_files =
     [\<lparr>fp_flags = SRD, fp_file = 0, fp_offset = 0\<rparr>, \<lparr>fp_flags = SWR, fp_file = 1, fp_offset = 0\<rparr>,
      \<lparr>fp_flags = SWR OR SNBF, fp_file = 2, fp_offset = 0\<rparr>]
     @ replicate (FOPEN_MAX - 3) \<lparr>fp_flags = 0, fp_file = 0, fp_offset = 0\<rparr>"

fun first_free :: "nat \<Rightarrow> FILE list \<Rightarrow> nat option" where
  "first_free i [] = None"
| "first_free i (f # fs) = (if fp_flags f = 0 then Some i else first_free (Suc i) fs)"

definition sfp :: "'w stdio \<Rightarrow> (nat \<times> 'w stdio) option" where
  "sfp s = map_option (\<lambda>i. (i, set_fp i ((fp_at s i)\<lparr>fp_flags := 1\<rparr>) s)) (first_free 0 (files s))"

section \<open>Opening and closing\<close>

text \<open>The characters of the mode; behind its end they read as NUL.\<close>

definition char_at :: "byte list \<Rightarrow> nat \<Rightarrow> byte" where
  "char_at mode i = (if i < length mode then mode ! i else 0)"

definition sflags :: "byte list \<Rightarrow> (u16 \<times> u32) option" where
  "sflags mode =
     (let plus = (char_at mode 1 = 0x2B \<or> char_at mode 1 = 0x62 \<and> char_at mode 2 = 0x2B);
          result = (\<lambda>ret m opt. if plus then Some (SRW, O_RDWR OR opt) else Some (ret, m OR opt)) in
      if char_at mode 0 = 0x72 then result SRD O_RDONLY 0
      else if char_at mode 0 = 0x77 then result SWR O_WRONLY (O_CREAT OR O_TRUNC)
      else if char_at mode 0 = 0x61 then result SWR O_WRONLY (O_CREAT OR O_APPEND)
      else None)"

text \<open>\<open>mem\<close>: the allocation of \<open>fopen_ext\<close> succeeds. \<open>_file\<close> is a \<open>short\<close>.\<close>

definition lualibc_fopen ::
  "'w dm_table \<Rightarrow> bool \<Rightarrow> byte list \<Rightarrow> byte list \<Rightarrow> luadb \<Rightarrow> 'w stdio \<Rightarrow> (handle option \<times> 'w stdio) option" where
  "lualibc_fopen t mem path mode db s =
     (case fopen_ext mem path db of None \<Rightarrow> None
      | Some pFile \<Rightarrow>
        if (case pFile of None \<Rightarrow> False | Some f \<Rightarrow> lf_section f = UPDATE_SECTION) then Some (map_option Ext pFile, s)
        else (case sflags mode of None \<Rightarrow> Some (None, s)
          | Some (flags, oflags) \<Rightarrow>
            (case sfp s of None \<Rightarrow> Some (None, s)
             | Some (i, s) \<Rightarrow>
               (case open_r t path (uint oflags) 0 (world s) of (f, w, e) \<Rightarrow>
                  let s = s\<lparr>world := w\<rparr> in
                  if f < 0 then Some (map_option Ext pFile, set_fp i ((fp_at s i)\<lparr>fp_flags := 0\<rparr>) s)
                  else Some (Some (Slot i), set_fp i ((fp_at s i)\<lparr>fp_file := sint (word_of_int f :: u16), fp_flags := flags\<rparr>) s)))))"

definition sclose :: "'w dm_table \<Rightarrow> nat \<Rightarrow> 'w stdio \<Rightarrow> (int \<times> 'w stdio) option" where
  "sclose t i s = map_option (\<lambda>(r, w, e). (r, s\<lparr>world := w\<rparr>)) (close_r t (fp_file (fp_at s i)) (world s))"

definition lualibc_fclose :: "'w dm_table \<Rightarrow> handle \<Rightarrow> 'w stdio \<Rightarrow> (int \<times> 'w stdio) option" where
  "lualibc_fclose t h s =
     (case h of Ext f \<Rightarrow> Some (0, s)
      | Slot i \<Rightarrow>
        if fp_flags (fp_at s i) = 0 then Some (- 1, s)
        else map_option (\<lambda>(r, s). (if r \<noteq> 0 then - 1 else 0, set_fp i ((fp_at s i)\<lparr>fp_flags := 0\<rparr>) s)) (sclose t i s))"

section \<open>Reading and writing a slot\<close>

definition sread :: "'w dm_table \<Rightarrow> nat \<Rightarrow> nat \<Rightarrow> 'w stdio \<Rightarrow> ((int \<times> byte list) \<times> 'w stdio) option" where
  "sread t i n s =
     (let fp = fp_at s i in
      map_option (\<lambda>((ret, bs), w, e).
          ((ret, bs), set_fp i (if 0 \<le> ret then fp\<lparr>fp_offset := wrap32 (fp_offset fp + ret)\<rparr>
                                else fp\<lparr>fp_flags := fp_flags fp AND NOT SOFF\<rparr>) (s\<lparr>world := w\<rparr>)))
        (read_r t (fp_file fp) n (world s)))"

definition swrite :: "'w dm_table \<Rightarrow> nat \<Rightarrow> byte list \<Rightarrow> 'w stdio \<Rightarrow> (int \<times> 'w stdio) option" where
  "swrite t i bs s =
     (let fp = fp_at s i in
      case (if fp_flags fp AND ucast O_APPEND \<noteq> 0 then lseek_r t (fp_file fp) 0 SEEK_END (world s)
            else Some (0, world s, None)) of
        None \<Rightarrow> None
      | Some (_, w, _) \<Rightarrow>
          map_option (\<lambda>(ret, w, e). (ret, set_fp i (fp\<lparr>fp_flags := fp_flags fp AND NOT SOFF\<rparr>) (s\<lparr>world := w\<rparr>)))
            (write_r t (fp_file fp) bs w))"

definition sseek :: "'w dm_table \<Rightarrow> nat \<Rightarrow> int \<Rightarrow> int \<Rightarrow> 'w stdio \<Rightarrow> (int \<times> 'w stdio) option" where
  "sseek t i offset whence s =
     (let fp = fp_at s i in
      map_option (\<lambda>(ret, w, e).
          (ret, set_fp i (if ret = - 1 then fp\<lparr>fp_flags := fp_flags fp AND NOT SOFF\<rparr>
                          else fp\<lparr>fp_flags := fp_flags fp OR SOFF, fp_offset := ret\<rparr>) (s\<lparr>world := w\<rparr>)))
        (lseek_r t (fp_file fp) offset whence (world s)))"

definition or_flags :: "nat \<Rightarrow> u16 \<Rightarrow> 'w stdio \<Rightarrow> 'w stdio" where
  "or_flags i fl s = set_fp i ((fp_at s i)\<lparr>fp_flags := fp_flags (fp_at s i) OR fl\<rparr>) s"

text \<open>The count returned and the bytes stored.\<close>

definition fread_slot :: "'w dm_table \<Rightarrow> u32 \<Rightarrow> u32 \<Rightarrow> nat \<Rightarrow> 'w stdio \<Rightarrow> ((nat \<times> byte list) \<times> 'w stdio) option" where
  "fread_slot t sz cnt i s =
     (let resid = unat (cnt * sz) in
      if resid = 0 then Some ((0, []), s)
      else map_option (\<lambda>((len, bs), s).
          if len \<le> 0 then ((0, bs), or_flags i (if len = 0 then SEOF else SERR) s)
          else ((nat len div unat sz, bs), s)) (sread t i resid s))"

definition fwrite_slot :: "'w dm_table \<Rightarrow> u32 \<Rightarrow> byte list \<Rightarrow> nat \<Rightarrow> 'w stdio \<Rightarrow> (int \<times> 'w stdio) option" where
  "fwrite_slot t sz bs i s =
     (if fp_flags (fp_at s i) AND (SWR OR SRW) = 0 then Some (- 1, s)
      else map_option (\<lambda>(w, s). if w \<le> 0 then (- 1, or_flags i SERR s) else (w div uint sz, s)) (swrite t i bs s))"

definition fseek_slot :: "'w dm_table \<Rightarrow> int \<Rightarrow> int \<Rightarrow> nat \<Rightarrow> 'w stdio \<Rightarrow> (int \<times> 'w stdio) option" where
  "fseek_slot t offset whence i s =
     map_option (\<lambda>(ret, s).
         if ret = - 1 then (- 1, set_fp i ((fp_at s i)\<lparr>fp_flags := fp_flags (fp_at s i) AND NOT SEOF\<rparr>) s) else (0, s))
       (sseek t i offset whence s)"

definition ftell_slot :: "'w dm_table \<Rightarrow> nat \<Rightarrow> 'w stdio \<Rightarrow> (int \<times> 'w stdio) option" where
  "ftell_slot t i s =
     (if fp_flags (fp_at s i) AND SOFF \<noteq> 0 then Some (fp_offset (fp_at s i), s) else sseek t i 0 SEEK_CUR s)"

definition getc_slot :: "'w dm_table \<Rightarrow> nat \<Rightarrow> 'w stdio \<Rightarrow> (int \<times> 'w stdio) option" where
  "getc_slot t i s =
     (case fread_slot t 1 1 i s of None \<Rightarrow> None
      | Some ((n, bs), s) \<Rightarrow> if n \<noteq> 1 then Some (- 1, s) else (case bs of [] \<Rightarrow> None | b # _ \<Rightarrow> Some (sint b, s)))"

definition feof_slot :: "nat \<Rightarrow> 'w stdio \<Rightarrow> bool" where
  "feof_slot i s \<longleftrightarrow> fp_flags (fp_at s i) AND SEOF \<noteq> 0"

section \<open>The calls on a stream of either kind\<close>

definition lualibc_fread :: "'w dm_table \<Rightarrow> storage \<Rightarrow> u32 \<Rightarrow> u32 \<Rightarrow> handle \<Rightarrow> 'w stdio \<Rightarrow> ((nat \<times> byte list) \<times> handle \<times> 'w stdio) option" where
  "lualibc_fread t st sz cnt h s =
     (case h of Ext f \<Rightarrow> map_option (\<lambda>(n, bs, f). ((n, bs), Ext f, s)) (fread_ext st sz cnt f)
      | Slot i \<Rightarrow> map_option (\<lambda>(r, s). (r, h, s)) (fread_slot t sz cnt i s))"

text \<open>\<open>bs\<close> are the \<open>size * count\<close> bytes of the buffer; a handle on a file in place has none of the flags.\<close>

definition lualibc_fwrite :: "'w dm_table \<Rightarrow> u32 \<Rightarrow> byte list \<Rightarrow> handle \<Rightarrow> 'w stdio \<Rightarrow> (int \<times> 'w stdio) option" where
  "lualibc_fwrite t sz bs h s = (case h of Ext f \<Rightarrow> Some (- 1, s) | Slot i \<Rightarrow> fwrite_slot t sz bs i s)"

definition lualibc_fseek :: "'w dm_table \<Rightarrow> int \<Rightarrow> int \<Rightarrow> handle \<Rightarrow> 'w stdio \<Rightarrow> (int \<times> handle \<times> 'w stdio) option" where
  "lualibc_fseek t offset whence h s =
     (case h of Ext f \<Rightarrow> (case fseek_ext f offset whence of (r, f) \<Rightarrow> Some (r, Ext f, s))
      | Slot i \<Rightarrow> map_option (\<lambda>(r, s). (r, h, s)) (fseek_slot t offset whence i s))"

definition lualibc_ftell :: "'w dm_table \<Rightarrow> handle \<Rightarrow> 'w stdio \<Rightarrow> (int \<times> 'w stdio) option" where
  "lualibc_ftell t h s = (case h of Ext f \<Rightarrow> Some (ftell_ext f, s) | Slot i \<Rightarrow> ftell_slot t i s)"

definition lualibc_getc :: "'w dm_table \<Rightarrow> storage \<Rightarrow> handle \<Rightarrow> 'w stdio \<Rightarrow> (int \<times> handle \<times> 'w stdio) option" where
  "lualibc_getc t st h s =
     (case h of Ext f \<Rightarrow> map_option (\<lambda>(c, f). (c, Ext f, s)) (getc_ext st f)
      | Slot i \<Rightarrow> map_option (\<lambda>(c, s). (c, h, s)) (getc_slot t i s))"

text \<open>\<open>ungetc\<close> on \<open>stdin\<close> is an assertion failure.\<close>

definition lualibc_ungetc :: "'w dm_table \<Rightarrow> int \<Rightarrow> handle \<Rightarrow> 'w stdio \<Rightarrow> (int \<times> handle \<times> 'w stdio) option" where
  "lualibc_ungetc t c h s =
     (case h of Ext f \<Rightarrow> (case ungetc_ext c f of (r, f) \<Rightarrow> Some (r, Ext f, s))
      | Slot i \<Rightarrow> if i = 0 then None else map_option (\<lambda>(r, s). (0, h, s)) (fseek_slot t (- 1) SEEK_CUR i s))"

definition lualibc_fgets :: "'w dm_table \<Rightarrow> storage \<Rightarrow> byte list \<Rightarrow> int \<Rightarrow> handle \<Rightarrow> 'w stdio \<Rightarrow> (bool \<times> byte list \<times> handle \<times> 'w stdio) option" where
  "lualibc_fgets t st buf n h s =
     (case h of Ext f \<Rightarrow> map_option (\<lambda>(r, buf, f). (r, buf, Ext f, s)) (fgets_ext st buf n f)
      | Slot i \<Rightarrow> map_option (\<lambda>(r, buf, s). (r, buf, h, s)) (fgets_gen (getc_slot t i) buf n s))"

end
