(* ===== verification/StdioProps.thy ===== *)
theory StdioProps
  imports Stdio
begin

text \<open>
  The stream table: every open slot owns a descriptor of its own, and the position that a slot remembers
  is the position of its descriptor, so \<open>ftell\<close> tells the truth after any sequence of calls. The devices
  are parameters; \<open>fd_laws\<close> is what the code relies on, for a position \<open>pos\<close> and a set \<open>live\<close> of open
  descriptors that a device keeps.
\<close>

section \<open>The descriptors\<close>

definition others_kept :: "(int \<Rightarrow> 'w \<Rightarrow> int) \<Rightarrow> ('w \<Rightarrow> int set) \<Rightarrow> int \<Rightarrow> 'w \<Rightarrow> 'w \<Rightarrow> bool" where
  "others_kept pos live fd w w' \<longleftrightarrow> (\<forall>g \<in> live w. g \<noteq> fd \<longrightarrow> pos g w' = pos g w)"

definition open_law :: "'w dm_table \<Rightarrow> (int \<Rightarrow> 'w \<Rightarrow> int) \<Rightarrow> ('w \<Rightarrow> int set) \<Rightarrow> bool" where
  "open_law t pos live \<longleftrightarrow> (\<forall>p fl w d w' e. open_r t p fl 0 w = (d, w', e) \<longrightarrow> (\<forall>g \<in> live w. pos g w' = pos g w) \<and>
     (if 0 \<le> d then d < 2 ^ 15 \<and> d \<notin> live w \<and> live w' = insert d (live w) else live w' = live w))"

definition close_law :: "'w dm_table \<Rightarrow> (int \<Rightarrow> 'w \<Rightarrow> int) \<Rightarrow> ('w \<Rightarrow> int set) \<Rightarrow> bool" where
  "close_law t pos live \<longleftrightarrow> (\<forall>fd w r w' e. close_r t fd w = Some (r, w', e) \<longrightarrow>
     live w' = live w - {fd} \<and> others_kept pos live fd w w')"

definition read_law :: "'w dm_table \<Rightarrow> (int \<Rightarrow> 'w \<Rightarrow> int) \<Rightarrow> ('w \<Rightarrow> int set) \<Rightarrow> bool" where
  "read_law t pos live \<longleftrightarrow> (\<forall>fd n w r bs w' e. read_r t fd n w = Some ((r, bs), w', e) \<longrightarrow>
     live w' = live w \<and> others_kept pos live fd w w' \<and> (0 \<le> r \<longrightarrow> pos fd w' = wrap32 (pos fd w + r)))"

definition write_law :: "'w dm_table \<Rightarrow> (int \<Rightarrow> 'w \<Rightarrow> int) \<Rightarrow> ('w \<Rightarrow> int set) \<Rightarrow> bool" where
  "write_law t pos live \<longleftrightarrow> (\<forall>fd bs w r w' e. write_r t fd bs w = Some (r, w', e) \<longrightarrow>
     live w' = live w \<and> others_kept pos live fd w w')"

definition seek_law :: "'w dm_table \<Rightarrow> (int \<Rightarrow> 'w \<Rightarrow> int) \<Rightarrow> ('w \<Rightarrow> int set) \<Rightarrow> bool" where
  "seek_law t pos live \<longleftrightarrow> (\<forall>fd off wh w r w' e. lseek_r t fd off wh w = Some (r, w', e) \<longrightarrow>
     live w' = live w \<and> others_kept pos live fd w w' \<and> (r \<noteq> - 1 \<longrightarrow> pos fd w' = r) \<and>
     (r \<noteq> - 1 \<and> off = 0 \<and> wh = SEEK_CUR \<longrightarrow> r = pos fd w))"

definition fd_laws :: "'w dm_table \<Rightarrow> (int \<Rightarrow> 'w \<Rightarrow> int) \<Rightarrow> ('w \<Rightarrow> int set) \<Rightarrow> bool" where
  "fd_laws t pos live \<longleftrightarrow> open_law t pos live \<and> close_law t pos live \<and> read_law t pos live \<and> write_law t pos live \<and> seek_law t pos live"

lemma fd_law_open:
  assumes "fd_laws t pos live" and "open_r t p fl 0 w = (d, w', e)"
  shows "(\<forall>g \<in> live w. pos g w' = pos g w) \<and>
    (if 0 \<le> d then d < 2 ^ 15 \<and> d \<notin> live w \<and> live w' = insert d (live w) else live w' = live w)"
proof -
  have "open_law t pos live" using assms(1) by (simp only: fd_laws_def)
  then show ?thesis using assms(2) unfolding open_law_def by (elim allE) (erule (1) mp)
qed

lemma fd_law_close:
  assumes "fd_laws t pos live" and "close_r t fd w = Some (r, w', e)"
  shows "live w' = live w - {fd} \<and> others_kept pos live fd w w'"
  using assms unfolding fd_laws_def close_law_def by metis

lemma fd_law_read:
  assumes "fd_laws t pos live" and "read_r t fd n w = Some ((r, bs), w', e)"
  shows "live w' = live w \<and> others_kept pos live fd w w' \<and> (0 \<le> r \<longrightarrow> pos fd w' = wrap32 (pos fd w + r))"
  using assms unfolding fd_laws_def read_law_def by metis

lemma fd_law_write:
  assumes "fd_laws t pos live" and "write_r t fd bs w = Some (r, w', e)"
  shows "live w' = live w \<and> others_kept pos live fd w w'"
  using assms unfolding fd_laws_def write_law_def by metis

lemma fd_law_seek:
  assumes "fd_laws t pos live" and "lseek_r t fd off wh w = Some (r, w', e)"
  shows "live w' = live w \<and> others_kept pos live fd w w' \<and> (r \<noteq> - 1 \<longrightarrow> pos fd w' = r) \<and>
    (r \<noteq> - 1 \<and> off = 0 \<and> wh = SEEK_CUR \<longrightarrow> r = pos fd w)"
  using assms unfolding fd_laws_def seek_law_def by metis

section \<open>The invariant\<close>

definition is_open :: "'w stdio \<Rightarrow> nat \<Rightarrow> bool" where
  "is_open s i \<longleftrightarrow> i < FOPEN_MAX \<and> fp_flags (fp_at s i) \<noteq> 0"

definition slot_ok :: "(int \<Rightarrow> 'w \<Rightarrow> int) \<Rightarrow> ('w \<Rightarrow> int set) \<Rightarrow> 'w \<Rightarrow> FILE \<Rightarrow> bool" where
  "slot_ok pos live w f \<longleftrightarrow> fp_flags f AND 0x1C \<noteq> 0 \<and> fp_file f \<in> live w \<and>
     (fp_flags f AND SOFF \<noteq> 0 \<longrightarrow> fp_offset f = pos (fp_file f) w)"

definition stdio_inv :: "(int \<Rightarrow> 'w \<Rightarrow> int) \<Rightarrow> ('w \<Rightarrow> int set) \<Rightarrow> 'w stdio \<Rightarrow> bool" where
  "stdio_inv pos live s \<longleftrightarrow> length (files s) = FOPEN_MAX \<and>
     (\<forall>i. is_open s i \<longrightarrow> slot_ok pos live (world s) (fp_at s i)) \<and>
     (\<forall>i j. is_open s i \<and> is_open s j \<and> fp_file (fp_at s i) = fp_file (fp_at s j) \<longrightarrow> i = j)"

lemma fp_at_set [simp]: "length (files s) = FOPEN_MAX \<Longrightarrow> i < FOPEN_MAX \<Longrightarrow>
    fp_at (set_fp i f s) j = (if j = i then f else fp_at s j)"
  by (simp add: fp_at_def set_fp_def nth_list_update)

lemma fp_at_world [simp]: "fp_at (s\<lparr>world := w\<rparr>) i = fp_at s i"
  by (simp add: fp_at_def)

lemma set_fp_simps [simp]: "world (set_fp i f s) = world s" "length (files (set_fp i f s)) = length (files s)"
  by (simp_all add: set_fp_def)

lemma flag_masks:
  fixes x :: u16
  shows "(x AND NOT SOFF) AND 0x1C = x AND 0x1C" and "(x AND NOT SEOF) AND 0x1C = x AND 0x1C"
    and "(x OR SOFF) AND 0x1C = x AND 0x1C" and "(x OR SEOF) AND 0x1C = x AND 0x1C" and "(x OR SERR) AND 0x1C = x AND 0x1C"
    and "(x AND NOT SOFF) AND SOFF = 0" and "(x AND NOT SEOF) AND SOFF = x AND SOFF" and "(x OR SOFF) AND SOFF = SOFF"
    and "(x OR SEOF) AND SOFF = x AND SOFF" and "(x OR SERR) AND SOFF = x AND SOFF"
  by (simp_all add: SOFF_def SEOF_def SERR_def and.assoc word_ao_dist)

lemma live_flags: "fp_flags f AND 0x1C \<noteq> 0 \<Longrightarrow> fp_flags f \<noteq> 0"
  by auto

text \<open>One slot changes, and so does the world, for its descriptor at most.\<close>

lemma stdio_inv_update:
  assumes "stdio_inv pos live s" and "is_open s i" and "fp_file f = fp_file (fp_at s i)"
    and "live w = live (world s)" and "others_kept pos live (fp_file f) (world s) w"
    and "fp_flags f AND 0x1C = fp_flags (fp_at s i) AND 0x1C"
    and "fp_flags f AND SOFF \<noteq> 0 \<Longrightarrow> fp_offset f = pos (fp_file f) w"
  shows "stdio_inv pos live (set_fp i f (s\<lparr>world := w\<rparr>)) \<and> is_open (set_fp i f (s\<lparr>world := w\<rparr>)) i"
proof -
  have len: "length (files s) = FOPEN_MAX" and i: "i < FOPEN_MAX"
    using assms(1,2) by (simp_all add: stdio_inv_def is_open_def)
  let ?s = "set_fp i f (s\<lparr>world := w\<rparr>)"
  have at: "fp_at ?s j = (if j = i then f else fp_at s j)" for j
    using len i by simp
  have ok: "slot_ok pos live (world s) (fp_at s j)" if "is_open s j" for j
    using assms(1) that by (simp add: stdio_inv_def)
  have f: "slot_ok pos live w f"
    using ok [OF assms(2)] assms(3,4,6,7) by (auto simp: slot_ok_def)
  have open_iff: "is_open ?s j \<longleftrightarrow> is_open s j" for j
    using f assms(2) by (auto simp: is_open_def at slot_ok_def)
  have "slot_ok pos live w (fp_at ?s j)" if j: "is_open ?s j" for j
  proof (cases "j = i")
    case True
    then show ?thesis using f by (simp add: at)
  next
    case False
    have o: "is_open s j" using j open_iff by simp
    have "fp_file (fp_at s j) \<noteq> fp_file f"
      using assms(1-3) o False by (auto simp: stdio_inv_def)
    then show ?thesis
      using ok [OF o] assms(4,5) False by (auto simp: slot_ok_def at others_kept_def)
  qed
  moreover have "fp_file (fp_at ?s j) = fp_file (fp_at s j)" for j
    using assms(3) by (simp add: at)
  ultimately show ?thesis
    using assms(1,2) len by (auto simp: stdio_inv_def open_iff)
qed

lemma or_flags_inv:
  assumes "stdio_inv pos live s" and "is_open s i" and "fl = SEOF \<or> fl = SERR"
  shows "stdio_inv pos live (or_flags i fl s) \<and> is_open (or_flags i fl s) i"
proof -
  let ?f = "(fp_at s i)\<lparr>fp_flags := fp_flags (fp_at s i) OR fl\<rparr>"
  have "slot_ok pos live (world s) (fp_at s i)" using assms(1,2) by (simp add: stdio_inv_def)
  then have "stdio_inv pos live (set_fp i ?f (s\<lparr>world := world s\<rparr>)) \<and> is_open (set_fp i ?f (s\<lparr>world := world s\<rparr>)) i"
    using assms(3) by (intro stdio_inv_update [OF assms(1,2)]) (auto simp: others_kept_def flag_masks slot_ok_def)
  then show ?thesis by (simp add: or_flags_def)
qed

section \<open>The calls\<close>

lemma sread_inv:
  assumes "fd_laws t pos live" and "stdio_inv pos live s" and "is_open s i" and "sread t i n s = Some ((r, bs), s')"
  shows "stdio_inv pos live s' \<and> is_open s' i"
proof -
  obtain w e where rd: "read_r t (fp_file (fp_at s i)) n (world s) = Some ((r, bs), w, e)"
      and s': "s' = set_fp i (if 0 \<le> r then (fp_at s i)\<lparr>fp_offset := wrap32 (fp_offset (fp_at s i) + r)\<rparr>
                 else (fp_at s i)\<lparr>fp_flags := fp_flags (fp_at s i) AND NOT SOFF\<rparr>) (s\<lparr>world := w\<rparr>)"
    using assms(4) by (auto simp: sread_def Let_def)
  have law: "live w = live (world s)" "others_kept pos live (fp_file (fp_at s i)) (world s) w"
      "0 \<le> r \<Longrightarrow> pos (fp_file (fp_at s i)) w = wrap32 (pos (fp_file (fp_at s i)) (world s) + r)"
    using fd_law_read [OF assms(1) rd] by auto
  have "slot_ok pos live (world s) (fp_at s i)" using assms(2,3) by (simp add: stdio_inv_def)
  then show ?thesis unfolding s'
    using law by (intro stdio_inv_update [OF assms(2,3)]) (auto simp: flag_masks slot_ok_def)
qed

lemma sseek_inv:
  assumes "fd_laws t pos live" and "stdio_inv pos live s" and "is_open s i" and "sseek t i off wh s = Some (r, s')"
  shows "stdio_inv pos live s' \<and> is_open s' i"
proof -
  obtain w e where sk: "lseek_r t (fp_file (fp_at s i)) off wh (world s) = Some (r, w, e)"
      and s': "s' = set_fp i (if r = - 1 then (fp_at s i)\<lparr>fp_flags := fp_flags (fp_at s i) AND NOT SOFF\<rparr>
                 else (fp_at s i)\<lparr>fp_flags := fp_flags (fp_at s i) OR SOFF, fp_offset := r\<rparr>) (s\<lparr>world := w\<rparr>)"
    using assms(4) by (auto simp: sseek_def Let_def)
  have law: "live w = live (world s)" "others_kept pos live (fp_file (fp_at s i)) (world s) w"
      "r \<noteq> - 1 \<Longrightarrow> pos (fp_file (fp_at s i)) w = r"
    using fd_law_seek [OF assms(1) sk] by auto
  show ?thesis unfolding s'
    using law by (intro stdio_inv_update [OF assms(2,3)]) (auto simp: flag_masks)
qed

lemma others_kept_trans: "others_kept pos live fd w w1 \<Longrightarrow> live w1 = live w \<Longrightarrow> others_kept pos live fd w1 w2 \<Longrightarrow>
    others_kept pos live fd w w2"
  by (simp add: others_kept_def)

lemma swrite_inv:
  assumes "fd_laws t pos live" and "stdio_inv pos live s" and "is_open s i" and "swrite t i bs s = Some (r, s')"
  shows "stdio_inv pos live s' \<and> is_open s' i"
proof -
  let ?fd = "fp_file (fp_at s i)"
  obtain w1 where w1: "live w1 = live (world s)" "others_kept pos live ?fd (world s) w1"
      and wr: "map_option (\<lambda>(ret, w, e). (ret, set_fp i ((fp_at s i)\<lparr>fp_flags := fp_flags (fp_at s i) AND NOT SOFF\<rparr>) (s\<lparr>world := w\<rparr>)))
            (write_r t ?fd bs w1) = Some (r, s')"
  proof (cases "fp_flags (fp_at s i) AND ucast O_APPEND \<noteq> 0")
    case True
    then obtain r1 w1 e1 where sk: "lseek_r t ?fd 0 SEEK_END (world s) = Some (r1, w1, e1)"
      using assms(4) by (cases "lseek_r t ?fd 0 SEEK_END (world s)") (auto simp: swrite_def Let_def)
    then show thesis
      using that [of w1] fd_law_seek [OF assms(1) sk] assms(4) True by (simp add: swrite_def Let_def)
  next
    case False
    then show thesis
      using that [of "world s"] assms(4) by (simp add: swrite_def Let_def others_kept_def)
  qed
  obtain w2 e where w2: "write_r t ?fd bs w1 = Some (r, w2, e)"
      and s': "s' = set_fp i ((fp_at s i)\<lparr>fp_flags := fp_flags (fp_at s i) AND NOT SOFF\<rparr>) (s\<lparr>world := w2\<rparr>)"
    using wr by auto
  show ?thesis unfolding s'
    using fd_law_write [OF assms(1) w2] w1 others_kept_trans [of pos live ?fd "world s" w1 w2]
    by (intro stdio_inv_update [OF assms(2,3)]) (auto simp: flag_masks)
qed

lemma first_free_some:
  assumes "first_free k fs = Some i"
  shows "k \<le> i \<and> i - k < length fs \<and> fp_flags (fs ! (i - k)) = 0"
  using assms
proof (induction k fs rule: first_free.induct)
  case (2 k f fs)
  show ?case
  proof (cases "fp_flags f = 0")
    case True
    then show ?thesis using 2(2) by simp
  next
    case False
    then have "Suc k \<le> i \<and> i - Suc k < length fs \<and> fp_flags (fs ! (i - Suc k)) = 0"
      using 2 by simp
    then show ?thesis by (auto simp: nth_Cons' Suc_diff_Suc)
  qed
qed simp

lemma sfp_some:
  assumes "sfp s = Some (i, s1)" and "length (files s) = FOPEN_MAX"
  shows "i < FOPEN_MAX" and "\<not> is_open s i" and "s1 = set_fp i ((fp_at s i)\<lparr>fp_flags := 1\<rparr>) s"
  using assms first_free_some [of 0 "files s" i] by (auto simp: sfp_def is_open_def fp_at_def)

lemma sflags_open:
  assumes "sflags mode = Some (fl, opt)"
  shows "fl AND 0x1C \<noteq> 0 \<and> fl AND SOFF = 0"
proof -
  have "fl \<in> {SRD, SWR, SRW}"
    using assms by (auto simp: sflags_def Let_def split: if_splits)
  then show ?thesis
    by (auto simp: SRD_def SWR_def SRW_def SOFF_def)
qed

lemma fopen_inv:
  assumes "fd_laws t pos live" and "stdio_inv pos live s" and "lualibc_fopen t mem path mode db s = Some (h, s')"
  shows "stdio_inv pos live s' \<and> (\<forall>i. h = Some (Slot i) \<longrightarrow> is_open s' i)"
proof -
  have len: "length (files s) = FOPEN_MAX" using assms(2) by (simp add: stdio_inv_def)
  obtain pFile where pf: "fopen_ext mem path db = Some pFile"
    using assms(3) by (auto simp: lualibc_fopen_def split: option.splits)
  show ?thesis
  proof (cases "(case pFile of None \<Rightarrow> False | Some f \<Rightarrow> lf_section f = UPDATE_SECTION)")
    case True
    then show ?thesis using assms(2,3) pf by (auto simp: lualibc_fopen_def)
  next
    case ext: False
    show ?thesis
    proof (cases "sflags mode = None \<or> sfp s = None")
      case True
      then show ?thesis using assms(2,3) pf ext by (auto simp: lualibc_fopen_def split: option.splits)
    next
      case False
      then obtain fl oflags i s1 where m: "sflags mode = Some (fl, oflags)" and fp: "sfp s = Some (i, s1)" by auto
      note i = sfp_some [OF fp len]
      obtain d w e where op_r: "open_r t path (uint oflags) 0 (world s) = (d, w, e)" by (cases "open_r t path (uint oflags) 0 (world s)") auto
      note law = fd_law_open [OF assms(1) op_r]
      have w1: "world s1 = world s" "length (files s1) = FOPEN_MAX" using i len by simp_all
      have at1: "fp_at s1 j = (if j = i then (fp_at s i)\<lparr>fp_flags := 1\<rparr> else fp_at s j)" for j
        using i len by simp
      show ?thesis
      proof (cases "d < 0")
        case True
        let ?s = "set_fp i ((fp_at s1 i)\<lparr>fp_flags := 0\<rparr>) (s1\<lparr>world := w\<rparr>)"
        have res: "h = map_option Ext pFile" "s' = ?s"
          using assms(3) pf ext m fp op_r w1 True by (simp_all add: lualibc_fopen_def Let_def)
        have "fp_at ?s j = (if j = i then (fp_at s i)\<lparr>fp_flags := 0\<rparr> else fp_at s j)" for j
          using at1 i(1) w1 by simp
        then have "is_open ?s j \<longleftrightarrow> is_open s j" "is_open s j \<Longrightarrow> fp_at ?s j = fp_at s j" for j
          using i(2) by (auto simp: is_open_def)
        moreover have "slot_ok pos live w f" if "slot_ok pos live (world s) f" for f
          using that law True by (auto simp: slot_ok_def)
        ultimately show ?thesis
          using assms(2) w1 unfolding res stdio_inv_def by auto
      next
        case False
        have d: "d < 2 ^ 15" "d \<notin> live (world s)" "live w = insert d (live (world s))" "0 \<le> d"
          using law False by (auto split: if_splits)
        have sd: "sint (word_of_int d :: u16) = d"
          using d by (simp add: signed_of_int signed_take_bit_int_eq_self)
        let ?f = "(fp_at s1 i)\<lparr>fp_file := d, fp_flags := fl\<rparr>"
        let ?s = "set_fp i ?f (s1\<lparr>world := w\<rparr>)"
        have res: "h = Some (Slot i)" "s' = ?s"
          using assms(3) pf ext m fp op_r w1 False sd by (simp_all add: lualibc_fopen_def Let_def)
        have at: "fp_at ?s j = (if j = i then ?f else fp_at s j)" for j
          using at1 i(1) w1 by simp
        have fl: "fl AND 0x1C \<noteq> 0" "fl AND SOFF = 0" using sflags_open [OF m] by simp_all
        have op: "is_open ?s j \<longleftrightarrow> j = i \<or> is_open s j" for j
          using i(1) fl(1) by (auto simp: is_open_def at)
        have old: "slot_ok pos live (world s) (fp_at s j)" if "is_open s j" for j
          using assms(2) that by (simp add: stdio_inv_def)
        have fresh: "fp_file (fp_at s j) \<noteq> d" if "is_open s j" for j
          using old [OF that] d(2) by (auto simp: slot_ok_def)
        have "slot_ok pos live w (fp_at ?s j)" if "is_open ?s j" for j
        proof (cases "j = i")
          case True
          then show ?thesis using fl d(3) unfolding slot_ok_def at by simp
        next
          case ne: False
          then show ?thesis using old [of j] that op law d(3) by (auto simp: at slot_ok_def)
        qed
        moreover have "j = k" if "is_open ?s j" "is_open ?s k" "fp_file (fp_at ?s j) = fp_file (fp_at ?s k)" for j k
          using that fresh assms(2) sd unfolding op at stdio_inv_def by (auto split: if_splits)
        ultimately show ?thesis
          using w1 op unfolding res stdio_inv_def by auto
      qed
    qed
  qed
qed

lemma fclose_inv:
  assumes "fd_laws t pos live" and "stdio_inv pos live s" and "is_open s i" and "lualibc_fclose t (Slot i) s = Some (r, s')"
  shows "stdio_inv pos live s'"
proof -
  have len: "length (files s) = FOPEN_MAX" and i: "i < FOPEN_MAX" "fp_flags (fp_at s i) \<noteq> 0"
    using assms(2,3) by (simp_all add: stdio_inv_def is_open_def)
  obtain r1 w e where cl: "close_r t (fp_file (fp_at s i)) (world s) = Some (r1, w, e)"
      and s': "s' = set_fp i ((fp_at s i)\<lparr>fp_flags := 0\<rparr>) (s\<lparr>world := w\<rparr>)"
    using assms(4) i by (auto simp: lualibc_fclose_def sclose_def)
  have law: "live w = live (world s) - {fp_file (fp_at s i)}" "others_kept pos live (fp_file (fp_at s i)) (world s) w"
    using fd_law_close [OF assms(1) cl] by auto
  have at: "fp_at s' j = (if j = i then (fp_at s i)\<lparr>fp_flags := 0\<rparr> else fp_at s j)" for j
    using len i(1) by (simp add: s')
  have lens: "length (files s') = FOPEN_MAX" "world s' = w"
    by (simp_all add: s' len)
  have op: "is_open s' j \<longleftrightarrow> j \<noteq> i \<and> is_open s j" for j
    by (auto simp: is_open_def at)
  have "slot_ok pos live w (fp_at s j)" if j: "is_open s j" "j \<noteq> i" for j
  proof -
    have "slot_ok pos live (world s) (fp_at s j)" "fp_file (fp_at s j) \<noteq> fp_file (fp_at s i)"
      using assms(2,3) j unfolding stdio_inv_def by blast+
    then show ?thesis using law by (auto simp: slot_ok_def others_kept_def)
  qed
  then show ?thesis
    using assms(2) lens unfolding stdio_inv_def by (auto simp: op at)
qed

lemma fread_inv:
  assumes "fd_laws t pos live" and "stdio_inv pos live s" and "is_open s i" and "fread_slot t sz cnt i s = Some (r, s')"
  shows "stdio_inv pos live s' \<and> is_open s' i"
proof (cases "unat (cnt * sz) = 0")
  case True
  then show ?thesis using assms by (simp add: fread_slot_def)
next
  case False
  then obtain len bs s1 where rd: "sread t i (unat (cnt * sz)) s = Some ((len, bs), s1)"
    using assms(4) by (auto simp: fread_slot_def Let_def)
  have inv: "stdio_inv pos live s1" "is_open s1 i" using sread_inv [OF assms(1-3) rd] by simp_all
  have "s' = (if len \<le> 0 then or_flags i (if len = 0 then SEOF else SERR) s1 else s1)"
    using assms(4) False rd by (auto simp: fread_slot_def Let_def split: if_splits)
  then show ?thesis using inv or_flags_inv [OF inv] by simp
qed

lemma fwrite_inv:
  assumes "fd_laws t pos live" and "stdio_inv pos live s" and "is_open s i" and "fwrite_slot t sz bs i s = Some (r, s')"
  shows "stdio_inv pos live s' \<and> is_open s' i"
proof (cases "fp_flags (fp_at s i) AND (SWR OR SRW) = 0")
  case True
  then show ?thesis using assms by (simp add: fwrite_slot_def)
next
  case False
  then obtain w s1 where wr: "swrite t i bs s = Some (w, s1)"
    using assms(4) by (auto simp: fwrite_slot_def)
  have inv: "stdio_inv pos live s1" "is_open s1 i" using swrite_inv [OF assms(1-3) wr] by simp_all
  have "s' = (if w \<le> 0 then or_flags i SERR s1 else s1)"
    using assms(4) False wr by (auto simp: fwrite_slot_def split: if_splits)
  then show ?thesis using inv or_flags_inv [OF inv] by simp
qed

lemma fseek_inv:
  assumes "fd_laws t pos live" and "stdio_inv pos live s" and "is_open s i" and "fseek_slot t off wh i s = Some (r, s')"
  shows "stdio_inv pos live s' \<and> is_open s' i"
proof -
  obtain r1 s1 where sk: "sseek t i off wh s = Some (r1, s1)"
    using assms(4) by (auto simp: fseek_slot_def)
  have inv: "stdio_inv pos live s1" "is_open s1 i" using sseek_inv [OF assms(1-3) sk] by simp_all
  let ?f = "(fp_at s1 i)\<lparr>fp_flags := fp_flags (fp_at s1 i) AND NOT SEOF\<rparr>"
  have s': "s' = (if r1 = - 1 then set_fp i ?f s1 else s1)"
    using assms(4) sk by (auto simp: fseek_slot_def split: if_splits)
  have "slot_ok pos live (world s1) (fp_at s1 i)" using inv by (simp add: stdio_inv_def)
  then have "stdio_inv pos live (set_fp i ?f (s1\<lparr>world := world s1\<rparr>)) \<and> is_open (set_fp i ?f (s1\<lparr>world := world s1\<rparr>)) i"
    by (intro stdio_inv_update [OF inv]) (auto simp: others_kept_def flag_masks slot_ok_def)
  then show ?thesis using inv unfolding s' by simp
qed

section \<open>Sessions\<close>

datatype call = Fopen "byte list" "byte list" luadb bool | Fclose nat | Fread u32 u32 nat | Fwrite u32 "byte list" nat
  | Fseek int int nat | Ftell nat

text \<open>A call on a slot is made on an open one.\<close>

fun slot_call :: "'w dm_table \<Rightarrow> call \<Rightarrow> 'w stdio \<Rightarrow> 'w stdio option" where
  "slot_call t (Fopen path mode db mem) s = map_option snd (lualibc_fopen t mem path mode db s)"
| "slot_call t (Fclose i) s = (if is_open s i then map_option snd (lualibc_fclose t (Slot i) s) else None)"
| "slot_call t (Fread sz cnt i) s = (if is_open s i then map_option snd (fread_slot t sz cnt i s) else None)"
| "slot_call t (Fwrite sz bs i) s = (if is_open s i then map_option snd (fwrite_slot t sz bs i s) else None)"
| "slot_call t (Fseek off wh i) s = (if is_open s i then map_option snd (fseek_slot t off wh i s) else None)"
| "slot_call t (Ftell i) s = (if is_open s i then map_option snd (ftell_slot t i s) else None)"

fun session :: "'w dm_table \<Rightarrow> call list \<Rightarrow> 'w stdio \<Rightarrow> 'w stdio option" where
  "session t [] s = Some s"
| "session t (c # cs) s = (case slot_call t c s of None \<Rightarrow> None | Some s' \<Rightarrow> session t cs s')"

lemma slot_call_inv:
  assumes "fd_laws t pos live" and "stdio_inv pos live s" and "slot_call t c s = Some s'"
  shows "stdio_inv pos live s'"
proof (cases c)
  case (Fopen path mode db mem)
  then obtain h where "lualibc_fopen t mem path mode db s = Some (h, s')" using assms(3) by auto
  from fopen_inv [OF assms(1,2) this] show ?thesis by simp
next
  case (Fclose i)
  then obtain r where "is_open s i" "lualibc_fclose t (Slot i) s = Some (r, s')" using assms(3) by (auto split: if_splits)
  from fclose_inv [OF assms(1,2) this] show ?thesis .
next
  case (Fread sz cnt i)
  then obtain r where "is_open s i" "fread_slot t sz cnt i s = Some (r, s')" using assms(3) by (auto split: if_splits)
  from fread_inv [OF assms(1,2) this] show ?thesis ..
next
  case (Fwrite sz bs i)
  then obtain r where "is_open s i" "fwrite_slot t sz bs i s = Some (r, s')" using assms(3) by (auto split: if_splits)
  from fwrite_inv [OF assms(1,2) this] show ?thesis ..
next
  case (Fseek off wh i)
  then obtain r where "is_open s i" "fseek_slot t off wh i s = Some (r, s')" using assms(3) by (auto split: if_splits)
  from fseek_inv [OF assms(1,2) this] show ?thesis ..
next
  case (Ftell i)
  then obtain r where o: "is_open s i" and ft: "ftell_slot t i s = Some (r, s')" using assms(3) by (auto split: if_splits)
  show ?thesis
  proof (cases "fp_flags (fp_at s i) AND SOFF \<noteq> 0")
    case True
    then show ?thesis using ft assms(2) by (simp add: ftell_slot_def)
  next
    case False
    then have "sseek t i 0 SEEK_CUR s = Some (r, s')" using ft by (simp add: ftell_slot_def)
    from sseek_inv [OF assms(1,2) o this] show ?thesis ..
  qed
qed

lemma session_inv:
  assumes "fd_laws t pos live" and "stdio_inv pos live s" and "session t cs s = Some s'"
  shows "stdio_inv pos live s'"
  using assms(2,3)
proof (induction cs arbitrary: s)
  case (Cons c cs)
  obtain s1 where "slot_call t c s = Some s1" "session t cs s1 = Some s'"
    using Cons.prems(2) by (auto split: option.splits)
  then show ?case using Cons.IH slot_call_inv [OF assms(1) Cons.prems(1)] by blast
qed simp

lemma initial_inv:
  assumes "{0, 1, 2} \<subseteq> live w"
  shows "stdio_inv pos live \<lparr>files = initial_files, world = w\<rparr>"
proof -
  let ?s = "\<lparr>files = initial_files, world = w\<rparr>"
  have op: "is_open ?s i \<longleftrightarrow> i < 3" for i
  proof -
    have "list_all (\<lambda>i. (fp_flags (initial_files ! i) \<noteq> 0) = (i < 3)) [0..<20]" by code_simp
    then show ?thesis by (auto simp: is_open_def fp_at_def FOPEN_MAX_def list_all_iff)
  qed
  have "list_all (\<lambda>i. fp_file (initial_files ! i) = int i \<and> fp_flags (initial_files ! i) AND 0x1C \<noteq> 0 \<and>
      fp_flags (initial_files ! i) AND SOFF = 0) [0..<3]" by code_simp
  then have f: "fp_file (fp_at ?s i) = int i \<and> fp_flags (fp_at ?s i) AND 0x1C \<noteq> 0 \<and> fp_flags (fp_at ?s i) AND SOFF = 0" if "i < 3" for i
    using that by (simp add: list_all_iff fp_at_def)
  have "int i \<in> live w" if "i < 3" for i
    using that assms by (auto simp: less_Suc_eq numeral_3_eq_3)
  then show ?thesis
    using f unfolding stdio_inv_def op slot_ok_def by (auto simp: initial_files_def FOPEN_MAX_def)
qed

text \<open>C32. After any session on the stream table every open stream has a live descriptor of its own, and
  \<open>ftell\<close> answers the position of that descriptor, whether it was remembered or is asked for.
\<close>

theorem stdio_positions:
  assumes "fd_laws t pos live" and "{0, 1, 2} \<subseteq> live w"
    and "session t cs \<lparr>files = initial_files, world = w\<rparr> = Some s" and "is_open s i"
  shows "fp_file (fp_at s i) \<in> live (world s) \<and> (\<forall>j. is_open s j \<and> j \<noteq> i \<longrightarrow> fp_file (fp_at s j) \<noteq> fp_file (fp_at s i)) \<and>
     (\<forall>r s'. ftell_slot t i s = Some (r, s') \<and> r \<noteq> - 1 \<longrightarrow> r = pos (fp_file (fp_at s i)) (world s))"
proof -
  have inv: "stdio_inv pos live s"
    by (rule session_inv [OF assms(1) initial_inv [of live w pos, OF assms(2)] assms(3)])
  have ok: "slot_ok pos live (world s) (fp_at s i)" using inv assms(4) by (simp add: stdio_inv_def)
  have "r = pos (fp_file (fp_at s i)) (world s)" if ft: "ftell_slot t i s = Some (r, s')" and r: "r \<noteq> - 1" for r s'
  proof (cases "fp_flags (fp_at s i) AND SOFF \<noteq> 0")
    case True
    then show ?thesis using ft ok by (auto simp: ftell_slot_def slot_ok_def)
  next
    case False
    then obtain w' e where "lseek_r t (fp_file (fp_at s i)) 0 SEEK_CUR (world s) = Some (r, w', e)"
      using ft by (auto simp: ftell_slot_def sseek_def Let_def)
    from fd_law_seek [OF assms(1) this] show ?thesis using r by simp
  qed
  then show ?thesis
    using inv assms(4) ok unfolding stdio_inv_def slot_ok_def by blast
qed

text \<open>A root device with one file, and a session on it.\<close>

definition one_pos :: "int \<Rightarrow> (int \<Rightarrow> int option) \<Rightarrow> int" where
  "one_pos fd w = (case w fd of None \<Rightarrow> 0 | Some p \<Rightarrow> p)"

definition one_dev :: "(int \<Rightarrow> int option) dm_device" where
  "one_dev = \<lparr>dv_name = [slash],
     dv_open = Some (\<lambda>p fl md w. if w 3 = None then (3, w(3 := Some 0)) else (- 1, w)),
     dv_close = Some (\<lambda>fd w. (0, w(fd := None))),
     dv_write = Some (\<lambda>fd bs w. (int (length bs), if w fd = None then w else w(fd := Some 9))),
     dv_read = Some (\<lambda>fd n w. if w fd = None then ((- 1, []), w) else ((1, [0x41]), w(fd := Some (wrap32 (one_pos fd w + 1))))),
     dv_lseek = Some (\<lambda>fd off wh w. if w fd = None \<or> wh \<noteq> SEEK_CUR then (- 1, w)
        else (one_pos fd w + off, w(fd := Some (one_pos fd w + off)))),
     dv_opendir = None, dv_readdir = None, dv_closedir = None\<rparr>"

definition one_table :: "(int \<Rightarrow> int option) dm_table" where
  "one_table = \<lparr>dm_list = [Some one_dev], dm_num_devs = 1\<rparr>"

lemma one_device: "dm_get_device_at one_table (DM_GET_DEVID fd) = (if DM_GET_DEVID fd = 0 then Some one_dev else None)"
  by (auto simp: dm_get_device_at_def one_table_def)

lemma one_fd: "DM_GET_DEVID fd = 0 \<Longrightarrow> DM_GET_FD fd = fd"
proof -
  assume "DM_GET_DEVID fd = 0"
  then have "fd div 2 ^ 11 = 0" by (simp add: DM_GET_DEVID_def dm_consts drop_bit_eq_div)
  then have "0 \<le> fd" "fd < 2 ^ 11" by (auto simp: div_eq_0_iff)
  moreover have "DM_GET_FD fd = fd mod 2 ^ 11"
  proof -
    have "fd AND 2047 = take_bit 11 fd" using take_bit_eq_mask [of 11 fd] by (simp add: mask_eq_exp_minus_1)
    then show ?thesis unfolding DM_GET_FD_def dm_consts by (simp add: push_bit_eq_mult take_bit_eq_mod)
  qed
  ultimately show ?thesis by simp
qed

lemma one_entry: "find_dm_entry one_table p = Some (i, a) \<Longrightarrow> i = 0"
  by (auto simp: find_dm_entry_def one_table_def Let_def dev_at_def one_dev_def split: if_splits prod.splits option.splits)

lemma one_laws: "fd_laws one_table one_pos dom"
  unfolding fd_laws_def
proof (intro conjI)
  show "close_law one_table one_pos dom"
    by (auto simp: close_law_def close_r_def one_device one_dev_def one_fd others_kept_def one_pos_def split: if_splits)
  show "read_law one_table one_pos dom"
    by (auto simp: read_law_def read_r_def one_device one_dev_def one_fd others_kept_def one_pos_def split: if_splits)
  show "write_law one_table one_pos dom"
    by (auto simp: write_law_def write_r_def one_device one_dev_def one_fd others_kept_def one_pos_def split: if_splits)
  show "seek_law one_table one_pos dom"
    by (auto simp: seek_law_def lseek_r_def one_device one_dev_def one_fd others_kept_def one_pos_def split: if_splits)
  have dev: "dev_at one_table 0 = one_dev" by (simp add: dev_at_def one_table_def)
  have op: "dv_open one_dev = Some (\<lambda>p fl md w. if w 3 = None then (3, w(3 := Some 0)) else (- 1, w))"
    by (simp add: one_dev_def)
  have desc: "DM_MAKE_DESC 0 3 = 3" by (simp add: DM_MAKE_DESC_def)
  show "open_law one_table one_pos dom"
    unfolding open_law_def
  proof (intro allI impI)
    fix p fl w d w' e
    assume o: "open_r one_table p fl 0 w = (d, w', e)"
    show "(\<forall>g \<in> dom w. one_pos g w' = one_pos g w) \<and>
       (if 0 \<le> d then d < 2 ^ 15 \<and> d \<notin> dom w \<and> dom w' = insert d (dom w) else dom w' = dom w)"
    proof (cases "find_dm_entry one_table p")
      case None
      then show ?thesis using o by (auto simp: open_r_def)
    next
      case (Some ia)
      then obtain a where "find_dm_entry one_table p = Some (0, a)" using one_entry [of p] by (cases ia) auto
      then show ?thesis
        using o dev op desc by (cases "w 3") (auto simp: open_r_def one_pos_def)
    qed
  qed
qed

definition sample_calls :: "call list" where
  "sample_calls = [Fopen [slash, 0x66] [0x72] \<lparr>pUpdateFileTable = [], pFlashFileTable = [], db_log = [], delupdpack = False, wrFile = False\<rparr> True,
     Fseek 5 1 3, Fread 1 1 3]"

lemma stdio_positions_witness:
  "\<exists>s. session one_table sample_calls \<lparr>files = initial_files, world = [0 \<mapsto> 0, 1 \<mapsto> 0, 2 \<mapsto> 0]\<rparr> = Some s \<and> is_open s 3 \<and>
     (\<exists>s'. ftell_slot one_table 3 s = Some (6, s')) \<and> one_pos 3 (world s) = 6"
proof -
  let ?s0 = "\<lparr>files = initial_files, world = [0 \<mapsto> 0, 1 \<mapsto> 0, 2 \<mapsto> 0]\<rparr> :: (int \<Rightarrow> int option) stdio"
  have run: "(case session one_table sample_calls ?s0 of None \<Rightarrow> False
     | Some s \<Rightarrow> is_open s 3 \<and> fp_file (fp_at s 3) = 3 \<and> (case ftell_slot one_table 3 s of None \<Rightarrow> False | Some (r, s') \<Rightarrow> r = 6))"
    by code_simp
  then obtain s s' where s: "session one_table sample_calls ?s0 = Some s" "is_open s 3" "fp_file (fp_at s 3) = 3"
     "ftell_slot one_table 3 s = Some (6, s')"
    by (auto split: option.splits)
  have "one_pos 3 (world s) = 6"
    using stdio_positions [OF one_laws _ s(1,2)] s(3,4) by auto
  then show ?thesis using s by blast
qed

end
