(* ===== verification/UartMod.thy ===== *)
theory UartMod
  imports Uart
begin

text \<open>
  The port layer \<open>platform/src/common_uart.c\<close> (no receive buffers and no multiplexer on this target) and
  the Lua module \<open>modules/src/uart.c\<close>, over the driver of theory \<open>Uart\<close>. The character classes of the
  \<open>_ctype\<close> table, which is not in the repository, are the parameters \<open>dg\<close> and \<open>sp\<close>. A wait with a timer
  is given as its polls: what arrives before each, and the time that is read after it. The functions of
  the Lua API that check arguments have delivered the values the models take.
\<close>

section \<open>The port layer\<close>

definition PLATFORM_UART_INFINITE_TIMEOUT :: int where "PLATFORM_UART_INFINITE_TIMEOUT = - 1"
definition SERMUX_SERVICE_ID_FIRST :: u32 where "SERMUX_SERVICE_ID_FIRST = 0xD0"
definition SERMUX_PHYS_ID :: u32 where "SERMUX_PHYS_ID = 0xFFFF"

definition platform_uart_exists :: "u32 \<Rightarrow> bool" where
  "platform_uart_exists uid \<longleftrightarrow> unat uid < NUM_UART \<or> uid = PLATFORM_UART_ID_ATC"

record poll =
  po_arrive :: "uart_state \<Rightarrow> uart_state"
  po_diff :: u32

fun timed_recv :: "ivtbl \<Rightarrow> u32 \<Rightarrow> int \<Rightarrow> poll list \<Rightarrow> uart_state \<Rightarrow> (uart_state \<times> recv \<times> poll list) option" where
  "timed_recv env uid timeout [] s = Some (s, Blocks, [])"
| "timed_recv env uid timeout (p # ps) s =
     (case platform_s_uart_recv env uid (po_arrive p s) of
        None \<Rightarrow> None
      | Some (s, Blocks) \<Rightarrow> Some (s, Blocks, ps)
      | Some (s, Ret res) \<Rightarrow>
          if 0 \<le> res \<or> timeout \<le> uint (po_diff p) then Some (s, Ret res, ps) else timed_recv env uid timeout ps s)"

definition platform_uart_recv :: "ivtbl \<Rightarrow> u32 \<Rightarrow> int \<Rightarrow> poll list \<Rightarrow> uart_state \<Rightarrow> (uart_state \<times> recv \<times> poll list) option" where
  "platform_uart_recv env uid timeout ps s =
     (if timeout = 0 \<or> timeout = PLATFORM_UART_INFINITE_TIMEOUT
      then map_option (\<lambda>(s, r). (s, r, ps)) (platform_s_uart_recv env uid s)
      else timed_recv env uid timeout ps s)"

definition platform_uart_send :: "ivtbl \<Rightarrow> u32 \<Rightarrow> byte \<Rightarrow> uart_state \<Rightarrow> (uart_state \<times> u32) option" where
  "platform_uart_send env uid data s = platform_s_uart_send env uid data s"

text \<open>The length is a \<open>u16\<close>.\<close>

definition platform_uart_send_buff :: "ivtbl \<Rightarrow> u32 \<Rightarrow> byte list \<Rightarrow> u16 \<Rightarrow> uart_state \<Rightarrow> (uart_state \<times> u32) option" where
  "platform_uart_send_buff env uid buff len s = platform_s_uart_send_buff env uid (take (unat len) buff) s"

definition platform_uart_set_buffer :: "u32 \<Rightarrow> u32 \<Rightarrow> int" where
  "platform_uart_set_buffer uid log2size = (if uid = SERMUX_PHYS_ID then PLATFORM_ERR else PLATFORM_ERR)"

definition platform_s_uart_set_flow_control :: "u32 \<Rightarrow> int \<Rightarrow> int" where
  "platform_s_uart_set_flow_control uid type = PLATFORM_ERR"

definition platform_uart_set_flow_control :: "u32 \<Rightarrow> int \<Rightarrow> int" where
  "platform_uart_set_flow_control uid type =
     (if SERMUX_SERVICE_ID_FIRST \<le> uid then PLATFORM_ERR else platform_s_uart_set_flow_control uid type)"

section \<open>uart.setup, uart.close, uart.write\<close>

datatype uart_error = Does_not_exist | Setup_error u32 | Virtual_uart | Invalid_number | Not_a_string | Invalid_size
  | Invalid_format | Invalid_timeout | Not_power_of_2 | No_buffer | No_flow_control

definition uart_setup :: "ivtbl \<Rightarrow> u32 \<Rightarrow> u32 \<Rightarrow> int \<Rightarrow> int \<Rightarrow> int \<Rightarrow> u32 \<Rightarrow> uart_state \<Rightarrow> (uart_state \<times> (uart_error + u32)) option" where
  "uart_setup env uid baud databits parity stopbits mode s =
     (if \<not> platform_uart_exists uid then Some (s, Inl Does_not_exist)
      else if SERMUX_SERVICE_ID_FIRST \<le> uid \<and> uid \<noteq> PLATFORM_UART_ID_ATC then Some (s, Inl Virtual_uart)
      else map_option (\<lambda>(s, res). (s, if res \<noteq> baud then Inl (Setup_error res) else Inr res))
             (platform_uart_setup env uid baud databits parity stopbits mode s))"

definition uart_close :: "ivtbl \<Rightarrow> u32 \<Rightarrow> uart_state \<Rightarrow> (uart_state \<times> u32) option" where
  "uart_close env uid s = platform_uart_close env uid s"

datatype lua_arg = Number int | String "byte list" | Other

fun write_args :: "ivtbl \<Rightarrow> u32 \<Rightarrow> lua_arg list \<Rightarrow> u32 \<Rightarrow> uart_state \<Rightarrow> (uart_state \<times> (uart_error + u32)) option" where
  "write_args env uid [] wrote s = Some (s, Inr wrote)"
| "write_args env uid (a # as) wrote s =
     (case a of
        Number n \<Rightarrow>
          if n mod 2 ^ 32 > 255 then Some (s, Inl Invalid_number)
          else (case platform_uart_send env uid (word_of_int n) s of None \<Rightarrow> None
            | Some (s, w) \<Rightarrow> write_args env uid as (wrote + w) s)
      | String buf \<Rightarrow>
          (case platform_uart_send_buff env uid buf (of_nat (length buf)) s of None \<Rightarrow> None
           | Some (s, w) \<Rightarrow> write_args env uid as (wrote + w) s)
      | Other \<Rightarrow> Some (s, Inl Not_a_string))"

definition uart_write :: "ivtbl \<Rightarrow> u32 \<Rightarrow> lua_arg list \<Rightarrow> uart_state \<Rightarrow> (uart_state \<times> (uart_error + u32)) option" where
  "uart_write env uid as s =
     (if \<not> platform_uart_exists uid then Some (s, Inl Does_not_exist) else write_args env uid as 0 s)"

section \<open>uart.read, uart.getchar\<close>

datatype read_mode = MODE_LINE | MODE_NUMBER | MODE_SPACE | MODE_MAXSIZE

text \<open>The second argument: a number, or a format.\<close>

definition read_format :: "int + byte list \<Rightarrow> uart_error + (read_mode \<times> int)" where
  "read_format a =
     (case a of
        Inl n \<Rightarrow> if n < 0 then Inl Invalid_size else Inr (MODE_MAXSIZE, n)
      | Inr fmt \<Rightarrow>
          if fmt = [0x2A, 0x6C] then Inr (MODE_LINE, 0)
          else if fmt = [0x2A, 0x6E] then Inr (MODE_NUMBER, 0)
          else if fmt = [0x2A, 0x73] then Inr (MODE_SPACE, 0)
          else Inl Invalid_format)"

definition read_timeout :: "int option \<Rightarrow> uart_error + int" where
  "read_timeout t =
     (case t of None \<Rightarrow> Inr PLATFORM_UART_INFINITE_TIMEOUT
      | Some t \<Rightarrow> if t < 0 \<and> t \<noteq> PLATFORM_UART_INFINITE_TIMEOUT then Inl Invalid_timeout else Inr t)"

text \<open>The loop: \<open>None\<close> when it does not return (or a receive is unsafe).\<close>

partial_function (option) read_loop ::
  "ivtbl \<Rightarrow> (byte \<Rightarrow> bool) \<Rightarrow> (byte \<Rightarrow> bool) \<Rightarrow> u32 \<Rightarrow> read_mode \<Rightarrow> int \<Rightarrow> int \<Rightarrow> poll list \<Rightarrow> int \<Rightarrow> byte list \<Rightarrow> uart_state
     \<Rightarrow> (uart_state \<times> byte list) option"
where
  "read_loop env dg sp uid mode maxsize timeout ps count b s =
     (case platform_uart_recv env uid timeout ps s of
        None \<Rightarrow> None
      | Some (s, Blocks, ps) \<Rightarrow> None
      | Some (s, Ret res, ps) \<Rightarrow>
          if res = - 1 then Some (s, b)
          else
            let cres = word_of_int res :: byte; count = wrap32 (count + 1);
                issign = (count = 1 \<and> (res = 0x2D \<or> res = 0x2B)) in
            if cres = 0x0A \<and> mode = MODE_LINE then Some (s, b @ [cres])
            else if \<not> dg cres \<and> \<not> issign \<and> mode = MODE_NUMBER then Some (s, b)
            else if sp cres \<and> mode = MODE_SPACE then Some (s, b)
            else if count = maxsize \<and> mode = MODE_MAXSIZE then Some (s, b @ [cres])
            else read_loop env dg sp uid mode maxsize timeout ps count (b @ [cres]) s)"

datatype lua_result = Lua_string "byte list" | Lua_integer int

text \<open>\<open>num\<close>: the conversion of a string to an integer by Lua.\<close>

definition uart_read ::
  "ivtbl \<Rightarrow> (byte \<Rightarrow> bool) \<Rightarrow> (byte \<Rightarrow> bool) \<Rightarrow> (byte list \<Rightarrow> int) \<Rightarrow> u32 \<Rightarrow> int + byte list \<Rightarrow> int option \<Rightarrow> poll list \<Rightarrow> uart_state
     \<Rightarrow> (uart_state \<times> (uart_error + lua_result)) option"
where
  "uart_read env dg sp num uid a t ps s =
     (if \<not> platform_uart_exists uid then Some (s, Inl Does_not_exist)
      else case read_format a of Inl e \<Rightarrow> Some (s, Inl e)
      | Inr (mode, maxsize) \<Rightarrow>
        (case read_timeout t of Inl e \<Rightarrow> Some (s, Inl e)
         | Inr timeout \<Rightarrow>
           map_option (\<lambda>(s, b). (s, Inr (if mode = MODE_NUMBER then Lua_integer (num b) else Lua_string b)))
             (read_loop env dg sp uid mode maxsize timeout ps 0 [] s)))"

definition uart_getchar ::
  "ivtbl \<Rightarrow> u32 \<Rightarrow> int option \<Rightarrow> poll list \<Rightarrow> uart_state \<Rightarrow> (uart_state \<times> (uart_error + byte list)) option"
where
  "uart_getchar env uid t ps s =
     (if \<not> platform_uart_exists uid then Some (s, Inl Does_not_exist)
      else case read_timeout t of Inl e \<Rightarrow> Some (s, Inl e)
      | Inr timeout \<Rightarrow>
        (case platform_uart_recv env uid timeout ps s of None \<Rightarrow> None
         | Some (s, Blocks, ps) \<Rightarrow> None
         | Some (s, Ret res, ps) \<Rightarrow> Some (s, Inr (if res = - 1 then [] else [word_of_int res]))))"

section \<open>uart.set_buffer, uart.set_flow_control, uart.sleep\<close>

text \<open>\<open>intlog2\<close> of \<open>platform/src/common.c\<close>: the loop ends because \<open>v\<close> is halved.\<close>

function intlog2_loop :: "u32 \<Rightarrow> u32 \<Rightarrow> u32" where
  "intlog2_loop v r = (let v = drop_bit 1 v in if v \<noteq> 0 then intlog2_loop v (r + 1) else r)"
  by pat_completeness auto

lemma unat_halved: "unat (drop_bit 1 (v :: u32)) = unat v div 2"
  by (simp add: unat_div drop_bit_eq_div)

lemma halved_less: "drop_bit 1 (v :: u32) \<noteq> 0 \<Longrightarrow> unat (drop_bit 1 v) < unat v"
  using unat_gt_0 [of v] by (cases "v = 0") (simp_all add: unat_div drop_bit_eq_div)

termination intlog2_loop
  by (relation "measure (\<lambda>(v, _). unat v)") (auto intro: halved_less [unfolded One_nat_def])

declare intlog2_loop.simps [simp del]

definition intlog2 :: "u32 \<Rightarrow> u32" where
  "intlog2 v = intlog2_loop v 0"

definition uart_set_buffer :: "u32 \<Rightarrow> u32 \<Rightarrow> uart_error option" where
  "uart_set_buffer uid sz =
     (if \<not> platform_uart_exists uid then Some Does_not_exist
      else if sz \<noteq> 0 \<and> sz AND (sz - 1) \<noteq> 0 then Some Not_power_of_2
      else if sz = 0 \<and> SERMUX_SERVICE_ID_FIRST \<le> uid then Some Virtual_uart
      else if platform_uart_set_buffer uid (intlog2 sz) = PLATFORM_ERR then Some No_buffer else None)"

definition uart_set_flow_control :: "u32 \<Rightarrow> int \<Rightarrow> uart_error option" where
  "uart_set_flow_control uid type =
     (if \<not> platform_uart_exists uid then Some Does_not_exist
      else if platform_uart_set_flow_control uid type \<noteq> PLATFORM_OK then Some No_flow_control else None)"

text \<open>The ticks that \<open>platform_os_sleep\<close> asks the kernel to sleep.\<close>

definition platform_os_sleep :: "u32 \<Rightarrow> u32" where
  "platform_os_sleep ms = (ms * 16384) div 1000"

section \<open>What a read returns\<close>

text \<open>The bytes returned and the bytes left, of those that are there.\<close>

definition read_number :: "(byte \<Rightarrow> bool) \<Rightarrow> byte list \<Rightarrow> byte list" where
  "read_number dg bs =
     (case bs of [] \<Rightarrow> [] | c # cs \<Rightarrow>
        if c = 0x2D \<or> c = 0x2B then c # takeWhile dg cs else takeWhile dg bs)"

definition read_line :: "byte list \<Rightarrow> byte list" where
  "read_line bs = (let l = takeWhile (\<lambda>c. c \<noteq> 0x0A) bs in if 0x0A \<in> set bs then l @ [0x0A] else l)"

definition read_spec :: "(byte \<Rightarrow> bool) \<Rightarrow> (byte \<Rightarrow> bool) \<Rightarrow> read_mode \<Rightarrow> nat \<Rightarrow> byte list \<Rightarrow> byte list \<times> byte list" where
  "read_spec dg sp mode n bs =
     (case mode of
        MODE_LINE \<Rightarrow> (read_line bs, drop (length (read_line bs)) bs)
      | MODE_NUMBER \<Rightarrow> (read_number dg bs, drop (length (read_number dg bs) + 1) bs)
      | MODE_SPACE \<Rightarrow> (takeWhile (\<lambda>c. \<not> sp c) bs, drop (length (takeWhile (\<lambda>c. \<not> sp c) bs) + 1) bs)
      | MODE_MAXSIZE \<Rightarrow> if n = 0 then (bs, []) else (take n bs, drop n bs))"

fun read_rec :: "(byte \<Rightarrow> bool) \<Rightarrow> (byte \<Rightarrow> bool) \<Rightarrow> read_mode \<Rightarrow> nat \<Rightarrow> nat \<Rightarrow> byte list \<Rightarrow> byte list \<times> byte list" where
  "read_rec dg sp mode n k [] = ([], [])"
| "read_rec dg sp mode n k (c # cs) =
     (if c = 0x0A \<and> mode = MODE_LINE then ([c], cs)
      else if \<not> dg c \<and> \<not> (k = 0 \<and> (c = 0x2D \<or> c = 0x2B)) \<and> mode = MODE_NUMBER then ([], cs)
      else if sp c \<and> mode = MODE_SPACE then ([], cs)
      else if Suc k = n \<and> mode = MODE_MAXSIZE then ([c], cs)
      else (case read_rec dg sp mode n (Suc k) cs of (out, rest) \<Rightarrow> (c # out, rest)))"

lemma read_rec_line: "read_rec dg sp MODE_LINE n k bs = (read_line bs, drop (length (read_line bs)) bs)"
  by (induction bs arbitrary: k) (auto simp: read_line_def Let_def)

lemma read_rec_space: "read_rec dg sp MODE_SPACE n k bs =
    (takeWhile (\<lambda>c. \<not> sp c) bs, drop (length (takeWhile (\<lambda>c. \<not> sp c) bs) + 1) bs)"
  by (induction bs arbitrary: k) auto

lemma read_rec_digits: "read_rec dg sp MODE_NUMBER n (Suc k) bs =
    (takeWhile dg bs, drop (length (takeWhile dg bs) + 1) bs)"
  by (induction bs arbitrary: k) auto

lemma read_rec_size: "k < n \<Longrightarrow> read_rec dg sp MODE_MAXSIZE n k bs = (take (n - k) bs, drop (n - k) bs)"
proof (induction bs arbitrary: k)
  case (Cons c bs)
  show ?case
  proof (cases "Suc k = n")
    case True
    then have "n - k = Suc 0" by simp
    then show ?thesis using True by simp
  next
    case False
    then have "n - k = Suc (n - Suc k)" "Suc k < n" using Cons.prems by simp_all
    then show ?thesis using Cons.IH [of "Suc k"] False by simp
  qed
qed simp

lemma read_rec_all: "read_rec dg sp MODE_MAXSIZE 0 k bs = (bs, [])"
  by (induction bs arbitrary: k) auto

lemma read_rec_spec: "read_rec dg sp mode n 0 bs = read_spec dg sp mode n bs"
proof (cases mode)
  case MODE_NUMBER
  then show ?thesis
    by (cases bs) (auto simp: read_spec_def read_number_def read_rec_digits)
next
  case MODE_MAXSIZE
  then show ?thesis
    by (cases "n = 0") (simp_all add: read_spec_def read_rec_all read_rec_size)
qed (simp_all add: read_spec_def read_rec_line read_rec_space)

lemma read_loop_rec:
  assumes "uart_inv s" and "interrupt_mode uid s" and "timeout = 0 \<or> timeout = PLATFORM_UART_INFINITE_TIMEOUT"
    and "k + length (rx_stream uid s) < 2 ^ 31" and "n < 2 ^ 31"
  shows "\<exists>s'. read_loop env dg sp uid mode (int n) timeout ps (int k) b s =
      Some (s', b @ fst (read_rec dg sp mode n k (rx_stream uid s)))
     \<and> uart_inv s' \<and> interrupt_mode uid s' \<and> rx_stream uid s' = snd (read_rec dg sp mode n k (rx_stream uid s))"
  using assms(1,2,4)
proof (induction "rx_stream uid s" arbitrary: s k b)
  case Nil
  obtain s' where r: "platform_s_uart_recv env uid s = Some (s', Ret (- 1))" "uart_inv s'" "rx_stream uid s' = []" "ctxs s' = ctxs s"
  proof -
    have rx: "rx_stream uid s = []" using Nil.hyps by simp
    show thesis using recv_ok [OF Nil.prems(1,2), of env] that by (auto simp: rx recv_result_def)
  qed
  have "platform_uart_recv env uid timeout ps s = Some (s', Ret (- 1), ps)"
    using r(1) assms(3) by (simp add: platform_uart_recv_def)
  then have "read_loop env dg sp uid mode (int n) timeout ps (int k) b s = Some (s', b)"
    by (subst read_loop.simps) simp
  then show ?case
    using r interrupt_mode_cong [OF r(4), of uid] Nil.prems(2) Nil.hyps by (simp add: Nil.hyps [symmetric])
next
  case (Cons c cs)
  obtain s1 where r: "platform_s_uart_recv env uid s = Some (s1, Ret (uint c))" "uart_inv s1" "rx_stream uid s1 = cs" "ctxs s1 = ctxs s"
  proof -
    have rx: "rx_stream uid s = c # cs" using Cons.hyps(2) by simp
    show thesis using recv_ok [OF Cons.prems(1,2), of env] that by (auto simp: rx recv_result_def)
  qed
  have int1: "interrupt_mode uid s1" using interrupt_mode_cong [OF r(4)] Cons.prems(2) by blast
  have recv: "platform_uart_recv env uid timeout ps s = Some (s1, Ret (uint c), ps)"
    using r(1) assms(3) by (simp add: platform_uart_recv_def)
  have w: "wrap32 (int k + 1) = int (Suc k)"
    using Cons.prems(3) Cons.hyps(2) [symmetric] by (simp add: layout_simps)
  have "0 \<le> uint c" by simp
  then have ne: "uint c \<noteq> - 1" by linarith
  have sign: "uint c = 0x2D \<or> uint c = 0x2B \<longleftrightarrow> c = 0x2D \<or> c = 0x2B"
    using word_uint_eq_iff [of c "0x2D"] word_uint_eq_iff [of c "0x2B"] by simp
  have step: "read_loop env dg sp uid mode (int n) timeout ps (int k) b s =
     (if c = 0x0A \<and> mode = MODE_LINE then Some (s1, b @ [c])
      else if \<not> dg c \<and> \<not> (k = 0 \<and> (c = 0x2D \<or> c = 0x2B)) \<and> mode = MODE_NUMBER then Some (s1, b)
      else if sp c \<and> mode = MODE_SPACE then Some (s1, b)
      else if Suc k = n \<and> mode = MODE_MAXSIZE then Some (s1, b @ [c])
      else read_loop env dg sp uid mode (int n) timeout ps (int (Suc k)) (b @ [c]) s1)"
    using ne by (subst read_loop.simps) (simp add: recv Let_def w sign del: of_nat_Suc)
  obtain s' where IH: "read_loop env dg sp uid mode (int n) timeout ps (int (Suc k)) (b @ [c]) s1 =
      Some (s', (b @ [c]) @ fst (read_rec dg sp mode n (Suc k) cs))" "uart_inv s'" "interrupt_mode uid s'"
      "rx_stream uid s' = snd (read_rec dg sp mode n (Suc k) cs)"
    using Cons.hyps(1) [of s1 "Suc k" "b @ [c]"] r int1 Cons.prems(3) Cons.hyps(2) [symmetric] by auto
  show ?case
    unfolding step Cons.hyps(2) [symmetric] using IH r int1 by (auto split: prod.splits simp del: of_nat_Suc)
qed



text \<open>A string of 65536 bytes is sent as one of no byte: the length is cut to 16 bits.\<close>

lemma uart_write_truncates:
  assumes "length buf = 2 ^ 16"
  shows "platform_uart_send_buff env uid buf (of_nat (length buf)) s = platform_s_uart_send_buff env uid [] s"
  using assms by (simp add: platform_uart_send_buff_def)

text \<open>A sleep of 262144 ms asks for no tick: the product exceeds 32 bits.\<close>

lemma os_sleep_wraps: "platform_os_sleep 262144 = 0"
  by code_simp

text \<open>\<open>intlog2\<close> is the logarithm of a power of two.\<close>

lemma unat_two_power: "m < 32 \<Longrightarrow> unat ((2 :: u32) ^ m) = 2 ^ m"
  using power_strict_increasing [of m 32 "2 :: nat"] unat_of_nat [of "2 ^ m", where 'a = 32] by (simp add: take_bit_eq_mod)

lemma intlog2_power:
  assumes "n < 32" shows "intlog2 (2 ^ n) = of_nat n"
proof -
  have "intlog2_loop (2 ^ n) r = r + of_nat n" for r
    using assms
  proof (induction n arbitrary: r)
    case 0
    show ?case by (subst intlog2_loop.simps) simp
  next
    case (Suc n)
    have d: "drop_bit 1 ((2 :: u32) ^ Suc n) = 2 ^ n"
      unfolding word_unat_eq_iff unat_halved using unat_two_power [of n] unat_two_power [of "Suc n"] Suc.prems by simp
    have "(2 :: u32) ^ n \<noteq> 0" using Suc.prems by (simp add: exp_eq_zero_iff)
    then show ?case using d Suc by (subst intlog2_loop.simps) (simp add: Let_def)
  qed
  then show ?thesis by (simp add: intlog2_def)
qed

end
