(* ===== verification/PowerOn.thy ===== *)
theory PowerOn
  imports Prelude
begin

text \<open>
  Start-up and power management: \<open>platform/coolsand/src/platform_main.c\<close> (power-on handshake, messages
  of the power manager, charging parameters), \<open>platform/coolsand/src/platform_pmd.c\<close> and
  \<open>modules/src/pmd.c\<close>. What the kernel answers to a call is an argument.

  The handshake runs in four tasks at once: the kernel calls \<open>cust_main\<close>, the power manager calls
  \<open>cust_pm_message\<close>, \<open>cust_task_main\<close> waits for the power-on reason, and the Lua task may start the
  system by itself. A step relation interleaves their accesses to the shared variables; theory
  \<open>PowerProps\<close> has its invariant.
\<close>

section \<open>Data\<close>

datatype poweron_reason = BY_KEY | BY_CHARGER | BY_ALARM | BY_RESET | BY_OTHER | BY_INVALID
  | BY_EXCEPTION | BY_HOST | BY_WATCHDOG

datatype charger_status = STATUS_ERR | PLUG_IN | PLUG_OUT | STATUS_INVALID

datatype chr_stop_reason = STOP_NO_REASON | STOP_BAT_FULL | STOP_BAT_ERR | STOP_TIMEOUT | STOP_TEMP
  | STOP_CHARGER_ERR | STOP_NO_CHARGER | STOP_OTER_REASON | RECHR_STOP_BAT_FULL | STOP_INVALID_REASON

text \<open>A message of the power manager; \<open>OTHER_EVT\<close> is any event that \<open>cust_pm_message\<close> does not name.\<close>

datatype pm_msg = PM_POWERON_ON_IND poweron_reason | CHR_PRESENT_IND bool | BAT_PRESENT_IND bool | BAT_LEVEL_IND u8
  | BAT_CHARGING u8 | BAT_CHR_FULL u8 | BAT_CHR_STOP chr_stop_reason | BAT_CHR_ERR | OTHER_EVT

definition BATT_NOT_CHARGING :: u8 where "BATT_NOT_CHARGING = 0"
definition BATT_CHARING :: u8 where "BATT_CHARING = 1"
definition BATT_CHARGE_STOP :: u8 where "BATT_CHARGE_STOP = 2"

record pmd_data =
  battStatus :: bool
  chargerStatus :: bool
  chargeState :: u8
  battLevel :: u8
  battVolt :: u16

definition pmdData0 :: pmd_data where
  "pmdData0 = \<lparr>battStatus = True, chargerStatus = False, chargeState = BATT_NOT_CHARGING, battLevel = 0xff, battVolt = 0\<rparr>"

text \<open>The kernel calls of the handshake, the newest first in a log.\<close>

datatype pw_event = SemCreate | SemRelease | SemWait | SemDelete | PoweronSystem
  | SetEncDataOk | SetupVatQueue | InitAt | InitPmd | CreateCustTask | CreateLuaTask

record pw =
  poweronSyncSemaphore :: u32
  reason :: poweron_reason
  hasPoweron :: bool
  pmdData :: pmd_data
  sent :: "pmd_data list"
  p_log :: "pw_event list"

definition p_emit :: "pw_event \<Rightarrow> 'a pw_scheme \<Rightarrow> 'a pw_scheme" where
  "p_emit e s = s\<lparr>p_log := e # p_log s\<rparr>"

section \<open>The power-on handshake\<close>

definition cust_init :: "'a pw_scheme \<Rightarrow> 'a pw_scheme" where
  "cust_init s = s\<lparr>reason := BY_INVALID, poweronSyncSemaphore := 0\<rparr>"

text \<open>\<open>h\<close>: the semaphore the kernel creates. \<open>None\<close> is a failed \<open>ASSERT\<close>.\<close>

definition cust_poweron_reason_init :: "u32 \<Rightarrow> 'a pw_scheme \<Rightarrow> 'a pw_scheme option" where
  "cust_poweron_reason_init h s =
     (if poweronSyncSemaphore s = 0
      then if h \<noteq> 0 then Some (p_emit SemCreate (s\<lparr>poweronSyncSemaphore := h\<rparr>)) else None
      else Some s)"

text \<open>\<open>pmd\<close>, \<open>ct\<close>, \<open>lt\<close>: the answers of \<open>init_pmd\<close> and of the two \<open>create_task\<close>.\<close>

definition cust_main :: "u32 \<Rightarrow> bool \<Rightarrow> u32 \<Rightarrow> u32 \<Rightarrow> 'a pw_scheme \<Rightarrow> 'a pw_scheme option" where
  "cust_main h pmd ct lt s =
     (case cust_poweron_reason_init h (p_emit SetEncDataOk s) of
        None \<Rightarrow> None
      | Some s \<Rightarrow>
          (let s = p_emit InitPmd (p_emit InitAt (p_emit SetupVatQueue s)) in
           if \<not> pmd then None else
           let s = p_emit CreateCustTask s in
           if ct = 0 then None else
           let s = p_emit CreateLuaTask s in
           if lt = 0 then None else Some s))"

definition poweron_release :: "'a pw_scheme \<Rightarrow> 'a pw_scheme" where
  "poweron_release s = (if poweronSyncSemaphore s \<noteq> 0 then p_emit SemRelease s else s)"

definition cust_poweron_system :: "'a pw_scheme \<Rightarrow> 'a pw_scheme" where
  "cust_poweron_system s = (if \<not> hasPoweron s then p_emit PoweronSystem (s\<lparr>hasPoweron := True\<rparr>) else s)"

definition cust_get_poweron_reason :: "'a pw_scheme \<Rightarrow> poweron_reason" where
  "cust_get_poweron_reason s = reason s"

section \<open>The messages of the power manager\<close>

text \<open>\<open>volt\<close> and \<open>chg\<close>: what \<open>get_batteryStatus\<close> and \<open>get_chargerStatus\<close> answer. \<open>None\<close>: the event is not
  reported to Lua.\<close>

definition pm_data :: "u16 \<Rightarrow> charger_status \<Rightarrow> poweron_reason \<Rightarrow> pm_msg \<Rightarrow> pmd_data \<Rightarrow> pmd_data option" where
  "pm_data volt chg r m d =
     (case m of
        PM_POWERON_ON_IND _ \<Rightarrow>
          Some (if r = BY_INVALID then d\<lparr>battVolt := volt, chargerStatus := (chg = PLUG_IN)\<rparr> else d)
      | CHR_PRESENT_IND present \<Rightarrow>
          (let d = d\<lparr>chargerStatus := present\<rparr> in
           Some (if \<not> chargerStatus d then d\<lparr>chargeState := BATT_NOT_CHARGING\<rparr> else d))
      | BAT_PRESENT_IND present \<Rightarrow> Some (d\<lparr>battStatus := present\<rparr>)
      | BAT_LEVEL_IND lev \<Rightarrow> if battLevel d = lev then None else Some (d\<lparr>battLevel := lev, battVolt := volt\<rparr>)
      | BAT_CHARGING lev \<Rightarrow>
          if chargeState d = BATT_CHARING \<and> battLevel d = lev then None
          else Some (d\<lparr>chargeState := BATT_CHARING, battLevel := lev, battVolt := volt\<rparr>)
      | BAT_CHR_FULL lev \<Rightarrow> Some (d\<lparr>chargeState := BATT_CHARGE_STOP, battLevel := lev, battVolt := volt\<rparr>)
      | BAT_CHR_STOP why \<Rightarrow>
          Some (d\<lparr>chargeState := (if why = STOP_NO_CHARGER then BATT_NOT_CHARGING else BATT_CHARGE_STOP)\<rparr>)
      | BAT_CHR_ERR \<Rightarrow> Some (d\<lparr>chargeState := BATT_CHARGE_STOP\<rparr>)
      | OTHER_EVT \<Rightarrow> Some d)"

definition cust_pm_message :: "u16 \<Rightarrow> charger_status \<Rightarrow> pm_msg \<Rightarrow> 'a pw_scheme \<Rightarrow> 'a pw_scheme" where
  "cust_pm_message volt chg m s =
     (case pm_data volt chg (reason s) m (pmdData s) of
        None \<Rightarrow> s
      | Some d \<Rightarrow>
          (let s = s\<lparr>pmdData := d\<rparr>;
               s = (case m of
                      PM_POWERON_ON_IND r \<Rightarrow> if reason s = BY_INVALID then poweron_release (s\<lparr>reason := r\<rparr>) else s
                    | _ \<Rightarrow> s)
           in s\<lparr>sent := d # sent s\<rparr>))"

section \<open>The tasks\<close>

datatype main_pc = M_Start | M_Vat | M_Pmd | M_Task | M_Lua | M_Done
datatype pm_pc = P_Idle | P_Set poweron_reason | P_Release
datatype task_pc = T_None | T_Wait | T_Delete | T_Clear | T_Decide | T_Test | T_Power | T_Loop
datatype lua_pc = L_None | L_Idle | L_Power

record sys = pw +
  main_pc :: main_pc
  pm_pc :: pm_pc
  task_pc :: task_pc
  lua_pc :: lua_pc

text \<open>The count of the kernel's semaphore after a log: \<open>Some None\<close> while it does not exist, \<open>None\<close> after a
  call for a semaphore that does not exist, a wait that should have blocked, or a second creation.\<close>

fun sem_run :: "pw_event list \<Rightarrow> nat option option" where
  "sem_run [] = Some None"
| "sem_run (e # es) =
     (case sem_run es of None \<Rightarrow> None
      | Some k \<Rightarrow>
        (case e of
           SemCreate \<Rightarrow> if k = None then Some (Some 0) else None
         | SemRelease \<Rightarrow> (case k of None \<Rightarrow> None | Some n \<Rightarrow> Some (Some (Suc n)))
         | SemWait \<Rightarrow> (case k of Some (Suc n) \<Rightarrow> Some (Some n) | _ \<Rightarrow> None)
         | SemDelete \<Rightarrow> (case k of None \<Rightarrow> None | Some n \<Rightarrow> Some None)
         | _ \<Rightarrow> Some k))"

definition boot_sys :: sys where
  "boot_sys = cust_init \<lparr>poweronSyncSemaphore = 0, reason = BY_INVALID, hasPoweron = False, pmdData = pmdData0, sent = [],
     p_log = [], main_pc = M_Start, pm_pc = P_Idle, task_pc = T_None, lua_pc = L_None\<rparr>"

text \<open>
  One access of one task. The power manager gives a valid reason (\<open>r \<noteq> BY_INVALID\<close>) and calls back one
  message at a time. \<open>task_wait\<close> is enabled only when the semaphore has a count. The test and the setting
  of \<open>hasPoweron\<close> in \<open>cust_poweron_system\<close> are two steps of whichever task calls it.
\<close>

inductive sys_step :: "sys \<Rightarrow> sys \<Rightarrow> bool" where
  main_sem: "main_pc s = M_Start \<Longrightarrow> cust_poweron_reason_init h (p_emit SetEncDataOk s) = Some s' \<Longrightarrow>
    sys_step s (s'\<lparr>main_pc := M_Vat\<rparr>)"
| main_vat: "main_pc s = M_Vat \<Longrightarrow> sys_step s ((p_emit InitAt (p_emit SetupVatQueue s))\<lparr>main_pc := M_Pmd\<rparr>)"
| main_pmd: "main_pc s = M_Pmd \<Longrightarrow> sys_step s ((p_emit InitPmd s)\<lparr>main_pc := M_Task\<rparr>)"
| main_task: "main_pc s = M_Task \<Longrightarrow> sys_step s ((p_emit CreateCustTask s)\<lparr>main_pc := M_Lua, task_pc := T_Wait\<rparr>)"
| main_lua: "main_pc s = M_Lua \<Longrightarrow> sys_step s ((p_emit CreateLuaTask s)\<lparr>main_pc := M_Done, lua_pc := L_Idle\<rparr>)"
| pm_other: "main_pc s \<in> {M_Task, M_Lua, M_Done} \<Longrightarrow> pm_pc s = P_Idle \<Longrightarrow> (\<And>r. m \<noteq> PM_POWERON_ON_IND r) \<Longrightarrow>
    sys_step s (cust_pm_message volt chg m s)"
| pm_again: "main_pc s \<in> {M_Task, M_Lua, M_Done} \<Longrightarrow> pm_pc s = P_Idle \<Longrightarrow> reason s \<noteq> BY_INVALID \<Longrightarrow>
    sys_step s (cust_pm_message volt chg (PM_POWERON_ON_IND r) s)"
| pm_test: "main_pc s \<in> {M_Task, M_Lua, M_Done} \<Longrightarrow> pm_pc s = P_Idle \<Longrightarrow> reason s = BY_INVALID \<Longrightarrow> r \<noteq> BY_INVALID \<Longrightarrow>
    sys_step s (s\<lparr>pmdData := (pmdData s)\<lparr>battVolt := volt, chargerStatus := (chg = PLUG_IN)\<rparr>, pm_pc := P_Set r\<rparr>)"
| pm_set: "pm_pc s = P_Set r \<Longrightarrow> sys_step s (s\<lparr>reason := r, pm_pc := P_Release\<rparr>)"
| pm_release: "pm_pc s = P_Release \<Longrightarrow>
    sys_step s ((poweron_release s)\<lparr>sent := pmdData s # sent s, pm_pc := P_Idle\<rparr>)"
| task_wait: "task_pc s = T_Wait \<Longrightarrow> poweronSyncSemaphore s \<noteq> 0 \<Longrightarrow> sem_run (p_log s) = Some (Some (Suc n)) \<Longrightarrow>
    sys_step s ((p_emit SemWait s)\<lparr>task_pc := T_Delete\<rparr>)"
| task_delete: "task_pc s = T_Delete \<Longrightarrow> sys_step s ((p_emit SemDelete s)\<lparr>task_pc := T_Clear\<rparr>)"
| task_clear: "task_pc s = T_Clear \<Longrightarrow> sys_step s (s\<lparr>poweronSyncSemaphore := 0, task_pc := T_Decide\<rparr>)"
| task_decide: "task_pc s = T_Decide \<Longrightarrow>
    sys_step s (s\<lparr>task_pc := (if reason s \<noteq> BY_CHARGER then T_Test else T_Loop)\<rparr>)"
| task_test: "task_pc s = T_Test \<Longrightarrow> sys_step s (s\<lparr>task_pc := (if \<not> hasPoweron s then T_Power else T_Loop)\<rparr>)"
| task_power: "task_pc s = T_Power \<Longrightarrow> sys_step s ((p_emit PoweronSystem (s\<lparr>hasPoweron := True\<rparr>))\<lparr>task_pc := T_Loop\<rparr>)"
| lua_test: "lua_pc s = L_Idle \<Longrightarrow> sys_step s (s\<lparr>lua_pc := (if \<not> hasPoweron s then L_Power else L_Idle)\<rparr>)"
| lua_power: "lua_pc s = L_Power \<Longrightarrow> sys_step s ((p_emit PoweronSystem (s\<lparr>hasPoweron := True\<rparr>))\<lparr>lua_pc := L_Idle\<rparr>)"

section \<open>AT data\<close>

text \<open>\<open>l0\<close> is what the field \<open>len\<close> of the allocated block holds; the answers of the two \<open>malloc\<close> are given.
  The result is the message sent to the task.\<close>

record cust_message =
  cm_len :: u16
  cm_data :: "byte list option"

definition cust_at_message :: "bool \<Rightarrow> bool \<Rightarrow> u16 \<Rightarrow> byte list \<Rightarrow> u16 \<Rightarrow> cust_message option" where
  "cust_at_message ok1 ok2 l0 pData len =
     (if ok1 then Some (if ok2 then \<lparr>cm_len = len, cm_data = Some (take (unat len) pData)\<rparr>
                        else \<lparr>cm_len = l0, cm_data = None\<rparr>) else None)"

datatype at_event = ReceiveData "byte list option" u16 | FreeData | FreeMessage

definition cust_dispatch :: "cust_message option \<Rightarrow> at_event list" where
  "cust_dispatch pMessage =
     (case pMessage of None \<Rightarrow> []
      | Some m \<Rightarrow> [ReceiveData (cm_data m) (cm_len m)] @ (if cm_data m \<noteq> None then [FreeData] else []) @ [FreeMessage])"

text \<open>The steps of one task in a row are the function: the relation only adds the interleaving.\<close>

lemma pm_steps_function:
  assumes "reason s = BY_INVALID" and "pm_pc s = P_Idle"
  shows "(let s1 = s\<lparr>pmdData := (pmdData s)\<lparr>battVolt := volt, chargerStatus := (chg = PLUG_IN)\<rparr>, pm_pc := P_Set r\<rparr>;
              s2 = s1\<lparr>reason := r, pm_pc := P_Release\<rparr>
          in (poweron_release s2)\<lparr>sent := pmdData s2 # sent s2, pm_pc := P_Idle\<rparr>)
        = cust_pm_message volt chg (PM_POWERON_ON_IND r) s"
  using assms by (simp add: cust_pm_message_def pm_data_def poweron_release_def p_emit_def Let_def)

lemma power_steps_function:
  "(if \<not> hasPoweron s then (p_emit PoweronSystem ((s\<lparr>lua_pc := L_Power\<rparr>)\<lparr>hasPoweron := True\<rparr>))\<lparr>lua_pc := L_Idle\<rparr>
    else s\<lparr>lua_pc := L_Idle\<rparr>) = (cust_poweron_system s)\<lparr>lua_pc := L_Idle\<rparr>"
  by (simp add: cust_poweron_system_def p_emit_def)

end
