(* ===== verification/PowerProps.thy ===== *)
theory PowerProps
  imports PowerOn
begin

text \<open>
  What the start-up and the power messages promise, whatever the interleaving of the tasks: no call for a
  semaphore that does not exist, no lost wake-up, no task that sees an invalid reason, and at most two
  requests to start the system (one by each task that may ask for it; two do happen). The data that Lua was
  sent last are the data of the power manager.
\<close>

section \<open>The handshake\<close>

definition reach :: "sys \<Rightarrow> bool" where
  "reach s \<longleftrightarrow> sys_step\<^sup>*\<^sup>* boot_sys s"

definition sem_count :: "sys \<Rightarrow> nat option option" where
  "sem_count s = sem_run (p_log s)"

definition powered :: "sys \<Rightarrow> nat" where
  "powered s = count_list (p_log s) PoweronSystem"

abbreviation past_wait :: "sys \<Rightarrow> bool" where
  "past_wait s \<equiv> task_pc s \<notin> {T_None, T_Wait}"

text \<open>The semaphore and the reason, by the state of the power manager's task and of the waiting task.\<close>

definition sem_inv :: "sys \<Rightarrow> bool" where
  "sem_inv s \<longleftrightarrow>
     (if main_pc s = M_Start then poweronSyncSemaphore s = 0 \<and> sem_count s = Some None
      else if \<not> past_wait s then
        poweronSyncSemaphore s \<noteq> 0 \<and> sem_count s = Some (Some (if reason s \<noteq> BY_INVALID \<and> pm_pc s = P_Idle then 1 else 0))
      else if task_pc s = T_Delete then poweronSyncSemaphore s \<noteq> 0 \<and> sem_count s = Some (Some 0)
      else sem_count s = Some None)"

definition pm_inv :: "sys \<Rightarrow> bool" where
  "pm_inv s \<longleftrightarrow>
     (pm_pc s \<noteq> P_Idle \<longrightarrow> \<not> past_wait s \<and> main_pc s \<in> {M_Task, M_Lua, M_Done})
     \<and> (\<forall>r. pm_pc s = P_Set r \<longrightarrow> r \<noteq> BY_INVALID \<and> reason s = BY_INVALID)
     \<and> (pm_pc s = P_Release \<longrightarrow> reason s \<noteq> BY_INVALID)
     \<and> (past_wait s \<longrightarrow> reason s \<noteq> BY_INVALID)"

definition order_inv :: "sys \<Rightarrow> bool" where
  "order_inv s \<longleftrightarrow>
     (main_pc s \<in> {M_Start, M_Vat, M_Pmd} \<longrightarrow> reason s = BY_INVALID \<and> pm_pc s = P_Idle)
     \<and> (task_pc s = T_None \<longleftrightarrow> main_pc s \<in> {M_Start, M_Vat, M_Pmd, M_Task})"

definition power_count_inv :: "sys \<Rightarrow> bool" where
  "power_count_inv s \<longleftrightarrow> (hasPoweron s \<longleftrightarrow> 0 < powered s)
     \<and> powered s + (if task_pc s = T_Loop then 0 else 1) + (if \<not> hasPoweron s \<or> lua_pc s = L_Power then 1 else 0) \<le> 2
     \<and> (task_pc s = T_Loop \<and> reason s \<noteq> BY_CHARGER \<longrightarrow> 0 < powered s)"

lemma p_emit_sel [simp]:
  "p_log (p_emit e s) = e # p_log s" "poweronSyncSemaphore (p_emit e s) = poweronSyncSemaphore s"
  "reason (p_emit e s) = reason s" "hasPoweron (p_emit e s) = hasPoweron s"
  "main_pc (p_emit e t) = main_pc t" "pm_pc (p_emit e t) = pm_pc t" "task_pc (p_emit e t) = task_pc t" "lua_pc (p_emit e t) = lua_pc t"
  by (simp_all add: p_emit_def)

lemma init_sel:
  assumes "cust_poweron_reason_init h s = Some s'" and "poweronSyncSemaphore s = 0"
  shows "p_log s' = SemCreate # p_log s" "poweronSyncSemaphore s' \<noteq> 0" "reason s' = reason s" "hasPoweron s' = hasPoweron s"
    "main_pc s' = main_pc s" "pm_pc s' = pm_pc s" "task_pc s' = task_pc s" "lua_pc s' = lua_pc s"
  using assms by (auto simp: cust_poweron_reason_init_def split: if_splits)

text \<open>A message after the first power-on indication only changes the data and what was sent.\<close>

lemma message_sel:
  assumes "reason s \<noteq> BY_INVALID \<or> (\<forall>r. m \<noteq> PM_POWERON_ON_IND r)"
  shows "p_log (cust_pm_message volt chg m s) = p_log s"
    "poweronSyncSemaphore (cust_pm_message volt chg m s) = poweronSyncSemaphore s"
    "reason (cust_pm_message volt chg m s) = reason s" "hasPoweron (cust_pm_message volt chg m s) = hasPoweron s"
    "main_pc (cust_pm_message volt chg m s) = main_pc s" "pm_pc (cust_pm_message volt chg m s) = pm_pc s"
    "task_pc (cust_pm_message volt chg m s) = task_pc s" "lua_pc (cust_pm_message volt chg m s) = lua_pc s"
  using assms by (auto simp: cust_pm_message_def Let_def split: option.splits pm_msg.splits)

definition handshake_inv :: "sys \<Rightarrow> bool" where
  "handshake_inv s \<longleftrightarrow> sem_inv s \<and> pm_inv s \<and> order_inv s \<and> power_count_inv s"

lemma invs_cong:
  assumes "p_log s' = p_log s" "poweronSyncSemaphore s' = poweronSyncSemaphore s" "reason s' = reason s" "hasPoweron s' = hasPoweron s"
    "main_pc s' = main_pc s" "pm_pc s' = pm_pc s" "task_pc s' = task_pc s" "lua_pc s' = lua_pc s"
  shows "sem_inv s' = sem_inv s" "pm_inv s' = pm_inv s" "order_inv s' = order_inv s" "power_count_inv s' = power_count_inv s"
  unfolding sem_inv_def pm_inv_def order_inv_def power_count_inv_def sem_count_def powered_def assms by (rule refl)+

lemmas message_invs = invs_cong [OF message_sel]

lemma init_facts:
  assumes "sem_inv s" and "order_inv s" and "main_pc s = M_Start" and "cust_poweron_reason_init h (p_emit SetEncDataOk s) = Some t"
  shows "p_log t = SemCreate # SetEncDataOk # p_log s" "poweronSyncSemaphore t \<noteq> 0" "reason t = BY_INVALID" "hasPoweron t = hasPoweron s"
    "pm_pc t = P_Idle" "task_pc t = T_None" "lua_pc t = lua_pc s" "sem_count s = Some None" "task_pc s = T_None"
proof -
  have z: "poweronSyncSemaphore (p_emit SetEncDataOk s) = 0" "sem_count s = Some None"
    using assms(1,3) by (simp_all add: sem_inv_def)
  show "p_log t = SemCreate # SetEncDataOk # p_log s" "poweronSyncSemaphore t \<noteq> 0" "reason t = BY_INVALID" "hasPoweron t = hasPoweron s"
    "pm_pc t = P_Idle" "task_pc t = T_None" "lua_pc t = lua_pc s" "sem_count s = Some None" "task_pc s = T_None"
    using init_sel [OF assms(4) z(1)] z(2) assms(2,3) by (simp_all add: order_inv_def)
qed

lemma step_sem:
  assumes "sys_step s s'" and "sem_inv s" and "pm_inv s" and "order_inv s"
  shows "sem_inv s'"
  using assms(1)
proof cases
  case (main_sem h t)
  then show ?thesis using assms(2,3,4) init_facts [OF assms(2) assms(4) main_sem(2,3)] by (simp add: sem_inv_def sem_count_def)
next
  case (pm_other m volt chg)
  then show ?thesis using assms(2) message_invs [of s m volt chg] by simp
next
  case (pm_again volt chg r)
  then show ?thesis using assms(2) message_invs [of s "PM_POWERON_ON_IND r" volt chg] by simp
qed (use assms(2,3,4) in \<open>auto simp: sem_inv_def pm_inv_def order_inv_def poweron_release_def sem_count_def split: if_splits\<close>)

lemma step_pm:
  assumes "sys_step s s'" and "pm_inv s" and "sem_inv s" and "order_inv s"
  shows "pm_inv s'"
  using assms(1)
proof cases
  case (main_sem h t)
  then show ?thesis using assms(2,3,4) init_facts [OF assms(3) assms(4) main_sem(2,3)] by (simp add: pm_inv_def)
next
  case (pm_other m volt chg)
  then show ?thesis using assms(2) message_invs [of s m volt chg] by simp
next
  case (pm_again volt chg r)
  then show ?thesis using assms(2) message_invs [of s "PM_POWERON_ON_IND r" volt chg] by simp
qed (use assms(2,3,4) in \<open>auto simp: pm_inv_def order_inv_def sem_inv_def sem_count_def poweron_release_def split: if_splits\<close>)

lemma step_order:
  assumes "sys_step s s'" and "order_inv s" and "sem_inv s" and "pm_inv s"
  shows "order_inv s'"
  using assms(1)
proof cases
  case (main_sem h t)
  then show ?thesis using assms(2,3,4) init_facts [OF assms(3) assms(2) main_sem(2,3)] by (simp add: order_inv_def)
next
  case (pm_other m volt chg)
  then show ?thesis using assms(2) message_invs [of s m volt chg] by simp
next
  case (pm_again volt chg r)
  then show ?thesis using assms(2) message_invs [of s "PM_POWERON_ON_IND r" volt chg] by simp
qed (use assms(2,3,4) in \<open>auto simp: order_inv_def pm_inv_def poweron_release_def split: if_splits\<close>)

lemma step_power:
  assumes "sys_step s s'" and "power_count_inv s" and "sem_inv s" and "pm_inv s" and "order_inv s"
  shows "power_count_inv s'"
  using assms(1)
proof cases
  case (main_sem h t)
  then show ?thesis using assms(2,3,4,5) init_facts [OF assms(3) assms(5) main_sem(2,3)] by (auto simp: power_count_inv_def powered_def split: if_splits)
next
  case (pm_other m volt chg)
  then show ?thesis using assms(2) message_invs [of s m volt chg] by simp
next
  case (pm_again volt chg r)
  then show ?thesis using assms(2) message_invs [of s "PM_POWERON_ON_IND r" volt chg] by simp
qed (use assms(2,3,4,5) in \<open>auto simp: power_count_inv_def pm_inv_def order_inv_def poweron_release_def powered_def split: if_splits\<close>)

lemma step_handshake: "sys_step s s' \<Longrightarrow> handshake_inv s \<Longrightarrow> handshake_inv s'"
  unfolding handshake_inv_def using step_sem step_pm step_order step_power by blast

lemma boot_handshake: "handshake_inv boot_sys"
  by (simp add: handshake_inv_def sem_inv_def pm_inv_def order_inv_def power_count_inv_def sem_count_def powered_def boot_sys_def cust_init_def)

lemma reach_handshake: "reach s \<Longrightarrow> handshake_inv s"
  unfolding reach_def by (induction rule: rtranclp_induct) (auto intro: boot_handshake step_handshake)

text \<open>C3. Whatever the interleaving of the kernel's task, the power manager, the waiting task and the Lua task,
  every call for the power-on semaphore is for a semaphore that exists, the waiting task goes on with a valid
  reason and is never left waiting once the reason has been delivered, it starts the system unless the charger
  was the reason, and the system is started at most twice.
\<close>

theorem power_on_safe:
  assumes "sys_step\<^sup>*\<^sup>* boot_sys s"
  shows "sem_run (p_log s) \<noteq> None \<and> powered s \<le> 2
    \<and> (task_pc s \<notin> {T_None, T_Wait} \<longrightarrow> reason s \<noteq> BY_INVALID)
    \<and> (task_pc s = T_Loop \<and> reason s \<noteq> BY_CHARGER \<longrightarrow> 0 < powered s)
    \<and> (task_pc s = T_Wait \<and> reason s \<noteq> BY_INVALID \<and> pm_pc s = P_Idle \<longrightarrow> (\<exists>s'. sys_step s s' \<and> task_pc s' = T_Delete))"
proof -
  have inv: "sem_inv s" "pm_inv s" "order_inv s" "power_count_inv s"
    using reach_handshake [of s] assms by (simp_all add: reach_def handshake_inv_def)
  have sem: "sem_run (p_log s) \<noteq> None"
    using inv(1) by (auto simp: sem_inv_def sem_count_def split: if_splits)
  have count: "powered s \<le> 2" and started: "task_pc s = T_Loop \<and> reason s \<noteq> BY_CHARGER \<longrightarrow> 0 < powered s"
    using inv(4) by (auto simp: power_count_inv_def split: if_splits)
  have valid: "task_pc s \<notin> {T_None, T_Wait} \<longrightarrow> reason s \<noteq> BY_INVALID"
    using inv(2) by (auto simp: pm_inv_def)
  have go: "\<exists>s'. sys_step s s' \<and> task_pc s' = T_Delete"
    if w: "task_pc s = T_Wait" "reason s \<noteq> BY_INVALID" "pm_pc s = P_Idle"
  proof -
    have "poweronSyncSemaphore s \<noteq> 0" "sem_run (p_log s) = Some (Some (Suc 0))"
      using inv(1,3) w by (auto simp: sem_inv_def sem_count_def order_inv_def)
    then show ?thesis using task_wait [OF w(1)] by (intro exI conjI) auto
  qed
  show ?thesis using sem count started valid go by blast
qed

text \<open>Two requests do happen, when the Lua task is interrupted between its test and its request.\<close>

definition at_state :: "u32 \<Rightarrow> poweron_reason \<Rightarrow> bool \<Rightarrow> pmd_data \<Rightarrow> pmd_data list \<Rightarrow> pw_event list \<Rightarrow> main_pc \<Rightarrow> pm_pc \<Rightarrow> task_pc \<Rightarrow> lua_pc \<Rightarrow> sys" where
  "at_state h r p d out es m k t l = \<lparr>poweronSyncSemaphore = h, reason = r, hasPoweron = p, pmdData = d, sent = out, p_log = es,
     main_pc = m, pm_pc = k, task_pc = t, lua_pc = l\<rparr>"

definition started_log :: "pw_event list" where
  "started_log = [CreateLuaTask, CreateCustTask, InitPmd, InitAt, SetupVatQueue, SemCreate, SetEncDataOk]"

lemmas at_simps = at_state_def p_emit_def cust_poweron_reason_init_def poweron_release_def

lemma boot_started: "sys_step\<^sup>*\<^sup>* boot_sys (at_state 1 BY_INVALID False pmdData0 [] started_log M_Done P_Idle T_Wait L_Idle)"
proof -
  let ?at = "at_state 1 BY_INVALID False pmdData0 []"
  have "boot_sys = at_state 0 BY_INVALID False pmdData0 [] [] M_Start P_Idle T_None L_None"
    by (simp add: boot_sys_def cust_init_def at_state_def)
  moreover have "sys_step (at_state 0 BY_INVALID False pmdData0 [] [] M_Start P_Idle T_None L_None)
      (?at [SemCreate, SetEncDataOk] M_Vat P_Idle T_None L_None)"
    using main_sem [of "at_state 0 BY_INVALID False pmdData0 [] [] M_Start P_Idle T_None L_None" 1] by (simp add: at_simps)
  moreover have "sys_step (?at es M_Vat P_Idle T_None L_None) (?at (InitAt # SetupVatQueue # es) M_Pmd P_Idle T_None L_None)" for es
    using main_vat [of "?at es M_Vat P_Idle T_None L_None"] by (simp add: at_simps)
  moreover have "sys_step (?at es M_Pmd P_Idle T_None L_None) (?at (InitPmd # es) M_Task P_Idle T_None L_None)" for es
    using main_pmd [of "?at es M_Pmd P_Idle T_None L_None"] by (simp add: at_simps)
  moreover have "sys_step (?at es M_Task P_Idle T_None L_None) (?at (CreateCustTask # es) M_Lua P_Idle T_Wait L_None)" for es
    using main_task [of "?at es M_Task P_Idle T_None L_None"] by (simp add: at_simps)
  moreover have "sys_step (?at es M_Lua P_Idle T_Wait L_None) (?at (CreateLuaTask # es) M_Done P_Idle T_Wait L_Idle)" for es
    using main_lua [of "?at es M_Lua P_Idle T_Wait L_None"] by (simp add: at_simps)
  ultimately show ?thesis
    unfolding started_log_def by (metis (no_types, lifting) rtranclp.rtrancl_into_rtrancl rtranclp.rtrancl_refl)
qed

text \<open>The steps of the kernel's task are those of \<open>cust_main\<close>.\<close>

lemma cust_main_log: "map_option p_log (cust_main 1 True 2 3 boot_sys) = Some started_log"
  by (simp add: cust_main_def at_simps started_log_def boot_sys_def cust_init_def)

lemma power_on_twice:
  "\<exists>s. sys_step\<^sup>*\<^sup>* boot_sys s \<and> task_pc s = T_Loop \<and> powered s = 2 \<and> sent s = [pmdData s] \<and> pm_pc s = P_Idle"
proof -
  let ?d = "pmdData0\<lparr>battVolt := 3800, chargerStatus := False\<rparr>"
  let ?on = "at_state 1 BY_KEY False ?d [?d]"
  let ?es = "SemRelease # started_log" let ?fs = "SemDelete # SemWait # ?es"
  have started: "sys_step\<^sup>*\<^sup>* boot_sys (at_state 1 BY_INVALID False pmdData0 [] started_log M_Done P_Idle T_Wait L_Idle)"
    by (rule boot_started)
  also have "sys_step \<dots> (at_state 1 BY_INVALID False ?d [] started_log M_Done (P_Set BY_KEY) T_Wait L_Idle)"
    using pm_test [of "at_state 1 BY_INVALID False pmdData0 [] started_log M_Done P_Idle T_Wait L_Idle" BY_KEY PLUG_OUT 3800]
    by (simp add: at_simps)
  also have "sys_step \<dots> (at_state 1 BY_KEY False ?d [] started_log M_Done P_Release T_Wait L_Idle)"
    using pm_set [of "at_state 1 BY_INVALID False ?d [] started_log M_Done (P_Set BY_KEY) T_Wait L_Idle" BY_KEY] by (simp add: at_simps)
  also have "sys_step \<dots> (?on ?es M_Done P_Idle T_Wait L_Idle)"
    using pm_release [of "at_state 1 BY_KEY False ?d [] started_log M_Done P_Release T_Wait L_Idle"] by (simp add: at_simps)
  also have "sys_step \<dots> (?on (SemWait # ?es) M_Done P_Idle T_Delete L_Idle)"
    using task_wait [of "?on ?es M_Done P_Idle T_Wait L_Idle" 0] by (simp add: at_simps started_log_def)
  also have "sys_step \<dots> (?on ?fs M_Done P_Idle T_Clear L_Idle)"
    using task_delete [of "?on (SemWait # ?es) M_Done P_Idle T_Delete L_Idle"] by (simp add: at_simps)
  also have "sys_step \<dots> (at_state 0 BY_KEY False ?d [?d] ?fs M_Done P_Idle T_Decide L_Idle)"
    using task_clear [of "?on ?fs M_Done P_Idle T_Clear L_Idle"] by (simp add: at_simps)
  also have "sys_step \<dots> (at_state 0 BY_KEY False ?d [?d] ?fs M_Done P_Idle T_Test L_Idle)"
    using task_decide [of "at_state 0 BY_KEY False ?d [?d] ?fs M_Done P_Idle T_Decide L_Idle"] by (simp add: at_simps)
  also have "sys_step \<dots> (at_state 0 BY_KEY False ?d [?d] ?fs M_Done P_Idle T_Test L_Power)"
    using lua_test [of "at_state 0 BY_KEY False ?d [?d] ?fs M_Done P_Idle T_Test L_Idle"] by (simp add: at_simps)
  also have "sys_step \<dots> (at_state 0 BY_KEY False ?d [?d] ?fs M_Done P_Idle T_Power L_Power)"
    using task_test [of "at_state 0 BY_KEY False ?d [?d] ?fs M_Done P_Idle T_Test L_Power"] by (simp add: at_simps)
  also have "sys_step \<dots> (at_state 0 BY_KEY True ?d [?d] (PoweronSystem # ?fs) M_Done P_Idle T_Loop L_Power)"
    using task_power [of "at_state 0 BY_KEY False ?d [?d] ?fs M_Done P_Idle T_Power L_Power"] by (simp add: at_simps)
  also have "sys_step \<dots> (at_state 0 BY_KEY True ?d [?d] (PoweronSystem # PoweronSystem # ?fs) M_Done P_Idle T_Loop L_Idle)"
    using lua_power [of "at_state 0 BY_KEY True ?d [?d] (PoweronSystem # ?fs) M_Done P_Idle T_Loop L_Power"] by (simp add: at_simps)
  finally show ?thesis
    by (intro exI conjI) (auto simp: at_state_def powered_def started_log_def)
qed

lemma power_on_safe_witness:
  "\<exists>s. sys_step\<^sup>*\<^sup>* boot_sys s \<and> task_pc s = T_Loop \<and> powered s = 2 \<and> sem_run (p_log s) \<noteq> None \<and> reason s \<noteq> BY_INVALID"
proof -
  obtain s where s: "sys_step\<^sup>*\<^sup>* boot_sys s" "task_pc s = T_Loop" "powered s = 2" using power_on_twice by blast
  then show ?thesis using power_on_safe [OF s(1)] by (intro exI [of _ s]) auto
qed

section \<open>The messages\<close>

definition fresh_inv :: "sys \<Rightarrow> bool" where
  "fresh_inv s \<longleftrightarrow> (pm_pc s = P_Idle \<longrightarrow> pmdData s = (case sent s of [] \<Rightarrow> pmdData0 | d # _ \<Rightarrow> d))"

lemma step_fresh:
  assumes "sys_step s s'" and "fresh_inv s"
  shows "fresh_inv s'"
  using assms(1)
proof cases
  case (main_sem h t)
  then show ?thesis using assms(2)
    by (auto simp: fresh_inv_def cust_poweron_reason_init_def p_emit_def split: if_splits)
next
  case (pm_other m volt chg)
  then show ?thesis using assms(2) by (auto simp: fresh_inv_def cust_pm_message_def Let_def split: option.splits pm_msg.splits)
next
  case (pm_again volt chg r)
  then show ?thesis using assms(2) by (auto simp: fresh_inv_def cust_pm_message_def Let_def split: option.splits)
qed (use assms(2) in \<open>auto simp: fresh_inv_def p_emit_def poweron_release_def\<close>)



end
