(* ===== verification/Pmd.thy ===== *)
theory Pmd
  imports Prelude
begin

text \<open>
  Charging parameters and supplies: \<open>cust_pmd_init\<close> and the start-up configuration of
  \<open>platform/coolsand/src/platform_main.c\<close>, \<open>platform/coolsand/src/platform_pmd.c\<close> and
  \<open>modules/src/pmd.c\<close>. What the kernel answers is an argument; what it is asked is in the result.
\<close>

section \<open>Charging parameters\<close>

definition PMD_CFG_INVALID_VALUE :: u16 where "PMD_CFG_INVALID_VALUE = 0xffff"
definition OPENAT_PM_CHARGE_CURRENT_QTY :: u16 where "OPENAT_PM_CHARGE_CURRENT_QTY = 11"
definition OPENAT_PM_CHARGER_100MA :: u16 where "OPENAT_PM_CHARGER_100MA = 2"
definition OPENAT_PM_CHARGER_300MA :: u16 where "OPENAT_PM_CHARGER_300MA = 5"
definition OPENAT_PM_CHARGER_500MA :: u16 where "OPENAT_PM_CHARGER_500MA = 7"
definition OPENAT_ADC_1 :: nat where "OPENAT_ADC_1 = 1"
definition OPENAT_ADC_7 :: nat where "OPENAT_ADC_7 = 7"

record PlatformPmdCfg =
  battFullLevel :: u16
  battRechargeLevel :: u16
  poweronLevel :: u16
  poweroffLevel :: u16
  currentFirst :: u16
  battlevelFirst :: u16
  currentSecond :: u16
  battlevelSecond :: u16
  currentThird :: u16
  batdetectEnable :: u16
  intervaltimeFirst :: u16
  intervaltimeSecond :: u16
  intervaltimeThird :: u16
  pluschgctlEnable :: u16
  pluschgonTime :: u16
  pluschgoffTime :: u16

text \<open>The kernel's structure. \<open>k_batType\<close> and \<open>k_disableCharginCall\<close> are the two members that no code of the
  repository sets.\<close>

record kernel_cfg =
  k_batdetectEnable :: bool
  k_tempdetectEnable :: bool
  k_templowLevel :: u16
  k_temphighLevel :: u16
  k_batType :: nat
  k_batLevelEnable :: bool
  k_batfullLevel :: u16
  k_batPreChargLevel :: u16
  k_poweronLevel :: u16
  k_poweroffLevel :: u16
  k_batAdc :: nat
  k_tempAdc :: nat
  k_currentControlEnable :: bool
  k_currentFirst :: u16
  k_intervalTimeFirst :: u32
  k_batLevelFirst :: u16
  k_currentSecond :: u16
  k_intervalTimeSecond :: u16
  k_batLevelSecond :: u16
  k_currentThird :: u16
  k_intervalTimeThird :: u32
  k_plusChgControlEnable :: bool
  k_plusChgOnTime :: u32
  k_plusChgOffTime :: u32
  k_chargTimeOutEnable :: bool
  k_TimeOutMinutes :: u16
  k_disableCharginCall :: bool

text \<open>The configuration of \<open>cust_main\<close>, after a \<open>memset\<close> to zero.\<close>

definition main_cfg :: kernel_cfg where
  "main_cfg = \<lparr>k_batdetectEnable = True, k_tempdetectEnable = False, k_templowLevel = 0, k_temphighLevel = 0, k_batType = 0,
     k_batLevelEnable = True, k_batfullLevel = 4200, k_batPreChargLevel = 4050, k_poweronLevel = 3450, k_poweroffLevel = 3400,
     k_batAdc = OPENAT_ADC_7, k_tempAdc = OPENAT_ADC_1, k_currentControlEnable = True,
     k_currentFirst = OPENAT_PM_CHARGER_500MA, k_intervalTimeFirst = 9 * 60, k_batLevelFirst = 4150,
     k_currentSecond = OPENAT_PM_CHARGER_300MA, k_intervalTimeSecond = 6 * 60, k_batLevelSecond = 4190,
     k_currentThird = OPENAT_PM_CHARGER_100MA, k_intervalTimeThird = 3 * 60,
     k_plusChgControlEnable = False, k_plusChgOnTime = 0, k_plusChgOffTime = 0,
     k_chargTimeOutEnable = False, k_TimeOutMinutes = 240, k_disableCharginCall = False\<rparr>"

definition GET_FILED_VAL :: "u16 \<Rightarrow> u16 \<Rightarrow> u16" where
  "GET_FILED_VAL v d = (if v = PMD_CFG_INVALID_VALUE then d else v)"

text \<open>\<open>bt\<close> and \<open>dc\<close>: what the stack holds in the two members that are not set.\<close>

definition cust_pmd_cfg :: "nat \<Rightarrow> bool \<Rightarrow> PlatformPmdCfg \<Rightarrow> kernel_cfg" where
  "cust_pmd_cfg bt dc cfg = \<lparr>k_batdetectEnable = (GET_FILED_VAL (batdetectEnable cfg) 1 = 1),
     k_tempdetectEnable = False, k_templowLevel = 0, k_temphighLevel = 0, k_batType = bt,
     k_batLevelEnable = True, k_batfullLevel = GET_FILED_VAL (battFullLevel cfg) 4200,
     k_batPreChargLevel = GET_FILED_VAL (battRechargeLevel cfg) 4050,
     k_poweronLevel = GET_FILED_VAL (poweronLevel cfg) 3450, k_poweroffLevel = GET_FILED_VAL (poweroffLevel cfg) 3400,
     k_batAdc = OPENAT_ADC_7, k_tempAdc = OPENAT_ADC_1, k_currentControlEnable = True,
     k_currentFirst = GET_FILED_VAL (currentFirst cfg) OPENAT_PM_CHARGER_500MA,
     k_intervalTimeFirst = ucast (GET_FILED_VAL (intervaltimeFirst cfg) (9 * 60)),
     k_batLevelFirst = GET_FILED_VAL (battlevelFirst cfg) 4150,
     k_currentSecond = GET_FILED_VAL (currentSecond cfg) OPENAT_PM_CHARGER_300MA,
     k_intervalTimeSecond = GET_FILED_VAL (intervaltimeSecond cfg) (6 * 60),
     k_batLevelSecond = GET_FILED_VAL (battlevelSecond cfg) 4190,
     k_currentThird = GET_FILED_VAL (currentThird cfg) OPENAT_PM_CHARGER_100MA,
     k_intervalTimeThird = ucast (GET_FILED_VAL (intervaltimeThird cfg) (3 * 60)),
     k_plusChgControlEnable = (GET_FILED_VAL (pluschgctlEnable cfg) 0 = 1),
     k_plusChgOnTime = ucast (GET_FILED_VAL (pluschgonTime cfg) 5),
     k_plusChgOffTime = ucast (GET_FILED_VAL (pluschgoffTime cfg) 1),
     k_chargTimeOutEnable = False, k_TimeOutMinutes = 240, k_disableCharginCall = dc\<rparr>"

section \<open>The platform layer and the Lua module\<close>

definition openatCurrentVal :: "u16 list" where
  "openatCurrentVal = [0, 50, 100, 150, 200, 300, 400, 500, 600, 700, 800]"

fun current_loop :: "u16 \<Rightarrow> u16 list \<Rightarrow> u16 \<Rightarrow> u16" where
  "current_loop current [] i = OPENAT_PM_CHARGE_CURRENT_QTY"
| "current_loop current (v # vs) i =
     (if v = current then i else if v > current then OPENAT_PM_CHARGE_CURRENT_QTY else current_loop current vs (i + 1))"

definition getOpenatCurrent :: "u16 \<Rightarrow> u16" where
  "getOpenatCurrent current = current_loop current (tl openatCurrentVal) 1"

text \<open>\<open>CHECK_FILED\<close>: the new value of the field, and whether it is an error.\<close>

definition check_field :: "u16 \<Rightarrow> u16 \<times> bool" where
  "check_field v =
     (if v \<noteq> PMD_CFG_INVALID_VALUE
      then (let c = getOpenatCurrent v in (c, c = OPENAT_PM_CHARGE_CURRENT_QTY)) else (v, False))"

text \<open>The status, and the configuration the kernel was asked to take, if it was asked.\<close>

definition platform_pmd_init :: "bool \<Rightarrow> nat \<Rightarrow> bool \<Rightarrow> PlatformPmdCfg \<Rightarrow> int \<times> kernel_cfg option" where
  "platform_pmd_init ok bt dc cfg =
     (let (c, bad) = check_field (currentFirst cfg); cfg = cfg\<lparr>currentFirst := c\<rparr> in
      if bad then (PLATFORM_ERR, None) else
      let (c, bad) = check_field (currentSecond cfg); cfg = cfg\<lparr>currentSecond := c\<rparr> in
      if bad then (PLATFORM_ERR, None) else
      let (c, bad) = check_field (currentThird cfg); cfg = cfg\<lparr>currentThird := c\<rparr> in
      if bad then (PLATFORM_ERR, None) else
      (if ok then PLATFORM_OK else PLATFORM_ERR, Some (cust_pmd_cfg bt dc cfg)))"

text \<open>A Lua table is a map from names to integers; a field is stored in 16 bits.\<close>

definition getFiledInt :: "(string \<Rightarrow> int option) \<Rightarrow> string \<Rightarrow> u16" where
  "getFiledInt t key = (case t key of None \<Rightarrow> PMD_CFG_INVALID_VALUE | Some v \<Rightarrow> word_of_int v)"

definition pmd_fields :: "(string \<Rightarrow> int option) \<Rightarrow> PlatformPmdCfg" where
  "pmd_fields t = \<lparr>battFullLevel = getFiledInt t ''battFullLevel'', battRechargeLevel = getFiledInt t ''battRechargeLevel'',
     poweronLevel = getFiledInt t ''poweronLevel'', poweroffLevel = getFiledInt t ''poweroffLevel'',
     currentFirst = getFiledInt t ''currentFirst'', battlevelFirst = getFiledInt t ''battlevelFirst'',
     currentSecond = getFiledInt t ''currentSecond'', battlevelSecond = getFiledInt t ''battlevelSecond'',
     currentThird = getFiledInt t ''currentThird'', batdetectEnable = getFiledInt t ''batdetectEnable'',
     intervaltimeFirst = getFiledInt t ''intervaltimeFirst'', intervaltimeSecond = getFiledInt t ''intervaltimeSecond'',
     intervaltimeThird = getFiledInt t ''intervaltimeThird'', pluschgctlEnable = getFiledInt t ''pluschgctlEnable'',
     pluschgonTime = getFiledInt t ''pluschgonTime'', pluschgoffTime = getFiledInt t ''pluschgoffTime''\<rparr>"

definition pmd_init :: "bool \<Rightarrow> nat \<Rightarrow> bool \<Rightarrow> (string \<Rightarrow> int option) \<Rightarrow> int \<times> kernel_cfg option" where
  "pmd_init ok bt dc t = platform_pmd_init ok bt dc (pmd_fields t)"

datatype openat_ldo = LDO_USB | LDO_LCD | LDO_VLCD | LDO_KEYPDA | LDO_KP_LEDR | LDO_KP_LEDG | LDO_KP_LEDB | LDO_VIB
  | LDO_MMC | LDO_ASW | LDO_CAM | LDO_INVALID

text \<open>Indexed by the \<open>PlatformLdoId\<close>.\<close>

definition ldo2OpenatLdo :: "openat_ldo list" where
  "ldo2OpenatLdo = [LDO_KEYPDA, LDO_LCD, LDO_KP_LEDR, LDO_KP_LEDG, LDO_KP_LEDB, LDO_VIB, LDO_VLCD, LDO_ASW, LDO_MMC, LDO_CAM]"

definition platform_ldo_set :: "int \<Rightarrow> int \<Rightarrow> (int \<times> (openat_ldo \<times> int) list) option" where
  "platform_ldo_set ldo lev =
     (if 0 \<le> ldo \<and> ldo < int (length ldo2OpenatLdo)
      then Some (if ldo2OpenatLdo ! nat ldo = LDO_INVALID then (PLATFORM_ERR, [])
                 else (PLATFORM_OK, [(ldo2OpenatLdo ! nat ldo, lev)]))
      else None)"

fun pmd_ldo_set :: "int \<Rightarrow> int list \<Rightarrow> (openat_ldo \<times> int) list option" where
  "pmd_ldo_set lev [] = Some []"
| "pmd_ldo_set lev (ldo # ldos) =
     (case platform_ldo_set ldo lev of None \<Rightarrow> None
      | Some (_, calls) \<Rightarrow> map_option ((@) calls) (pmd_ldo_set lev ldos))"

datatype sleep_call = RequestFreq32K | RequestFreq208M | EnterDeepsleep | ExitDeepsleep

definition platform_pmd_powersave :: "int \<Rightarrow> sleep_call list" where
  "platform_pmd_powersave sleep_wake =
     (if sleep_wake \<noteq> 0 then [RequestFreq32K, EnterDeepsleep] else [ExitDeepsleep, RequestFreq208M])"

datatype chr_hw_status = HW_UNKNOWN | HW_AC_OFF | HW_AC_ON

definition platform_pmd_get_charger :: "chr_hw_status \<Rightarrow> bool" where
  "platform_pmd_get_charger st = (if st = HW_AC_ON then True else False)"

section \<open>What pmd.init asks of the kernel\<close>

text \<open>A charging current is one of the ten values of the table, and its code is its place.\<close>

lemma getOpenatCurrent_code:
  "getOpenatCurrent v = i \<and> i \<noteq> OPENAT_PM_CHARGE_CURRENT_QTY \<longleftrightarrow> 1 \<le> i \<and> i < 11 \<and> openatCurrentVal ! unat i = v"
proof -
  have tab: "getOpenatCurrent (openatCurrentVal ! k) = of_nat k" if "1 \<le> k" "k < 11" for k
  proof -
    have "\<forall>k \<in> {1..<11}. getOpenatCurrent (openatCurrentVal ! k) = of_nat k" by code_simp
    then show ?thesis using that by simp
  qed
  show ?thesis
  proof
    assume a: "getOpenatCurrent v = i \<and> i \<noteq> OPENAT_PM_CHARGE_CURRENT_QTY"
    then have "v \<in> set (tl openatCurrentVal)"
      by (auto simp: getOpenatCurrent_def openatCurrentVal_def split: if_splits)
    then obtain j where j: "j < length (tl openatCurrentVal)" "tl openatCurrentVal ! j = v"
      unfolding in_set_conv_nth by blast
    obtain k where k: "1 \<le> k" "k < 11" "openatCurrentVal ! k = v"
    proof
      show "1 \<le> Suc j" by simp
      show "Suc j < 11" using j(1) by (simp add: openatCurrentVal_def)
      show "openatCurrentVal ! Suc j = v" using j by (simp add: nth_tl)
    qed
    have i: "i = of_nat k" using tab [OF k(1,2)] a k(3) by simp
    have "unat i = k" using k(2) by (simp add: i unat_of_nat take_bit_eq_mod)
    then show "1 \<le> i \<and> i < 11 \<and> openatCurrentVal ! unat i = v"
      using k by (simp add: word_le_nat_alt word_less_nat_alt)
  next
    assume a: "1 \<le> i \<and> i < 11 \<and> openatCurrentVal ! unat i = v"
    then have "1 \<le> unat i" "unat i < 11" by (simp_all add: word_le_nat_alt word_less_nat_alt)
    then have "getOpenatCurrent v = i" using tab [of "unat i"] a by simp
    then show "getOpenatCurrent v = i \<and> i \<noteq> OPENAT_PM_CHARGE_CURRENT_QTY"
      using a by (auto simp: OPENAT_PM_CHARGE_CURRENT_QTY_def)
  qed
qed

text \<open>The current of a stage that a Lua table asks for, in mA: not in the table means the default.\<close>

definition asked_mA :: "(string \<Rightarrow> int option) \<Rightarrow> string \<Rightarrow> u16 \<Rightarrow> u16" where
  "asked_mA t key d = (let v = getFiledInt t key in if v = PMD_CFG_INVALID_VALUE then d else v)"

definition stages :: "(string \<times> u16) list" where
  "stages = [(''currentFirst'', 500), (''currentSecond'', 300), (''currentThird'', 100)]"

lemma table_codes:
  "v \<in> set (tl openatCurrentVal) \<longleftrightarrow> getOpenatCurrent v \<noteq> OPENAT_PM_CHARGE_CURRENT_QTY"
  by (auto simp: getOpenatCurrent_def openatCurrentVal_def OPENAT_PM_CHARGE_CURRENT_QTY_def)

lemma check_field_asked:
  assumes "1 \<le> c" "c < 11" "openatCurrentVal ! unat c = d"
  shows "snd (check_field (getFiledInt t key)) \<longleftrightarrow> asked_mA t key d \<notin> set (tl openatCurrentVal)" (is ?rej)
    and "\<not> snd (check_field (getFiledInt t key)) \<Longrightarrow>
      openatCurrentVal ! unat (GET_FILED_VAL (fst (check_field (getFiledInt t key))) c) = asked_mA t key d" (is "_ \<Longrightarrow> ?val")
proof -
  let ?v = "getFiledInt t key" let ?i = "getOpenatCurrent ?v"
  have d: "getOpenatCurrent d \<noteq> OPENAT_PM_CHARGE_CURRENT_QTY"
    using getOpenatCurrent_code [of d c] assms by blast
  show ?rej
    by (simp add: check_field_def asked_mA_def table_codes d Let_def)
  assume ok: "\<not> snd (check_field ?v)"
  show ?val
  proof (cases "?v = PMD_CFG_INVALID_VALUE")
    case True
    then show ?thesis using assms(3) by (simp add: check_field_def asked_mA_def GET_FILED_VAL_def)
  next
    case False
    then have i: "1 \<le> ?i" "?i < 11" "openatCurrentVal ! unat ?i = ?v"
      using ok getOpenatCurrent_code [of ?v ?i] by (auto simp: check_field_def Let_def)
    then have "?i \<noteq> PMD_CFG_INVALID_VALUE" by (auto simp: PMD_CFG_INVALID_VALUE_def)
    then show ?thesis using False i by (simp add: check_field_def asked_mA_def GET_FILED_VAL_def Let_def)
  qed
qed

text \<open>\<open>pmd.init\<close> asks the kernel for a configuration exactly when every charging current that the table
  gives is one of the ten that exist; the codes of the three stages then stand for the currents asked for,
  or for 500, 300 and 100 mA. An empty table asks for the configuration of the start-up, apart from the
  times of the pulses and the two members that are never set.
\<close>

lemma pmd_init_correct:
  assumes "pmd_init ok bt dc t = (ret, call)"
  shows "(call = None \<longleftrightarrow> (\<exists>(key, d) \<in> set stages. asked_mA t key d \<notin> set (tl openatCurrentVal)))
    \<and> ret = (if call \<noteq> None \<and> ok then PLATFORM_OK else PLATFORM_ERR)
    \<and> (\<forall>cfg. call = Some cfg \<longrightarrow>
         map (\<lambda>c. openatCurrentVal ! unat c) [k_currentFirst cfg, k_currentSecond cfg, k_currentThird cfg]
           = map (\<lambda>(key, d). asked_mA t key d) stages)
    \<and> snd (pmd_init ok bt dc (\<lambda>_. None))
        = Some (main_cfg\<lparr>k_plusChgOnTime := 5, k_plusChgOffTime := 1, k_batType := bt, k_disableCharginCall := dc\<rparr>)"
proof (intro conjI)
  note defs = pmd_init_def platform_pmd_init_def pmd_fields_def split_beta Let_def stages_def
    OPENAT_PM_CHARGER_100MA_def OPENAT_PM_CHARGER_300MA_def OPENAT_PM_CHARGER_500MA_def cust_pmd_cfg_def
  have tab: "openatCurrentVal ! unat (7 :: u16) = 500" "openatCurrentVal ! unat (5 :: u16) = 300" "openatCurrentVal ! unat (2 :: u16) = 100"
    by (simp_all add: openatCurrentVal_def)
  note c1 = check_field_asked [OF _ _ tab(1), where t = t and key = "''currentFirst''", simplified]
  note c2 = check_field_asked [OF _ _ tab(2), where t = t and key = "''currentSecond''", simplified]
  note c3 = check_field_asked [OF _ _ tab(3), where t = t and key = "''currentThird''", simplified]
  have r: "call = snd (pmd_init ok bt dc t)" "ret = fst (pmd_init ok bt dc t)" using assms by simp_all
  show "call = None \<longleftrightarrow> (\<exists>(key, d) \<in> set stages. asked_mA t key d \<notin> set (tl openatCurrentVal))"
    unfolding r using c1(1) c2(1) c3(1) by (simp add: defs)
  show "ret = (if call \<noteq> None \<and> ok then PLATFORM_OK else PLATFORM_ERR)"
    unfolding r by (auto simp: defs)
  show "\<forall>cfg. call = Some cfg \<longrightarrow>
         map (\<lambda>c. openatCurrentVal ! unat c) [k_currentFirst cfg, k_currentSecond cfg, k_currentThird cfg]
           = map (\<lambda>(key, d). asked_mA t key d) stages"
    unfolding r using c1(2) c2(2) c3(2) by (simp add: defs)
  show "snd (pmd_init ok bt dc (\<lambda>_. None))
      = Some (main_cfg\<lparr>k_plusChgOnTime := 5, k_plusChgOffTime := 1, k_batType := bt, k_disableCharginCall := dc\<rparr>)"
    by (simp add: defs check_field_def getFiledInt_def GET_FILED_VAL_def main_cfg_def PMD_CFG_INVALID_VALUE_def)
qed

lemma pmd_init_correct_witness:
  "\<exists>cfg. pmd_init True 0 False [''currentFirst'' \<mapsto> 200] = (PLATFORM_OK, Some cfg)
     \<and> map (\<lambda>c. openatCurrentVal ! unat c) [k_currentFirst cfg, k_currentSecond cfg, k_currentThird cfg] = [200, 300, 100]"
proof -
  have run: "pmd_init True 0 False [''currentFirst'' \<mapsto> 200] = (PLATFORM_OK, snd (pmd_init True 0 False [''currentFirst'' \<mapsto> 200]))"
    "snd (pmd_init True 0 False [''currentFirst'' \<mapsto> 200]) \<noteq> None"
    by (simp_all add: pmd_init_def platform_pmd_init_def pmd_fields_def getFiledInt_def check_field_def
        getOpenatCurrent_def openatCurrentVal_def OPENAT_PM_CHARGE_CURRENT_QTY_def PMD_CFG_INVALID_VALUE_def Let_def)
  then obtain cfg where cfg: "snd (pmd_init True 0 False [''currentFirst'' \<mapsto> 200]) = Some cfg" by blast
  have "map (\<lambda>(key, d). asked_mA [''currentFirst'' \<mapsto> 200] key d) stages = [200, 300, 100]"
    by (simp add: stages_def asked_mA_def getFiledInt_def PMD_CFG_INVALID_VALUE_def)
  then show ?thesis using pmd_init_correct [OF run(1)] run(1) cfg by auto
qed

text \<open>A number of a supply that does not exist reads behind the table.\<close>

lemma ldo_set_out_of_table: "platform_ldo_set 10 lev = None"
  by (simp add: platform_ldo_set_def ldo2OpenatLdo_def)

lemma ldo_set_in_table: "distinct ldo2OpenatLdo" "LDO_INVALID \<notin> set ldo2OpenatLdo"
  by (simp_all add: ldo2OpenatLdo_def)

end
