(* ===== verification/I2c.thy ===== *)
theory I2c
  imports Prelude
begin

text \<open>
  The I2C bus: \<open>platform/coolsand/src/platform_i2c.c\<close> and \<open>modules/src/i2c.c\<close>. The state is the table of
  preset slave addresses; the kernel's answers are arguments, its calls are results.
\<close>

section \<open>The platform layer\<close>

definition I2C_NULL_SLAVE_ADDR :: u16 where "I2C_NULL_SLAVE_ADDR = 0xffff"
definition NUM_I2C :: nat where "NUM_I2C = 3"

definition i2cIdMap :: "nat list" where "i2cIdMap = [0, 1, 2]"

datatype i2c_call = OpenI2c nat u32 | CloseI2c nat | WriteI2c nat u16 byte "byte list" | ReadI2c nat u16 byte u32

definition platform_i2c_exists :: "u32 \<Rightarrow> bool" where
  "platform_i2c_exists bus \<longleftrightarrow> bus = 1"

text \<open>The new table, the call and the result; \<open>ok\<close> is what \<open>open_i2c\<close> answers.\<close>

definition platform_i2c_setup :: "bool \<Rightarrow> u32 \<Rightarrow> u32 \<Rightarrow> u16 \<Rightarrow> u16 list \<Rightarrow> (u16 list \<times> i2c_call list \<times> int) option" where
  "platform_i2c_setup ok bus speed slave addrs =
     (if unat bus < length addrs \<and> unat bus < length i2cIdMap
      then Some (addrs[unat bus := slave], [OpenI2c (i2cIdMap ! unat bus) speed], if ok then sint speed else 0)
      else None)"

definition platform_i2c_close :: "int \<Rightarrow> u32 \<Rightarrow> (i2c_call list \<times> int) option" where
  "platform_i2c_close ans bus =
     (if unat bus < length i2cIdMap then Some ([CloseI2c (i2cIdMap ! unat bus)], ans) else None)"

text \<open>The slave address that a transfer uses: the one given, or the preset one.\<close>

definition slave_of :: "u32 \<Rightarrow> u16 \<Rightarrow> u16 list \<Rightarrow> u16 option" where
  "slave_of bus slave addrs =
     (if slave = I2C_NULL_SLAVE_ADDR then (if unat bus < length addrs then Some (addrs ! unat bus) else None) else Some slave)"

definition platform_i2c_send_data :: "int \<Rightarrow> u32 \<Rightarrow> u16 \<Rightarrow> byte \<Rightarrow> byte list \<Rightarrow> u16 list \<Rightarrow> (i2c_call list \<times> int) option" where
  "platform_i2c_send_data ans bus slave reg buf addrs =
     (case slave_of bus slave addrs of None \<Rightarrow> None
      | Some a \<Rightarrow>
          if a = I2C_NULL_SLAVE_ADDR then Some ([], 0)
          else if unat bus < length i2cIdMap then Some ([WriteI2c (i2cIdMap ! unat bus) a reg buf], ans) else None)"

definition platform_i2c_recv_data :: "int \<Rightarrow> u32 \<Rightarrow> u16 \<Rightarrow> byte \<Rightarrow> u32 \<Rightarrow> u16 list \<Rightarrow> (i2c_call list \<times> int) option" where
  "platform_i2c_recv_data ans bus slave reg len addrs =
     (case slave_of bus slave addrs of None \<Rightarrow> None
      | Some a \<Rightarrow>
          if a = I2C_NULL_SLAVE_ADDR then Some ([], 0)
          else if unat bus < length i2cIdMap then Some ([ReadI2c (i2cIdMap ! unat bus) a reg len], ans) else None)"

section \<open>The Lua module\<close>

datatype i2c_error = I2c_does_not_exist | I2c_bad_data | I2c_bad_size

definition i2c_setup :: "bool \<Rightarrow> u32 \<Rightarrow> u32 \<Rightarrow> int \<Rightarrow> u16 list \<Rightarrow> (u16 list \<times> i2c_call list \<times> (i2c_error + int)) option" where
  "i2c_setup ok bus speed slave addrs =
     (if \<not> platform_i2c_exists bus then Some (addrs, [], Inl I2c_does_not_exist)
      else map_option (\<lambda>(a, c, r). (a, c, Inr r))
             (platform_i2c_setup ok bus speed (ucast (word_of_int slave :: byte)) addrs))"

definition i2c_close :: "int \<Rightarrow> u32 \<Rightarrow> (i2c_call list \<times> (i2c_error + int)) option" where
  "i2c_close ans bus =
     (if \<not> platform_i2c_exists bus then Some ([], Inl I2c_does_not_exist)
      else map_option (\<lambda>(c, r). (c, Inr r)) (platform_i2c_close ans bus))"

text \<open>The slave is given only in the call with four arguments. \<open>blk\<close>: \<open>malloc\<close> has a block for a table.\<close>

datatype i2c_data = I2cNumber int | I2cString "byte list" | I2cTable "int list" | I2cOther

definition slave_arg :: "int option \<Rightarrow> u16" where
  "slave_arg slave = (case slave of None \<Rightarrow> I2C_NULL_SLAVE_ADDR | Some a \<Rightarrow> word_of_int a)"

definition i2c_write :: "int \<Rightarrow> bool \<Rightarrow> u32 \<Rightarrow> int option \<Rightarrow> int \<Rightarrow> i2c_data \<Rightarrow> u16 list \<Rightarrow> (i2c_call list \<times> (i2c_error + int)) option" where
  "i2c_write ans blk bus slave reg data addrs =
     (if \<not> platform_i2c_exists bus then Some ([], Inl I2c_does_not_exist)
      else case data of
        I2cNumber v \<Rightarrow> map_option (\<lambda>(c, r). (c, Inr r))
          (platform_i2c_send_data ans bus (slave_arg slave) (word_of_int reg) [word_of_int v] addrs)
      | I2cString s \<Rightarrow> map_option (\<lambda>(c, r). (c, Inr r))
          (platform_i2c_send_data ans bus (slave_arg slave) (word_of_int reg) s addrs)
      | I2cTable vs \<Rightarrow>
          if \<not> blk \<and> vs \<noteq> [] then None
          else map_option (\<lambda>(c, r). (c, Inr r))
            (platform_i2c_send_data ans bus (slave_arg slave) (word_of_int reg) (map word_of_int vs) addrs)
      | I2cOther \<Rightarrow> Some ([], Inl I2c_bad_data))"

text \<open>\<open>bufsize\<close> is \<open>LUAL_BUFFERSIZE\<close>; the result is the number of bytes added to the buffer, or nothing.\<close>

definition i2c_read :: "int \<Rightarrow> u32 \<Rightarrow> u32 \<Rightarrow> int option \<Rightarrow> int \<Rightarrow> u32 \<Rightarrow> u16 list \<Rightarrow> (i2c_call list \<times> (i2c_error + int option)) option" where
  "i2c_read ans bufsize bus slave reg len addrs =
     (if \<not> platform_i2c_exists bus then Some ([], Inl I2c_does_not_exist)
      else if len = 0 then Some ([], Inr None)
      else if len \<ge> bufsize then Some ([], Inl I2c_bad_size)
      else map_option (\<lambda>(c, r). (c, Inr (Some r)))
             (platform_i2c_recv_data ans bus (slave_arg slave) (word_of_int reg) len addrs))"

section \<open>What the module promises\<close>

text \<open>The three forms of the data agree, and no call of the module leaves the tables.\<close>

lemma i2c_write_forms:
  "i2c_write ans True bus slave reg (I2cTable (map uint bs)) addrs = i2c_write ans blk bus slave reg (I2cString bs) addrs"
  "i2c_write ans blk bus slave reg (I2cNumber v) addrs = i2c_write ans True bus slave reg (I2cTable [v]) addrs"
  by (simp_all add: i2c_write_def comp_def)

definition addrs_ok :: "u16 list \<Rightarrow> bool" where
  "addrs_ok addrs \<longleftrightarrow> length addrs = NUM_I2C \<and> I2C_NULL_SLAVE_ADDR \<notin> set addrs"

lemma i2c_setup_ok:
  assumes "addrs_ok addrs"
  shows "\<exists>addrs' c r. i2c_setup ok bus speed slave addrs = Some (addrs', c, r) \<and> addrs_ok addrs'"
proof -
  have byte: "unat (ucast (b :: byte) :: u16) < 256" for b
  proof -
    have "unat b < 2 ^ LENGTH(8)" by (rule unsigned_less)
    then show ?thesis by (simp add: unsigned_ucast_eq take_bit_nat_eq_self)
  qed
  have "ucast (word_of_int slave :: byte) \<noteq> I2C_NULL_SLAVE_ADDR"
    using byte [of "word_of_int slave"] by (auto simp: I2C_NULL_SLAVE_ADDR_def)
  then show ?thesis
    using assms set_update_subset_insert [of addrs "Suc 0" "ucast (word_of_int slave :: byte)"]
    by (auto simp: i2c_setup_def platform_i2c_setup_def platform_i2c_exists_def addrs_ok_def NUM_I2C_def i2cIdMap_def)
qed

lemma i2c_write_ok:
  assumes "addrs_ok addrs"
  shows "i2c_write ans True bus slave reg data addrs \<noteq> None"
  using assms by (auto simp: i2c_write_def platform_i2c_send_data_def slave_of_def platform_i2c_exists_def addrs_ok_def NUM_I2C_def
      i2cIdMap_def split: i2c_data.split)

text \<open>Before the first \<open>i2c.setup\<close> the preset address is 0, not the null address: a transfer without a
  slave goes to address 0 instead of failing.\<close>

lemma i2c_write_before_setup:
  "i2c_write ans blk 1 None reg (I2cString bs) [0, 0, 0] = Some ([WriteI2c 1 0 (word_of_int reg) bs], Inr ans)"
  by (simp add: i2c_write_def platform_i2c_exists_def platform_i2c_send_data_def slave_of_def slave_arg_def I2C_NULL_SLAVE_ADDR_def
      i2cIdMap_def)

end
