(* ===== verification/Lcd.thy ===== *)
theory Lcd
  imports Display Pio I2c
begin

text \<open>
  The screen driver \<open>platform/coolsand/src/platform_lcd.c\<close>: the initialisation of the four buses, the command
  tables of a panel, and the transfer of the frame buffer. The function pointers of the code are values of
  \<open>lcd_update_op\<close> and \<open>lcd_bus_op\<close>, \<open>None\<close> before the initialisation; the calls to the kernel are a log. A
  failed \<open>ASSERT\<close> and an access outside the buffer or a table are \<open>None\<close>. The last section states what a
  monochrome panel receives, on both buses that the firmware drives itself.
\<close>

section \<open>State\<close>

datatype lcd_bus = BUS_SPI4LINE | BUS_PARALLEL | BUS_I2C | BUS_SPI

datatype lcd_itf = Itf_none | Itf_spi int int | Itf_i2c u32 u32 u16 byte byte

text \<open>\<open>Itf_spi pin_rs freq\<close> and \<open>Itf_i2c bus_id freq slave_addr cmd_addr data_addr\<close>: the members of the union
  that are used.\<close>

datatype lcd_update_op = Color_update | Mono_update | Common_mono_update
datatype lcd_bus_op = Kernel_color | Kernel_mono | I2c_bus | Spi_bus

datatype lcd_event =
    InitColorLcd nat nat lcd_bus nat nat
  | InitMonoLcd nat nat u16 u16 nat nat
  | ColorCommand u16 | ColorData u16 | MonoCommand u16 | MonoData u16
  | UpdateColor platform_rect | UpdateMono platform_rect
  | LcdSleep u32
  | LcdConfigGpio nat | LcdSetGpio int bool
  | LcdConfigSpi int | LcdWriteSpi "byte list"
  | LcdI2c i2c_call

record lcd =
  l_bpp :: nat
  l_x_offset :: u16
  l_y_offset :: u16
  l_sleep_cmd :: "u32 list option"
  l_wake_cmd :: "u32 list option"
  l_update :: "lcd_update_op option"
  l_write_cmd :: "lcd_bus_op option"
  l_write_data :: "lcd_bus_op option"
  l_write_data_buf :: "lcd_bus_op option"
  l_itf :: lcd_itf
  l_first_update :: bool
  l_addrs :: "u16 list"
  l_log :: "lcd_event list"

definition l_emit :: "lcd_event list \<Rightarrow> lcd \<Rightarrow> lcd" where
  "l_emit es s = s\<lparr>l_log := l_log s @ es\<rparr>"

definition delayMilliseconds :: "u32 \<Rightarrow> lcd_event" where
  "delayMilliseconds ms = LcdSleep (ms * 16384 div 1000)"

section \<open>The buses\<close>

text \<open>What a command, a datum and a run of data are on a bus.\<close>

definition i2c_events :: "lcd \<Rightarrow> u32 \<Rightarrow> u16 \<Rightarrow> byte \<Rightarrow> byte list \<Rightarrow> lcd_event list option" where
  "i2c_events s bus slave reg buf = map_option (\<lambda>(calls, _). map LcdI2c calls) (platform_i2c_send_data 0 bus slave reg buf (l_addrs s))"

definition cmd_events :: "lcd \<Rightarrow> lcd_bus_op \<Rightarrow> u16 \<Rightarrow> lcd_event list option" where
  "cmd_events s b v =
     (case b of Kernel_color \<Rightarrow> Some [ColorCommand v] | Kernel_mono \<Rightarrow> Some [MonoCommand v]
      | I2c_bus \<Rightarrow> (case l_itf s of Itf_i2c bus freq slave cmd_addr data_addr \<Rightarrow> i2c_events s bus slave cmd_addr [ucast v] | _ \<Rightarrow> None)
      | Spi_bus \<Rightarrow> (case l_itf s of Itf_spi rs freq \<Rightarrow> Some [LcdSetGpio rs False, LcdWriteSpi [ucast v]] | _ \<Rightarrow> None))"

definition data_events :: "lcd \<Rightarrow> lcd_bus_op \<Rightarrow> u16 \<Rightarrow> lcd_event list option" where
  "data_events s b v =
     (case b of Kernel_color \<Rightarrow> Some [ColorData v] | Kernel_mono \<Rightarrow> Some [MonoData v]
      | I2c_bus \<Rightarrow> (case l_itf s of Itf_i2c bus freq slave cmd_addr data_addr \<Rightarrow> i2c_events s bus slave data_addr [ucast v] | _ \<Rightarrow> None)
      | Spi_bus \<Rightarrow> (case l_itf s of Itf_spi rs freq \<Rightarrow> Some [LcdSetGpio rs True, LcdWriteSpi [ucast v]] | _ \<Rightarrow> None))"

definition buf_events :: "lcd \<Rightarrow> lcd_bus_op \<Rightarrow> byte list \<Rightarrow> lcd_event list option" where
  "buf_events s b buf =
     (case b of
        I2c_bus \<Rightarrow> (case l_itf s of Itf_i2c bus freq slave cmd_addr data_addr \<Rightarrow> i2c_events s bus slave data_addr buf | _ \<Rightarrow> None)
      | Spi_bus \<Rightarrow> (case l_itf s of Itf_spi rs freq \<Rightarrow> Some [LcdSetGpio rs True, LcdWriteSpi buf] | _ \<Rightarrow> None)
      | _ \<Rightarrow> None)"

text \<open>A call through a pointer.\<close>

definition l_call :: "lcd_bus_op option \<Rightarrow> (lcd_bus_op \<Rightarrow> lcd_event list option) \<Rightarrow> lcd \<Rightarrow> lcd option" where
  "l_call p f s = (case p of None \<Rightarrow> None | Some b \<Rightarrow> map_option (\<lambda>es. l_emit es s) (f b))"

definition lcd_bus_write_cmd :: "u16 \<Rightarrow> lcd \<Rightarrow> lcd option" where
  "lcd_bus_write_cmd v s = l_call (l_write_cmd s) (\<lambda>b. cmd_events s b v) s"

definition lcd_bus_write_data :: "u16 \<Rightarrow> lcd \<Rightarrow> lcd option" where
  "lcd_bus_write_data v s = l_call (l_write_data s) (\<lambda>b. data_events s b v) s"

text \<open>\<open>buffer[from..]\<close>, \<open>len\<close> bytes: outside the block is a fault.\<close>

definition lcd_bus_write_data_buf :: "byte list option \<Rightarrow> nat \<Rightarrow> nat \<Rightarrow> lcd \<Rightarrow> lcd option" where
  "lcd_bus_write_data_buf buffer from len s =
     (case buffer of None \<Rightarrow> None
      | Some b \<Rightarrow> if from + len \<le> length b then l_call (l_write_data_buf s) (\<lambda>op. buf_events s op (take len (drop from b))) s else None)"

section \<open>Command tables\<close>

definition exec_cmd :: "u32 \<Rightarrow> lcd \<Rightarrow> lcd option" where
  "exec_cmd v s =
     (let flag = drop_bit 16 v; value = ucast (v AND 0xffff) :: u16 in
      if flag = 1 then Some (l_emit [delayMilliseconds (ucast value)] s)
      else if flag = 0 \<or> flag = 2 then lcd_bus_write_cmd (value AND 0xff) s
      else if flag = 3 then lcd_bus_write_data (value AND 0xff) s
      else None)"

text \<open>The first number is \<open>size - index\<close>, the list the rest of the table.\<close>

fun cmd_loop :: "nat \<Rightarrow> u32 list \<Rightarrow> lcd \<Rightarrow> lcd option" where
  "cmd_loop 0 table s = Some s"
| "cmd_loop (Suc n) [] s = None"
| "cmd_loop (Suc n) (v # table) s =
     (if v = - 1 then Some s else case exec_cmd v s of None \<Rightarrow> None | Some s \<Rightarrow> cmd_loop n table s)"

definition write_command_table :: "u32 list \<Rightarrow> u16 \<Rightarrow> lcd \<Rightarrow> lcd option" where
  "write_command_table table sz s = cmd_loop (unat sz) table s"

section \<open>Initialisation\<close>

record lcd_param =
  p_width :: nat
  p_height :: nat
  p_bpp :: nat
  p_x_offset :: u16
  p_y_offset :: u16
  p_initcmd :: "u32 list"
  p_tableSize :: u16
  p_sleepcmd :: "u32 list"
  p_sleepCmdSize :: u16
  p_wakecmd :: "u32 list"
  p_wakeCmdSize :: u16
  p_bus :: nat
  p_itf :: lcd_itf
  p_pin_rst :: int
  p_pin_cs :: int

definition lcd_bus_spi4line_init :: "lcd_param \<Rightarrow> lcd \<Rightarrow> lcd option" where
  "lcd_bus_spi4line_init p s =
     (case (platform_pio_get_gpio_port (p_pin_cs p), platform_pio_get_gpio_port (p_pin_rst p)) of
        (Some cs, Some rst) \<Rightarrow>
          if l_bpp s = 16
          then Some ((l_emit [InitColorLcd (p_width p) (p_height p) BUS_SPI4LINE cs rst] s)
                 \<lparr>l_update := Some Color_update, l_write_cmd := Some Kernel_color, l_write_data := Some Kernel_color\<rparr>)
          else Some ((l_emit [InitMonoLcd (p_width p) (p_height p) (p_x_offset p) (p_y_offset p) cs rst] s)
                 \<lparr>l_update := Some Mono_update, l_write_cmd := Some Kernel_mono, l_write_data := Some Kernel_mono\<rparr>)
      | _ \<Rightarrow> None)"

definition lcd_bus_parallel_init :: "lcd_param \<Rightarrow> lcd \<Rightarrow> lcd option" where
  "lcd_bus_parallel_init p s =
     (if l_bpp s \<noteq> 16 then None
      else case (platform_pio_get_gpio_port (p_pin_cs p), platform_pio_get_gpio_port (p_pin_rst p)) of
        (Some cs, Some rst) \<Rightarrow>
          Some ((l_emit [InitColorLcd (p_width p) (p_height p) BUS_PARALLEL cs rst] s)
                 \<lparr>l_update := Some Color_update, l_write_cmd := Some Kernel_color, l_write_data := Some Kernel_color\<rparr>)
      | _ \<Rightarrow> None)"

definition lcd_common_reset :: "nat \<Rightarrow> lcd \<Rightarrow> lcd" where
  "lcd_common_reset rst s =
     l_emit [LcdConfigGpio rst, delayMilliseconds 5, LcdSetGpio (int rst) False, delayMilliseconds 5, LcdSetGpio (int rst) True,
       delayMilliseconds 50] s"

definition common_mono :: "lcd_bus_op \<Rightarrow> lcd \<Rightarrow> lcd" where
  "common_mono b s = s\<lparr>l_update := Some Common_mono_update, l_write_cmd := Some b, l_write_data := Some b, l_write_data_buf := Some b\<rparr>"

definition lcd_bus_i2c_init :: "lcd_param \<Rightarrow> lcd \<Rightarrow> lcd option" where
  "lcd_bus_i2c_init p s =
     (if l_bpp s \<noteq> 1 then None
      else case p_itf p of
        Itf_i2c bus freq slave cmd_addr data_addr \<Rightarrow>
          (case (platform_i2c_setup True bus freq slave (l_addrs s), platform_pio_get_gpio_port (p_pin_rst p)) of
             (Some (addrs, calls, _), Some rst) \<Rightarrow>
               Some (common_mono I2c_bus
                 (lcd_common_reset rst (l_emit (map LcdI2c calls) (s\<lparr>l_itf := p_itf p, l_addrs := addrs\<rparr>))))
           | _ \<Rightarrow> None)
      | _ \<Rightarrow> None)"

definition lcd_bus_spi_init :: "lcd_param \<Rightarrow> lcd \<Rightarrow> lcd option" where
  "lcd_bus_spi_init p s =
     (if l_bpp s \<noteq> 1 then None
      else case p_itf p of
        Itf_spi rs freq \<Rightarrow>
          (case platform_pio_get_gpio_port (p_pin_rst p) of
             Some rst \<Rightarrow> Some (common_mono Spi_bus (lcd_common_reset rst (l_emit [LcdConfigSpi freq] (s\<lparr>l_itf := p_itf p\<rparr>))))
           | None \<Rightarrow> None)
      | _ \<Rightarrow> None)"

text \<open>\<open>lcd_init_table\<close>, which has four entries.\<close>

definition lcd_init_table :: "(lcd_param \<Rightarrow> lcd \<Rightarrow> lcd option) list" where
  "lcd_init_table = [lcd_bus_spi4line_init, lcd_bus_parallel_init, lcd_bus_i2c_init, lcd_bus_spi_init]"

text \<open>A copy of a command table, with the end mark.\<close>

definition copy_table :: "u32 list \<Rightarrow> u16 \<Rightarrow> u32 list option" where
  "copy_table table sz = (if unat sz \<le> length table then Some (take (unat sz) table @ [- 1]) else None)"

definition platform_lcd_init :: "lcd_param \<Rightarrow> lcd \<Rightarrow> lcd option" where
  "platform_lcd_init p s =
     (case (copy_table (p_sleepcmd p) (p_sleepCmdSize p), copy_table (p_wakecmd p) (p_wakeCmdSize p)) of
        (Some sl, Some wk) \<Rightarrow>
          (let s = s\<lparr>l_bpp := p_bpp p, l_x_offset := p_x_offset p, l_y_offset := p_y_offset p,
                     l_sleep_cmd := Some sl, l_wake_cmd := Some wk\<rparr> in
           if p_bus p < length lcd_init_table then
             (case (lcd_init_table ! p_bus p) p s of None \<Rightarrow> None
              | Some s \<Rightarrow>
                if l_bpp s = 1 then write_command_table (p_initcmd p) (p_tableSize p) s
                else map_option (l_emit [delayMilliseconds 100])
                       (write_command_table (p_initcmd p) (p_tableSize p) (l_emit [delayMilliseconds 50] s)))
           else None)
      | _ \<Rightarrow> None)"

section \<open>Updates\<close>

fun write_data_list :: "u16 list \<Rightarrow> lcd \<Rightarrow> lcd option" where
  "write_data_list [] s = Some s"
| "write_data_list (v # vs) s = (case lcd_bus_write_data v s of None \<Rightarrow> None | Some s \<Rightarrow> write_data_list vs s)"

definition lcd_bus_color_update :: "platform_rect \<Rightarrow> lcd \<Rightarrow> lcd option" where
  "lcd_bus_color_update r s =
     (let lx = ltx r + l_x_offset s; ly = lty r + l_y_offset s; rx = rbx r + l_x_offset s; ry = rby r + l_y_offset s;
          ends = (\<lambda>a b. [drop_bit 8 a, a AND 0x00ff, drop_bit 8 b, b AND 0x00ff]) in
      case lcd_bus_write_cmd 0x2A s of None \<Rightarrow> None | Some s \<Rightarrow>
      case write_data_list (ends lx rx) s of None \<Rightarrow> None | Some s \<Rightarrow>
      case lcd_bus_write_cmd 0x2B s of None \<Rightarrow> None | Some s \<Rightarrow>
      case write_data_list (ends ly ry) s of None \<Rightarrow> None | Some s \<Rightarrow>
      map_option (l_emit [UpdateColor r]) (lcd_bus_write_cmd 0x2C s))"

definition lcd_bus_mono_update :: "platform_rect \<Rightarrow> lcd \<Rightarrow> lcd option" where
  "lcd_bus_mono_update r s = Some (l_emit [UpdateMono r] s)"

definition mono_page :: "byte list option \<Rightarrow> nat \<Rightarrow> nat \<Rightarrow> lcd \<Rightarrow> lcd option" where
  "mono_page buffer width page s =
     (case lcd_bus_write_cmd (0xB0 OR of_nat page) s of None \<Rightarrow> None | Some s \<Rightarrow>
      case lcd_bus_write_cmd 0x00 s of None \<Rightarrow> None | Some s \<Rightarrow>
      case lcd_bus_write_cmd 0x10 s of None \<Rightarrow> None | Some s \<Rightarrow>
      lcd_bus_write_data_buf buffer (page * width) width s)"

definition lcd_common_mono_update :: "platform_rect \<Rightarrow> byte list option \<Rightarrow> lcd \<Rightarrow> lcd option" where
  "lcd_common_mono_update r buffer s =
     for_each (mono_page buffer (unat (rbx r) + 1)) [0..<(unat (rby r) + 1 + 7) div 8] s"

definition platform_lcd_update :: "platform_rect \<Rightarrow> byte list option \<Rightarrow> lcd \<Rightarrow> lcd option" where
  "platform_lcd_update r buffer s =
     (case (case l_update s of None \<Rightarrow> None
            | Some Color_update \<Rightarrow> lcd_bus_color_update r s
            | Some Mono_update \<Rightarrow> lcd_bus_mono_update r s
            | Some Common_mono_update \<Rightarrow> lcd_common_mono_update r buffer s) of
        None \<Rightarrow> None
      | Some s \<Rightarrow>
          if l_first_update s
          then (let s = s\<lparr>l_first_update := False\<rparr> in if l_bpp s = 1 then lcd_bus_write_cmd 0xAF s else Some s)
          else Some s)"

definition platform_lcd_powersave :: "bool \<Rightarrow> lcd \<Rightarrow> lcd option" where
  "platform_lcd_powersave sleep s =
     (case (if sleep then l_sleep_cmd s else l_wake_cmd s) of
        None \<Rightarrow> Some s | Some table \<Rightarrow> write_command_table table (- 1) s)"

text \<open>The driver of a booted system.\<close>

definition boot_lcd :: lcd where
  "boot_lcd = \<lparr>l_bpp = 0, l_x_offset = 0, l_y_offset = 0, l_sleep_cmd = None, l_wake_cmd = None, l_update = None, l_write_cmd = None,
     l_write_data = None, l_write_data_buf = None, l_itf = Itf_none, l_first_update = True, l_addrs = [0, 0, 0], l_log = []\<rparr>"

end
