(* ===== verification/LcdProps.thy ===== *)
theory LcdProps
  imports Lcd DisplayProps
begin

text \<open>
  What a panel receives: after the initialisation of a bus that the firmware drives itself, every update sends
  the frame buffer page by page, and the first one switches the panel on. A colour panel is told the window
  with its offsets.
\<close>

section \<open>Monochrome panels\<close>

datatype panel_op = Command byte | Data "byte list"

text \<open>How an operation of the panel looks on the bus that is set up.\<close>

definition wire :: "lcd \<Rightarrow> panel_op \<Rightarrow> lcd_event list" where
  "wire s p =
     (case l_itf s of
        Itf_none \<Rightarrow> []
      | Itf_spi rs freq \<Rightarrow>
          (case p of Command c \<Rightarrow> [LcdSetGpio rs False, LcdWriteSpi [c]] | Data bs \<Rightarrow> [LcdSetGpio rs True, LcdWriteSpi bs])
      | Itf_i2c bus freq slave ca da \<Rightarrow>
          (case p of Command c \<Rightarrow> [LcdI2c (WriteI2c (unat bus) slave ca [c])] | Data bs \<Rightarrow> [LcdI2c (WriteI2c (unat bus) slave da bs)]))"

text \<open>The bus is set up, and the pointers of the driver agree with it.\<close>

fun bus_ok :: "lcd_bus_op \<Rightarrow> lcd_itf \<Rightarrow> bool" where
  "bus_ok Spi_bus (Itf_spi rs freq) = True"
| "bus_ok I2c_bus (Itf_i2c bus freq slave ca da) = (unat bus < NUM_I2C \<and> slave \<noteq> I2C_NULL_SLAVE_ADDR)"
| "bus_ok _ _ = False"

definition mono_ready :: "lcd \<Rightarrow> bool" where
  "mono_ready s \<longleftrightarrow> l_bpp s = 1 \<and> l_update s = Some Common_mono_update
     \<and> (\<exists>b. bus_ok b (l_itf s) \<and> l_write_cmd s = Some b \<and> l_write_data s = Some b \<and> l_write_data_buf s = Some b)"

lemma l_emit_sel [simp]:
  "l_bpp (l_emit es s) = l_bpp s" "l_update (l_emit es s) = l_update s" "l_write_cmd (l_emit es s) = l_write_cmd s"
  "l_write_data (l_emit es s) = l_write_data s" "l_write_data_buf (l_emit es s) = l_write_data_buf s" "l_itf (l_emit es s) = l_itf s"
  "l_first_update (l_emit es s) = l_first_update s" "l_addrs (l_emit es s) = l_addrs s" "l_log (l_emit es s) = l_log s @ es"
  by (simp_all add: l_emit_def)

lemma l_emit_append [simp]: "l_emit fs (l_emit es s) = l_emit (es @ fs) s"
  by (simp add: l_emit_def)

lemma l_emit_Nil [simp]: "l_emit [] s = s"
  by (simp add: l_emit_def)

lemma mono_ready_emit [simp]: "mono_ready (l_emit es s) = mono_ready s"
  by (simp add: mono_ready_def)

lemma wire_emit [simp]: "wire (l_emit es s) = wire s"
  by (simp add: wire_def fun_eq_iff)

lemma i2c_ids: "n < NUM_I2C \<Longrightarrow> i2cIdMap ! n = n \<and> n < length i2cIdMap"
  by (auto simp: NUM_I2C_def i2cIdMap_def less_Suc_eq numeral_3_eq_3)

text \<open>A command and a run of data on the bus of a ready panel.\<close>

lemma ready_cmd:
  assumes "mono_ready s"
  shows "lcd_bus_write_cmd v s = Some (l_emit (wire s (Command (ucast v))) s)"
proof -
  obtain b where b: "bus_ok b (l_itf s)" "l_write_cmd s = Some b" using assms by (auto simp: mono_ready_def)
  then show ?thesis
    by (cases "(b, l_itf s)" rule: bus_ok.cases)
      (auto simp: lcd_bus_write_cmd_def l_call_def cmd_events_def wire_def i2c_events_def platform_i2c_send_data_def slave_of_def i2c_ids)
qed

lemma ready_buf:
  assumes "mono_ready s" and "from + len \<le> length b"
  shows "lcd_bus_write_data_buf (Some b) from len s = Some (l_emit (wire s (Data (take len (drop from b)))) s)"
proof -
  obtain c where c: "bus_ok c (l_itf s)" "l_write_data_buf s = Some c" using assms(1) by (auto simp: mono_ready_def)
  then show ?thesis using assms(2)
    by (cases "(c, l_itf s)" rule: bus_ok.cases)
      (auto simp: lcd_bus_write_data_buf_def l_call_def buf_events_def wire_def i2c_events_def platform_i2c_send_data_def slave_of_def i2c_ids)
qed

text \<open>The operations for one page, and for the frame.\<close>

definition page_ops :: "nat \<Rightarrow> byte list \<Rightarrow> nat \<Rightarrow> panel_op list" where
  "page_ops w b k = [Command (0xB0 OR of_nat k), Command 0, Command 0x10, Data (take w (drop (k * w) b))]"

definition frame_ops :: "nat \<Rightarrow> byte list \<Rightarrow> nat \<Rightarrow> panel_op list" where
  "frame_ops w b n = concat (map (page_ops w b) [0..<n])"

fun payload :: "panel_op list \<Rightarrow> byte list" where
  "payload [] = []"
| "payload (Command c # ps) = payload ps"
| "payload (Data bs # ps) = bs @ payload ps"

lemma payload_append: "payload (ps @ qs) = payload ps @ payload qs"
  by (induction ps rule: payload.induct) simp_all

text \<open>The data of the pages are the buffer.\<close>

lemma payload_frame: "payload (frame_ops w b n) = take (n * w) b"
proof (induction n)
  case (Suc n)
  have "payload (page_ops w b n) = take w (drop (n * w) b)" by (simp add: page_ops_def)
  then show ?case
    using Suc take_add [of "n * w" w b] by (simp add: frame_ops_def payload_append add.commute [of w])
qed (simp add: frame_ops_def)

lemma ucast_cmd: "ucast ((0xB0 :: u16) OR of_nat k) = (0xB0 :: byte) OR of_nat k"
proof -
  have "(of_nat (take_bit 16 k) :: byte) = of_nat k" by (simp add: word_of_nat_eq_iff take_bit_take_bit)
  then show ?thesis by (simp add: unsigned_or_eq unsigned_of_nat)
qed

lemma mono_page_ok:
  assumes "mono_ready s" and "k * w + w \<le> length b"
  shows "mono_page (Some b) w k s = Some (l_emit (concat (map (wire s) (page_ops w b k))) s)"
  using assms by (simp add: mono_page_def ready_cmd ready_buf page_ops_def ucast_cmd)

lemma mono_pages_ok:
  assumes "mono_ready s" and "n * w \<le> length b"
  shows "for_each (mono_page (Some b) w) [0..<n] s = Some (l_emit (concat (map (wire s) (frame_ops w b n))) s)"
  using assms(2)
proof (induction n)
  case (Suc n)
  have fe: "for_each f (xs @ [x]) t = (case for_each f xs t of None \<Rightarrow> None | Some u \<Rightarrow> f x u)" for f :: "nat \<Rightarrow> lcd \<Rightarrow> lcd option" and xs x t
    by (induction xs arbitrary: t) (auto split: option.split)
  have "n * w + w \<le> length b" using Suc.prems by (simp add: add.commute)
  then have "mono_page (Some b) w n (l_emit es s) = Some (l_emit (es @ concat (map (wire s) (page_ops w b n))) s)" for es
    using mono_page_ok [of "l_emit es s" n w b] assms(1) by simp
  then show ?case using Suc by (simp add: fe frame_ops_def)
qed (simp add: frame_ops_def)

section \<open>Initialisation\<close>

definition only_log :: "lcd \<Rightarrow> lcd \<Rightarrow> bool" where
  "only_log s s' \<longleftrightarrow> (\<exists>es. s' = l_emit es s)"

lemma only_log_refl [simp]: "only_log s s"
  unfolding only_log_def by (rule exI [of _ "[]"]) simp

lemma only_log_emit [simp]: "only_log s (l_emit es s)"
  by (auto simp: only_log_def)

lemma only_log_trans: "only_log s t \<Longrightarrow> only_log t u \<Longrightarrow> only_log s u"
  by (auto simp: only_log_def)

lemma bus_call_log:
  "l_call p f s = Some s' \<Longrightarrow> only_log s s'"
  by (auto simp: l_call_def split: option.splits)

lemma exec_cmd_log: "exec_cmd v s = Some s' \<Longrightarrow> only_log s s'"
  by (auto simp: exec_cmd_def Let_def lcd_bus_write_cmd_def lcd_bus_write_data_def dest: bus_call_log split: if_splits)

lemma cmd_loop_log: "cmd_loop n table s = Some s' \<Longrightarrow> only_log s s'"
  by (induction n table s rule: cmd_loop.induct) (auto split: if_splits option.splits dest: exec_cmd_log intro: only_log_trans)

lemma init_keeps:
  assumes "(lcd_init_table ! i) p t = Some u" and "i \<in> {2, 3}"
  shows "l_bpp u = l_bpp t"
  using assms by (auto simp: lcd_init_table_def numeral_2_eq_2 numeral_3_eq_3 lcd_bus_i2c_init_def lcd_bus_spi_init_def
      common_mono_def lcd_common_reset_def split: lcd_itf.splits option.splits if_splits)

lemma init_mono_ready:
  assumes "platform_lcd_init p s0 = Some s" and "p_bpp p = 1" and "p_bus p \<in> {2, 3}"
    and "bus_ok (if p_bus p = 3 then Spi_bus else I2c_bus) (p_itf p)"
  shows "mono_ready s" "l_first_update s = l_first_update s0"
proof -
  obtain sl wk where c: "copy_table (p_sleepcmd p) (p_sleepCmdSize p) = Some sl" "copy_table (p_wakecmd p) (p_wakeCmdSize p) = Some wk"
    using assms(1) by (auto simp: platform_lcd_init_def split: option.splits)
  define t where "t = s0\<lparr>l_bpp := 1, l_x_offset := p_x_offset p, l_y_offset := p_y_offset p, l_sleep_cmd := Some sl, l_wake_cmd := Some wk\<rparr>"
  obtain u where u: "(lcd_init_table ! p_bus p) p t = Some u"
    using assms(1,2) c by (auto simp: platform_lcd_init_def t_def Let_def split: option.splits if_splits)
  have "l_bpp u = 1" using init_keeps [OF u assms(3)] by (simp add: t_def)
  then have "write_command_table (p_initcmd p) (p_tableSize p) u = Some s"
    using assms(1,2) c u by (simp add: platform_lcd_init_def t_def Let_def split: if_splits)
  then have t: "(lcd_init_table ! p_bus p) p t = Some u" "l_bpp t = 1" "l_first_update t = l_first_update s0" "only_log u s"
    using u by (simp_all add: t_def write_command_table_def cmd_loop_log)
  have "mono_ready u \<and> l_first_update u = l_first_update t"
  proof (cases "p_bus p = 3")
    case True
    then show ?thesis using t(1,2)
      by (auto simp: lcd_init_table_def lcd_bus_spi_init_def common_mono_def lcd_common_reset_def mono_ready_def numeral_3_eq_3
          intro!: exI [of _ Spi_bus] split: lcd_itf.splits option.splits if_splits)
  next
    case False
    then have b: "p_bus p = 2" using assms(3) by simp
    then show ?thesis using t(1,2) assms(4)
      by (auto simp: lcd_init_table_def lcd_bus_i2c_init_def common_mono_def lcd_common_reset_def mono_ready_def numeral_2_eq_2
          platform_i2c_setup_def NUM_I2C_def i2cIdMap_def
          intro!: exI [of _ I2c_bus] split: lcd_itf.splits option.splits if_splits)
  qed
  then show "mono_ready s" "l_first_update s = l_first_update s0"
    using t(3,4) by (auto simp: only_log_def)
qed

text \<open>C19. After the initialisation of a monochrome panel on the I2C or the SPI bus, an update of a screen whose
  rows fill pages sends, on either bus, for every page its number, column 0 and its bytes: together exactly the
  frame buffer of the drawing layer. The first update also switches the panel on, and later ones do not.
\<close>

theorem lcd_shows_frame:
  assumes "platform_lcd_init p s0 = Some s" and "p_bpp p = 1" and "p_bus p \<in> {2, 3}"
    and "bus_ok (if p_bus p = 3 then Spi_bus else I2c_bus) (p_itf p)"
    and "screen_ok d" and "lcd_bpp d = 1" and "lcd_height d = 8 * n" and "0 < n" and "0 < lcd_width d"
    and "lcd_width d < 65536" and "lcd_height d < 65536"
  shows "\<exists>b s'. framebuffer d = Some b
      \<and> platform_lcd_update (fst (platform_disp_update d)) (snd (platform_disp_update d)) s = Some s'
      \<and> l_log s' = l_log s @ concat (map (wire s)
          (frame_ops (lcd_width d) b n @ (if l_first_update s0 then [Command 0xAF] else [])))
      \<and> payload (frame_ops (lcd_width d) b n) = take (fb_size d) b
      \<and> \<not> l_first_update s' \<and> mono_ready s' \<and> wire s' = wire s"
proof -
  note ready = init_mono_ready [OF assms(1-4)]
  obtain b where b: "framebuffer d = Some b" "lcd_width d * ((8 * n + 7) div 8) \<le> length b"
    using assms(5-7) by (auto simp: screen_ok_def ok1_def)
  let ?w = "lcd_width d" let ?r = "fst (platform_disp_update d)"
  have pos: "unat (of_nat m - 1 :: u16) + 1 = m" if "0 < m" "m < 65536" for m :: nat
  proof -
    have "(of_nat m :: u16) - 1 = of_nat (m - 1)" using that(1) by (simp add: of_nat_diff)
    moreover have "unat (of_nat (m - 1) :: u16) = m - 1" using that(2) by (simp add: unat_of_nat take_bit_eq_mod)
    ultimately show ?thesis using that(1) by simp
  qed
  have r: "unat (rbx ?r) + 1 = ?w" "(unat (rby ?r) + 1 + 7) div 8 = n"
    using pos [of ?w] pos [of "lcd_height d"] assms(7-11) by (simp_all add: platform_disp_update_def)
  define t where "t = l_emit (concat (map (wire s) (frame_ops ?w b n))) s"
  have len: "n * ?w \<le> length b" using b(2) by (simp add: mult.commute)
  have upd: "lcd_common_mono_update ?r (Some b) s = Some t"
    unfolding lcd_common_mono_update_def r t_def by (rule mono_pages_ok [OF ready(1) len])
  have u: "l_update s = Some Common_mono_update" "l_bpp s = 1" using ready(1) by (simp_all add: mono_ready_def)
  have tr: "mono_ready (t\<lparr>l_first_update := False\<rparr>)" "wire (t\<lparr>l_first_update := False\<rparr>) = wire s"
    using ready(1) by (simp_all add: t_def l_emit_def mono_ready_def wire_def fun_eq_iff)
  have on: "lcd_bus_write_cmd 0xAF (t\<lparr>l_first_update := False\<rparr>)
      = Some (l_emit (wire s (Command 0xAF)) (t\<lparr>l_first_update := False\<rparr>))"
    using ready_cmd [OF tr(1), of "0xAF"] tr(2) by simp
  have size: "fb_size d = n * ?w" using assms(6,7) by (simp add: fb_size_def)
  show ?thesis
  proof (intro exI conjI)
    show "framebuffer d = Some b" by (rule b(1))
    show "platform_lcd_update ?r (snd (platform_disp_update d)) s
        = Some (if l_first_update s0 then l_emit (wire s (Command 0xAF)) (t\<lparr>l_first_update := False\<rparr>) else t)"
      using upd on u ready(2) b(1) by (simp add: platform_lcd_update_def platform_disp_update_def t_def)
  qed (use tr ready in \<open>auto simp: t_def l_emit_def payload_frame size mono_ready_def wire_def fun_eq_iff\<close>)
qed

definition spi_panel :: lcd_param where
  "spi_panel = \<lparr>p_width = 16, p_height = 8, p_bpp = 1, p_x_offset = 0, p_y_offset = 0, p_initcmd = [0x2AE], p_tableSize = 1,
     p_sleepcmd = [], p_sleepCmdSize = 0, p_wakecmd = [], p_wakeCmdSize = 0, p_bus = 3, p_itf = Itf_spi 3 1000000, p_pin_rst = 1, p_pin_cs = 2\<rparr>"

lemma spi_panel_init: "\<exists>s. platform_lcd_init spi_panel boot_lcd = Some s \<and> l_itf s = Itf_spi 3 1000000"
proof -
  have "platform_pio_get_gpio_port 1 = Some 1" by code_simp
  then show ?thesis
    by (simp add: platform_lcd_init_def spi_panel_def boot_lcd_def copy_table_def lcd_init_table_def lcd_bus_spi_init_def
        common_mono_def lcd_common_reset_def l_emit_def write_command_table_def exec_cmd_def lcd_bus_write_cmd_def l_call_def cmd_events_def)
qed

lemma lcd_shows_frame_witness:
  "\<exists>s d s'. platform_lcd_init spi_panel boot_lcd = Some s \<and> framebuffer d = Some (replicate 16 7)
     \<and> platform_lcd_update (fst (platform_disp_update d)) (snd (platform_disp_update d)) s = Some s'
     \<and> l_log s' = l_log s @ [LcdSetGpio 3 False, LcdWriteSpi [0xB0], LcdSetGpio 3 False, LcdWriteSpi [0], LcdSetGpio 3 False, LcdWriteSpi [0x10],
         LcdSetGpio 3 True, LcdWriteSpi (replicate 16 7), LcdSetGpio 3 False, LcdWriteSpi [0xAF]]"
proof -
  obtain s where s: "platform_lcd_init spi_panel boot_lcd = Some s" "l_itf s = Itf_spi 3 1000000" using spi_panel_init by blast
  define d where "d = (demo 1)\<lparr>lcd_width := 16, lcd_height := 8, framebuffer := Some (replicate 16 7)\<rparr>"
  have p: "p_bpp spi_panel = 1" "p_bus spi_panel \<in> {2, 3}" "bus_ok (if p_bus spi_panel = 3 then Spi_bus else I2c_bus) (p_itf spi_panel)"
    by (simp_all add: spi_panel_def)
  have d: "screen_ok d" "lcd_bpp d = 1" "lcd_height d = 8 * 1" "(0 :: nat) < 1" "0 < lcd_width d" "lcd_width d < 65536" "lcd_height d < 65536"
    by (simp_all add: d_def screen_ok_def ok1_def demo_def)
  have b: "framebuffer d = Some (replicate 16 7)" "lcd_width d = 16" by (simp_all add: d_def)
  obtain s' where s': "platform_lcd_update (fst (platform_disp_update d)) (snd (platform_disp_update d)) s = Some s'"
      "l_log s' = l_log s @ concat (map (wire s) (frame_ops 16 (replicate 16 7) 1 @ (if l_first_update boot_lcd then [Command 0xAF] else [])))"
    using lcd_shows_frame [OF s(1) p d] unfolding b by blast
  have "frame_ops 16 (replicate 16 7) 1 = [Command 0xB0, Command 0, Command 0x10, Data (replicate 16 7)]"
    by (simp add: frame_ops_def page_ops_def)
  then show ?thesis
    using s s' by (intro exI [of _ s] exI [of _ d] exI [of _ s']) (simp add: b wire_def boot_lcd_def)
qed

section \<open>Other promises\<close>

text \<open>A screen whose last page is not full has a frame buffer that is shorter than its pages: the update reads
  behind it.\<close>

lemma lcd_update_overrun:
  assumes "mono_ready s" and "length b = n * w" and "0 < w"
  shows "mono_page (Some b) w n s = None"
  using assms by (simp add: mono_page_def ready_cmd lcd_bus_write_data_buf_def mult.commute)

text \<open>The tables for sleeping and waking end with the mark, so that their loop stays inside.\<close>

lemma ready_data:
  assumes "mono_ready s"
  shows "\<exists>es. lcd_bus_write_data v s = Some (l_emit es s)"
proof -
  obtain b where b: "bus_ok b (l_itf s)" "l_write_data s = Some b" using assms by (auto simp: mono_ready_def)
  then show ?thesis
    by (cases "(b, l_itf s)" rule: bus_ok.cases)
      (auto simp: lcd_bus_write_data_def l_call_def data_events_def i2c_events_def platform_i2c_send_data_def slave_of_def i2c_ids)
qed

lemma cmd_loop_marked:
  assumes "mono_ready s" and "\<forall>v \<in> set table. v = - 1 \<or> drop_bit 16 v \<in> {0, 1, 2, 3}"
  shows "cmd_loop n (table @ [- 1]) s \<noteq> None"
  using assms
proof (induction table arbitrary: n s)
  case Nil
  then show ?case by (cases n) simp_all
next
  case (Cons v table)
  show ?case
  proof (cases "n = 0 \<or> v = - 1")
    case True
    then show ?thesis by (cases n) auto
  next
    case False
    then obtain m where n: "n = Suc m" by (cases n) auto
    have "drop_bit 16 v \<in> {0, 1, 2, 3}" using Cons.prems(2) False by simp
    then obtain es where es: "exec_cmd v s = Some (l_emit es s)"
      using ready_cmd [OF Cons.prems(1)] ready_data [OF Cons.prems(1), of "ucast (v AND 0xffff) AND 0xff"] that
      by (auto simp: exec_cmd_def Let_def)
    then show ?thesis using Cons.IH [of "l_emit es s" m] Cons.prems n False by simp
  qed
qed

lemma powersave_returns:
  assumes "mono_ready s" and "l_sleep_cmd s = Some (table @ [- 1])"
    and "\<forall>v \<in> set table. v = - 1 \<or> drop_bit 16 v \<in> {0, 1, 2, 3}"
  shows "platform_lcd_powersave True s \<noteq> None"
  using assms cmd_loop_marked by (simp add: platform_lcd_powersave_def write_command_table_def)

text \<open>The window that a colour panel is told: the corners with the offsets of the panel, high byte first.\<close>

lemma color_window:
  fixes v :: u16
  shows "256 * uint (drop_bit 8 v) + uint (v AND 0x00ff) = uint v"
proof -
  have m: "(0x00ff :: u16) = mask 8" by (simp add: mask_eq_exp_minus_1)
  show ?thesis
    unfolding m by (simp add: take_bit_eq_mask [symmetric] drop_bit_eq_div take_bit_eq_mod uint_div uint_mod)
qed

lemma lcd_color_update:
  assumes "l_write_cmd s = Some Kernel_color" and "l_write_data s = Some Kernel_color"
  shows "lcd_bus_color_update r s = Some (l_emit
    (let x = ltx r + l_x_offset s; y = lty r + l_y_offset s; x' = rbx r + l_x_offset s; y' = rby r + l_y_offset s in
      [ColorCommand 0x2A, ColorData (drop_bit 8 x), ColorData (x AND 0x00ff), ColorData (drop_bit 8 x'), ColorData (x' AND 0x00ff),
       ColorCommand 0x2B, ColorData (drop_bit 8 y), ColorData (y AND 0x00ff), ColorData (drop_bit 8 y'), ColorData (y' AND 0x00ff),
       ColorCommand 0x2C, UpdateColor r]) s)"
  using assms by (simp add: lcd_bus_color_update_def lcd_bus_write_cmd_def lcd_bus_write_data_def l_call_def cmd_events_def data_events_def Let_def)

end
