(* ===== verification/Audio.thy ===== *)
theory Audio
  imports Prelude
begin

text \<open>
  The audio player: \<open>platform/coolsand/src/platform_audio.c\<close> and \<open>modules/src/audio.c\<close>. The player copies the
  data into a block of the kernel's heap, which the callback of the kernel or \<open>platform_audio_stop\<close> gives
  back. Addresses are numbers, 0 is the null pointer; the kernel calls are a log, the newest first; what the
  kernel answers is an argument. File names are byte lists without the terminating NUL.
\<close>

section \<open>State\<close>

datatype file_format = FORMAT_MP3 | FORMAT_AMR | FORMAT_MIDI
datatype play_mode = MODE_AMR122 | MODE_MP3 | MODE_PCM | MODE_WAV | MODE_MIDI

datatype play_error = ERR_NO | ERR_UNKNOWN_FORMAT | ERR_BUSY | ERR_INVALID_PARAMETER | ERR_ACTION_NOT_ALLOWED | ERR_OUT_OF_MEMORY
  | ERR_CANNOT_OPEN_FILE | ERR_END_OF_FILE | ERR_TERMINATED | ERR_BAD_FORMAT | ERR_INVALID_FORMAT | ERR_ERROR

datatype play_param = PlayBuffer nat nat play_mode | PlayFile file_format "byte list"

datatype audio_event =
    AllocBuf nat "byte list" | FreeBuf nat
  | PlayMusic play_param bool | StopMusic | CallbackRuns
  | SendAudio bool
  | SetChannel u32 | SetSpeakerGain u32 | SetMicGain u32 | AudioLoopback bool u32 bool u32

record audio =
  isPlaying :: bool
  audplaybuffer :: nat
  a_log :: "audio_event list"

definition a_emit :: "audio_event \<Rightarrow> 'a audio_scheme \<Rightarrow> 'a audio_scheme" where
  "a_emit e s = s\<lparr>a_log := e # a_log s\<rparr>"

definition free_buffer :: "'a audio_scheme \<Rightarrow> 'a audio_scheme" where
  "free_buffer s = (if audplaybuffer s \<noteq> 0 then (a_emit (FreeBuf (audplaybuffer s)) s)\<lparr>audplaybuffer := 0\<rparr> else s)"

section \<open>The platform layer\<close>

text \<open>The message to Lua: the end of the file (\<open>True\<close>), or an error.\<close>

definition audio_play_callback :: "play_error \<Rightarrow> 'a audio_scheme \<Rightarrow> 'a audio_scheme" where
  "audio_play_callback r s =
     (let s = free_buffer s; s = s\<lparr>isPlaying := False\<rparr> in a_emit (SendAudio (r = ERR_NO \<or> r = ERR_END_OF_FILE)) s)"

definition strstr :: "byte list \<Rightarrow> byte list \<Rightarrow> bool" where
  "strstr s sub = list_ex (\<lambda>k. take (length sub) (drop k s) = sub) [0..<Suc (length s)]"

definition getFileFormat :: "byte list \<Rightarrow> file_format option" where
  "getFileFormat name =
     (if strstr name [0x2E, 0x61, 0x6D, 0x72] \<or> strstr name [0x2E, 0x41, 0x4D, 0x52] then Some FORMAT_AMR
      else if strstr name [0x2E, 0x6D, 0x70, 0x33] \<or> strstr name [0x2E, 0x4D, 0x50, 0x33] then Some FORMAT_MP3
      else if strstr name [0x2E, 0x6D, 0x69, 0x64] \<or> strstr name [0x2E, 0x4D, 0x49, 0x44] then Some FORMAT_MIDI
      else None)"

definition getDataFormat :: "u32 \<Rightarrow> play_mode option" where
  "getDataFormat f =
     (let mode = [MODE_AMR122, MODE_MP3, MODE_PCM, MODE_WAV, MODE_MIDI] in
      if unat f < length mode then Some (mode ! unat f) else None)"

datatype play_arg = ArgBuffer "byte list" u32 | ArgFile "byte list"

text \<open>\<open>m\<close>: the block of \<open>platform_malloc\<close>; \<open>ok\<close>: the answer of \<open>play_music\<close>.\<close>

definition start_music :: "bool \<Rightarrow> play_param \<Rightarrow> 'a audio_scheme \<Rightarrow> 'a audio_scheme \<times> int" where
  "start_music ok p s =
     (let s = a_emit (PlayMusic p ok) s in
      if \<not> ok then (free_buffer s, PLATFORM_ERR) else (s\<lparr>isPlaying := True\<rparr>, PLATFORM_OK))"

definition platform_audio_play :: "nat \<Rightarrow> bool \<Rightarrow> play_arg \<Rightarrow> 'a audio_scheme \<Rightarrow> 'a audio_scheme \<times> int" where
  "platform_audio_play m ok param s =
     (if isPlaying s then (s, PLATFORM_ERR)
      else case param of
        ArgBuffer data fmt \<Rightarrow>
          if audplaybuffer s \<noteq> 0 then (s, PLATFORM_ERR)
          else (case getDataFormat fmt of
              None \<Rightarrow> (s, PLATFORM_ERR)
            | Some dataFormat \<Rightarrow>
                if m = 0 then (s\<lparr>audplaybuffer := 0\<rparr>, PLATFORM_ERR)
                else start_music ok (PlayBuffer m (length data) dataFormat) (a_emit (AllocBuf m data) (s\<lparr>audplaybuffer := m\<rparr>)))
      | ArgFile name \<Rightarrow>
          if length name > 100 - 1 then (s, PLATFORM_ERR)
          else (case getFileFormat name of
              None \<Rightarrow> (s, PLATFORM_ERR)
            | Some fileformat \<Rightarrow> start_music ok (PlayFile fileformat name) s))"

definition platform_audio_stop :: "'a audio_scheme \<Rightarrow> 'a audio_scheme \<times> int" where
  "platform_audio_stop s =
     (if \<not> isPlaying s then (s, PLATFORM_OK)
      else (let s = free_buffer (a_emit StopMusic s) in (s\<lparr>isPlaying := False\<rparr>, PLATFORM_OK)))"

definition platform_audio_set_channel :: "u32 \<Rightarrow> 'a audio_scheme \<Rightarrow> 'a audio_scheme \<times> int" where
  "platform_audio_set_channel channel s = (if channel \<ge> 14 then (s, PLATFORM_ERR) else (a_emit (SetChannel channel) s, PLATFORM_OK))"

definition platform_audio_set_vol :: "u32 \<Rightarrow> 'a audio_scheme \<Rightarrow> 'a audio_scheme \<times> int" where
  "platform_audio_set_vol vol s = (if vol \<ge> 8 then (s, PLATFORM_ERR) else (a_emit (SetSpeakerGain vol) s, PLATFORM_OK))"

definition platform_audio_set_mic_vol :: "u32 \<Rightarrow> 'a audio_scheme \<Rightarrow> 'a audio_scheme \<times> int" where
  "platform_audio_set_mic_vol vol s = (if vol > 15 then (s, PLATFORM_ERR) else (a_emit (SetMicGain vol) s, PLATFORM_OK))"

definition platform_audio_set_loopback :: "bool \<Rightarrow> u32 \<Rightarrow> bool \<Rightarrow> u32 \<Rightarrow> 'a audio_scheme \<Rightarrow> 'a audio_scheme \<times> int" where
  "platform_audio_set_loopback flag typ setvol vol s =
     (if typ \<ge> 5 then (s, PLATFORM_ERR) else (a_emit (AudioLoopback flag typ setvol vol) s, PLATFORM_OK))"

section \<open>The Lua module\<close>

text \<open>
  \<open>l_audio_play_file\<close>, as compiled without \<open>DSS_AMR_MP3_STORE_ON_FS\<close>. \<open>contents\<close>: the file, if \<open>fopen\<close> opens
  it; \<open>mem\<close>: whether the Lua heap has the block; \<open>rd\<close>: whether \<open>fread\<close> reads all of it. The result is what Lua
  gets (nothing when the C function returns 0), and whether the file has been closed. \<open>None\<close> is the \<open>platform_free\<close> of a
  block of the other heap.
\<close>

datatype lua_answer = No_result | Bool_result bool

definition l_audio_play_file ::
  "nat \<Rightarrow> bool \<Rightarrow> bool \<Rightarrow> bool \<Rightarrow> byte list \<Rightarrow> byte list option \<Rightarrow> 'a audio_scheme \<Rightarrow> ('a audio_scheme \<times> lua_answer \<times> bool) option"
where
  "l_audio_play_file m ok mem rd name contents s =
     (case contents of
        None \<Rightarrow> Some (s, No_result, True)
      | Some c \<Rightarrow>
        (let amr = strstr name [0x2E, 0x61, 0x6D, 0x72] \<or> strstr name [0x2E, 0x41, 0x4D, 0x52];
             mp3 = strstr name [0x2E, 0x6D, 0x70, 0x33] \<or> strstr name [0x2E, 0x4D, 0x50, 0x33];
             data = (if amr then drop 6 c else c); fmt = (if amr then 0 else 1) in
         if amr \<or> mp3 then
           (if \<not> mem \<or> (amr \<and> length c < 6) then Some (s, No_result, True)
            else if \<not> rd then None
            else (case platform_audio_play m ok (ArgBuffer data fmt) s of
                (s, r) \<Rightarrow> Some (s, Bool_result (r = PLATFORM_OK), True)))
         else (case platform_audio_play m ok (ArgFile name) s of
             (s, r) \<Rightarrow> Some (s, Bool_result (r = PLATFORM_OK), False))))"

definition l_audio_play_data :: "nat \<Rightarrow> bool \<Rightarrow> byte list \<Rightarrow> u32 \<Rightarrow> 'a audio_scheme \<Rightarrow> 'a audio_scheme \<times> bool" where
  "l_audio_play_data m ok data fmt s = (case platform_audio_play m ok (ArgBuffer data fmt) s of (s, r) \<Rightarrow> (s, r = PLATFORM_OK))"

definition l_audio_stop :: "'a audio_scheme \<Rightarrow> 'a audio_scheme" where
  "l_audio_stop s = fst (platform_audio_stop s)"

end
