(* ===== verification/AudioProps.thy ===== *)
theory AudioProps
  imports Audio
begin

text \<open>
  What the player promises when the callback of the kernel does not interrupt a call of Lua: every block is
  given back exactly once and the flag tells whether the kernel is playing. When it does interrupt one, neither
  holds: a second relation interleaves the accesses, and two of its runs free a block twice and leave the player
  refusing every later piece.
\<close>

section \<open>Sessions\<close>

text \<open>The live blocks after a log; \<open>None\<close> after freeing a block that is not live.\<close>

fun heap_run :: "audio_event list \<Rightarrow> nat set option" where
  "heap_run [] = Some {}"
| "heap_run (e # es) =
     (case heap_run es of None \<Rightarrow> None
      | Some L \<Rightarrow>
        (case e of
           AllocBuf m _ \<Rightarrow> if m \<in> L then None else Some (insert m L)
         | FreeBuf m \<Rightarrow> if m \<in> L then Some (L - {m}) else None
         | _ \<Rightarrow> Some L))"

text \<open>Whether the kernel is playing: from a successful \<open>play_music\<close> until it calls back or is stopped.\<close>

fun k_playing :: "audio_event list \<Rightarrow> bool" where
  "k_playing [] = False"
| "k_playing (PlayMusic p ok # es) = (ok \<or> k_playing es)"
| "k_playing (StopMusic # es) = False"
| "k_playing (CallbackRuns # es) = False"
| "k_playing (_ # es) = k_playing es"

inductive audio_step :: "audio \<Rightarrow> audio \<Rightarrow> bool" where
  play: "heap_run (a_log s) = Some L \<Longrightarrow> m \<notin> L \<Longrightarrow> audio_step s (fst (platform_audio_play m ok p s))"
| stop: "audio_step s (fst (platform_audio_stop s))"
| callback: "k_playing (a_log s) \<Longrightarrow> audio_step s (audio_play_callback r (a_emit CallbackRuns s))"
| channel: "audio_step s (fst (platform_audio_set_channel c s))"
| volume: "audio_step s (fst (platform_audio_set_vol v s))"
| mic: "audio_step s (fst (platform_audio_set_mic_vol v s))"
| loopback: "audio_step s (fst (platform_audio_set_loopback f t sv v s))"

definition boot_audio :: audio where
  "boot_audio = \<lparr>isPlaying = False, audplaybuffer = 0, a_log = []\<rparr>"

definition audio_inv :: "audio \<Rightarrow> bool" where
  "audio_inv s \<longleftrightarrow> heap_run (a_log s) = Some (if audplaybuffer s = 0 then {} else {audplaybuffer s})
     \<and> (isPlaying s \<longleftrightarrow> k_playing (a_log s)) \<and> (audplaybuffer s \<noteq> 0 \<longrightarrow> isPlaying s)"

lemma a_emit_sel [simp]:
  "a_log (a_emit e s) = e # a_log s" "isPlaying (a_emit e s) = isPlaying s" "audplaybuffer (a_emit e s) = audplaybuffer s"
  by (simp_all add: a_emit_def)

lemma free_buffer_sel [simp]:
  "audplaybuffer (free_buffer s) = 0" "isPlaying (free_buffer s) = isPlaying s"
  "a_log (free_buffer s) = (if audplaybuffer s \<noteq> 0 then FreeBuf (audplaybuffer s) # a_log s else a_log s)"
  by (simp_all add: free_buffer_def)

lemma step_audio_inv:
  assumes "audio_step s s'" and "audio_inv s"
  shows "audio_inv s'"
  using assms(1)
proof cases
  case (play L m ok p)
  then show ?thesis using assms(2)
    by (cases p) (auto simp: audio_inv_def platform_audio_play_def start_music_def Let_def split: option.splits if_splits)
next
  case stop
  then show ?thesis using assms(2) by (auto simp: audio_inv_def platform_audio_stop_def Let_def)
next
  case (callback r)
  then show ?thesis using assms(2) by (auto simp: audio_inv_def audio_play_callback_def Let_def)
qed (use assms(2) in \<open>auto simp: audio_inv_def platform_audio_set_channel_def platform_audio_set_vol_def
      platform_audio_set_mic_vol_def platform_audio_set_loopback_def\<close>)



section \<open>Interleavings\<close>

text \<open>One access at a time of a \<open>platform_audio_play\<close> or \<open>platform_audio_stop\<close> in the Lua task, and of the callback.\<close>

datatype lua_apc = A_Idle | A_Music play_param | A_Flag | A_Test | A_Free | A_Null | A_Clear
datatype call_pc = C_Idle | C_Test | C_Free | C_Null | C_Clear | C_Send

record audio2 = audio +
  lua_apc :: lua_apc
  call_pc :: call_pc

inductive audio2_step :: "audio2 \<Rightarrow> audio2 \<Rightarrow> bool" where
  lua_alloc: "lua_apc s = A_Idle \<Longrightarrow> \<not> isPlaying s \<Longrightarrow> audplaybuffer s = 0 \<Longrightarrow> heap_run (a_log s) = Some L \<Longrightarrow> m \<notin> L \<Longrightarrow> m \<noteq> 0 \<Longrightarrow>
    audio2_step s ((a_emit (AllocBuf m data) (s\<lparr>audplaybuffer := m\<rparr>))\<lparr>lua_apc := A_Music (PlayBuffer m (length data) mode)\<rparr>)"
| lua_music: "lua_apc s = A_Music p \<Longrightarrow> audio2_step s ((a_emit (PlayMusic p True) s)\<lparr>lua_apc := A_Flag\<rparr>)"
| lua_flag: "lua_apc s = A_Flag \<Longrightarrow> audio2_step s (s\<lparr>isPlaying := True, lua_apc := A_Idle\<rparr>)"
| lua_stop: "lua_apc s = A_Idle \<Longrightarrow> isPlaying s \<Longrightarrow> audio2_step s ((a_emit StopMusic s)\<lparr>lua_apc := A_Test\<rparr>)"
| lua_test: "lua_apc s = A_Test \<Longrightarrow> audio2_step s (s\<lparr>lua_apc := (if audplaybuffer s \<noteq> 0 then A_Free else A_Clear)\<rparr>)"
| lua_free: "lua_apc s = A_Free \<Longrightarrow> audio2_step s ((a_emit (FreeBuf (audplaybuffer s)) s)\<lparr>lua_apc := A_Null\<rparr>)"
| lua_null: "lua_apc s = A_Null \<Longrightarrow> audio2_step s (s\<lparr>audplaybuffer := 0, lua_apc := A_Clear\<rparr>)"
| lua_clear: "lua_apc s = A_Clear \<Longrightarrow> audio2_step s (s\<lparr>isPlaying := False, lua_apc := A_Idle\<rparr>)"
| call_start: "call_pc s = C_Idle \<Longrightarrow> k_playing (a_log s) \<Longrightarrow> audio2_step s ((a_emit CallbackRuns s)\<lparr>call_pc := C_Test\<rparr>)"
| call_test: "call_pc s = C_Test \<Longrightarrow> audio2_step s (s\<lparr>call_pc := (if audplaybuffer s \<noteq> 0 then C_Free else C_Clear)\<rparr>)"
| call_free: "call_pc s = C_Free \<Longrightarrow> audio2_step s ((a_emit (FreeBuf (audplaybuffer s)) s)\<lparr>call_pc := C_Null\<rparr>)"
| call_null: "call_pc s = C_Null \<Longrightarrow> audio2_step s (s\<lparr>audplaybuffer := 0, call_pc := C_Clear\<rparr>)"
| call_clear: "call_pc s = C_Clear \<Longrightarrow> audio2_step s (s\<lparr>isPlaying := False, call_pc := C_Send\<rparr>)"
| call_send: "call_pc s = C_Send \<Longrightarrow> audio2_step s ((a_emit (SendAudio True) s)\<lparr>call_pc := C_Idle\<rparr>)"

text \<open>The steps of a stop in a row are the function.\<close>

lemma stop_steps_function:
  assumes "isPlaying s" and "audplaybuffer s \<noteq> 0" and "lua_apc s = A_Idle"
  shows "(a_emit (FreeBuf (audplaybuffer s)) (a_emit StopMusic s))\<lparr>audplaybuffer := 0, isPlaying := False\<rparr> = fst (platform_audio_stop s)"
  using assms by (simp add: platform_audio_stop_def free_buffer_def a_emit_def Let_def)

definition au :: "bool \<Rightarrow> nat \<Rightarrow> audio_event list \<Rightarrow> lua_apc \<Rightarrow> call_pc \<Rightarrow> audio2" where
  "au p m es l c = \<lparr>isPlaying = p, audplaybuffer = m, a_log = es, lua_apc = l, call_pc = c\<rparr>"

lemmas au_simps = au_def a_emit_def

lemma piece_starts:
  "audio2_step\<^sup>*\<^sup>* (au False 0 [] A_Idle C_Idle)
     (au False 5 [PlayMusic (PlayBuffer 5 1 MODE_MP3) True, AllocBuf 5 [7]] A_Flag C_Idle)"
proof -
  have "audio2_step (au False 0 [] A_Idle C_Idle) (au False 5 [AllocBuf 5 [7]] (A_Music (PlayBuffer 5 1 MODE_MP3)) C_Idle)"
    using lua_alloc [of "au False 0 [] A_Idle C_Idle" "{}" 5 "[7]" MODE_MP3] by (simp add: au_simps)
  moreover have "audio2_step (au False 5 [AllocBuf 5 [7]] (A_Music (PlayBuffer 5 1 MODE_MP3)) C_Idle)
      (au False 5 [PlayMusic (PlayBuffer 5 1 MODE_MP3) True, AllocBuf 5 [7]] A_Flag C_Idle)"
    using lua_music [of "au False 5 [AllocBuf 5 [7]] (A_Music (PlayBuffer 5 1 MODE_MP3)) C_Idle"] by (simp add: au_simps)
  ultimately show ?thesis by (meson rtranclp.rtrancl_into_rtrancl rtranclp.rtrancl_refl)
qed

text \<open>Stopping while the callback runs frees the block twice.\<close>

lemma audio_double_free:
  "\<exists>s. audio2_step\<^sup>*\<^sup>* (au False 0 [] A_Idle C_Idle) s \<and> heap_run (a_log s) = None"
proof -
  let ?es = "[CallbackRuns, PlayMusic (PlayBuffer 5 1 MODE_MP3) True, AllocBuf 5 [7]]"
  have "audio2_step\<^sup>*\<^sup>* (au False 0 [] A_Idle C_Idle)
     (au False 5 [PlayMusic (PlayBuffer 5 1 MODE_MP3) True, AllocBuf 5 [7]] A_Flag C_Idle)"
    by (rule piece_starts)
  also have "audio2_step \<dots> (au True 5 [PlayMusic (PlayBuffer 5 1 MODE_MP3) True, AllocBuf 5 [7]] A_Idle C_Idle)"
    using lua_flag [of "au False 5 [PlayMusic (PlayBuffer 5 1 MODE_MP3) True, AllocBuf 5 [7]] A_Flag C_Idle"] by (simp add: au_simps)
  also have "audio2_step \<dots> (au True 5 ?es A_Idle C_Test)"
    using call_start [of "au True 5 [PlayMusic (PlayBuffer 5 1 MODE_MP3) True, AllocBuf 5 [7]] A_Idle C_Idle"] by (simp add: au_simps)
  also have "audio2_step \<dots> (au True 5 ?es A_Idle C_Free)"
    using call_test [of "au True 5 ?es A_Idle C_Test"] by (simp add: au_simps)
  also have "audio2_step \<dots> (au True 5 (StopMusic # ?es) A_Test C_Free)"
    using lua_stop [of "au True 5 ?es A_Idle C_Free"] by (simp add: au_simps)
  also have "audio2_step \<dots> (au True 5 (StopMusic # ?es) A_Free C_Free)"
    using lua_test [of "au True 5 (StopMusic # ?es) A_Test C_Free"] by (simp add: au_simps)
  also have "audio2_step \<dots> (au True 5 (FreeBuf 5 # StopMusic # ?es) A_Null C_Free)"
    using lua_free [of "au True 5 (StopMusic # ?es) A_Free C_Free"] by (simp add: au_simps)
  also have "audio2_step \<dots> (au True 5 (FreeBuf 5 # FreeBuf 5 # StopMusic # ?es) A_Null C_Null)"
    using call_free [of "au True 5 (FreeBuf 5 # StopMusic # ?es) A_Null C_Free"] by (simp add: au_simps)
  finally show ?thesis by (intro exI conjI) (auto simp: au_def)
qed

text \<open>A piece that ends before \<open>platform_audio_play\<close> has set the flag leaves it set: nothing plays, and
  every later piece is refused.\<close>

lemma audio_stuck:
  "\<exists>s. audio2_step\<^sup>*\<^sup>* (au False 0 [] A_Idle C_Idle) s \<and> lua_apc s = A_Idle \<and> call_pc s = C_Idle
     \<and> \<not> k_playing (a_log s) \<and> (\<forall>m ok p. platform_audio_play m ok p s = (s, PLATFORM_ERR))"
proof -
  let ?es = "[CallbackRuns, PlayMusic (PlayBuffer 5 1 MODE_MP3) True, AllocBuf 5 [7]]"
  have "audio2_step\<^sup>*\<^sup>* (au False 0 [] A_Idle C_Idle)
     (au False 5 [PlayMusic (PlayBuffer 5 1 MODE_MP3) True, AllocBuf 5 [7]] A_Flag C_Idle)"
    by (rule piece_starts)
  also have "audio2_step \<dots> (au False 5 ?es A_Flag C_Test)"
    using call_start [of "au False 5 [PlayMusic (PlayBuffer 5 1 MODE_MP3) True, AllocBuf 5 [7]] A_Flag C_Idle"] by (simp add: au_simps)
  also have "audio2_step \<dots> (au False 5 ?es A_Flag C_Free)"
    using call_test [of "au False 5 ?es A_Flag C_Test"] by (simp add: au_simps)
  also have "audio2_step \<dots> (au False 5 (FreeBuf 5 # ?es) A_Flag C_Null)"
    using call_free [of "au False 5 ?es A_Flag C_Free"] by (simp add: au_simps)
  also have "audio2_step \<dots> (au False 0 (FreeBuf 5 # ?es) A_Flag C_Clear)"
    using call_null [of "au False 5 (FreeBuf 5 # ?es) A_Flag C_Null"] by (simp add: au_simps)
  also have "audio2_step \<dots> (au False 0 (FreeBuf 5 # ?es) A_Flag C_Send)"
    using call_clear [of "au False 0 (FreeBuf 5 # ?es) A_Flag C_Clear"] by (simp add: au_simps)
  also have "audio2_step \<dots> (au False 0 (SendAudio True # FreeBuf 5 # ?es) A_Flag C_Idle)"
    using call_send [of "au False 0 (FreeBuf 5 # ?es) A_Flag C_Send"] by (simp add: au_simps)
  also have "audio2_step \<dots> (au True 0 (SendAudio True # FreeBuf 5 # ?es) A_Idle C_Idle)"
    using lua_flag [of "au False 0 (SendAudio True # FreeBuf 5 # ?es) A_Flag C_Idle"] by (simp add: au_simps)
  finally show ?thesis by (intro exI conjI) (auto simp: au_def platform_audio_play_def)
qed

text \<open>A file that is neither AMR nor MP3 is left open.\<close>

lemma play_file_left_open:
  assumes "l_audio_play_file m ok mem rd name (Some c) s = Some (s', r, closed)"
    and "\<not> strstr name [0x2E, 0x61, 0x6D, 0x72]" and "\<not> strstr name [0x2E, 0x41, 0x4D, 0x52]"
    and "\<not> strstr name [0x2E, 0x6D, 0x70, 0x33]" and "\<not> strstr name [0x2E, 0x4D, 0x50, 0x33]"
  shows "\<not> closed"
  using assms by (simp add: l_audio_play_file_def split: prod.splits)

end
