(* ===== verification/LuaIconv.thy ===== *)
theory LuaIconv
  imports Iconv
begin

text \<open>
  The Lua module \<open>modules/src/luaiconv.c\<close> over the converters of theories \<open>Utf8\<close> and \<open>Iconv\<close>. A text
  that does not fit the output buffer is converted in pieces: after \<open>E2BIG\<close> the module calls the
  converter again with the pointers and counts the converter left behind. Of the converters only the
  GB2312 decoder advances the input pointer, so only that direction continues where it stopped.
\<close>

section \<open>The module\<close>

definition ERROR_NO_MEMORY :: nat where "ERROR_NO_MEMORY = 1"
definition ERROR_INCOMPLETE :: nat where "ERROR_INCOMPLETE = 3"

lemmas error_codes = ERROR_NO_MEMORY_def ERROR_INCOMPLETE_def

text \<open>What is left of the string behind the input pointer after a call: \<open>gb2312_to_ucs2.c\<close> ends with
  \<open>*_inbuf = gbbuf\<close>, the other two files leave \<open>*_inbuf\<close> alone. \<open>n\<close> is the count before the call.\<close>

definition inbuf_after :: "nat \<Rightarrow> byte list \<Rightarrow> nat \<Rightarrow> iconv_result \<Rightarrow> byte list" where
  "inbuf_after cd inbuf n r =
     (if snd (snd (iconv_map ! cd)) \<in> {Gb_Ucs2, Gb_Ucs2be} then drop (n - unat (ir_inleft r)) inbuf else inbuf)"

text \<open>The loop of \<open>Liconv\<close>. \<open>acc\<close> is the string on the Lua stack, the concatenation of the pieces pushed
  so far. The result is the string with an error code, if any; the inner \<open>None\<close> is a fault of the
  converter, the outer one a loop that does not end. The converters set no other error than the
  two of \<open>iconv_status\<close>; the string from Lua is never a null pointer.\<close>

type_synonym liconv_result = "(byte list \<times> nat option) option"

partial_function (option) liconv_loop :: "nat \<Rightarrow> nat \<Rightarrow> byte list \<Rightarrow> u32 \<Rightarrow> byte list \<Rightarrow> liconv_result option" where
  "liconv_loop cd obsize inbuf ibleft acc =
     (case iconv cd (Some (take (unat ibleft) inbuf)) obsize of
        None \<Rightarrow> Some None
      | Some None \<Rightarrow> Some None
      | Some (Some r) \<Rightarrow>
          (case ir_status r of
             IcOk \<Rightarrow> Some (Some (acc @ ir_written r, None))
           | IcEinval \<Rightarrow> Some (Some (acc @ ir_written r, Some ERROR_INCOMPLETE))
           | IcE2big \<Rightarrow>
               liconv_loop cd obsize (inbuf_after cd inbuf (unat ibleft) r) (ir_inleft r) (acc @ ir_written r)))"

text \<open>\<open>mem\<close>: whether the buffer can be allocated.\<close>

definition Liconv :: "bool \<Rightarrow> nat \<Rightarrow> byte list \<Rightarrow> liconv_result option" where
  "Liconv mem cd inbuf =
     (let ibleft = of_nat (length inbuf) :: u32;
          obsize = (if ibleft > 256 then unat ibleft else 256) in
      if \<not> mem then Some (Some ([], Some ERROR_NO_MEMORY))
      else liconv_loop cd obsize inbuf ibleft [])"

text \<open>\<open>iconv.open\<close> yields a descriptor or \<open>nil\<close>.\<close>

definition Liconv_open :: "string \<Rightarrow> string \<Rightarrow> nat option" where
  "Liconv_open tocode fromcode = iconv_open tocode fromcode"

lemma unat_of_nat_small: "k < 2 ^ 32 \<Longrightarrow> unat (of_nat k :: u32) = k"
  by (simp add: unsigned_of_nat take_bit_nat_eq_self)

lemma Liconv_size:
  assumes "length inbuf < 2 ^ 32"
  shows "Liconv True cd inbuf = liconv_loop cd (max 256 (length inbuf)) inbuf (of_nat (length inbuf)) []"
proof -
  have u: "unat (of_nat (length inbuf) :: u32) = length inbuf"
    using assms by (rule unat_of_nat_small)
  then have "(of_nat (length inbuf) > (256 :: u32)) = (length inbuf > 256)" by (simp add: word_less_nat_alt)
  then show ?thesis using u by (cases "256 < length inbuf") (simp_all add: Liconv_def max_def)
qed

section \<open>Every call makes progress\<close>

lemma utf8_loop_stop:
  "utf8_loop src e i room = Some (IcE2big, j, out) \<Longrightarrow> i \<le> j \<and> j < length src \<and> (2 \<le> room \<longrightarrow> i < j)"
proof (induction "length src - i" arbitrary: i room j out rule: less_induct)
  case less
  show ?case
  proof (cases "i < length src \<and> 2 \<le> room")
    case False
    then show ?thesis using less.prems by (subst (asm) utf8_loop.simps) (auto split: if_splits)
  next
    case True
    then obtain i' out' where "utf8_loop src e i' (room - 2) = Some (IcE2big, j, out')" "i < i'"
      using less.prems [unfolded utf8_loop.simps [of src e i room]]
      by (auto simp: Let_def split: option.splits if_splits)
    then show ?thesis using less.hyps [of i'] True by fastforce
  qed
qed

lemma length_utf8_put: "length (utf8_put v) \<le> 3"
  by (simp add: utf8_put_def)

lemma unicode_loop_stop:
  "unicode_loop e src room = (IcE2big, n, out) \<Longrightarrow> n + 2 \<le> length src \<and> (3 \<le> room \<longrightarrow> 0 < n)"
proof (induction "length src" arbitrary: src room n out rule: less_induct)
  case less
  show ?case
  proof (cases src rule: list.exhaust)
    case (Cons a t)
    then obtain b ws where src: "src = a # b # ws" using less.prems by (cases t) auto
    define v :: u32 where "v = (if e then ucast a * 256 + ucast b else ucast b * 256 + ucast a)"
    show ?thesis
    proof (cases "room < length (utf8_put v)")
      case True
      then have "n = 0" using less.prems by (simp add: src Let_def flip: v_def)
      then show ?thesis using True length_utf8_put [of v] src by simp
    next
      case False
      then obtain m out' where "unicode_loop e ws (room - length (utf8_put v)) = (IcE2big, m, out')" "n = m + 2"
        using less.prems by (auto simp: src Let_def simp flip: v_def split: prod.splits)
      then show ?thesis using less.hyps [of ws] src by fastforce
    qed
  qed (use less.prems in simp)
qed

lemma ucs2_gb_loop_stop:
  "ucs2_gb_loop e ws room = Some (IcE2big, n, out) \<Longrightarrow> n \<le> length ws \<and> (2 \<le> room \<longrightarrow> n < length ws)"
proof (induction ws arbitrary: room n out)
  case (Cons w ws)
  show ?case
  proof (cases "room < 2")
    case False
    then obtain k out' where "ucs2_gb_loop e ws (room - k) = Some (IcE2big, n, out')"
      using Cons.prems by (auto simp: Let_def split: if_splits option.splits)
    then show ?thesis using Cons.IH by fastforce
  qed (use Cons.prems in simp)
qed simp

lemma gb_ucs2_loop_stop:
  "gb_ucs2_loop e bs room = Some (IcE2big, n, out) \<Longrightarrow> n \<le> length bs \<and> (2 \<le> room \<longrightarrow> n < length bs)"
proof (induction "length bs" arbitrary: bs room n out rule: less_induct)
  case less
  show ?case
  proof (cases "bs = [] \<or> room < 2")
    case True
    then show ?thesis using less.prems by (cases bs) simp_all
  next
    case False
    then obtain cs out' where "gb_ucs2_loop e cs (room - 2) = Some (IcE2big, n, out')" "length cs < length bs"
      using less.prems by (cases bs) (auto simp: Let_def split: if_splits list.splits)
    then show ?thesis using less.hyps by fastforce
  qed
qed

lemma length_units: "length (units bs) = length bs div 2"
  by (induction bs rule: units.induct) auto

lemma iconv_progress:
  assumes "iconv cd (Some src) room = Some (Some r)" and "ir_status r = IcE2big" and "3 \<le> room"
    and "length src < 2 ^ 32"
  shows "unat (ir_inleft r) < length src"
proof -
  have small: "k < length src \<Longrightarrow> unat (of_nat k :: u32) < length src" for k
    using assms(4) by (simp add: unsigned_of_nat take_bit_nat_eq_self)
  have left: "i \<le> length src \<Longrightarrow> of_nat (length src) - of_nat i = (of_nat (length src - i) :: u32)" for i
    by (simp add: of_nat_diff)
  consider (gb) e where "iconv_ucs2_to_gb2312_endian src room e = Some r"
    | (ucs) e where "iconv_gb2312_to_ucs2_endian src room e = Some r"
    | (utf) e where "enc_utf8_to_unicode src room e = Some r"
    | (enc) e where "enc_unicode_to_utf8 src room e = r"
    using assms(1)
    by (auto simp: iconv_def iconv_utf8_to_ucs2_def iconv_utf8_to_ucs2be_def iconv_ucs2_to_utf8_def
        iconv_ucs2be_to_utf8_def split: if_splits iconv_fct.splits)
  then show ?thesis
  proof cases
    case gb
    then obtain n out where n: "ucs2_gb_loop e (units src) room = Some (IcE2big, n, out)" "ir_inleft r = of_nat n"
      using assms(2) by (auto simp: iconv_ucs2_to_gb2312_endian_def split: option.splits if_splits)
    from ucs2_gb_loop_stop [OF n(1)] have "n < length src div 2" using assms(3) length_units [of src] by simp
    then have "n < length src" by linarith
    then show ?thesis using n(2) small [of n] by simp
  next
    case ucs
    then obtain n out where n: "gb_ucs2_loop e src room = Some (IcE2big, n, out)" "ir_inleft r = of_nat n"
      using assms(2) by (auto simp: iconv_gb2312_to_ucs2_endian_def split: option.splits if_splits)
    from gb_ucs2_loop_stop [OF n(1)] show ?thesis using assms(3) n(2) small [of n] by simp
  next
    case utf
    then obtain j out where j: "utf8_loop src e 0 room = Some (IcE2big, j, out)"
      "ir_inleft r = of_nat (length src) - of_nat j"
      using assms(2) by (auto simp: enc_utf8_to_unicode_def split: option.splits)
    from utf8_loop_stop [OF j(1)] have "0 < j" "j < length src" using assms(3) by simp_all
    then show ?thesis using small [of "length src - j"] left [of j] j(2) by (simp only:)
  next
    case enc
    then obtain j out where j: "unicode_loop e src room = (IcE2big, j, out)"
      "ir_inleft r = of_nat (length src) - of_nat j"
      using assms(2) by (auto simp: enc_unicode_to_utf8_def split: prod.splits)
    from unicode_loop_stop [OF j(1)] have "0 < j" "j < length src" using assms(3) by simp_all
    then show ?thesis using small [of "length src - j"] left [of j] j(2) by (simp only:)
  qed
qed

lemma length_inbuf_after: "unat (ir_inleft r) \<le> n \<Longrightarrow> n \<le> length inbuf \<Longrightarrow> unat (ir_inleft r) \<le> length (inbuf_after cd inbuf n r)"
  by (auto simp: inbuf_after_def)

lemma liconv_loop_returns:
  assumes "3 \<le> obsize" and "unat ibleft \<le> length inbuf" and "length inbuf < 2 ^ 32"
  shows "\<exists>x. liconv_loop cd obsize inbuf ibleft acc = Some x"
  using assms(2,3)
proof (induction "unat ibleft" arbitrary: ibleft inbuf acc rule: less_induct)
  case less
  let ?src = "take (unat ibleft) inbuf"
  show ?case
  proof (cases "\<exists>r. iconv cd (Some ?src) obsize = Some (Some r) \<and> ir_status r = IcE2big")
    case True
    then obtain r where r: "iconv cd (Some ?src) obsize = Some (Some r)" "ir_status r = IcE2big" by blast
    from iconv_progress [OF r assms(1)] less.prems have lt: "unat (ir_inleft r) < unat ibleft" by simp
    let ?in = "inbuf_after cd inbuf (unat ibleft) r"
    have "length ?in \<le> length inbuf" by (simp add: inbuf_after_def)
    then have "\<exists>x. liconv_loop cd obsize ?in (ir_inleft r) (acc @ ir_written r) = Some x"
      using less.hyps [OF lt] length_inbuf_after [of r "unat ibleft" inbuf cd] lt less.prems by simp
    then show ?thesis by (subst liconv_loop.simps) (simp add: r)
  next
    case False
    then show ?thesis
      by (subst liconv_loop.simps) (auto split: option.splits iconv_status.splits)
  qed
qed


section \<open>GB2312 text of any length\<close>

abbreviation gb_bytes_of :: "u16 list \<Rightarrow> byte list" where "gb_bytes_of us \<equiv> concat (map gb_of us)"
abbreviation ucs2_bytes_of :: "bool \<Rightarrow> u16 list \<Rightarrow> byte list" where "ucs2_bytes_of e us \<equiv> concat (map (ucs2_of e) us)"

lemma length_ucs2_bytes: "length (ucs2_bytes_of e us) = 2 * length us"
  by (induction us) (simp_all add: ucs2_of_def)

lemma length_gb_bytes: "length (gb_bytes_of us) \<le> 2 * length us"
proof (induction us)
  case (Cons u us)
  then show ?case using length_gb_of(2) [of u] by simp
qed simp

lemma iconv_by_cd:
  "iconv (if e then 1 else 0) (Some src) room = map_option Some (iconv_ucs2_to_gb2312_endian src room e)"
  "iconv (if e then 3 else 2) (Some src) room = map_option Some (iconv_gb2312_to_ucs2_endian src room e)"
  "iconv (if e then 5 else 4) (Some src) room = map_option Some (enc_utf8_to_unicode src room e)"
  by (simp_all add: iconv_def iconv_map_def iconv_utf8_to_ucs2_def iconv_utf8_to_ucs2be_def)

lemma inbuf_after_cd:
  "inbuf_after (if e then 3 else 2) inbuf n r = drop (n - unat (ir_inleft r)) inbuf"
  "inbuf_after (if e then 5 else 4) inbuf n r = inbuf"
  by (simp_all add: inbuf_after_def iconv_map_def)

text \<open>A piece is as many characters as fit; the count left behind is the length of the others.\<close>

lemma gb_ucs2_chunk:
  "\<forall>u \<in> set us. gb_char u \<Longrightarrow> room < 2 * length us \<Longrightarrow>
    gb_ucs2_loop e (gb_bytes_of us) room =
      Some (IcE2big, length (gb_bytes_of (drop (room div 2) us)), ucs2_bytes_of e (take (room div 2) us))"
proof (induction us arbitrary: room)
  case (Cons u us)
  show ?case
  proof (cases "room < 2")
    case True
    then have "gb_ucs2_loop e (b # bs) room = Some (IcE2big, Suc (length bs), [])" for b bs by simp
    then show ?thesis using True length_gb_of(1) [of u] by (cases "gb_of u") auto
  next
    case False
    then obtain m where m: "room = m + 2" using le_Suc_ex by (metis add.commute not_less)
    then have "gb_ucs2_loop e (gb_bytes_of us) m =
        Some (IcE2big, length (gb_bytes_of (drop (m div 2) us)), ucs2_bytes_of e (take (m div 2) us))"
      using Cons by simp
    then show ?thesis using gb_ucs2_step [of u room e "gb_bytes_of us"] Cons.prems m by simp
  qed
qed simp

lemma liconv_loop_gb:
  assumes "3 \<le> obsize" and "\<forall>u \<in> set us. gb_char u" and "length (gb_bytes_of us) < 2 ^ 32"
  shows "liconv_loop (if e then 3 else 2) obsize (gb_bytes_of us) (of_nat (length (gb_bytes_of us))) acc
    = Some (Some (acc @ ucs2_bytes_of e us, None))"
  using assms(2,3)
proof (induction "length us" arbitrary: us acc rule: less_induct)
  case less
  let ?in = "gb_bytes_of us"
  have n: "unat (of_nat (length ?in) :: u32) = length ?in"
    using less.prems(2) by (simp add: unsigned_of_nat take_bit_nat_eq_self)
  show ?case
  proof (cases "2 * length us \<le> obsize")
    case True
    from gb_ucs2_loop_ok [OF less.prems(1) True, of e] show ?thesis
      by (subst liconv_loop.simps) (simp add: iconv_by_cd n iconv_gb2312_to_ucs2_endian_def)
  next
    case False
    define k where "k = obsize div 2"
    let ?rest = "gb_bytes_of (drop k us)"
    have k: "0 < k" "k < length us" using assms(1) False by (auto simp: k_def)
    have split: "?in = gb_bytes_of (take k us) @ ?rest"
      by (simp flip: concat_append map_append)
    have m: "length ?rest \<le> length ?in" "unat (of_nat (length ?rest) :: u32) = length ?rest"
      using less.prems(2) by (simp_all add: split unsigned_of_nat take_bit_nat_eq_self)
    have next_in: "drop (length ?in - length ?rest) ?in = ?rest" by (simp add: split)
    define r where "r = \<lparr>ir_status = IcE2big, ir_inleft = of_nat (length ?rest),
      ir_outleft = of_nat obsize - of_nat (length (ucs2_bytes_of e (take k us))), ir_written = ucs2_bytes_of e (take k us)\<rparr>"
    have "iconv (if e then 3 else 2) (Some ?in) obsize = Some (Some r)"
      using gb_ucs2_chunk [OF less.prems(1), of obsize e] False
      by (simp add: iconv_by_cd iconv_gb2312_to_ucs2_endian_def r_def flip: k_def)
    then have "liconv_loop (if e then 3 else 2) obsize ?in (of_nat (length ?in)) acc
      = liconv_loop (if e then 3 else 2) obsize ?rest (of_nat (length ?rest)) (acc @ ucs2_bytes_of e (take k us))"
      by (subst liconv_loop.simps) (simp add: n inbuf_after_cd r_def m(2) next_in split del: if_split)
    also have "\<dots> = Some (Some ((acc @ ucs2_bytes_of e (take k us)) @ ucs2_bytes_of e (drop k us), None))"
    proof (rule less.hyps)
      show "length (drop k us) < length us" using k by simp
      show "\<forall>u \<in> set (drop k us). gb_char u" using less.prems(1) by (auto dest: in_set_dropD)
      show "length ?rest < 2 ^ 32" using m(1) less.prems(2) by linarith
    qed
    also have "(acc @ ucs2_bytes_of e (take k us)) @ ucs2_bytes_of e (drop k us) = acc @ ucs2_bytes_of e us"
      by (simp flip: concat_append map_append)
    finally show ?thesis .
  qed
qed

definition ucs2_name :: "bool \<Rightarrow> string" where
  "ucs2_name e = (if e then ''ucs2be'' else ''ucs2'')"

lemma open_cd:
  "Liconv_open ''gb2312'' (ucs2_name e) = Some (if e then 1 else 0)"
  "Liconv_open (ucs2_name e) ''gb2312'' = Some (if e then 3 else 2)"
  "Liconv_open (ucs2_name e) ''utf8'' = Some (if e then 5 else 4)"
  by (simp_all add: Liconv_open_def iconv_open_def iconv_map_def ucs2_name_def)

text \<open>C10. From Lua: text of ASCII and the 6763 characters of GB2312, of whatever length, converted to
  GB2312 and back comes back unchanged and without an error, although the way back is done in
  pieces when the text is long.\<close>

theorem liconv_gb2312_roundtrip:
  assumes "\<forall>u \<in> set us. gb_char u" and "2 * length us < 2 ^ 32"
  shows "\<exists>cd cd' gb. Liconv_open ''gb2312'' (ucs2_name e) = Some cd \<and> Liconv_open (ucs2_name e') ''gb2312'' = Some cd'
    \<and> Liconv True cd (concat (map (ucs2_of e) us)) = Some (Some (gb, None))
    \<and> Liconv True cd' gb = Some (Some (concat (map (ucs2_of e') us), None))"
proof -
  let ?n = "2 * length us"
  have n: "unat (of_nat ?n :: u32) = ?n" using assms(2) by (rule unat_of_nat_small)
  have "iconv_ucs2_to_gb2312_endian (ucs2_bytes_of e us) (max 256 ?n) e
    = Some \<lparr>ir_status = IcOk, ir_inleft = 0, ir_outleft = of_nat (max 256 ?n) - of_nat (length (gb_bytes_of us)),
        ir_written = gb_bytes_of us\<rparr>"
    using ucs2_gb_loop_ok [of us "max 256 ?n" e] by (simp add: iconv_ucs2_to_gb2312_endian_def units_ucs2)
  then have "Liconv True (if e then 1 else 0) (ucs2_bytes_of e us) = Some (Some (gb_bytes_of us, None))"
    using assms(2) n by (simp only: Liconv_size length_ucs2_bytes) (subst liconv_loop.simps, simp add: iconv_by_cd length_ucs2_bytes)
  moreover have "length (gb_bytes_of us) < 2 ^ 32" using length_gb_bytes [of us] assms(2) by linarith
  then have "Liconv True (if e' then 3 else 2) (gb_bytes_of us) = Some (Some (ucs2_bytes_of e' us, None))"
    using liconv_loop_gb [of "max 256 (length (gb_bytes_of us))" us e' "[]"] assms(1) by (simp add: Liconv_size split del: if_split)
  ultimately show ?thesis using open_cd by blast
qed

lemma liconv_gb2312_roundtrip_witness:
  "\<exists>cd cd' gb. Liconv_open ''gb2312'' (ucs2_name True) = Some cd \<and> Liconv_open (ucs2_name False) ''gb2312'' = Some cd'
    \<and> Liconv True cd (concat (map (ucs2_of True) (replicate 200 0x41))) = Some (Some (gb, None))
    \<and> Liconv True cd' gb = Some (Some (concat (map (ucs2_of False) (replicate 200 0x41)), None))"
  by (rule liconv_gb2312_roundtrip) (simp_all add: gb_char_def)


section \<open>UTF-8 text\<close>

text \<open>Text of at most 128 characters is converted in one call.\<close>

lemma liconv_utf8_short:
  assumes "\<forall>u \<in> set us. \<not> refused u" and "length us \<le> 128"
  shows "Liconv True (if e then 5 else 4) (concat (map utf8_of us)) = Some (Some (concat (map (ucs2_of e) us), None))"
proof -
  let ?in = "concat (map utf8_of us)"
  have "length (utf8_of u) \<le> 3" for u by (simp add: utf8_of_def)
  then have "length ?in \<le> 3 * length us" by (induction us) (auto intro: add_le_mono)
  then have small: "length ?in < 2 ^ 32" using assms(2) by simp
  then have n: "unat (of_nat (length ?in) :: u32) = length ?in" by (rule unat_of_nat_small)
  from utf8_loop_decodes [of ?in "[]" us "[]" "max 256 (length ?in)" e] assms
  have "utf8_loop ?in e 0 (max 256 (length ?in)) = Some (IcOk, length ?in, concat (map (ucs2_of e) us))"
    by (simp add: utf8_loop.simps [of ?in e "length ?in"])
  then show ?thesis
    using n by (simp only: Liconv_size [OF small]) (subst liconv_loop.simps, simp add: iconv_by_cd enc_utf8_to_unicode_def)
qed

text \<open>Longer text is not: the second call starts at the first character again. ASCII text of 129 to
  256 characters loses everything behind the first 128, and their beginning stands there instead.\<close>

lemma liconv_utf8_repeats:
  assumes "\<forall>u \<in> set us. u < 0x80" and "length us \<le> 256"
  shows "Liconv True (if e then 5 else 4) (concat (map utf8_of us))
    = Some (Some (concat (map (ucs2_of e) (take 128 us @ take (length us - 128) us)), None))"
proof (cases "length us \<le> 128")
  case True
  have "\<forall>u \<in> set us. \<not> refused u" using assms(1) by (auto simp: refused_def)
  from liconv_utf8_short [OF this True] show ?thesis using True by simp
next
  case False
  let ?in = "concat (map utf8_of us)"
  have ascii: "\<forall>u \<in> set us. \<not> refused u" using assms(1) by (auto simp: refused_def)
  have bytes: "concat (map utf8_of vs) = map ucast vs" if "set vs \<subseteq> set us" for vs
    using that assms(1) by (induction vs) (auto simp: utf8_of_def)
  have in_eq: "?in = map ucast us" by (rule bytes) simp
  then have len: "length ?in = length us" by simp
  have n: "unat (of_nat (length us) :: u32) = length us" "unat (of_nat (length us - 128) :: u32) = length us - 128"
    using assms(2) by (intro unat_of_nat_small, simp)+
  have split: "?in = [] @ concat (map utf8_of (take 128 us)) @ concat (map utf8_of (drop 128 us))"
    by (simp flip: concat_append map_append)
  have "\<forall>u \<in> set (take 128 us). \<not> refused u" using ascii by (auto dest: in_set_takeD)
  from utf8_loop_decodes [OF split this, of 256 e] bytes [OF set_take_subset] False
  have "utf8_loop ?in e 0 256 = map_option (\<lambda>(st, j, out). (st, j, concat (map (ucs2_of e) (take 128 us)) @ out)) (utf8_loop ?in e 128 0)"
    by simp
  also have "utf8_loop ?in e 128 0 = Some (IcE2big, 128, [])"
    using False len by (subst utf8_loop.simps) simp
  finally have first: "utf8_loop ?in e 0 256 = Some (IcE2big, 128, concat (map (ucs2_of e) (take 128 us)))" by simp
  let ?in2 = "concat (map utf8_of (take (length us - 128) us))"
  have "\<forall>u \<in> set (take (length us - 128) us). \<not> refused u" using ascii by (auto dest: in_set_takeD)
  with utf8_loop_decodes [of ?in2 "[]" "take (length us - 128) us" "[]" 256 e] assms(2)
  have second: "utf8_loop ?in2 e 0 256 = Some (IcOk, length ?in2, concat (map (ucs2_of e) (take (length us - 128) us)))"
    by (simp add: utf8_loop.simps [of ?in2 e "length ?in2"])
  have in2: "take (length us - 128) ?in = ?in2"
    by (simp only: in_eq bytes [OF set_take_subset] take_map)
  have left: "of_nat (length us) - of_nat 128 = (of_nat (length us - 128) :: u32)"
    using False by (simp only: of_nat_diff)
  have call1: "iconv (if e then 5 else 4) (Some ?in) 256 = Some (Some \<lparr>ir_status = IcE2big, ir_inleft = of_nat (length us - 128),
      ir_outleft = of_nat 256 - of_nat (length (concat (map (ucs2_of e) (take 128 us)))),
      ir_written = concat (map (ucs2_of e) (take 128 us))\<rparr>)"
    using first left by (simp add: iconv_by_cd enc_utf8_to_unicode_def len del: of_nat_diff split del: if_split)
  have call2: "iconv (if e then 5 else 4) (Some ?in2) 256 = Some (Some \<lparr>ir_status = IcOk, ir_inleft = 0,
      ir_outleft = of_nat 256 - of_nat (length (concat (map (ucs2_of e) (take (length us - 128) us)))),
      ir_written = concat (map (ucs2_of e) (take (length us - 128) us))\<rparr>)"
    using second by (simp add: iconv_by_cd enc_utf8_to_unicode_def split del: if_split)
  have "Liconv True (if e then 5 else 4) ?in
      = liconv_loop (if e then 5 else 4) 256 ?in (of_nat (length us)) []"
    using assms(2) len by (simp add: Liconv_size max_absorb1 split del: if_split)
  also have "\<dots> = liconv_loop (if e then 5 else 4) 256 ?in (of_nat (length us - 128)) (concat (map (ucs2_of e) (take 128 us)))"
    using call1 len by (subst liconv_loop.simps) (simp add: n inbuf_after_cd split del: if_split)
  also have "\<dots> = Some (Some (concat (map (ucs2_of e) (take 128 us)) @ concat (map (ucs2_of e) (take (length us - 128) us)), None))"
    using call2 by (subst liconv_loop.simps) (simp add: n in2 split del: if_split)
  finally show ?thesis by simp
qed

lemma liconv_utf8_wrong:
  "\<exists>s. Liconv True 4 (concat (map utf8_of (replicate 128 0x61 @ [0x62]))) = Some (Some (s, None))
    \<and> s = concat (map (ucs2_of False) (replicate 128 0x61 @ [0x61]))"
  using liconv_utf8_repeats [of "replicate 128 0x61 @ [0x62]" False] by simp

end
