(* ===== verification/RtosMod.thy ===== *)
theory RtosMod
  imports RtosTimer PowerOn Pio
begin

text \<open>
  The Lua module \<open>modules/src/rtos.c\<close>: the messages of the firmware as Lua values, and the calls a
  script makes, over the services of theory \<open>RtosTimer\<close>. The kernel hands out the messages of its
  queue: the answer to \<open>wait_message\<close> comes with the message.
\<close>

section \<open>Messages\<close>

text \<open>\<open>PlatformMessage\<close> of \<open>platform/include/platform_rtos.h\<close>, one constructor for each identifier with
  the member of the union that goes with it. \<open>BOOL\<close> is unsigned, so the test for negative values in
  \<open>setfieldBool\<close> is never true.\<close>

datatype PlatformMessage =
    Msg_WAIT_MSG_TIMEOUT
  | Msg_TIMER int
  | Msg_UART_RX_DATA int
  | Msg_KEYPAD bool u8 u8
  | Msg_INT u8 u16
  | Msg_PMD pmd_data
  | Msg_AUDIO bool bool

fun msg_id :: "PlatformMessage \<Rightarrow> int" where
  "msg_id Msg_WAIT_MSG_TIMEOUT = 0"
| "msg_id (Msg_TIMER _) = 1"
| "msg_id (Msg_UART_RX_DATA _) = 2"
| "msg_id (Msg_KEYPAD _ _ _) = 3"
| "msg_id (Msg_INT _ _) = 4"
| "msg_id (Msg_PMD _) = 5"
| "msg_id (Msg_AUDIO _ _) = 6"

text \<open>What is pushed on the Lua stack: integers and tables, with the fields in the order they are set.\<close>

datatype lua_field = FInt int | FBool bool
datatype lua_item = LuaInt int | LuaTable "(string \<times> lua_field) list"

fun handle_msg :: "PlatformMessage \<Rightarrow> lua_item list" where
  "handle_msg Msg_WAIT_MSG_TIMEOUT = [LuaInt 0]"
| "handle_msg (Msg_TIMER timer_id) = [LuaInt 1, LuaInt timer_id]"
| "handle_msg (Msg_UART_RX_DATA uart_id) = [LuaInt 2, LuaInt uart_id]"
| "handle_msg (Msg_KEYPAD bPressed row col) =
     [LuaTable [(''id'', FInt 3), (''pressed'', FBool bPressed),
        (''key_matrix_row'', FInt (uint row)), (''key_matrix_col'', FInt (uint col))]]"
| "handle_msg (Msg_INT n resnum) =
     [LuaTable [(''id'', FInt 4), (''int_id'', FInt (uint n)), (''int_resnum'', FInt (uint resnum))]]"
| "handle_msg (Msg_PMD d) =
     [LuaTable [(''id'', FInt 5), (''present'', FBool (battStatus d)), (''voltage'', FInt (uint (battVolt d))),
        (''level'', FInt (uint (battLevel d))), (''charger'', FBool (chargerStatus d)), (''state'', FInt (uint (chargeState d)))]]"
| "handle_msg (Msg_AUDIO playEnd playError) =
     [LuaTable ((''id'', FInt 6) #
        (if playEnd then [(''play_end_ind'', FBool True)]
         else if playError then [(''play_error_ind'', FBool True)] else []))]"

text \<open>The message of a pin interrupt (\<open>GpioIntCallback\<close>), with the numbers of the two edges.\<close>

definition edge_id :: "gpio_edge \<Rightarrow> u8" where
  "edge_id e = (case e of INT_GPIO_POSEDGE \<Rightarrow> 1 | INT_GPIO_NEGEDGE \<Rightarrow> 2)"

definition gpio_messages :: "nat \<Rightarrow> byte \<Rightarrow> PlatformMessage list" where
  "gpio_messages gpioNum state = map (\<lambda>(e, pin). Msg_INT (edge_id e) (ucast pin)) (GpioIntCallback gpioNum state)"

section \<open>The calls of a script\<close>

record rtos_mod =
  services :: rtos_state
  firstRecv :: bool
  freed :: "PlatformMessage list"

datatype lua_out = Out_items "lua_item list" | Out_error

text \<open>\<open>pMsg\<close>: the message that comes with a successful wait, \<open>None\<close> for a null pointer.\<close>

definition l_rtos_receive :: "kernel \<Rightarrow> PlatformMessage option \<Rightarrow> int \<Rightarrow> rtos_mod \<Rightarrow> (rtos_mod \<times> lua_out) option" where
  "l_rtos_receive k pMsg timeout s =
     (let s = (if firstRecv s then s\<lparr>services := platform_poweron_try (services s), firstRecv := False\<rparr> else s);
          (sv, ret) = platform_rtos_receive k (word_of_int timeout) (services s);
          s = s\<lparr>services := sv\<rparr> in
      if ret \<noteq> PLATFORM_OK then Some (s, Out_error)
      else case pMsg of None \<Rightarrow> None
        | Some m \<Rightarrow> Some (s\<lparr>freed := freed s @ [m]\<rparr>, Out_items (handle_msg m)))"

definition l_rtos_timer_start :: "kernel \<Rightarrow> int \<Rightarrow> int \<Rightarrow> rtos_mod \<Rightarrow> rtos_mod \<times> lua_out" where
  "l_rtos_timer_start k timer_id ms s =
     (case platform_rtos_start_timer k timer_id ms (services s) of
        (sv, ret) \<Rightarrow> (s\<lparr>services := sv\<rparr>, Out_items [LuaInt ret]))"

definition l_rtos_timer_stop :: "kernel \<Rightarrow> int \<Rightarrow> rtos_mod \<Rightarrow> rtos_mod \<times> lua_out" where
  "l_rtos_timer_stop k timer_id s =
     (case platform_rtos_stop_timer k timer_id (services s) of
        (sv, ret) \<Rightarrow> (s\<lparr>services := sv\<rparr>, Out_items [LuaInt ret]))"

definition l_rtos_poweron :: "int \<Rightarrow> rtos_mod \<Rightarrow> rtos_mod \<times> lua_out" where
  "l_rtos_poweron flag s = (s\<lparr>services := platform_rtos_poweron flag (services s)\<rparr>, Out_items [])"

definition l_rtos_poweroff :: "kernel \<Rightarrow> rtos_mod \<Rightarrow> rtos_mod \<times> lua_out" where
  "l_rtos_poweroff k s = (s\<lparr>services := platform_rtos_poweroff k (services s)\<rparr>, Out_items [])"

definition luaopen_rtos :: "kernel \<Rightarrow> rtos_mod \<Rightarrow> rtos_mod" where
  "luaopen_rtos k s = s\<lparr>services := fst (platform_rtos_init k (services s))\<rparr>"

text \<open>\<open>init_module\<close>: the masks given to the keypad driver, \<open>None\<close> for the error. The masks of the driver
  have eight bits; the type of the keypad is not passed on.\<close>

definition RTOS_MODULE_ID_KEYPAD :: int where "RTOS_MODULE_ID_KEYPAD = 0"

definition platform_rtos_init_module :: "int \<Rightarrow> int \<Rightarrow> int \<Rightarrow> (u8 \<times> u8) option \<times> int" where
  "platform_rtos_init_module module inMask outMask =
     (if module = RTOS_MODULE_ID_KEYPAD then (Some (word_of_int inMask, word_of_int outMask), PLATFORM_OK)
      else (None, PLATFORM_ERR))"

definition l_rtos_init_module :: "int \<Rightarrow> int \<Rightarrow> int \<Rightarrow> int \<Rightarrow> (u8 \<times> u8) option \<times> lua_out" where
  "l_rtos_init_module module_id type inmask outmask =
     (if module_id = RTOS_MODULE_ID_KEYPAD then
        (case platform_rtos_init_module RTOS_MODULE_ID_KEYPAD inmask outmask of
           (cfg, ret) \<Rightarrow> (cfg, Out_items [LuaInt ret]))
      else (None, Out_error))"

datatype rtos_call =
    Call_receive kernel "PlatformMessage option" int
  | Call_timer_start kernel int int
  | Call_timer_stop kernel int
  | Call_poweron int
  | Call_poweroff kernel

fun do_call :: "rtos_call \<Rightarrow> rtos_mod \<Rightarrow> (rtos_mod \<times> lua_out) option" where
  "do_call (Call_receive k m t) s = l_rtos_receive k m t s"
| "do_call (Call_timer_start k n ms) s = Some (l_rtos_timer_start k n ms s)"
| "do_call (Call_timer_stop k n) s = Some (l_rtos_timer_stop k n s)"
| "do_call (Call_poweron flag) s = Some (l_rtos_poweron flag s)"
| "do_call (Call_poweroff k) s = Some (l_rtos_poweroff k s)"

fun rtos_run :: "rtos_call list \<Rightarrow> rtos_mod \<Rightarrow> (rtos_mod \<times> lua_out list) option" where
  "rtos_run [] s = Some (s, [])"
| "rtos_run (c # cs) s =
     (case do_call c s of None \<Rightarrow> None
      | Some (s', x) \<Rightarrow> (case rtos_run cs s' of None \<Rightarrow> None | Some (s'', xs) \<Rightarrow> Some (s'', x # xs)))"

definition boot_mod :: "kernel \<Rightarrow> rtos_mod" where
  "boot_mod k = luaopen_rtos k \<lparr>services = boot_rtos, firstRecv = True, freed = []\<rparr>"

section \<open>Every message is told apart\<close>

text \<open>A script can tell any two messages apart: two messages that give the same Lua values are
  equal, except that the end of a piece hides an error that is set beside it.\<close>

lemma handle_msg_injective:
  "handle_msg m = handle_msg m' \<longleftrightarrow> m = m' \<or> (\<exists>e e'. m = Msg_AUDIO True e \<and> m' = Msg_AUDIO True e')"
  by (cases m; cases m') (auto simp: word_uint_eq_iff split: if_splits)

lemma handle_msg_head:
  "handle_msg m = LuaInt (msg_id m) # tl (handle_msg m) \<or> (\<exists>fs. handle_msg m = [LuaTable ((''id'', FInt (msg_id m)) # fs)])"
  by (cases m) simp_all

section \<open>A session\<close>

text \<open>The messages the kernel delivers in a session, and the flag that the first call of \<open>rtos.receive\<close>
  finds: what \<open>rtos.poweron\<close> set last, or -1.\<close>

fun rtos_delivered :: "rtos_call list \<Rightarrow> PlatformMessage list" where
  "rtos_delivered [] = []"
| "rtos_delivered (Call_receive k (Some m) t # cs) = (if wait_message k then m # rtos_delivered cs else rtos_delivered cs)"
| "rtos_delivered (_ # cs) = rtos_delivered cs"

fun flag_at_receive :: "int \<Rightarrow> rtos_call list \<Rightarrow> int option" where
  "flag_at_receive f [] = None"
| "flag_at_receive f (Call_receive _ _ _ # cs) = Some f"
| "flag_at_receive f (Call_poweron g # cs) = flag_at_receive g cs"
| "flag_at_receive f (_ # cs) = flag_at_receive f cs"

fun receive_outs :: "rtos_call list \<Rightarrow> lua_out list \<Rightarrow> lua_item list list" where
  "receive_outs (Call_receive _ _ _ # cs) (Out_items x # xs) = x # receive_outs cs xs"
| "receive_outs (_ # cs) (_ # xs) = receive_outs cs xs"
| "receive_outs _ _ = []"

definition kernel_delivers :: "rtos_call \<Rightarrow> bool" where
  "kernel_delivers c = (case c of Call_receive k m t \<Rightarrow> wait_message k \<longrightarrow> m \<noteq> None | _ \<Rightarrow> True)"

definition starts :: "rtos_state \<Rightarrow> nat" where
  "starts s = length (filter (\<lambda>e. e = PowerOnSystem) (r_log s))"

lemma starts_emit [simp]: "starts (r_emit es s) = starts s + length (filter (\<lambda>e. e = PowerOnSystem) es)"
  by (simp add: starts_def r_emit_def)

lemma starts_more [simp]:
  "starts (set_timer i t s) = starts s" "starts (need_sem k s) = starts s"
  "starts (s\<lparr>cust_sys_flag := b\<rparr>) = starts s" "starts (s\<lparr>poweron_flag := f\<rparr>) = starts s" "starts (s\<lparr>hRTOSWaitMsgTimer := h\<rparr>) = starts s"
  by (simp_all add: starts_def set_timer_def need_sem_def r_emit_def)

lemma stop_power: "starts (fst (platform_rtos_stop_timer k n s)) = starts s"
    "poweron_flag (fst (platform_rtos_stop_timer k n s)) = poweron_flag s"
  by (simp_all add: platform_rtos_stop_timer_def Let_def need_sem_def r_emit_def set_timer_def starts_def)

lemma start_power: "starts (fst (platform_rtos_start_timer k n ms s)) = starts s"
    "poweron_flag (fst (platform_rtos_start_timer k n ms s)) = poweron_flag s"
  using stop_power [of k n "need_sem k s"]
  by (auto simp: platform_rtos_start_timer_def Let_def) (auto simp: need_sem_def r_emit_def set_timer_def)

lemma receive_power: "starts (fst (platform_rtos_receive k t s)) = starts s"
    "poweron_flag (fst (platform_rtos_receive k t s)) = poweron_flag s"
  by (simp_all add: platform_rtos_receive_def r_emit_def starts_def)

lemma poweron_power: "starts (platform_rtos_poweron f s) = starts s + (if f = 1 then 1 else 0)"
    "poweron_flag (platform_rtos_poweron f s) = f"
  by (simp_all add: platform_rtos_poweron_def r_emit_def Let_def starts_def)

lemma try_power: "starts (platform_poweron_try s) = starts s + (if poweron_flag s = - 1 then 1 else 0)"
    "poweron_flag (platform_poweron_try s) = poweron_flag s"
  by (simp_all add: platform_poweron_try_def r_emit_def starts_def)

lemma poweroff_power: "starts (platform_rtos_poweroff k s) = starts s"
    "poweron_flag (platform_rtos_poweroff k s) = poweron_flag s"
  by (simp_all add: platform_rtos_poweroff_def r_emit_def starts_def)

lemmas power_simps = stop_power start_power receive_power poweron_power try_power poweroff_power

lemma run_session:
  assumes "\<forall>c \<in> set cs. kernel_delivers c"
  shows "\<exists>s' outs. rtos_run cs s = Some (s', outs) \<and> receive_outs cs outs = map handle_msg (rtos_delivered cs)
    \<and> freed s' = freed s @ rtos_delivered cs
    \<and> starts (services s') = starts (services s) + length (filter (\<lambda>c. c = Call_poweron 1) cs)
        + (if firstRecv s \<and> flag_at_receive (poweron_flag (services s)) cs = Some (- 1) then 1 else 0)"
  using assms
proof (induction cs arbitrary: s)
  case (Cons c cs)
  have IH: "\<exists>s' outs. rtos_run cs s = Some (s', outs) \<and> receive_outs cs outs = map handle_msg (rtos_delivered cs)
    \<and> freed s' = freed s @ rtos_delivered cs
    \<and> starts (services s') = starts (services s) + length (filter (\<lambda>c. c = Call_poweron 1) cs)
        + (if firstRecv s \<and> flag_at_receive (poweron_flag (services s)) cs = Some (- 1) then 1 else 0)" for s
    using Cons by simp
  show ?case
  proof (cases c)
    case (Call_receive k m t)
    define s0 where "s0 = (if firstRecv s then s\<lparr>services := platform_poweron_try (services s), firstRecv := False\<rparr> else s)"
    let ?s1 = "s0\<lparr>services := fst (platform_rtos_receive k (word_of_int t) (services s0))\<rparr>"
    have st: "\<not> firstRecv s0" "freed s0 = freed s"
      "starts (services s0) = starts (services s) + (if firstRecv s \<and> poweron_flag (services s) = - 1 then 1 else 0)"
      by (simp_all add: s0_def power_simps)
    have sc: "platform_rtos_receive k t' v = (fst (platform_rtos_receive k t' v), if wait_message k then PLATFORM_OK else PLATFORM_ERR)" for t' v
      by (simp add: platform_rtos_receive_def)
    have ne: "PLATFORM_ERR \<noteq> PLATFORM_OK" by (simp add: PLATFORM_ERR_def PLATFORM_OK_def)
    show ?thesis
    proof (cases "wait_message k")
      case False
      then have "do_call c s = Some (?s1, Out_error)"
        using ne by (simp add: Call_receive l_rtos_receive_def Let_def flip: s0_def) (subst sc, simp)
      then show ?thesis using IH [of ?s1] st False by (cases m) (auto simp: Call_receive power_simps)
    next
      case True
      then obtain x where m: "m = Some x" using Cons.prems by (auto simp: Call_receive kernel_delivers_def)
      have "do_call c s = Some (?s1\<lparr>freed := freed s0 @ [x]\<rparr>, Out_items (handle_msg x))"
        using True m by (simp add: Call_receive l_rtos_receive_def Let_def flip: s0_def) (subst sc, simp)
      then show ?thesis using IH [of "?s1\<lparr>freed := freed s0 @ [x]\<rparr>"] st m True by (auto simp: Call_receive power_simps)
    qed
  next
    case (Call_timer_start k n ms)
    let ?r = "platform_rtos_start_timer k n ms (services s)"
    have "do_call c s = Some (s\<lparr>services := fst ?r\<rparr>, Out_items [LuaInt (snd ?r)])"
      by (simp add: Call_timer_start l_rtos_timer_start_def case_prod_unfold)
    then show ?thesis using IH [of "s\<lparr>services := fst ?r\<rparr>"] by (auto simp: Call_timer_start power_simps)
  next
    case (Call_timer_stop k n)
    let ?r = "platform_rtos_stop_timer k n (services s)"
    have "do_call c s = Some (s\<lparr>services := fst ?r\<rparr>, Out_items [LuaInt (snd ?r)])"
      by (simp add: Call_timer_stop l_rtos_timer_stop_def case_prod_unfold)
    then show ?thesis using IH [of "s\<lparr>services := fst ?r\<rparr>"] by (auto simp: Call_timer_stop power_simps)
  next
    case (Call_poweron f)
    then show ?thesis
      using IH [of "s\<lparr>services := platform_rtos_poweron f (services s)\<rparr>"]
      by (auto simp: l_rtos_poweron_def power_simps)
  next
    case (Call_poweroff k)
    then show ?thesis
      using IH [of "s\<lparr>services := platform_rtos_poweroff k (services s)\<rparr>"]
      by (auto simp: l_rtos_poweroff_def power_simps)
  qed
qed simp


definition session1 :: "rtos_call list" where
  "session1 = [Call_timer_start kernel1 1 1000, Call_receive kernel1 (Some (Msg_TIMER 1)) 0,
     Call_poweron 1, Call_receive kernel1 (Some (Msg_KEYPAD True 2 3)) 500]"


text \<open>Such a script starts the system twice.\<close>

lemma session1_starts_twice:
  "length (filter (\<lambda>c. c = Call_poweron 1) session1) + (if flag_at_receive (- 1) session1 = Some (- 1) then 1 else 0) = 2"
  by (simp add: session1_def)

text \<open>The masks of the keypad lose their upper bits.\<close>

lemma keypad_masks: "l_rtos_init_module 0 type inm outm = (Some (word_of_int inm, word_of_int outm), Out_items [LuaInt 1])"
    "(word_of_int 0x100 :: u8) = 0"
  by (simp_all add: l_rtos_init_module_def platform_rtos_init_module_def RTOS_MODULE_ID_KEYPAD_def PLATFORM_OK_def)

end
