(* ===== verification/SimTimer.thy ===== *)
theory SimTimer
  imports RtosMod
begin

text \<open>
  The timers and messages of the PC simulator, \<open>platform/win32/src/thread_daemon.c\<close> and
  \<open>platform_rtos.c\<close>. The table maps the timer numbers of Lua to timers of a window. The host is part of
  the state: the window timers that run, and the timer messages that wait in the queue of the window.
  \<open>KillTimer\<close> does not take back a message that is already in the queue.
\<close>

section \<open>The table\<close>

definition MAX_WIN_TIMERS :: nat where "MAX_WIN_TIMERS = 20"
definition TIMER_ID_BASE :: int where "TIMER_ID_BASE = 0x2000"

record WinTimerInfo =
  user_id :: int
  period :: int
  win_timer_id :: int

definition zero_info :: WinTimerInfo where
  "zero_info = \<lparr>user_id = 0, period = 0, win_timer_id = 0\<rparr>"

record simu =
  winTimer :: "WinTimerInfo list"
  global_timer_id_unique :: int
  host_timers :: "int \<rightharpoonup> int"
  window_queue :: "int list"

text \<open>The counter is a \<open>short\<close>.\<close>

definition wrap16 :: "int \<Rightarrow> int" where
  "wrap16 x = (x + 2 ^ 15) mod 2 ^ 16 - 2 ^ 15"

fun scan_win :: "(WinTimerInfo \<Rightarrow> bool) \<Rightarrow> WinTimerInfo list \<Rightarrow> nat" where
  "scan_win P [] = 0"
| "scan_win P (t # ts) = (if P t then 0 else Suc (scan_win P ts))"

definition KillTimer :: "int \<Rightarrow> simu \<Rightarrow> simu" where
  "KillTimer w s = s\<lparr>host_timers := (host_timers s)(w := None)\<rparr>"

definition SetTimer :: "int \<Rightarrow> int \<Rightarrow> simu \<Rightarrow> simu" where
  "SetTimer w ms s = s\<lparr>host_timers := (host_timers s)(w \<mapsto> ms)\<rparr>"

definition clear_slot :: "nat \<Rightarrow> simu \<Rightarrow> simu" where
  "clear_slot i s = s\<lparr>winTimer := (winTimer s)[i := zero_info]\<rparr>"

definition kill_slot :: "nat \<Rightarrow> simu \<Rightarrow> simu" where
  "kill_slot i s = clear_slot i (KillTimer (win_timer_id (winTimer s ! i)) s)"

definition win_start_timer :: "int \<Rightarrow> int \<Rightarrow> simu \<Rightarrow> simu \<times> int" where
  "win_start_timer timer_id milliSecond s =
     (let i = scan_win (\<lambda>t. user_id t = timer_id) (winTimer s);
          s = (if i < MAX_WIN_TIMERS then kill_slot i s else s);
          j = scan_win (\<lambda>t. win_timer_id t = 0) (winTimer s) in
      if j < MAX_WIN_TIMERS then
        (let g = wrap16 (global_timer_id_unique s + 1); w = TIMER_ID_BASE + g in
         (SetTimer w milliSecond (s\<lparr>global_timer_id_unique := g,
            winTimer := (winTimer s)[j := (winTimer s ! j)\<lparr>win_timer_id := w, user_id := timer_id\<rparr>]\<rparr>), w))
      else (s, 0))"

definition win_stop_timer :: "int \<Rightarrow> simu \<Rightarrow> simu \<times> int" where
  "win_stop_timer timerId s =
     (let i = scan_win (\<lambda>t. user_id t = timerId) (winTimer s) in
      (if i < MAX_WIN_TIMERS then kill_slot i s else s, 0))"

text \<open>\<open>win_timeout\<close>: the number sent to the Lua thread. Without an entry the code clears the memory
  behind the table and sends an uninitialised number: \<open>None\<close>.\<close>

definition win_timeout :: "int \<Rightarrow> simu \<Rightarrow> (simu \<times> int) option" where
  "win_timeout timerId s =
     (let i = scan_win (\<lambda>t. win_timer_id t = timerId) (winTimer s) in
      if i < MAX_WIN_TIMERS then Some (clear_slot i (KillTimer timerId s), user_id (winTimer s ! i)) else None)"

definition WM_CREATE :: simu where
  "WM_CREATE = \<lparr>winTimer = replicate MAX_WIN_TIMERS zero_info, global_timer_id_unique = 0,
     host_timers = Map.empty, window_queue = []\<rparr>"

section \<open>Messages to Lua\<close>

text \<open>The messages of the Lua thread. The daemon timer is never set, and its branch only continues.\<close>

datatype sim_msg = DAEMON_TIMER_MSG | SIMU_TIMER_MSG int | SIMU_UART_ATC_RX_DATA | SIMU_RTOS_MSG PlatformMessage | WM_OTHER

definition RTOS_WAIT_MSG_TIMER_ID :: int where "RTOS_WAIT_MSG_TIMER_ID = - 1"
definition SEND_SOUND_END_TIMER_ID :: int where "SEND_SOUND_END_TIMER_ID = - 2"
definition SIM_UART_ID_ATC :: int where "SIM_UART_ID_ATC = 0x7f"

text \<open>The message a turn of the loop of \<open>platform_rtos_receive\<close> returns, if it returns one.\<close>

definition sim_turn :: "sim_msg \<Rightarrow> PlatformMessage option" where
  "sim_turn m =
     (case m of
        SIMU_TIMER_MSG n \<Rightarrow>
          Some (if n = RTOS_WAIT_MSG_TIMER_ID then Msg_WAIT_MSG_TIMEOUT
                else if n = SEND_SOUND_END_TIMER_ID then Msg_UART_RX_DATA SIM_UART_ID_ATC
                else Msg_TIMER n)
      | SIMU_UART_ATC_RX_DATA \<Rightarrow> Some (Msg_UART_RX_DATA SIM_UART_ID_ATC)
      | SIMU_RTOS_MSG p \<Rightarrow> Some p
      | _ \<Rightarrow> None)"

text \<open>\<open>None\<close>: it waits for more messages.\<close>

fun sim_loop :: "sim_msg list \<Rightarrow> (PlatformMessage \<times> sim_msg list) option" where
  "sim_loop [] = None"
| "sim_loop (m # ms) = (case sim_turn m of None \<Rightarrow> sim_loop ms | Some p \<Rightarrow> Some (p, ms))"

definition sim_rtos_receive :: "int \<Rightarrow> sim_msg list \<Rightarrow> simu \<Rightarrow> simu \<times> (PlatformMessage \<times> sim_msg list) option" where
  "sim_rtos_receive timeout q s =
     ((if timeout \<noteq> 0 then fst (win_start_timer RTOS_WAIT_MSG_TIMER_ID timeout s) else s), sim_loop q)"

section \<open>The table refines the set of running timers\<close>

text \<open>The timers of Lua that run, with their window timers.\<close>

definition running :: "simu \<Rightarrow> (int \<times> int) set" where
  "running s = {(user_id t, win_timer_id t) |t. t \<in> set (winTimer s) \<and> win_timer_id t \<noteq> 0}"

definition used_win :: "simu \<Rightarrow> nat \<Rightarrow> bool" where
  "used_win s i \<longleftrightarrow> i < length (winTimer s) \<and> win_timer_id (winTimer s ! i) \<noteq> 0"

abbreviation slot_user :: "simu \<Rightarrow> nat \<Rightarrow> int" where "slot_user s i \<equiv> user_id (winTimer s ! i)"
abbreviation slot_win :: "simu \<Rightarrow> nat \<Rightarrow> int" where "slot_win s i \<equiv> win_timer_id (winTimer s ! i)"

definition sim_inv :: "simu \<Rightarrow> bool" where
  "sim_inv s \<longleftrightarrow> length (winTimer s) = MAX_WIN_TIMERS \<and> 0 \<le> global_timer_id_unique s
    \<and> (\<forall>t \<in> set (winTimer s). win_timer_id t = 0 \<longrightarrow> t = zero_info)
    \<and> inj_on (slot_user s) (Collect (used_win s)) \<and> inj_on (slot_win s) (Collect (used_win s))
    \<and> slot_win s ` Collect (used_win s) \<subseteq> {TIMER_ID_BASE <.. TIMER_ID_BASE + global_timer_id_unique s}
    \<and> 0 \<notin> slot_user s ` Collect (used_win s)
    \<and> dom (host_timers s) = slot_win s ` Collect (used_win s)"

lemma scan_win_less: "scan_win P ts < length ts \<longleftrightarrow> (\<exists>t \<in> set ts. P t)"
  by (induction ts) auto

lemma scan_win_at: "scan_win P ts < length ts \<Longrightarrow> P (ts ! scan_win P ts)"
  by (induction ts) auto

lemma wrap16_id: "- (2 ^ 15) \<le> x \<Longrightarrow> x < 2 ^ 15 \<Longrightarrow> wrap16 x = x"
  by (simp add: wrap16_def)

lemma running_image: "running s = (\<lambda>i. (slot_user s i, slot_win s i)) ` Collect (used_win s)"
  by (auto simp: running_def used_win_def in_set_conv_nth image_iff) metis+

lemma snd_running: "snd ` running s = slot_win s ` Collect (used_win s)"
  by (simp add: running_image image_image)

lemma kill_slot_at:
  "winTimer (kill_slot i s) = (winTimer s)[i := zero_info]"
  "host_timers (kill_slot i s) = (host_timers s)(slot_win s i := None)"
  "global_timer_id_unique (kill_slot i s) = global_timer_id_unique s"
  by (simp_all add: kill_slot_def clear_slot_def KillTimer_def)

lemma zero_info_sel [simp]: "win_timer_id zero_info = 0" "user_id zero_info = 0"
  by (simp_all add: zero_info_def)

lemma used_kill: "Collect (used_win (kill_slot i s)) = Collect (used_win s) - {i}"
proof -
  have "used_win (kill_slot i s) k \<longleftrightarrow> used_win s k \<and> k \<noteq> i" for k
    by (cases "k = i") (auto simp: used_win_def kill_slot_at nth_list_update)
  then show ?thesis by auto
qed

lemma kill_other: "k \<noteq> i \<Longrightarrow> winTimer (kill_slot i s) ! k = winTimer s ! k"
  by (simp add: kill_slot_at)

text \<open>Emptying a slot in use removes one timer, on the host as well.\<close>

lemma kill_slot_ok:
  assumes inv: "sim_inv s" and i: "used_win s i"
  shows "sim_inv (kill_slot i s)"
    and "running (kill_slot i s) = running s - {(slot_user s i, slot_win s i)}"
    and "running (kill_slot i s) = {(u, w) \<in> running s. u \<noteq> slot_user s i}"
proof -
  let ?s = "kill_slot i s" and ?U = "Collect (used_win s)"
  note I = inv [unfolded sim_inv_def]
  have img: "f ` Collect (used_win ?s) = f ` ?U - {f i}" if "inj_on f ?U" for f :: "nat \<Rightarrow> 'b"
    using inj_on_image_set_diff [OF that, of ?U "{i}"] i by (simp add: used_kill)
  have eq: "winTimer ?s ! k = winTimer s ! k" if "k \<in> Collect (used_win ?s)" for k
    using that kill_other [of k i s] by (simp add: used_kill)
  have w: "slot_win ?s ` Collect (used_win ?s) = slot_win s ` ?U - {slot_win s i}"
    using img [of "slot_win s"] I by (simp add: eq cong: image_cong_simp)
  have u: "slot_user ?s ` Collect (used_win ?s) \<subseteq> slot_user s ` ?U"
    using eq by (auto simp: used_kill)
  have inj: "inj_on (slot_user ?s) (Collect (used_win ?s))" "inj_on (slot_win ?s) (Collect (used_win ?s))"
    using I by (auto simp: inj_on_def used_kill kill_other)
  have "\<forall>t \<in> set (winTimer ?s). win_timer_id t = 0 \<longrightarrow> t = zero_info"
    using I set_update_subset_insert [of "winTimer s" i zero_info] by (auto simp: kill_slot_at)
  with w u inj I show "sim_inv ?s"
    unfolding sim_inv_def kill_slot_at by auto
  have pair: "inj_on (\<lambda>i. (slot_user s i, slot_win s i)) ?U" using I by (auto simp: inj_on_def)
  have r: "running ?s = (\<lambda>i. (slot_user s i, slot_win s i)) ` (?U - {i})"
    unfolding running_image used_kill by (rule image_cong [OF refl]) (simp add: kill_other)
  then show "running ?s = running s - {(slot_user s i, slot_win s i)}"
    using img [OF pair] by (simp add: running_image used_kill)
  have "{(u, w) \<in> running s. u \<noteq> slot_user s i} = (\<lambda>i. (slot_user s i, slot_win s i)) ` (?U - {i})"
    using I i by (auto simp: running_image inj_on_def)
  with r show "running ?s = {(u, w) \<in> running s. u \<noteq> slot_user s i}" by simp
qed

text \<open>Filling a free slot adds one, under a number that no window timer has.\<close>

definition fill_win :: "nat \<Rightarrow> int \<Rightarrow> int \<Rightarrow> simu \<Rightarrow> simu" where
  "fill_win j n ms s =
     (let g = global_timer_id_unique s + 1; w = TIMER_ID_BASE + g in
      SetTimer w ms (s\<lparr>global_timer_id_unique := g,
        winTimer := (winTimer s)[j := (winTimer s ! j)\<lparr>win_timer_id := w, user_id := n\<rparr>]\<rparr>))"

lemma fill_win_ok:
  assumes inv: "sim_inv s" and j: "j < length (winTimer s)" "slot_win s j = 0"
    and n: "n \<noteq> 0" "n \<notin> fst ` running s"
  defines "w \<equiv> TIMER_ID_BASE + global_timer_id_unique s + 1"
  shows "sim_inv (fill_win j n ms s)" and "running (fill_win j n ms s) = insert (n, w) (running s)"
    and "w \<notin> snd ` running s"
proof -
  let ?s = "fill_win j n ms s" and ?U = "Collect (used_win s)"
  note I = inv [unfolded sim_inv_def]
  have sel: "winTimer ?s = (winTimer s)[j := (winTimer s ! j)\<lparr>win_timer_id := w, user_id := n\<rparr>]"
    "global_timer_id_unique ?s = global_timer_id_unique s + 1" "host_timers ?s = (host_timers s)(w \<mapsto> ms)"
    by (simp_all add: fill_win_def SetTimer_def Let_def w_def add.assoc)
  have w: "0 < w" "w \<notin> slot_win s ` ?U"
    using I by (auto simp: w_def TIMER_ID_BASE_def)
  then show "w \<notin> snd ` running s" by (simp add: snd_running)
  have n': "n \<notin> slot_user s ` ?U" using n(2) by (auto simp: running_image image_image)
  have free: "j \<notin> ?U" using j by (simp add: used_win_def)
  have used: "Collect (used_win ?s) = insert j ?U"
    using j w(1) by (auto simp: used_win_def sel nth_list_update)
  have at: "winTimer ?s ! j = (winTimer s ! j)\<lparr>win_timer_id := w, user_id := n\<rparr>"
      "k \<noteq> j \<Longrightarrow> winTimer ?s ! k = winTimer s ! k" for k
    using j(1) by (simp_all add: sel)
  have eq: "k \<in> ?U \<Longrightarrow> winTimer ?s ! k = winTimer s ! k" for k using free at(2) by metis
  have imU: "(\<lambda>k. f (winTimer ?s ! k)) ` ?U = (\<lambda>k. f (winTimer s ! k)) ` ?U" for f :: "WinTimerInfo \<Rightarrow> 'b"
    by (rule image_cong) (simp_all only: eq)
  have im: "(\<lambda>k. f (winTimer ?s ! k)) ` Collect (used_win ?s) = insert (f (winTimer ?s ! j)) ((\<lambda>k. f (winTimer s ! k)) ` ?U)"
    for f :: "WinTimerInfo \<Rightarrow> 'b"
    unfolding used image_insert imU ..
  have one: "inj_on (slot_user ?s) ?U" "inj_on (slot_win ?s) ?U"
    using I eq by (auto simp: inj_on_def)
  have U: "?U - {j} = ?U" using free by simp
  have inj: "inj_on (slot_user ?s) (Collect (used_win ?s))" "inj_on (slot_win ?s) (Collect (used_win ?s))"
    using one n' w(2) imU [of user_id] imU [of win_timer_id] at(1) unfolding used inj_on_insert U by simp_all
  have "\<forall>t \<in> set (winTimer ?s). win_timer_id t = 0 \<longrightarrow> t = zero_info"
    using I w(1) set_update_subset_insert [of "winTimer s" j] by (fastforce simp: sel)
  moreover have sets: "slot_win ?s ` Collect (used_win ?s) = insert w (slot_win s ` ?U)"
      "slot_user ?s ` Collect (used_win ?s) = insert n (slot_user s ` ?U)"
    using im [of win_timer_id] im [of user_id] at(1) by simp_all
  moreover have "insert w (slot_win s ` ?U) \<subseteq> {TIMER_ID_BASE <.. TIMER_ID_BASE + global_timer_id_unique ?s}"
    using I unfolding sel w_def by fastforce
  moreover have "dom (host_timers ?s) = insert w (slot_win s ` ?U)" using I by (simp add: sel)
  ultimately show "sim_inv ?s"
    using I inj n(1) unfolding sim_inv_def sets by (simp add: sel(1,2))
  show "running ?s = insert (n, w) (running s)"
    using im [of "\<lambda>t. (user_id t, win_timer_id t)"] at(1) by (simp add: running_image)
qed

lemma used_len: "sim_inv s \<Longrightarrow> used_win s i \<Longrightarrow> i < MAX_WIN_TIMERS"
  by (simp add: sim_inv_def used_win_def)

text \<open>Both loops that look for a number: the timer of that number is removed, if there is one.\<close>

definition drop_user :: "int \<Rightarrow> simu \<Rightarrow> simu" where
  "drop_user n s = (let i = scan_win (\<lambda>t. user_id t = n) (winTimer s) in if i < MAX_WIN_TIMERS then kill_slot i s else s)"

lemma drop_user_ok:
  assumes "sim_inv s" and "n \<noteq> 0"
  shows "sim_inv (drop_user n s)" and "running (drop_user n s) = {(u, w) \<in> running s. u \<noteq> n}"
    and "global_timer_id_unique (drop_user n s) = global_timer_id_unique s"
proof -
  let ?i = "scan_win (\<lambda>t. user_id t = n) (winTimer s)"
  have len: "length (winTimer s) = MAX_WIN_TIMERS" using assms(1) by (simp add: sim_inv_def)
  show g: "global_timer_id_unique (drop_user n s) = global_timer_id_unique s"
    by (simp add: drop_user_def Let_def kill_slot_at)
  show "sim_inv (drop_user n s)" and "running (drop_user n s) = {(u, w) \<in> running s. u \<noteq> n}"
  proof (atomize (full), cases "?i < MAX_WIN_TIMERS")
    case True
    then have at: "slot_user s ?i = n" using scan_win_at [of "\<lambda>t. user_id t = n" "winTimer s"] len by simp
    moreover have "winTimer s ! ?i \<in> set (winTimer s)" using True len by simp
    ultimately have "used_win s ?i"
      using assms True len by (auto simp: used_win_def sim_inv_def)
    from kill_slot_ok(1,3) [OF assms(1) this] show "sim_inv (drop_user n s) \<and> running (drop_user n s) = {(u, w) \<in> running s. u \<noteq> n}"
      using True at by (simp add: drop_user_def)
  next
    case False
    then have "\<forall>t \<in> set (winTimer s). user_id t \<noteq> n" using scan_win_less [of "\<lambda>t. user_id t = n" "winTimer s"] len by simp
    then have "{(u, w) \<in> running s. u \<noteq> n} = running s" by (auto simp: running_def)
    then show "sim_inv (drop_user n s) \<and> running (drop_user n s) = {(u, w) \<in> running s. u \<noteq> n}"
      using False assms(1) by (simp add: drop_user_def)
  qed
qed

lemma card_running:
  assumes "sim_inv s"
  shows "card (running s) = card (Collect (used_win s))" and "card (running s) \<le> MAX_WIN_TIMERS"
    and "card (running s) < MAX_WIN_TIMERS \<longleftrightarrow> scan_win (\<lambda>t. win_timer_id t = 0) (winTimer s) < MAX_WIN_TIMERS"
proof -
  have "inj_on (\<lambda>i. (slot_user s i, slot_win s i)) (Collect (used_win s))"
    using assms by (auto simp: sim_inv_def inj_on_def)
  then show c: "card (running s) = card (Collect (used_win s))" by (simp add: running_image card_image)
  have len: "length (winTimer s) = MAX_WIN_TIMERS" using assms by (simp add: sim_inv_def)
  have sub: "Collect (used_win s) \<subseteq> {..<MAX_WIN_TIMERS}" using used_len [OF assms] by auto
  then show "card (running s) \<le> MAX_WIN_TIMERS" unfolding c using card_mono [of "{..<MAX_WIN_TIMERS}"] by fastforce
  have "card (Collect (used_win s)) < MAX_WIN_TIMERS \<longleftrightarrow> Collect (used_win s) \<noteq> {..<MAX_WIN_TIMERS}"
  proof (cases "Collect (used_win s) = {..<MAX_WIN_TIMERS}")
    case False
    then have "Collect (used_win s) \<subset> {..<MAX_WIN_TIMERS}" using sub by (rule psubsetI [rotated])
    from psubset_card_mono [OF _ this] show ?thesis using False by simp
  qed simp
  also have "\<dots> \<longleftrightarrow> (\<exists>t \<in> set (winTimer s). win_timer_id t = 0)"
    unfolding all_set_conv_all_nth [of "winTimer s" "\<lambda>t. win_timer_id t \<noteq> 0", unfolded len] bex_simps(8) [symmetric]
    using len by (auto simp: used_win_def set_eq_iff Bex_def in_set_conv_nth)
  also have "\<dots> \<longleftrightarrow> scan_win (\<lambda>t. win_timer_id t = 0) (winTimer s) < MAX_WIN_TIMERS"
    using scan_win_less [of "\<lambda>t. win_timer_id t = 0" "winTimer s"] len by simp
  finally show "card (running s) < MAX_WIN_TIMERS \<longleftrightarrow> scan_win (\<lambda>t. win_timer_id t = 0) (winTimer s) < MAX_WIN_TIMERS"
    unfolding c .
qed

text \<open>Starting a timer, for any number but 0: its old window timer is stopped; a new one runs if one of
  the twenty entries is free.\<close>

lemma win_start_refines:
  assumes "sim_inv s" and "n \<noteq> 0" and "global_timer_id_unique s < 2 ^ 15 - 1"
  defines "rest \<equiv> {(u, w) \<in> running s. u \<noteq> n}"
  shows "sim_inv (fst (win_start_timer n ms s))"
    and "card rest < MAX_WIN_TIMERS \<Longrightarrow> \<exists>w. w \<noteq> 0 \<and> w \<notin> snd ` rest \<and> snd (win_start_timer n ms s) = w
      \<and> running (fst (win_start_timer n ms s)) = insert (n, w) rest \<and> host_timers (fst (win_start_timer n ms s)) w = Some ms"
    and "\<not> card rest < MAX_WIN_TIMERS \<Longrightarrow> snd (win_start_timer n ms s) = 0 \<and> running (fst (win_start_timer n ms s)) = rest"
proof -
  define s1 where "s1 = drop_user n s"
  define j where "j = scan_win (\<lambda>t. win_timer_id t = 0) (winTimer s1)"
  note d = drop_user_ok [OF assms(1,2), folded s1_def]
  have rest: "rest = running s1" using d(2) by (simp add: rest_def)
  have g: "wrap16 (global_timer_id_unique s1 + 1) = global_timer_id_unique s1 + 1"
    using assms(1,3) d(3) by (intro wrap16_id) (simp_all add: sim_inv_def)
  have unfold: "win_start_timer n ms s =
    (if j < MAX_WIN_TIMERS then (fill_win j n ms s1, TIMER_ID_BASE + global_timer_id_unique s1 + 1) else (s1, 0))"
    using g by (simp add: win_start_timer_def fill_win_def Let_def add.assoc flip: s1_def drop_user_def [unfolded Let_def] j_def)
  have len: "length (winTimer s1) = MAX_WIN_TIMERS" using d(1) by (simp add: sim_inv_def)
  have free: "card rest < MAX_WIN_TIMERS \<longleftrightarrow> j < MAX_WIN_TIMERS" using card_running(3) [OF d(1)] by (simp add: rest j_def)
  have fill: "sim_inv (fill_win j n ms s1)"
      "running (fill_win j n ms s1) = insert (n, TIMER_ID_BASE + global_timer_id_unique s1 + 1) rest"
      "TIMER_ID_BASE + global_timer_id_unique s1 + 1 \<notin> snd ` rest" if "j < MAX_WIN_TIMERS"
  proof -
    have "slot_win s1 j = 0" using scan_win_at [of "\<lambda>t. win_timer_id t = 0" "winTimer s1"] that len by (simp add: j_def)
    moreover have "n \<notin> fst ` running s1" by (auto simp: d(2))
    ultimately show "sim_inv (fill_win j n ms s1)"
      "running (fill_win j n ms s1) = insert (n, TIMER_ID_BASE + global_timer_id_unique s1 + 1) rest"
      "TIMER_ID_BASE + global_timer_id_unique s1 + 1 \<notin> snd ` rest"
      using fill_win_ok(1,2) [OF d(1), of j n ms] fill_win_ok(3) [OF d(1), of j n] that len assms(2) by (simp_all add: rest)
  qed
  show "sim_inv (fst (win_start_timer n ms s))" using unfold fill(1) d(1) by simp
  show "\<exists>w. w \<noteq> 0 \<and> w \<notin> snd ` rest \<and> snd (win_start_timer n ms s) = w
      \<and> running (fst (win_start_timer n ms s)) = insert (n, w) rest \<and> host_timers (fst (win_start_timer n ms s)) w = Some ms"
    if "card rest < MAX_WIN_TIMERS"
  proof -
    have "0 \<le> global_timer_id_unique s1" using d(1) by (simp add: sim_inv_def)
    then show ?thesis
      using that fill(2,3) unfolding free unfold
      by (intro exI [of _ "TIMER_ID_BASE + global_timer_id_unique s1 + 1"])
        (simp add: fill_win_def SetTimer_def Let_def TIMER_ID_BASE_def)
  qed
  show "snd (win_start_timer n ms s) = 0 \<and> running (fst (win_start_timer n ms s)) = rest" if "\<not> card rest < MAX_WIN_TIMERS"
    using that unfolding free unfold by (simp add: rest)
qed

lemma win_stop_refines:
  assumes "sim_inv s" and "n \<noteq> 0"
  shows "sim_inv (fst (win_stop_timer n s))" and "running (fst (win_stop_timer n s)) = {(u, w) \<in> running s. u \<noteq> n}"
  using drop_user_ok [OF assms] by (simp_all add: win_stop_timer_def drop_user_def Let_def)

lemma win_timeout_refines:
  assumes "sim_inv s" and "w \<noteq> 0"
  shows "(u, w) \<in> running s \<Longrightarrow> \<exists>s'. win_timeout w s = Some (s', u) \<and> sim_inv s' \<and> running s' = running s - {(u, w)}"
    and "w \<notin> snd ` running s \<Longrightarrow> win_timeout w s = None"
proof -
  let ?i = "scan_win (\<lambda>t. win_timer_id t = w) (winTimer s)"
  have len: "length (winTimer s) = MAX_WIN_TIMERS" using assms(1) by (simp add: sim_inv_def)
  note less = scan_win_less [of "\<lambda>t. win_timer_id t = w" "winTimer s", unfolded len]
  show "win_timeout w s = None" if "w \<notin> snd ` running s"
  proof -
    have "\<not> ?i < MAX_WIN_TIMERS" unfolding less using that assms(2) by (force simp: running_def)
    then show ?thesis by (simp add: win_timeout_def)
  qed
  show "\<exists>s'. win_timeout w s = Some (s', u) \<and> sim_inv s' \<and> running s' = running s - {(u, w)}" if uw: "(u, w) \<in> running s"
  proof -
    have lt: "?i < MAX_WIN_TIMERS" unfolding less using uw by (auto simp: running_def)
    then have at: "slot_win s ?i = w" using scan_win_at [of "\<lambda>t. win_timer_id t = w" "winTimer s"] len by simp
    then have used: "used_win s ?i" using lt len assms(2) by (simp add: used_win_def)
    have "slot_user s ?i = u"
      using uw used at assms(1) unfolding running_image by (auto simp: sim_inv_def inj_on_def)
    moreover have "win_timeout w s = Some (kill_slot ?i s, slot_user s ?i)"
      using lt at by (simp add: win_timeout_def kill_slot_def Let_def)
    ultimately show ?thesis using kill_slot_ok(1,2) [OF assms(1) used] at by auto
  qed
qed

section \<open>A session of the simulator\<close>

text \<open>Starts and stops by Lua, a window timer that elapses, and the window that takes a timer message
  from its queue. The counter of starts is taken not to reach the end of its range.\<close>

inductive sim_step :: "simu \<Rightarrow> simu \<Rightarrow> bool" where
  sim_start: "n \<noteq> 0 \<Longrightarrow> global_timer_id_unique s < 2 ^ 15 - 1 \<Longrightarrow> sim_step s (fst (win_start_timer n ms s))"
| sim_stop: "n \<noteq> 0 \<Longrightarrow> sim_step s (fst (win_stop_timer n s))"
| sim_elapse: "w \<in> dom (host_timers s) \<Longrightarrow> sim_step s (s\<lparr>window_queue := window_queue s @ [w]\<rparr>)"
| sim_take: "window_queue s = w # q \<Longrightarrow> win_timeout w (s\<lparr>window_queue := q\<rparr>) = Some (s', u) \<Longrightarrow> sim_step s s'"

lemma used_win_queue [simp]: "used_win (s\<lparr>window_queue := q\<rparr>) = used_win s"
  by (rule ext) (simp add: used_win_def)

lemma sim_inv_queue [simp]: "sim_inv (s\<lparr>window_queue := q\<rparr>) = sim_inv s"
  by (simp add: sim_inv_def)

lemma sim_inv_step: "sim_step s s' \<Longrightarrow> sim_inv s \<Longrightarrow> sim_inv s'"
proof (induction rule: sim_step.induct)
  case (sim_start n s ms)
  then show ?case using win_start_refines(1) by blast
next
  case (sim_stop n s)
  then show ?case using win_stop_refines(1) by blast
next
  case (sim_take s w q s' u)
  let ?s = "s\<lparr>window_queue := q\<rparr>"
  have inv: "sim_inv ?s" using sim_take by simp
  let ?i = "scan_win (\<lambda>t. win_timer_id t = w) (winTimer ?s)"
  have i: "?i < MAX_WIN_TIMERS" "s' = clear_slot ?i (KillTimer w ?s)"
    using sim_take.hyps(2) by (auto simp: win_timeout_def Let_def split: if_splits)
  have len: "length (winTimer ?s) = MAX_WIN_TIMERS" using inv by (simp add: sim_inv_def)
  then have at: "slot_win ?s ?i = w" using scan_win_at [of "\<lambda>t. win_timer_id t = w" "winTimer ?s"] i(1) by simp
  show ?case
  proof (cases "w = 0")
    case False
    then have "used_win ?s ?i" using at i(1) len by (simp add: used_win_def)
    from kill_slot_ok(1) [OF inv this] show ?thesis using i(2) at by (simp only: kill_slot_def)
  next
    case True
    then have "winTimer ?s ! ?i = zero_info" using at inv i(1) len by (simp add: sim_inv_def)
    then have "winTimer s' = winTimer ?s" by (simp add: i(2) clear_slot_def KillTimer_def)
      (metis list_update_id)
    moreover have "0 \<notin> dom (host_timers s)" using inv by (auto simp: sim_inv_def TIMER_ID_BASE_def)
    then have "host_timers s' = host_timers s" using True by (auto simp: i(2) clear_slot_def KillTimer_def domIff)
    moreover have "global_timer_id_unique s' = global_timer_id_unique s" by (simp add: i(2) clear_slot_def KillTimer_def)
    moreover have "used_win s' = used_win s" by (rule ext) (simp add: used_win_def calculation(1))
    ultimately show ?thesis using inv by (simp add: sim_inv_def)
  qed
qed simp

lemma sim_inv_boot: "sim_inv WM_CREATE"
proof -
  have "used_win WM_CREATE = (\<lambda>i. False)" by (rule ext) (simp add: used_win_def WM_CREATE_def)
  then show ?thesis by (auto simp: sim_inv_def) (simp_all add: WM_CREATE_def)
qed

lemma sim_reachable: "sim_step\<^sup>*\<^sup>* WM_CREATE s \<Longrightarrow> sim_inv s"
  by (induction rule: rtranclp_induct) (use sim_inv_boot sim_inv_step in auto)



section \<open>Where it goes wrong\<close>

text \<open>The number 0 is also that of every free entry. A free entry before that of a running timer 0
  hides it: after 1 and 0 were started and both stopped, the window timer of 0 still runs, for good.\<close>

definition leak :: simu where
  "leak = fst (win_stop_timer 0 (fst (win_stop_timer 1 (fst (win_start_timer 0 50 (fst (win_start_timer 1 50 WM_CREATE)))))))"

lemma timer_zero_leaks: "host_timers leak 0x2002 = Some 50"
  by code_simp

text \<open>A message that waits in the queue while its timer is stopped finds no entry: the handler writes
  behind the table and sends a number it never set.\<close>

definition stale :: simu where
  "stale = fst (win_stop_timer 5 ((fst (win_start_timer 5 50 WM_CREATE))\<lparr>window_queue := [0x2001]\<rparr>))"

lemma stale_message: "window_queue stale = [0x2001] \<and> win_timeout 0x2001 stale = None"
  by code_simp

lemma stale_reachable: "sim_step\<^sup>*\<^sup>* WM_CREATE stale"
proof -
  let ?s = "fst (win_start_timer 5 50 WM_CREATE)"
  have "sim_step WM_CREATE ?s" by (rule sim_start) (simp_all add: WM_CREATE_def)
  moreover have "host_timers ?s 0x2001 = Some 50" "window_queue ?s = []" by code_simp+
  then have "sim_step ?s (?s\<lparr>window_queue := [0x2001]\<rparr>)" using sim_elapse [where w = "0x2001" and s = ?s] by (simp add: domIff)
  moreover have "sim_step (?s\<lparr>window_queue := [0x2001]\<rparr>) stale" unfolding stale_def by (rule sim_stop) simp
  ultimately show ?thesis by (meson converse_rtranclp_into_rtranclp r_into_rtranclp)
qed

text \<open>The wait timer of a receive that was answered by another message stays set: a later wait without a
  limit is ended by it, which the firmware's \<open>platform_rtos_receive\<close> prevents by stopping the timer.\<close>

lemma wait_timer_left:
  "snd (sim_rtos_receive 500 [SIMU_RTOS_MSG (Msg_TIMER 3)] WM_CREATE) = Some (Msg_TIMER 3, [])"
  "host_timers (fst (sim_rtos_receive 500 [SIMU_RTOS_MSG (Msg_TIMER 3)] WM_CREATE)) 0x2001 = Some 500"
  "snd (sim_rtos_receive 0 [SIMU_TIMER_MSG RTOS_WAIT_MSG_TIMER_ID] s) = Some (Msg_WAIT_MSG_TIMEOUT, [])"
  by (code_simp, code_simp, simp add: sim_rtos_receive_def sim_turn_def)

text \<open>Otherwise the loop answers with the first message that is one for Lua.\<close>

lemma sim_loop_first: "sim_loop ms = (case dropWhile (\<lambda>m. sim_turn m = None) ms of [] \<Rightarrow> None
    | m # ms' \<Rightarrow> Some (the (sim_turn m), ms'))"
  by (induction ms) (auto split: option.splits)

end
