(* ===== verification/SimEvent.thy ===== *)
theory SimEvent
  imports Prelude
begin

text \<open>
  The events of the PC simulator: the linked list of \<open>platform/win32/src/list.c\<close>, the registry of
  \<open>event.c\<close> and the packets of \<open>daemon.c\<close>, with the pointers of the code: an address is a number, 0 is
  \<open>NULL\<close>, and an access to an address that holds nothing is \<open>None\<close>. The theory relates the memory to
  the list of events, and shows where the two conventions for the end of a list in the code collide.
\<close>

section \<open>Linked lists\<close>

record list_head =
  prev :: nat
  lnext :: nat

type_synonym links = "nat \<rightharpoonup> list_head"

definition get_next :: "links \<Rightarrow> nat \<Rightarrow> nat option" where
  "get_next h p = map_option lnext (h p)"

definition set_next :: "nat \<Rightarrow> nat \<Rightarrow> links \<Rightarrow> links option" where
  "set_next p x h = map_option (\<lambda>n. h(p \<mapsto> n\<lparr>lnext := x\<rparr>)) (h p)"

definition set_prev :: "nat \<Rightarrow> nat \<Rightarrow> links \<Rightarrow> links option" where
  "set_prev p x h = map_option (\<lambda>n. h(p \<mapsto> n\<lparr>prev := x\<rparr>)) (h p)"

definition list_add_after :: "nat \<Rightarrow> nat \<Rightarrow> links \<Rightarrow> links option" where
  "list_add_after node pos h =
     (case h pos of None \<Rightarrow> None
      | Some p \<Rightarrow>
          if lnext p = 0 \<and> prev p = 0 then
            Option.bind (set_next pos node h) (\<lambda>h. Option.bind (set_prev node pos h) (set_next node 0))
          else
            Option.bind (set_prev node pos h) (\<lambda>h. Option.bind (get_next h pos) (\<lambda>n.
            Option.bind (set_next node n h) (\<lambda>h. Option.bind (set_prev n node h) (set_next pos node)))))"

definition list_add_before :: "nat \<Rightarrow> nat \<Rightarrow> links \<Rightarrow> links option" where
  "list_add_before node pos h =
     (case h pos of None \<Rightarrow> None
      | Some p \<Rightarrow>
          Option.bind (set_prev node (prev p) h) (\<lambda>h. Option.bind (set_next node pos h) (\<lambda>h.
          Option.bind (map_option prev (h pos)) (\<lambda>q. Option.bind (set_next q node h) (set_prev pos node)))))"

definition list_del :: "nat \<Rightarrow> links \<Rightarrow> links option" where
  "list_del node h =
     (case h node of None \<Rightarrow> None
      | Some n \<Rightarrow> Option.bind (set_next (prev n) (lnext n) h) (\<lambda>h.
          Option.bind (h node) (\<lambda>n. set_prev (lnext n) (prev n) h)))"

section \<open>The registry\<close>

text \<open>An event is a link and its data at the same address; \<open>cb\<close> is the address of its function. The
  list starts at the static \<open>event_list\<close>.\<close>

record event_t =
  evt_id :: u8
  evt_cb :: nat

definition event_list :: nat where "event_list = 1"

record events =
  links :: links
  evts :: "nat \<rightharpoonup> event_t"

definition events0 :: events where
  "events0 = \<lparr>links = [event_list \<mapsto> \<lparr>prev = 0, lnext = 0\<rparr>], evts = Map.empty\<rparr>"

text \<open>\<open>a\<close>: the address \<open>calloc\<close> returns.\<close>

definition add_event :: "nat \<Rightarrow> u8 \<Rightarrow> nat \<Rightarrow> events \<Rightarrow> events option" where
  "add_event a n cb s =
     map_option (\<lambda>l. s\<lparr>links := l, evts := (evts s)(a \<mapsto> \<lparr>evt_id = n, evt_cb = cb\<rparr>)\<rparr>)
       (list_add_after a event_list ((links s)(a \<mapsto> \<lparr>prev = 0, lnext = 0\<rparr>)))"

definition remove_event :: "nat \<Rightarrow> events \<Rightarrow> events option" where
  "remove_event a s =
     (if a = 0 then Some s
      else map_option (\<lambda>l. s\<lparr>links := l(a := None), evts := (evts s)(a := None)\<rparr>) (list_del a (links s)))"

text \<open>The loop of \<open>dispatch_event\<close>: the function called, with the rest of the data. The first byte is
  read as a signed \<open>char\<close> and compared with an unsigned one.\<close>

partial_function (option) dispatch_loop :: "events \<Rightarrow> int \<Rightarrow> nat \<Rightarrow> nat option option" where
  "dispatch_loop s e pos =
     (if pos = event_list then Some None
      else case evts s pos of None \<Rightarrow> None
        | Some v \<Rightarrow>
            if uint (evt_id v) = e \<and> evt_cb v \<noteq> 0 then Some (Some (evt_cb v))
            else case get_next (links s) pos of None \<Rightarrow> None | Some n \<Rightarrow> dispatch_loop s e n)"

definition dispatch_event :: "byte list \<Rightarrow> events \<Rightarrow> (nat \<times> byte list) option option" where
  "dispatch_event data s =
     (case data of [] \<Rightarrow> Some None
      | d # rest \<Rightarrow>
          Option.bind (get_next (links s) event_list) (\<lambda>n.
            map_option (map_option (\<lambda>cb. (cb, rest))) (dispatch_loop s (sint d) n)))"

section \<open>Packets\<close>

definition net_store_16 :: "u16 \<Rightarrow> byte list" where
  "net_store_16 v = [ucast (drop_bit 8 v), ucast v]"

definition READ_NET_16 :: "byte list \<Rightarrow> nat \<Rightarrow> u16" where
  "READ_NET_16 buffer pos = (ucast (buffer ! (pos + 1)) OR push_bit 8 (ucast (buffer ! pos)))"

text \<open>The packet of \<open>daemon_emit_event\<close>; its length is computed in 16 bits.\<close>

definition daemon_emit_event :: "u8 \<Rightarrow> byte list \<Rightarrow> byte list" where
  "daemon_emit_event n data = net_store_16 (of_nat (length data + 1 + 2)) @ n # data"

text \<open>A turn of the loop of \<open>daemon_thread_entry\<close> with a packet received: what is dispatched.\<close>

definition daemon_receive :: "byte list \<Rightarrow> byte list option" where
  "daemon_receive buf =
     (if length buf > 2 \<and> uint (READ_NET_16 buf 0) = int (length buf) then Some (drop 2 buf) else None)"

text \<open>A packet that the other side frames in the same way arrives as it was sent.\<close>

lemma packet_roundtrip:
  assumes "length data + 3 < 2 ^ 16"
  shows "daemon_receive (daemon_emit_event n data) = Some (n # data)"
proof -
  define v :: u16 where "v = of_nat (length data + 3)"
  have "ucast (ucast v :: byte) OR push_bit 8 (ucast (ucast (drop_bit 8 v) :: byte)) = v"
    by (rule bit_word_eqI) (auto simp: bit_simps)
  then have "READ_NET_16 (daemon_emit_event n data) 0 = v"
    by (simp add: READ_NET_16_def daemon_emit_event_def net_store_16_def v_def add.commute)
  moreover have "uint v = int (length data + 3)"
    using assms unfolding v_def by (simp add: unsigned_of_nat take_bit_nat_eq_self flip: uint_nat of_nat_add)
  ultimately show ?thesis by (simp add: daemon_receive_def daemon_emit_event_def net_store_16_def)
qed

section \<open>The memory of a list of events\<close>

text \<open>From \<open>p\<close> on, the addresses \<open>xs\<close> follow each other up to \<open>r\<close>; \<open>q\<close> is the element before.\<close>

fun chain :: "links \<Rightarrow> nat \<Rightarrow> nat \<Rightarrow> nat list \<Rightarrow> nat \<Rightarrow> bool" where
  "chain h q p [] r \<longleftrightarrow> p = r"
| "chain h q p (x # xs) r \<longleftrightarrow> p = x \<and> (\<exists>n. h x = Some n \<and> prev n = q \<and> chain h x (lnext n) xs r)"

definition holds :: "events \<Rightarrow> nat list \<Rightarrow> bool" where
  "holds s xs \<longleftrightarrow> distinct xs \<and> 0 \<notin> set xs \<and> event_list \<notin> set xs \<and> set xs \<subseteq> dom (evts s)
    \<and> links s 0 = None \<and> evts s 0 = None
    \<and> (\<exists>n. links s event_list = Some n \<and> prev n = 0 \<and> chain (links s) event_list (lnext n) xs 0)"

lemma chain_other: "a \<notin> set xs \<Longrightarrow> chain (h(a := v)) q p xs r = chain h q p xs r"
  by (induction xs arbitrary: q p) auto

lemma chain_append:
  "chain h q p (xs @ ys) r \<longleftrightarrow> (\<exists>m. chain h q p xs m \<and> chain h (last (q # xs)) m ys r)"
  by (induction xs arbitrary: q p) auto

lemma chain_last:
  "chain h q p xs r \<Longrightarrow> distinct xs \<Longrightarrow> xs \<noteq> [] \<Longrightarrow>
    \<exists>n. h (last xs) = Some n \<and> chain (h(last xs \<mapsto> n\<lparr>lnext := m\<rparr>)) q p xs m"
proof (induction xs arbitrary: q p)
  case (Cons x xs)
  show ?case
  proof (cases "xs = []")
    case False
    from Cons.prems obtain n where n: "h x = Some n" "prev n = q" "chain h x (lnext n) xs r" "p = x" by auto
    have "distinct xs" using Cons.prems(2) by simp
    from Cons.IH [OF n(3) this False] obtain k where
      k: "h (last xs) = Some k" "chain (h(last xs \<mapsto> k\<lparr>lnext := m\<rparr>)) x (lnext n) xs m" by blast
    have "last xs \<noteq> x" using Cons.prems(2) last_in_set [OF False] by auto
    moreover have "last (x # xs) = last xs" using False by simp
    ultimately show ?thesis using n k unfolding chain.simps by (metis fun_upd_other)
  qed (use Cons.prems in auto)
qed simp

lemma holds0: "holds events0 []"
  by (simp add: holds_def events0_def event_list_def)

lemma link_ops:
  "h p = Some n \<Longrightarrow> set_next p x h = Some (h(p \<mapsto> n\<lparr>lnext := x\<rparr>))"
  "h p = Some n \<Longrightarrow> set_prev p x h = Some (h(p \<mapsto> n\<lparr>prev := x\<rparr>))"
  "h p = Some n \<Longrightarrow> get_next h p = Some (lnext n)"
  by (simp_all add: set_next_def set_prev_def get_next_def)

text \<open>A new event comes to the front.\<close>

lemma add_event_holds:
  assumes "holds s xs" and "a \<notin> set xs" and "a \<noteq> 0" and "a \<noteq> event_list"
  shows "\<exists>s'. add_event a n cb s = Some s' \<and> holds s' (a # xs) \<and> evts s' = (evts s)(a \<mapsto> \<lparr>evt_id = n, evt_cb = cb\<rparr>)"
proof -
  obtain hd where hd: "links s event_list = Some hd" "prev hd = 0" "chain (links s) event_list (lnext hd) xs 0"
    using assms(1) by (auto simp: holds_def)
  have e0: "event_list \<noteq> 0" by (simp add: event_list_def)
  show ?thesis
  proof (cases xs)
    case Nil
    then show ?thesis
      using assms hd e0 by (auto simp: add_event_def list_add_after_def link_ops holds_def Option.bind_eq_Some_conv)
  next
    case (Cons x ys)
    then obtain k where k: "lnext hd = x" "links s x = Some k" "prev k = event_list" "chain (links s) x (lnext k) ys 0"
      using hd(3) by auto
    have ne: "x \<noteq> 0" "x \<noteq> event_list" "x \<noteq> a" "x \<notin> set ys" "event_list \<notin> set ys" "a \<notin> set ys"
      using assms Cons by (auto simp: holds_def)
    let ?h = "(links s)(a \<mapsto> \<lparr>prev = event_list, lnext = x\<rparr>, x \<mapsto> k\<lparr>prev := a\<rparr>, event_list \<mapsto> hd\<lparr>lnext := a\<rparr>)"
    have "list_add_after a event_list ((links s)(a \<mapsto> \<lparr>prev = 0, lnext = 0\<rparr>)) = Some ?h"
      using hd k ne assms(3,4) by (simp add: list_add_after_def link_ops fun_upd_twist)
    moreover have "chain ?h x (lnext k) ys 0" using k(4) ne by (simp add: chain_other)
    ultimately show ?thesis
      using assms hd k ne Cons e0 by (auto simp: add_event_def holds_def)
  qed
qed

text \<open>Dispatching calls the newest event of that number. For a number without an event the loop runs
  past the end of the list, which is \<open>NULL\<close> and not the head, and reads there.\<close>

definition matches :: "events \<Rightarrow> int \<Rightarrow> nat \<Rightarrow> bool" where
  "matches s e x \<longleftrightarrow> (case evts s x of None \<Rightarrow> False | Some v \<Rightarrow> uint (evt_id v) = e \<and> evt_cb v \<noteq> 0)"

lemma dispatch_loop_chain:
  "chain (links s) q p xs 0 \<Longrightarrow> set xs \<subseteq> dom (evts s) \<Longrightarrow> event_list \<notin> set xs \<Longrightarrow> evts s 0 = None \<Longrightarrow>
    dispatch_loop s e p = (case find (matches s e) xs of None \<Rightarrow> None | Some x \<Rightarrow> Some (Some (evt_cb (the (evts s x)))))"
proof (induction xs arbitrary: q p)
  case Nil
  then show ?case by (subst dispatch_loop.simps) (simp add: event_list_def)
next
  case (Cons x xs)
  then obtain n v where nv: "links s x = Some n" "evts s x = Some v" "p = x" "chain (links s) x (lnext n) xs 0" by auto
  have "dispatch_loop s e (lnext n)
      = (case find (matches s e) xs of None \<Rightarrow> None | Some x \<Rightarrow> Some (Some (evt_cb (the (evts s x)))))"
    using Cons.IH [OF nv(4)] Cons.prems by simp
  moreover have "matches s e x \<longleftrightarrow> uint (evt_id v) = e \<and> evt_cb v \<noteq> 0" using nv(2) by (simp add: matches_def)
  moreover have "x \<noteq> event_list" using Cons.prems(3) by simp
  ultimately show ?case using nv by (subst dispatch_loop.simps) (simp add: get_next_def)
qed

theorem dispatch_event_correct:
  assumes "holds s xs"
  shows "dispatch_event (d # rest) s =
    (case find (matches s (sint d)) xs of None \<Rightarrow> None | Some x \<Rightarrow> Some (Some (evt_cb (the (evts s x)), rest)))"
proof -
  obtain n where n: "links s event_list = Some n" "chain (links s) event_list (lnext n) xs 0"
    using assms by (auto simp: holds_def)
  show ?thesis
    using dispatch_loop_chain [OF n(2), of "sint d"] assms n(1)
    by (auto simp: dispatch_event_def get_next_def holds_def split: option.splits)
qed

text \<open>Numbers from 128 on are never found: they are read as negative.\<close>

lemma no_high_numbers:
  assumes "holds s xs" and "128 \<le> d"
  shows "dispatch_event (d # rest) s = None"
proof -
  have "128 \<le> uint d" "uint d < 256" using assms(2) unsigned_less [of d, where 'a = int] by (simp_all add: word_le_def)
  then have "uint d div 128 = 1" by presburger
  then have "bit (uint d) 7" by (simp add: bit_iff_odd)
  then have "sint d < 0" by (simp add: sint_uint)
  then have "uint v \<noteq> sint d" for v :: u8 using uint_ge_0 [of v] by linarith
  then have "\<not> matches s (sint d) x" for x
    by (simp add: matches_def split: option.splits)
  then have "find (matches s (sint d)) xs = None" by (simp add: find_None_iff)
  then show ?thesis using dispatch_event_correct [OF assms(1)] by simp
qed

text \<open>An event is taken out of the list, unless it is the last one: that has no successor to update.\<close>

lemma remove_event_holds:
  assumes "holds s (xs @ a # y # ys)"
  shows "\<exists>s'. remove_event a s = Some s' \<and> holds s' (xs @ y # ys) \<and> evts s' = (evts s)(a := None)"
proof -
  obtain hd where hd: "links s event_list = Some hd" "prev hd = 0"
      "chain (links s) event_list (lnext hd) (xs @ a # y # ys) 0"
    using assms by (auto simp: holds_def)
  let ?q = "last (event_list # xs)"
  obtain n k where n: "chain (links s) event_list (lnext hd) xs a" "links s a = Some n" "prev n = ?q" "lnext n = y"
      "links s y = Some k" "chain (links s) y (lnext k) ys 0"
    using hd(3) by (auto simp: chain_append)
  have ne: "a \<noteq> 0" "a \<noteq> event_list" "y \<noteq> event_list" "a \<noteq> y" "a \<notin> set xs" "a \<notin> set ys" "y \<notin> set xs" "y \<notin> set ys"
      "event_list \<notin> set xs" "event_list \<notin> set ys" "distinct xs" "set xs \<inter> set ys = {}"
    using assms by (auto simp: holds_def)
  have zero: "0 \<notin> set xs" "y \<noteq> 0" "event_list \<noteq> 0" using assms by (auto simp: holds_def event_list_def)
  have "?q = event_list \<or> ?q \<in> set xs" by auto
  then have q: "?q \<noteq> a" "?q \<noteq> y" "?q \<notin> set ys" "?q \<noteq> 0" using ne zero by (auto simp del: last.simps)
  obtain m where m: "links s ?q = Some m"
    using hd(1) chain_last [OF n(1) ne(11)] by (cases "xs = []") auto
  let ?h = "(links s)(?q \<mapsto> m\<lparr>lnext := y\<rparr>, y \<mapsto> k\<lparr>prev := ?q\<rparr>)"
  have "list_del a (links s) = Some ?h"
    using n m q ne by (simp add: list_del_def link_ops)
  then have run: "remove_event a s = Some (s\<lparr>links := ?h(a := None), evts := (evts s)(a := None)\<rparr>)"
    using ne(1) by (simp add: remove_event_def)
  have front: "\<exists>n. (?h(a := None)) event_list = Some n \<and> prev n = 0 \<and> chain (?h(a := None)) event_list (lnext n) xs y"
  proof (cases "xs = []")
    case True
    then show ?thesis using m hd(1,2) ne by auto
  next
    case False
    then have "?q = last xs" "last xs \<noteq> event_list" using ne(9) last_in_set by (simp, metis)
    then show ?thesis
      using chain_last [OF n(1) ne(11) False, of y] m hd(1,2) ne False by (auto simp: chain_other)
  qed
  have "chain (?h(a := None)) ?q y (y # ys) 0" using n(6) q ne by (simp add: chain_other)
  then have "\<exists>n. (?h(a := None)) event_list = Some n \<and> prev n = 0
      \<and> chain (?h(a := None)) event_list (lnext n) (xs @ y # ys) 0"
    using front unfolding chain_append by blast
  moreover have "(?h(a := None)) 0 = None" using assms q(4) zero(2) by (simp add: holds_def)
  moreover have "((evts s)(a := None)) 0 = None" "set (xs @ y # ys) \<subseteq> dom ((evts s)(a := None))"
    using assms ne by (auto simp: holds_def)
  ultimately show ?thesis
    unfolding run using assms by (simp add: holds_def)
qed

lemma remove_last_event:
  assumes "holds s (xs @ [a])"
  shows "remove_event a s = None"
proof -
  obtain hd where hd: "links s event_list = Some hd" "chain (links s) event_list (lnext hd) (xs @ [a]) 0"
    using assms by (auto simp: holds_def)
  let ?q = "last (event_list # xs)"
  obtain n where n: "chain (links s) event_list (lnext hd) xs a" "links s a = Some n" "prev n = ?q" "lnext n = 0"
    using hd(2) by (auto simp: chain_append)
  have ne: "a \<noteq> 0" "a \<notin> set xs" "a \<noteq> event_list" "distinct xs" "links s 0 = None" "0 \<notin> set xs" using assms by (auto simp: holds_def)
  obtain m where m: "links s ?q = Some m"
    using hd(1) chain_last [OF n(1) ne(4)] by (cases "xs = []") auto
  have "event_list \<noteq> 0" by (simp add: event_list_def)
  moreover have "?q = event_list \<or> ?q \<in> set xs" by auto
  ultimately have "?q \<noteq> a" "?q \<noteq> 0" using ne by metis+
  then show ?thesis
    using n m ne by (simp add: remove_event_def list_del_def link_ops set_prev_def)
qed

end
