(* ===== verification/SimGpio.thy ===== *)
theory SimGpio
  imports SimEvent RtosMod
begin

text \<open>
  The pins and keys of the PC simulator, \<open>platform/win32/src/sim_gpio.c\<close> and \<open>sim_key.c\<close>, over the events
  of theory \<open>SimEvent\<close>. The other side of the connection shows the pins: it is told of every change of a
  direction or an output, and reports changes of inputs. An index outside its dimension is \<open>None\<close>.
\<close>

section \<open>State\<close>

definition GPIO_EVENT_DIR :: u8 where "GPIO_EVENT_DIR = 1"
definition GPIO_EVENT_SET :: u8 where "GPIO_EVENT_SET = 2"
definition GPIO_EVENT_CHANGE :: u8 where "GPIO_EVENT_CHANGE = 3"
definition GPIO_DIR_NOT_OPEN :: u8 where "GPIO_DIR_NOT_OPEN = 0"
definition GPIO_DIR_OUTPUT :: u8 where "GPIO_DIR_OUTPUT = 1"
definition GPIO_DIR_INPUT :: u8 where "GPIO_DIR_INPUT = 2"
definition GPIO_DIR_INT :: u8 where "GPIO_DIR_INT = 3"
definition EVENT_KEY :: u8 where "EVENT_KEY = 0x10"
definition EVENT_GPIO :: u8 where "EVENT_GPIO = 0x11"

lemmas sim_gpio_consts = GPIO_EVENT_DIR_def GPIO_EVENT_SET_def GPIO_EVENT_CHANGE_def GPIO_DIR_NOT_OPEN_def
  GPIO_DIR_OUTPUT_def GPIO_DIR_INPUT_def GPIO_DIR_INT_def EVENT_KEY_def EVENT_GPIO_def

record gpio_value_t =
  dir :: u8
  val :: u8

text \<open>\<open>posted\<close>: the messages sent to Lua; \<open>outbox\<close>: the packets sent, in the order of sending.\<close>

record sim_pins =
  gpio_value :: "gpio_value_t list list"
  posted :: "PlatformMessage list"
  outbox :: "byte list list"

definition closed_pins :: sim_pins where
  "closed_pins = \<lparr>gpio_value = replicate NUM_PIO (replicate 32 \<lparr>dir = 0, val = 0\<rparr>), posted = [], outbox = []\<rparr>"

definition pin_ok :: "u8 \<Rightarrow> u8 \<Rightarrow> bool" where
  "pin_ok port pin \<longleftrightarrow> unat port < NUM_PIO \<and> unat pin < 32"

definition pin_of :: "sim_pins \<Rightarrow> u8 \<Rightarrow> u8 \<Rightarrow> gpio_value_t" where
  "pin_of s port pin = gpio_value s ! unat port ! unat pin"

definition set_pin :: "u8 \<Rightarrow> u8 \<Rightarrow> gpio_value_t \<Rightarrow> sim_pins \<Rightarrow> sim_pins" where
  "set_pin port pin v s = s\<lparr>gpio_value := (gpio_value s)[unat port := (gpio_value s ! unat port)[unat pin := v]]\<rparr>"

definition send_event :: "u8 \<Rightarrow> byte list \<Rightarrow> sim_pins \<Rightarrow> sim_pins" where
  "send_event n data s = s\<lparr>outbox := outbox s @ [daemon_emit_event n data]\<rparr>"

definition post :: "PlatformMessage \<Rightarrow> sim_pins \<Rightarrow> sim_pins" where
  "post m s = s\<lparr>posted := posted s @ [m]\<rparr>"

section \<open>From the other side\<close>

definition send_int_message :: "gpio_edge \<Rightarrow> u16 \<Rightarrow> sim_pins \<Rightarrow> sim_pins" where
  "send_int_message e resnum s = post (Msg_INT (edge_id e) resnum) s"

definition gpio_event_cb :: "byte list \<Rightarrow> sim_pins \<Rightarrow> sim_pins option" where
  "gpio_event_cb packet s =
     (if packet = [] then Some s
      else if packet ! 0 = GPIO_EVENT_CHANGE then
        (if length packet \<noteq> 4 then Some s
         else let port = packet ! 1; pin = packet ! 2; v = packet ! 3 in
           if \<not> pin_ok port pin then None
           else if \<not> (dir (pin_of s port pin) = GPIO_DIR_INPUT \<or> dir (pin_of s port pin) = GPIO_DIR_INT) then Some s
           else if val (pin_of s port pin) = v then Some s
           else let s = set_pin port pin ((pin_of s port pin)\<lparr>val := v\<rparr>) s in
             Some (if dir (pin_of s port pin) = GPIO_DIR_INT
               then send_int_message (if v = 1 then INT_GPIO_POSEDGE else INT_GPIO_NEGEDGE)
                      (word_of_int (PLATFORM_IO_ENCODE (uint port) (uint pin) False)) s
               else s))
      else Some s)"

definition keypad_event_cb :: "byte list \<Rightarrow> sim_pins \<Rightarrow> sim_pins option" where
  "keypad_event_cb data s =
     (if length data < 4 then None else Some (post (Msg_KEYPAD (data ! 1 \<noteq> 0) (data ! 3) (data ! 2)) s))"

text \<open>The two functions by their addresses.\<close>

definition gpio_cb_addr :: nat where "gpio_cb_addr = 0x1000"
definition keypad_cb_addr :: nat where "keypad_cb_addr = 0x2000"

definition run_cb :: "nat \<Rightarrow> byte list \<Rightarrow> sim_pins \<Rightarrow> sim_pins option" where
  "run_cb cb data s =
     (if cb = gpio_cb_addr then gpio_event_cb data s
      else if cb = keypad_cb_addr then keypad_event_cb data s else None)"

text \<open>A packet that arrives at the simulator.\<close>

definition daemon_turn :: "events \<Rightarrow> byte list \<Rightarrow> sim_pins \<Rightarrow> sim_pins option" where
  "daemon_turn ev buf s =
     (case daemon_receive buf of None \<Rightarrow> Some s
      | Some data \<Rightarrow>
          (case dispatch_event data ev of None \<Rightarrow> None
           | Some None \<Rightarrow> Some s
           | Some (Some (cb, rest)) \<Rightarrow> run_cb cb rest s))"

section \<open>From Lua\<close>

text \<open>The results -1, 0 and the value of a pin are an \<open>int\<close>.\<close>

definition set_dir :: "u8 \<Rightarrow> u8 \<Rightarrow> u8 \<Rightarrow> sim_pins \<Rightarrow> sim_pins \<times> int" where
  "set_dir port pin d s =
     (if d \<noteq> GPIO_DIR_NOT_OPEN \<and> dir (pin_of s port pin) \<noteq> GPIO_DIR_NOT_OPEN then (s, - 1)
      else (send_event EVENT_GPIO [GPIO_EVENT_DIR, port, pin, d] (set_pin port pin ((pin_of s port pin)\<lparr>dir := d\<rparr>) s), 0))"

definition gpio_set :: "u8 \<Rightarrow> u8 \<Rightarrow> u8 \<Rightarrow> sim_pins \<Rightarrow> sim_pins \<times> int" where
  "gpio_set port pin v s =
     (let s = (if port = 1 \<and> dir (pin_of s port pin) = GPIO_DIR_NOT_OPEN then fst (set_dir port pin GPIO_DIR_OUTPUT s) else s) in
      if dir (pin_of s port pin) \<noteq> GPIO_DIR_OUTPUT then (s, - 1)
      else if val (pin_of s port pin) \<noteq> v then
        (send_event EVENT_GPIO [GPIO_EVENT_SET, port, pin, v] (set_pin port pin ((pin_of s port pin)\<lparr>val := v\<rparr>) s), 0)
      else (s, 0))"

definition gpio_get :: "u8 \<Rightarrow> u8 \<Rightarrow> sim_pins \<Rightarrow> int" where
  "gpio_get port pin s =
     (if dir (pin_of s port pin) \<noteq> GPIO_DIR_INPUT \<and> dir (pin_of s port pin) \<noteq> GPIO_DIR_INT then - 1
      else uint (val (pin_of s port pin)))"

text \<open>One pin of the loop: what it does, and the result if it leaves the loop.\<close>

definition pin_turn :: "nat \<Rightarrow> u8 \<Rightarrow> u8 \<Rightarrow> sim_pins \<Rightarrow> sim_pins \<times> u32 option" where
  "pin_turn op port pin s =
     (let leave = (\<lambda>(s, r). (s, if r = - 1 then Some 0 else None)) in
      if op = PLATFORM_IO_PIN_DIR_INT then leave (set_dir port pin GPIO_DIR_INT s)
      else if op = PLATFORM_IO_PIN_DIR_INPUT then leave (set_dir port pin GPIO_DIR_INPUT s)
      else if op = PLATFORM_IO_PIN_DIR_OUTPUT \<or> op = PLATFORM_IO_PIN_DIR_OUTPUT1 then leave (set_dir port pin GPIO_DIR_OUTPUT s)
      else if op = PLATFORM_IO_PIN_SET then leave (gpio_set port pin 1 s)
      else if op = PLATFORM_IO_PIN_CLEAR then leave (gpio_set port pin 0 s)
      else if op = PLATFORM_IO_PIN_GET then (s, Some (word_of_int (gpio_get port pin s)))
      else if op = PLATFORM_IO_PIN_CLOSE then leave (set_dir port pin GPIO_DIR_NOT_OPEN s)
      else (s, None))"

fun sim_pio_loop :: "nat \<Rightarrow> u8 \<Rightarrow> nat list \<Rightarrow> sim_pins \<Rightarrow> sim_pins \<times> u32" where
  "sim_pio_loop op port [] s = (s, 1)"
| "sim_pio_loop op port (p # ps) s =
     (case pin_turn op port (of_nat p) s of (s, Some r) \<Rightarrow> (s, r) | (s, None) \<Rightarrow> sim_pio_loop op port ps s)"

definition sim_pio_op :: "u32 \<Rightarrow> u32 \<Rightarrow> nat \<Rightarrow> sim_pins \<Rightarrow> (sim_pins \<times> u32) option" where
  "sim_pio_op port_val pinmask op s =
     (let port = ucast port_val :: u8; pins = filter (bit pinmask) [0..<32] in
      if pins \<noteq> [] \<and> op \<in> {PLATFORM_IO_PIN_DIR_INT, PLATFORM_IO_PIN_DIR_INPUT, PLATFORM_IO_PIN_DIR_OUTPUT, PLATFORM_IO_PIN_DIR_OUTPUT1,
           PLATFORM_IO_PIN_SET, PLATFORM_IO_PIN_CLEAR, PLATFORM_IO_PIN_GET, PLATFORM_IO_PIN_CLOSE} \<and> \<not> unat port < NUM_PIO
      then None else Some (sim_pio_loop op port pins s))"

section \<open>An input reaches Lua\<close>

definition pins_inv :: "sim_pins \<Rightarrow> bool" where
  "pins_inv s \<longleftrightarrow> length (gpio_value s) = NUM_PIO \<and> (\<forall>r \<in> set (gpio_value s). length r = 32)"

lemma pin_of_set:
  assumes "pins_inv s" and "pin_ok port pin" and "pin_ok port' pin'"
  shows "pin_of (set_pin port pin v s) port' pin' = (if port' = port \<and> pin' = pin then v else pin_of s port' pin')"
proof -
  have "length (gpio_value s ! unat port) = 32" using assms(1,2) by (auto simp: pins_inv_def pin_ok_def)
  then show ?thesis
    using assms by (auto simp: pin_of_def set_pin_def nth_list_update pin_ok_def pins_inv_def word_unat_eq_iff)
qed

lemma pins_inv_set: "pins_inv s \<Longrightarrow> pin_ok port pin \<Longrightarrow> pins_inv (set_pin port pin v s)"
  by (auto simp: pins_inv_def set_pin_def pin_ok_def dest!: set_update_subset_insert [THEN subsetD])

lemma pins_inv_more [simp]: "pins_inv (send_event n d s) = pins_inv s" "pins_inv (post m s) = pins_inv s"
    "pin_of (send_event n d s) = pin_of s" "pin_of (post m s) = pin_of s"
  by (auto simp: pins_inv_def send_event_def post_def pin_of_def fun_eq_iff)

lemma encode_pin:
  assumes "pin_ok port pin"
  shows "uint (word_of_int (PLATFORM_IO_ENCODE (uint port) (uint pin) False) :: u16) = 32 * uint port + uint pin"
proof -
  have "int (unat pin) < int 32" "int (unat port) < int 3"
    using assms unfolding of_nat_less_iff by (simp_all add: pin_ok_def NUM_PIO_def)
  then have b: "uint pin < 32" "0 \<le> uint pin" "uint port < 3" "0 \<le> uint port" by simp_all
  then have t: "take_bit 5 (uint pin) = uint pin" by (simp add: take_bit_int_eq_self)
  have lt: "bit (uint pin) n \<Longrightarrow> n < 5" for n using t by (metis bit_take_bit_iff)
  have "push_bit 5 (uint port) OR uint pin = push_bit 5 (uint port) + uint pin"
    by (rule disjunctive_add [symmetric]) (metis bit_push_bit_iff leD lt)
  then have "PLATFORM_IO_ENCODE (uint port) (uint pin) False = 32 * uint port + uint pin"
    by (simp add: PLATFORM_IO_ENCODE_def PLATFORM_IO_PINS_BITS_def push_bit_eq_mult)
  moreover have "(32 * uint port + uint pin) mod 2 ^ 16 = 32 * uint port + uint pin" using b by (intro mod_pos_pos_trivial) simp_all
  ultimately show ?thesis by (simp only: uint_word_of_int) simp
qed

text \<open>An input pin takes a level that is new.\<close>

definition takes_level :: "gpio_value_t \<Rightarrow> u8 \<Rightarrow> bool" where
  "takes_level p v \<longleftrightarrow> (dir p = GPIO_DIR_INPUT \<or> dir p = GPIO_DIR_INT) \<and> val p \<noteq> v"

text \<open>C34. From the other side of the connection to Lua: a report of a pin's level, framed as a packet,
  passes the daemon, the list of events and the handler; it changes that pin and no other, and only if
  the pin is an input and the level is new; and Lua gets a message exactly if the pin is configured
  for interrupts, with the edge and the code of the pin.\<close>

theorem sim_input_reaches_lua:
  assumes "holds ev xs" and "find (matches ev (uint EVENT_GPIO)) xs = Some x" and "evt_cb (the (evts ev x)) = gpio_cb_addr"
    and "pins_inv s" and "pin_ok port pin"
  defines "p \<equiv> pin_of s port pin"
  shows "\<exists>s'. daemon_turn ev (daemon_emit_event EVENT_GPIO [GPIO_EVENT_CHANGE, port, pin, v]) s = Some s' \<and> pins_inv s'
    \<and> (\<forall>port' pin'. pin_ok port' pin' \<longrightarrow> pin_of s' port' pin' =
          (if takes_level p v \<and> port' = port \<and> pin' = pin then p\<lparr>val := v\<rparr> else pin_of s port' pin'))
    \<and> map handle_msg (posted s') = map handle_msg (posted s) @
          (if takes_level p v \<and> dir p = GPIO_DIR_INT
           then [[LuaTable [(''id'', FInt 4), (''int_id'', FInt (if v = 1 then 1 else 2)),
                   (''int_resnum'', FInt (32 * uint port + uint pin))]]] else [])"
proof -
  have "daemon_receive (daemon_emit_event EVENT_GPIO [GPIO_EVENT_CHANGE, port, pin, v])
      = Some [EVENT_GPIO, GPIO_EVENT_CHANGE, port, pin, v]" by (rule packet_roundtrip) simp
  moreover have "sint EVENT_GPIO = uint EVENT_GPIO" by (simp add: EVENT_GPIO_def)
  then have "dispatch_event [EVENT_GPIO, GPIO_EVENT_CHANGE, port, pin, v] ev = Some (Some (gpio_cb_addr, [GPIO_EVENT_CHANGE, port, pin, v]))"
    using dispatch_event_correct [OF assms(1)] assms(2,3) by simp
  ultimately have turn: "daemon_turn ev (daemon_emit_event EVENT_GPIO [GPIO_EVENT_CHANGE, port, pin, v]) s
      = gpio_event_cb [GPIO_EVENT_CHANGE, port, pin, v] s"
    by (simp add: daemon_turn_def run_cb_def)
  show ?thesis
  proof (cases "takes_level p v")
    case False
    then have "gpio_event_cb [GPIO_EVENT_CHANGE, port, pin, v] s = Some s"
      using assms(5) by (auto simp: gpio_event_cb_def takes_level_def p_def)
    then show ?thesis using False assms(4) turn by simp
  next
    case True
    let ?s = "set_pin port pin (p\<lparr>val := v\<rparr>) s"
    have at: "pin_of ?s port' pin' = (if port' = port \<and> pin' = pin then p\<lparr>val := v\<rparr> else pin_of s port' pin')"
      if "pin_ok port' pin'" for port' pin' using pin_of_set [OF assms(4,5) that] by simp
    let ?m = "Msg_INT (edge_id (if v = 1 then INT_GPIO_POSEDGE else INT_GPIO_NEGEDGE))
      (word_of_int (PLATFORM_IO_ENCODE (uint port) (uint pin) False))"
    define s1 where "s1 = (if dir p = GPIO_DIR_INT then post ?m ?s else ?s)"
    have "gpio_event_cb [GPIO_EVENT_CHANGE, port, pin, v] s = Some s1"
      using True at [OF assms(5)] assms(5)
      by (simp add: gpio_event_cb_def takes_level_def send_int_message_def s1_def p_def Let_def)
    moreover have "pins_inv s1" "pin_of s1 = pin_of ?s"
      using pins_inv_set [OF assms(4,5)] by (simp_all add: s1_def)
    moreover have "posted s1 = posted s @ (if dir p = GPIO_DIR_INT then [?m] else [])"
      by (simp add: s1_def post_def set_pin_def)
    moreover have "handle_msg ?m = [LuaTable [(''id'', FInt 4), (''int_id'', FInt (if v = 1 then 1 else 2)),
                   (''int_resnum'', FInt (32 * uint port + uint pin))]]"
      using encode_pin [OF assms(5)] by (simp add: edge_id_def)
    ultimately show ?thesis using True at turn by simp
  qed
qed

definition gpio_events :: events where
  "gpio_events = the (add_event 5 EVENT_GPIO gpio_cb_addr events0)"

lemma gpio_events_ok: "holds gpio_events [5]" "find (matches gpio_events (uint EVENT_GPIO)) [5] = Some 5"
    "evt_cb (the (evts gpio_events 5)) = gpio_cb_addr"
proof -
  obtain s' where s': "add_event 5 EVENT_GPIO gpio_cb_addr events0 = Some s'" "holds s' [5]"
      "evts s' = (evts events0)(5 \<mapsto> \<lparr>evt_id = EVENT_GPIO, evt_cb = gpio_cb_addr\<rparr>)"
    using add_event_holds [OF holds0, of 5 EVENT_GPIO gpio_cb_addr] by (auto simp: event_list_def)
  then show "holds gpio_events [5]" "find (matches gpio_events (uint EVENT_GPIO)) [5] = Some 5"
    "evt_cb (the (evts gpio_events 5)) = gpio_cb_addr"
    by (simp_all add: gpio_events_def matches_def gpio_cb_addr_def)
qed

definition int_pin :: sim_pins where
  "int_pin = fst (set_dir 0 7 GPIO_DIR_INT closed_pins)"

lemma int_pin_ok: "pins_inv int_pin" "pin_of int_pin 0 7 = \<lparr>dir = GPIO_DIR_INT, val = 0\<rparr>" "posted int_pin = []"
proof -
  have c: "pins_inv closed_pins" by (simp add: pins_inv_def closed_pins_def)
  then have "pins_inv (set_pin 0 7 v closed_pins)" for v by (rule pins_inv_set) (simp add: pin_ok_def NUM_PIO_def)
  then show "pins_inv int_pin" using c by (simp add: int_pin_def set_dir_def)
  show "pin_of int_pin 0 7 = \<lparr>dir = GPIO_DIR_INT, val = 0\<rparr>" "posted int_pin = []"
    by (simp_all add: int_pin_def set_dir_def closed_pins_def pin_of_def set_pin_def send_event_def NUM_PIO_def sim_gpio_consts)
qed

lemma sim_input_reaches_lua_witness:
  "\<exists>s'. daemon_turn gpio_events (daemon_emit_event EVENT_GPIO [GPIO_EVENT_CHANGE, 0, 7, 1]) int_pin = Some s'
    \<and> map handle_msg (posted s') = [[LuaTable [(''id'', FInt 4), (''int_id'', FInt 1), (''int_resnum'', FInt 7)]]]"
proof -
  have "pin_ok 0 7" by (simp add: pin_ok_def NUM_PIO_def)
  from sim_input_reaches_lua [OF gpio_events_ok int_pin_ok(1) this, of 1] show ?thesis
    using int_pin_ok(2,3) by (auto simp: takes_level_def sim_gpio_consts)
qed

section \<open>What Lua configures\<close>

text \<open>Opening closed pins sets exactly these pins, and tells the other side of each in order.\<close>

definition dir_op :: "nat \<Rightarrow> u8 \<Rightarrow> bool" where
  "dir_op op d \<longleftrightarrow> (op = PLATFORM_IO_PIN_DIR_INT \<and> d = GPIO_DIR_INT) \<or> (op = PLATFORM_IO_PIN_DIR_INPUT \<and> d = GPIO_DIR_INPUT)
     \<or> (op \<in> {PLATFORM_IO_PIN_DIR_OUTPUT, PLATFORM_IO_PIN_DIR_OUTPUT1} \<and> d = GPIO_DIR_OUTPUT)"

lemma pin_turn_open:
  assumes "dir_op op d" and "dir (pin_of s port pin) = GPIO_DIR_NOT_OPEN"
  shows "pin_turn op port pin s =
    (send_event EVENT_GPIO [GPIO_EVENT_DIR, port, pin, d] (set_pin port pin ((pin_of s port pin)\<lparr>dir := d\<rparr>) s), None)"
  using assms by (auto simp: dir_op_def pin_turn_def set_dir_def pio_ops Let_def)

lemma sim_pio_loop_open:
  assumes "dir_op op d" and "unat port < NUM_PIO"
  shows "pins_inv s \<Longrightarrow> distinct ps \<Longrightarrow> \<forall>p \<in> set ps. p < 32 \<and> dir (pin_of s port (of_nat p)) = GPIO_DIR_NOT_OPEN \<Longrightarrow>
    \<exists>s'. sim_pio_loop op port ps s = (s', 1) \<and> pins_inv s'
      \<and> (\<forall>port' pin'. pin_ok port' pin' \<longrightarrow> pin_of s' port' pin' =
          (if port' = port \<and> unat pin' \<in> set ps then (pin_of s port' pin')\<lparr>dir := d\<rparr> else pin_of s port' pin'))
      \<and> outbox s' = outbox s @ map (\<lambda>p. daemon_emit_event EVENT_GPIO [GPIO_EVENT_DIR, port, of_nat p, d]) ps"
proof (induction ps arbitrary: s)
  case (Cons p ps)
  let ?pin = "of_nat p :: u8"
  have p: "p < 32" "unat ?pin = p" using Cons.prems(3) by (auto simp: unsigned_of_nat take_bit_nat_eq_self)
  have ok: "pin_ok port ?pin" using p assms(2) by (simp add: pin_ok_def)
  define s1 where "s1 = send_event EVENT_GPIO [GPIO_EVENT_DIR, port, ?pin, d] (set_pin port ?pin ((pin_of s port ?pin)\<lparr>dir := d\<rparr>) s)"
  have turn: "pin_turn op port ?pin s = (s1, None)"
    unfolding s1_def by (rule pin_turn_open [OF assms(1)]) (use Cons.prems(3) in simp)
  have inv: "pins_inv s1" using pins_inv_set [OF Cons.prems(1) ok] by (simp add: s1_def)
  have at: "pin_of s1 port' pin' = (if port' = port \<and> pin' = ?pin then (pin_of s port ?pin)\<lparr>dir := d\<rparr> else pin_of s port' pin')"
    if "pin_ok port' pin'" for port' pin'
    using pin_of_set [OF Cons.prems(1) ok that] by (simp add: s1_def)
  have other: "q \<in> set ps \<Longrightarrow> (of_nat q :: u8) \<noteq> ?pin \<and> pin_ok port (of_nat q)" for q
  proof -
    assume "q \<in> set ps"
    then have "q \<noteq> p" "q < 32" using Cons.prems(2,3) by auto
    then have "unat (of_nat q :: u8) = q" by (simp add: unsigned_of_nat take_bit_nat_eq_self)
    then show ?thesis using \<open>q \<noteq> p\<close> \<open>q < 32\<close> p(2) assms(2) by (auto simp: pin_ok_def)
  qed
  then have "\<forall>q \<in> set ps. q < 32 \<and> dir (pin_of s1 port (of_nat q)) = GPIO_DIR_NOT_OPEN"
    using Cons.prems(3) at by auto
  from Cons.IH [OF inv _ this] Cons.prems(2) obtain s' where s': "sim_pio_loop op port ps s1 = (s', 1)" "pins_inv s'"
    "\<forall>port' pin'. pin_ok port' pin' \<longrightarrow> pin_of s' port' pin' =
        (if port' = port \<and> unat pin' \<in> set ps then (pin_of s1 port' pin')\<lparr>dir := d\<rparr> else pin_of s1 port' pin')"
    "outbox s' = outbox s1 @ map (\<lambda>p. daemon_emit_event EVENT_GPIO [GPIO_EVENT_DIR, port, of_nat p, d]) ps" by auto
  have "pin' = ?pin \<longleftrightarrow> unat pin' = p" for pin' :: u8 using p(2) by (metis word_unat_eq_iff)
  moreover have "p \<notin> set ps" using Cons.prems(2) by simp
  ultimately have "pin_ok port' pin' \<Longrightarrow> pin_of s' port' pin' =
      (if port' = port \<and> unat pin' \<in> set (p # ps) then (pin_of s port' pin')\<lparr>dir := d\<rparr> else pin_of s port' pin')" for port' pin'
    using s'(3) at by auto
  moreover have "outbox s1 = outbox s @ [daemon_emit_event EVENT_GPIO [GPIO_EVENT_DIR, port, ?pin, d]]"
    by (simp add: s1_def send_event_def set_pin_def)
  ultimately show ?case using s' turn by (intro exI [of _ s']) simp
qed simp

text \<open>An output that should start high starts low: the operation for it is that of a plain output.\<close>

lemma output1_stays_low:
  "val (pin_of (fst (pin_turn PLATFORM_IO_PIN_DIR_OUTPUT1 0 3 closed_pins)) 0 3) = 0"
  by (simp add: pin_turn_def set_dir_def closed_pins_def pin_of_def set_pin_def send_event_def NUM_PIO_def sim_gpio_consts pio_ops Let_def)

end
