(* ===== verification/BitMod.thy ===== *)
theory BitMod
  imports Prelude
begin

text \<open>
  The Lua module \<open>modules/src/bit.c\<close>: bitwise operations on the 32-bit integers of Lua. A shift by 32 or
  more, or by a negative number, is undefined in C: \<open>None\<close>. A signed shift to the left drops the bits
  it moves out. The theory describes every operation by the bits or by the number of its result.
\<close>

section \<open>The operations\<close>

type_synonym lua_integer = u32

definition bit_bnot :: "lua_integer \<Rightarrow> lua_integer" where
  "bit_bnot w = NOT w"

text \<open>The variadic operations: the first argument, and the loop over the others.\<close>

fun bit_band_loop :: "lua_integer \<Rightarrow> lua_integer list \<Rightarrow> lua_integer" where
  "bit_band_loop w [] = w"
| "bit_band_loop w (a # as) = bit_band_loop (w AND a) as"

fun bit_bor_loop :: "lua_integer \<Rightarrow> lua_integer list \<Rightarrow> lua_integer" where
  "bit_bor_loop w [] = w"
| "bit_bor_loop w (a # as) = bit_bor_loop (w OR a) as"

fun bit_bxor_loop :: "lua_integer \<Rightarrow> lua_integer list \<Rightarrow> lua_integer" where
  "bit_bxor_loop w [] = w"
| "bit_bxor_loop w (a # as) = bit_bxor_loop (w XOR a) as"

definition shift_ok :: "u32 \<Rightarrow> bool" where
  "shift_ok n \<longleftrightarrow> n < 32"

definition bit_lshift :: "lua_integer \<Rightarrow> u32 \<Rightarrow> lua_integer option" where
  "bit_lshift w n = (if shift_ok n then Some (push_bit (unat n) w) else None)"

definition bit_rshift :: "lua_integer \<Rightarrow> u32 \<Rightarrow> lua_integer option" where
  "bit_rshift w n = (if shift_ok n then Some (drop_bit (unat n) w) else None)"

definition bit_arshift :: "lua_integer \<Rightarrow> u32 \<Rightarrow> lua_integer option" where
  "bit_arshift w n = (if shift_ok n then Some (signed_drop_bit (unat n) w) else None)"

definition one_bit :: "u32 \<Rightarrow> u32 option" where
  "one_bit n = (if shift_ok n then Some (push_bit (unat n) 1) else None)"

definition bit_bit :: "lua_integer \<Rightarrow> lua_integer option" where
  "bit_bit position = one_bit position"

definition bit_isset :: "lua_integer \<Rightarrow> u32 \<Rightarrow> bool option" where
  "bit_isset v pos = map_option (\<lambda>m. v AND m \<noteq> 0) (one_bit pos)"

definition bit_isclear :: "lua_integer \<Rightarrow> u32 \<Rightarrow> bool option" where
  "bit_isclear v pos = map_option (\<lambda>m. v AND m = 0) (one_bit pos)"

fun bit_set :: "lua_integer \<Rightarrow> u32 list \<Rightarrow> lua_integer option" where
  "bit_set v [] = Some v"
| "bit_set v (p # ps) = (case one_bit p of None \<Rightarrow> None | Some m \<Rightarrow> bit_set (v OR m) ps)"

fun bit_clear :: "lua_integer \<Rightarrow> u32 list \<Rightarrow> lua_integer option" where
  "bit_clear v [] = Some v"
| "bit_clear v (p # ps) = (case one_bit p of None \<Rightarrow> None | Some m \<Rightarrow> bit_clear (v AND NOT m) ps)"

section \<open>Bits and numbers\<close>

lemma shift_ok_nat: "shift_ok n \<longleftrightarrow> unat n < 32"
  by (simp add: shift_ok_def word_less_nat_alt)

lemma band_bits: "bit (bit_band_loop w as) k \<longleftrightarrow> bit w k \<and> (\<forall>a \<in> set as. bit a k)"
  by (induction w as rule: bit_band_loop.induct) (auto simp: bit_simps)

lemma bor_bits: "bit (bit_bor_loop w as) k \<longleftrightarrow> bit w k \<or> (\<exists>a \<in> set as. bit a k)"
  by (induction w as rule: bit_bor_loop.induct) (auto simp: bit_simps)

lemma bxor_bits: "bit (bit_bxor_loop w as) k \<longleftrightarrow> odd (length (filter (\<lambda>a. bit a k) (w # as)))"
  by (induction w as rule: bit_bxor_loop.induct) (auto simp: bit_simps)

text \<open>The operations as C's macros promise: \<open>rshift\<close> divides the unsigned number, \<open>arshift\<close> the signed
  one, rounding down, and \<open>lshift\<close> multiplies modulo \<open>2 ^ 32\<close>.\<close>

lemma shifts_are_arithmetic:
  assumes "shift_ok n"
  shows "\<exists>l r a. bit_lshift w n = Some l \<and> bit_rshift w n = Some r \<and> bit_arshift w n = Some a
    \<and> uint l = uint w * 2 ^ unat n mod 2 ^ 32 \<and> uint r = uint w div 2 ^ unat n \<and> sint a = sint w div 2 ^ unat n"
proof -
  have "uint (push_bit (unat n) w) = uint w * 2 ^ unat n mod 2 ^ 32"
    by (subst unsigned_push_bit_eq) (simp add: push_bit_eq_mult take_bit_eq_mod)
  moreover have "uint (drop_bit (unat n) w) = uint w div 2 ^ unat n"
    by (subst unsigned_drop_bit_eq) (use unsigned_less [of w, where 'a = int] in \<open>simp add: drop_bit_eq_div take_bit_int_eq_self\<close>)
  moreover have "sint (signed_drop_bit (unat n) w) = sint w div 2 ^ unat n"
    by (simp add: sint_signed_drop_bit_eq drop_bit_eq_div)
  ultimately show ?thesis using assms by (simp add: bit_lshift_def bit_rshift_def bit_arshift_def)
qed

lemma one_bit_bits: "one_bit p = Some m \<Longrightarrow> bit m k \<longleftrightarrow> k = unat p"
  by (auto simp: one_bit_def shift_ok_nat bit_simps split: if_splits)

lemma isset_bit: "shift_ok p \<Longrightarrow> bit_isset v p = Some (bit v (unat p)) \<and> bit_isclear v p = Some (\<not> bit v (unat p))"
proof -
  assume p: "shift_ok p"
  have "v AND push_bit (unat p) 1 = (if bit v (unat p) then push_bit (unat p) 1 else 0)"
    by (rule bit_word_eqI) (auto simp: bit_simps)
  moreover have "push_bit (unat p) 1 \<noteq> (0 :: u32)" using p by (simp add: shift_ok_nat push_bit_eq_mult)
  ultimately show ?thesis using p by (simp add: bit_isset_def bit_isclear_def one_bit_def)
qed

lemma set_bits:
  "\<forall>p \<in> set ps. shift_ok p \<Longrightarrow> \<exists>r. bit_set v ps = Some r \<and> (\<forall>k. bit r k \<longleftrightarrow> bit v k \<or> k \<in> unat ` set ps)"
proof (induction ps arbitrary: v)
  case (Cons p ps)
  then obtain m where m: "one_bit p = Some m" by (auto simp: one_bit_def)
  from Cons.IH [of "v OR m"] Cons.prems show ?case using m one_bit_bits [OF m] by (auto simp: bit_simps)
qed simp

lemma bit32: "bit v k \<Longrightarrow> k < 32" for v :: u32
  using bit_imp_le_length [of v k] by simp

lemma clear_bits:
  "\<forall>p \<in> set ps. shift_ok p \<Longrightarrow> \<exists>r. bit_clear v ps = Some r \<and> (\<forall>k. bit r k \<longleftrightarrow> bit v k \<and> k \<notin> unat ` set ps)"
proof (induction ps arbitrary: v)
  case (Cons p ps)
  then obtain m where m: "one_bit p = Some m" by (auto simp: one_bit_def)
  from Cons.IH [of "v AND NOT m"] Cons.prems show ?case
    using m one_bit_bits [OF m] bit32 [of v] by (auto simp: bit_simps)
qed simp

text \<open>Setting, clearing and testing as a script combines them.\<close>

lemma set_clear_test:
  assumes "\<forall>p \<in> set ps. shift_ok p" and "\<forall>p \<in> set qs. shift_ok p" and "shift_ok p"
  shows "\<exists>a b. bit_set v ps = Some a \<and> bit_clear a qs = Some b
    \<and> bit_isset b p = Some (p \<notin> set qs \<and> (p \<in> set ps \<or> bit_isset v p = Some True))"
proof -
  obtain a where a: "bit_set v ps = Some a" "\<forall>k. bit a k \<longleftrightarrow> bit v k \<or> k \<in> unat ` set ps"
    using set_bits [OF assms(1)] by blast
  obtain b where b: "bit_clear a qs = Some b" "\<forall>k. bit b k \<longleftrightarrow> bit a k \<and> k \<notin> unat ` set qs"
    using clear_bits [OF assms(2)] by blast
  have "unat p \<in> unat ` A \<longleftrightarrow> p \<in> A" for A :: "u32 set" by (auto simp: word_unat_eq_iff [symmetric] image_iff)
  then show ?thesis using a b isset_bit [OF assms(3)] by auto
qed

text \<open>A position outside the word is undefined for every operation.\<close>

lemma shift_undefined:
  "\<not> shift_ok n \<Longrightarrow> bit_lshift w n = None \<and> bit_rshift w n = None \<and> bit_arshift w n = None \<and> bit_bit n = None
    \<and> bit_isset w n = None \<and> bit_set w [n] = None"
  by (simp add: bit_lshift_def bit_rshift_def bit_arshift_def bit_bit_def bit_isset_def one_bit_def)

end
