(* ===== verification/CpuMod.thy ===== *)
theory CpuMod
  imports IntQueue
begin

text \<open>
  The rest of the Lua module \<open>modules/src/cpu.c\<close>: access to memory in three widths, and the functions
  that switch interrupts. The memory is little-endian; an access to an address that is no multiple of
  its width is a fault of the processor: \<open>None\<close>.
\<close>

section \<open>Memory\<close>

type_synonym mem = "u32 \<Rightarrow> byte"

definition cpu_w32 :: "u32 \<Rightarrow> u32 \<Rightarrow> mem \<Rightarrow> mem option" where
  "cpu_w32 a v m =
     (if a AND 3 \<noteq> 0 then None
      else Some (m(a := ucast v, a + 1 := ucast (drop_bit 8 v), a + 2 := ucast (drop_bit 16 v), a + 3 := ucast (drop_bit 24 v))))"

definition cpu_r32 :: "u32 \<Rightarrow> mem \<Rightarrow> u32 option" where
  "cpu_r32 a m =
     (if a AND 3 \<noteq> 0 then None
      else Some (ucast (m a) OR push_bit 8 (ucast (m (a + 1))) OR push_bit 16 (ucast (m (a + 2))) OR push_bit 24 (ucast (m (a + 3)))))"

definition cpu_w16 :: "u32 \<Rightarrow> u32 \<Rightarrow> mem \<Rightarrow> mem option" where
  "cpu_w16 a v m = (if a AND 1 \<noteq> 0 then None else Some (m(a := ucast v, a + 1 := ucast (drop_bit 8 v))))"

definition cpu_r16 :: "u32 \<Rightarrow> mem \<Rightarrow> u32 option" where
  "cpu_r16 a m = (if a AND 1 \<noteq> 0 then None else Some (ucast (m a) OR push_bit 8 (ucast (m (a + 1)))))"

definition cpu_w8 :: "u32 \<Rightarrow> u32 \<Rightarrow> mem \<Rightarrow> mem" where
  "cpu_w8 a v m = m(a := ucast v)"

definition cpu_r8 :: "u32 \<Rightarrow> mem \<Rightarrow> u32" where
  "cpu_r8 a m = ucast (m a)"

section \<open>Interrupts\<close>

definition PLATFORM_CPU_DISABLE :: int where "PLATFORM_CPU_DISABLE = 0"
definition PLATFORM_CPU_ENABLE :: int where "PLATFORM_CPU_ENABLE = 1"

text \<open>The kernel calls of the helper, and the errors it raises.\<close>

datatype cpu_call = SetInterrupt u8 u16 int | SetGlobalInterrupts int
datatype cpu_error = Invalid_id | Not_implemented u16 | Bad_resnum u16 | Not_bool

fun int_helper_loop :: "elua_int_descriptor list \<Rightarrow> u8 \<Rightarrow> int \<Rightarrow> u16 list \<Rightarrow> cpu_call list \<times> cpu_error option" where
  "int_helper_loop tbl n mode [] = ([], None)"
| "int_helper_loop tbl n mode (r # rs) =
     (let res = platform_cpu_set_interrupt tbl n r mode; call = SetInterrupt n r mode in
      if res = PLATFORM_INT_INVALID then ([call], Some Invalid_id)
      else if res = PLATFORM_INT_NOT_HANDLED then ([call], Some (Not_implemented r))
      else if res = PLATFORM_INT_BAD_RESNUM then ([call], Some (Bad_resnum r))
      else (case int_helper_loop tbl n mode rs of (calls, e) \<Rightarrow> (call # calls, e)))"

text \<open>The arguments: none, for all interrupts, or an identifier and resource numbers, which are cut to the
  widths of their types.\<close>

definition cpuh_int_helper :: "elua_int_descriptor list \<Rightarrow> int \<Rightarrow> (int \<times> int list) option \<Rightarrow> cpu_call list \<times> cpu_error option" where
  "cpuh_int_helper tbl mode args =
     (case args of
        None \<Rightarrow> ([SetGlobalInterrupts mode], None)
      | Some (i, rs) \<Rightarrow>
          let n = word_of_int i :: u8 in
          if n < ELUA_INT_FIRST_ID \<or> n > INT_ELUA_LAST then ([], Some Invalid_id)
          else int_helper_loop tbl n mode (map word_of_int rs))"

definition cpu_cli :: "elua_int_descriptor list \<Rightarrow> (int \<times> int list) option \<Rightarrow> cpu_call list \<times> cpu_error option" where
  "cpu_cli tbl args = cpuh_int_helper tbl PLATFORM_CPU_DISABLE args"

definition cpu_sei :: "elua_int_descriptor list \<Rightarrow> (int \<times> int list) option \<Rightarrow> cpu_call list \<times> cpu_error option" where
  "cpu_sei tbl args = cpuh_int_helper tbl PLATFORM_CPU_ENABLE args"

definition cpu_get_int_handler :: "int \<Rightarrow> (int \<Rightarrow> 'f option) \<Rightarrow> cpu_error + 'f option" where
  "cpu_get_int_handler i tab =
     (if i < uint ELUA_INT_FIRST_ID \<or> i > uint INT_ELUA_LAST then Inl Invalid_id else Inr (tab i))"

text \<open>The third argument: absent, a boolean, or something else.\<close>

definition cpu_get_int_flag :: "elua_int_descriptor list \<Rightarrow> int \<Rightarrow> int \<Rightarrow> bool option option \<Rightarrow> cpu_error + int" where
  "cpu_get_int_flag tbl i resnum clr =
     (case clr of
        Some None \<Rightarrow> Inl Not_bool
      | _ \<Rightarrow>
          let c = (case clr of Some (Some b) \<Rightarrow> (if b then 1 else 0) | _ \<Rightarrow> 1);
              r = word_of_int resnum :: u16; res = platform_cpu_get_interrupt_flag tbl (word_of_int i) r c in
          if res = PLATFORM_INT_INVALID then Inl Invalid_id
          else if res = PLATFORM_INT_NOT_HANDLED then Inl (Not_implemented r)
          else if res = PLATFORM_INT_BAD_RESNUM then Inl (Bad_resnum r)
          else Inr res)"

definition CPU_FREQUENCY :: u32 where "CPU_FREQUENCY = 26 * 1000 * 1000"

definition cpu_constants :: "(string \<times> u32) list" where
  "cpu_constants = [(''INT_GPIO_POSEDGE'', ucast ELUA_INT_FIRST_ID), (''INT_GPIO_NEGEDGE'', ucast ELUA_INT_FIRST_ID + 1)]"

fun cpu_mt_index :: "(string \<times> u32) list \<Rightarrow> string \<Rightarrow> u32 option" where
  "cpu_mt_index [] key = None"
| "cpu_mt_index ((n, v) # cs) key = (if n = key then Some v else cpu_mt_index cs key)"

section \<open>Memory accesses agree\<close>

lemma addr_distinct:
  "a + 1 \<noteq> a" "a + 2 \<noteq> a" "a + 3 \<noteq> a" "a + 2 \<noteq> a + 1" "a + 3 \<noteq> a + 1" "a + 3 \<noteq> a + 2" for a :: u32
  by simp_all

text \<open>A word is read back as it was written, in bytes and half words in little-endian order as well.\<close>

lemma word_bytes:
  "(ucast (ucast v :: byte) :: u32) OR push_bit 8 (ucast (ucast (drop_bit 8 v) :: byte)) OR
   push_bit 16 (ucast (ucast (drop_bit 16 v) :: byte)) OR push_bit 24 (ucast (ucast (drop_bit 24 v) :: byte)) = v" for v :: u32
proof (rule bit_word_eqI)
  fix n assume "n < LENGTH(32)"
  then have n: "n < 32" by simp
  consider "n < 8" | "8 \<le> n" "n < 16" | "16 \<le> n" "n < 24" | "24 \<le> n" by linarith
  then show "bit ((ucast (ucast v :: byte) :: u32) OR push_bit 8 (ucast (ucast (drop_bit 8 v) :: byte)) OR
     push_bit 16 (ucast (ucast (drop_bit 16 v) :: byte)) OR push_bit 24 (ucast (ucast (drop_bit 24 v) :: byte))) n = bit v n"
  proof cases
    case 1 then show ?thesis by (simp add: bit_simps)
  next
    case 2 then have "n - 8 < 8" "8 + (n - 8) = n" by linarith+
    with 2 show ?thesis by (simp add: bit_simps)
  next
    case 3 then have "n - 16 < 8" "16 + (n - 16) = n" "\<not> n - 8 < 8" "\<not> n < 8" "\<not> 24 \<le> n" "n < 32" by linarith+
    with 3 show ?thesis by (auto simp: bit_simps)
  next
    case 4 then have "n - 24 < 8" "24 + (n - 24) = n" "\<not> n - 8 < 8" "\<not> n - 16 < 8" "\<not> n < 8" using n by linarith+
    with 4 n show ?thesis by (auto simp: bit_simps)
  qed
qed

lemma half_bytes:
  "ucast (ucast v :: byte) OR push_bit 8 (ucast (ucast (drop_bit 8 v) :: byte)) = v AND 0xFFFF" for v :: u32
proof (rule bit_word_eqI)
  fix n assume "n < LENGTH(32)"
  have m: "(0xFFFF :: u32) = mask 16" by (simp add: mask_eq_exp_minus_1)
  consider "n < 8" | "8 \<le> n" "n < 16" | "16 \<le> n" by linarith
  then show "bit ((ucast (ucast v :: byte) :: u32) OR push_bit 8 (ucast (ucast (drop_bit 8 v) :: byte)) :: u32) n = bit (v AND 0xFFFF) n"
  proof cases
    case 1 then show ?thesis unfolding m by (simp add: bit_simps)
  next
    case 2 then have "n - 8 < 8" "8 + (n - 8) = n" by linarith+
    with 2 show ?thesis unfolding m by (simp add: bit_simps)
  next
    case 3 then have "\<not> n - 8 < 8" by linarith
    with 3 show ?thesis unfolding m by (simp add: bit_simps)
  qed
qed

lemma aligned_low: "a AND 3 = 0 \<Longrightarrow> a AND 1 = 0" for a :: u32
proof -
  assume "a AND 3 = 0"
  moreover have "a AND 1 = (a AND 3) AND 1" by (simp add: and.assoc)
  ultimately show ?thesis by simp
qed

lemma aligned_two: "a AND 3 = 0 \<Longrightarrow> (a + 2) AND 1 = 0" for a :: u32
proof -
  assume "a AND 3 = 0"
  then have e: "even a" using aligned_low [of a] by (simp add: and_one_eq even_iff_mod_2_eq_zero)
  then have "even (a + 2)" by simp
  then show ?thesis unfolding and_one_eq by (simp only: even_iff_mod_2_eq_zero)
qed

lemma cpu_w32_r32:
  assumes "cpu_w32 a v m = Some m'"
  shows "cpu_r32 a m' = Some v" and "cpu_r16 a m' = Some (v AND 0xFFFF)" and "cpu_r16 (a + 2) m' = Some (drop_bit 16 v)"
proof -
  have al: "a AND 3 = 0" and m': "m' = m(a := ucast v, a + 1 := ucast (drop_bit 8 v), a + 2 := ucast (drop_bit 16 v), a + 3 := ucast (drop_bit 24 v))"
    using assms by (auto simp: cpu_w32_def split: if_splits)
  show "cpu_r32 a m' = Some v"
    using word_bytes [of v] by (simp add: cpu_r32_def al m' addr_distinct)
  show "cpu_r16 a m' = Some (v AND 0xFFFF)"
    using aligned_low [OF al] half_bytes [of v] by (simp add: cpu_r16_def m' addr_distinct)
  have top: "drop_bit 16 v AND 0xFFFF = drop_bit 16 v"
  proof -
    have m: "(0xFFFF :: u32) = mask 16" by (simp add: mask_eq_exp_minus_1)
    show ?thesis unfolding m by (rule bit_word_eqI) (auto simp: bit_simps dest: bit_imp_le_length)
  qed
  show "cpu_r16 (a + 2) m' = Some (drop_bit 16 v)"
    using aligned_two [OF al] half_bytes [of "drop_bit 16 v"] top by (simp add: cpu_r16_def m' addr_distinct add.assoc)
qed

text \<open>An access outside the four bytes is not disturbed.\<close>

lemma cpu_w32_frame:
  "cpu_w32 a v m = Some m' \<Longrightarrow> b \<notin> {a, a + 1, a + 2, a + 3} \<Longrightarrow> cpu_r8 b m' = cpu_r8 b m"
  by (auto simp: cpu_w32_def cpu_r8_def split: if_splits)

text \<open>The interrupts are switched in the order of the arguments and only up to the first that the
  platform refuses: the ones before it stay switched.\<close>

lemma int_helper_prefix:
  "fst (int_helper_loop tbl n mode rs) = map (\<lambda>r. SetInterrupt n r mode) (take (length (fst (int_helper_loop tbl n mode rs))) rs)"
  by (induction rs) (auto simp: Let_def split: prod.splits)

lemma int_helper_all:
  "snd (int_helper_loop tbl n mode rs) = None \<Longrightarrow> length (fst (int_helper_loop tbl n mode rs)) = length rs"
  by (induction rs) (auto simp: Let_def split: prod.splits if_splits)

end
