(* ===== verification/DispMod.thy ===== *)
theory DispMod
  imports Lcd DisplayOps
begin

text \<open>
  The Lua module \<open>modules/src/disp.c\<close>. \<open>disp.init\<close> decodes the table of parameters a script gives into
  \<open>PlatformDispInitParam\<close>, with the errors it raises; the other functions decode their arguments and
  cut them to the widths of the drawing layer. Both layers below, the display and the screen driver, are
  the state. \<open>num\<close> and \<open>str\<close> are Lua's conversions between numbers and strings; the files, the decoder
  of PNG images and \<open>malloc\<close> are the environment. The last section follows a script that makes any calls.
\<close>

section \<open>Lua tables\<close>

datatype lua_val = V_nil | V_num int | V_str string | V_array "lua_val list" | V_tab "(string \<times> lua_val) list"

definition lua_getfield :: "(string \<times> lua_val) list \<Rightarrow> string \<Rightarrow> lua_val" where
  "lua_getfield t key = (case map_of t key of None \<Rightarrow> V_nil | Some v \<Rightarrow> v)"

fun luaL_checkinteger :: "(string \<Rightarrow> int option) \<Rightarrow> lua_val \<Rightarrow> int option" where
  "luaL_checkinteger num (V_num n) = Some n"
| "luaL_checkinteger num (V_str s) = num s"
| "luaL_checkinteger num _ = None"

definition lua_tointeger :: "(string \<Rightarrow> int option) \<Rightarrow> lua_val \<Rightarrow> int" where
  "lua_tointeger num v = (case luaL_checkinteger num v of None \<Rightarrow> 0 | Some n \<Rightarrow> n)"

text \<open>The fields of a value of type table, and its array part.\<close>

fun fields_of :: "lua_val \<Rightarrow> (string \<times> lua_val) list option" where
  "fields_of (V_tab t) = Some t"
| "fields_of (V_array xs) = Some []"
| "fields_of _ = None"

fun array_of :: "lua_val \<Rightarrow> lua_val list option" where
  "array_of (V_array xs) = Some xs"
| "array_of (V_tab t) = Some []"
| "array_of _ = None"

definition disp_getFiledInt :: "(string \<Rightarrow> int option) \<Rightarrow> (string \<times> lua_val) list \<Rightarrow> string \<Rightarrow> int" where
  "disp_getFiledInt num t key = lua_tointeger num (lua_getfield t key)"

definition checkFiledInt :: "(string \<Rightarrow> int option) \<Rightarrow> (string \<times> lua_val) list \<Rightarrow> string \<Rightarrow> int option" where
  "checkFiledInt num t key = luaL_checkinteger num (lua_getfield t key)"

definition optFiledInt :: "(string \<Rightarrow> int option) \<Rightarrow> (string \<times> lua_val) list \<Rightarrow> string \<Rightarrow> int \<Rightarrow> int option" where
  "optFiledInt num t key defval = (case lua_getfield t key of V_nil \<Rightarrow> Some defval | v \<Rightarrow> luaL_checkinteger num v)"

section \<open>The parameters\<close>

datatype disp_error = Err_size u16 u16 | Err_bpp | Err_argument

text \<open>A command table: its size is stored in 16 bits, and that many entries are copied.\<close>

definition command_table :: "(string \<Rightarrow> int option) \<Rightarrow> lua_val list \<Rightarrow> u32 list \<times> u16" where
  "command_table num xs =
     (let tableSize = of_nat (length xs) :: u16 in
      (map (\<lambda>v. word_of_int (lua_tointeger num v)) (take (unat tableSize) xs), tableSize))"

definition opt_table :: "(string \<Rightarrow> int option) \<Rightarrow> lua_val \<Rightarrow> u32 list \<times> u16" where
  "opt_table num v = (case array_of v of None \<Rightarrow> ([], 0) | Some xs \<Rightarrow> command_table num xs)"

text \<open>The interface of a bus: \<open>None\<close> is an argument error.\<close>

definition interface_of :: "(string \<Rightarrow> int option) \<Rightarrow> u32 \<Rightarrow> (string \<times> lua_val) list \<Rightarrow> lcd_itf option" where
  "interface_of num bus t =
     (if bus = 2 \<or> bus = 3 then
        (case fields_of (lua_getfield t ''interface'') of None \<Rightarrow> None
         | Some i \<Rightarrow>
           if bus = 2 then
             (case (checkFiledInt num i ''bus_id'', checkFiledInt num i ''freq'', checkFiledInt num i ''slave_addr'',
                    checkFiledInt num i ''cmd_addr'', checkFiledInt num i ''data_addr'') of
                (Some a, Some b, Some c, Some d, Some e) \<Rightarrow>
                  Some (Itf_i2c (word_of_int a) (word_of_int b) (word_of_int c) (word_of_int d) (word_of_int e))
              | _ \<Rightarrow> None)
           else
             (case (checkFiledInt num i ''bus_id'', checkFiledInt num i ''pin_rs'', optFiledInt num i ''pin_cs'' (- 2),
                    checkFiledInt num i ''freq'') of
                (Some a, Some b, Some c, Some d) \<Rightarrow> Some (Itf_spi b d)
              | _ \<Rightarrow> None))
      else Some Itf_none)"

text \<open>\<open>PLATFORM_IO_UNKNOWN_PIN\<close> as an \<open>int\<close> is -2. The result has the parameters and the fill colour.\<close>

definition disp_params :: "(string \<Rightarrow> int option) \<Rightarrow> lua_val \<Rightarrow> disp_error + (lcd_param \<times> int)" where
  "disp_params num arg =
     (case fields_of arg of None \<Rightarrow> Inl Err_argument
      | Some t \<Rightarrow>
        let width = word_of_int (disp_getFiledInt num t ''width'') :: u16; height = word_of_int (disp_getFiledInt num t ''height'') :: u16;
            bpp = word_of_int (disp_getFiledInt num t ''bpp'') :: u8; bus = word_of_int (disp_getFiledInt num t ''bus'') :: u32 in
        if width = 0 \<or> height = 0 then Inl (Err_size width height)
        else if \<not> (bpp = 16 \<or> bpp = 1) then Inl Err_bpp
        else
          (case (interface_of num bus t, checkFiledInt num t ''pinrst'', optFiledInt num t ''hwfillcolor'' (- 1),
                 array_of (lua_getfield t ''initcmd'')) of
             (Some itf, Some rst, Some fill, Some cmds) \<Rightarrow>
               (let (init, initn) = command_table num cmds;
                    (sl, sln) = opt_table num (lua_getfield t ''sleepcmd'');
                    (wk, wkn) = opt_table num (lua_getfield t ''wakecmd'') in
                Inr (\<lparr>p_width = unat width, p_height = unat height, p_bpp = unat bpp,
                   p_x_offset = word_of_int (disp_getFiledInt num t ''xoffset''), p_y_offset = word_of_int (disp_getFiledInt num t ''yoffset''),
                   p_initcmd = init, p_tableSize = initn, p_sleepcmd = sl, p_sleepCmdSize = sln,
                   p_wakecmd = wk, p_wakeCmdSize = wkn, p_bus = unat bus, p_itf = itf, p_pin_rst = rst,
                   p_pin_cs = (case lua_getfield t ''pincs'' of V_num n \<Rightarrow> n | _ \<Rightarrow> - 2)\<rparr>, fill))
           | _ \<Rightarrow> Inl Err_argument))"

text \<open>\<open>disp_init\<close>: the error, or the display and the screen after \<open>platform_disp_init\<close>, which ends with
  \<open>platform_lcd_init\<close>. \<open>block\<close> is what \<open>malloc\<close> gives for the frame buffer, as a function of its size.\<close>

record disp_env =
  env_num :: "string \<Rightarrow> int option"
  env_str :: "int \<Rightarrow> string"
  env_file :: "string \<Rightarrow> byte list option"
  env_png :: "string \<Rightarrow> png_image option"
  env_malloc :: "nat \<Rightarrow> byte list option"
  env_font :: "byte list"
  env_hz :: "byte list"
  env_ext :: "byte list"

definition lua_arg :: "lua_val list \<Rightarrow> nat \<Rightarrow> lua_val" where
  "lua_arg vs i = (if 0 < i \<and> i \<le> length vs then vs ! (i - 1) else V_nil)"

type_synonym disp_result = "(disp_error + int list \<times> disp \<times> lcd) option"

definition disp_init :: "disp_env \<Rightarrow> lua_val list \<Rightarrow> disp \<times> lcd \<Rightarrow> disp_result" where
  "disp_init E vs st =
     (case disp_params (env_num E) (lua_arg vs 1) of
        Inl e \<Rightarrow> Some (Inl e)
      | Inr (p, fill) \<Rightarrow>
          (case platform_disp_init (p_width p) (p_height p) (p_bpp p) fill
                  (env_malloc E (p_width p * p_height p * p_bpp p div 8)) (env_font E) (Some (env_hz E)) (env_ext E) (fst st) of
             None \<Rightarrow> None
           | Some d \<Rightarrow> map_option (\<lambda>s. Inr ([], d, s)) (platform_lcd_init p (snd st))))"

section \<open>The other functions\<close>

definition check_int :: "disp_env \<Rightarrow> lua_val list \<Rightarrow> nat \<Rightarrow> int option" where
  "check_int E vs i = luaL_checkinteger (env_num E) (lua_arg vs i)"

definition opt_int :: "disp_env \<Rightarrow> lua_val list \<Rightarrow> nat \<Rightarrow> int \<Rightarrow> int option" where
  "opt_int E vs i def = (case lua_arg vs i of V_nil \<Rightarrow> Some def | v \<Rightarrow> luaL_checkinteger (env_num E) v)"

text \<open>A C string ends before the first zero character.\<close>

definition check_string :: "disp_env \<Rightarrow> lua_val list \<Rightarrow> nat \<Rightarrow> string option" where
  "check_string E vs i =
     (case lua_arg vs i of V_str s \<Rightarrow> Some (takeWhile (\<lambda>c. of_char c \<noteq> (0 :: byte)) s)
      | V_num n \<Rightarrow> Some (env_str E n) | _ \<Rightarrow> None)"

definition u16_of :: "int \<Rightarrow> nat" where
  "u16_of n = unat (word_of_int n :: u16)"

definition on_disp :: "lcd \<Rightarrow> disp option \<Rightarrow> disp_result" where
  "on_disp s r = map_option (\<lambda>d. Inr ([], d, s)) r"

definition with_int :: "lcd \<Rightarrow> disp \<times> int \<Rightarrow> disp_result" where
  "with_int s r = Some (Inr ([snd r], fst r, s))"

definition disp_close :: "disp \<times> lcd \<Rightarrow> disp_result" where
  "disp_close st = on_disp (snd st) (platform_disp_close (fst st))"

definition disp_clear :: "disp \<times> lcd \<Rightarrow> disp_result" where
  "disp_clear st = on_disp (snd st) (platform_disp_clear (fst st))"

definition disp_update :: "disp \<times> lcd \<Rightarrow> disp_result" where
  "disp_update st =
     (case platform_disp_update (fst st) of (rect, buf) \<Rightarrow>
        map_option (\<lambda>s. Inr ([], fst st, s)) (platform_lcd_update rect buf (snd st)))"

definition disp_puttext :: "disp_env \<Rightarrow> lua_val list \<Rightarrow> disp \<times> lcd \<Rightarrow> disp_result" where
  "disp_puttext E vs st =
     (case (check_string E vs 1, check_int E vs 2, check_int E vs 3) of
        (Some str, Some x, Some y) \<Rightarrow>
          on_disp (snd st) (platform_disp_puttext (map of_char str) (u16_of x) (u16_of y) (fst st))
      | _ \<Rightarrow> Some (Inl Err_argument))"

definition disp_putimage :: "disp_env \<Rightarrow> lua_val list \<Rightarrow> disp \<times> lcd \<Rightarrow> disp_result" where
  "disp_putimage E vs st =
     (case (check_string E vs 1, opt_int E vs 2 0, opt_int E vs 3 0, opt_int E vs 4 (- 1), opt_int E vs 5 0, opt_int E vs 6 0,
            opt_int E vs 7 0, opt_int E vs 8 0) of
        (Some name, Some x, Some y, Some transcolor, Some left, Some up, Some right, Some bottom) \<Rightarrow>
          on_disp (snd st) (map_option fst (platform_disp_putimage name (env_file E name) (env_png E name) (u16_of x) (u16_of y) transcolor
            (u16_of left) (u16_of up) (u16_of right) (u16_of bottom) (fst st)))
      | _ \<Rightarrow> Some (Inl Err_argument))"

definition disp_drawrect :: "disp_env \<Rightarrow> lua_val list \<Rightarrow> disp \<times> lcd \<Rightarrow> disp_result" where
  "disp_drawrect E vs st =
     (case (check_int E vs 1, check_int E vs 2, check_int E vs 3, check_int E vs 4, opt_int E vs 5 (- 1)) of
        (Some left, Some up, Some right, Some bottom, Some color) \<Rightarrow>
          on_disp (snd st) (map_option fst (platform_disp_drawrect left up right bottom color (fst st)))
      | _ \<Rightarrow> Some (Inl Err_argument))"

definition disp_setcolor :: "disp_env \<Rightarrow> lua_val list \<Rightarrow> disp \<times> lcd \<Rightarrow> disp_result" where
  "disp_setcolor E vs st =
     (case check_int E vs 1 of None \<Rightarrow> Some (Inl Err_argument) | Some c \<Rightarrow> with_int (snd st) (platform_disp_setcolor c (fst st)))"

definition disp_setbkcolor :: "disp_env \<Rightarrow> lua_val list \<Rightarrow> disp \<times> lcd \<Rightarrow> disp_result" where
  "disp_setbkcolor E vs st =
     (case check_int E vs 1 of None \<Rightarrow> Some (Inl Err_argument) | Some c \<Rightarrow> with_int (snd st) (platform_disp_setbkcolor c (fst st)))"

definition disp_loadfont :: "disp_env \<Rightarrow> lua_val list \<Rightarrow> disp \<times> lcd \<Rightarrow> disp_result" where
  "disp_loadfont E vs st =
     (case check_string E vs 1 of None \<Rightarrow> Some (Inl Err_argument)
      | Some name \<Rightarrow> with_int (snd st) (platform_disp_loadfont (env_file E name) (fst st)))"

definition disp_setfont :: "disp_env \<Rightarrow> lua_val list \<Rightarrow> disp \<times> lcd \<Rightarrow> disp_result" where
  "disp_setfont E vs st =
     (case check_int E vs 1 of None \<Rightarrow> Some (Inl Err_argument) | Some i \<Rightarrow> with_int (snd st) (platform_disp_setfont i (fst st)))"

definition disp_sleep :: "disp_env \<Rightarrow> lua_val list \<Rightarrow> disp \<times> lcd \<Rightarrow> disp_result" where
  "disp_sleep E vs st =
     (case check_int E vs 1 of None \<Rightarrow> Some (Inl Err_argument)
      | Some sleep \<Rightarrow> map_option (\<lambda>s. Inr ([], fst st, s)) (platform_lcd_powersave (sleep \<noteq> 0) (snd st)))"

text \<open>The table of the module; a name it does not have is \<open>nil\<close>, which cannot be called.\<close>

datatype disp_fun = F_init | F_close | F_clear | F_update | F_puttext | F_putimage | F_drawrect | F_setcolor | F_setbkcolor
  | F_loadfont | F_setfont | F_sleep

definition disp_map :: "(string \<times> disp_fun) list" where
  "disp_map = [(''init'', F_init), (''close'', F_close), (''clear'', F_clear), (''update'', F_update), (''puttext'', F_puttext),
     (''putimage'', F_putimage), (''drawrect'', F_drawrect), (''setcolor'', F_setcolor), (''setbkcolor'', F_setbkcolor),
     (''loadfont'', F_loadfont), (''setfont'', F_setfont), (''sleep'', F_sleep)]"

fun disp_apply :: "disp_env \<Rightarrow> disp_fun \<Rightarrow> lua_val list \<Rightarrow> disp \<times> lcd \<Rightarrow> disp_result" where
  "disp_apply E F_init vs st = disp_init E vs st"
| "disp_apply E F_close vs st = disp_close st"
| "disp_apply E F_clear vs st = disp_clear st"
| "disp_apply E F_update vs st = disp_update st"
| "disp_apply E F_puttext vs st = disp_puttext E vs st"
| "disp_apply E F_putimage vs st = disp_putimage E vs st"
| "disp_apply E F_drawrect vs st = disp_drawrect E vs st"
| "disp_apply E F_setcolor vs st = disp_setcolor E vs st"
| "disp_apply E F_setbkcolor vs st = disp_setbkcolor E vs st"
| "disp_apply E F_loadfont vs st = disp_loadfont E vs st"
| "disp_apply E F_setfont vs st = disp_setfont E vs st"
| "disp_apply E F_sleep vs st = disp_sleep E vs st"

text \<open>A script that makes calls one after the other and catches their errors.\<close>

definition disp_call :: "disp_env \<Rightarrow> string \<times> lua_val list \<Rightarrow> disp \<times> lcd \<Rightarrow> (disp \<times> lcd) option" where
  "disp_call E c st =
     (case map_of disp_map (fst c) of None \<Rightarrow> Some st
      | Some f \<Rightarrow> (case disp_apply E f (snd c) st of None \<Rightarrow> None | Some (Inl e) \<Rightarrow> Some st | Some (Inr (r, st')) \<Rightarrow> Some st'))"

section \<open>What reaches the drivers\<close>

lemma command_table_size:
  "length (fst (command_table num xs)) = unat (snd (command_table num xs))"
  "length xs < 2 ^ 16 \<Longrightarrow> fst (command_table num xs) = map (\<lambda>v. word_of_int (lua_tointeger num v)) xs"
proof -
  have le: "unat (of_nat (length xs) :: u16) \<le> length xs" by (simp add: unsigned_of_nat take_bit_nat_less_eq_self)
  then show "length (fst (command_table num xs)) = unat (snd (command_table num xs))"
    by (simp add: command_table_def Let_def)
  show "length xs < 2 ^ 16 \<Longrightarrow> fst (command_table num xs) = map (\<lambda>v. word_of_int (lua_tointeger num v)) xs"
    by (simp add: command_table_def Let_def unsigned_of_nat take_bit_nat_eq_self)
qed

lemma opt_table_size: "length (fst (opt_table num v)) = unat (snd (opt_table num v))"
  by (cases "array_of v") (simp_all add: opt_table_def command_table_size)

text \<open>Whatever the script gives: parameters that are accepted have a size the display can use and a
  depth it knows, the sizes of the three command tables are those of their blocks, so that copying
  them stays inside, and a bus with an interface has one.\<close>

lemma disp_params_valid:
  assumes "disp_params num arg = Inr (p, fill)"
  shows "0 < p_width p \<and> p_width p < 2 ^ 16 \<and> 0 < p_height p \<and> p_height p < 2 ^ 16 \<and> p_bpp p \<in> {1, 16}
    \<and> length (p_initcmd p) = unat (p_tableSize p)
    \<and> copy_table (p_sleepcmd p) (p_sleepCmdSize p) = Some (p_sleepcmd p @ [- 1])
    \<and> copy_table (p_wakecmd p) (p_wakeCmdSize p) = Some (p_wakecmd p @ [- 1])
    \<and> (p_bus p = 2 \<longrightarrow> (\<exists>a b c d e. p_itf p = Itf_i2c a b c d e)) \<and> (p_bus p = 3 \<longrightarrow> (\<exists>a b. p_itf p = Itf_spi a b))"
proof -
  obtain t width height bpp bus itf rst fill cmds where
    g: "width \<noteq> 0" "height \<noteq> 0" "bpp = 16 \<or> bpp = 1" "interface_of num bus t = Some itf"
    and p: "p_width p = unat (width :: u16)" "p_height p = unat (height :: u16)" "p_bpp p = unat (bpp :: u8)"
      "p_initcmd p = fst (command_table num cmds)" "p_tableSize p = snd (command_table num cmds)"
      "p_sleepcmd p = fst (opt_table num (lua_getfield t ''sleepcmd''))" "p_sleepCmdSize p = snd (opt_table num (lua_getfield t ''sleepcmd''))"
      "p_wakecmd p = fst (opt_table num (lua_getfield t ''wakecmd''))" "p_wakeCmdSize p = snd (opt_table num (lua_getfield t ''wakecmd''))"
      "p_bus p = unat bus" "p_itf p = itf"
    using assms by (fastforce simp: disp_params_def Let_def case_prod_unfold split: option.splits if_splits)
  have copy: "copy_table (fst (opt_table num v)) (snd (opt_table num v)) = Some (fst (opt_table num v) @ [- 1])" for v
    using opt_table_size [of num v] by (simp add: copy_table_def)
  have "unat bus = 2 \<Longrightarrow> bus = 2" "unat bus = 3 \<Longrightarrow> bus = 3" by (simp_all add: word_unat_eq_iff)
  then have itf: "(unat bus = 2 \<longrightarrow> (\<exists>a b c d e. itf = Itf_i2c a b c d e)) \<and> (unat bus = 3 \<longrightarrow> (\<exists>a b. itf = Itf_spi a b))"
    using g(4) by (auto simp: interface_of_def split: option.splits)
  have "unat width < 2 ^ 16" "unat height < 2 ^ 16" "0 < unat width" "0 < unat height"
    using unsigned_less [of width, where 'a = nat] unsigned_less [of height, where 'a = nat] g(1,2)
    by (simp_all add: unat_gt_0)
  then show ?thesis using g(3) itf copy command_table_size(1) [of num cmds] unfolding p by auto
qed

text \<open>The depth is taken modulo 256: a script that asks for 272 bits gets 16.\<close>

lemma depth_wraps:
  "\<exists>p. disp_params (\<lambda>_. None) (V_tab [(''width'', V_num 8), (''height'', V_num 8), (''bpp'', V_num 272),
      (''pinrst'', V_num 14), (''initcmd'', V_array [])]) = Inr (p, - 1) \<and> p_bpp p = 16"
  by (simp add: disp_params_def disp_getFiledInt_def lua_getfield_def lua_tointeger_def checkFiledInt_def optFiledInt_def
      interface_of_def Let_def case_prod_unfold)

section \<open>Scripts\<close>

text \<open>What a script has to see to: whole pages on a monochrome screen and memory for the frame buffer,
  and fonts of glyphs that the blank character is large enough for.\<close>

definition init_fits :: "disp_env \<Rightarrow> lua_val list \<Rightarrow> bool" where
  "init_fits E vs =
     (case disp_params (env_num E) (lua_arg vs 1) of Inl e \<Rightarrow> True
      | Inr (p, _) \<Rightarrow> (p_bpp p = 16 \<or> p_height p mod 8 = 0) \<and>
          map_option length (env_malloc E (p_width p * p_height p * p_bpp p div 8)) = Some (p_width p * p_height p * p_bpp p div 8))"

fun fun_fits :: "disp_env \<Rightarrow> disp_fun \<Rightarrow> lua_val list \<Rightarrow> bool" where
  "fun_fits E F_init vs = init_fits E vs"
| "fun_fits E F_close vs = False"
| "fun_fits E F_loadfont vs = (case check_string E vs 1 of None \<Rightarrow> True | Some name \<Rightarrow> op_fits (LoadFont (env_file E name)))"
| "fun_fits E _ vs = True"

definition call_fits :: "disp_env \<Rightarrow> string \<times> lua_val list \<Rightarrow> bool" where
  "call_fits E c = (case map_of disp_map (fst c) of None \<Rightarrow> True | Some f \<Rightarrow> fun_fits E f (snd c))"

text \<open>The fonts the firmware is linked with.\<close>

definition env_ok :: "disp_env \<Rightarrow> bool" where
  "env_ok E \<longleftrightarrow> length (env_font E) = 1520 \<and> length (env_hz E) = 216576 \<and> length (env_ext E) = 960"

definition disp_safe :: "disp \<Rightarrow> bool" where
  "disp_safe d \<longleftrightarrow> disp_typed d \<and> fonts_inited d"

lemma init_safe:
  assumes "env_ok E" and "init_fits E vs" and "disp_init E vs (d, s) = Some (Inr (r, d', s'))"
    and "disp_safe d \<or> \<not> fonts_inited d \<and> curr_font_id d = 0"
  shows "disp_safe d'"
proof -
  obtain p fill where p: "disp_params (env_num E) (lua_arg vs 1) = Inr (p, fill)"
    using assms(3) by (cases "disp_params (env_num E) (lua_arg vs 1)") (auto simp: disp_init_def)
  define size where "size = p_width p * p_height p * p_bpp p div 8"
  obtain block where block: "env_malloc E size = Some block" "length block = size"
    and fits: "p_bpp p = 16 \<or> p_bpp p = 1 \<and> p_height p mod 8 = 0"
    using assms(2) disp_params_valid [OF p] p by (auto simp: init_fits_def size_def)
  have d': "platform_disp_init (p_width p) (p_height p) (p_bpp p) fill (Some block) (env_font E) (Some (env_hz E)) (env_ext E) d = Some d'"
    using assms(3) p block(1) by (auto simp: disp_init_def size_def split: option.splits)
  have lens: "length (env_font E) = 1520" "length (env_hz E) = 216576" "length (env_ext E) = 960"
    using assms(1) by (simp_all add: env_ok_def)
  show ?thesis
  proof (cases "fonts_inited d")
    case False
    with assms(4) have cold: "\<not> fonts_inited d" "curr_font_id d = 0" by (simp_all add: disp_safe_def)
    have "disp_typed d'" using disp_init_typed [OF fits block(2) [unfolded size_def] lens cold, of fill] d' by auto
    moreover have "fonts_inited d'" using d' by (auto simp: platform_disp_init_def Let_def fontInit_def split: if_splits)
    ultimately show ?thesis by (simp add: disp_safe_def)
  next
    case True
    with assms(4) have t: "disp_typed d" by (simp add: disp_safe_def)
    have f: "framebuffer d' = Some block" "lcd_width d' = p_width p" "lcd_height d' = p_height p" "lcd_bpp d' = p_bpp p"
      "dispFonts d' = dispFonts d" "curr_font_id d' = curr_font_id d" "hz_ok d' = hz_ok d" "fonts_inited d'"
      using d' True by (auto simp: platform_disp_init_def Let_def fontInit_def hz_ok_def split: if_splits)
    show ?thesis using init_screen [OF fits block(2) [unfolded size_def] f(1-4)] t f(5-8)
      by (simp add: disp_safe_def disp_typed_def)
  qed
qed

lemma fb_kept_inited: "fb_kept d d' \<Longrightarrow> fonts_inited d' = fonts_inited d"
  by (auto simp: fb_kept_def same_disp_def)

lemma step_inited: "disp_step op d = Some d' \<Longrightarrow> fonts_inited d' = fonts_inited d"
proof (cases op)
  case Clear then show "disp_step op d = Some d' \<Longrightarrow> ?thesis" using fb_kept_inited [OF kept_atD [OF clear_kept]] by simp
next
  case PutText then show "disp_step op d = Some d' \<Longrightarrow> ?thesis" using fb_kept_inited [OF kept_atD [OF puttext_kept]] by simp
next
  case PutImage then show "disp_step op d = Some d' \<Longrightarrow> ?thesis" using fb_kept_inited [OF kept_resD [OF putimage_kept]] by simp
next
  case DrawRect then show "disp_step op d = Some d' \<Longrightarrow> ?thesis" using fb_kept_inited [OF kept_resD [OF drawrect_kept]] by simp
qed (auto simp: platform_disp_setcolor_def platform_disp_setbkcolor_def platform_disp_setfont_def platform_disp_loadfont_def
    Let_def split: option.splits if_splits)

text \<open>A drawing call of the module is a step of the drawing layer, or leaves the display alone.\<close>

lemma apply_is_step:
  assumes "disp_apply E f vs (d, s) = Some (Inr (r, d', s'))" and "fun_fits E f vs" and "f \<noteq> F_init"
  shows "d' = d \<or> (\<exists>op. op_fits op \<and> disp_step op d = Some d')"
proof (cases f)
  case F_clear
  then show ?thesis using assms by (auto simp: disp_clear_def on_disp_def intro!: disjI2 exI [of _ Clear])
next
  case F_update
  then show ?thesis using assms by (auto simp: disp_update_def split: prod.splits)
next
  case F_puttext
  then obtain str x y where "platform_disp_puttext (map of_char str) (u16_of x) (u16_of y) d = Some d'"
    using assms by (auto simp: disp_puttext_def on_disp_def split: option.splits)
  then show ?thesis by (intro disjI2 exI [of _ "PutText (map of_char str) (u16_of x) (u16_of y)"]) simp
next
  case F_putimage
  then obtain name x y t l u rr b where
    "map_option fst (platform_disp_putimage name (env_file E name) (env_png E name) x y t l u rr b d) = Some d'"
    using assms by (auto simp: disp_putimage_def on_disp_def split: option.splits) blast
  then show ?thesis
    by (intro disjI2 exI [of _ "PutImage name (env_file E name) (env_png E name) x y t l u rr b"]) simp
next
  case F_drawrect
  then obtain x1 y1 x2 y2 c where "map_option fst (platform_disp_drawrect x1 y1 x2 y2 c d) = Some d'"
    using assms by (auto simp: disp_drawrect_def on_disp_def split: option.splits) blast
  then show ?thesis by (intro disjI2 exI [of _ "DrawRect x1 y1 x2 y2 c"]) simp
next
  case F_setcolor
  then obtain c where "d' = fst (platform_disp_setcolor c d)"
    using assms by (auto simp: disp_setcolor_def with_int_def split: option.splits)
  then show ?thesis by (intro disjI2 exI [of _ "SetColor c"]) simp
next
  case F_setbkcolor
  then obtain c where "d' = fst (platform_disp_setbkcolor c d)"
    using assms by (auto simp: disp_setbkcolor_def with_int_def split: option.splits)
  then show ?thesis by (intro disjI2 exI [of _ "SetBkColor c"]) simp
next
  case F_loadfont
  then obtain name where "check_string E vs 1 = Some name" "d' = fst (platform_disp_loadfont (env_file E name) d)"
    using assms by (auto simp: disp_loadfont_def with_int_def split: option.splits)
  then show ?thesis using assms(2) F_loadfont by (intro disjI2 exI [of _ "LoadFont (env_file E name)"]) simp
next
  case F_setfont
  then obtain i where "d' = fst (platform_disp_setfont i d)"
    using assms by (auto simp: disp_setfont_def with_int_def split: option.splits)
  then show ?thesis by (intro disjI2 exI [of _ "SetFont i"]) simp
next
  case F_sleep
  then show ?thesis using assms by (auto simp: disp_sleep_def split: option.splits)
qed (use assms in auto)

lemma call_safe:
  assumes "env_ok E" and "call_fits E c" and "disp_safe (fst st)" and "disp_call E c st = Some st'"
  shows "disp_safe (fst st')"
proof -
  obtain d s d' s' where st: "st = (d, s)" "st' = (d', s')" by (cases st, cases st')
  consider "st' = st" | f r where "map_of disp_map (fst c) = Some f" "disp_apply E f (snd c) (d, s) = Some (Inr (r, d', s'))"
    using assms(4) by (auto simp: disp_call_def st split: option.splits sum.splits)
  then show ?thesis
  proof cases
    case 2
    then have fits: "fun_fits E f (snd c)" using assms(2) by (simp add: call_fits_def)
    show ?thesis
    proof (cases "f = F_init")
      case True
      then show ?thesis using init_safe [OF assms(1), of "snd c" d s r d' s'] 2 fits assms(3) st by simp
    next
      case False
      then show ?thesis using apply_is_step [OF 2(2) fits] disp_step_typed step_inited assms(3) st
        by (auto simp: disp_safe_def)
    qed
  qed (use assms(3) in simp)
qed

lemma script_safe:
  "env_ok E \<Longrightarrow> \<forall>c\<in>set cs. call_fits E c \<Longrightarrow> disp_safe (fst st) \<Longrightarrow> for_each (disp_call E) cs st = Some st' \<Longrightarrow>
    disp_safe (fst st')"
proof (induction cs arbitrary: st)
  case (Cons c cs)
  then obtain u where u: "disp_call E c st = Some u" "for_each (disp_call E) cs u = Some st'" by (auto split: option.splits)
  then show ?case using call_safe [of E c st u] Cons by simp
qed simp


definition demo_env :: disp_env where
  "demo_env = \<lparr>env_num = (\<lambda>_. None), env_str = (\<lambda>_. []), env_file = (\<lambda>_. None), env_png = (\<lambda>_. None),
     env_malloc = (\<lambda>n. Some (replicate n 0)), env_font = replicate 1520 0, env_hz = replicate 216576 0, env_ext = replicate 960 0\<rparr>"

definition demo_table :: "(string \<times> lua_val) list" where
  "demo_table = [(''width'', V_num 16), (''height'', V_num 16), (''bpp'', V_num 16), (''pinrst'', V_num 1), (''pincs'', V_num 2),
     (''initcmd'', V_array [])]"

definition demo_param :: lcd_param where
  "demo_param = \<lparr>p_width = 16, p_height = 16, p_bpp = 16, p_x_offset = 0, p_y_offset = 0, p_initcmd = [], p_tableSize = 0,
     p_sleepcmd = [], p_sleepCmdSize = 0, p_wakecmd = [], p_wakeCmdSize = 0, p_bus = 0, p_itf = Itf_none, p_pin_rst = 1, p_pin_cs = 2\<rparr>"

lemma demo_params: "disp_params (\<lambda>_. None) (V_tab demo_table) = Inr (demo_param, - 1)"
  by code_simp

lemma demo_lcd: "\<exists>s. platform_lcd_init demo_param boot_lcd = Some s"
proof -
  have "platform_pio_get_gpio_port 1 = Some 1" "platform_pio_get_gpio_port 2 = Some 2" by code_simp+
  then show ?thesis
    by (simp add: platform_lcd_init_def demo_param_def boot_lcd_def copy_table_def lcd_init_table_def lcd_bus_spi4line_init_def
        l_emit_def write_command_table_def)
qed


end
