(* ===== verification/ApnTable.thy ===== *)
theory ApnTable
  imports Prelude
begin

text \<open>
  The table \<open>defaultApnInfo\<close> of \<open>modules/src/apn.c\<close>, row for row: country and network code as the source
  writes them, hexadecimal numbers with the digits of the decimal codes, then access point, user and
  password. The last row is the end mark.
\<close>

record DEFAULT_APN_INFO =
  mcc :: u16
  mnc :: u16
  apnName :: string
  userName :: string
  password :: string

definition apn_row :: "u16 \<Rightarrow> u16 \<Rightarrow> string \<Rightarrow> string \<Rightarrow> string \<Rightarrow> DEFAULT_APN_INFO" where
  "apn_row c n a u p = \<lparr>mcc = c, mnc = n, apnName = a, userName = u, password = p\<rparr>"

definition apn_rows_1 :: "DEFAULT_APN_INFO list" where
  "apn_rows_1 = [
    apn_row 0x234 0x03 ''airtel-ci-gprs.com'' [] [],
    apn_row 0x234 0x26 ''data.lycamobile.co.uk'' ''lmuk'' ''plus'',
    apn_row 0x250 0x01 ''wap.mts.ru'' ''mts'' ''mts'',
    apn_row 0x250 0x04 ''wap.mts.ru'' ''mts'' ''mts'',
    apn_row 0x250 0x05 ''wap.mts.ru'' ''mts'' ''mts'',
    apn_row 0x250 0x10 ''wap.mts.ru'' ''mts'' ''mts'',
    apn_row 0x250 0x13 ''wap.mts.ru'' ''mts'' ''mts'',
    apn_row 0x250 0x39 ''wap.mts.ru'' ''mts'' ''mts'',
    apn_row 0x250 0x92 ''wap.mts.ru'' ''mts'' ''mts'',
    apn_row 0x250 0x93 ''wap.mts.ru'' ''mts'' ''mts'',
    apn_row 0x404 0x73 ''bsnllive'' [] [],
    apn_row 0x404 0x57 ''bsnllive'' [] [],
    apn_row 0x404 0x71 ''bsnllive'' [] [],
    apn_row 0x404 0x66 ''bsnllive'' [] [],
    apn_row 0x404 0x80 ''bsnllive'' [] [],
    apn_row 0x404 0x34 ''bsnllive'' [] [],
    apn_row 0x404 0x72 ''bsnllive'' [] [],
    apn_row 0x404 0x58 ''bsnllive'' [] [],
    apn_row 0x404 0x53 ''bsnllive'' [] [],
    apn_row 0x404 0x59 ''bsnllive'' [] [],
    apn_row 0x404 0x55 ''bsnllive'' [] [],
    apn_row 0x404 0x54 ''bsnllive'' [] [],
    apn_row 0x404 0x74 ''bsnllive'' [] [],
    apn_row 0x404 0x38 ''bsnllive'' [] [],
    apn_row 0x404 0x75 ''bsnllive'' [] [],
    apn_row 0x404 0x51 ''bsnllive'' [] [],
    apn_row 0x404 0x62 ''bsnllive'' [] [],
    apn_row 0x404 0x77 ''bsnllive'' [] [],
    apn_row 0x404 0x76 ''bsnllive'' [] [],
    apn_row 0x404 0x64 ''bsnllive'' [] [],
    apn_row 0x404 0x81 ''bsnllive'' [] [],
    apn_row 0x404 0x49 ''airtelfun.com'' [] [],
    apn_row 0x404 0x98 ''airtelfun.com'' [] [],
    apn_row 0x404 0x45 ''airtelfun.com'' [] [],
    apn_row 0x404 0x90 ''airtelfun.com'' [] [],
    apn_row 0x404 0x94 ''airtelfun.com'' [] [],
    apn_row 0x404 0x96 ''airtelfun.com'' [] [],
    apn_row 0x404 0x95 ''airtelfun.com'' [] [],
    apn_row 0x404 0x93 ''airtelfun.com'' [] [],
    apn_row 0x404 0x02 ''airtelfun.com'' [] [],
    apn_row 0x404 0x70 ''airtelfun.com'' [] [],
    apn_row 0x404 0x97 ''airtelfun.com'' [] [],
    apn_row 0x404 0x03 ''airtelfun.com'' [] [],
    apn_row 0x404 0x16 ''airtelfun.com'' [] [],
    apn_row 0x404 0x40 ''airtelfun.com'' [] [],
    apn_row 0x404 0x10 ''airtelfun.com'' [] [],
    apn_row 0x404 0x31 ''airtelfun.com'' [] [],
    apn_row 0x404 0x92 ''airtelfun.com'' [] [],
    apn_row 0x404 0x13 ''portalnmms'' [] [],
    apn_row 0x404 0x05 ''portalnmms'' [] [],
    apn_row 0x404 0x86 ''portalnmms'' [] [],
    apn_row 0x404 0x27 ''portalnmms'' [] [],
    apn_row 0x404 0x43 ''portalnmms'' [] [],
    apn_row 0x404 0x01 ''portalnmms'' [] [],
    apn_row 0x404 0x46 ''portalnmms'' [] [],
    apn_row 0x404 0x88 ''portalnmms'' [] [],
    apn_row 0x404 0x60 ''portalnmms'' [] [],
    apn_row 0x404 0x15 ''portalnmms'' [] [],
    apn_row 0x404 0x84 ''portalnmms'' [] [],
    apn_row 0x404 0x11 ''portalnmms'' [] [],
    apn_row 0x404 0x30 ''portalnmms'' [] [],
    apn_row 0x404 0x20 ''portalnmms'' [] [],
    apn_row 0x404 0x42 ''aircelwap'' [] [],
    apn_row 0x404 0x17 ''aircelwap'' [] [],
    apn_row 0x404 0x29 ''aircelwap'' [] [],
    apn_row 0x404 0x25 ''aircelwap'' [] [],
    apn_row 0x404 0x35 ''aircelwap'' [] [],
    apn_row 0x404 0x37 ''aircelwap'' [] [],
    apn_row 0x404 0x33 ''aircelwap'' [] [],
    apn_row 0x404 0x28 ''aircelwap'' [] [],
    apn_row 0x404 0x41 ''aircelwap'' [] [],
    apn_row 0x404 0x91 ''aircelwap'' [] [],
    apn_row 0x404 0x07 ''imis'' [] [],
    apn_row 0x404 0x24 ''imis'' [] [],
    apn_row 0x404 0x04 ''imis'' [] [],
    apn_row 0x404 0x22 ''imis'' [] [],
    apn_row 0x404 0x12 ''imis'' [] [],
    apn_row 0x404 0x19 ''imis'' [] [],
    apn_row 0x404 0x78 ''imis'' [] [],
    apn_row 0x404 0x14 ''imis'' [] [],
    apn_row 0x404 0x87 ''imis'' [] [],
    apn_row 0x404 0x89 ''imis'' [] [],
    apn_row 0x404 0x56 ''imis'' [] [],
    apn_row 0x404 0x82 ''imis'' [] [],
    apn_row 0x404 0x44 ''imis'' [] [],
    apn_row 0x404 0x68 ''mtnl.net'' ''mtnl'' ''mtnl123'',
    apn_row 0x404 0x69 ''mtnl.net'' [] [],
    apn_row 0x404 0x21 ''www'' [] [],
    apn_row 0x404 0x21 ''mizone'' ''919821099800'' ''mmsc'',
    apn_row 0x404 0x21 ''mizone'' ''919821099800'' ''mmsc'',
    apn_row 0x404 0x83 ''smartwap'' [] [],
    apn_row 0x404 0x85 ''smartwap'' [] [],
    apn_row 0x404 0x67 ''smartwap'' [] [],
    apn_row 0x404 0x09 ''smartwap'' [] [],
    apn_row 0x404 0x36 ''smartwap'' [] [],
    apn_row 0x404 0x18 ''smartwap'' [] [],
    apn_row 0x404 0x50 ''smartwap'' [] [],
    apn_row 0x404 0x52 ''smartwap'' [] [],
    apn_row 0x405 0x54 ''airtelfun.com'' [] [],
    apn_row 0x405 0x51 ''airtelfun.com'' [] [],
    apn_row 0x405 0x56 ''airtelfun.com'' [] [],
    apn_row 0x405 0x52 ''airtelfun.com'' [] [],
    apn_row 0x405 0x55 ''airtelfun.com'' [] [],
    apn_row 0x405 0x53 ''airtelfun.com'' [] [],
    apn_row 0x405 0x756 ''portalnmms'' [] [],
    apn_row 0x405 0x66 ''portalnmms'' [] [],
    apn_row 0x405 0x67 ''portalnmms'' [] [],
    apn_row 0x405 0x751 ''portalnmms'' [] [],
    apn_row 0x405 0x752 ''portalnmms'' [] [],
    apn_row 0x405 0x754 ''portalnmms'' [] [],
    apn_row 0x405 0x750 ''portalnmms'' [] [],
    apn_row 0x405 0x755 ''portalnmms'' [] [],
    apn_row 0x405 0x753 ''portalnmms'' [] [],
    apn_row 0x405 0x801 ''aircelwap'' [] [],
    apn_row 0x405 0x802 ''aircelwap'' [] [],
    apn_row 0x405 0x803 ''aircelwap'' [] [],
    apn_row 0x405 0x804 ''aircelwap'' [] [],
    apn_row 0x405 0x807 ''aircelwap'' [] [],
    apn_row 0x405 0x809 ''aircelwap'' [] [],
    apn_row 0x405 0x808 ''aircelwap'' [] [],
    apn_row 0x405 0x812 ''aircelwap'' [] [],
    apn_row 0x405 0x806 ''aircelwap'' [] [],
    apn_row 0x405 0x810 ''aircelwap'' [] [],
    apn_row 0x405 0x811 ''aircelwap'' [] [],
    apn_row 0x405 0x800 ''aircelwap'' [] [],
    apn_row 0x405 0x805 ''aircelwap'' [] [],
    apn_row 0x405 0x852 ''imis'' [] [],
    apn_row 0x405 0x853 ''imis'' [] [],
    apn_row 0x405 0x845 ''imis'' [] [],
    apn_row 0x405 0x70 ''imis'' [] [],
    apn_row 0x405 0x846 ''imis'' [] [],
    apn_row 0x405 0x849 ''imis'' [] [],
    apn_row 0x405 0x850 ''imis'' [] [],
    apn_row 0x405 0x848 ''imis'' [] [],
    apn_row 0x405 0x799 ''imis'' [] [],
    apn_row 0x405 0x854 ''www'' [] [],
    apn_row 0x405 0x858 ''www'' [] [],
    apn_row 0x405 0x862 ''www'' [] [],
    apn_row 0x405 0x866 ''www'' [] [],
    apn_row 0x405 0x871 ''www'' [] [],
    apn_row 0x405 0x859 ''www'' [] [],
    apn_row 0x405 0x863 ''www'' [] []]"

definition apn_rows_2 :: "DEFAULT_APN_INFO list" where
  "apn_rows_2 = [
    apn_row 0x405 0x865 ''www'' [] [],
    apn_row 0x405 0x869 ''www'' [] [],
    apn_row 0x405 0x870 ''www'' [] [],
    apn_row 0x405 0x872 ''www'' [] [],
    apn_row 0x405 0x873 ''www'' [] [],
    apn_row 0x405 0x874 ''www'' [] [],
    apn_row 0x405 0x855 ''www'' [] [],
    apn_row 0x405 0x856 ''www'' [] [],
    apn_row 0x405 0x860 ''www'' [] [],
    apn_row 0x405 0x861 ''www'' [] [],
    apn_row 0x405 0x867 ''www'' [] [],
    apn_row 0x405 0x868 ''www'' [] [],
    apn_row 0x405 0x857 ''www'' [] [],
    apn_row 0x405 0x864 ''www'' [] [],
    apn_row 0x405 0x854 ''mizone'' ''919821099800'' ''mmsc'',
    apn_row 0x405 0x858 ''mizone'' ''919821099800'' ''mmsc'',
    apn_row 0x405 0x862 ''mizone'' ''919821099800'' ''mmsc'',
    apn_row 0x405 0x866 ''mizone'' ''919821099800'' ''mmsc'',
    apn_row 0x405 0x871 ''mizone'' ''919821099800'' ''mmsc'',
    apn_row 0x405 0x859 ''mizone'' ''919821099800'' ''mmsc'',
    apn_row 0x405 0x863 ''mizone'' ''919821099800'' ''mmsc'',
    apn_row 0x405 0x865 ''mizone'' ''919821099800'' ''mmsc'',
    apn_row 0x405 0x869 ''mizone'' ''919821099800'' ''mmsc'',
    apn_row 0x405 0x870 ''mizone'' ''919821099800'' ''mmsc'',
    apn_row 0x405 0x872 ''mizone'' ''919821099800'' ''mmsc'',
    apn_row 0x405 0x873 ''mizone'' ''919821099800'' ''mmsc'',
    apn_row 0x405 0x874 ''mizone'' ''919821099800'' ''mmsc'',
    apn_row 0x405 0x855 ''mizone'' ''919821099800'' ''mmsc'',
    apn_row 0x405 0x856 ''mizone'' ''919821099800'' ''mmsc'',
    apn_row 0x405 0x860 ''mizone'' ''919821099800'' ''mmsc'',
    apn_row 0x405 0x861 ''mizone'' ''919821099800'' ''mmsc'',
    apn_row 0x405 0x867 ''mizone'' ''919821099800'' ''mmsc'',
    apn_row 0x405 0x868 ''mizone'' ''919821099800'' ''mmsc'',
    apn_row 0x405 0x857 ''mizone'' ''919821099800'' ''mmsc'',
    apn_row 0x405 0x864 ''mizone'' ''919821099800'' ''mmsc'',
    apn_row 0x405 0x025 ''TATA.DOCOMO.DIVE.IN'' [] [],
    apn_row 0x405 0x030 ''TATA.DOCOMO.DIVE.IN'' [] [],
    apn_row 0x405 0x034 ''TATA.DOCOMO.DIVE.IN'' [] [],
    apn_row 0x405 0x037 ''TATA.DOCOMO.DIVE.IN'' [] [],
    apn_row 0x405 0x044 ''TATA.DOCOMO.DIVE.IN'' [] [],
    apn_row 0x405 0x031 ''TATA.DOCOMO.DIVE.IN'' [] [],
    apn_row 0x405 0x035 ''TATA.DOCOMO.DIVE.IN'' [] [],
    apn_row 0x405 0x038 ''TATA.DOCOMO.DIVE.IN'' [] [],
    apn_row 0x405 0x042 ''TATA.DOCOMO.DIVE.IN'' [] [],
    apn_row 0x405 0x043 ''TATA.DOCOMO.DIVE.IN'' [] [],
    apn_row 0x405 0x045 ''TATA.DOCOMO.DIVE.IN'' [] [],
    apn_row 0x405 0x046 ''TATA.DOCOMO.DIVE.IN'' [] [],
    apn_row 0x405 0x047 ''TATA.DOCOMO.DIVE.IN'' [] [],
    apn_row 0x405 0x026 ''TATA.DOCOMO.DIVE.IN'' [] [],
    apn_row 0x405 0x027 ''TATA.DOCOMO.DIVE.IN'' [] [],
    apn_row 0x405 0x032 ''TATA.DOCOMO.DIVE.IN'' [] [],
    apn_row 0x405 0x033 ''TATA.DOCOMO.DIVE.IN'' [] [],
    apn_row 0x405 0x040 ''TATA.DOCOMO.DIVE.IN'' [] [],
    apn_row 0x405 0x041 ''TATA.DOCOMO.DIVE.IN'' [] [],
    apn_row 0x405 0x029 ''TATA.DOCOMO.DIVE.IN'' [] [],
    apn_row 0x405 0x036 ''TATA.DOCOMO.DIVE.IN'' [] [],
    apn_row 0x405 0x039 ''TATA.DOCOMO.DIVE.IN'' [] [],
    apn_row 0x405 0x819 ''uninor'' [] [],
    apn_row 0x405 0x927 ''uninor'' [] [],
    apn_row 0x405 0x820 ''uninor'' [] [],
    apn_row 0x405 0x929 ''uninor'' [] [],
    apn_row 0x405 0x925 ''uninor'' [] [],
    apn_row 0x405 0x813 ''uninor'' [] [],
    apn_row 0x405 0x821 ''uninor'' [] [],
    apn_row 0x405 0x928 ''uninor'' [] [],
    apn_row 0x405 0x816 ''uninor'' [] [],
    apn_row 0x405 0x817 ''uninor'' [] [],
    apn_row 0x405 0x879 ''uninor'' [] [],
    apn_row 0x405 0x818 ''uninor'' [] [],
    apn_row 0x405 0x880 ''uninor'' [] [],
    apn_row 0x405 0x875 ''uninor'' [] [],
    apn_row 0x405 0x876 ''uninor'' [] [],
    apn_row 0x405 0x814 ''uninor'' [] [],
    apn_row 0x405 0x815 ''uninor'' [] [],
    apn_row 0x405 0x877 ''uninor'' [] [],
    apn_row 0x405 0x878 ''uninor'' [] [],
    apn_row 0x405 0x844 ''uninor'' [] [],
    apn_row 0x405 0x822 ''uninor'' [] [],
    apn_row 0x405 0x926 ''uninor'' [] [],
    apn_row 0x405 0x01 ''rcomwap'' [] [],
    apn_row 0x405 0x06 ''rcomwap'' [] [],
    apn_row 0x405 0x10 ''rcomwap'' [] [],
    apn_row 0x405 0x13 ''rcomwap'' [] [],
    apn_row 0x405 0x20 ''rcomwap'' [] [],
    apn_row 0x405 0x07 ''rcomwap'' [] [],
    apn_row 0x405 0x11 ''rcomwap'' [] [],
    apn_row 0x405 0x18 ''rcomwap'' [] [],
    apn_row 0x405 0x19 ''rcomwap'' [] [],
    apn_row 0x405 0x21 ''rcomwap'' [] [],
    apn_row 0x405 0x22 ''rcomwap'' [] [],
    apn_row 0x405 0x09 ''rcomwap'' [] [],
    apn_row 0x405 0x04 ''rcomwap'' [] [],
    apn_row 0x405 0x05 ''rcomwap'' [] [],
    apn_row 0x405 0x15 ''rcomwap'' [] [],
    apn_row 0x405 0x823 ''vgprs.com'' [] [],
    apn_row 0x405 0x827 ''vgprs.com'' [] [],
    apn_row 0x405 0x831 ''vgprs.com'' [] [],
    apn_row 0x405 0x835 ''vgprs.com'' [] [],
    apn_row 0x405 0x840 ''vgprs.com'' [] [],
    apn_row 0x405 0x828 ''vgprs.com'' [] [],
    apn_row 0x405 0x832 ''vgprs.com'' [] [],
    apn_row 0x405 0x834 ''vgprs.com'' [] [],
    apn_row 0x405 0x839 ''vgprs.com'' [] [],
    apn_row 0x405 0x841 ''vgprs.com'' [] [],
    apn_row 0x405 0x842 ''vgprs.com'' [] [],
    apn_row 0x405 0x843 ''vgprs.com'' [] [],
    apn_row 0x405 0x824 ''vgprs.com'' [] [],
    apn_row 0x405 0x825 ''vgprs.com'' [] [],
    apn_row 0x405 0x829 ''vgprs.com'' [] [],
    apn_row 0x405 0x830 ''vgprs.com'' [] [],
    apn_row 0x405 0x837 ''vgprs.com'' [] [],
    apn_row 0x405 0x838 ''vgprs.com'' [] [],
    apn_row 0x405 0x833 ''vgprs.com'' [] [],
    apn_row 0x405 0x836 ''vgprs.com'' [] [],
    apn_row 0x405 0x932 ''vinternet.com'' [] [],
    apn_row 0x405 0x932 ''vgprs.com'' [] [],
    apn_row 0x405 0x039 ''m.vbytes.in'' [] [],
    apn_row 0x452 0x01 ''m-wap'' ''mms'' ''mms'',
    apn_row 0x452 0x04 ''v-internet'' [] [],
    apn_row 0x452 0x05 ''internet'' [] [],
    apn_row 0x452 0x05 ''wap'' [] [],
    apn_row 0x457 0x01 ''ltcnet'' [] [],
    apn_row 0x457 0x08 ''beelinewap'' [] [],
    apn_row 0x457 0x08 ''beelinenet'' [] [],
    apn_row 0x510 0x01 ''indosatgprs'' ''indosat'' ''indosat'',
    apn_row 0x510 0x01 ''indosatgprs'' ''indosat'' ''indosat'',
    apn_row 0x510 0x08 ''AXIS'' ''AXIS'' ''123456'',
    apn_row 0x510 0x08 ''AXIS'' ''AXIS'' ''123456'',
    apn_row 0x510 0x10 ''telkomsel'' ''wap'' ''wap123'',
    apn_row 0x510 0x10 ''internet'' [] [],
    apn_row 0x510 0x11 ''www.xlgprs.net'' [] [],
    apn_row 0x510 0x11 ''www.xlgprs.net'' ''xlgprs'' ''proxl'',
    apn_row 0x510 0x21 ''indosatgprs'' ''indosat'' ''indosat'',
    apn_row 0x525 0x03 ''sunsurf'' ''65'' ''user123'',
    apn_row 0x525 0x05 ''shppd'' [] [],
    apn_row 0x635 0x10 ''internet.mtn'' [] [],
    apn_row 0x635 0x13 ''web.tigo.rw'' [] [],
    apn_row 0x635 0x14 ''internet'' [] [],
    apn_row 0x650 0x10 ''internet'' [] [],
    apn_row 0x650 0x01 ''internet'' [] [],
    apn_row 0x730 0x09 ''wap.netelmovil.cl'' [] [],
    apn_row 0x234 0x15 ''payg.talkmobile.co.uk'' ''wap'' ''wap'']"

definition apn_rows_3 :: "DEFAULT_APN_INFO list" where
  "apn_rows_3 = [
    apn_row 0x450 0x06 ''internet.lguplus.co.kr'' [] [],
    apn_row 0x457 0x08 ''beelinemms'' [] [],
    apn_row 0x234 0x15 ''uk.lebara.mobi'' ''wap'' [],
    apn_row 0x234 0x15 ''talkmobile.co.uk'' ''wap'' ''wap'',
    apn_row 0x234 0x15 ''asdamobiles.co.uk'' [] [],
    apn_row 0x234 0x15 ''mobile.talktalk.co.uk'' ''wap'' ''wap'',
    apn_row 0x302 0x220 ''sp.telus.com'' [] [],
    apn_row 0x639 0x02 ''Safaricom'' ''saf'' ''data'',
    apn_row 0x202 0x01 ''internet'' [] [],
    apn_row 0x202 0x05 ''internet'' ''user'' ''pass'',
    apn_row 0x202 0x05 ''internet.vodafone.gr'' ''user'' ''pass'',
    apn_row 0x202 0x05 ''surfonly.vodafone.gr'' [] [],
    apn_row 0x202 0x10 ''gint.b-online.gr'' ''wap'' ''wap'',
    apn_row 0x204 0x16 ''internet'' ''*'' ''*'',
    apn_row 0x204 0x20 ''internet'' [] [],
    apn_row 0x204 0x20 ''rabo.plus'' [] [],
    apn_row 0x206 0x01 ''internet.proximus.be'' [] [],
    apn_row 0x206 0x05 ''telenetwap.be'' [] [],
    apn_row 0x206 0x10 ''mworld.be'' [] [],
    apn_row 0x206 0x20 ''gprs.base.be'' ''base'' ''base'',
    apn_row 0x208 0x00 ''orange-mib'' ''orange'' ''orange'',
    apn_row 0x208 0x00 ''orange'' ''orange'' ''orange'',
    apn_row 0x208 0x00 ''orange.fr'' ''orange'' ''orange'',
    apn_row 0x208 0x01 ''orange'' ''orange'' ''orange'',
    apn_row 0x208 0x02 ''orange'' ''orange'' ''orange'',
    apn_row 0x208 0x02 ''orange.fr'' [] [],
    apn_row 0x208 0x02 ''orange-mib'' ''orange'' ''orange'',
    apn_row 0x208 0x10 ''sl2sfr'' [] [],
    apn_row 0x208 0x11 ''websfr'' [] [],
    apn_row 0x208 0x13 ''websfr'' [] [],
    apn_row 0x208 0x15 ''free'' [] [],
    apn_row 0x208 0x20 ''ebouygtal.com'' [] [],
    apn_row 0x208 0x21 ''ebouygtel.com'' [] [],
    apn_row 0x208 0x21 ''a2bouygtel.com'' [] [],
    apn_row 0x208 0x88 ''a2bouygtel.com'' [] [],
    apn_row 0x208 0x88 ''ebouygtel.com'' [] [],
    apn_row 0x214 0x01 ''airtelwap.es'' ''wap@wap'' ''airtel'',
    apn_row 0x214 0x03 ''orangeworld'' ''orange'' ''orange'',
    apn_row 0x214 0x04 ''internet'' [] [],
    apn_row 0x214 0x06 ''airtelnet.es'' ''vodafone'' ''vodafone'',
    apn_row 0x214 0x07 ''movistar.es'' ''MOVISTAR'' ''MOVISTAR'',
    apn_row 0x214 0x08 ''internet.euskaltel.mobi'' ''CLIENTE'' ''EUSKALTEL'',
    apn_row 0x214 0x16 ''internet.telecable.es'' ''telecable'' ''telecable'',
    apn_row 0x214 0x22 ''internet'' [] [],
    apn_row 0x216 0x01 ''online'' [] [],
    apn_row 0x216 0x30 ''internet'' [] [],
    apn_row 0x216 0x70 ''internet.vodafone.net'' [] [],
    apn_row 0x218 0x03 ''wap.eronet.ba'' [] [],
    apn_row 0x218 0x05 ''3g1'' [] [],
    apn_row 0x218 0x90 ''active.bhmobile.ba'' [] [],
    apn_row 0x219 0x01 ''web.htgprs'' [] [],
    apn_row 0x219 0x10 ''data.vip.hr'' ''38591'' ''38591'',
    apn_row 0x220 0x01 ''internet'' ''telenor'' ''gprs'',
    apn_row 0x220 0x02 ''internet'' ''gprs'' ''gprs'',
    apn_row 0x220 0x03 ''gprswap'' ''mts'' ''064'',
    apn_row 0x220 0x04 ''tmcg-wnw'' ''38267'' ''38267'',
    apn_row 0x220 0x05 ''vipmobile'' ''vipmobile'' ''vipmobile'',
    apn_row 0x222 0x01 ''ibox.tim.it'' [] [],
    apn_row 0x222 0x01 ''web.noverca.it'' [] [],
    apn_row 0x222 0x10 ''mobile.vodafone.it'' [] [],
    apn_row 0x222 0x10 ''web.omnitel.it'' [] [],
    apn_row 0x222 0x88 ''internet.wind'' [] [],
    apn_row 0x226 0x01 ''internet.vodafone.ro'' ''internet.vodafone.ro'' ''vodafone'',
    apn_row 0x226 0x01 ''live.vodafone.com'' ''live'' ''vodafone'',
    apn_row 0x226 0x03 ''broadband'' [] [],
    apn_row 0x226 0x03 ''wnw'' ''wnw'' ''wnw'',
    apn_row 0x226 0x06 ''wnw'' ''wnw'' ''wnw'',
    apn_row 0x226 0x10 ''internet'' [] [],
    apn_row 0x228 0x01 ''gprs.swisscom.ch'' [] [],
    apn_row 0x228 0x02 ''internet'' ''internet'' ''internet'',
    apn_row 0x228 0x03 ''internet'' [] [],
    apn_row 0x230 0x01 ''internet.t-mobile.cz'' ''wap'' ''wap'',
    apn_row 0x230 0x02 ''internet'' [] [],
    apn_row 0x230 0x03 ''internet'' [] [],
    apn_row 0x230 0x03 ''ointernet'' [] [],
    apn_row 0x231 0x01 ''internet'' [] [],
    apn_row 0x231 0x02 ''internet'' [] [],
    apn_row 0x231 0x04 ''internet'' [] [],
    apn_row 0x231 0x05 ''internet'' [] [],
    apn_row 0x231 0x06 ''o2internet'' [] [],
    apn_row 0x232 0x01 ''a1.net'' ''ppp@a1plus.at'' ''ppp'',
    apn_row 0x232 0x03 ''gprsinternet'' ''t-mobile'' ''tm'',
    apn_row 0x232 0x05 ''orange.web'' ''web'' ''web'',
    apn_row 0x232 0x07 ''web'' ''web@telering.at'' ''web'',
    apn_row 0x232 0x11 ''bob.at'' ''data@bob.at'' ''ppp'',
    apn_row 0x232 0x12 ''web.yesss.at'' [] [],
    apn_row 0x234 0x02 ''mobile.o2.co.uk'' ''O2web'' ''O2web'',
    apn_row 0x234 0x09 ''internet'' [] [],
    apn_row 0x234 0x09 ''data2.gprs.cw.com'' [] [],
    apn_row 0x234 0x30 ''everywhere'' ''eesecure'' ''secure'',
    apn_row 0x234 0x33 ''everywhere'' ''eesecure'' ''secure'',
    apn_row 0x234 0x34 ''orangeinternet'' [] [],
    apn_row 0x234 0x50 ''pepper'' [] [],
    apn_row 0x234 0x55 ''internet'' [] [],
    apn_row 0x234 0x55 ''data2.gprs.cw.com'' [] [],
    apn_row 0x234 0x58 ''internet'' [] [],
    apn_row 0x234 0x58 ''web.prontogo.net'' ''webgo'' ''webgo'',
    apn_row 0x234 0x86 ''orangeinternet'' [] [],
    apn_row 0x238 0x01 ''internet'' [] [],
    apn_row 0x238 0x02 ''Internet'' [] [],
    apn_row 0x238 0x20 ''www.internet.mtelia.dk'' [] [],
    apn_row 0x238 0x77 ''Internet'' [] [],
    apn_row 0x240 0x01 ''online.telia.se'' [] [],
    apn_row 0x240 0x17 ''halebop.telia.se'' [] [],
    apn_row 0x240 0x04 ''services.telenor.se'' [] [],
    apn_row 0x240 0x06 ''services.telenor.se'' [] [],
    apn_row 0x240 0x08 ''services.telenor.se'' [] [],
    apn_row 0x240 0x09 ''services.telenor.se'' [] [],
    apn_row 0x240 0x10 ''data.springmobil.se'' [] [],
    apn_row 0x242 0x01 ''telenor'' [] [],
    apn_row 0x242 0x02 ''netcom'' [] [],
    apn_row 0x242 0x04 ''internet.tele2.no'' [] [],
    apn_row 0x242 0x05 ''internet'' [] [],
    apn_row 0x244 0x03 ''internet'' [] [],
    apn_row 0x244 0x04 ''internet'' [] [],
    apn_row 0x244 0x05 ''internet'' [] [],
    apn_row 0x244 0x10 ''internet.song.fi'' ''song@internet'' ''songnet'',
    apn_row 0x244 0x12 ''internet'' [] [],
    apn_row 0x244 0x13 ''internet'' [] [],
    apn_row 0x244 0x21 ''wap.saunalahti.fi'' [] [],
    apn_row 0x244 0x91 ''internet'' [] [],
    apn_row 0x246 0x01 ''omnitel'' ''omni'' ''omni'',
    apn_row 0x246 0x02 ''banga'' [] [],
    apn_row 0x246 0x03 ''internet.tele2.lt'' [] [],
    apn_row 0x247 0x01 ''internet.lmt.lv'' ''lmt'' ''lmt'',
    apn_row 0x247 0x02 ''internet.tele2.lv'' ''wap'' ''wap'',
    apn_row 0x247 0x05 ''internet'' [] [],
    apn_row 0x248 0x01 ''internet.emt.ee'' [] [],
    apn_row 0x248 0x02 ''internet'' [] [],
    apn_row 0x248 0x03 ''internet.tele2.ee'' [] [],
    apn_row 0x250 0x01 ''internet.mts.ru'' ''mts'' ''mts'',
    apn_row 0x250 0x02 ''internet'' ''gdata'' ''gdata'',
    apn_row 0x250 0x04 ''internet.mts.ru'' ''mts'' ''mts'',
    apn_row 0x250 0x05 ''internet.mts.ru'' ''mts'' ''mts'',
    apn_row 0x250 0x07 ''internet.smarts.ru'' ''any'' ''any'',
    apn_row 0x250 0x10 ''internet.mts.ru'' ''mts'' ''mts'',
    apn_row 0x250 0x11 ''internet.beeline.ru'' ''beeline'' ''beeline'',
    apn_row 0x250 0x12 ''inet.bwc.ru'' ''bwc'' ''bwc'',
    apn_row 0x250 0x13 ''internet.mts.ru'' ''mts'' ''mts'',
    apn_row 0x250 0x17 ''internet.usi.ru'' [] [],
    apn_row 0x250 0x20 ''internet.tele2.ru'' [] [],
    apn_row 0x250 0x28 ''internet.beeline.ru'' ''beeline'' ''beeline'']"

definition apn_rows_4 :: "DEFAULT_APN_INFO list" where
  "apn_rows_4 = [
    apn_row 0x250 0x35 ''inet.ycc.ru'' [] [],
    apn_row 0x250 0x39 ''www.usi.ru'' ''u-tel'' ''u-tel'',
    apn_row 0x250 0x44 ''internet.beeline.ru'' ''beeline'' ''beeline'',
    apn_row 0x250 0x92 ''internet.mts.ru'' ''mts'' ''mts'',
    apn_row 0x250 0x93 ''internet.mts.ru'' ''mts'' ''mts'',
    apn_row 0x250 0x99 ''internet.beeline.ru'' ''beeline'' ''beeline'',
    apn_row 0x255 0x01 ''www.mts.ua'' [] [],
    apn_row 0x255 0x02 ''internet.beeline.ua'' [] [],
    apn_row 0x255 0x03 ''www.kyivstar.net'' ''igprs'' ''internet'',
    apn_row 0x255 0x06 ''internet'' [] [],
    apn_row 0x260 0x01 ''internet'' [] [],
    apn_row 0x260 0x02 ''internet'' [] [],
    apn_row 0x260 0x02 ''heyah.pl'' [] [],
    apn_row 0x260 0x03 ''internet'' ''internet'' ''internet'',
    apn_row 0x260 0x06 ''internet'' [] [],
    apn_row 0x262 0x02 ''web.vodafone.de'' [] [],
    apn_row 0x262 0x03 ''internet.eplus.de'' ''eplus'' ''internet'',
    apn_row 0x262 0x04 ''web.vodafone.de'' [] [],
    apn_row 0x262 0x05 ''internet.eplus.de'' ''eplus'' ''internet'',
    apn_row 0x262 0x09 ''web.vodafone.de'' [] [],
    apn_row 0x268 0x01 ''net2.vodafone.pt'' ''vodafone'' ''vodafone'',
    apn_row 0x268 0x06 ''internet'' [] [],
    apn_row 0x270 0x01 ''wap.pt.lu'' ''wap'' ''wap'',
    apn_row 0x270 0x77 ''internet'' ''tango'' ''tango'',
    apn_row 0x272 0x01 ''live.vodafone.com'' [] [],
    apn_row 0x272 0x03 ''data.mymeteor.ie'' [] [],
    apn_row 0x274 0x01 ''internet'' [] [],
    apn_row 0x274 0x02 ''gprs.is'' [] [],
    apn_row 0x274 0x11 ''net.nova.is'' [] [],
    apn_row 0x278 0x01 ''internet'' ''internet'' ''internet'',
    apn_row 0x280 0x10 ''wap'' ''wap'' ''wap'',
    apn_row 0x284 0x01 ''wap-gprs.mtel.bg'' [] [],
    apn_row 0x284 0x03 ''wap.vivacom.bg'' ''wap'' ''wap'',
    apn_row 0x284 0x05 ''globul'' [] [],
    apn_row 0x286 0x01 ''internet'' [] [],
    apn_row 0x286 0x02 ''internet'' ''vodafone'' ''vodafone'',
    apn_row 0x286 0x03 ''internet'' [] [],
    apn_row 0x290 0x01 ''internet'' [] [],
    apn_row 0x293 0x40 ''internet.simobil.si'' ''simobil'' ''internet'',
    apn_row 0x293 0x41 ''internet'' ''mobitel'' ''internet'',
    apn_row 0x294 0x01 ''internet'' ''internet'' ''t-mobile'',
    apn_row 0x294 0x02 ''Internet'' ''Internet'' ''Internet'',
    apn_row 0x294 0x03 ''vipoperator'' ''vipoperator'' ''vipoperator'',
    apn_row 0x297 0x02 ''tmcg-wnw'' ''38267'' ''38267'',
    apn_row 0x302 0x370 ''isp.fido.apn'' [] [],
    apn_row 0x302 0x320 ''wap.davewireless.com'' [] [],
    apn_row 0x302 0x490 ''internet.windmobile.ca'' [] [],
    apn_row 0x302 0x720 ''isp.apn'' [] [],
    apn_row 0x310 0x030 ''private.centennialwireless.com'' ''privuser'' ''priv'',
    apn_row 0x310 0x090 ''isp'' [] [],
    apn_row 0x310 0x100 ''plateauweb'' [] [],
    apn_row 0x310 0x150 ''wap.cingular'' [] [],
    apn_row 0x310 0x170 ''isp.cingular'' [] [],
    apn_row 0x310 0x280 ''epc.tmobile.com'' [] [],
    apn_row 0x310 0x280 ''internet2.voicestream.com'' [] [],
    apn_row 0x310 0x280 ''wap.voicestream.com'' [] [],
    apn_row 0x310 0x290 ''epc.tmobile.com'' [] [],
    apn_row 0x310 0x290 ''internet2.voicestream.com'' [] [],
    apn_row 0x310 0x290 ''wap.voicestream.com'' [] [],
    apn_row 0x310 0x330 ''epc.tmobile.com'' [] [],
    apn_row 0x310 0x330 ''internet2.voicestream.com'' [] [],
    apn_row 0x310 0x330 ''wap.voicestream.com'' [] [],
    apn_row 0x310 0x470 ''isp.cingular'' [] [],
    apn_row 0x310 0x480 ''isp.cingular'' [] [],
    apn_row 0x310 0x610 ''internet.epictouch'' [] [],
    apn_row 0x310 0x770 ''i2.iwireless.com'' [] [],
    apn_row 0x310 0x840 ''isp'' [] [],
    apn_row 0x311 0x210 ''internet.farmerswireless.com'' [] [],
    apn_row 0x330 0x110 ''internet.claropr.com'' [] [],
    apn_row 0x334 0x020 ''internet.itelcel.com'' ''webgprs'' ''webgprs2002'',
    apn_row 0x334 0x02 ''internet.itelcel.com'' ''webgprs'' ''webgprs2002'',
    apn_row 0x334 0x030 ''internet.movistar.mx'' ''movistar'' ''movistar'',
    apn_row 0x334 0x03 ''internet.movistar.mx'' ''movistar'' ''movistar'',
    apn_row 0x334 0x004 ''web.iusacellgsm.mx'' ''iusacellgsm'' ''iusacellgsm'',
    apn_row 0x334 0x005 ''web.iusacellgsm.mx'' ''iusacellgsm'' ''iusacellgsm'',
    apn_row 0x334 0x050 ''web.iusacellgsm.mx'' ''iusacellgsm'' ''iusacellgsm'',
    apn_row 0x338 0x050 ''web'' [] [],
    apn_row 0x338 0x18 ''internet'' [] [],
    apn_row 0x338 0x070 ''internet.ideasclaro.com.jm'' [] [],
    apn_row 0x338 0x180 ''internet'' [] [],
    apn_row 0x340 0x01 ''orangewap'' ''orange'' ''wap'',
    apn_row 0x342 0x60 ''internet'' [] [],
    apn_row 0x344 0x92 ''internet'' [] [],
    apn_row 0x346 0x14 ''internet'' [] [],
    apn_row 0x348 0x17 ''internet'' [] [],
    apn_row 0x352 0x11 ''internet'' [] [],
    apn_row 0x354 0x86 ''internet'' [] [],
    apn_row 0x356 0x11 ''internet'' [] [],
    apn_row 0x358 0x11 ''internet'' [] [],
    apn_row 0x360 0x11 ''internet'' [] [],
    apn_row 0x363 0x02 ''web'' [] [],
    apn_row 0x363 0x020 ''web'' [] [],
    apn_row 0x365 0x84 ''internet'' [] [],
    apn_row 0x366 0x11 ''internet'' [] [],
    apn_row 0x368 0x01 ''internet'' [] [],
    apn_row 0x370 0x01 ''orangenet.com.do'' [] [],
    apn_row 0x370 0x02 ''internet.ideasclaro.com.do'' [] [],
    apn_row 0x370 0x04 ''edge.viva.net.do'' ''viva'' ''viva'',
    apn_row 0x374 0x12 ''internet'' [] [],
    apn_row 0x374 0x120 ''internet'' [] [],
    apn_row 0x374 0x121 ''internet'' [] [],
    apn_row 0x374 0x122 ''internet'' [] [],
    apn_row 0x374 0x123 ''internet'' [] [],
    apn_row 0x374 0x124 ''internet'' [] [],
    apn_row 0x374 0x125 ''internet'' [] [],
    apn_row 0x374 0x126 ''internet'' [] [],
    apn_row 0x374 0x127 ''internet'' [] [],
    apn_row 0x374 0x128 ''internet'' [] [],
    apn_row 0x374 0x129 ''internet'' [] [],
    apn_row 0x374 0x13 ''web.digiceltt.com'' [] [],
    apn_row 0x374 0x130 ''web.digiceltt.com'' [] [],
    apn_row 0x376 0x35 ''internet'' [] [],
    apn_row 0x401 0x01 ''internet.beeline.kz'' ''@internet.beeline'' ''beeline'',
    apn_row 0x401 0x02 ''internet'' [] [],
    apn_row 0x401 0x77 ''internet'' [] [],
    apn_row 0x404 0x73 ''bsnlnet'' [] [],
    apn_row 0x404 0x57 ''bsnlnet'' [] [],
    apn_row 0x404 0x71 ''bsnlnet'' [] [],
    apn_row 0x404 0x66 ''bsnlnet'' [] [],
    apn_row 0x404 0x80 ''bsnlnet'' [] [],
    apn_row 0x404 0x34 ''bsnlnet'' [] [],
    apn_row 0x404 0x72 ''bsnlnet'' [] [],
    apn_row 0x404 0x58 ''bsnlnet'' [] [],
    apn_row 0x404 0x53 ''bsnlnet'' [] [],
    apn_row 0x404 0x59 ''bsnlnet'' [] [],
    apn_row 0x404 0x55 ''bsnlnet'' [] [],
    apn_row 0x404 0x54 ''bsnlnet'' [] [],
    apn_row 0x404 0x74 ''bsnlnet'' [] [],
    apn_row 0x404 0x38 ''bsnlnet'' [] [],
    apn_row 0x404 0x75 ''bsnlnet'' [] [],
    apn_row 0x404 0x51 ''bsnlnet'' [] [],
    apn_row 0x404 0x62 ''bsnlnet'' [] [],
    apn_row 0x404 0x77 ''bsnlnet'' [] [],
    apn_row 0x404 0x76 ''bsnlnet'' [] [],
    apn_row 0x404 0x64 ''bsnlnet'' [] [],
    apn_row 0x404 0x81 ''bsnlnet'' [] [],
    apn_row 0x404 0x49 ''airtelgprs.com'' [] [],
    apn_row 0x404 0x98 ''airtelgprs.com'' [] [],
    apn_row 0x404 0x45 ''airtelgprs.com'' [] [],
    apn_row 0x404 0x90 ''airtelgprs.com'' [] [],
    apn_row 0x404 0x94 ''airtelgprs.com'' [] [],
    apn_row 0x404 0x96 ''airtelgprs.com'' [] []]"

definition apn_rows_5 :: "DEFAULT_APN_INFO list" where
  "apn_rows_5 = [
    apn_row 0x404 0x95 ''airtelgprs.com'' [] [],
    apn_row 0x404 0x93 ''airtelgprs.com'' [] [],
    apn_row 0x404 0x02 ''airtelgprs.com'' [] [],
    apn_row 0x404 0x70 ''airtelgprs.com'' [] [],
    apn_row 0x404 0x97 ''airtelgprs.com'' [] [],
    apn_row 0x404 0x03 ''airtelgprs.com'' [] [],
    apn_row 0x404 0x16 ''airtelgprs.com'' [] [],
    apn_row 0x404 0x40 ''airtelgprs.com'' [] [],
    apn_row 0x404 0x10 ''airtelgprs.com'' [] [],
    apn_row 0x404 0x31 ''airtelgprs.com'' [] [],
    apn_row 0x404 0x92 ''airtelgprs.com'' [] [],
    apn_row 0x404 0x13 ''www'' [] [],
    apn_row 0x404 0x05 ''www'' [] [],
    apn_row 0x404 0x86 ''www'' [] [],
    apn_row 0x404 0x27 ''www'' [] [],
    apn_row 0x404 0x43 ''www'' [] [],
    apn_row 0x404 0x01 ''www'' [] [],
    apn_row 0x404 0x46 ''www'' [] [],
    apn_row 0x404 0x88 ''www'' [] [],
    apn_row 0x404 0x60 ''www'' [] [],
    apn_row 0x404 0x15 ''www'' [] [],
    apn_row 0x404 0x84 ''www'' [] [],
    apn_row 0x404 0x11 ''www'' [] [],
    apn_row 0x404 0x30 ''www'' [] [],
    apn_row 0x404 0x20 ''www'' [] [],
    apn_row 0x404 0x42 ''aircelgprs'' [] [],
    apn_row 0x404 0x17 ''aircelgprs'' [] [],
    apn_row 0x404 0x29 ''aircelgprs'' [] [],
    apn_row 0x404 0x25 ''aircelgprs'' [] [],
    apn_row 0x404 0x35 ''aircelgprs'' [] [],
    apn_row 0x404 0x37 ''aircelgprs'' [] [],
    apn_row 0x404 0x33 ''aircelgprs'' [] [],
    apn_row 0x404 0x28 ''aircelgprs'' [] [],
    apn_row 0x404 0x41 ''aircelgprs'' [] [],
    apn_row 0x404 0x91 ''aircelgprs'' [] [],
    apn_row 0x404 0x07 ''internet'' [] [],
    apn_row 0x404 0x24 ''internet'' [] [],
    apn_row 0x404 0x04 ''internet'' [] [],
    apn_row 0x404 0x22 ''internet'' [] [],
    apn_row 0x404 0x12 ''internet'' [] [],
    apn_row 0x404 0x19 ''internet'' [] [],
    apn_row 0x404 0x78 ''internet'' [] [],
    apn_row 0x404 0x14 ''internet'' [] [],
    apn_row 0x404 0x87 ''internet'' [] [],
    apn_row 0x404 0x89 ''internet'' [] [],
    apn_row 0x404 0x56 ''internet'' [] [],
    apn_row 0x404 0x82 ''internet'' [] [],
    apn_row 0x404 0x44 ''internet'' [] [],
    apn_row 0x404 0x68 ''mtnl.net'' ''mtnl'' ''mtnl123'',
    apn_row 0x404 0x69 ''mtnl.net'' [] [],
    apn_row 0x404 0x83 ''smartnet'' [] [],
    apn_row 0x404 0x85 ''smartnet'' [] [],
    apn_row 0x404 0x67 ''smartnet'' [] [],
    apn_row 0x404 0x09 ''smartnet'' [] [],
    apn_row 0x404 0x36 ''smartnet'' [] [],
    apn_row 0x404 0x18 ''smartnet'' [] [],
    apn_row 0x404 0x50 ''smartnet'' [] [],
    apn_row 0x404 0x52 ''smartnet'' [] [],
    apn_row 0x405 0x54 ''airtelgprs.com'' [] [],
    apn_row 0x405 0x51 ''airtelgprs.com'' [] [],
    apn_row 0x405 0x56 ''airtelgprs.com'' [] [],
    apn_row 0x405 0x52 ''airtelgprs.com'' [] [],
    apn_row 0x405 0x55 ''airtelgprs.com'' [] [],
    apn_row 0x405 0x53 ''airtelgprs.com'' [] [],
    apn_row 0x405 0x756 ''www'' [] [],
    apn_row 0x405 0x66 ''www'' [] [],
    apn_row 0x405 0x67 ''www'' [] [],
    apn_row 0x405 0x751 ''www'' [] [],
    apn_row 0x405 0x752 ''www'' [] [],
    apn_row 0x405 0x754 ''www'' [] [],
    apn_row 0x405 0x750 ''www'' [] [],
    apn_row 0x405 0x755 ''www'' [] [],
    apn_row 0x405 0x753 ''www'' [] [],
    apn_row 0x405 0x801 ''aircelgprs'' [] [],
    apn_row 0x405 0x802 ''aircelgprs'' [] [],
    apn_row 0x405 0x803 ''aircelgprs'' [] [],
    apn_row 0x405 0x804 ''aircelgprs'' [] [],
    apn_row 0x405 0x807 ''aircelgprs'' [] [],
    apn_row 0x405 0x809 ''aircelgprs'' [] [],
    apn_row 0x405 0x808 ''aircelgprs'' [] [],
    apn_row 0x405 0x812 ''aircelgprs'' [] [],
    apn_row 0x405 0x806 ''aircelgprs'' [] [],
    apn_row 0x405 0x810 ''aircelgprs'' [] [],
    apn_row 0x405 0x811 ''aircelgprs'' [] [],
    apn_row 0x405 0x800 ''aircelgprs'' [] [],
    apn_row 0x405 0x805 ''aircelgprs'' [] [],
    apn_row 0x405 0x852 ''internet'' [] [],
    apn_row 0x405 0x853 ''internet'' [] [],
    apn_row 0x405 0x845 ''internet'' [] [],
    apn_row 0x405 0x70 ''internet'' [] [],
    apn_row 0x405 0x846 ''internet'' [] [],
    apn_row 0x405 0x849 ''internet'' [] [],
    apn_row 0x405 0x850 ''internet'' [] [],
    apn_row 0x405 0x848 ''internet'' [] [],
    apn_row 0x405 0x799 ''internet'' [] [],
    apn_row 0x405 0x025 ''TATA.DOCOMO.INTERNET'' [] [],
    apn_row 0x405 0x030 ''TATA.DOCOMO.INTERNET'' [] [],
    apn_row 0x405 0x034 ''TATA.DOCOMO.INTERNET'' [] [],
    apn_row 0x405 0x037 ''TATA.DOCOMO.INTERNET'' [] [],
    apn_row 0x405 0x044 ''TATA.DOCOMO.INTERNET'' [] [],
    apn_row 0x405 0x031 ''TATA.DOCOMO.INTERNET'' [] [],
    apn_row 0x405 0x035 ''TATA.DOCOMO.INTERNET'' [] [],
    apn_row 0x405 0x038 ''TATA.DOCOMO.INTERNET'' [] [],
    apn_row 0x405 0x042 ''TATA.DOCOMO.INTERNET'' [] [],
    apn_row 0x405 0x043 ''TATA.DOCOMO.INTERNET'' [] [],
    apn_row 0x405 0x045 ''TATA.DOCOMO.INTERNET'' [] [],
    apn_row 0x405 0x046 ''TATA.DOCOMO.INTERNET'' [] [],
    apn_row 0x405 0x047 ''TATA.DOCOMO.INTERNET'' [] [],
    apn_row 0x405 0x026 ''TATA.DOCOMO.INTERNET'' [] [],
    apn_row 0x405 0x027 ''TATA.DOCOMO.INTERNET'' [] [],
    apn_row 0x405 0x032 ''TATA.DOCOMO.INTERNET'' [] [],
    apn_row 0x405 0x033 ''TATA.DOCOMO.INTERNET'' [] [],
    apn_row 0x405 0x040 ''TATA.DOCOMO.INTERNET'' [] [],
    apn_row 0x405 0x041 ''TATA.DOCOMO.INTERNET'' [] [],
    apn_row 0x405 0x029 ''TATA.DOCOMO.INTERNET'' [] [],
    apn_row 0x405 0x036 ''TATA.DOCOMO.INTERNET'' [] [],
    apn_row 0x405 0x039 ''TATA.DOCOMO.INTERNET'' [] [],
    apn_row 0x405 0x819 ''uninor'' [] [],
    apn_row 0x405 0x927 ''uninor'' [] [],
    apn_row 0x405 0x820 ''uninor'' [] [],
    apn_row 0x405 0x929 ''uninor'' [] [],
    apn_row 0x405 0x925 ''uninor'' [] [],
    apn_row 0x405 0x813 ''uninor'' [] [],
    apn_row 0x405 0x821 ''uninor'' [] [],
    apn_row 0x405 0x928 ''uninor'' [] [],
    apn_row 0x405 0x816 ''uninor'' [] [],
    apn_row 0x405 0x817 ''uninor'' [] [],
    apn_row 0x405 0x879 ''uninor'' [] [],
    apn_row 0x405 0x818 ''uninor'' [] [],
    apn_row 0x405 0x880 ''uninor'' [] [],
    apn_row 0x405 0x875 ''uninor'' [] [],
    apn_row 0x405 0x876 ''uninor'' [] [],
    apn_row 0x405 0x814 ''uninor'' [] [],
    apn_row 0x405 0x815 ''uninor'' [] [],
    apn_row 0x405 0x877 ''uninor'' [] [],
    apn_row 0x405 0x878 ''uninor'' [] [],
    apn_row 0x405 0x844 ''uninor'' [] [],
    apn_row 0x405 0x822 ''uninor'' [] [],
    apn_row 0x405 0x926 ''uninor'' [] [],
    apn_row 0x405 0x01 ''rcomnet'' [] [],
    apn_row 0x405 0x06 ''rcomnet'' [] [],
    apn_row 0x405 0x10 ''rcomnet'' [] []]"

definition apn_rows_6 :: "DEFAULT_APN_INFO list" where
  "apn_rows_6 = [
    apn_row 0x405 0x13 ''rcomnet'' [] [],
    apn_row 0x405 0x20 ''rcomnet'' [] [],
    apn_row 0x405 0x07 ''rcomnet'' [] [],
    apn_row 0x405 0x11 ''rcomnet'' [] [],
    apn_row 0x405 0x15 ''rcomnet'' [] [],
    apn_row 0x405 0x18 ''rcomnet'' [] [],
    apn_row 0x405 0x19 ''rcomnet'' [] [],
    apn_row 0x405 0x21 ''rcomnet'' [] [],
    apn_row 0x405 0x22 ''rcomnet'' [] [],
    apn_row 0x405 0x09 ''rcomnet'' [] [],
    apn_row 0x405 0x04 ''rcomnet'' [] [],
    apn_row 0x405 0x05 ''rcomnet'' [] [],
    apn_row 0x405 0x823 ''vinternet.com'' [] [],
    apn_row 0x405 0x827 ''vinternet.com'' [] [],
    apn_row 0x405 0x831 ''vinternet.com'' [] [],
    apn_row 0x405 0x835 ''vinternet.com'' [] [],
    apn_row 0x405 0x840 ''vinternet.com'' [] [],
    apn_row 0x405 0x828 ''vinternet.com'' [] [],
    apn_row 0x405 0x832 ''vinternet.com'' [] [],
    apn_row 0x405 0x834 ''vinternet.com'' [] [],
    apn_row 0x405 0x839 ''vinternet.com'' [] [],
    apn_row 0x405 0x841 ''vinternet.com'' [] [],
    apn_row 0x405 0x842 ''vinternet.com'' [] [],
    apn_row 0x405 0x843 ''vinternet.com'' [] [],
    apn_row 0x405 0x824 ''vinternet.com'' [] [],
    apn_row 0x405 0x825 ''vinternet.com'' [] [],
    apn_row 0x405 0x829 ''vinternet.com'' [] [],
    apn_row 0x405 0x830 ''vinternet.com'' [] [],
    apn_row 0x405 0x837 ''vinternet.com'' [] [],
    apn_row 0x405 0x838 ''vinternet.com'' [] [],
    apn_row 0x405 0x833 ''vinternet.com'' [] [],
    apn_row 0x405 0x836 ''vinternet.com'' [] [],
    apn_row 0x405 0x039 ''vinternet.in'' [] [],
    apn_row 0x410 0x01 ''connect.mobilinkworld.com'' ''Mobilink'' ''Mobilink'',
    apn_row 0x410 0x03 ''Ufone.internet'' [] [],
    apn_row 0x410 0x03 ''Ufone.pinternet'' [] [],
    apn_row 0x410 0x04 ''zonginternet'' [] [],
    apn_row 0x410 0x06 ''internet'' [] [],
    apn_row 0x410 0x07 ''Wap.warid'' [] [],
    apn_row 0x410 0x034 ''Ufone.internet'' [] [],
    apn_row 0x410 0x034 ''Ufone.pinternet'' [] [],
    apn_row 0x413 0x01 ''mobitel3g'' [] [],
    apn_row 0x413 0x01 ''mobitel3g'' [] [],
    apn_row 0x413 0x02 ''www.dialogsl.com'' [] [],
    apn_row 0x413 0x03 ''internet'' [] [],
    apn_row 0x413 0x05 ''AirtelLive'' [] [],
    apn_row 0x413 0x05 ''airteldata'' [] [],
    apn_row 0x413 0x08 ''htwap'' [] [],
    apn_row 0x414 0x01 ''mptnet'' ''mptnet'' ''mptnet'',
    apn_row 0x415 0x01 ''internet.mic1.com.lb'' ''mic1'' ''mic1'',
    apn_row 0x415 0x03 ''gprs.mtctouch.com.lb'' [] [],
    apn_row 0x416 0x01 ''internet'' [] [],
    apn_row 0x416 0x01 ''internetpre'' ''zain'' ''zain'',
    apn_row 0x416 0x03 ''internet'' [] [],
    apn_row 0x416 0x03 ''net'' [] [],
    apn_row 0x416 0x77 ''net.orange.jo'' ''net'' ''net'',
    apn_row 0x419 0x02 ''pps'' ''pps'' ''pps'',
    apn_row 0x419 0x03 ''action.wataniya.com'' [] [],
    apn_row 0x420 0x01 ''jawalnet.com.sa'' [] [],
    apn_row 0x420 0x03 ''web2'' [] [],
    apn_row 0x420 0x03 ''web1'' [] [],
    apn_row 0x420 0x04 ''zain'' [] [],
    apn_row 0x422 0x02 ''taif'' ''taif'' ''taif'',
    apn_row 0x422 0x03 ''isp.nawras.com.om'' [] [],
    apn_row 0x424 0x02 ''etisalat.ae'' [] [],
    apn_row 0x425 0x01 ''modem.orange.net.il'' [] [],
    apn_row 0x425 0x02 ''Sphone'' [] [],
    apn_row 0x425 0x03 ''sphone.pelephone.net.il'' ''pcl@3g'' ''pcl'',
    apn_row 0x426 0x01 ''internet.batelco.com'' [] [],
    apn_row 0x426 0x02 ''internet'' ''internet'' ''internet'',
    apn_row 0x426 0x04 ''viva.bh'' [] [],
    apn_row 0x427 0x01 ''gprs.qtel'' ''gprs'' ''gprs'',
    apn_row 0x427 0x02 ''web.vodafone.com.qa'' [] [],
    apn_row 0x429 0x01 ''ntnet'' [] [],
    apn_row 0x429 0x02 ''web'' [] [],
    apn_row 0x432 0x11 ''mcinet'' [] [],
    apn_row 0x432 0x20 ''RighTel'' [] [],
    apn_row 0x432 0x35 ''mtnirancell'' [] [],
    apn_row 0x452 0x02 ''m3-world'' ''mms'' ''mms'',
    apn_row 0x452 0x08 ''e-internet'' [] [],
    apn_row 0x454 0x00 ''internet'' [] [],
    apn_row 0x454 0x02 ''internet'' [] [],
    apn_row 0x454 0x03 ''mobile.three.com.hk'' [] [],
    apn_row 0x454 0x04 ''web-g.three.com.hk'' [] [],
    apn_row 0x454 0x06 ''internet'' [] [],
    apn_row 0x454 0x07 ''3gwap'' [] [],
    apn_row 0x454 0x10 ''internet'' [] [],
    apn_row 0x454 0x12 ''CHMK Data'' [] [],
    apn_row 0x454 0x14 ''web-g.three.com.hk'' [] [],
    apn_row 0x454 0x16 ''pccwdata'' [] [],
    apn_row 0x454 0x18 ''internet'' [] [],
    apn_row 0x455 0x01 ''ctm-mobile'' [] [],
    apn_row 0x455 0x01 ''ctmprepaid'' [] [],
    apn_row 0x455 0x03 ''web-g.three.com.hk'' ''hutchison'' ''1234'',
    apn_row 0x455 0x04 ''ctm-mobile'' [] [],
    apn_row 0x456 0x01 ''cellcard'' ''mobitel'' ''mobitel'',
    apn_row 0x456 0x01 ''postpaid'' ''mobitel'' ''mobitel'',
    apn_row 0x456 0x02 ''hellowww'' [] [],
    apn_row 0x456 0x04 ''wap'' [] [],
    apn_row 0x456 0x05 ''internet'' [] [],
    apn_row 0x456 0x06 ''smart '' [] [],
    apn_row 0x456 0x06 ''smart '' [] [],
    apn_row 0x456 0x08 ''metfone'' [] [],
    apn_row 0x456 0x09 ''gprs.beeline.com.kh'' [] [],
    apn_row 0x456 0x18 ''mfone'' [] [],
    apn_row 0x456 0x18 ''mfone'' [] [],
    apn_row 0x457 0x02 ''etlnet'' [] [],
    apn_row 0x457 0x03 ''unitel3g'' [] [],
    apn_row 0x460 0x00 ''cmnet'' [] [],
    apn_row 0x460 0x01 ''uninet'' [] [],
    apn_row 0x460 0x02 ''cmnet'' [] [],
    apn_row 0x460 0x07 ''cmnet'' [] [],
    apn_row 0x466 0x01 ''internet'' [] [],
    apn_row 0x466 0x01 ''internet'' [] [],
    apn_row 0x466 0x88 ''internet'' [] [],
    apn_row 0x466 0x89 ''auroraweb'' [] [],
    apn_row 0x466 0x89 ''viboone'' [] [],
    apn_row 0x466 0x89 ''vibo'' [] [],
    apn_row 0x466 0x92 ''internet'' [] [],
    apn_row 0x466 0x93 ''internet'' [] [],
    apn_row 0x466 0x93 ''twm'' [] [],
    apn_row 0x466 0x97 ''internet'' [] [],
    apn_row 0x466 0x97 ''twm'' [] [],
    apn_row 0x466 0x99 ''internet'' [] [],
    apn_row 0x466 0x99 ''twm'' [] [],
    apn_row 0x470 0x01 ''gpinternet'' [] [],
    apn_row 0x470 0x02 ''internet'' [] [],
    apn_row 0x470 0x03 ''blweb'' [] [],
    apn_row 0x470 0x06 ''internet'' [] [],
    apn_row 0x470 0x07 ''internet'' [] [],
    apn_row 0x502 0x12 ''net'' ''maxis'' ''wap'',
    apn_row 0x502 0x12 ''unet'' ''maxis'' ''wap'',
    apn_row 0x502 0x13 ''celcom3g'' [] [],
    apn_row 0x502 0x13 ''celcom'' [] [],
    apn_row 0x502 0x16 ''diginet'' ''digi'' ''digi'',
    apn_row 0x502 0x18 ''my3g'' [] [],
    apn_row 0x502 0x19 ''celcom.net.my'' [] [],
    apn_row 0x502 0x19 ''celcom'' [] [],
    apn_row 0x505 0x01 ''Telstra.wap'' [] [],
    apn_row 0x505 0x02 ''internet'' [] [],
    apn_row 0x505 0x02 ''yesinternet'' [] [],
    apn_row 0x505 0x03 ''vfinternet.au'' [] []]"

definition apn_rows_7 :: "DEFAULT_APN_INFO list" where
  "apn_rows_7 = [
    apn_row 0x505 0x06 ''3netaccess'' [] [],
    apn_row 0x505 0x07 ''vfinternet.au'' [] [],
    apn_row 0x505 0x11 ''Telstra.wap'' [] [],
    apn_row 0x505 0x12 ''3netaccess'' [] [],
    apn_row 0x505 0x71 ''Telstra.wap'' [] [],
    apn_row 0x505 0x72 ''Telstra.wap'' [] [],
    apn_row 0x505 0x88 ''vfinternet.au'' [] [],
    apn_row 0x505 0x90 ''internet'' [] [],
    apn_row 0x510 0x21 ''indosatgprs'' ''indosat'' ''indosat'',
    apn_row 0x510 0x89 ''3gprs'' ''3gprs'' ''3gprs'',
    apn_row 0x510 0x89 ''3data'' ''3data'' ''3data'',
    apn_row 0x515 0x02 ''http.globe.com.ph'' [] [],
    apn_row 0x515 0x02 ''www.globe.com.ph'' [] [],
    apn_row 0x515 0x02 ''internet.globe.com.ph'' [] [],
    apn_row 0x515 0x03 ''internet'' [] [],
    apn_row 0x515 0x05 ''minternet'' [] [],
    apn_row 0x515 0x05 ''wap'' [] [],
    apn_row 0x515 0x18 ''redinternet'' [] [],
    apn_row 0x520 0x00 ''internet'' [] [],
    apn_row 0x520 0x01 ''internet'' [] [],
    apn_row 0x520 0x03 '' internet'' [] [],
    apn_row 0x520 0x04 ''internet'' [] [],
    apn_row 0x520 0x05 ''www.dtac.co.th'' [] [],
    apn_row 0x520 0x15 ''internet'' [] [],
    apn_row 0x520 0x18 ''www.dtac.co.th'' [] [],
    apn_row 0x520 0x23 ''internet'' [] [],
    apn_row 0x520 0x99 ''internet'' [] [],
    apn_row 0x525 0x01 ''hicard'' ''65IDEAS'' ''IDEAS'',
    apn_row 0x530 0x01 ''www.vodafone.net.nz'' [] [],
    apn_row 0x530 0x02 ''www.vodafone.net.nz'' [] [],
    apn_row 0x530 0x05 ''internet.telecom.co.nz'' [] [],
    apn_row 0x530 0x24 ''internet'' [] [],
    apn_row 0x602 0x01 ''mobinilweb'' [] [],
    apn_row 0x602 0x02 ''internet.vodafone.net'' ''internet'' ''internet'',
    apn_row 0x602 0x03 ''etisalat'' [] [],
    apn_row 0x604 0x00 ''internet1.meditel.ma'' ''MEDINET'' ''MEDINET'',
    apn_row 0x604 0x05 ''www.iamgprs1.ma'' [] [],
    apn_row 0x605 0x01 ''weborange'' [] [],
    apn_row 0x605 0x02 ''gprs.tn'' ''gprs'' ''gprs'',
    apn_row 0x605 0x03 ''internet.tunisiana.com'' ''internet'' ''internet'',
    apn_row 0x610 0x01 ''web.malitel3.ml'' ''internet'' ''internet'',
    apn_row 0x610 0x02 ''internet'' [] [],
    apn_row 0x620 0x01 ''internet'' [] [],
    apn_row 0x620 0x02 ''browse'' [] [],
    apn_row 0x620 0x03 ''web.tigo.com.gh'' [] [],
    apn_row 0x620 0x06 ''internet'' [] [],
    apn_row 0x620 0x07 ''internet'' [] [],
    apn_row 0x620 0x07 ''glowap'' ''glo'' ''glo'',
    apn_row 0x621 0x20 ''internet.ng.airtel.com'' ''internet'' ''internet'',
    apn_row 0x621 0x30 ''web.gprs.mtnnigeria.net'' ''web'' ''web'',
    apn_row 0x621 0x50 ''glosecure'' ''gprs'' ''gprs'',
    apn_row 0x621 0x60 ''etisalat'' [] [],
    apn_row 0x624 0x01 ''mtnwap'' ''mtnuser'' ''mtnuser'',
    apn_row 0x624 0x02 ''orangecmgprs'' ''orange'' ''orange'',
    apn_row 0x634 0x01 ''internet'' [] [],
    apn_row 0x634 0x02 ''Internet'' [] [],
    apn_row 0x634 0x02 ''wap'' [] [],
    apn_row 0x634 0x07 ''sudaninet'' ''sudani'' ''sudani'',
    apn_row 0x634 0x07 ''sudaniwap'' ''sudani'' ''sudani'',
    apn_row 0x636 0x01 ''etc.com'' [] [],
    apn_row 0x639 0x07 ''wap.orange.co.ke'' [] [],
    apn_row 0x639 0x02 ''Safaricom'' ''saf'' ''data'',
    apn_row 0x639 0x05 ''internet'' [] [],
    apn_row 0x639 0x05 ''internet'' [] [],
    apn_row 0x639 0x03 ''ke.celtel.com'' ''internet'' [],
    apn_row 0x639 0x03 ''wap'' [] [],
    apn_row 0x639 0x03 ''internet'' [] [],
    apn_row 0x639 0x07 ''bew.orange.co.ke'' [] [],
    apn_row 0x640 0x02 ''internet'' [] [],
    apn_row 0x640 0x03 ''internet'' [] [],
    apn_row 0x640 0x04 ''internet'' [] [],
    apn_row 0x640 0x05 ''internet'' [] [],
    apn_row 0x641 0x01 ''web.ug.zain.com'' [] [],
    apn_row 0x641 0x10 ''yellopix.mtn.co.ug'' [] [],
    apn_row 0x641 0x11 ''utweb'' [] [],
    apn_row 0x641 0x14 ''orange.ug'' [] [],
    apn_row 0x641 0x22 ''web.waridtel.co.ug'' [] [],
    apn_row 0x643 0x01 ''isp.mcel.mz'' [] [],
    apn_row 0x643 0x04 ''internet'' [] [],
    apn_row 0x646 0x01 ''internet.mg.airtel.com'' [] [],
    apn_row 0x646 0x02 ''orangenet'' [] [],
    apn_row 0x646 0x04 ''internet'' [] [],
    apn_row 0x647 0x00 ''orangerun'' ''orange'' ''orange'',
    apn_row 0x647 0x10 ''wapsfr'' ''wap'' ''wap'',
    apn_row 0x648 0x04 ''econet.net'' [] [],
    apn_row 0x648 0x03 ''internet'' [] [],
    apn_row 0x651 0x01 ''internet'' [] [],
    apn_row 0x655 0x01 ''internet'' [] [],
    apn_row 0x655 0x02 ''internet'' [] [],
    apn_row 0x655 0x07 ''Internet'' [] [],
    apn_row 0x655 0x07 ''vdata'' [] [],
    apn_row 0x655 0x10 ''internet'' [] [],
    apn_row 0x704 0x01 ''internet.ideasclaro'' [] [],
    apn_row 0x704 0x02 ''broadband.tigo.gt'' [] [],
    apn_row 0x704 0x03 ''internet.movistar.gt'' ''movistargt'' ''movistargt'',
    apn_row 0x704 0x030 ''internet.movistar.gt'' ''movistargt'' ''movistargt'',
    apn_row 0x706 0x01 ''internet.ideasclaro'' [] [],
    apn_row 0x706 0x02 ''web.digicelsv.com'' [] [],
    apn_row 0x706 0x03 ''internet.tigo.sv'' [] [],
    apn_row 0x706 0x04 ''internet.movistar.sv'' ''movistarsv'' ''movistarsv'',
    apn_row 0x706 0x11 ''internet.ideasclaro'' [] [],
    apn_row 0x706 0x040 ''internet.movistar.sv'' ''movistarsv'' ''movistarsv'',
    apn_row 0x708 0x01 ''wap.megatel.hn'' [] [],
    apn_row 0x708 0x02 ''internet.tigo.hn'' [] [],
    apn_row 0x708 0x02 ''internet.tigo.hn'' [] [],
    apn_row 0x708 0x001 ''web.megatel.hn'' ''webmegatel'' ''webmegatel'',
    apn_row 0x708 0x020 ''internet.tigo.hn'' [] [],
    apn_row 0x708 0x40 ''wap.digicelhn.com'' [] [],
    apn_row 0x708 0x40 ''web.digicelhn.com'' [] [],
    apn_row 0x710 0x21 ''web.emovil'' ''webemovil'' ''webemovil'',
    apn_row 0x710 0x300 ''internet.movistar.ni'' ''movistarni'' ''movistarni'',
    apn_row 0x710 0x730 ''web.emovil'' ''webemovil'' ''webemovil'',
    apn_row 0x712 0x03 ''internet.ideasclaro'' [] [],
    apn_row 0x712 0x04 ''internet.movistar.cr'' ''movistarcr'' ''movistarcr'',
    apn_row 0x714 0x01 ''apn01.cwpanama.com.pa'' [] [],
    apn_row 0x714 0x02 ''wap.movistar.pa'' ''movistarpawap'' ''movistarpa'',
    apn_row 0x714 0x03 ''web.claro.com.pa'' ''CLAROWEB'' ''CLAROWEB'',
    apn_row 0x714 0x04 ''web.digicelpanama.com'' [] [],
    apn_row 0x714 0x020 ''internet.movistar.pa'' ''movistarpa'' ''movistarpa'',
    apn_row 0x716 0x06 ''movistar.pe'' ''movistar@datos'' ''movistar'',
    apn_row 0x716 0x10 ''claro.pe'' ''claro'' ''claro'',
    apn_row 0x716 0x17 ''wap.nextel.com.pe'' [] [],
    apn_row 0x722 0x07 ''wap.gprs.unifon.com.ar'' ''wap'' ''wap'',
    apn_row 0x722 0x10 ''wap.gprs.unifon.com.ar'' ''wap'' ''wap'',
    apn_row 0x722 0x31 ''igprs.claro.com.ar'' ''ctigprs'' ''ctigprs999'',
    apn_row 0x722 0x34 ''datos.personal.com'' ''datos'' ''datos'',
    apn_row 0x722 0x36 ''gprs.personal.com'' ''gprs'' ''adgj'',
    apn_row 0x722 0x70 ''wap.gprs.unifon.com.ar'' ''wap'' ''wap'',
    apn_row 0x722 0x310 ''igprs.claro.com.ar'' ''ctigprs'' ''ctigprs999'',
    apn_row 0x722 0x320 ''wap.ctimovil.com.ar'' ''ctigprs'' ''ctigprs999'',
    apn_row 0x722 0x330 ''wap.ctimovil.com.ar'' ''ctigprs'' ''ctigprs999'',
    apn_row 0x722 0x341 ''datos.personal.com'' ''datos'' ''datos'',
    apn_row 0x724 0x02 ''timbrasil.br'' ''tim'' ''tim'',
    apn_row 0x724 0x03 ''timbrasil.br'' ''tim'' ''tim'',
    apn_row 0x724 0x04 ''timbrasil.br'' ''tim'' ''tim'',
    apn_row 0x724 0x05 ''claro.com.br'' [] [],
    apn_row 0x724 0x05 ''wap.claro.com.br'' ''claro'' ''claro'',
    apn_row 0x724 0x06 ''zap.vivo.com.br'' ''vivo'' ''vivo'',
    apn_row 0x724 0x07 ''sercomtel.com.br'' ''sercomtel'' ''sercomtel'',
    apn_row 0x724 0x10 ''zap.vivo.com.br'' ''vivo'' ''vivo'',
    apn_row 0x724 0x11 ''zap.vivo.com.br'' ''vivo'' ''vivo'',
    apn_row 0x724 0x16 ''gprs.oi.com.br'' [] []]"

definition apn_rows_8 :: "DEFAULT_APN_INFO list" where
  "apn_rows_8 = [
    apn_row 0x724 0x19 ''gprs.telemigcelular.com.br'' ''celular'' ''celular'',
    apn_row 0x724 0x23 ''zap.vivo.com.br'' ''vivo'' ''vivo'',
    apn_row 0x724 0x24 ''gprs.oi.com.br'' [] [],
    apn_row 0x724 0x31 ''gprs.oi.com.br'' [] [],
    apn_row 0x724 0x39 ''wap.nextel3g.net.br'' [] [],
    apn_row 0x730 0x01 ''imovil.entelpcs.cl'' ''entelpcs'' ''entelpcs'',
    apn_row 0x730 0x03 ''wap.clarochile.cl'' ''clarochile'' ''clarochile'',
    apn_row 0x730 0x07 ''imovil.virginmobile.cl'' [] [],
    apn_row 0x730 0x08 ''movil.vtr.com'' ''vtrmovil'' ''vtrmovil'',
    apn_row 0x730 0x08 ''bam.vtr.com'' ''vtr'' ''vtr'',
    apn_row 0x730 0x10 ''bam.entelpcs.cl'' ''entelpcs'' ''entelpcs'',
    apn_row 0x730 0x10 ''imovil.entelpcs.cl'' ''entelpcs'' ''entelpcs'',
    apn_row 0x732 0x101 ''internet.comcel.com.co'' ''COMCELWEB'' ''COMCELWEB'',
    apn_row 0x732 0x102 ''internet.movistar.com.co'' ''movistar'' ''movistar'',
    apn_row 0x732 0x103 ''web.colombiamovil.com.co'' [] [],
    apn_row 0x732 0x111 ''web.colombiamovil.com.co'' [] [],
    apn_row 0x732 0x123 ''internet.movistar.com.co'' ''movistar'' ''movistar'',
    apn_row 0x734 0x01 ''gprsweb.digitel.ve'' [] [],
    apn_row 0x734 0x02 ''gprsweb.digitel.ve'' [] [],
    apn_row 0x734 0x03 ''gprsweb.digitel.ve'' [] [],
    apn_row 0x734 0x04 ''internet.movistar.ve'' [] [],
    apn_row 0x734 0x06 ''int.movilnet.com.ve'' [] [],
    apn_row 0x736 0x01 ''internet.nuevatel.com'' [] [],
    apn_row 0x736 0x02 ''int.movil.com.bo'' [] [],
    apn_row 0x736 0x03 ''wap.tigo.bo'' [] [],
    apn_row 0x740 0x00 ''internet.movistar.com.ec'' ''movistar'' ''movistar'',
    apn_row 0x740 0x01 ''internet.claro.com.ec'' [] [],
    apn_row 0x740 0x02 ''internet3gsp.alegro.net.ec'' [] [],
    apn_row 0x740 0x010 ''internet.claro.com.ec'' [] [],
    apn_row 0x744 0x01 ''vox.internet'' [] [],
    apn_row 0x744 0x02 ''internet.ctimovil.com.py'' [] [],
    apn_row 0x744 0x04 ''internet.tigo.py'' [] [],
    apn_row 0x744 0x05 ''internet'' [] [],
    apn_row 0x744 0x05 ''internet'' ''personal'' ''personal'',
    apn_row 0x748 0x01 ''gprs.ancel'' [] [],
    apn_row 0x748 0x07 ''webapn.movistar.com.uy'' ''movistar'' ''movistar'',
    apn_row 0x748 0x10 ''igprs.claro.com.uy'' ''ctigprs'' ''ctigprs999'',
    apn_row 0x730 0x02 ''wap.tmovil.cl'' ''wap'' ''wap'',
    apn_row 0x440 0x00 ''em.lite'' ''em'' ''em'',
    apn_row 0x204 0x04 ''live.vodafone.com'' ''vodafone'' ''vodafone'',
    apn_row 0x204 0x08 ''portalmmm.nl'' [] [],
    apn_row 0x204 0x12 ''internet'' [] [],
    apn_row 0x219 0x02 ''internet.tele2.hr'' [] [],
    apn_row 0x222 0x99 ''apn.fastweb.it'' [] [],
    apn_row 0x222 0x99 ''tre.it'' [] [],
    apn_row 0x232 0x10 ''drei.at'' [] [],
    apn_row 0x234 0x01 ''internet'' [] [],
    apn_row 0x234 0x10 ''payandgo.o2.co.uk'' ''payandgo'' ''password'',
    apn_row 0x234 0x15 ''pp.vodafone.co.uk'' ''wap'' ''wap'',
    apn_row 0x234 0x20 ''three.co.uk'' [] [],
    apn_row 0x234 0x30 ''goto.virginmobile.uk'' [] [],
    apn_row 0x234 0x31 ''general.t-mobile.uk'' ''t-mobile'' ''tm'',
    apn_row 0x234 0x32 ''general.t-mobile.uk'' ''t-mobile'' ''tm'',
    apn_row 0x238 0x06 ''data.tre.dk'' [] [],
    apn_row 0x240 0x02 ''data.tre.se'' [] [],
    apn_row 0x240 0x07 ''internet.tele2.se'' [] [],
    apn_row 0x262 0x01 ''internet.t-mobile'' ''t-mobile'' ''tm'',
    apn_row 0x262 0x01 ''internet.telekom'' ''telekom'' ''telekom'',
    apn_row 0x262 0x06 ''internet.t-mobile'' ''t-mobile'' ''tm'',
    apn_row 0x262 0x07 ''internet'' [] [],
    apn_row 0x262 0x07 ''pinternet.interkom.de'' [] [],
    apn_row 0x262 0x08 ''internet'' [] [],
    apn_row 0x262 0x11 ''internet'' [] [],
    apn_row 0x268 0x03 ''umts'' [] [],
    apn_row 0x270 0x99 ''vox.lu'' [] [],
    apn_row 0x272 0x02 ''internet'' [] [],
    apn_row 0x272 0x05 ''3ireland.ie'' [] [],
    apn_row 0x272 0x11 ''tescomobile.liffeytelecom.com'' [] [],
    apn_row 0x280 0x01 ''cytamobile'' ''user'' ''pass'',
    apn_row 0x302 0x370 ''fido-core-appl1.apn'' [] [],
    apn_row 0x302 0x500 ''media.videotron'' [] [],
    apn_row 0x302 0x610 ''pda.bell.ca'' [] [],
    apn_row 0x302 0x720 ''rogers-core-appl1.apn'' [] [],
    apn_row 0x302 0x720 ''internet.com'' ''guest'' ''guest'',
    apn_row 0x302 0x780 ''pda.stm.sk.ca'' [] [],
    apn_row 0x310 0x160 ''epc.tmobile.com'' [] [],
    apn_row 0x310 0x200 ''epc.tmobile.com'' [] [],
    apn_row 0x310 0x210 ''epc.tmobile.com'' [] [],
    apn_row 0x310 0x220 ''epc.tmobile.com'' [] [],
    apn_row 0x310 0x230 ''epc.tmobile.com'' [] [],
    apn_row 0x310 0x240 ''epc.tmobile.com'' [] [],
    apn_row 0x310 0x250 ''epc.tmobile.com'' [] [],
    apn_row 0x310 0x260 ''fast.t-mobile.com'' [] [],
    apn_row 0x310 0x260 ''epc.tmobile.com'' [] [],
    apn_row 0x310 0x270 ''epc.tmobile.com'' [] [],
    apn_row 0x310 0x310 ''epc.tmobile.com'' [] [],
    apn_row 0x310 0x380 ''proxy'' [] [],
    apn_row 0x310 0x410 ''wap.cingular'' ''WAP@CINGULARGPRS.COM'' ''CINGULAR1'',
    apn_row 0x310 0x470 ''wap.cingular'' ''WAP@CINGULARGPRS.COM'' ''CINGULAR1'',
    apn_row 0x310 0x480 ''wap.cingular'' ''WAP@CINGULARGPRS.COM'' ''CINGULAR1'',
    apn_row 0x310 0x490 ''epc.tmobile.com'' [] [],
    apn_row 0x310 0x580 ''epc.tmobile.com'' [] [],
    apn_row 0x310 0x660 ''epc.tmobile.com'' [] [],
    apn_row 0x310 0x800 ''epc.tmobile.com'' [] [],
    apn_row 0x310 0x910 ''wap.firstcellular.com'' [] [],
    apn_row 0x340 0x20 ''wap.digicelfr.com'' ''wap'' ''wap'',
    apn_row 0x419 0x04 ''VIVA'' [] [],
    apn_row 0x424 0x03 ''du'' [] [],
    apn_row 0x425 0x01 ''uwap.orange.co.il'' [] [],
    apn_row 0x440 0x10 ''mopera.net'' [] [],
    apn_row 0x440 0x10 ''mopera.flat.foma.ne.jp'' [] [],
    apn_row 0x440 0x10 ''bmobile.ne.jp'' ''bmobile@spd'' ''bmobile'',
    apn_row 0x440 0x10 ''dm.jplat.net'' ''bmobile@cm'' ''bmobile'',
    apn_row 0x440 0x10 ''dm.jplat.net'' ''bmobile@aeon'' ''bmobile'',
    apn_row 0x440 0x10 ''bmobile.ne.jp'' ''bmobile@fr'' ''bmobile'',
    apn_row 0x440 0x10 ''dm.jplat.net'' ''dm.jplat.net'' ''bmobile'',
    apn_row 0x440 0x10 ''iijmio.jp'' ''mio@iij'' ''iij'',
    apn_row 0x440 0x10 ''biglobe.jp'' ''user'' ''0000'',
    apn_row 0x440 0x10 ''vmobile.jp '' ''lte@hi-ho'' ''hi-ho'',
    apn_row 0x440 0x10 ''so-net.jp'' ''nuro'' ''nuro'',
    apn_row 0x440 0x10 ''lte-d.ocn.ne.jp'' [] [],
    apn_row 0x440 0x10 ''vmobile.jp'' ''bb@excite.co.jp'' ''excite'',
    apn_row 0x440 0x10 ''dream.jp'' ''user@dream.jp'' ''dti'',
    apn_row 0x440 0x10 ''umobile.jp'' ''umobile@umobile.jp'' ''umobile'',
    apn_row 0x440 0x20 ''open.softbank.ne.jp'' ''opensoftbank'' ''ebMNuX1FIHg9d3DA'',
    apn_row 0x440 0x20 ''smile.world'' ''dna1trop'' ''so2t3k3m2a'',
    apn_row 0x450 0x02 ''lte.ktfwing.com'' [] [],
    apn_row 0x450 0x04 ''alwayson-r6.ktfing.com'' [] [],
    apn_row 0x450 0x08 ''lte.ktfwing.com'' [] [],
    apn_row 0x450 0x05 ''web.sktelecom.com'' [] [],
    apn_row 0x454 0x00 ''hkcsl'' [] [],
    apn_row 0x454 0x02 ''hkcsl'' [] [],
    apn_row 0x454 0x03 ''mobile.three.com.hk'' [] [],
    apn_row 0x454 0x10 ''hkcsl'' [] [],
    apn_row 0x454 0x15 ''SmarTone'' [] [],
    apn_row 0x454 0x17 ''SmarTone'' [] [],
    apn_row 0x454 0x18 ''hkcsl'' [] [],
    apn_row 0x454 0x19 ''pccw'' [] [],
    apn_row 0x455 0x00 ''smartgprs'' [] [],
    apn_row 0x466 0x89 ''vibo'' [] [],
    apn_row 0x466 0x92 ''emome'' [] [],
    apn_row 0x505 0x06 ''3services'' [] [],
    apn_row 0x505 0x12 ''3services'' [] [],
    apn_row 0x525 0x01 ''e-ideas'' [] [],
    apn_row 0x525 0x02 ''e-ideas'' [] [],
    apn_row 0x712 0x01 ''kolbi3g'' [] [],
    apn_row 0x454 0x00 ''cmwap'' [] [],
    apn_row 0x454 0x07 ''cmwap'' [] [],
    apn_row 0x0 0x00 [] [] []]"

definition defaultApnInfo :: "DEFAULT_APN_INFO list" where
  "defaultApnInfo = apn_rows_1 @ apn_rows_2 @ apn_rows_3 @ apn_rows_4 @ apn_rows_5 @ apn_rows_6 @ apn_rows_7 @ apn_rows_8"

end
