(* ===== verification/Apn.thy ===== *)
theory Apn
  imports ApnTable
begin

text \<open>
  The Lua module \<open>modules/src/apn.c\<close>: the lookup of the access point for a network. The search ends at the
  first row with the codes; the row at which it ends otherwise is the end mark, with empty strings.
\<close>

section \<open>The lookup\<close>

fun apn_loop :: "int \<Rightarrow> int \<Rightarrow> DEFAULT_APN_INFO list \<Rightarrow> nat \<Rightarrow> nat" where
  "apn_loop c n [] i = i"
| "apn_loop c n (r # rs) i = (if c = uint (mcc r) \<and> n = uint (mnc r) then i else apn_loop c n rs (Suc i))"

definition GetDefaultApnInfo :: "int \<Rightarrow> int \<Rightarrow> DEFAULT_APN_INFO" where
  "GetDefaultApnInfo c n = defaultApnInfo ! apn_loop c n (butlast defaultApnInfo) 0"

definition l_get_default_apn :: "int \<Rightarrow> int \<Rightarrow> string list" where
  "l_get_default_apn c n = (let apnInfo = GetDefaultApnInfo c n in [apnName apnInfo, userName apnInfo, password apnInfo])"

section \<open>What it finds\<close>

definition has_codes :: "int \<Rightarrow> int \<Rightarrow> DEFAULT_APN_INFO \<Rightarrow> bool" where
  "has_codes c n r \<longleftrightarrow> c = uint (mcc r) \<and> n = uint (mnc r)"

lemma apn_loop_find:
  "apn_loop c n rs i = i + length (takeWhile (\<lambda>r. \<not> has_codes c n r) rs)"
  by (induction rs arbitrary: i) (auto simp: has_codes_def)

lemma rows_size:
  "length apn_rows_1 = 142" "length apn_rows_2 = 142" "length apn_rows_3 = 142" "length apn_rows_4 = 142"
  "length apn_rows_5 = 142" "length apn_rows_6 = 142" "length apn_rows_7 = 142" "length apn_rows_8 = 139"
  by (simp_all add: apn_rows_1_def apn_rows_2_def apn_rows_3_def apn_rows_4_def apn_rows_5_def apn_rows_6_def
      apn_rows_7_def apn_rows_8_def)

lemma table_size: "length defaultApnInfo = 1133"
  by (simp add: defaultApnInfo_def rows_size)

lemma end_mark: "last defaultApnInfo = apn_row 0 0 [] [] []"
proof -
  have ne: "apn_rows_8 \<noteq> []" using rows_size(8) by auto
  have "apn_rows_8 ! 138 = apn_row 0 0 [] [] []" by (simp add: apn_rows_8_def)
  then have "last apn_rows_8 = apn_row 0 0 [] [] []" by (simp add: last_conv_nth [OF ne] rows_size)
  then show ?thesis by (simp add: defaultApnInfo_def ne)
qed

text \<open>The answer is the first row with the codes, and the empty strings when no row has them: every
  access stays in the table.\<close>

lemma apn_lookup:
  "case find (has_codes c n) (butlast defaultApnInfo) of
     Some r \<Rightarrow> l_get_default_apn c n = [apnName r, userName r, password r]
   | None \<Rightarrow> l_get_default_apn c n = [[], [], []]"
proof -
  let ?t = "butlast defaultApnInfo"
  have ne: "defaultApnInfo \<noteq> []" using table_size by auto
  have nth: "GetDefaultApnInfo c n = (?t @ [apn_row 0 0 [] [] []]) ! length (takeWhile (\<lambda>r. \<not> has_codes c n r) ?t)"
    using append_butlast_last_id [OF ne] by (simp add: GetDefaultApnInfo_def apn_loop_find end_mark)
  let ?n = "length (takeWhile (\<lambda>r. \<not> has_codes c n r) ?t)"
  show ?thesis
  proof (cases "find (has_codes c n) ?t")
    case None
    then have "?n = length ?t" by (simp add: find_None_iff takeWhile_eq_all_conv [THEN iffD2])
    then have "GetDefaultApnInfo c n = apn_row 0 0 [] [] []" using nth by (simp add: nth_append)
    then show ?thesis using None by (simp add: l_get_default_apn_def apn_row_def)
  next
    case (Some r)
    then have r: "dropWhile (\<lambda>r. \<not> has_codes c n r) ?t \<noteq> []" "r = hd (dropWhile (\<lambda>r. \<not> has_codes c n r) ?t)"
      by (auto simp: find_dropWhile comp_def simp del: dropWhile_eq_Nil_conv split: list.splits)
    moreover have d: "dropWhile (\<lambda>r. \<not> has_codes c n r) ?t = drop ?n ?t" by (rule dropWhile_eq_drop)
    ultimately have "?n < length ?t" "r = ?t ! ?n" by (simp_all add: hd_drop_conv_nth)
    then have "GetDefaultApnInfo c n = r" using nth by (simp add: nth_append)
    then show ?thesis using Some by (simp add: l_get_default_apn_def)
  qed
qed

text \<open>A row whose codes an earlier row has is never found: row 1130, \<open>cmwap\<close>,
  repeats the codes of row 790.\<close>

lemma row_shadowed:
  assumes "i < 1132" and "has_codes c n (defaultApnInfo ! i)"
  shows "apn_loop c n (butlast defaultApnInfo) 0 \<le> i"
proof (rule ccontr)
  assume "\<not> ?thesis"
  then have "i < length (takeWhile (\<lambda>r. \<not> has_codes c n r) (butlast defaultApnInfo))" by (simp add: apn_loop_find)
  then have "\<not> has_codes c n (butlast defaultApnInfo ! i)" using nth_mem set_takeWhileD takeWhile_nth by metis
  then show False using assms table_size by (simp add: nth_butlast)
qed

lemma cmwap_shadowed:
  "defaultApnInfo ! 1130 = apn_row 0x454 0x00 ''cmwap'' [] []" "apn_loop 0x454 0x00 (butlast defaultApnInfo) 0 \<le> 790"
proof -
  show "defaultApnInfo ! 1130 = apn_row 0x454 0x00 ''cmwap'' [] []"
    by (simp add: defaultApnInfo_def nth_append rows_size) (simp add: apn_rows_8_def)
  have "defaultApnInfo ! 790 = apn_row 0x454 0x00 ''internet'' [] []"
    by (simp add: defaultApnInfo_def nth_append rows_size) (simp add: apn_rows_6_def)
  then show "apn_loop 0x454 0x00 (butlast defaultApnInfo) 0 \<le> 790"
    using row_shadowed [where i = 790 and c = "0x454" and n = 0] by (simp add: has_codes_def apn_row_def)
qed

end
