(* ===== verification/Spec2Isabelle.thy ===== *)
theory Spec2Isabelle
  imports CycleQueue CTimeProps IntQueue VTimer Utf8 Iconv CStr DevMan GenStd UartPorts RtosTimer Crc BufDev
    Bitarray Pack Vsscanf DisplayBmp PioProps LuaFileProps BootProps StdioProps UartMod PowerProps Pmd LcdProps
    AudioProps LuaIconv SimTimer SimGpio BitMod CpuMod DispMod Apn
begin

text \<open>
  Verification development of the LuaT firmware.

  \<^bold>\<open>The program.\<close> LuaT (\<open>src/core/cust_src/elua\<close>) is the eLua firmware of a GSM module: a Lua
  interpreter and its libraries in C on a 32-bit little-endian MIPS core, above a kernel that is
  reached through a table of functions (\<open>IVTBL(...)\<close>) and is not in the repository. Interrupts
  and kernel callbacks put data into rings and queues; the Lua task drains them. Lua numbers are
  32-bit integers (\<open>LUA_NUMBER_INTEGRAL\<close>). Paths below are relative to the \<open>elua\<close> directory.

  \<^bold>\<open>Conventions.\<close> Theory \<open>Prelude\<close> names the machine integers and explains how the development
  treats memory: a function with an \<open>option\<close> result is \<open>None\<close> exactly where the code would access
  an object out of bounds, read behind a terminating NUL or divide by zero, so totality statements
  are memory-safety statements, and the statements with \<open>= None\<close> show where the code is unsafe.
  Errors that the code reports are values of its result. The kernel is a parameter: what it answers
  is an argument, what it is asked is a log in the state.

  \<^bold>\<open>Data in transit.\<close>
  \<^item> \<open>Fifo\<close>: the interface of a queue that keeps the newest bytes (locale \<open>lossy_fifo\<close>) and its
    list specification. \<open>CycleQueue\<close>: the ring of \<open>platform/coolsand/src/cycle_queue.c\<close>, record for
    record, loop for loop; it interprets the locale, so every run of insertions and deletions is one
    of the specification, and nothing is lost while the outstanding bytes fit.
  \<^item> \<open>Staged\<close> (the staging buffer of a reader, over any such queue: locale \<open>staged_fifo\<close>), \<open>Uart\<close>, \<open>UartPorts\<close>: \<open>platform/coolsand/src/platform_uart.c\<close>: physical ports,
    the AT channel and the debug port. A step relation interleaves interrupts, messages and reads;
    its invariant gives the no-stranded-bytes theorem. \<open>UartPorts\<close> has the debug port's lines and
    the results of opening a port.
  \<^item> \<open>BufDev\<close>: the buffers of \<open>platform/src/buf.c\<close> as FIFOs of elements of 1, 2 or 4 bytes.
  \<^item> \<open>GenStd\<close>: the console of \<open>newlib/src/genstd.c\<close>; \<open>DevMan\<close>: the device table of
    \<open>newlib/src/devman.c\<close> and the routing of descriptors in \<open>newlib/src/stubs.c\<close>.

  \<^bold>\<open>Events and time.\<close>
  \<^item> \<open>IntQueue\<close>: the interrupt queue and masks of \<open>platform/src/elua_int.c\<close> and the dispatch of
    \<open>platform/src/common.c\<close>, refined to a bounded list under any interleaving.
  \<^item> \<open>VTimer\<close>: the virtual timers of \<open>platform/src/common_tmr.c\<close>; the tick handler over packed bit
    arrays steps every timer on its own, and the busy wait returns exactly when it can.
  \<^item> \<open>RtosTimer\<close>: the Lua timers, messages and power calls of \<open>platform/coolsand/src/platform_rtos.c\<close>;
    the table refines a partial map, and a step relation shows the discipline towards the kernel: no
    leak, no use after deletion, no double wait on the semaphore. \<open>RtosMod\<close>: the calls of
    \<open>modules/src/rtos.c\<close> over it, as one session of a script.
  \<^item> \<open>CTime\<close>, \<open>CTimeSpec\<close>, \<open>CTimeProps\<close>: \<open>newlib/libc/src/time.c\<close> against the Gregorian calendar.

  \<^bold>\<open>Codecs and text.\<close>
  \<^item> \<open>Utf8\<close>: \<open>lib/iconv/src/utf8_to_ucs2.c\<close>. \<open>GbData\<close>, \<open>GbTable\<close>, \<open>UcsTable\<close>: the offset and
    code tables of the iconv headers, cell for cell (one definition for each page or row).
    \<open>GbCheck\<close>, \<open>Gb2312\<close>: the offset lookup is the rank in the repertoire bitmap. \<open>GbCells\<close>,
    \<open>GbPages\<close>, \<open>GbInverse\<close>: the two code tables are inverse to each other, checked by evaluation.
    \<open>Iconv\<close>: the converters between UCS-2 and GB2312, their round trip, and the registry.
    \<open>LuaIconv\<close>: the piecewise conversion loop of \<open>modules/src/luaiconv.c\<close> over the converters.
  \<^item> \<open>CStr\<close>: string functions of \<open>newlib/libc/src/string.c\<close> and \<open>cust_strncat.c\<close>.
    \<open>Vsscanf\<close>: \<open>platform/coolsand/src/cust_vsscanf.c\<close>, with the round trip of decimal numbers.
  \<^item> \<open>Crc\<close>: \<open>platform/src/crc.c\<close> against the bitwise CRC-16. \<open>Pack\<close>: \<open>modules/src/lpack.c\<close> with
    its round trip. \<open>Bitarray\<close>: \<open>modules/src/bitarray.c\<close>. \<open>BitMod\<close>: \<open>modules/src/bit.c\<close>. \<open>CpuMod\<close>: memory
    access and interrupt switches of \<open>modules/src/cpu.c\<close>. \<open>ApnTable\<close>, \<open>Apn\<close>: the access points of
    \<open>modules/src/apn.c\<close> and their lookup.

  \<^bold>\<open>Screen.\<close>
  \<^item> \<open>Display\<close>: the frame buffer, the fonts and the drawing operations of \<open>platform/src/common_disp.c\<close>.
    \<open>Canvas\<close>: both pixel formats under one interface (locale \<open>canvas\<close>), with the picture that a
    drawing loop leaves. \<open>DisplayProps\<close>: glyphs, text and pictures pixel by pixel; \<open>DisplayOps\<close>:
    rectangles and the invariant of the operations; \<open>DisplayBmp\<close>: BMP files.
  \<^item> \<open>I2c\<close>: \<open>platform/coolsand/src/platform_i2c.c\<close> and \<open>modules/src/i2c.c\<close>. \<open>Lcd\<close>, \<open>LcdProps\<close>:
    \<open>platform/coolsand/src/platform_lcd.c\<close>; what a monochrome controller shows after an update is
    the frame buffer. \<open>DispMod\<close>: \<open>modules/src/disp.c\<close> over both layers, with its decoding of tables and
    arguments, and the type safety of whole scripts.

  \<^bold>\<open>Pins, ports and power.\<close>
  \<^item> \<open>Pio\<close>, \<open>PioProps\<close>: the GPIO numbering and operations of \<open>platform/coolsand/src/platform.c\<close> and the
    masks of \<open>modules/src/pio.c\<close>.
  \<^item> \<open>UartMod\<close>: the layer of \<open>platform/src/common_uart.c\<close> and the Lua calls of \<open>modules/src/uart.c\<close>.
  \<^item> \<open>PowerOn\<close>, \<open>PowerProps\<close>: the power-on handshake of \<open>platform/coolsand/src/platform_main.c\<close> and
    \<open>platform_rtos.c\<close>: a step relation of kernel, start-up code and Lua task. \<open>Pmd\<close>: the charging
    parameters of \<open>platform/coolsand/src/platform_pmd.c\<close> and \<open>modules/src/pmd.c\<close>.
  \<^item> \<open>Audio\<close>, \<open>AudioProps\<close>: the player of \<open>platform/coolsand/src/platform_audio.c\<close> and
    \<open>modules/src/audio.c\<close>, with the kernel's callback between the calls and inside them.

  \<^bold>\<open>Scripts.\<close>
  \<^item> \<open>Luadb\<close>, \<open>LuadbProps\<close>: the script package of \<open>platform/src/preload.c\<close> and its decoder, with the round
    trip. \<open>LuaFile\<close>, \<open>LuaFileProps\<close>: files used in place. \<open>Boot\<close>, \<open>BootProps\<close>: start-up and update of the
    scripts (\<open>shell/src/shell.c\<close>).
  \<^item> \<open>Stdio\<close>, \<open>StdioProps\<close>: the streams of \<open>newlib/libc/src/stdio.c\<close> and \<open>findfp.c\<close> over descriptors.

  \<^bold>\<open>PC simulator\<close> (\<open>platform/win32/src\<close>).
  \<^item> \<open>SimTimer\<close>: the timers of \<open>thread_daemon.c\<close> and the message loop of \<open>platform_rtos.c\<close>. \<open>SimEvent\<close>:
    \<open>list.c\<close>, link by link in a store of pointers, and the events of \<open>event.c\<close> and packets of \<open>daemon.c\<close> over it.
    \<open>SimGpio\<close>: \<open>sim_gpio.c\<close> and \<open>sim_key.c\<close>, from the packet to the message that Lua gets.

  \<^bold>\<open>Termination.\<close> Every model of a loop that ends is a total function: a structural recursion or
  one with a measure, so no fuel is used. The loops whose end is not
  clear from their text are partial functions: the wait of \<open>vtmr_delay\<close>, the read loop of the UART module,
  the conversion loop of the iconv module, the list walk of the simulator. \<open>VTimer\<close> and \<open>UartMod\<close> prove
  when they return, \<open>LuaIconv\<close> that it always does, \<open>SimEvent\<close> when the walk leaves the list.

  \<^bold>\<open>What the theorems say of the code.\<close> Most state that it does what it means to. Where it does
  not, the statement says so exactly: the two-byte range of UTF-8 that is refused, the device that is
  lost by \<open>dm_unregister\<close>, the lead bytes for which the GB2312 decoder leaves its table, the element
  that a full buffer overwrites, the values that a bit array of whole bytes forgets, the character
  that white space in a \<open>sscanf\<close> format swallows, the last page of a monochrome frame buffer, the
  races of power-on and of the audio player, the UTF-8 text over 128 characters that the iconv module
  starts again from its beginning, the simulator's timer 0 and the unterminated list of its events.

  \<^bold>\<open>Not modelled.\<close> The Lua core, zlib, libpng, LZMA, 7z and dlmalloc are vendored and make up most of the
  C text. The kernel and the hardware are parameters. ADC, GPS, watchdog and the kernel file system
  are single kernel calls without state of their own. Of the PC simulator the windows, threads, serial
  ports and sockets belong to the host. \<open>modules/src/lzlib.c\<close> passes buffers to zlib. Outside \<open>DispMod\<close>
  the decoding of Lua arguments is left to the \<open>luaL_check*\<close> functions: the models take its results.
\<close>

end
